(* ===== verification/Iris_Prelude.thy ===== *)
theory Iris_Prelude
  imports
    Complex_Main
    "HOL-Library.AList"
    "HOL-Library.Char_ord"
    "HOL-Library.List_Lexorder"
    "HOL-Library.Product_Lexorder"
    "HOL-Library.Multiset"
begin

text \<open>
  Shared vocabulary of the Iris runtime models: instants and durations, Python dictionaries with
  their insertion order, decimal rendering of integers, and the lemmas on them that the component
  theories use. Nothing here models a file of the repository; it models the parts of Python and of
  its standard library that the modelled files use.

  \<^item> A timezone-aware \<^verbatim>\<open>datetime\<close> is the instant it denotes, in microseconds since
    the epoch (Python compares aware datetimes by instant, and stores microseconds).
  \<^item> A \<^verbatim>\<open>float\<close> number of seconds is the rational number it denotes; the code compares
    such values, takes minima and maxima, doubles them and turns them into a
    \<^verbatim>\<open>timedelta\<close>, which rounds to the nearest microsecond, ties to even. Infinities and
    NaN are not modelled.
  \<^item> A \<^verbatim>\<open>dict\<close> is an association list in insertion order. Assigning to a key that is
    present keeps its position, assigning to a new key appends, as Python does.
  \<^item> A \<^verbatim>\<open>str\<close> is a \<^typ>\<open>string\<close>; only equality, emptiness, concatenation and the
    lexicographic order are used.
\<close>

section \<open>Collections of facts\<close>

named_theorems delivery_simps \<open>unfolding rules of the delivery state transitions\<close>
named_theorems job_simps \<open>unfolding rules of the background job transitions\<close>
named_theorems sched_simps \<open>unfolding rules of the inference scheduler\<close>

section \<open>Instants and durations\<close>

type_synonym datetime = int
type_synonym seconds = rat

text \<open>Python's rounding of \<^verbatim>\<open>timedelta\<close> arguments: nearest integer, ties to even.\<close>

definition round_half_even :: "rat \<Rightarrow> int" where
  "round_half_even x =
     (let f = \<lfloor>x\<rfloor>; d = x - of_int f
      in if d < 1 / 2 then f else if 1 / 2 < d then f + 1 else if even f then f else f + 1)"

definition timedelta_seconds :: "seconds \<Rightarrow> int" where
  "timedelta_seconds s = round_half_even (s * 1000000)"

lemma round_half_even_of_int [simp]: "round_half_even (of_int n) = n"
  by (simp add: round_half_even_def)

lemma round_half_even_bounds:
  "\<lfloor>x\<rfloor> \<le> round_half_even x \<and> round_half_even x \<le> \<lfloor>x\<rfloor> + 1"
  by (simp add: round_half_even_def Let_def)

lemma round_half_even_nonneg: "0 \<le> x \<Longrightarrow> 0 \<le> round_half_even x"
  using round_half_even_bounds [of x] by (meson zero_le_floor order_trans)

lemma timedelta_seconds_nonneg [simp]: "0 \<le> s \<Longrightarrow> 0 \<le> timedelta_seconds s"
  by (simp add: timedelta_seconds_def round_half_even_nonneg)

text \<open>A duration of at least one microsecond is not rounded away.\<close>

lemma round_half_even_pos: "1 \<le> x \<Longrightarrow> 0 < round_half_even x"
proof -
  assume "1 \<le> x"
  then have "1 \<le> \<lfloor>x\<rfloor>" by simp
  with round_half_even_bounds [of x] show ?thesis by linarith
qed

lemma timedelta_seconds_pos [simp]: "1 / 1000000 \<le> s \<Longrightarrow> 0 < timedelta_seconds s"
  unfolding timedelta_seconds_def by (rule round_half_even_pos) simp

lemma round_half_even_mono:
  assumes "x \<le> y"
  shows "round_half_even x \<le> round_half_even y"
proof (cases "\<lfloor>x\<rfloor> = \<lfloor>y\<rfloor>")
  case True
  with assms show ?thesis by (auto simp: round_half_even_def Let_def)
next
  case False
  with assms have "\<lfloor>x\<rfloor> + 1 \<le> \<lfloor>y\<rfloor>"
    using floor_mono [OF assms] by linarith
  then show ?thesis
    using round_half_even_bounds [of x] round_half_even_bounds [of y] by linarith
qed

lemma timedelta_seconds_mono: "s \<le> t \<Longrightarrow> timedelta_seconds s \<le> timedelta_seconds t"
  by (simp add: timedelta_seconds_def round_half_even_mono)

section \<open>Dictionaries in insertion order\<close>

type_synonym ('k, 'v) dict = "('k \<times> 'v) list"

abbreviation dict_get :: "('k, 'v) dict \<Rightarrow> 'k \<Rightarrow> 'v option" where
  "dict_get \<equiv> map_of"

abbreviation dict_set :: "'k \<Rightarrow> 'v \<Rightarrow> ('k, 'v) dict \<Rightarrow> ('k, 'v) dict" where
  "dict_set \<equiv> AList.update"

abbreviation dict_pop :: "'k \<Rightarrow> ('k, 'v) dict \<Rightarrow> ('k, 'v) dict" where
  "dict_pop \<equiv> AList.delete"

definition dict_values :: "('k, 'v) dict \<Rightarrow> 'v list" where
  "dict_values d = map snd d"

definition dict_keys :: "('k, 'v) dict \<Rightarrow> 'k list" where
  "dict_keys d = map fst d"

definition dict_wf :: "('k, 'v) dict \<Rightarrow> bool" where
  "dict_wf d \<longleftrightarrow> distinct (dict_keys d)"

lemma dict_wf_Nil [simp]: "dict_wf []"
  by (simp add: dict_wf_def dict_keys_def)

lemma dict_wf_set [simp]: "dict_wf d \<Longrightarrow> dict_wf (dict_set k v d)"
  by (simp add: dict_wf_def dict_keys_def distinct_update)

lemma dict_wf_pop [simp]: "dict_wf d \<Longrightarrow> dict_wf (dict_pop k d)"
  by (simp add: dict_wf_def dict_keys_def distinct_delete)

lemma dict_get_set: "dict_get (dict_set k v d) k' = (if k' = k then Some v else dict_get d k')"
  by (simp add: update_conv')

lemma dict_get_pop: "dict_get (dict_pop k d) k' = (if k' = k then None else dict_get d k')"
  by (simp add: delete_conv')

lemma dict_set_new: "k \<notin> fst ` set d \<Longrightarrow> dict_set k v d = d @ [(k, v)]"
  by (induction d) auto

lemma dict_values_set_iff:
  "dict_wf d \<Longrightarrow> v \<in> set (dict_values d) \<longleftrightarrow> (\<exists>k. dict_get d k = Some v)"
  by (force simp: dict_values_def dict_wf_def dict_keys_def)

lemma dict_get_values: "dict_get d k = Some v \<Longrightarrow> v \<in> set (dict_values d)"
  by (force simp: dict_values_def dest: map_of_SomeD)

text \<open>
  Replacing one value changes a count over the values by what the new value contributes and the
  old one no longer does.
\<close>

definition dict_count :: "('v \<Rightarrow> bool) \<Rightarrow> ('k, 'v) dict \<Rightarrow> nat" where
  "dict_count P d = length (filter P (dict_values d))"

lemma dict_count_Nil [simp]: "dict_count P [] = 0"
  by (simp add: dict_count_def dict_values_def)

lemma dict_count_Cons:
  "dict_count P (kv # d) = (if P (snd kv) then 1 else 0) + dict_count P d"
  by (simp add: dict_count_def dict_values_def)

lemma dict_count_set_new:
  "dict_get d k = None \<Longrightarrow> dict_count P (dict_set k v d) = dict_count P d + (if P v then 1 else 0)"
  by (induction d) (auto simp: dict_count_Cons split: if_splits)

lemma dict_count_set_old:
  "dict_get d k = Some w \<Longrightarrow>
     dict_count P (dict_set k v d) + (if P w then 1 else 0)
       = dict_count P d + (if P v then 1 else 0)"
  by (induction d) (auto simp: dict_count_Cons split: if_splits)

lemma dict_count_pos: "dict_get d k = Some w \<Longrightarrow> P w \<Longrightarrow> 0 < dict_count P d"
  by (induction d) (auto simp: dict_count_Cons split: if_splits)

lemma dict_pop_absent: "dict_get d k = None \<Longrightarrow> dict_pop k d = d"
  by (simp add: map_of_eq_None_iff delete_idem)

lemma dict_pop_Cons: "dict_pop k (kv # d) = (if fst kv = k then dict_pop k d else kv # dict_pop k d)"
  by (auto simp: AList.delete_eq)

lemma dict_count_pop:
  "dict_wf d \<Longrightarrow> dict_get d k = Some w \<Longrightarrow>
     dict_count P (dict_pop k d) + (if P w then 1 else 0) = dict_count P d"
proof (induction d)
  case Nil
  then show ?case by simp
next
  case (Cons kv d)
  show ?case
  proof (cases "fst kv = k")
    case True
    with Cons.prems have "dict_get d k = None" "snd kv = w"
      by (auto simp: dict_wf_def dict_keys_def map_of_eq_None_iff)
    with True show ?thesis by (simp add: dict_count_Cons dict_pop_Cons dict_pop_absent)
  next
    case False
    with Cons show ?thesis
      by (auto simp: dict_wf_def dict_keys_def dict_count_Cons dict_pop_Cons split: if_splits)
  qed
qed

section \<open>Sorting by a key\<close>

lemma map_sort_key: "map f (sort_key (\<lambda>x. g (f x)) xs) = sort_key g (map f xs)"
proof -
  have "map f (insort_key (\<lambda>x. g (f x)) x ys) = insort_key g (f x) (map f ys)" for x ys
    by (induction ys) auto
  then show ?thesis by (induction xs) (auto simp: sort_key_def)
qed

lemma insort_key_cong_set:
  "f x = g x \<Longrightarrow> (\<And>y. y \<in> set ys \<Longrightarrow> f y = g y) \<Longrightarrow> insort_key f x ys = insort_key g x ys"
  by (induction ys) auto

lemma sort_key_cong_set: "(\<And>x. x \<in> set xs \<Longrightarrow> f x = g x) \<Longrightarrow> sort_key f xs = sort_key g xs"
  by (induction xs) (auto intro!: insort_key_cong_set)

section \<open>Decimal rendering\<close>

text \<open>\<^verbatim>\<open>str(n)\<close> and the interpolation of an integer in an f-string.\<close>

fun show_nat :: "nat \<Rightarrow> string" where
  "show_nat n = (if n < 10 then [char_of (48 + n)]
                 else show_nat (n div 10) @ [char_of (48 + n mod 10)])"

declare show_nat.simps [simp del]

definition show_int :: "int \<Rightarrow> string" where
  "show_int i = (if i < 0 then ''-'' @ show_nat (nat (- i)) else show_nat (nat i))"

definition read_digits :: "string \<Rightarrow> nat" where
  "read_digits s = foldl (\<lambda>acc c. 10 * acc + (of_char c - 48)) 0 s"

lemma char_of_digit [simp]:
  "char_of (48::nat) = CHR ''0''" "char_of (49::nat) = CHR ''1''" "char_of (50::nat) = CHR ''2''"
  "char_of (51::nat) = CHR ''3''" "char_of (52::nat) = CHR ''4''" "char_of (53::nat) = CHR ''5''"
  "char_of (54::nat) = CHR ''6''" "char_of (55::nat) = CHR ''7''" "char_of (56::nat) = CHR ''8''"
  "char_of (57::nat) = CHR ''9''"
  by (simp_all add: char_of_def bit_0)

lemma of_char_digit: "d < 10 \<Longrightarrow> (of_char (char_of (48 + d) :: char) :: nat) = 48 + d"
  by (simp add: of_char_of)

lemma read_digits_show_nat [simp]: "read_digits (show_nat n) = n"
proof (induction n rule: show_nat.induct)
  case (1 n)
  show ?case
  proof (cases "n < 10")
    case True
    then show ?thesis by (simp add: show_nat.simps [of n] read_digits_def of_char_digit)
  next
    case False
    have "foldl (\<lambda>acc c. 10 * acc + (of_char c - 48)) 0 (show_nat (n div 10)) = n div 10"
      using "1.IH" False by (simp add: read_digits_def)
    with False show ?thesis
      by (simp add: show_nat.simps [of n] read_digits_def of_char_digit)
  qed
qed

lemma show_nat_inj [simp]: "show_nat m = show_nat n \<longleftrightarrow> m = n"
  by (metis read_digits_show_nat)

lemma show_nat_ne_Nil [simp]: "show_nat n \<noteq> []"
  by (subst show_nat.simps) simp

lemma show_nat_digits: "c \<in> set (show_nat n) \<Longrightarrow> 48 \<le> (of_char c :: nat) \<and> (of_char c :: nat) < 58"
proof (induction n rule: show_nat.induct)
  case (1 n)
  then show ?case
    by (cases "n < 10") (auto simp: show_nat.simps [of n] of_char_digit)
qed

lemma show_nat_no_minus: "show_nat n \<noteq> CHR ''-'' # s"
  using show_nat_digits [of "CHR ''-''" n] by (cases "show_nat n") auto

lemma show_int_inj [simp]: "show_int i = show_int j \<longleftrightarrow> i = j"
  using show_nat_no_minus by (auto simp: show_int_def) (metis show_nat_no_minus)+

section \<open>Results and texts\<close>

text \<open>Sequencing of computations that may raise.\<close>

definition result_bind :: "'e + 'a \<Rightarrow> ('a \<Rightarrow> 'e + 'b) \<Rightarrow> 'e + 'b" where
  "result_bind x f = (case x of Inl e \<Rightarrow> Inl e | Inr a \<Rightarrow> f a)"

lemma result_bind_simps [simp]: "result_bind (Inl e) f = Inl e" "result_bind (Inr a) f = f a"
  by (simp_all add: result_bind_def)

lemma result_bind_ok: "result_bind x f = Inr b \<longleftrightarrow> (\<exists>a. x = Inr a \<and> f a = Inr b)"
  by (cases x) simp_all

text \<open>\<^verbatim>\<open>sep.join(parts)\<close>.\<close>

fun py_join :: "'a list \<Rightarrow> 'a list list \<Rightarrow> 'a list" where
  "py_join sep [] = []"
| "py_join sep [x] = x"
| "py_join sep (x # y # xs) = x @ sep @ py_join sep (y # xs)"

lemma length_py_join:
  "length (py_join sep xs) = sum_list (map length xs) + (length xs - 1) * length sep"
  by (induction sep xs rule: py_join.induct) simp_all

text \<open>A text of arbitrary characters is the list of its code points.\<close>

type_synonym code_points = "nat list"

definition codes :: "string \<Rightarrow> code_points" where
  "codes s = map of_char s"

lemma length_codes [simp]: "length (codes s) = length s"
  by (simp add: codes_def)

text \<open>White space as \<^verbatim>\<open>str.isspace\<close> has it, and \<^verbatim>\<open>str.strip\<close>.\<close>

definition py_whitespace :: "nat \<Rightarrow> bool" where
  "py_whitespace c \<longleftrightarrow> 9 \<le> c \<and> c \<le> 13 \<or> 28 \<le> c \<and> c \<le> 32 \<or> c = 133 \<or> c = 160 \<or> c = 5760 \<or>
     8192 \<le> c \<and> c \<le> 8202 \<or> c = 8232 \<or> c = 8233 \<or> c = 8239 \<or> c = 8287 \<or> c = 12288"

definition blank :: "code_points \<Rightarrow> bool" where
  "blank t \<longleftrightarrow> (\<forall>c\<in>set t. py_whitespace c)"

definition py_strip :: "code_points \<Rightarrow> code_points" where
  "py_strip t = rev (dropWhile py_whitespace (rev (dropWhile py_whitespace t)))"

text \<open>\<^verbatim>\<open>str.split()\<close>: the maximal parts without white space.\<close>

fun py_words :: "code_points \<Rightarrow> code_points \<Rightarrow> code_points list" where
  "py_words [] current = (if current = [] then [] else [current])"
| "py_words (c # t) current =
     (if py_whitespace c then (if current = [] then py_words t [] else current # py_words t [])
      else py_words t (current @ [c]))"

definition py_split :: "code_points \<Rightarrow> code_points list" where
  "py_split t = py_words t []"

end
