(* ===== verification/Delivery_Lifecycle.thy ===== *)
theory Delivery_Lifecycle
  imports Delivery_Contracts
begin

text \<open>
  The abstract specification of one delivery: the steps that the transitions of
  \<^verbatim>\<open>iris/contracts/delivery_transitions.py\<close> allow between the envelopes stored under one
  delivery id. The in-memory and the SQLite outbox refine it (every operation moves each stored
  delivery along these steps); what holds of the lifecycle therefore holds of both backends.
\<close>

section \<open>The lifecycle as a step relation\<close>

inductive delivery_step :: "delivery_envelope \<Rightarrow> delivery_envelope \<Rightarrow> bool" where
  step_lease:
    "is_delivery_due e now \<Longrightarrow> de_attempts e < de_max_attempts e
       \<Longrightarrow> delivery_step e (lease_delivery e l now secs nb)"
| step_exhaust:
    "is_delivery_due e now \<Longrightarrow> de_attempts e \<ge> de_max_attempts e
       \<Longrightarrow> delivery_step e (fail_exhausted_delivery e now msg)"
| step_complete:
    "complete_delivery e l result t = Inr e' \<Longrightarrow> delivery_step e e'"
| step_release:
    "release_delivery e l retry result t = Inr e' \<Longrightarrow> delivery_step e e'"

abbreviation delivery_steps :: "delivery_envelope \<Rightarrow> delivery_envelope \<Rightarrow> bool" where
  "delivery_steps \<equiv> delivery_step\<^sup>*\<^sup>*"

text \<open>
  A well-formed envelope: attempts within the limit, and a lease id and an expiry exactly while the
  status is \<^verbatim>\<open>LEASED\<close>. A new envelope is pending and unleased.
\<close>

definition wf_delivery :: "delivery_envelope \<Rightarrow> bool" where
  "wf_delivery e \<longleftrightarrow>
     0 \<le> de_attempts e \<and> de_attempts e \<le> de_max_attempts e \<and>
     (de_status e = DS_LEASED \<longleftrightarrow> de_lease_id e \<noteq> None) \<and>
     (de_status e = DS_LEASED \<longleftrightarrow> de_lease_expires_at e \<noteq> None)"

definition new_delivery :: "delivery_envelope \<Rightarrow> bool" where
  "new_delivery e \<longleftrightarrow>
     de_status e = DS_PENDING \<and> de_attempts e = 0 \<and> 0 \<le> de_max_attempts e \<and>
     de_lease_id e = None \<and> de_lease_expires_at e = None"

lemma new_delivery_wf: "new_delivery e \<Longrightarrow> wf_delivery e"
  by (simp add: new_delivery_def wf_delivery_def)

text \<open>The fields no transition writes.\<close>

definition same_delivery :: "delivery_envelope \<Rightarrow> delivery_envelope \<Rightarrow> bool" where
  "same_delivery e e' \<longleftrightarrow>
     de_delivery_id e' = de_delivery_id e \<and> de_action e' = de_action e \<and>
     de_target e' = de_target e \<and> de_created_at e' = de_created_at e \<and>
     de_max_attempts e' = de_max_attempts e \<and> de_idempotency_key e' = de_idempotency_key e \<and>
     de_blocked_reason e' = de_blocked_reason e \<and>
     de_source_observation_id e' = de_source_observation_id e"

lemma same_delivery_refl [simp]: "same_delivery e e"
  by (simp add: same_delivery_def)

lemma same_delivery_trans: "same_delivery a b \<Longrightarrow> same_delivery b c \<Longrightarrow> same_delivery a c"
  by (simp add: same_delivery_def)

section \<open>One step\<close>

lemma complete_delivery_ok:
  "complete_delivery e l r t = Inr e' \<Longrightarrow>
     de_status e = DS_LEASED \<and> de_lease_id e = l \<and>
     e' = e\<lparr>de_status := delivery_status_from_action_status (ar_status r),
            de_updated_at := t, de_lease_id := None, de_lease_expires_at := None,
            de_last_error_reason := ar_error_reason r\<rparr>"
  by (auto simp: complete_delivery_eq require_reportable_lease_ok split: sum.splits)

lemma release_delivery_ok:
  "release_delivery e l retry r t = Inr e' \<Longrightarrow>
     de_status e = DS_LEASED \<and> de_lease_id e = l \<and>
     (if de_attempts e \<ge> de_max_attempts e
      then e' = e\<lparr>de_status := DS_FAILED_PERMANENT, de_updated_at := t, de_lease_id := None,
                 de_lease_expires_at := None, de_last_error_reason := ar_error_reason r\<rparr>
      else e' = e\<lparr>de_status := DS_PENDING, de_updated_at := t, de_not_before := Some retry,
                 de_lease_id := None, de_lease_expires_at := None,
                 de_last_error_reason := ar_error_reason r\<rparr>)"
  by (auto simp: release_delivery_eq require_reportable_lease_ok split: sum.splits if_splits)

lemma delivery_step_same: "delivery_step e e' \<Longrightarrow> same_delivery e e'"
  by (induction rule: delivery_step.induct)
    (auto simp: same_delivery_def delivery_simps dest!: complete_delivery_ok release_delivery_ok
      split: if_splits)

lemma delivery_step_live: "delivery_step e e' \<Longrightarrow> de_status e \<notin> TERMINAL_DELIVERY_STATUSES"
  by (induction rule: delivery_step.induct)
    (auto simp: terminal_iff dest: complete_delivery_ok release_delivery_ok is_delivery_due_live)

lemma delivery_step_wf: "delivery_step e e' \<Longrightarrow> wf_delivery e \<Longrightarrow> wf_delivery e'"
  by (induction rule: delivery_step.induct)
    (auto simp: wf_delivery_def delivery_simps dest!: complete_delivery_ok release_delivery_ok
      split: if_splits)

lemma delivery_step_attempts:
  "delivery_step e e' \<Longrightarrow> de_attempts e \<le> de_attempts e' \<and> de_attempts e' \<le> de_attempts e + 1"
  by (induction rule: delivery_step.induct)
    (auto simp: delivery_simps dest!: complete_delivery_ok release_delivery_ok split: if_splits)

section \<open>Termination measure\<close>

text \<open>
  A lease costs one attempt, and giving a lease back costs the lease: the measure drops at every
  step, so a delivery is done after at most two steps per attempt and one final step.
\<close>

definition delivery_measure :: "delivery_envelope \<Rightarrow> nat" where
  "delivery_measure e =
     (if de_status e \<in> TERMINAL_DELIVERY_STATUSES then 0
      else 1 + 2 * nat (de_max_attempts e - de_attempts e)
             + (if de_status e = DS_LEASED then 1 else 0))"

lemma delivery_step_decreases:
  assumes "delivery_step e e'"
  shows "delivery_measure e' < delivery_measure e"
  using assms
proof (induction rule: delivery_step.induct)
  case (step_lease e now l secs nb)
  from step_lease(1) have "de_status e \<notin> TERMINAL_DELIVERY_STATUSES"
    by (auto simp: is_delivery_due_def)
  with step_lease(2) show ?case by (simp add: delivery_measure_def delivery_simps terminal_iff)
next
  case (step_exhaust e now msg)
  from step_exhaust(1) have "de_status e \<notin> TERMINAL_DELIVERY_STATUSES"
    by (auto simp: is_delivery_due_def)
  then show ?case by (simp add: delivery_measure_def delivery_simps terminal_iff)
next
  case (step_complete e l result t e')
  then show ?case
    by (auto simp: delivery_measure_def terminal_iff dest!: complete_delivery_ok)
next
  case (step_release e l retry result t e')
  then show ?case
    by (auto simp: delivery_measure_def terminal_iff dest!: release_delivery_ok split: if_splits)
qed

lemma delivery_relpow_decreases:
  "(delivery_step ^^ n) e e' \<Longrightarrow> n + delivery_measure e' \<le> delivery_measure e"
proof (induction n arbitrary: e')
  case 0
  then show ?case by simp
next
  case (Suc n)
  then obtain m where "(delivery_step ^^ n) e m" "delivery_step m e'" by auto
  with Suc.IH [of m] delivery_step_decreases [of m e'] show ?case by simp
qed

section \<open>Runs\<close>

lemma delivery_steps_same: "delivery_steps e e' \<Longrightarrow> same_delivery e e'"
  by (induction rule: rtranclp_induct)
    (auto intro: same_delivery_trans delivery_step_same)

lemma delivery_steps_wf: "delivery_steps e e' \<Longrightarrow> wf_delivery e \<Longrightarrow> wf_delivery e'"
  by (induction rule: rtranclp_induct) (auto intro: delivery_step_wf)

lemma delivery_steps_terminal:
  "delivery_steps e e' \<Longrightarrow> de_status e \<in> TERMINAL_DELIVERY_STATUSES \<Longrightarrow> e' = e"
  by (metis converse_rtranclpE delivery_step_live)

lemma delivery_steps_attempts: "delivery_steps e e' \<Longrightarrow> de_attempts e \<le> de_attempts e'"
  by (induction rule: rtranclp_induct) (auto dest: delivery_step_attempts)

text \<open>A delivery that is not terminal can always be moved on, at a late enough instant.\<close>

lemma live_delivery_due_later:
  assumes "wf_delivery e" and "de_status e \<notin> TERMINAL_DELIVERY_STATUSES"
  shows "\<exists>now. is_delivery_due e now"
proof -
  define t1 where "t1 = (case de_not_before e of Some t \<Rightarrow> t | None \<Rightarrow> 0)"
  define t2 where "t2 = (case de_lease_expires_at e of Some t \<Rightarrow> t | None \<Rightarrow> 0)"
  have "is_delivery_due e (max t1 t2)"
    using assms by (auto simp: is_delivery_due_def t1_def t2_def terminal_iff wf_delivery_def
        split: option.splits)
  then show ?thesis ..
qed

lemma live_delivery_can_step:
  assumes "wf_delivery e" and "de_status e \<notin> TERMINAL_DELIVERY_STATUSES"
  shows "\<exists>e'. delivery_step e e'"
proof -
  obtain now where due: "is_delivery_due e now"
    using live_delivery_due_later [OF assms] ..
  show ?thesis
  proof (cases "de_attempts e < de_max_attempts e")
    case True
    with due show ?thesis by (blast intro: step_lease)
  next
    case False
    with due show ?thesis by (blast intro: step_exhaust leI)
  qed
qed

section \<open>Properties\<close>

text \<open>
  C1. Every delivery's lifecycle ends. From a newly created envelope, no chain of leases, expiries,
  reports and releases is longer than two steps per allowed attempt plus one; at every point the
  attempts stay within the limit and the lease fields agree with the status; and the chain can only
  stop in a terminal status (a live delivery always has a next step).
\<close>

theorem delivery_lifecycle_terminates:
  assumes "new_delivery e" and "(delivery_step ^^ n) e e'"
  shows "n \<le> 2 * nat (de_max_attempts e) + 1 \<and> wf_delivery e' \<and>
    ((\<nexists>e''. delivery_step e' e'') \<longleftrightarrow> de_status e' \<in> TERMINAL_DELIVERY_STATUSES)"
proof (intro conjI)
  from assms(2) have steps: "delivery_steps e e'" by (rule relpowp_imp_rtranclp)
  have "delivery_measure e = 2 * nat (de_max_attempts e) + 1"
    using assms(1) by (simp add: delivery_measure_def new_delivery_def terminal_iff)
  with delivery_relpow_decreases [OF assms(2)]
  show "n \<le> 2 * nat (de_max_attempts e) + 1" by simp
  show wf: "wf_delivery e'"
    using steps assms(1) by (blast intro: delivery_steps_wf new_delivery_wf)
  show "(\<nexists>e''. delivery_step e' e'') \<longleftrightarrow> de_status e' \<in> TERMINAL_DELIVERY_STATUSES"
    using wf live_delivery_can_step delivery_step_live by blast
qed

definition example_target :: delivery_target where
  "example_target =
     \<lparr>dt_provider = ''discord'', dt_provider_subject = Some ''u1'', dt_provider_space_ref = None,
      dt_session_id = ''s1'', dt_actor_id = None, dt_account_id = None, dt_space_id = None,
      dt_surface = SF_PRIVATE_DIRECT_MESSAGE\<rparr>"

definition example_delivery :: delivery_envelope where
  "example_delivery =
     \<lparr>de_delivery_id = ''delivery:o1'',
      de_action = SendMessageAction ''action:o1'' ''s1'' ''c1'' ''hi'' default_presentation_hints,
      de_target = example_target, de_status = DS_PENDING, de_created_at = 0, de_updated_at = 0,
      de_not_before = None, de_attempts = 0, de_max_attempts = 1, de_idempotency_key = ''k1'',
      de_lease_id = None, de_lease_expires_at = None, de_blocked_reason = None,
      de_last_error_reason = None, de_source_observation_id = Some ''o1''\<rparr>"

lemma delivery_lifecycle_terminates_witness:
  "new_delivery example_delivery \<and>
   (1::nat) \<le> 2 * nat (de_max_attempts example_delivery) + 1 \<and>
   wf_delivery (lease_delivery example_delivery ''lease-1'' 5 30 None)"
proof -
  have new: "new_delivery example_delivery"
    by (simp add: new_delivery_def example_delivery_def)
  have "is_delivery_due example_delivery 5"
    by (simp add: is_delivery_due_def example_delivery_def TERMINAL_DELIVERY_STATUSES_def)
  then have "delivery_step example_delivery (lease_delivery example_delivery ''lease-1'' 5 30 None)"
    by (rule step_lease) (simp add: example_delivery_def)
  then have "(delivery_step ^^ 1) example_delivery
               (lease_delivery example_delivery ''lease-1'' 5 30 None)"
    by (auto simp: relcompp_apply)
  with new delivery_lifecycle_terminates show ?thesis by blast
qed

end
