(* ===== verification/Delivery_Port.thy ===== *)
theory Delivery_Port
  imports Delivery_Lifecycle
begin

text \<open>
  The \<^verbatim>\<open>DeliveryOutbox\<close> protocol of \<^verbatim>\<open>iris/runtime/delivery/outbox.py\<close>: the
  operations the broker calls, as a record, and the contract both backends keep, as a locale. The
  contract speaks of the envelope stored under a delivery id (\<open>lookup\<close>) and of the lifecycle steps
  between stored envelopes.
\<close>

record 'ob outbox_port =
  port_enqueue :: "'ob \<Rightarrow> delivery_envelope \<Rightarrow> (outbox_error + delivery_envelope) \<times> 'ob"
  port_lease_due :: "'ob \<Rightarrow> string \<Rightarrow> datetime \<Rightarrow> int \<Rightarrow> seconds
    \<Rightarrow> (outbox_error + delivery_envelope list) \<times> 'ob"
  port_get :: "'ob \<Rightarrow> string \<Rightarrow> outbox_error + delivery_envelope"
  port_complete :: "'ob \<Rightarrow> string \<Rightarrow> string option \<Rightarrow> action_result \<Rightarrow> datetime
    \<Rightarrow> (outbox_error + delivery_envelope) \<times> 'ob"
  port_release :: "'ob \<Rightarrow> string \<Rightarrow> string option \<Rightarrow> datetime \<Rightarrow> action_result \<Rightarrow> datetime
    \<Rightarrow> (outbox_error + delivery_envelope) \<times> 'ob"

definition lookup_evolves ::
  "('ob \<Rightarrow> string \<Rightarrow> delivery_envelope option) \<Rightarrow> 'ob \<Rightarrow> 'ob \<Rightarrow> bool" where
  "lookup_evolves lookup ob ob' \<longleftrightarrow>
     (\<forall>i e. lookup ob i = Some e \<longrightarrow> (\<exists>e'. lookup ob' i = Some e' \<and> delivery_steps e e'))"

lemma lookup_evolves_refl [simp]: "lookup_evolves lookup ob ob"
  by (auto simp: lookup_evolves_def)

lemma lookup_evolves_trans:
  "lookup_evolves lookup a b \<Longrightarrow> lookup_evolves lookup b c \<Longrightarrow> lookup_evolves lookup a c"
  unfolding lookup_evolves_def by (meson rtranclp_trans)

locale delivery_outbox =
  fixes port :: "'ob outbox_port"
    and inv :: "'ob \<Rightarrow> bool"
    and lookup :: "'ob \<Rightarrow> string \<Rightarrow> delivery_envelope option"
  assumes stored_wf: "inv ob \<Longrightarrow> lookup ob i = Some e \<Longrightarrow> wf_delivery e \<and> de_delivery_id e = i"
    and get_eq: "inv ob \<Longrightarrow> port_get port ob i =
      (case lookup ob i of Some e \<Rightarrow> Inr e | None \<Rightarrow> Inl (DeliveryOutboxError ''delivery_not_found''))"
    and lease_due_inv: "inv ob \<Longrightarrow> inv (snd (port_lease_due port ob p now m secs))"
    and lease_due_evolves:
      "inv ob \<Longrightarrow> lookup_evolves lookup ob (snd (port_lease_due port ob p now m secs))"
    and lease_due_stored:
      "inv ob \<Longrightarrow> port_lease_due port ob p now m secs = (Inr out, ob') \<Longrightarrow> e \<in> set out \<Longrightarrow>
         lookup ob' (de_delivery_id e) = Some e \<and> de_status e = DS_LEASED \<and>
         dt_provider (de_target e) = p"
    and lease_due_frame:
      "inv ob \<Longrightarrow> lookup ob i = Some e \<Longrightarrow> dt_provider (de_target e) \<noteq> p \<or> \<not> is_delivery_due e now \<Longrightarrow>
         lookup (snd (port_lease_due port ob p now m secs)) i = Some e"
    and complete_inv: "inv ob \<Longrightarrow> inv (snd (port_complete port ob i l r t))"
    and complete_evolves: "inv ob \<Longrightarrow> lookup_evolves lookup ob (snd (port_complete port ob i l r t))"
    and complete_error: "port_complete port ob i l r t = (Inl err, ob') \<Longrightarrow> ob' = ob"
    and complete_stored:
      "inv ob \<Longrightarrow> port_complete port ob i l r t = (Inr e, ob') \<Longrightarrow> lookup ob' i = Some e"
    and complete_repeat:
      "inv ob \<Longrightarrow> port_complete port ob i l r t = (Inr e, ob') \<Longrightarrow>
         port_complete port ob' i l r t2 = (Inr e, ob')"
    and complete_applies:
      "inv ob \<Longrightarrow> port_complete port ob i l r t = (Inr e, ob') \<Longrightarrow>
         (\<exists>old. lookup ob i = Some old \<and>
            (ob' = ob \<and> e = old \<or> complete_delivery old l r t = Inr e)) \<and>
         (\<forall>j. j \<noteq> i \<longrightarrow> lookup ob' j = lookup ob j)"
    and release_inv: "inv ob \<Longrightarrow> inv (snd (port_release port ob i l retry r t))"
    and release_evolves:
      "inv ob \<Longrightarrow> lookup_evolves lookup ob (snd (port_release port ob i l retry r t))"
    and release_error: "port_release port ob i l retry r t = (Inl err, ob') \<Longrightarrow> ob' = ob"
    and release_stored:
      "inv ob \<Longrightarrow> port_release port ob i l retry r t = (Inr e, ob') \<Longrightarrow> lookup ob' i = Some e"
    and release_repeat:
      "inv ob \<Longrightarrow> port_release port ob i l retry r t = (Inr e, ob') \<Longrightarrow>
         port_release port ob' i l retry2 r t2 = (Inr e, ob')"
    and release_applies:
      "inv ob \<Longrightarrow> port_release port ob i l retry r t = (Inr e, ob') \<Longrightarrow>
         (\<exists>old. lookup ob i = Some old \<and>
            (ob' = ob \<and> e = old \<or> release_delivery old l retry r t = Inr e)) \<and>
         (\<forall>j. j \<noteq> i \<longrightarrow> lookup ob' j = lookup ob j)"

end
