(* ===== verification/Delivery_Sqlite.thy ===== *)
theory Delivery_Sqlite
  imports Delivery_Port "HOL-Library.Sublist"
begin

text \<open>
  The durable outbox, \<^verbatim>\<open>SQLiteDeliveryOutbox\<close> of
  \<^verbatim>\<open>iris/adapters/persistence/sqlite/stores/delivery_outbox.py\<close>, with the columns of
  \<^verbatim>\<open>schema/delivery.py\<close> and the helpers of \<^verbatim>\<open>serialization.py\<close>. The two tables are
  association lists under their primary keys. A transaction that raises leaves the database as it
  was. Three things below SQLAlchemy are fixed by convention:

  \<^item> a timestamp column holds the ISO text of an instant; texts written for one UTC offset compare
    as their instants do, so the text is represented by its instant under a constructor of its own;
  \<^item> the JSON text of presentation hints is pydantic's: a codec is a parameter of the model, and what
    is relied on (decoding gives back what was encoded, and no encoding is empty) is a hypothesis;
  \<^item> the fingerprint key is the JSON text of an object with fixed fields; JSON rendering of such
    objects is injective, so the key is represented by the tuple of the field values.
\<close>

section \<open>Rows\<close>

datatype iso_text = Iso (iso_instant: datetime)

definition required_datetime_to_text :: "datetime \<Rightarrow> iso_text" where
  "required_datetime_to_text t = Iso t"

definition text_to_datetime :: "iso_text \<Rightarrow> datetime" where
  "text_to_datetime t = iso_instant t"

definition datetime_to_text :: "datetime option \<Rightarrow> iso_text option" where
  "datetime_to_text t = (case t of None \<Rightarrow> None | Some x \<Rightarrow> Some (required_datetime_to_text x))"

definition optional_datetime :: "iso_text option \<Rightarrow> datetime option" where
  "optional_datetime t = (case t of None \<Rightarrow> None | Some x \<Rightarrow> Some (text_to_datetime x))"

lemma iso_round_trip [simp]:
  "text_to_datetime (required_datetime_to_text t) = t"
  "optional_datetime (datetime_to_text t') = t'"
  by (simp_all add: text_to_datetime_def required_datetime_to_text_def datetime_to_text_def
      optional_datetime_def split: option.split)

record hints_codec =
  hc_dump :: "presentation_hints \<Rightarrow> string"
  hc_load :: "string \<Rightarrow> presentation_hints option"

definition codec_ok :: "hints_codec \<Rightarrow> bool" where
  "codec_ok c \<longleftrightarrow> (\<forall>h. hc_load c (hc_dump c h) = Some h \<and> hc_dump c h \<noteq> [])"

fun delivery_status_value :: "delivery_status \<Rightarrow> string" where
  "delivery_status_value DS_PENDING = ''pending''"
| "delivery_status_value DS_LEASED = ''leased''"
| "delivery_status_value DS_SUCCEEDED = ''succeeded''"
| "delivery_status_value DS_FAILED_PERMANENT = ''failed_permanent''"
| "delivery_status_value DS_CANCELLED = ''cancelled''"
| "delivery_status_value DS_BLOCKED = ''blocked''"

text \<open>\<^verbatim>\<open>DeliveryStatus(value)\<close>: the member with that value, or a \<^verbatim>\<open>ValueError\<close>.\<close>

definition delivery_status_of_value :: "string \<Rightarrow> delivery_status option" where
  "delivery_status_of_value s =
     find (\<lambda>x. delivery_status_value x = s)
       [DS_PENDING, DS_LEASED, DS_SUCCEEDED, DS_FAILED_PERMANENT, DS_CANCELLED, DS_BLOCKED]"

lemma delivery_status_of_value_value [simp]:
  "delivery_status_of_value (delivery_status_value s) = Some s"
  by (cases s) (simp_all add: delivery_status_of_value_def)

record delivery_row =
  row_delivery_id :: string
  row_idempotency_key :: string
  row_status :: string
  row_created_at :: iso_text
  row_updated_at :: iso_text
  row_not_before :: "iso_text option"
  row_attempts :: int
  row_max_attempts :: int
  row_lease_id :: "string option"
  row_lease_expires_at :: "iso_text option"
  row_blocked_reason :: "string option"
  row_last_error_reason :: "string option"
  row_source_observation_id :: "string option"
  row_target_provider :: string
  row_target_provider_subject :: "string option"
  row_target_provider_space_ref :: "string option"
  row_target_session_id :: string
  row_target_actor_id :: "string option"
  row_target_account_id :: "string option"
  row_target_space_id :: "string option"
  row_action_type :: string
  row_action_id :: string
  row_action_session_id :: string
  row_action_correlation_id :: string
  row_action_text :: string
  row_action_presentation_hints_json :: "string option"

definition envelope_to_model :: "hints_codec \<Rightarrow> delivery_envelope \<Rightarrow> outbox_error + delivery_row" where
  "envelope_to_model c e =
     (case de_action e of
        SendMessageAction a_id a_session a_corr txt hints \<Rightarrow>
          Inr \<lparr>row_delivery_id = de_delivery_id e, row_idempotency_key = de_idempotency_key e,
               row_status = delivery_status_value (de_status e),
               row_created_at = required_datetime_to_text (de_created_at e),
               row_updated_at = required_datetime_to_text (de_updated_at e),
               row_not_before = datetime_to_text (de_not_before e),
               row_attempts = de_attempts e, row_max_attempts = de_max_attempts e,
               row_lease_id = de_lease_id e,
               row_lease_expires_at = datetime_to_text (de_lease_expires_at e),
               row_blocked_reason = de_blocked_reason e,
               row_last_error_reason = de_last_error_reason e,
               row_source_observation_id = de_source_observation_id e,
               row_target_provider = dt_provider (de_target e),
               row_target_provider_subject = dt_provider_subject (de_target e),
               row_target_provider_space_ref = dt_provider_space_ref (de_target e),
               row_target_session_id = dt_session_id (de_target e),
               row_target_actor_id = dt_actor_id (de_target e),
               row_target_account_id = dt_account_id (de_target e),
               row_target_space_id = dt_space_id (de_target e),
               row_action_type = ''send_message'', row_action_id = a_id,
               row_action_session_id = a_session, row_action_correlation_id = a_corr,
               row_action_text = txt,
               row_action_presentation_hints_json = Some (hc_dump c hints)\<rparr>
      | _ \<Rightarrow> Inl (DeliveryOutboxError ''unsupported_delivery_action''))"

text \<open>
  A row that does not parse (an unknown status, or JSON that is not hints) raises; the model has no
  row for the \<^verbatim>\<open>surface\<close> of the target, which takes the default of \<^verbatim>\<open>DeliveryTarget\<close>.
\<close>

definition model_to_envelope :: "hints_codec \<Rightarrow> delivery_row \<Rightarrow> outbox_error + delivery_envelope" where
  "model_to_envelope c row =
     (case (case row_action_presentation_hints_json row of
              None \<Rightarrow> Some default_presentation_hints
            | Some s \<Rightarrow> if s = [] then Some default_presentation_hints else hc_load c s) of
        None \<Rightarrow> Inl (OutboxValueError ''presentation_hints'')
      | Some hints \<Rightarrow>
        (case delivery_status_of_value (row_status row) of
           None \<Rightarrow> Inl (OutboxValueError (row_status row))
         | Some status \<Rightarrow>
             Inr \<lparr>de_delivery_id = row_delivery_id row,
                  de_action = SendMessageAction (row_action_id row) (row_action_session_id row)
                    (row_action_correlation_id row) (row_action_text row) hints,
                  de_target =
                    \<lparr>dt_provider = row_target_provider row,
                     dt_provider_subject = row_target_provider_subject row,
                     dt_provider_space_ref = row_target_provider_space_ref row,
                     dt_session_id = row_target_session_id row,
                     dt_actor_id = row_target_actor_id row,
                     dt_account_id = row_target_account_id row,
                     dt_space_id = row_target_space_id row, dt_surface = SF_UNKNOWN\<rparr>,
                  de_status = status, de_created_at = text_to_datetime (row_created_at row),
                  de_updated_at = text_to_datetime (row_updated_at row),
                  de_not_before = optional_datetime (row_not_before row),
                  de_attempts = row_attempts row, de_max_attempts = row_max_attempts row,
                  de_idempotency_key = row_idempotency_key row, de_lease_id = row_lease_id row,
                  de_lease_expires_at = optional_datetime (row_lease_expires_at row),
                  de_blocked_reason = row_blocked_reason row,
                  de_last_error_reason = row_last_error_reason row,
                  de_source_observation_id = row_source_observation_id row\<rparr>))"

definition update_model :: "delivery_row \<Rightarrow> delivery_envelope \<Rightarrow> delivery_row" where
  "update_model row e =
     row\<lparr>row_status := delivery_status_value (de_status e),
         row_updated_at := required_datetime_to_text (de_updated_at e),
         row_not_before := datetime_to_text (de_not_before e),
         row_attempts := de_attempts e, row_max_attempts := de_max_attempts e,
         row_lease_id := de_lease_id e,
         row_lease_expires_at := datetime_to_text (de_lease_expires_at e),
         row_blocked_reason := de_blocked_reason e,
         row_last_error_reason := de_last_error_reason e\<rparr>"

section \<open>Tables and operations\<close>

type_synonym fingerprint_key =
  "string \<times> string option \<times> string \<times> string \<times> string \<times> string option \<times> string option"

record fingerprint_row =
  fp_delivery_id :: string
  fp_lease_id :: "string option"
  fp_action_id :: string
  fp_correlation_id :: string
  fp_status :: string
  fp_external_message_id :: "string option"
  fp_error_reason :: "string option"

record sqlite_outbox =
  sq_max_depth_per_provider :: "int option"
  sq_rows :: "(string, delivery_row) dict"
  sq_fingerprints :: "(fingerprint_key, fingerprint_row) dict"

definition sqlite_outbox_init :: "int option \<Rightarrow> sqlite_outbox" where
  "sqlite_outbox_init d = \<lparr>sq_max_depth_per_provider = d, sq_rows = [], sq_fingerprints = []\<rparr>"

definition sqlite_result_fingerprint :: "string \<Rightarrow> string option \<Rightarrow> action_result \<Rightarrow> fingerprint_row" where
  "sqlite_result_fingerprint delivery_id lease_id result =
     \<lparr>fp_delivery_id = delivery_id, fp_lease_id = lease_id, fp_action_id = ar_action_id result,
      fp_correlation_id = ar_correlation_id result,
      fp_status = action_status_value (ar_status result),
      fp_external_message_id = ar_external_message_id result,
      fp_error_reason = ar_error_reason result\<rparr>"

text \<open>\<^verbatim>\<open>str(x) if x else None\<close>: an empty text becomes \<^verbatim>\<open>None\<close>.\<close>

definition truthy :: "string option \<Rightarrow> string option" where
  "truthy x = (case x of None \<Rightarrow> None | Some s \<Rightarrow> if s = [] then None else Some s)"

definition build_fingerprint_key :: "fingerprint_row \<Rightarrow> fingerprint_key" where
  "build_fingerprint_key f =
     (fp_delivery_id f, truthy (fp_lease_id f), fp_action_id f, fp_correlation_id f, fp_status f,
      truthy (fp_external_message_id f), fp_error_reason f)"

datatype sqlite_report_outcome = SQ_IDEMPOTENT | SQ_CONFLICT | SQ_NEW

definition sqlite_classify_report :: "sqlite_outbox \<Rightarrow> fingerprint_row \<Rightarrow> sqlite_report_outcome" where
  "sqlite_classify_report db current =
     (case dict_get (sq_fingerprints db) (build_fingerprint_key current) of
        Some _ \<Rightarrow> SQ_IDEMPOTENT
      | None \<Rightarrow>
          if \<exists>f\<in>set (dict_values (sq_fingerprints db)).
               fp_delivery_id f = fp_delivery_id current \<and> fp_lease_id f = fp_lease_id current
          then SQ_CONFLICT else SQ_NEW)"

definition insert_fingerprint :: "sqlite_outbox \<Rightarrow> fingerprint_row \<Rightarrow> sqlite_outbox" where
  "insert_fingerprint db f =
     db\<lparr>sq_fingerprints := dict_set (build_fingerprint_key f) f (sq_fingerprints db)\<rparr>"

definition sqlite_depth_exceeded :: "sqlite_outbox \<Rightarrow> string \<Rightarrow> bool" where
  "sqlite_depth_exceeded db provider =
     (case sq_max_depth_per_provider db of
        None \<Rightarrow> False
      | Some limit \<Rightarrow>
          int (length (filter (\<lambda>row. row_target_provider row = provider \<and>
                 row_status row \<notin> delivery_status_value ` TERMINAL_DELIVERY_STATUSES)
                 (dict_values (sq_rows db)))) \<ge> limit)"

definition sqlite_enqueue ::
  "hints_codec \<Rightarrow> sqlite_outbox \<Rightarrow> delivery_envelope
     \<Rightarrow> (outbox_error + delivery_envelope) \<times> sqlite_outbox" where
  "sqlite_enqueue c db envelope =
     (case de_action envelope of
        NoAction _ _ _ _ \<Rightarrow> (Inl (DeliveryOutboxError ''no_action_not_deliverable''), db)
      | _ \<Rightarrow>
        if de_idempotency_key envelope = []
        then (Inl (DeliveryOutboxError ''idempotency_key_required''), db)
        else case find (\<lambda>row. row_idempotency_key row = de_idempotency_key envelope)
                    (dict_values (sq_rows db)) of
          Some existing \<Rightarrow> (model_to_envelope c existing, db)
        | None \<Rightarrow>
            if sqlite_depth_exceeded db (dt_provider (de_target envelope))
            then (Inl (DeliveryOutboxError ''outbox_depth_exceeded''), db)
            else case envelope_to_model c envelope of
              Inl err \<Rightarrow> (Inl err, db)
            | Inr row \<Rightarrow>
                if dict_get (sq_rows db) (row_delivery_id row) \<noteq> None
                then (Inl OutboxIntegrityError, db)
                else (Inr envelope,
                      db\<lparr>sq_rows := dict_set (row_delivery_id row) row (sq_rows db)\<rparr>))"

definition sqlite_lease_item :: "delivery_envelope \<Rightarrow> datetime \<Rightarrow> seconds \<Rightarrow> delivery_envelope" where
  "sqlite_lease_item item now lease_seconds =
     (if de_attempts item \<ge> de_max_attempts item
      then fail_exhausted_delivery item now
             (case truthy (de_last_error_reason item) of
                Some reason \<Rightarrow> reason
              | None \<Rightarrow> ''max_attempts_exceeded'')
      else let attempt = de_attempts item + 1
           in lease_delivery item (de_delivery_id item @ '':lease:'' @ show_int attempt)
                now lease_seconds None)"

fun sqlite_lease_loop ::
  "hints_codec \<Rightarrow> datetime \<Rightarrow> int \<Rightarrow> seconds \<Rightarrow> delivery_envelope list \<Rightarrow> delivery_row list
     \<Rightarrow> (string, delivery_row) dict
     \<Rightarrow> outbox_error + delivery_envelope list \<times> (string, delivery_row) dict" where
  "sqlite_lease_loop c now max_items secs due [] rows = Inr (due, rows)"
| "sqlite_lease_loop c now max_items secs due (row # rest) rows =
     (if int (length due) \<ge> max_items then Inr (due, rows)
      else case model_to_envelope c row of
        Inl err \<Rightarrow> Inl err
      | Inr item \<Rightarrow>
          if \<not> is_delivery_due item now
          then sqlite_lease_loop c now max_items secs due rest rows
          else
            (let leased = sqlite_lease_item item now secs
             in sqlite_lease_loop c now max_items secs
                  (if de_status leased = DS_LEASED then due @ [leased] else due) rest
                  (dict_set (row_delivery_id row) (update_model row leased) rows)))"

definition select_due_rows :: "sqlite_outbox \<Rightarrow> string \<Rightarrow> delivery_row list" where
  "select_due_rows db provider =
     sort_key (\<lambda>row. (iso_instant (row_created_at row), row_delivery_id row))
       (filter (\<lambda>row. row_target_provider row = provider \<and>
                 row_status row \<in> {delivery_status_value DS_PENDING, delivery_status_value DS_LEASED})
         (dict_values (sq_rows db)))"

definition sqlite_lease_due ::
  "hints_codec \<Rightarrow> sqlite_outbox \<Rightarrow> string \<Rightarrow> datetime \<Rightarrow> int \<Rightarrow> seconds
     \<Rightarrow> (outbox_error + delivery_envelope list) \<times> sqlite_outbox" where
  "sqlite_lease_due c db provider now max_items lease_seconds =
     (case sqlite_lease_loop c now max_items lease_seconds [] (select_due_rows db provider) (sq_rows db) of
        Inl err \<Rightarrow> (Inl err, db)
      | Inr (due, rows) \<Rightarrow> (Inr due, db\<lparr>sq_rows := rows\<rparr>))"

definition sqlite_get :: "hints_codec \<Rightarrow> sqlite_outbox \<Rightarrow> string \<Rightarrow> outbox_error + delivery_envelope" where
  "sqlite_get c db delivery_id =
     (case dict_get (sq_rows db) delivery_id of
        None \<Rightarrow> Inl (DeliveryOutboxError ''delivery_not_found'')
      | Some row \<Rightarrow> model_to_envelope c row)"

record prepared_report =
  pr_model :: delivery_row
  pr_envelope :: delivery_envelope
  pr_fingerprint :: fingerprint_row
  pr_idempotent :: bool

definition prepare_report ::
  "hints_codec \<Rightarrow> sqlite_outbox \<Rightarrow> string \<Rightarrow> string option \<Rightarrow> action_result
     \<Rightarrow> outbox_error + prepared_report" where
  "prepare_report c db delivery_id lease_id result =
     (case dict_get (sq_rows db) delivery_id of
        None \<Rightarrow> Inl (DeliveryOutboxError ''delivery_not_found'')
      | Some row \<Rightarrow>
          let fingerprint = sqlite_result_fingerprint delivery_id lease_id result;
              outcome = sqlite_classify_report db fingerprint
          in if outcome = SQ_CONFLICT
             then Inl (DeliveryOutboxError ''delivery_report_conflict'')
             else case model_to_envelope c row of
               Inl err \<Rightarrow> Inl err
             | Inr envelope \<Rightarrow>
                 Inr \<lparr>pr_model = row, pr_envelope = envelope, pr_fingerprint = fingerprint,
                      pr_idempotent = (outcome = SQ_IDEMPOTENT)\<rparr>)"

definition sqlite_apply_report ::
  "(delivery_envelope \<Rightarrow> outbox_error + delivery_envelope) \<Rightarrow> hints_codec \<Rightarrow> sqlite_outbox \<Rightarrow> string
     \<Rightarrow> string option \<Rightarrow> action_result \<Rightarrow> (outbox_error + delivery_envelope) \<times> sqlite_outbox" where
  "sqlite_apply_report transition c db delivery_id lease_id result =
     (case prepare_report c db delivery_id lease_id result of
        Inl err \<Rightarrow> (Inl err, db)
      | Inr prepared \<Rightarrow>
          if pr_idempotent prepared then (Inr (pr_envelope prepared), db)
          else case transition (pr_envelope prepared) of
            Inl err \<Rightarrow> (Inl err, db)
          | Inr e' \<Rightarrow>
              (Inr e', insert_fingerprint
                 (db\<lparr>sq_rows := dict_set delivery_id (update_model (pr_model prepared) e') (sq_rows db)\<rparr>)
                 (pr_fingerprint prepared)))"

definition sqlite_complete ::
  "hints_codec \<Rightarrow> sqlite_outbox \<Rightarrow> string \<Rightarrow> string option \<Rightarrow> action_result \<Rightarrow> datetime
     \<Rightarrow> (outbox_error + delivery_envelope) \<times> sqlite_outbox" where
  "sqlite_complete c db delivery_id lease_id result completed_at =
     sqlite_apply_report (\<lambda>e. complete_delivery e lease_id result completed_at)
       c db delivery_id lease_id result"

definition sqlite_release ::
  "hints_codec \<Rightarrow> sqlite_outbox \<Rightarrow> string \<Rightarrow> string option \<Rightarrow> datetime \<Rightarrow> action_result \<Rightarrow> datetime
     \<Rightarrow> (outbox_error + delivery_envelope) \<times> sqlite_outbox" where
  "sqlite_release c db delivery_id lease_id retry_after result released_at =
     sqlite_apply_report (\<lambda>e. release_delivery e lease_id retry_after result released_at)
       c db delivery_id lease_id result"

text \<open>
  \<^verbatim>\<open>_map_operational_error\<close>: an \<^verbatim>\<open>OperationalError\<close> of the driver, whatever the
  operation, becomes an outbox error; the transaction is rolled back. \<open>lower\<close> is ASCII lower case.
\<close>

definition lower_char :: "char \<Rightarrow> char" where
  "lower_char ch = (if 65 \<le> (of_char ch :: nat) \<and> (of_char ch :: nat) \<le> 90
                    then char_of (of_char ch + 32 :: nat) else ch)"

definition operational_error_reason :: "string \<Rightarrow> outbox_error" where
  "operational_error_reason msg =
     DeliveryOutboxError
       (if sublist ''database is locked'' (map lower_char msg) \<or> sublist ''busy'' (map lower_char msg)
        then ''delivery_backend_unavailable'' else ''delivery_backend_error'')"

definition with_operational_error ::
  "string option \<Rightarrow> 'db \<Rightarrow> (outbox_error + 'a) \<times> 'db \<Rightarrow> (outbox_error + 'a) \<times> 'db" where
  "with_operational_error fault db outcome =
     (case fault of None \<Rightarrow> outcome | Some msg \<Rightarrow> (Inl (operational_error_reason msg), db))"

end
