(* ===== verification/Delivery_Sqlite_Rows.thy ===== *)
theory Delivery_Sqlite_Rows
  imports Delivery_Sqlite
begin

text \<open>
  Rows of the durable outbox: what survives a write and a read back, the envelope stored under a
  delivery id, and the database invariant with its preservation by single row updates.
\<close>

section \<open>Reading back what was written\<close>

text \<open>What a stored envelope keeps: everything but the surface of its target.\<close>

definition durable_copy :: "delivery_envelope \<Rightarrow> delivery_envelope" where
  "durable_copy e = e\<lparr>de_target := (de_target e)\<lparr>dt_surface := SF_UNKNOWN\<rparr>\<rparr>"

lemma durable_copy_simps [simp]:
  "de_delivery_id (durable_copy e) = de_delivery_id e" "de_status (durable_copy e) = de_status e"
  "de_attempts (durable_copy e) = de_attempts e" "de_lease_id (durable_copy e) = de_lease_id e"
  "de_max_attempts (durable_copy e) = de_max_attempts e"
  "de_idempotency_key (durable_copy e) = de_idempotency_key e"
  "dt_provider (de_target (durable_copy e)) = dt_provider (de_target e)"
  "wf_delivery (durable_copy e) = wf_delivery e" "new_delivery (durable_copy e) = new_delivery e"
  by (simp_all add: durable_copy_def wf_delivery_def new_delivery_def)

lemma envelope_to_model_Inr:
  "envelope_to_model c e = Inr row \<Longrightarrow>
     row_delivery_id row = de_delivery_id e \<and> row_idempotency_key row = de_idempotency_key e \<and>
     row_target_provider row = dt_provider (de_target e) \<and>
     row_status row = delivery_status_value (de_status e)"
  by (auto simp: envelope_to_model_def split: app_action.splits)

lemma model_to_envelope_to_model:
  assumes "codec_ok c" and "envelope_to_model c e = Inr row"
  shows "model_to_envelope c row = Inr (durable_copy e)"
proof (cases "de_action e")
  case (SendMessageAction a_id a_session a_corr body hints)
  have "hc_load c (hc_dump c hints) = Some hints" "hc_dump c hints \<noteq> []"
    using assms(1) by (simp_all add: codec_ok_def)
  with assms(2) SendMessageAction show ?thesis
    by (auto simp: envelope_to_model_def model_to_envelope_def durable_copy_def)
qed (use assms(2) in \<open>simp_all add: envelope_to_model_def\<close>)

lemma model_to_envelope_fields:
  "model_to_envelope c row = Inr e \<Longrightarrow>
     de_delivery_id e = row_delivery_id row \<and> de_idempotency_key e = row_idempotency_key row \<and>
     dt_provider (de_target e) = row_target_provider row \<and>
     delivery_status_value (de_status e) = row_status row \<and>
     de_created_at e = iso_instant (row_created_at row)"
  by (auto simp: model_to_envelope_def text_to_datetime_def delivery_status_of_value_def
      split: option.splits if_splits)

text \<open>Writing a lifecycle successor of the envelope a row holds makes the row hold the successor.\<close>

lemma model_to_envelope_update:
  assumes "model_to_envelope c row = Inr e" and "same_delivery e e'"
  shows "model_to_envelope c (update_model row e') = Inr e'"
  using assms
  by (auto simp: model_to_envelope_def update_model_def same_delivery_def split: option.splits if_splits)

lemma update_model_keys [simp]:
  "row_delivery_id (update_model row e) = row_delivery_id row"
  "row_idempotency_key (update_model row e) = row_idempotency_key row"
  "row_target_provider (update_model row e) = row_target_provider row"
  by (simp_all add: update_model_def)

section \<open>The stored envelope and the invariant\<close>

definition rows_lookup ::
  "hints_codec \<Rightarrow> (string, delivery_row) dict \<Rightarrow> string \<Rightarrow> delivery_envelope option" where
  "rows_lookup c rows i =
     (case dict_get rows i of
        None \<Rightarrow> None
      | Some row \<Rightarrow> (case model_to_envelope c row of Inl _ \<Rightarrow> None | Inr e \<Rightarrow> Some e))"

abbreviation sqlite_lookup :: "hints_codec \<Rightarrow> sqlite_outbox \<Rightarrow> string \<Rightarrow> delivery_envelope option" where
  "sqlite_lookup c db \<equiv> rows_lookup c (sq_rows db)"

text \<open>The lease id of attempt \<open>n\<close>, \<^verbatim>\<open>f"{delivery_id}:lease:{attempt}"\<close>.\<close>

definition sqlite_lease_name :: "string \<Rightarrow> int \<Rightarrow> string" where
  "sqlite_lease_name i n = i @ '':lease:'' @ show_int n"

text \<open>
  A stored envelope is well formed, and the lease it holds is the one of its current attempt. A
  report on a lease belongs to an attempt already made, and not to the lease still held.
\<close>

definition stored_ok :: "string \<Rightarrow> delivery_envelope \<Rightarrow> bool" where
  "stored_ok i e \<longleftrightarrow>
     de_delivery_id e = i \<and> wf_delivery e \<and>
     (\<forall>l. de_lease_id e = Some l \<longrightarrow> l = sqlite_lease_name i (de_attempts e) \<and> 0 < de_attempts e)"

definition rows_ok :: "hints_codec \<Rightarrow> (string, delivery_row) dict \<Rightarrow> bool" where
  "rows_ok c rows \<longleftrightarrow>
     dict_wf rows \<and>
     (\<forall>i row. dict_get rows i = Some row \<longrightarrow>
        (\<exists>e. model_to_envelope c row = Inr e \<and> stored_ok i e))"

definition reported_attempt :: "fingerprint_row \<Rightarrow> delivery_envelope \<Rightarrow> bool" where
  "reported_attempt f e \<longleftrightarrow>
     (\<exists>k. 0 < k \<and> k \<le> de_attempts e \<and> (de_status e = DS_LEASED \<longrightarrow> k < de_attempts e) \<and>
        fp_lease_id f = Some (sqlite_lease_name (fp_delivery_id f) k))"

definition fingerprints_ok :: "hints_codec \<Rightarrow> sqlite_outbox \<Rightarrow> bool" where
  "fingerprints_ok c db \<longleftrightarrow>
     (\<forall>key f. dict_get (sq_fingerprints db) key = Some f \<longrightarrow>
        key = build_fingerprint_key f \<and>
        (\<exists>e. sqlite_lookup c db (fp_delivery_id f) = Some e \<and> reported_attempt f e))"

definition idempotency_unique :: "(string, delivery_row) dict \<Rightarrow> bool" where
  "idempotency_unique rows \<longleftrightarrow>
     (\<forall>i j row row'. dict_get rows i = Some row \<and> dict_get rows j = Some row' \<and>
        row_idempotency_key row = row_idempotency_key row' \<longrightarrow> i = j)"

definition sqlite_inv :: "hints_codec \<Rightarrow> sqlite_outbox \<Rightarrow> bool" where
  "sqlite_inv c db \<longleftrightarrow>
     codec_ok c \<and> rows_ok c (sq_rows db) \<and> idempotency_unique (sq_rows db) \<and>
     dict_wf (sq_fingerprints db) \<and> fingerprints_ok c db"

lemma sqlite_inv_init: "codec_ok c \<Longrightarrow> sqlite_inv c (sqlite_outbox_init d)"
  by (simp add: sqlite_inv_def rows_ok_def idempotency_unique_def fingerprints_ok_def
      sqlite_outbox_init_def)

lemma rows_ok_get:
  assumes "rows_ok c rows" and "dict_get rows i = Some row"
  obtains e where "model_to_envelope c row = Inr e" "stored_ok i e" "rows_lookup c rows i = Some e"
    "row_delivery_id row = i" "de_delivery_id e = i"
proof -
  from assms obtain e where e: "model_to_envelope c row = Inr e" "stored_ok i e"
    unfolding rows_ok_def by blast
  moreover have "rows_lookup c rows i = Some e" using assms e by (simp add: rows_lookup_def)
  ultimately show thesis
    using that model_to_envelope_fields [OF e(1)] by (simp add: stored_ok_def)
qed

lemma rows_lookup_row:
  assumes "rows_lookup c rows i = Some e"
  obtains row where "dict_get rows i = Some row" "model_to_envelope c row = Inr e"
  using assms by (auto simp: rows_lookup_def split: option.splits sum.splits)

lemma rows_ok_lookup: "rows_ok c rows \<Longrightarrow> rows_lookup c rows i = Some e \<Longrightarrow> stored_ok i e"
  by (metis rows_lookup_row rows_ok_def sum.inject(2))

text \<open>A report fingerprint names its lease through the attempt, so the attempt is determined.\<close>

lemma sqlite_lease_name_inj [simp]:
  "sqlite_lease_name i m = sqlite_lease_name i n \<longleftrightarrow> m = n"
  by (simp add: sqlite_lease_name_def)

section \<open>Writing one row\<close>

lemma rows_lookup_set:
  assumes "model_to_envelope c row = Inr e" and "same_delivery e e'"
  shows "rows_lookup c (dict_set i (update_model row e') rows) j =
    (if j = i then Some e' else rows_lookup c rows j)"
  using model_to_envelope_update [OF assms] by (simp add: rows_lookup_def dict_get_set)

lemma rows_ok_set:
  assumes "rows_ok c rows" and "model_to_envelope c row = Inr e" and "same_delivery e e'"
    and "stored_ok i e'"
  shows "rows_ok c (dict_set i (update_model row e') rows)"
  using assms model_to_envelope_update [OF assms(2,3)] by (auto simp: rows_ok_def dict_get_set)

lemma idempotency_unique_set:
  assumes "idempotency_unique rows" and "dict_get rows i = Some row"
  shows "idempotency_unique (dict_set i (update_model row e') rows)"
  using assms unfolding idempotency_unique_def by (auto simp: dict_get_set split: if_splits)

text \<open>The successor states a stored envelope may take.\<close>

definition stored_step :: "delivery_envelope \<Rightarrow> delivery_envelope \<Rightarrow> bool" where
  "stored_step e e' \<longleftrightarrow>
     delivery_steps e e' \<and>
     (\<forall>i. stored_ok i e \<longrightarrow> stored_ok i e') \<and>
     (\<forall>f. reported_attempt f e \<longrightarrow> reported_attempt f e')"

lemma stored_step_refl [simp]: "stored_step e e"
  by (simp add: stored_step_def)

lemma stored_step_lease_item:
  assumes "is_delivery_due e now"
  shows "stored_step e (sqlite_lease_item e now secs)"
proof (cases "de_attempts e \<ge> de_max_attempts e")
  case True
  then obtain msg where eq: "sqlite_lease_item e now secs = fail_exhausted_delivery e now msg"
    by (simp add: sqlite_lease_item_def)
  have "delivery_step e (fail_exhausted_delivery e now msg)"
    using assms True by (rule step_exhaust)
  with True show ?thesis
    unfolding eq stored_step_def
    by (auto simp: delivery_simps stored_ok_def reported_attempt_def wf_delivery_def)
next
  case False
  then have eq: "sqlite_lease_item e now secs =
      lease_delivery e (sqlite_lease_name (de_delivery_id e) (de_attempts e + 1)) now secs None"
    by (simp add: sqlite_lease_item_def sqlite_lease_name_def)
  have "delivery_step e (sqlite_lease_item e now secs)"
    unfolding eq using assms False by (intro step_lease) auto
  with False show ?thesis
    unfolding eq stored_step_def
    by (auto simp: delivery_simps stored_ok_def reported_attempt_def wf_delivery_def)
qed

lemma stored_step_report:
  assumes "complete_delivery e l r t = Inr e' \<or> release_delivery e l retry r t = Inr e'"
  shows "stored_step e e'"
proof -
  have "delivery_step e e'" using assms by (auto intro: step_complete step_release)
  moreover from assms have "de_attempts e' = de_attempts e \<and> de_delivery_id e' = de_delivery_id e \<and>
      de_lease_id e' = None \<and> de_status e' \<noteq> DS_LEASED \<and> de_status e = DS_LEASED"
    by (auto dest!: complete_delivery_ok release_delivery_ok split: if_splits)
  ultimately show ?thesis
    using delivery_step_wf [of e e']
    by (auto simp: stored_step_def stored_ok_def reported_attempt_def)
qed

end
