(* ===== verification/Delivery_Outbox.thy ===== *)
theory Delivery_Outbox
  imports Delivery_Lifecycle
begin

text \<open>
  The process-local outbox, \<^verbatim>\<open>InMemoryDeliveryOutbox\<close> of
  \<^verbatim>\<open>iris/runtime/delivery/in_memory.py\<close>. The record holds the attributes of the object; every
  method takes the object's state and returns its outcome (an error or a value) and the state after
  it, so that what a raised exception leaves behind is explicit. The methods are coroutines without
  an inner \<^verbatim>\<open>await\<close>, hence atomic in the event loop.
\<close>

section \<open>State and operations\<close>

type_synonym report_fingerprint =
  "string \<times> string option \<times> string \<times> string \<times> string \<times> string option \<times> string option"

datatype report_outcome = RO_IDEMPOTENT | RO_CONFLICT | RO_NEW

record in_memory_outbox =
  ob_max_depth_per_provider :: "int option"
  ob_items :: "(string, delivery_envelope) dict"
  ob_idempotency_index :: "(string, string) dict"
  ob_report_index :: "(string, report_fingerprint set) dict"
  ob_lease_counter :: nat

definition in_memory_outbox_init :: "int option \<Rightarrow> in_memory_outbox" where
  "in_memory_outbox_init max_depth =
     \<lparr>ob_max_depth_per_provider = max_depth, ob_items = [], ob_idempotency_index = [],
      ob_report_index = [], ob_lease_counter = 0\<rparr>"

definition envelope_sort_key :: "delivery_envelope \<Rightarrow> datetime \<times> string" where
  "envelope_sort_key item = (de_created_at item, de_delivery_id item)"

definition result_fingerprint :: "string \<Rightarrow> string option \<Rightarrow> action_result \<Rightarrow> report_fingerprint" where
  "result_fingerprint delivery_id lease_id result =
     (delivery_id, lease_id, ar_action_id result, ar_correlation_id result,
      action_status_value (ar_status result), ar_external_message_id result,
      ar_error_reason result)"

definition fingerprint_lease :: "report_fingerprint \<Rightarrow> string option" where
  "fingerprint_lease f = fst (snd f)"

definition classify_report :: "report_fingerprint set \<Rightarrow> report_fingerprint \<Rightarrow> report_outcome" where
  "classify_report history current =
     (if current \<in> history then RO_IDEMPOTENT
      else if \<exists>f\<in>history. fingerprint_lease f = fingerprint_lease current then RO_CONFLICT
      else RO_NEW)"

definition depth_exceeded :: "in_memory_outbox \<Rightarrow> string \<Rightarrow> bool" where
  "depth_exceeded ob provider =
     (case ob_max_depth_per_provider ob of
        None \<Rightarrow> False
      | Some limit \<Rightarrow>
          int (length (filter (\<lambda>item. dt_provider (de_target item) = provider
                                   \<and> de_status item \<notin> TERMINAL_DELIVERY_STATUSES)
                        (dict_values (ob_items ob)))) \<ge> limit)"

definition enqueue ::
  "in_memory_outbox \<Rightarrow> delivery_envelope \<Rightarrow> (outbox_error + delivery_envelope) \<times> in_memory_outbox"
  where
  "enqueue ob envelope =
     (case de_action envelope of
        NoAction _ _ _ _ \<Rightarrow> (Inl (DeliveryOutboxError ''no_action_not_deliverable''), ob)
      | _ \<Rightarrow>
        if de_idempotency_key envelope = []
        then (Inl (DeliveryOutboxError ''idempotency_key_required''), ob)
        else case dict_get (ob_idempotency_index ob) (de_idempotency_key envelope) of
          Some existing_id \<Rightarrow>
            (case dict_get (ob_items ob) existing_id of
               Some item \<Rightarrow> (Inr item, ob)
             | None \<Rightarrow> (Inl (OutboxKeyError existing_id), ob))
        | None \<Rightarrow>
            if depth_exceeded ob (dt_provider (de_target envelope))
            then (Inl (DeliveryOutboxError ''outbox_depth_exceeded''), ob)
            else (Inr envelope,
                  ob\<lparr>ob_items := dict_set (de_delivery_id envelope) envelope (ob_items ob),
                     ob_idempotency_index :=
                       dict_set (de_idempotency_key envelope) (de_delivery_id envelope)
                         (ob_idempotency_index ob)\<rparr>))"

text \<open>The generated lease id, \<^verbatim>\<open>f"lease-{counter}"\<close>.\<close>

definition lease_name :: "nat \<Rightarrow> string" where
  "lease_name n = ''lease-'' @ show_nat n"

definition lease_item ::
  "in_memory_outbox \<Rightarrow> delivery_envelope \<Rightarrow> datetime \<Rightarrow> seconds
     \<Rightarrow> delivery_envelope \<times> in_memory_outbox" where
  "lease_item ob item now lease_seconds =
     (if de_attempts item \<ge> de_max_attempts item
      then let failed = fail_exhausted_delivery item now ''max_attempts_exceeded''
           in (failed, ob\<lparr>ob_items := dict_set (de_delivery_id item) failed (ob_items ob)\<rparr>)
      else let n = ob_lease_counter ob + 1
           in (lease_delivery item (lease_name n) now lease_seconds (de_not_before item),
               ob\<lparr>ob_lease_counter := n\<rparr>))"

text \<open>The loop of \<^verbatim>\<open>lease_due\<close> over the sorted snapshot, with its \<^verbatim>\<open>break\<close> and \<^verbatim>\<open>continue\<close>.\<close>

fun lease_loop ::
  "string \<Rightarrow> datetime \<Rightarrow> int \<Rightarrow> seconds \<Rightarrow> delivery_envelope list \<Rightarrow> delivery_envelope list
     \<Rightarrow> in_memory_outbox \<Rightarrow> delivery_envelope list \<times> in_memory_outbox" where
  "lease_loop provider now max_items secs due [] ob = (due, ob)"
| "lease_loop provider now max_items secs due (item # rest) ob =
     (if int (length due) \<ge> max_items then (due, ob)
      else if dt_provider (de_target item) \<noteq> provider \<or> \<not> is_delivery_due item now
      then lease_loop provider now max_items secs due rest ob
      else
        (let (leased, ob1) = lease_item ob item now secs;
             ob2 = ob1\<lparr>ob_items := dict_set (de_delivery_id leased) leased (ob_items ob1)\<rparr>
         in lease_loop provider now max_items secs
              (if de_status leased = DS_LEASED then due @ [leased] else due) rest ob2))"

definition lease_due ::
  "in_memory_outbox \<Rightarrow> string \<Rightarrow> datetime \<Rightarrow> int \<Rightarrow> seconds
     \<Rightarrow> (outbox_error + delivery_envelope list) \<times> in_memory_outbox" where
  "lease_due ob provider now max_items lease_seconds =
     (let (due, ob') = lease_loop provider now max_items lease_seconds []
                         (sort_key envelope_sort_key (dict_values (ob_items ob))) ob
      in (Inr due, ob'))"

definition get_delivery :: "in_memory_outbox \<Rightarrow> string \<Rightarrow> outbox_error + delivery_envelope" where
  "get_delivery ob delivery_id =
     (case dict_get (ob_items ob) delivery_id of
        Some item \<Rightarrow> Inr item
      | None \<Rightarrow> Inl (DeliveryOutboxError ''delivery_not_found''))"

definition report_history :: "in_memory_outbox \<Rightarrow> string \<Rightarrow> report_fingerprint set" where
  "report_history ob delivery_id =
     (case dict_get (ob_report_index ob) delivery_id of Some h \<Rightarrow> h | None \<Rightarrow> {})"

text \<open>
  \<^verbatim>\<open>complete\<close> and \<^verbatim>\<open>release\<close> differ only in the transition they apply to a new report.
\<close>

definition apply_report ::
  "(delivery_envelope \<Rightarrow> outbox_error + delivery_envelope) \<Rightarrow> in_memory_outbox \<Rightarrow> string
     \<Rightarrow> string option \<Rightarrow> action_result \<Rightarrow> (outbox_error + delivery_envelope) \<times> in_memory_outbox"
  where
  "apply_report transition ob delivery_id lease_id result =
     (case get_delivery ob delivery_id of
        Inl e \<Rightarrow> (Inl e, ob)
      | Inr item \<Rightarrow>
          let current = result_fingerprint delivery_id lease_id result;
              history = report_history ob delivery_id
          in case classify_report history current of
               RO_IDEMPOTENT \<Rightarrow> (Inr item, ob)
             | RO_CONFLICT \<Rightarrow> (Inl (DeliveryOutboxError ''delivery_report_conflict''), ob)
             | RO_NEW \<Rightarrow>
                 (case transition item of
                    Inl e \<Rightarrow> (Inl e, ob)
                  | Inr item' \<Rightarrow>
                      (Inr item',
                       ob\<lparr>ob_items := dict_set delivery_id item' (ob_items ob),
                          ob_report_index :=
                            dict_set delivery_id (history \<union> {current}) (ob_report_index ob)\<rparr>)))"

definition complete ::
  "in_memory_outbox \<Rightarrow> string \<Rightarrow> string option \<Rightarrow> action_result \<Rightarrow> datetime
     \<Rightarrow> (outbox_error + delivery_envelope) \<times> in_memory_outbox" where
  "complete ob delivery_id lease_id result completed_at =
     apply_report (\<lambda>item. complete_delivery item lease_id result completed_at)
       ob delivery_id lease_id result"

definition release ::
  "in_memory_outbox \<Rightarrow> string \<Rightarrow> string option \<Rightarrow> datetime \<Rightarrow> action_result \<Rightarrow> datetime
     \<Rightarrow> (outbox_error + delivery_envelope) \<times> in_memory_outbox" where
  "release ob delivery_id lease_id retry_after result released_at =
     apply_report (\<lambda>item. release_delivery item lease_id retry_after result released_at)
       ob delivery_id lease_id result"

section \<open>Invariant\<close>

text \<open>
  The keys agree: items are stored under their delivery id, and the idempotency index is a
  bijection between the stored deliveries and their keys. The leases agree: every lease id in use or
  reported was issued by the counter, no two deliveries hold the same lease, and the lease a
  delivery holds has not been reported on.
\<close>

abbreviation item_at :: "in_memory_outbox \<Rightarrow> string \<Rightarrow> delivery_envelope option" where
  "item_at ob i \<equiv> dict_get (ob_items ob) i"

definition issued_lease :: "nat \<Rightarrow> string \<Rightarrow> bool" where
  "issued_lease n l \<longleftrightarrow> (\<exists>k. 0 < k \<and> k \<le> n \<and> l = lease_name k)"

definition outbox_keys_ok :: "in_memory_outbox \<Rightarrow> bool" where
  "outbox_keys_ok ob \<longleftrightarrow>
     dict_wf (ob_items ob) \<and>
     (\<forall>i e. item_at ob i = Some e \<longrightarrow> de_delivery_id e = i \<and> wf_delivery e) \<and>
     (\<forall>k i. dict_get (ob_idempotency_index ob) k = Some i \<longleftrightarrow>
            (\<exists>e. item_at ob i = Some e \<and> de_idempotency_key e = k))"

definition outbox_leases_ok :: "in_memory_outbox \<Rightarrow> bool" where
  "outbox_leases_ok ob \<longleftrightarrow>
     (\<forall>i e l. item_at ob i = Some e \<and> de_lease_id e = Some l \<longrightarrow>
        issued_lease (ob_lease_counter ob) l) \<and>
     (\<forall>i f. f \<in> report_history ob i \<longrightarrow>
        fst f = i \<and> (\<exists>l. fingerprint_lease f = Some l \<and> issued_lease (ob_lease_counter ob) l)) \<and>
     (\<forall>i e f. item_at ob i = Some e \<and> f \<in> report_history ob i \<longrightarrow>
        fingerprint_lease f \<noteq> de_lease_id e) \<and>
     (\<forall>i j e e' l. item_at ob i = Some e \<and> item_at ob j = Some e' \<and>
        de_lease_id e = Some l \<and> de_lease_id e' = Some l \<longrightarrow> i = j)"

definition outbox_inv :: "in_memory_outbox \<Rightarrow> bool" where
  "outbox_inv ob \<longleftrightarrow> outbox_keys_ok ob \<and> outbox_leases_ok ob"

definition provider_depth :: "in_memory_outbox \<Rightarrow> string \<Rightarrow> nat" where
  "provider_depth ob provider =
     dict_count (\<lambda>item. dt_provider (de_target item) = provider
                      \<and> de_status item \<notin> TERMINAL_DELIVERY_STATUSES) (ob_items ob)"

lemma depth_exceeded_iff:
  "depth_exceeded ob p \<longleftrightarrow>
     (\<exists>limit. ob_max_depth_per_provider ob = Some limit \<and> limit \<le> int (provider_depth ob p))"
  by (simp add: depth_exceeded_def provider_depth_def dict_count_def split: option.split)

lemma outbox_inv_init: "outbox_inv (in_memory_outbox_init d)"
  by (simp add: outbox_inv_def outbox_keys_ok_def outbox_leases_ok_def in_memory_outbox_init_def
      report_history_def)

lemma leases_okI:
  assumes "\<And>i e l. item_at ob i = Some e \<Longrightarrow> de_lease_id e = Some l \<Longrightarrow>
             issued_lease (ob_lease_counter ob) l"
    and "\<And>i f. f \<in> report_history ob i \<Longrightarrow>
           fst f = i \<and> (\<exists>l. fingerprint_lease f = Some l \<and> issued_lease (ob_lease_counter ob) l)"
    and "\<And>i e f. item_at ob i = Some e \<Longrightarrow> f \<in> report_history ob i \<Longrightarrow>
           fingerprint_lease f \<noteq> de_lease_id e"
    and "\<And>i j e e' l. item_at ob i = Some e \<Longrightarrow> item_at ob j = Some e' \<Longrightarrow>
           de_lease_id e = Some l \<Longrightarrow> de_lease_id e' = Some l \<Longrightarrow> i = j"
  shows "outbox_leases_ok ob"
  using assms unfolding outbox_leases_ok_def by blast

lemma leases_issued:
  "outbox_leases_ok ob \<Longrightarrow> item_at ob i = Some e \<Longrightarrow> de_lease_id e = Some l \<Longrightarrow>
     issued_lease (ob_lease_counter ob) l"
  unfolding outbox_leases_ok_def by blast

lemma leases_reported:
  "outbox_leases_ok ob \<Longrightarrow> f \<in> report_history ob i \<Longrightarrow>
     fst f = i \<and> (\<exists>l. fingerprint_lease f = Some l \<and> issued_lease (ob_lease_counter ob) l)"
  unfolding outbox_leases_ok_def by blast

lemma leases_unreported:
  "outbox_leases_ok ob \<Longrightarrow> item_at ob i = Some e \<Longrightarrow> f \<in> report_history ob i \<Longrightarrow>
     fingerprint_lease f \<noteq> de_lease_id e"
  unfolding outbox_leases_ok_def by blast

lemma leases_unique:
  "outbox_leases_ok ob \<Longrightarrow> item_at ob i = Some e \<Longrightarrow> item_at ob j = Some e' \<Longrightarrow>
     de_lease_id e = Some l \<Longrightarrow> de_lease_id e' = Some l \<Longrightarrow> i = j"
  unfolding outbox_leases_ok_def by blast

section \<open>Leasing one item\<close>

text \<open>The body of the loop for an item that is due: lease or fail it, and store the result.\<close>

definition leased_copy ::
  "in_memory_outbox \<Rightarrow> delivery_envelope \<Rightarrow> datetime \<Rightarrow> seconds \<Rightarrow> delivery_envelope" where
  "leased_copy ob item now secs = fst (lease_item ob item now secs)"

definition lease_one ::
  "in_memory_outbox \<Rightarrow> delivery_envelope \<Rightarrow> datetime \<Rightarrow> seconds \<Rightarrow> in_memory_outbox" where
  "lease_one ob item now secs =
     ob\<lparr>ob_items := dict_set (de_delivery_id item) (leased_copy ob item now secs) (ob_items ob),
        ob_lease_counter :=
          (if de_attempts item \<ge> de_max_attempts item then ob_lease_counter ob
           else ob_lease_counter ob + 1)\<rparr>"

lemma leased_copy_eq:
  "leased_copy ob item now secs =
     (if de_attempts item \<ge> de_max_attempts item
      then fail_exhausted_delivery item now ''max_attempts_exceeded''
      else lease_delivery item (lease_name (ob_lease_counter ob + 1)) now secs
             (de_not_before item))"
  by (simp add: leased_copy_def lease_item_def Let_def)

lemma leased_copy_simps [simp]:
  "de_delivery_id (leased_copy ob item now secs) = de_delivery_id item"
  "de_target (leased_copy ob item now secs) = de_target item"
  "de_created_at (leased_copy ob item now secs) = de_created_at item"
  "de_status (leased_copy ob item now secs) = DS_LEASED \<longleftrightarrow> de_attempts item < de_max_attempts item"
  by (auto simp: leased_copy_eq delivery_simps)

lemma lease_loop_Cons:
  "lease_loop p now m secs due (item # rest) ob =
     (if int (length due) \<ge> m then (due, ob)
      else if dt_provider (de_target item) \<noteq> p \<or> \<not> is_delivery_due item now
      then lease_loop p now m secs due rest ob
      else lease_loop p now m secs
             (if de_attempts item < de_max_attempts item
              then due @ [leased_copy ob item now secs] else due) rest (lease_one ob item now secs))"
proof -
  have "(let (leased, ob1) = lease_item ob item now secs
         in (leased, ob1\<lparr>ob_items := dict_set (de_delivery_id leased) leased (ob_items ob1)\<rparr>))
        = (leased_copy ob item now secs, lease_one ob item now secs)"
    by (simp add: lease_item_def lease_one_def leased_copy_eq Let_def delivery_simps)
  then show ?thesis
    by (auto simp: split_beta Let_def)
qed

declare lease_loop.simps(2) [simp del]
declare lease_loop_Cons [simp]

lemma item_at_lease_one:
  "item_at (lease_one ob item now secs) i =
     (if i = de_delivery_id item then Some (leased_copy ob item now secs) else item_at ob i)"
  by (simp add: lease_one_def dict_get_set)

lemma lease_one_frame [simp]:
  "ob_idempotency_index (lease_one ob item now secs) = ob_idempotency_index ob"
  "ob_report_index (lease_one ob item now secs) = ob_report_index ob"
  "ob_max_depth_per_provider (lease_one ob item now secs) = ob_max_depth_per_provider ob"
  "report_history (lease_one ob item now secs) i = report_history ob i"
  by (simp_all add: lease_one_def report_history_def)

lemma leased_copy_step:
  "is_delivery_due item now \<Longrightarrow> delivery_step item (leased_copy ob item now secs)"
  by (auto simp: leased_copy_eq intro: step_lease step_exhaust)

text \<open>
  An item of the snapshot is what the outbox still stores under its id, because the loop only
  writes the ids it has already passed.
\<close>

definition snapshot_of :: "in_memory_outbox \<Rightarrow> delivery_envelope list \<Rightarrow> bool" where
  "snapshot_of ob items \<longleftrightarrow>
     distinct (map de_delivery_id items) \<and>
     (\<forall>item\<in>set items. item_at ob (de_delivery_id item) = Some item)"

lemma snapshot_of_Cons:
  "snapshot_of ob (item # rest) \<Longrightarrow>
     item_at ob (de_delivery_id item) = Some item \<and> snapshot_of ob rest \<and>
     snapshot_of (lease_one ob item now secs) rest"
proof -
  assume snap: "snapshot_of ob (item # rest)"
  then have "distinct (map de_delivery_id (item # rest))"
    unfolding snapshot_of_def by blast
  then have "de_delivery_id item \<notin> de_delivery_id ` set rest" by simp
  then have "de_delivery_id i \<noteq> de_delivery_id item" if "i \<in> set rest" for i
    using that by (metis imageI)
  with snap show ?thesis
    unfolding snapshot_of_def item_at_lease_one by simp
qed

lemma keys_ok_values:
  "outbox_keys_ok ob \<Longrightarrow>
     item \<in> set (dict_values (ob_items ob)) \<longleftrightarrow> item_at ob (de_delivery_id item) = Some item"
  by (auto simp: outbox_keys_ok_def dict_values_set_iff)

lemma keys_ok_map_values: "outbox_keys_ok ob \<Longrightarrow>
  map de_delivery_id (dict_values (ob_items ob)) = dict_keys (ob_items ob)"
proof -
  assume ok: "outbox_keys_ok ob"
  have "de_delivery_id (snd kv) = fst kv" if "kv \<in> set (ob_items ob)" for kv
  proof -
    from ok that have "item_at ob (fst kv) = Some (snd kv)"
      by (cases kv) (simp add: outbox_keys_ok_def dict_wf_def dict_keys_def)
    with ok show ?thesis unfolding outbox_keys_ok_def by blast
  qed
  then show ?thesis by (simp add: dict_values_def dict_keys_def)
qed

lemma snapshot_of_sorted:
  assumes "outbox_keys_ok ob"
  shows "snapshot_of ob (sort_key f (dict_values (ob_items ob)))"
proof -
  have "distinct (map de_delivery_id (dict_values (ob_items ob)))"
    using assms by (simp add: keys_ok_map_values outbox_keys_ok_def dict_wf_def)
  then have "distinct (map de_delivery_id (sort_key f (dict_values (ob_items ob))))"
    by (simp add: distinct_map)
  with assms show ?thesis by (auto simp: snapshot_of_def keys_ok_values)
qed

text \<open>Whatever one lease keeps, the whole loop keeps.\<close>

lemma lease_loop_preserves:
  assumes "snapshot_of ob rest" and "P ob"
    and step: "\<And>ob item. P ob \<Longrightarrow> item_at ob (de_delivery_id item) = Some item \<Longrightarrow>
                 dt_provider (de_target item) = p \<Longrightarrow> is_delivery_due item now \<Longrightarrow>
                 P (lease_one ob item now secs)"
  shows "P (snd (lease_loop p now m secs due rest ob))"
  using assms(1,2)
proof (induction rest arbitrary: due ob)
  case Nil
  then show ?case by simp
next
  case (Cons item rest)
  note snap = snapshot_of_Cons [OF Cons.prems(1), of now secs]
  then show ?case
    using Cons.IH Cons.prems(2) step [OF Cons.prems(2)] by auto
qed

section \<open>The operations keep the invariant\<close>

lemma lease_name_inj [simp]: "lease_name m = lease_name n \<longleftrightarrow> m = n"
  by (simp add: lease_name_def)

lemma issued_lease_mono: "issued_lease n l \<Longrightarrow> n \<le> m \<Longrightarrow> issued_lease m l"
  by (auto simp: issued_lease_def)

lemma issued_lease_next [simp]: "issued_lease (Suc n) (lease_name (Suc n))"
  unfolding issued_lease_def by (rule exI [of _ "Suc n"]) simp

lemma next_lease_not_issued: "\<not> issued_lease n (lease_name (n + 1))"
  by (simp add: issued_lease_def)

text \<open>Storing the next lifecycle state of a stored delivery keeps the keys in agreement.\<close>

lemma keys_ok_update:
  assumes "outbox_keys_ok ob" and "item_at ob i = Some e" and "delivery_step e e'"
    and "ob_items ob' = dict_set i e' (ob_items ob)"
    and "ob_idempotency_index ob' = ob_idempotency_index ob"
  shows "outbox_keys_ok ob'"
proof -
  have "same_delivery e e'" and "wf_delivery e'"
    using assms by (auto intro: delivery_step_same delivery_step_wf simp: outbox_keys_ok_def)
  then show ?thesis
    using assms unfolding outbox_keys_ok_def same_delivery_def
    by (auto simp: dict_get_set)
qed

lemma keys_ok_lease_one:
  "outbox_keys_ok ob \<Longrightarrow> item_at ob (de_delivery_id item) = Some item \<Longrightarrow> is_delivery_due item now
     \<Longrightarrow> outbox_keys_ok (lease_one ob item now secs)"
  by (rule keys_ok_update [OF _ _ leased_copy_step]) (auto simp: lease_one_def)

lemma leases_ok_lease_one:
  assumes ok: "outbox_leases_ok ob" and cur: "item_at ob (de_delivery_id item) = Some item"
  shows "outbox_leases_ok (lease_one ob item now secs)"
proof -
  let ?ob = "lease_one ob item now secs" and ?n = "ob_lease_counter ob"
  have mono: "?n \<le> ob_lease_counter ?ob" by (simp add: lease_one_def)
  have new: "de_lease_id (leased_copy ob item now secs) =
      (if de_attempts item \<ge> de_max_attempts item then None else Some (lease_name (?n + 1)))"
    by (simp add: leased_copy_eq delivery_simps)
  have fresh: "de_lease_id e \<noteq> Some (lease_name (?n + 1))" if "item_at ob i = Some e" for i e
    using leases_issued [OF ok that] next_lease_not_issued [of ?n] by auto
  have fresh_f: "fingerprint_lease f \<noteq> Some (lease_name (?n + 1)) \<and> fingerprint_lease f \<noteq> None"
    if "f \<in> report_history ob i" for i f
    using leases_reported [OF ok that] next_lease_not_issued [of ?n] by auto
  show ?thesis
  proof (rule leases_okI)
    fix i e l
    assume at: "item_at ?ob i = Some e" and l: "de_lease_id e = Some l"
    show "issued_lease (ob_lease_counter ?ob) l"
    proof (cases "i = de_delivery_id item")
      case True
      with at l new show ?thesis
        by (auto simp: item_at_lease_one split: if_splits) (auto simp: lease_one_def)
    next
      case False
      with at have "item_at ob i = Some e" by (simp add: item_at_lease_one)
      from leases_issued [OF ok this l] mono show ?thesis by (rule issued_lease_mono)
    qed
  next
    fix i f
    assume "f \<in> report_history ?ob i"
    then have "f \<in> report_history ob i" by simp
    from leases_reported [OF ok this] mono
    show "fst f = i \<and> (\<exists>l. fingerprint_lease f = Some l \<and> issued_lease (ob_lease_counter ?ob) l)"
      by (blast intro: issued_lease_mono)
  next
    fix i e f
    assume at: "item_at ?ob i = Some e" and f: "f \<in> report_history ?ob i"
    then have f': "f \<in> report_history ob i" by simp
    show "fingerprint_lease f \<noteq> de_lease_id e"
      using at new fresh_f [OF f'] leases_unreported [OF ok _ f']
      by (cases "i = de_delivery_id item") (auto simp: item_at_lease_one split: if_splits)
  next
    fix i j e e' l
    assume *: "item_at ?ob i = Some e" "item_at ?ob j = Some e'"
      "de_lease_id e = Some l" "de_lease_id e' = Some l"
    show "i = j"
    proof (rule ccontr)
      assume "i \<noteq> j"
      with * have "i \<noteq> de_delivery_id item \<and> j \<noteq> de_delivery_id item"
        using new fresh by (auto simp: item_at_lease_one split: if_splits)
      with * have "item_at ob i = Some e" "item_at ob j = Some e'"
        by (simp_all add: item_at_lease_one)
      from leases_unique [OF ok this *(3,4)] \<open>i \<noteq> j\<close> show False by simp
    qed
  qed
qed

lemma outbox_inv_lease_one:
  "outbox_inv ob \<Longrightarrow> item_at ob (de_delivery_id item) = Some item \<Longrightarrow> is_delivery_due item now
     \<Longrightarrow> outbox_inv (lease_one ob item now secs)"
  by (simp add: outbox_inv_def keys_ok_lease_one leases_ok_lease_one)

lemma lease_due_eq:
  "lease_due ob p now m secs =
     map_prod Inr id (lease_loop p now m secs [] (sort_key envelope_sort_key (dict_values (ob_items ob))) ob)"
  by (simp add: lease_due_def split_beta map_prod_def)

lemma lease_due_preserves:
  assumes "outbox_keys_ok ob" and "P ob"
    and "\<And>ob item. P ob \<Longrightarrow> item_at ob (de_delivery_id item) = Some item \<Longrightarrow>
           dt_provider (de_target item) = p \<Longrightarrow> is_delivery_due item now \<Longrightarrow>
           P (lease_one ob item now secs)"
  shows "P (snd (lease_due ob p now m secs))"
  unfolding lease_due_eq snd_map_prod id_apply
  by (rule lease_loop_preserves [OF snapshot_of_sorted]) (use assms in auto)

lemma lease_due_inv:
  assumes "outbox_inv ob"
  shows "outbox_inv (snd (lease_due ob p now m secs))"
proof (rule lease_due_preserves)
  show "outbox_keys_ok ob" and "outbox_inv ob" using assms by (simp_all add: outbox_inv_def)
qed (rule outbox_inv_lease_one)

definition is_no_action :: "app_action \<Rightarrow> bool" where
  "is_no_action a = (case a of NoAction _ _ _ _ \<Rightarrow> True | _ \<Rightarrow> False)"

text \<open>When an envelope is refused or already known, and when it is stored.\<close>

definition enqueue_stores :: "in_memory_outbox \<Rightarrow> delivery_envelope \<Rightarrow> bool" where
  "enqueue_stores ob e \<longleftrightarrow>
     \<not> is_no_action (de_action e) \<and> de_idempotency_key e \<noteq> [] \<and>
     dict_get (ob_idempotency_index ob) (de_idempotency_key e) = None \<and>
     \<not> depth_exceeded ob (dt_provider (de_target e))"

lemma enqueue_stores_eq:
  assumes "enqueue_stores ob e"
  shows "enqueue ob e =
    (Inr e, ob\<lparr>ob_items := dict_set (de_delivery_id e) e (ob_items ob),
               ob_idempotency_index :=
                 dict_set (de_idempotency_key e) (de_delivery_id e) (ob_idempotency_index ob)\<rparr>)"
  using assms by (cases "de_action e") (simp_all add: enqueue_def enqueue_stores_def is_no_action_def)

lemma enqueue_unchanged: "\<not> enqueue_stores ob e \<Longrightarrow> snd (enqueue ob e) = ob"
  by (cases "de_action e"; cases "dict_get (ob_idempotency_index ob) (de_idempotency_key e)")
    (auto simp: enqueue_def enqueue_stores_def is_no_action_def split: option.split)

lemma enqueue_inv:
  assumes inv: "outbox_inv ob" and new: "new_delivery e"
    and fresh: "item_at ob (de_delivery_id e) = None"
  shows "outbox_inv (snd (enqueue ob e))"
proof (cases "enqueue_stores ob e")
  case False
  with inv show ?thesis by (simp add: enqueue_unchanged)
next
  case True
  define ob' where "ob' = snd (enqueue ob e)"
  from True have none: "dict_get (ob_idempotency_index ob) (de_idempotency_key e) = None"
    by (simp add: enqueue_stores_def)
  have stored: "ob' = ob\<lparr>ob_items := dict_set (de_delivery_id e) e (ob_items ob),
      ob_idempotency_index :=
        dict_set (de_idempotency_key e) (de_delivery_id e) (ob_idempotency_index ob)\<rparr>"
    by (simp add: ob'_def enqueue_stores_eq [OF True])
  have idx: "dict_get (ob_idempotency_index ob') k = Some i \<longleftrightarrow>
      (\<exists>x. item_at ob' i = Some x \<and> de_idempotency_key x = k)" for k i
  proof -
    have "dict_get (ob_idempotency_index ob) k = Some i \<longleftrightarrow>
        (\<exists>x. item_at ob i = Some x \<and> de_idempotency_key x = k)" for k i
      using inv unfolding outbox_inv_def outbox_keys_ok_def by blast
    then have old: "dict_get (ob_idempotency_index ob) k = Some i \<longleftrightarrow>
        (\<exists>x. item_at ob i = Some x \<and> de_idempotency_key x = k)" for k i .
    show ?thesis
    proof (cases "i = de_delivery_id e")
      case True
      with stored fresh old [of k i] show ?thesis by (simp add: dict_get_set eq_commute)
    next
      case False
      with none stored old [of k i] old [of "de_idempotency_key e" i] show ?thesis
        by (auto simp: dict_get_set)
    qed
  qed
  have keys: "outbox_keys_ok ob'"
    unfolding outbox_keys_ok_def
  proof (intro conjI allI)
    show "dict_wf (ob_items ob')"
      using inv stored by (simp add: outbox_inv_def outbox_keys_ok_def)
    show "item_at ob' i = Some x \<longrightarrow> de_delivery_id x = i \<and> wf_delivery x" for i x
      using inv stored new_delivery_wf [OF new]
      by (auto simp: dict_get_set outbox_inv_def outbox_keys_ok_def)
  qed (rule idx)
  have "de_lease_id e = None" using new by (simp add: new_delivery_def)
  then have "outbox_leases_ok ob'"
    using inv stored unfolding outbox_inv_def outbox_leases_ok_def
    by (simp add: dict_get_set report_history_def) (metis option.discI)
  with keys show ?thesis by (simp add: outbox_inv_def ob'_def)
qed

text \<open>A report is applied when the delivery exists, the report is new and the transition accepts.\<close>

lemma apply_report_cases:
  assumes "apply_report tr ob i l r = (res, ob')"
  obtains (error) err where "res = Inl err" "ob' = ob"
  | (repeated) item where "res = Inr item" "ob' = ob" "item_at ob i = Some item"
      "result_fingerprint i l r \<in> report_history ob i"
  | (applied) item item' where "res = Inr item'" "item_at ob i = Some item" "tr item = Inr item'"
      "result_fingerprint i l r \<notin> report_history ob i"
      "\<forall>f\<in>report_history ob i. fingerprint_lease f \<noteq> l"
      "ob' = ob\<lparr>ob_items := dict_set i item' (ob_items ob),
                ob_report_index := dict_set i (report_history ob i \<union> {result_fingerprint i l r})
                                     (ob_report_index ob)\<rparr>"
proof (cases "item_at ob i")
  case None
  with assms error show ?thesis by (auto simp: apply_report_def get_delivery_def)
next
  case (Some item)
  show ?thesis
  proof (cases "classify_report (report_history ob i) (result_fingerprint i l r)")
    case RO_IDEMPOTENT
    with Some assms repeated [of item] show ?thesis
      by (simp add: apply_report_def get_delivery_def classify_report_def split: if_splits)
  next
    case RO_CONFLICT
    with Some assms error show ?thesis by (auto simp: apply_report_def get_delivery_def)
  next
    case RO_NEW
    then have nw: "result_fingerprint i l r \<notin> report_history ob i"
        "\<forall>f\<in>report_history ob i. fingerprint_lease f \<noteq> l"
      by (auto simp: classify_report_def fingerprint_lease_def result_fingerprint_def split: if_splits)
    show ?thesis
    proof (cases "tr item")
      case (Inl err)
      with RO_NEW Some assms error [of err] show ?thesis
        by (simp add: apply_report_def get_delivery_def)
    next
      case (Inr item')
      with RO_NEW Some assms nw applied [of item' item] show ?thesis
        by (simp add: apply_report_def get_delivery_def Let_def)
    qed
  qed
qed

text \<open>The two transitions a report can apply: they need the held lease and give it up.\<close>

definition report_transition ::
  "(delivery_envelope \<Rightarrow> outbox_error + delivery_envelope) \<Rightarrow> string option \<Rightarrow> bool" where
  "report_transition tr l \<longleftrightarrow>
     (\<forall>e e'. tr e = Inr e' \<longrightarrow>
        delivery_step e e' \<and> de_status e = DS_LEASED \<and> de_lease_id e = l \<and> de_lease_id e' = None)"

lemma complete_report_transition: "report_transition (\<lambda>e. complete_delivery e l r t) l"
  by (auto simp: report_transition_def intro: step_complete dest: complete_delivery_ok)

lemma release_report_transition: "report_transition (\<lambda>e. release_delivery e l retry r t) l"
  unfolding report_transition_def
  by (auto intro: step_release dest: release_delivery_ok split: if_splits)

lemma report_history_update:
  "ob_report_index ob' = dict_set i h (ob_report_index ob) \<Longrightarrow>
     report_history ob' j = (if j = i then h else report_history ob j)"
  by (simp add: report_history_def dict_get_set)

lemma apply_report_inv:
  assumes inv: "outbox_inv ob" and tr: "report_transition tr l"
    and res: "apply_report tr ob i l r = (res, ob')"
  shows "outbox_inv ob'"
  using res
proof (cases rule: apply_report_cases)
  case (applied item item')
  from tr applied(3) have st: "delivery_step item item'" and held: "de_status item = DS_LEASED"
    "de_lease_id item = l" and gone: "de_lease_id item' = None"
    unfolding report_transition_def by blast+
  have wf: "wf_delivery item"
    using inv applied(2) unfolding outbox_inv_def outbox_keys_ok_def by blast
  then obtain ll where ll: "l = Some ll" "de_lease_id item = Some ll"
    using held unfolding wf_delivery_def by auto
  have issued: "issued_lease (ob_lease_counter ob) ll"
    using inv applied(2) ll(2) unfolding outbox_inv_def outbox_leases_ok_def by blast
  have keys: "outbox_keys_ok ob'"
    by (rule keys_ok_update [OF _ applied(2) st]) (use inv applied(6) in \<open>auto simp: outbox_inv_def\<close>)
  have hist: "report_history ob' j =
      (if j = i then report_history ob i \<union> {result_fingerprint i l r} else report_history ob j)" for j
    by (rule report_history_update) (simp add: applied(6))
  have at: "item_at ob' j = (if j = i then Some item' else item_at ob j)" for j
    using applied(6) by (simp add: dict_get_set)
  have cnt: "ob_lease_counter ob' = ob_lease_counter ob" using applied(6) by simp
  have fp: "fst (result_fingerprint i l r) = i" "fingerprint_lease (result_fingerprint i l r) = Some ll"
    using ll by (simp_all add: result_fingerprint_def fingerprint_lease_def)
  have ok: "outbox_leases_ok ob" using inv by (simp add: outbox_inv_def)
  have "outbox_leases_ok ob'"
  proof (rule leases_okI)
    show "issued_lease (ob_lease_counter ob') x"
      if "item_at ob' j = Some e" "de_lease_id e = Some x" for j e x
      using that gone leases_issued [OF ok] by (auto simp: at cnt split: if_splits)
    show "fst f = j \<and> (\<exists>x. fingerprint_lease f = Some x \<and> issued_lease (ob_lease_counter ob') x)"
      if "f \<in> report_history ob' j" for j f
      using that fp issued leases_reported [OF ok, of f j] by (auto simp: hist cnt split: if_splits)
    show "fingerprint_lease f \<noteq> de_lease_id e"
      if "item_at ob' j = Some e" "f \<in> report_history ob' j" for j e f
      using that gone fp leases_reported [OF ok, of f j] leases_unreported [OF ok, of j e f]
      by (auto simp: at hist split: if_splits)
    show "j = k" if "item_at ob' j = Some e" "item_at ob' k = Some e'"
      "de_lease_id e = Some x" "de_lease_id e' = Some x" for j k e e' x
      using that gone leases_unique [OF ok] by (auto simp: at split: if_splits)
  qed
  with keys show ?thesis by (simp add: outbox_inv_def)
qed (use inv in auto)

lemma complete_inv: "outbox_inv ob \<Longrightarrow> outbox_inv (snd (complete ob i l r t))"
  using apply_report_inv [OF _ complete_report_transition]
  by (metis complete_def prod.collapse)

lemma release_inv: "outbox_inv ob \<Longrightarrow> outbox_inv (snd (release ob i l retry r t))"
  using apply_report_inv [OF _ release_report_transition]
  by (metis release_def prod.collapse)

end
