(* ===== verification/Delivery_Outbox_Runs.thy ===== *)
theory Delivery_Outbox_Runs
  imports Delivery_Outbox Delivery_Port
begin

text \<open>
  Runs of the in-memory outbox: any interleaving of its operations, as an explicit sequence. The
  theory shows that every run keeps the outbox invariant and moves each stored delivery along the
  lifecycle of \<open>Delivery_Lifecycle\<close>, what a poll returns, that reports and enqueues are idempotent
  at any later point of a run, and that the per-provider depth limit holds.
\<close>

section \<open>Operations as data\<close>

datatype outbox_op =
  Op_enqueue delivery_envelope
| Op_lease_due string datetime int seconds
| Op_complete string "string option" action_result datetime
| Op_release string "string option" datetime action_result datetime

fun outbox_step :: "in_memory_outbox \<Rightarrow> outbox_op \<Rightarrow> in_memory_outbox" where
  "outbox_step ob (Op_enqueue e) = snd (enqueue ob e)"
| "outbox_step ob (Op_lease_due p now m secs) = snd (lease_due ob p now m secs)"
| "outbox_step ob (Op_complete i l r t) = snd (complete ob i l r t)"
| "outbox_step ob (Op_release i l retry r t) = snd (release ob i l retry r t)"

fun outbox_run :: "in_memory_outbox \<Rightarrow> outbox_op list \<Rightarrow> in_memory_outbox" where
  "outbox_run ob [] = ob"
| "outbox_run ob (x # xs) = outbox_run (outbox_step ob x) xs"

text \<open>
  The callers' obligation: an envelope that gets stored is a newly built one (as
  \<^verbatim>\<open>SchedulerRunner._enqueue_sendable\<close> builds it) under a delivery id not yet in use.
\<close>

fun op_ok :: "in_memory_outbox \<Rightarrow> outbox_op \<Rightarrow> bool" where
  "op_ok ob (Op_enqueue e) \<longleftrightarrow>
     (enqueue_stores ob e \<longrightarrow> new_delivery e \<and> item_at ob (de_delivery_id e) = None)"
| "op_ok ob _ \<longleftrightarrow> True"

fun ops_ok :: "in_memory_outbox \<Rightarrow> outbox_op list \<Rightarrow> bool" where
  "ops_ok ob [] = True"
| "ops_ok ob (x # xs) \<longleftrightarrow> op_ok ob x \<and> ops_ok (outbox_step ob x) xs"

section \<open>One operation\<close>

lemma outbox_step_inv:
  assumes "outbox_inv ob" and "op_ok ob x"
  shows "outbox_inv (outbox_step ob x)"
proof (cases x)
  case (Op_enqueue e)
  show ?thesis
  proof (cases "enqueue_stores ob e")
    case True
    with assms Op_enqueue show ?thesis by (simp add: enqueue_inv)
  next
    case False
    with assms(1) Op_enqueue show ?thesis by (simp add: enqueue_unchanged)
  qed
qed (use assms in \<open>simp_all add: lease_due_inv complete_inv release_inv\<close>)

text \<open>Each stored delivery takes lifecycle steps (none, one, or several).\<close>

definition items_evolve :: "in_memory_outbox \<Rightarrow> in_memory_outbox \<Rightarrow> bool" where
  "items_evolve ob ob' \<longleftrightarrow>
     (\<forall>i e. item_at ob i = Some e \<longrightarrow> (\<exists>e'. item_at ob' i = Some e' \<and> delivery_steps e e'))"

lemma items_evolve_refl [simp]: "items_evolve ob ob"
  by (auto simp: items_evolve_def)

lemma items_evolve_trans: "items_evolve a b \<Longrightarrow> items_evolve b c \<Longrightarrow> items_evolve a c"
  unfolding items_evolve_def by (meson rtranclp_trans)

lemma items_evolve_set:
  assumes "item_at ob i = Some e" and "delivery_step e e'" and "ob_items ob' = dict_set i e' (ob_items ob)"
  shows "items_evolve ob ob'"
  using assms by (auto simp: items_evolve_def dict_get_set)

lemma items_evolve_lease_one:
  "item_at ob (de_delivery_id item) = Some item \<Longrightarrow> is_delivery_due item now \<Longrightarrow>
     items_evolve ob (lease_one ob item now secs)"
  by (rule items_evolve_set [OF _ leased_copy_step]) (auto simp: lease_one_def)

lemma items_evolve_report:
  assumes "report_transition tr l"
  shows "items_evolve ob (snd (apply_report tr ob i l r))"
proof -
  obtain res ob' where res: "apply_report tr ob i l r = (res, ob')" by fastforce
  have "items_evolve ob ob'"
    using res
  proof (cases rule: apply_report_cases)
    case (applied item item')
    with assms have "delivery_step item item'" unfolding report_transition_def by blast
    with applied show ?thesis by (intro items_evolve_set) auto
  qed auto
  with res show ?thesis by simp
qed

lemma items_evolve_enqueue:
  assumes "op_ok ob (Op_enqueue e)"
  shows "items_evolve ob (snd (enqueue ob e))"
proof (cases "enqueue_stores ob e")
  case True
  with assms show ?thesis
    by (auto simp: enqueue_stores_eq items_evolve_def dict_get_set)
next
  case False
  then show ?thesis by (simp add: enqueue_unchanged)
qed

lemma items_evolve_lease_due:
  assumes "outbox_keys_ok ob"
  shows "items_evolve ob (snd (lease_due ob p now m secs))"
  by (rule lease_due_preserves [OF assms])
    (auto intro: items_evolve_trans items_evolve_lease_one)

lemma outbox_step_evolve:
  "outbox_inv ob \<Longrightarrow> op_ok ob x \<Longrightarrow> items_evolve ob (outbox_step ob x)"
  by (cases x)
    (auto simp: complete_def release_def outbox_inv_def items_evolve_lease_due
      intro: items_evolve_report complete_report_transition release_report_transition
        items_evolve_enqueue)

lemma outbox_run_evolve:
  "outbox_inv ob \<Longrightarrow> ops_ok ob xs \<Longrightarrow>
     outbox_inv (outbox_run ob xs) \<and> items_evolve ob (outbox_run ob xs)"
proof (induction xs arbitrary: ob)
  case Nil
  then show ?case by simp
next
  case (Cons x xs)
  then have "outbox_inv (outbox_step ob x)" and "items_evolve ob (outbox_step ob x)"
    by (auto intro: outbox_step_inv outbox_step_evolve)
  with Cons show ?case by (auto intro: items_evolve_trans)
qed

section \<open>Histories only grow\<close>

definition history_grows :: "in_memory_outbox \<Rightarrow> in_memory_outbox \<Rightarrow> bool" where
  "history_grows ob ob' \<longleftrightarrow> (\<forall>i. report_history ob i \<subseteq> report_history ob' i)"

lemma history_grows_refl [simp]: "history_grows ob ob"
  by (simp add: history_grows_def)

lemma history_grows_trans: "history_grows a b \<Longrightarrow> history_grows b c \<Longrightarrow> history_grows a c"
  unfolding history_grows_def by blast

lemma history_grows_same:
  "ob_report_index ob' = ob_report_index ob \<Longrightarrow> history_grows ob ob'"
  by (simp add: history_grows_def report_history_def)

lemma history_grows_report: "history_grows ob (snd (apply_report tr ob i l r))"
proof -
  obtain res ob' where res: "apply_report tr ob i l r = (res, ob')" by fastforce
  have "history_grows ob ob'"
    using res
    by (cases rule: apply_report_cases) (auto simp: history_grows_def report_history_def dict_get_set)
  with res show ?thesis by simp
qed

lemma history_grows_lease_due:
  "outbox_keys_ok ob \<Longrightarrow> history_grows ob (snd (lease_due ob p now m secs))"
  by (rule lease_due_preserves) (auto simp: history_grows_def)

lemma history_grows_enqueue: "history_grows ob (snd (enqueue ob e))"
  by (cases "enqueue_stores ob e") (auto simp: enqueue_stores_eq enqueue_unchanged intro: history_grows_same)

lemma outbox_step_history: "outbox_inv ob \<Longrightarrow> history_grows ob (outbox_step ob x)"
  by (cases x) (auto simp: complete_def release_def outbox_inv_def history_grows_report
      history_grows_lease_due history_grows_enqueue)

lemma outbox_run_history:
  "outbox_inv ob \<Longrightarrow> ops_ok ob xs \<Longrightarrow> history_grows ob (outbox_run ob xs)"
  by (induction xs arbitrary: ob)
    (auto intro: history_grows_trans outbox_step_history outbox_step_inv)

section \<open>Reports\<close>

lemma apply_report_repeat:
  assumes "result_fingerprint i l r \<in> report_history ob i" and "item_at ob i = Some e"
  shows "apply_report tr ob i l r = (Inr e, ob)"
  using assms by (simp add: apply_report_def get_delivery_def classify_report_def)

lemma apply_report_conflict:
  assumes "f \<in> report_history ob i" and "fingerprint_lease f = l"
    and "result_fingerprint i l r \<notin> report_history ob i" and "item_at ob i = Some e"
  shows "apply_report tr ob i l r = (Inl (DeliveryOutboxError ''delivery_report_conflict''), ob)"
proof -
  have "classify_report (report_history ob i) (result_fingerprint i l r) = RO_CONFLICT"
    using assms(1-3)
    by (auto simp: classify_report_def fingerprint_lease_def result_fingerprint_def)
  with assms(4) show ?thesis by (simp add: apply_report_def get_delivery_def)
qed

text \<open>The history of one delivery holds at most one report per lease.\<close>

definition one_report_per_lease :: "in_memory_outbox \<Rightarrow> bool" where
  "one_report_per_lease ob \<longleftrightarrow>
     (\<forall>i f g. f \<in> report_history ob i \<and> g \<in> report_history ob i \<and>
        fingerprint_lease f = fingerprint_lease g \<longrightarrow> f = g)"

lemma one_report_same:
  "ob_report_index ob' = ob_report_index ob \<Longrightarrow> one_report_per_lease ob \<Longrightarrow> one_report_per_lease ob'"
  unfolding one_report_per_lease_def report_history_def by (erule ssubst)

lemma one_report_apply:
  assumes "one_report_per_lease ob"
  shows "one_report_per_lease (snd (apply_report tr ob i l r))"
proof -
  obtain res ob' where res: "apply_report tr ob i l r = (res, ob')" by fastforce
  have "one_report_per_lease ob'"
    using res
  proof (cases rule: apply_report_cases)
    case (applied item item')
    have hist: "report_history ob' j =
        (if j = i then report_history ob i \<union> {result_fingerprint i l r} else report_history ob j)" for j
      by (rule report_history_update) (simp add: applied(6))
    have "fingerprint_lease (result_fingerprint i l r) = l"
      by (simp add: fingerprint_lease_def result_fingerprint_def)
    with applied(5) have "f \<noteq> result_fingerprint i l r \<and>
        fingerprint_lease f \<noteq> fingerprint_lease (result_fingerprint i l r)"
      if "f \<in> report_history ob i" for f using that applied(4) by metis
    then show ?thesis
      using assms unfolding one_report_per_lease_def hist
      by (metis Un_insert_right insertE sup_bot.right_neutral)
  qed (use assms in auto)
  with res show ?thesis by simp
qed

lemma one_report_step:
  assumes "outbox_inv ob" and "one_report_per_lease ob"
  shows "one_report_per_lease (outbox_step ob x)"
proof (cases x)
  case (Op_enqueue e)
  with assms(2) show ?thesis
    by (cases "enqueue_stores ob e") (auto simp: enqueue_stores_eq enqueue_unchanged intro: one_report_same)
next
  case (Op_lease_due p now m secs)
  have "one_report_per_lease (snd (lease_due ob p now m secs))"
  proof (rule lease_due_preserves)
    show "outbox_keys_ok ob" using assms(1) by (simp add: outbox_inv_def)
  qed (use assms(2) in \<open>auto intro: one_report_same [OF lease_one_frame(2)]\<close>)
  with Op_lease_due show ?thesis by simp
qed (use assms in \<open>auto simp: complete_def release_def one_report_apply\<close>)

lemma one_report_run:
  "outbox_inv ob \<Longrightarrow> one_report_per_lease ob \<Longrightarrow> ops_ok ob xs \<Longrightarrow> one_report_per_lease (outbox_run ob xs)"
  by (induction xs arbitrary: ob) (auto intro: outbox_step_inv one_report_step)

lemma apply_report_recorded:
  assumes "apply_report tr ob i l r = (Inr e, ob')"
  shows "result_fingerprint i l r \<in> report_history ob' i"
  using assms
  by (cases rule: apply_report_cases) (auto simp: report_history_def dict_get_set)

section \<open>What a poll returns\<close>

text \<open>Items the poll must not touch, and the state the poll leaves behind.\<close>

abbreviation pollable :: "string \<Rightarrow> datetime \<Rightarrow> delivery_envelope \<Rightarrow> bool" where
  "pollable p now e \<equiv> dt_provider (de_target e) = p \<and> is_delivery_due e now"

lemma lease_loop_frame:
  assumes "snapshot_of ob rest" and "i \<notin> de_delivery_id ` {e \<in> set rest. pollable p now e}"
  shows "item_at (snd (lease_loop p now m secs due rest ob)) i = item_at ob i"
  using assms
proof (induction rest arbitrary: due ob)
  case Nil
  then show ?case by simp
next
  case (Cons item rest)
  note snap = snapshot_of_Cons [OF Cons.prems(1), of now secs]
  have "i \<notin> de_delivery_id ` {e \<in> set rest. pollable p now e}"
    using Cons.prems(2) by auto
  moreover have "pollable p now item \<Longrightarrow> i \<noteq> de_delivery_id item"
    using Cons.prems(2) by auto
  ultimately show ?case
    using Cons.IH snap by (auto simp: item_at_lease_one)
qed

text \<open>
  The leased envelopes, in snapshot order: each is the leased copy of a pollable snapshot item and
  is what the outbox stores afterwards; unless the poll is full, every pollable item is leased or
  failed.
\<close>

definition poll_result ::
  "string \<Rightarrow> datetime \<Rightarrow> seconds \<Rightarrow> delivery_envelope list \<Rightarrow> delivery_envelope list
     \<Rightarrow> in_memory_outbox \<Rightarrow> bool" where
  "poll_result p now secs items out ob' \<longleftrightarrow>
     (\<forall>e'\<in>set out. item_at ob' (de_delivery_id e') = Some e' \<and>
        (\<exists>e\<in>set items. \<exists>l. pollable p now e \<and> de_attempts e < de_max_attempts e \<and>
           e' = lease_delivery e l now secs (de_not_before e)))"

definition poll_complete ::
  "string \<Rightarrow> datetime \<Rightarrow> delivery_envelope list \<Rightarrow> delivery_envelope list
     \<Rightarrow> in_memory_outbox \<Rightarrow> bool" where
  "poll_complete p now items out ob' \<longleftrightarrow>
     (\<forall>e\<in>set items. pollable p now e \<longrightarrow>
        (\<exists>e'. item_at ob' (de_delivery_id e) = Some e' \<and>
           (e' \<in> set out \<or>
            de_attempts e \<ge> de_max_attempts e \<and>
            e' = fail_exhausted_delivery e now ''max_attempts_exceeded'')))"

definition poll_spec ::
  "string \<Rightarrow> datetime \<Rightarrow> int \<Rightarrow> seconds \<Rightarrow> nat \<Rightarrow> delivery_envelope list \<Rightarrow> delivery_envelope list
     \<Rightarrow> in_memory_outbox \<Rightarrow> bool" where
  "poll_spec p now m secs n items new ob' \<longleftrightarrow>
     sorted_wrt (<) (map envelope_sort_key new) \<and>
     envelope_sort_key ` set new \<subseteq> envelope_sort_key ` set items \<and>
     (int n \<le> max 0 m \<longrightarrow> int (n + length new) \<le> max 0 m) \<and>
     poll_result p now secs items new ob' \<and>
     (int (n + length new) < m \<longrightarrow> poll_complete p now items new ob')"

lemma poll_spec_full: "int n \<ge> m \<Longrightarrow> poll_spec p now m secs n items [] ob'"
  by (simp add: poll_spec_def poll_result_def)

lemma poll_spec_Nil: "poll_spec p now m secs n [] [] ob'"
  by (simp add: poll_spec_def poll_result_def poll_complete_def)

lemma poll_result_Cons: "poll_result p now secs items out ob' \<Longrightarrow> poll_result p now secs (item # items) out ob'"
  unfolding poll_result_def by (metis list.set_intros(2))

lemma poll_spec_skip:
  assumes "\<not> pollable p now item" and "poll_spec p now m secs n items new ob'"
  shows "poll_spec p now m secs n (item # items) new ob'"
proof -
  have "poll_complete p now items new ob' \<Longrightarrow> poll_complete p now (item # items) new ob'"
    using assms(1) unfolding poll_complete_def by (metis set_ConsD)
  with assms(2) show ?thesis
    unfolding poll_spec_def by (auto intro: poll_result_Cons)
qed

lemma poll_spec_fail:
  assumes "de_attempts item \<ge> de_max_attempts item"
    and "item_at ob' (de_delivery_id item) = Some (fail_exhausted_delivery item now ''max_attempts_exceeded'')"
    and "poll_spec p now m secs n items new ob'"
  shows "poll_spec p now m secs n (item # items) new ob'"
proof -
  have "poll_complete p now items new ob' \<Longrightarrow> poll_complete p now (item # items) new ob'"
    using assms(1,2) unfolding poll_complete_def by (metis set_ConsD)
  with assms(3) show ?thesis
    unfolding poll_spec_def by (auto intro: poll_result_Cons)
qed

lemma poll_spec_lease:
  assumes "pollable p now item" and "de_attempts item < de_max_attempts item"
    and "c = lease_delivery item l now secs (de_not_before item)"
    and "item_at ob' (de_delivery_id item) = Some c" and "int n < m"
    and "\<forall>e\<in>set items. envelope_sort_key item < envelope_sort_key e"
    and spec: "poll_spec p now m secs (Suc n) items new ob'"
  shows "poll_spec p now m secs n (item # items) (c # new) ob'"
proof -
  have key: "envelope_sort_key c = envelope_sort_key item" and idc: "de_delivery_id c = de_delivery_id item"
    using assms(3) by (simp_all add: envelope_sort_key_def delivery_simps)
  have sub: "envelope_sort_key ` set new \<subseteq> envelope_sort_key ` set items"
    using spec by (simp add: poll_spec_def)
  have "envelope_sort_key c < envelope_sort_key e" if "e \<in> set new" for e
  proof -
    from sub that obtain x where "x \<in> set items" "envelope_sort_key e = envelope_sort_key x" by blast
    with assms(6) key show ?thesis by simp
  qed
  moreover have "poll_complete p now items new ob' \<Longrightarrow> poll_complete p now (item # items) (c # new) ob'"
    using assms(4) unfolding poll_complete_def by simp blast
  moreover have "poll_result p now secs (item # items) (c # new) ob'"
    if "poll_result p now secs items new ob'"
  proof -
    have "poll_result p now secs (item # items) [c] ob'"
      using assms(1-4) idc unfolding poll_result_def by auto
    with poll_result_Cons [OF that] show ?thesis unfolding poll_result_def by simp
  qed
  ultimately show ?thesis
    using spec sub key assms(5) unfolding poll_spec_def by auto
qed

lemma lease_loop_result:
  assumes "snapshot_of ob rest" and "sorted_wrt (<) (map envelope_sort_key rest)"
  shows "\<exists>new. fst (lease_loop p now m secs due rest ob) = due @ new \<and>
    poll_spec p now m secs (length due) rest new (snd (lease_loop p now m secs due rest ob))"
  using assms
proof (induction rest arbitrary: due ob)
  case Nil
  show ?case by (simp add: poll_spec_Nil)
next
  case (Cons item rest)
  note snap = snapshot_of_Cons [OF Cons.prems(1), of now secs]
  have sorted: "sorted_wrt (<) (map envelope_sort_key rest)"
    and below: "\<forall>e\<in>set rest. envelope_sort_key item < envelope_sort_key e"
    using Cons.prems(2) by auto
  have notin: "de_delivery_id item \<notin> de_delivery_id ` set rest"
    using Cons.prems(1) unfolding snapshot_of_def by simp
  let ?c = "leased_copy ob item now secs" and ?ob1 = "lease_one ob item now secs"
  have stored: "item_at (snd (lease_loop p now m secs due1 rest ?ob1)) (de_delivery_id item) = Some ?c"
    for due1
  proof -
    have "de_delivery_id item \<notin> de_delivery_id ` {e \<in> set rest. pollable p now e}"
      using notin by blast
    then show ?thesis using snap by (simp add: lease_loop_frame item_at_lease_one)
  qed
  consider (full) "int (length due) \<ge> m" | (skip) "int (length due) < m" "\<not> pollable p now item"
    | (lease) "int (length due) < m" "pollable p now item" "de_attempts item < de_max_attempts item"
    | (fail) "int (length due) < m" "pollable p now item" "de_attempts item \<ge> de_max_attempts item"
    by linarith
  then show ?case
  proof cases
    case full
    then show ?thesis by (auto intro: poll_spec_full)
  next
    case skip
    with Cons.IH [of ob due] snap sorted show ?thesis by (auto intro: poll_spec_skip)
  next
    case lease
    obtain new where new: "fst (lease_loop p now m secs (due @ [?c]) rest ?ob1) = (due @ [?c]) @ new"
        "poll_spec p now m secs (Suc (length due)) rest new (snd (lease_loop p now m secs (due @ [?c]) rest ?ob1))"
      using Cons.IH [of ?ob1 "due @ [?c]"] snap sorted by auto
    have "poll_spec p now m secs (length due) (item # rest) (?c # new)
        (snd (lease_loop p now m secs (due @ [?c]) rest ?ob1))"
      using lease by (intro poll_spec_lease [OF _ _ _ stored _ below new(2)]) (auto simp: leased_copy_eq)
    with new(1) lease show ?thesis by (intro exI [of _ "?c # new"]) simp
  next
    case fail
    with Cons.IH [of ?ob1 due] snap sorted stored [of due] show ?thesis
      by (auto simp: leased_copy_eq intro: poll_spec_fail)
  qed
qed

lemma snapshot_strictly_sorted:
  assumes "outbox_keys_ok ob"
  shows "sorted_wrt (<) (map envelope_sort_key (sort_key envelope_sort_key (dict_values (ob_items ob))))"
    (is "sorted_wrt (<) (map _ ?xs)")
proof -
  have "distinct (map de_delivery_id ?xs)"
    using snapshot_of_sorted [OF assms, of envelope_sort_key] by (simp only: snapshot_of_def)
  then have "distinct (map (snd \<circ> envelope_sort_key) ?xs)"
    by (simp add: comp_def envelope_sort_key_def)
  then have "distinct (map envelope_sort_key ?xs)"
    by (metis distinct_map list.map_comp)
  then show ?thesis by (simp add: strict_sorted_iff)
qed

lemma lease_due_result:
  assumes "outbox_keys_ok ob" and "lease_due ob p now m secs = (Inr out, ob')"
  shows "poll_spec p now m secs 0 (sort_key envelope_sort_key (dict_values (ob_items ob))) out ob'"
proof -
  have "lease_loop p now m secs [] (sort_key envelope_sort_key (dict_values (ob_items ob))) ob = (out, ob')"
    using assms(2) by (auto simp: lease_due_def Let_def split: prod.splits)
  with lease_loop_result [OF snapshot_of_sorted [OF assms(1)] snapshot_strictly_sorted [OF assms(1)],
      of p now m secs "[]"]
  show ?thesis by simp
qed

lemma lease_due_untouched:
  assumes "outbox_keys_ok ob" and "item_at ob i = Some e" and "\<not> pollable p now e"
  shows "item_at (snd (lease_due ob p now m secs)) i = Some e"
proof -
  have "x = e" if "x \<in> set (dict_values (ob_items ob))" "de_delivery_id x = i" for x
    using that assms(1,2) by (simp add: keys_ok_values)
  then have "i \<notin> de_delivery_id `
      {x \<in> set (sort_key envelope_sort_key (dict_values (ob_items ob))). pollable p now x}"
    using assms(3) by auto
  from lease_loop_frame [OF snapshot_of_sorted [OF assms(1)] this, of m secs "[]"] assms(2)
  show ?thesis by (simp add: lease_due_eq)
qed

lemma lease_due_never_fails: "\<exists>out ob'. lease_due ob p now m secs = (Inr out, ob')"
  by (simp add: lease_due_def split_beta)

section \<open>Depth\<close>

lemma provider_depth_step:
  assumes "item_at ob i = Some e" and "delivery_step e e'" and "ob_items ob' = dict_set i e' (ob_items ob)"
  shows "provider_depth ob' p \<le> provider_depth ob p"
proof -
  have "dt_provider (de_target e') = dt_provider (de_target e)"
    "de_status e \<notin> TERMINAL_DELIVERY_STATUSES"
    using assms(2) delivery_step_same delivery_step_live by (auto simp: same_delivery_def)
  with dict_count_set_old [OF assms(1), of "\<lambda>item. dt_provider (de_target item) = p \<and>
      de_status item \<notin> TERMINAL_DELIVERY_STATUSES" e'] assms(3)
  show ?thesis by (auto simp: provider_depth_def split: if_splits)
qed

definition depth_ok :: "in_memory_outbox \<Rightarrow> bool" where
  "depth_ok ob \<longleftrightarrow>
     (\<forall>limit p. ob_max_depth_per_provider ob = Some limit \<longrightarrow> int (provider_depth ob p) \<le> max 0 limit)"

lemma depth_ok_mono:
  assumes "depth_ok ob" and "\<And>p. provider_depth ob' p \<le> provider_depth ob p"
    and "ob_max_depth_per_provider ob' = ob_max_depth_per_provider ob"
  shows "depth_ok ob'"
  unfolding depth_ok_def
proof (intro allI impI)
  fix limit p
  assume "ob_max_depth_per_provider ob' = Some limit"
  with assms(1,3) have "int (provider_depth ob p) \<le> max 0 limit" by (simp add: depth_ok_def)
  with assms(2) [of p] show "int (provider_depth ob' p) \<le> max 0 limit" by linarith
qed

lemma depth_ok_report:
  assumes "depth_ok ob" and "report_transition tr l"
  shows "depth_ok (snd (apply_report tr ob i l r))"
proof -
  obtain res ob' where res: "apply_report tr ob i l r = (res, ob')" by fastforce
  have "depth_ok ob'"
    using res
  proof (cases rule: apply_report_cases)
    case (applied item item')
    from assms(2) applied(3) have "delivery_step item item'" unfolding report_transition_def by blast
    with applied assms(1) show ?thesis by (intro depth_ok_mono [OF assms(1)] provider_depth_step) auto
  qed (use assms in auto)
  with res show ?thesis by simp
qed

lemma depth_ok_lease_due:
  assumes "outbox_keys_ok ob" and "depth_ok ob"
  shows "depth_ok (snd (lease_due ob p now m secs))"
proof (rule lease_due_preserves [OF assms(1), where P = depth_ok])
  fix ob item
  assume "depth_ok ob" and "item_at ob (de_delivery_id item) = Some item" and "is_delivery_due item now"
  moreover from this(2,3) have "provider_depth (lease_one ob item now secs) p' \<le> provider_depth ob p'" for p'
    by (intro provider_depth_step [OF _ leased_copy_step]) (simp_all add: lease_one_def)
  ultimately show "depth_ok (lease_one ob item now secs)"
    using depth_ok_mono lease_one_frame(3) by blast
qed (rule assms(2))

lemma depth_ok_enqueue:
  assumes "depth_ok ob" and "op_ok ob (Op_enqueue e)"
  shows "depth_ok (snd (enqueue ob e))"
proof (cases "enqueue_stores ob e")
  case False
  with assms(1) show ?thesis by (simp add: enqueue_unchanged)
next
  case True
  with assms(2) have fresh: "item_at ob (de_delivery_id e) = None" by simp
  have room: "\<not> depth_exceeded ob (dt_provider (de_target e))"
    using True by (simp add: enqueue_stores_def)
  show ?thesis
    unfolding depth_ok_def
  proof (intro allI impI)
    fix limit p
    assume lim: "ob_max_depth_per_provider (snd (enqueue ob e)) = Some limit"
    then have "ob_max_depth_per_provider ob = Some limit" by (simp add: enqueue_stores_eq [OF True])
    with assms(1) room show "int (provider_depth (snd (enqueue ob e)) p) \<le> max 0 limit"
      by (auto simp: depth_exceeded_iff depth_ok_def provider_depth_def enqueue_stores_eq [OF True]
          dict_count_set_new [OF fresh])
  qed
qed

lemma depth_ok_step:
  "outbox_inv ob \<Longrightarrow> op_ok ob x \<Longrightarrow> depth_ok ob \<Longrightarrow> depth_ok (outbox_step ob x)"
  by (cases x)
    (auto simp: complete_def release_def outbox_inv_def depth_ok_lease_due depth_ok_enqueue
      intro: depth_ok_report complete_report_transition release_report_transition)

lemma depth_ok_run: "outbox_inv ob \<Longrightarrow> ops_ok ob xs \<Longrightarrow> depth_ok ob \<Longrightarrow> depth_ok (outbox_run ob xs)"
  by (induction xs arbitrary: ob) (auto intro: outbox_step_inv depth_ok_step)

lemma apply_report_limit:
  "ob_max_depth_per_provider (snd (apply_report tr ob i l r)) = ob_max_depth_per_provider ob"
proof -
  obtain res ob' where res: "apply_report tr ob i l r = (res, ob')" by fastforce
  then have "ob_max_depth_per_provider ob' = ob_max_depth_per_provider ob"
    by (cases rule: apply_report_cases) auto
  with res show ?thesis by simp
qed

lemma outbox_run_limit: "ob_max_depth_per_provider (outbox_run ob xs) = ob_max_depth_per_provider ob"
  if "outbox_inv ob" "ops_ok ob xs"
  using that
proof (induction xs arbitrary: ob)
  case (Cons x xs)
  have "ob_max_depth_per_provider (outbox_step ob x) = ob_max_depth_per_provider ob"
  proof (cases x)
    case (Op_enqueue e)
    then show ?thesis
      by (cases "enqueue_stores ob e") (auto simp: enqueue_stores_eq enqueue_unchanged)
  next
    case (Op_lease_due p now m secs)
    have "ob_max_depth_per_provider (snd (lease_due ob p now m secs)) = ob_max_depth_per_provider ob"
      by (rule lease_due_preserves) (use Cons.prems(1) in \<open>auto simp: outbox_inv_def\<close>)
    with Op_lease_due show ?thesis by simp
  qed (simp_all add: complete_def release_def apply_report_limit)
  with Cons show ?case by (simp add: outbox_step_inv)
qed simp

section \<open>The in-memory outbox keeps the port's contract\<close>

definition in_memory_port :: "in_memory_outbox outbox_port" where
  "in_memory_port =
     \<lparr>port_enqueue = enqueue, port_lease_due = lease_due, port_get = get_delivery,
      port_complete = complete, port_release = release\<rparr>"

lemma in_memory_port_simps [simp]:
  "port_enqueue in_memory_port = enqueue" "port_lease_due in_memory_port = lease_due"
  "port_get in_memory_port = get_delivery" "port_complete in_memory_port = complete"
  "port_release in_memory_port = release"
  by (simp_all add: in_memory_port_def)

lemma items_evolve_lookup: "items_evolve = lookup_evolves item_at"
  by (simp add: fun_eq_iff items_evolve_def lookup_evolves_def)

lemma apply_report_stored: "apply_report tr ob i l r = (Inr e, ob') \<Longrightarrow> item_at ob' i = Some e"
  by (erule apply_report_cases) (auto simp: dict_get_set)

lemma apply_report_applies:
  assumes "apply_report tr ob i l r = (Inr e, ob')"
  shows "(\<exists>old. item_at ob i = Some old \<and> (ob' = ob \<and> e = old \<or> tr old = Inr e)) \<and>
    (\<forall>j. j \<noteq> i \<longrightarrow> item_at ob' j = item_at ob j)"
  using assms by (cases rule: apply_report_cases) (auto simp: dict_get_set)

lemma apply_report_error: "apply_report tr ob i l r = (Inl err, ob') \<Longrightarrow> ob' = ob"
  by (erule apply_report_cases) auto

lemma apply_report_again:
  assumes "apply_report tr ob i l r = (Inr e, ob')"
  shows "apply_report tr' ob' i l r = (Inr e, ob')"
  using apply_report_repeat apply_report_recorded [OF assms] apply_report_stored [OF assms] by blast

lemma lease_due_stored:
  assumes "outbox_inv ob" and "lease_due ob p now m secs = (Inr out, ob')" and "e \<in> set out"
  shows "item_at ob' (de_delivery_id e) = Some e \<and> de_status e = DS_LEASED \<and>
    dt_provider (de_target e) = p"
proof -
  have "poll_result p now secs (sort_key envelope_sort_key (dict_values (ob_items ob))) out ob'"
    using lease_due_result assms(1,2) by (auto simp: outbox_inv_def poll_spec_def)
  with assms(3) obtain x l where "item_at ob' (de_delivery_id e) = Some e" "pollable p now x"
    "e = lease_delivery x l now secs (de_not_before x)"
    unfolding poll_result_def by blast
  then show ?thesis by (simp add: delivery_simps)
qed

lemma outbox_poll_frame:
  "outbox_inv ob \<Longrightarrow> item_at ob i = Some e \<Longrightarrow> dt_provider (de_target e) \<noteq> p \<or> \<not> is_delivery_due e now \<Longrightarrow>
     item_at (snd (lease_due ob p now m secs)) i = Some e"
  by (rule lease_due_untouched) (auto simp: outbox_inv_def)

lemma outbox_inv_stored:
  "outbox_inv ob \<Longrightarrow> item_at ob i = Some e \<Longrightarrow> wf_delivery e \<and> de_delivery_id e = i"
  unfolding outbox_inv_def outbox_keys_ok_def by blast

interpretation mem: delivery_outbox in_memory_port outbox_inv item_at
proof unfold_locales
  show "outbox_inv ob \<Longrightarrow> item_at ob i = Some e \<Longrightarrow> wf_delivery e \<and> de_delivery_id e = i" for ob i e
    by (rule outbox_inv_stored)
  show "lookup_evolves item_at ob (snd (port_complete in_memory_port ob i l r t))" for ob i l r t
    using items_evolve_report [OF complete_report_transition]
    by (simp add: complete_def items_evolve_lookup)
  show "lookup_evolves item_at ob (snd (port_release in_memory_port ob i l retry r t))" for ob i l retry r t
    using items_evolve_report [OF release_report_transition]
    by (simp add: release_def items_evolve_lookup)
  show "outbox_inv ob \<Longrightarrow> lookup_evolves item_at ob (snd (port_lease_due in_memory_port ob p now m secs))"
    for ob p now m secs
    using items_evolve_lease_due by (simp add: outbox_inv_def items_evolve_lookup)
  show "outbox_inv ob \<Longrightarrow> outbox_inv (snd (port_complete in_memory_port ob i l r t))" for ob i l r t
    by (simp add: complete_inv)
  show "outbox_inv ob \<Longrightarrow> outbox_inv (snd (port_release in_memory_port ob i l retry r t))"
    for ob i l retry r t
    by (simp add: release_inv)
  show "outbox_inv ob \<Longrightarrow> item_at ob i = Some e \<Longrightarrow>
      dt_provider (de_target e) \<noteq> p \<or> \<not> is_delivery_due e now \<Longrightarrow>
      item_at (snd (port_lease_due in_memory_port ob p now m secs)) i = Some e" for ob i e p now m secs
    using outbox_poll_frame [of ob i e p now m secs] by simp
qed (auto simp: get_delivery_def lease_due_inv complete_def release_def
      split: option.splits
      dest: apply_report_stored apply_report_error apply_report_again lease_due_stored apply_report_applies)

section \<open>Properties\<close>


text \<open>
  C3. Reports take effect exactly once. After an accepted report (completed or released), at any
  later point of any run, the same report returns the delivery as it then is and changes nothing,
  whether it is sent as a completion or as a release; any different report for the same lease is
  refused as a conflict and changes nothing.
\<close>

theorem report_exactly_once:
  assumes "outbox_inv ob" and "one_report_per_lease ob"
    and "complete ob i l r t = (Inr e, ob') \<or> release ob i l retry r t = (Inr e, ob')"
    and "ops_ok ob' ops" and "ob2 = outbox_run ob' ops"
  shows "\<exists>cur. item_at ob2 i = Some cur \<and>
    complete ob2 i l r t2 = (Inr cur, ob2) \<and> release ob2 i l retry2 r t2 = (Inr cur, ob2) \<and>
    (\<forall>r'. result_fingerprint i l r' \<noteq> result_fingerprint i l r \<longrightarrow>
       complete ob2 i l r' t2 = (Inl (DeliveryOutboxError ''delivery_report_conflict''), ob2) \<and>
       release ob2 i l retry2 r' t2 = (Inl (DeliveryOutboxError ''delivery_report_conflict''), ob2))"
proof -
  have inv': "outbox_inv ob'" and one': "one_report_per_lease ob'"
    using assms(1-3) complete_inv release_inv one_report_apply
    by (metis complete_def release_def snd_conv)+
  have rec: "result_fingerprint i l r \<in> report_history ob' i"
    using assms(3) by (auto simp: complete_def release_def dest: apply_report_recorded)
  have rec2: "result_fingerprint i l r \<in> report_history ob2 i"
    using outbox_run_history [OF inv' assms(4)] rec assms(5) unfolding history_grows_def by blast
  have one2: "one_report_per_lease ob2"
    using one_report_run [OF inv' one' assms(4)] assms(5) by simp
  have "item_at ob' i \<noteq> None"
    using assms(3) by (auto simp: complete_def release_def dict_get_set elim!: apply_report_cases)
  then obtain cur where cur: "item_at ob2 i = Some cur"
    using outbox_run_evolve [OF inv' assms(4)] assms(5) unfolding items_evolve_def by auto
  have lease: "fingerprint_lease (result_fingerprint i l x) = l" for x
    by (simp add: fingerprint_lease_def result_fingerprint_def)
  have new: "result_fingerprint i l r' \<notin> report_history ob2 i"
    if "result_fingerprint i l r' \<noteq> result_fingerprint i l r" for r'
    using one2 rec2 lease that unfolding one_report_per_lease_def by metis
  show ?thesis
    using cur rec2 new apply_report_repeat [OF rec2 cur] apply_report_conflict [OF rec2 lease _ cur]
    unfolding complete_def release_def by blast
qed

text \<open>
  A poll never fails, and does exactly this: it returns at most the requested number of
  deliveries, in strictly increasing order of creation time and delivery id; each of them was stored
  for the polled provider, due, and below its attempt limit, and is stored now as its leased copy;
  if the poll is not full, every due delivery of the provider has been leased, or failed because
  its attempts were used up; and every other delivery is untouched.
\<close>

theorem lease_due_spec:
  assumes "outbox_inv ob"
  shows "\<exists>out ob'. lease_due ob p now m secs = (Inr out, ob') \<and>
    int (length out) \<le> max 0 m \<and> sorted_wrt (<) (map envelope_sort_key out) \<and>
    (\<forall>e'\<in>set out. item_at ob' (de_delivery_id e') = Some e' \<and>
       (\<exists>e l. item_at ob (de_delivery_id e') = Some e \<and> pollable p now e \<and>
          de_attempts e < de_max_attempts e \<and>
          e' = lease_delivery e l now secs (de_not_before e))) \<and>
    (int (length out) < m \<longrightarrow>
       (\<forall>i e. item_at ob i = Some e \<and> pollable p now e \<longrightarrow>
          (\<exists>e'. item_at ob' i = Some e' \<and>
             (e' \<in> set out \<or> de_attempts e \<ge> de_max_attempts e \<and>
                e' = fail_exhausted_delivery e now ''max_attempts_exceeded'')))) \<and>
    (\<forall>i e. item_at ob i = Some e \<and> \<not> pollable p now e \<longrightarrow> item_at ob' i = Some e)"
proof -
  have ok: "outbox_keys_ok ob" using assms by (simp add: outbox_inv_def)
  obtain out ob' where res: "lease_due ob p now m secs = (Inr out, ob')"
    using lease_due_never_fails by blast
  let ?xs = "sort_key envelope_sort_key (dict_values (ob_items ob))"
  have spec: "poll_spec p now m secs 0 ?xs out ob'"
    by (rule lease_due_result [OF ok res])
  have ids: "de_delivery_id e = i" if "item_at ob i = Some e" for i e
    using ok that unfolding outbox_keys_ok_def by blast
  have mem: "e \<in> set ?xs \<longleftrightarrow> item_at ob (de_delivery_id e) = Some e" for e
    using keys_ok_values [OF ok] by simp
  have pr: "poll_result p now secs ?xs out ob'" using spec by (simp add: poll_spec_def)
  have r1: "item_at ob' (de_delivery_id e') = Some e' \<and>
      (\<exists>e l. item_at ob (de_delivery_id e') = Some e \<and> pollable p now e \<and>
         de_attempts e < de_max_attempts e \<and> e' = lease_delivery e l now secs (de_not_before e))"
    if "e' \<in> set out" for e'
  proof -
    from pr that obtain e l where "item_at ob' (de_delivery_id e') = Some e'" "e \<in> set ?xs"
      "pollable p now e" "de_attempts e < de_max_attempts e"
      and e': "e' = lease_delivery e l now secs (de_not_before e)"
      unfolding poll_result_def by blast
    moreover from e' have "de_delivery_id e' = de_delivery_id e" by (simp add: delivery_simps)
    ultimately show ?thesis using mem [of e] by auto
  qed
  have r2: "int (length out) < m \<longrightarrow> poll_complete p now ?xs out ob'"
    using spec by (simp add: poll_spec_def)
  have r3: "item_at ob' i = Some e" if "item_at ob i = Some e" "\<not> pollable p now e" for i e
    using lease_due_untouched [OF ok that] res by (metis snd_conv)
  from spec have "int (length out) \<le> max 0 m" "sorted_wrt (<) (map envelope_sort_key out)"
    by (simp_all add: poll_spec_def)
  moreover have "int (length out) < m \<Longrightarrow> item_at ob i = Some e \<Longrightarrow> pollable p now e \<Longrightarrow>
      \<exists>e'. item_at ob' i = Some e' \<and> (e' \<in> set out \<or> de_attempts e \<ge> de_max_attempts e \<and>
        e' = fail_exhausted_delivery e now ''max_attempts_exceeded'')" for i e
    using r2 ids [of i e] mem [of e] unfolding poll_complete_def by blast
  ultimately show ?thesis using res r1 r3 by blast
qed

text \<open>
  C5. A lease is exclusive. While a delivery is leased and its lease has not expired, a poll by any
  provider, at any instant before the expiry, leaves it untouched and does not hand it out; and no
  other delivery holds the same lease id.
\<close>

theorem lease_exclusive:
  assumes "outbox_inv ob" and "item_at ob i = Some e" and "de_status e = DS_LEASED"
    and "de_lease_expires_at e = Some expiry" and "now < expiry"
    and "lease_due ob p now m secs = (Inr out, ob')"
  shows "item_at ob' i = Some e \<and> i \<notin> de_delivery_id ` set out \<and>
    (\<forall>j e2. item_at ob' j = Some e2 \<and> de_lease_id e2 = de_lease_id e \<longrightarrow> j = i)"
proof -
  have ok: "outbox_keys_ok ob" using assms(1) by (simp add: outbox_inv_def)
  have notdue: "\<not> is_delivery_due e now" by (rule leased_not_due) (use assms in auto)
  then have keep: "item_at ob' i = Some e"
    using lease_due_untouched [OF ok assms(2)] assms(6) by (metis snd_conv)
  have "poll_result p now secs (sort_key envelope_sort_key (dict_values (ob_items ob))) out ob'"
    using lease_due_result [OF ok assms(6)] by (simp add: poll_spec_def)
  have "i \<notin> de_delivery_id ` set out"
  proof
    assume "i \<in> de_delivery_id ` set out"
    then obtain e' where "e' \<in> set out" "i = de_delivery_id e'" by blast
    then obtain x l where x: "x \<in> set (sort_key envelope_sort_key (dict_values (ob_items ob)))"
      "pollable p now x" "i = de_delivery_id (lease_delivery x l now secs (de_not_before x))"
      using \<open>poll_result p now secs _ out ob'\<close> unfolding poll_result_def by metis
    then have "item_at ob i = Some x" using keys_ok_values [OF ok] by (simp add: delivery_simps)
    with assms(2) x(2) notdue show False by simp
  qed
  moreover have "outbox_inv ob'" using lease_due_inv [OF assms(1)] assms(6) by (metis snd_conv)
  moreover have "wf_delivery e" using ok assms(2) unfolding outbox_keys_ok_def by blast
  then obtain l where "de_lease_id e = Some l" using assms(3) by (auto simp: wf_delivery_def)
  moreover have "j = i" if "item_at ob' j = Some e2" "de_lease_id e2 = de_lease_id e" for j e2
    by (rule leases_unique [OF _ that(1) keep])
      (use that \<open>outbox_inv ob'\<close> \<open>de_lease_id e = Some l\<close> in \<open>simp_all add: outbox_inv_def\<close>)
  ultimately show ?thesis using keep by blast
qed

text \<open>
  C6. The depth limit holds. In every run that starts from an empty outbox with a per-provider
  limit, the number of live (not terminal) deliveries of any provider never exceeds the limit.
\<close>

theorem outbox_depth_bounded:
  assumes "ops_ok (in_memory_outbox_init (Some limit)) ops" and "0 \<le> limit"
  shows "int (provider_depth (outbox_run (in_memory_outbox_init (Some limit)) ops) p) \<le> limit"
proof -
  let ?ob = "in_memory_outbox_init (Some limit)"
  have "depth_ok ?ob"
    using assms(2) by (simp add: depth_ok_def provider_depth_def in_memory_outbox_init_def)
  then have "depth_ok (outbox_run ?ob ops)"
    using depth_ok_run outbox_inv_init assms(1) by blast
  moreover have "ob_max_depth_per_provider (outbox_run ?ob ops) = Some limit"
    using outbox_run_limit [OF outbox_inv_init assms(1)] by (simp add: in_memory_outbox_init_def)
  ultimately show ?thesis using assms(2) by (auto simp: depth_ok_def)
qed

text \<open>
  Enqueueing is idempotent. Once a delivery is stored, an enqueue with the same idempotency key
  (of a deliverable action) at any later point of a run returns the stored delivery in its current
  state and changes nothing, whatever else the second envelope holds; the depth limit is not applied
  to it.
\<close>

theorem enqueue_idempotent:
  assumes "outbox_inv ob" and "item_at ob i = Some e" and "ops_ok ob ops"
    and "ob2 = outbox_run ob ops" and "de_idempotency_key e2 = de_idempotency_key e"
    and "de_idempotency_key e \<noteq> []" and "\<not> is_no_action (de_action e2)"
  shows "\<exists>cur. item_at ob2 i = Some cur \<and> delivery_steps e cur \<and> enqueue ob2 e2 = (Inr cur, ob2)"
proof -
  from outbox_run_evolve [OF assms(1,3)] assms(2,4) obtain cur
    where cur: "item_at ob2 i = Some cur" "delivery_steps e cur" and inv: "outbox_inv ob2"
    unfolding items_evolve_def by blast
  have "de_idempotency_key cur = de_idempotency_key e"
    using delivery_steps_same [OF cur(2)] by (simp add: same_delivery_def)
  then have "dict_get (ob_idempotency_index ob2) (de_idempotency_key e2) = Some i"
    using inv cur(1) assms(5) unfolding outbox_inv_def outbox_keys_ok_def by metis
  with cur assms(5-7) show ?thesis
    by (cases "de_action e2") (auto simp: enqueue_def is_no_action_def)
qed

section \<open>Concrete runs\<close>

definition example_outbox :: in_memory_outbox where
  "example_outbox = snd (enqueue (in_memory_outbox_init (Some 2)) example_delivery)"

definition example_result :: action_result where
  "example_result =
     \<lparr>ar_action_id = ''action:o1'', ar_correlation_id = ''c1'', ar_status = AS_SUCCEEDED,
      ar_delivered_at = None, ar_external_message_id = Some ''m1'', ar_error_reason = None\<rparr>"

lemma example_outbox_eq:
  "example_outbox =
     \<lparr>ob_max_depth_per_provider = Some 2, ob_items = [(''delivery:o1'', example_delivery)],
      ob_idempotency_index = [(''k1'', ''delivery:o1'')], ob_report_index = [], ob_lease_counter = 0\<rparr>"
  by (simp add: example_outbox_def enqueue_def in_memory_outbox_init_def example_delivery_def
      depth_exceeded_def dict_values_def)

lemma example_outbox_inv: "outbox_inv example_outbox"
  unfolding example_outbox_def
  by (rule enqueue_inv [OF outbox_inv_init])
    (simp_all add: new_delivery_def example_delivery_def in_memory_outbox_init_def)

definition example_leased :: delivery_envelope where
  "example_leased = lease_delivery example_delivery ''lease-1'' 5 30 None"

lemma example_poll:
  "lease_due example_outbox ''discord'' 5 3 30 =
     (Inr [example_leased],
      example_outbox\<lparr>ob_items := [(''delivery:o1'', example_leased)], ob_lease_counter := 1\<rparr>)"
  by (simp add: lease_due_def example_outbox_eq dict_values_def example_delivery_def example_target_def
      example_leased_def is_delivery_due_def TERMINAL_DELIVERY_STATUSES_def lease_one_def
      leased_copy_eq delivery_simps lease_name_def show_nat.simps)

definition example_outbox_leased :: in_memory_outbox where
  "example_outbox_leased = snd (lease_due example_outbox ''discord'' 5 3 30)"

lemma example_outbox_leased_eq:
  "example_outbox_leased =
     \<lparr>ob_max_depth_per_provider = Some 2, ob_items = [(''delivery:o1'', example_leased)],
      ob_idempotency_index = [(''k1'', ''delivery:o1'')], ob_report_index = [], ob_lease_counter = 1\<rparr>"
  unfolding example_outbox_leased_def example_poll by (simp add: example_outbox_eq)

lemma example_leased_fields [simp]:
  "de_delivery_id example_leased = ''delivery:o1''" "de_status example_leased = DS_LEASED"
  "de_lease_id example_leased = Some ''lease-1''" "de_lease_expires_at example_leased = Some 30000005"
  "de_not_before example_leased = None"
  by (simp_all add: example_leased_def delivery_simps example_delivery_def timedelta_seconds_def
      round_half_even_def)

lemma example_outbox_leased_inv: "outbox_inv example_outbox_leased"
  unfolding example_outbox_leased_def by (rule lease_due_inv [OF example_outbox_inv])


lemma report_exactly_once_witness:
  "\<exists>cur. item_at (snd (complete example_outbox_leased ''delivery:o1'' (Some ''lease-1'') example_result 9))
     ''delivery:o1'' = Some cur \<and> de_status cur = DS_SUCCEEDED \<and>
   complete (snd (complete example_outbox_leased ''delivery:o1'' (Some ''lease-1'') example_result 9))
     ''delivery:o1'' (Some ''lease-1'') example_result 10 =
   (Inr cur, snd (complete example_outbox_leased ''delivery:o1'' (Some ''lease-1'') example_result 9))"
proof -
  define ob' where
    "ob' = snd (complete example_outbox_leased ''delivery:o1'' (Some ''lease-1'') example_result 9)"
  obtain e where e: "complete example_outbox_leased ''delivery:o1'' (Some ''lease-1'') example_result 9
      = (Inr e, ob')" "item_at ob' ''delivery:o1'' = Some e" "de_status e = DS_SUCCEEDED"
    by (simp add: ob'_def example_outbox_leased_eq complete_def apply_report_def get_delivery_def
        report_history_def classify_report_def complete_delivery_eq require_reportable_lease_def
        TERMINAL_DELIVERY_STATUSES_def example_result_def Let_def)
  have "one_report_per_lease example_outbox_leased"
    unfolding one_report_per_lease_def
    by (simp add: example_outbox_leased_eq report_history_def)
  from report_exactly_once [OF example_outbox_leased_inv this disjI1 [OF e(1)], of "[]" ob' 10] e(2,3)
  show ?thesis unfolding ob'_def [symmetric] by auto
qed

lemma lease_due_spec_witness:
  "outbox_inv example_outbox \<and>
   (\<exists>out ob'. lease_due example_outbox ''discord'' 5 3 30 = (Inr out, ob') \<and> int (length out) \<le> 3)"
  using lease_due_spec [OF example_outbox_inv, of "''discord''" 5 3 30] example_outbox_inv by auto

lemma lease_exclusive_witness:
  "item_at (snd (lease_due example_outbox_leased ''discord'' 6 3 30)) ''delivery:o1'' = Some example_leased \<and>
   fst (lease_due example_outbox_leased ''discord'' 6 3 30) = Inr []"
proof -
  obtain out ob' where res: "lease_due example_outbox_leased ''discord'' 6 3 30 = (Inr out, ob')"
    using lease_due_never_fails by blast
  have "item_at ob' ''delivery:o1'' = Some example_leased"
    using lease_exclusive [OF example_outbox_leased_inv, of "''delivery:o1''" example_leased
        30000005 6 "''discord''" 3 30 out ob'] res
    by (simp add: example_outbox_leased_eq)
  moreover have "out = []"
    using res by (simp add: lease_due_def example_outbox_leased_eq dict_values_def is_delivery_due_def
        TERMINAL_DELIVERY_STATUSES_def split: if_splits)
  ultimately show ?thesis using res by simp
qed

lemma outbox_depth_bounded_witness:
  "provider_depth (outbox_run (in_memory_outbox_init (Some 2)) [Op_enqueue example_delivery]) ''discord'' = 1 \<and>
   int (provider_depth (outbox_run (in_memory_outbox_init (Some 2)) [Op_enqueue example_delivery])
     ''discord'') \<le> 2"
proof -
  have "ops_ok (in_memory_outbox_init (Some 2)) [Op_enqueue example_delivery]"
    by (simp add: new_delivery_def example_delivery_def in_memory_outbox_init_def)
  moreover have "outbox_run (in_memory_outbox_init (Some 2)) [Op_enqueue example_delivery] = example_outbox"
    by (simp add: example_outbox_def)
  moreover have "provider_depth example_outbox ''discord'' = 1"
    by (simp add: example_outbox_eq provider_depth_def dict_count_def dict_values_def
        example_delivery_def example_target_def TERMINAL_DELIVERY_STATUSES_def)
  ultimately show ?thesis
    using outbox_depth_bounded [of 2 "[Op_enqueue example_delivery]" "''discord''"] by simp
qed

lemma enqueue_idempotent_witness:
  "enqueue (outbox_run example_outbox [Op_lease_due ''discord'' 5 3 30]) example_delivery =
     (Inr example_leased, outbox_run example_outbox [Op_lease_due ''discord'' 5 3 30])"
proof -
  have "\<exists>cur. item_at (outbox_run example_outbox [Op_lease_due ''discord'' 5 3 30]) ''delivery:o1'' = Some cur \<and>
      delivery_steps example_delivery cur \<and>
      enqueue (outbox_run example_outbox [Op_lease_due ''discord'' 5 3 30]) example_delivery =
        (Inr cur, outbox_run example_outbox [Op_lease_due ''discord'' 5 3 30])"
    by (rule enqueue_idempotent [OF example_outbox_inv _ _ refl refl, where e = example_delivery])
      (simp_all add: example_outbox_eq example_delivery_def is_no_action_def)
  then show ?thesis by (simp add: example_poll)
qed

end
