(* ===== verification/Delivery_Sqlite_Runs.thy ===== *)
theory Delivery_Sqlite_Runs
  imports Delivery_Sqlite_Rows Delivery_Outbox_Runs
begin

text \<open>
  Runs of the durable outbox. The poll is computed exactly, every operation keeps the database
  invariant and refines the delivery lifecycle, and the contract of \<open>Delivery_Port\<close> is discharged
  for the SQLite operations.
\<close>

section \<open>The poll\<close>

text \<open>
  The rows a poll reads, in order, and the envelopes they hold. The loop leases the first
  \<open>max_items\<close> envelopes that are due and have attempts left, and fails the exhausted ones it meets.
\<close>

definition leasable :: "datetime \<Rightarrow> delivery_envelope \<Rightarrow> bool" where
  "leasable now e \<longleftrightarrow> is_delivery_due e now \<and> de_attempts e < de_max_attempts e"

definition decoded_rows :: "hints_codec \<Rightarrow> delivery_row list \<Rightarrow> delivery_envelope list" where
  "decoded_rows c rows = map (\<lambda>row. case model_to_envelope c row of Inr e \<Rightarrow> e) rows"

definition row_snapshot :: "(string, delivery_row) dict \<Rightarrow> delivery_row list \<Rightarrow> bool" where
  "row_snapshot rows xs \<longleftrightarrow>
     distinct (map row_delivery_id xs) \<and> (\<forall>row\<in>set xs. dict_get rows (row_delivery_id row) = Some row)"

lemma sqlite_lease_item_status [simp]:
  "de_status (sqlite_lease_item e now secs) = DS_LEASED \<longleftrightarrow> de_attempts e < de_max_attempts e"
  by (auto simp: sqlite_lease_item_def delivery_simps)

lemma sqlite_lease_item_same [simp]: "same_delivery e (sqlite_lease_item e now secs)"
  by (auto simp: sqlite_lease_item_def delivery_simps same_delivery_def)

definition loop_effect ::
  "hints_codec \<Rightarrow> datetime \<Rightarrow> seconds \<Rightarrow> delivery_row list \<Rightarrow> (string, delivery_row) dict
     \<Rightarrow> (string, delivery_row) dict \<Rightarrow> bool" where
  "loop_effect c now secs xs rows rows' \<longleftrightarrow>
     rows_ok c rows' \<and>
     (\<forall>i. rows_lookup c rows' i = rows_lookup c rows i \<or>
        (\<exists>e. i \<in> row_delivery_id ` set xs \<and> rows_lookup c rows i = Some e \<and> is_delivery_due e now \<and>
           rows_lookup c rows' i = Some (sqlite_lease_item e now secs))) \<and>
     (idempotency_unique rows \<longrightarrow> idempotency_unique rows')"

lemma loop_effect_refl: "rows_ok c rows \<Longrightarrow> loop_effect c now secs xs rows rows"
  by (simp add: loop_effect_def)

lemma loop_effect_Cons:
  assumes "loop_effect c now secs xs (dict_set i (update_model row (sqlite_lease_item e now secs)) rows) rows'"
    and "model_to_envelope c row = Inr e" and "is_delivery_due e now" and "rows_lookup c rows i = Some e"
    and "dict_get rows i = Some row" and "i = row_delivery_id row" and "i \<notin> row_delivery_id ` set xs"
  shows "loop_effect c now secs (row # xs) rows rows' \<and>
    rows_lookup c rows' i = Some (sqlite_lease_item e now secs)"
proof -
  let ?rows1 = "dict_set i (update_model row (sqlite_lease_item e now secs)) rows"
  have look: "rows_lookup c ?rows1 j =
      (if j = i then Some (sqlite_lease_item e now secs) else rows_lookup c rows j)" for j
    using assms(2) by (rule rows_lookup_set) simp
  have step: "rows_lookup c rows' j = rows_lookup c ?rows1 j \<or>
      (\<exists>e. j \<in> row_delivery_id ` set xs \<and> rows_lookup c ?rows1 j = Some e \<and> is_delivery_due e now \<and>
        rows_lookup c rows' j = Some (sqlite_lease_item e now secs))" for j
    using assms(1) unfolding loop_effect_def by blast
  have at_i: "rows_lookup c rows' i = Some (sqlite_lease_item e now secs)"
    using step [of i] assms(7) by (simp add: look)
  have "rows_lookup c rows' j = rows_lookup c rows j \<or>
      (\<exists>e. j \<in> row_delivery_id ` set (row # xs) \<and> rows_lookup c rows j = Some e \<and>
        is_delivery_due e now \<and> rows_lookup c rows' j = Some (sqlite_lease_item e now secs))" for j
  proof (cases "j = i")
    case True
    with at_i assms(3,4) show ?thesis using assms(6) by auto
  next
    case False
    with step [of j, unfolded look] show ?thesis by auto
  qed
  moreover have "idempotency_unique rows \<Longrightarrow> idempotency_unique rows'"
    using assms(1,5) idempotency_unique_set unfolding loop_effect_def by blast
  ultimately show ?thesis using assms(1) at_i unfolding loop_effect_def by blast
qed

lemma loop_effect_skip: "loop_effect c now secs xs rows rows' \<Longrightarrow> loop_effect c now secs (row # xs) rows rows'"
  unfolding loop_effect_def by (metis image_insert insertCI list.simps(15))

lemma row_snapshot_set:
  "row_snapshot rows xs \<Longrightarrow> i \<notin> row_delivery_id ` set xs \<Longrightarrow> row_snapshot (dict_set i r rows) xs"
  by (auto simp: row_snapshot_def dict_get_set)

lemma sqlite_lease_loop_spec:
  assumes "rows_ok c rows" and "row_snapshot rows xs"
  shows "\<exists>rows'. sqlite_lease_loop c now m secs due xs rows =
      Inr (due @ take (nat (m - int (length due)))
        (map (\<lambda>e. sqlite_lease_item e now secs) (filter (leasable now) (decoded_rows c xs))), rows') \<and>
    loop_effect c now secs xs rows rows' \<and>
    (\<forall>e\<in>set (take (nat (m - int (length due))) (filter (leasable now) (decoded_rows c xs))).
       rows_lookup c rows' (de_delivery_id e) = Some (sqlite_lease_item e now secs))"
  using assms
proof (induction xs arbitrary: due rows)
  case Nil
  then show ?case by (simp add: decoded_rows_def loop_effect_refl)
next
  case (Cons row xs)
  let ?i = "row_delivery_id row"
  from Cons.prems(2) have get: "dict_get rows ?i = Some row" and snap: "row_snapshot rows xs"
    and fresh: "?i \<notin> row_delivery_id ` set xs"
    by (auto simp: row_snapshot_def)
  obtain e where e: "model_to_envelope c row = Inr e" "stored_ok ?i e" "rows_lookup c rows ?i = Some e"
    "de_delivery_id e = ?i"
    using rows_ok_get [OF Cons.prems(1) get] by metis
  then have dec: "decoded_rows c (row # xs) = e # decoded_rows c xs" by (simp add: decoded_rows_def)
  consider (full) "int (length due) \<ge> m" | (skip) "int (length due) < m" "\<not> is_delivery_due e now"
    | (due) "int (length due) < m" "is_delivery_due e now" by linarith
  then show ?case
  proof cases
    case full
    with Cons.prems(1) show ?thesis by (simp add: loop_effect_refl)
  next
    case skip
    then have "\<not> leasable now e" by (simp add: leasable_def)
    with skip Cons.IH [OF Cons.prems(1) snap, of due] show ?thesis
      by (auto simp: dec e intro: loop_effect_skip)
  next
    case due
    let ?l = "sqlite_lease_item e now secs"
    let ?due = "if de_status ?l = DS_LEASED then due @ [?l] else due"
    let ?rows1 = "dict_set ?i (update_model row ?l) rows"
    have "stored_ok ?i ?l"
      using stored_step_lease_item [OF due(2)] e(2) by (simp add: stored_step_def)
    then have "rows_ok c ?rows1" by (rule rows_ok_set [OF Cons.prems(1) e(1) sqlite_lease_item_same])
    from Cons.IH [OF this row_snapshot_set [OF snap fresh], of ?due] obtain rows' where
      loop: "sqlite_lease_loop c now m secs ?due xs ?rows1 =
        Inr (?due @ take (nat (m - int (length ?due)))
          (map (\<lambda>e. sqlite_lease_item e now secs) (filter (leasable now) (decoded_rows c xs))), rows')"
      and eff: "loop_effect c now secs xs ?rows1 rows'"
      and got: "\<forall>e\<in>set (take (nat (m - int (length ?due))) (filter (leasable now) (decoded_rows c xs))).
         rows_lookup c rows' (de_delivery_id e) = Some (sqlite_lease_item e now secs)"
      by blast
    from loop_effect_Cons [OF eff e(1) due(2) e(3) get refl fresh]
    have eff': "loop_effect c now secs (row # xs) rows rows'"
      and at_i: "rows_lookup c rows' ?i = Some ?l" by blast+
    have step: "sqlite_lease_loop c now m secs due (row # xs) rows = sqlite_lease_loop c now m secs ?due xs ?rows1"
      using due by (simp add: e(1) Let_def)
    have Suc: "nat (m - int (length due)) = Suc (nat (m - int (length (due @ [?l]))))"
      using due(1) by simp
    show ?thesis
    proof (cases "leasable now e")
      case True
      then have "?due = due @ [?l]" by (simp add: leasable_def)
      with True loop got at_i eff' e(4) show ?thesis
        unfolding step dec Suc by (simp del: sqlite_lease_loop.simps)
    next
      case False
      with due(2) have "?due = due" by (simp add: leasable_def)
      with False loop got eff' show ?thesis
        unfolding step dec by (simp del: sqlite_lease_loop.simps)
    qed
  qed
qed

text \<open>The selected rows are a snapshot; their envelopes are the live ones of the provider, in order.\<close>

definition stored_envelopes :: "hints_codec \<Rightarrow> sqlite_outbox \<Rightarrow> delivery_envelope list" where
  "stored_envelopes c db = decoded_rows c (dict_values (sq_rows db))"

lemma rows_ok_values:
  assumes "rows_ok c rows" and "row \<in> set (dict_values rows)"
  obtains e where "model_to_envelope c row = Inr e" "dict_get rows (row_delivery_id row) = Some row"
proof -
  have "dict_wf rows" using assms(1) by (simp add: rows_ok_def)
  with assms(2) obtain i where get: "dict_get rows i = Some row"
    using dict_values_set_iff by metis
  then obtain e where "model_to_envelope c row = Inr e" "row_delivery_id row = i"
    using rows_ok_get [OF assms(1) get] by metis
  with get show thesis using that by simp
qed

lemma row_snapshot_values:
  assumes "rows_ok c rows"
  shows "distinct (map row_delivery_id (dict_values rows))"
proof -
  have ids: "row_delivery_id row = i" if "dict_get rows i = Some row" for i row
    by (rule rows_ok_get [OF assms that])
  have wf: "distinct (map fst rows)" using assms by (simp add: rows_ok_def dict_wf_def dict_keys_def)
  have "map row_delivery_id (dict_values rows) = map fst rows"
    unfolding dict_values_def using ids wf by (auto simp: map_eq_conv)
  with wf show ?thesis by simp
qed

lemma select_due_snapshot:
  assumes "rows_ok c (sq_rows db)"
  shows "row_snapshot (sq_rows db) (select_due_rows db p)"
proof -
  let ?P = "\<lambda>row. row_target_provider row = p \<and>
    row_status row \<in> {delivery_status_value DS_PENDING, delivery_status_value DS_LEASED}"
  have "distinct (map row_delivery_id (select_due_rows db p)) \<longleftrightarrow>
      distinct (map row_delivery_id (filter ?P (dict_values (sq_rows db))))"
    unfolding select_due_rows_def by (simp add: distinct_map)
  moreover have "distinct (map row_delivery_id (filter ?P (dict_values (sq_rows db))))"
    using row_snapshot_values [OF assms] by (rule distinct_map_filter)
  moreover have "dict_get (sq_rows db) (row_delivery_id row) = Some row"
    if "row \<in> set (select_due_rows db p)" for row
    using that by (auto simp: select_due_rows_def intro: rows_ok_values [OF assms])
  ultimately show ?thesis by (simp add: row_snapshot_def)
qed

lemma filter_leasable_select:
  assumes "rows_ok c (sq_rows db)"
  shows "filter (leasable now) (decoded_rows c (select_due_rows db p)) =
    sort_key envelope_sort_key
      (filter (\<lambda>e. dt_provider (de_target e) = p \<and> leasable now e) (stored_envelopes c db))"
proof -
  let ?d = "\<lambda>row. case model_to_envelope c row of Inr e \<Rightarrow> e"
  let ?k = "\<lambda>row. (iso_instant (row_created_at row), row_delivery_id row)"
  let ?P = "\<lambda>row. row_target_provider row = p \<and>
    row_status row \<in> {delivery_status_value DS_PENDING, delivery_status_value DS_LEASED}"
  let ?vs = "dict_values (sq_rows db)"
  have P: "?P row \<and> leasable now (?d row) \<longleftrightarrow>
      dt_provider (de_target (?d row)) = p \<and> leasable now (?d row)"
    and K: "?k row = envelope_sort_key (?d row)" if row: "row \<in> set ?vs" for row
  proof -
    obtain e where e: "model_to_envelope c row = Inr e" using rows_ok_values [OF assms row] by blast
    note f = model_to_envelope_fields [OF e]
    from e f show "?k row = envelope_sort_key (?d row)" by (simp add: envelope_sort_key_def)
    from e f show "?P row \<and> leasable now (?d row) \<longleftrightarrow>
        dt_provider (de_target (?d row)) = p \<and> leasable now (?d row)"
      by (auto simp: leasable_def dest: is_delivery_due_live)
  qed
  have "filter (leasable now) (decoded_rows c (select_due_rows db p)) =
      map ?d (sort_key ?k (filter (\<lambda>row. ?P row \<and> leasable now (?d row)) ?vs))"
    by (simp add: decoded_rows_def select_due_rows_def filter_map filter_sort o_def conj_commute)
  also have "filter (\<lambda>row. ?P row \<and> leasable now (?d row)) ?vs =
      filter (\<lambda>row. dt_provider (de_target (?d row)) = p \<and> leasable now (?d row)) ?vs"
    by (rule filter_cong) (use P in auto)
  also have "sort_key ?k \<dots> = sort_key (\<lambda>row. envelope_sort_key (?d row)) \<dots>"
    by (rule sort_key_cong_set) (use K in auto)
  also have "map ?d (sort_key (\<lambda>row. envelope_sort_key (?d row))
      (filter (\<lambda>row. dt_provider (de_target (?d row)) = p \<and> leasable now (?d row)) ?vs)) =
    sort_key envelope_sort_key
      (map ?d (filter (\<lambda>row. dt_provider (de_target (?d row)) = p \<and> leasable now (?d row)) ?vs))"
    by (rule map_sort_key)
  finally show ?thesis
    by (simp add: stored_envelopes_def decoded_rows_def filter_map o_def)
qed

lemma sqlite_lease_due_eq:
  assumes "rows_ok c (sq_rows db)"
  shows "\<exists>rows'. sqlite_lease_due c db p now m secs =
      (Inr (map (\<lambda>e. sqlite_lease_item e now secs)
         (take (nat m) (sort_key envelope_sort_key
            (filter (\<lambda>e. dt_provider (de_target e) = p \<and> leasable now e) (stored_envelopes c db))))),
       db\<lparr>sq_rows := rows'\<rparr>) \<and>
    loop_effect c now secs (select_due_rows db p) (sq_rows db) rows' \<and>
    (\<forall>e\<in>set (take (nat m) (sort_key envelope_sort_key
            (filter (\<lambda>e. dt_provider (de_target e) = p \<and> leasable now e) (stored_envelopes c db)))).
       rows_lookup c rows' (de_delivery_id e) = Some (sqlite_lease_item e now secs))"
proof -
  note spec = sqlite_lease_loop_spec [OF assms select_due_snapshot [OF assms], of now m secs "[]"]
  then obtain rows' where
    "sqlite_lease_loop c now m secs [] (select_due_rows db p) (sq_rows db) =
       Inr (take (nat m) (map (\<lambda>e. sqlite_lease_item e now secs)
         (filter (leasable now) (decoded_rows c (select_due_rows db p)))), rows')"
    "loop_effect c now secs (select_due_rows db p) (sq_rows db) rows'"
    "\<forall>e\<in>set (take (nat m) (filter (leasable now) (decoded_rows c (select_due_rows db p)))).
       rows_lookup c rows' (de_delivery_id e) = Some (sqlite_lease_item e now secs)"
    by auto
  then show ?thesis
    unfolding filter_leasable_select [OF assms]
    by (intro exI [of _ rows']) (simp add: sqlite_lease_due_def take_map)
qed

text \<open>A poll touches only the due deliveries of its provider.\<close>

lemma loop_effect_select:
  assumes "rows_ok c (sq_rows db)" and "loop_effect c now secs (select_due_rows db p) (sq_rows db) rows'"
    and e: "sqlite_lookup c db i = Some e"
  shows "rows_lookup c rows' i = Some e \<or>
    is_delivery_due e now \<and> dt_provider (de_target e) = p \<and>
      rows_lookup c rows' i = Some (sqlite_lease_item e now secs)"
proof (cases "rows_lookup c rows' i = Some e")
  case False
  have "rows_lookup c rows' i = rows_lookup c (sq_rows db) i \<or>
      (\<exists>e. i \<in> row_delivery_id ` set (select_due_rows db p) \<and> rows_lookup c (sq_rows db) i = Some e \<and>
        is_delivery_due e now \<and> rows_lookup c rows' i = Some (sqlite_lease_item e now secs))"
    using assms(2) unfolding loop_effect_def by blast
  with False e have at: "i \<in> row_delivery_id ` set (select_due_rows db p)" "is_delivery_due e now"
    "rows_lookup c rows' i = Some (sqlite_lease_item e now secs)" by auto
  from at(1) obtain row where row: "row \<in> set (select_due_rows db p)" "i = row_delivery_id row"
    by blast
  then have "dict_get (sq_rows db) i = Some row"
    using select_due_snapshot [OF assms(1), of p] by (simp add: row_snapshot_def)
  then have "model_to_envelope c row = Inr e"
    using e by (auto simp: rows_lookup_def split: sum.splits)
  then have "dt_provider (de_target e) = p"
    using model_to_envelope_fields row(1) by (simp add: select_due_rows_def)
  with at show ?thesis by blast
qed simp

section \<open>Every operation moves each stored envelope along the lifecycle\<close>

definition db_evolves :: "hints_codec \<Rightarrow> sqlite_outbox \<Rightarrow> sqlite_outbox \<Rightarrow> bool" where
  "db_evolves c db db' \<longleftrightarrow>
     (\<forall>i e. sqlite_lookup c db i = Some e \<longrightarrow> (\<exists>e'. sqlite_lookup c db' i = Some e' \<and> stored_step e e'))"

lemma db_evolves_refl [simp]: "db_evolves c db db"
  by (auto simp: db_evolves_def)

lemma db_evolves_lookup: "db_evolves c db db' \<Longrightarrow> lookup_evolves (sqlite_lookup c) db db'"
  unfolding db_evolves_def lookup_evolves_def stored_step_def by blast

lemma fingerprints_okD:
  "fingerprints_ok c db \<Longrightarrow> dict_get (sq_fingerprints db) key = Some f \<Longrightarrow>
     key = build_fingerprint_key f \<and>
     (\<exists>e. sqlite_lookup c db (fp_delivery_id f) = Some e \<and> reported_attempt f e)"
  unfolding fingerprints_ok_def by blast

lemma fingerprints_okI:
  assumes "\<And>key f. dict_get (sq_fingerprints db) key = Some f \<Longrightarrow> key = build_fingerprint_key f \<and>
     (\<exists>e. sqlite_lookup c db (fp_delivery_id f) = Some e \<and> reported_attempt f e)"
  shows "fingerprints_ok c db"
  using assms unfolding fingerprints_ok_def by blast

lemma fingerprints_ok_evolve:
  assumes "fingerprints_ok c db" and "db_evolves c db db'" and "sq_fingerprints db' = sq_fingerprints db"
  shows "fingerprints_ok c db'"
proof (rule fingerprints_okI)
  fix key f
  assume "dict_get (sq_fingerprints db') key = Some f"
  then have "dict_get (sq_fingerprints db) key = Some f" by (simp only: assms(3))
  from fingerprints_okD [OF assms(1) this]
  show "key = build_fingerprint_key f \<and>
      (\<exists>e. sqlite_lookup c db' (fp_delivery_id f) = Some e \<and> reported_attempt f e)"
    using assms(2) unfolding db_evolves_def stored_step_def by blast
qed

lemma sqlite_lease_due_evolves:
  assumes "sqlite_inv c db"
  shows "sqlite_inv c (snd (sqlite_lease_due c db p now m secs)) \<and>
    db_evolves c db (snd (sqlite_lease_due c db p now m secs))"
proof -
  have ok: "rows_ok c (sq_rows db)" using assms by (simp add: sqlite_inv_def)
  obtain out rows' where
    res: "sqlite_lease_due c db p now m secs = (out, db\<lparr>sq_rows := rows'\<rparr>)"
    and eff: "loop_effect c now secs (select_due_rows db p) (sq_rows db) rows'"
    using sqlite_lease_due_eq [OF ok, of p now m secs] by blast
  have ev: "db_evolves c db (db\<lparr>sq_rows := rows'\<rparr>)"
    unfolding db_evolves_def
  proof (intro allI impI)
    fix i e
    assume e: "sqlite_lookup c db i = Some e"
    have "rows_lookup c rows' i = rows_lookup c (sq_rows db) i \<or>
        (\<exists>e. rows_lookup c (sq_rows db) i = Some e \<and> is_delivery_due e now \<and>
           rows_lookup c rows' i = Some (sqlite_lease_item e now secs))"
      using eff unfolding loop_effect_def by blast
    with e consider "rows_lookup c rows' i = Some e"
      | "is_delivery_due e now" "rows_lookup c rows' i = Some (sqlite_lease_item e now secs)"
      by auto
    then show "\<exists>e'. sqlite_lookup c (db\<lparr>sq_rows := rows'\<rparr>) i = Some e' \<and> stored_step e e'"
      by cases (use stored_step_lease_item in auto)
  qed
  have "fingerprints_ok c (db\<lparr>sq_rows := rows'\<rparr>)"
    by (rule fingerprints_ok_evolve [OF _ ev]) (use assms in \<open>simp_all add: sqlite_inv_def\<close>)
  with assms eff ev show ?thesis
    unfolding res by (simp add: sqlite_inv_def loop_effect_def)
qed

section \<open>Reports\<close>

abbreviation report_key :: "string \<Rightarrow> string option \<Rightarrow> action_result \<Rightarrow> fingerprint_key" where
  "report_key i l r \<equiv> build_fingerprint_key (sqlite_result_fingerprint i l r)"

lemma sqlite_report_cases:
  assumes "sqlite_apply_report tr c db i l r = (res, db')"
  obtains (failed) err where "res = Inl err" "db' = db"
  | (repeat) e f where "res = Inr e" "db' = db" "sqlite_lookup c db i = Some e"
      "dict_get (sq_fingerprints db) (report_key i l r) = Some f"
  | (applied) row e e' where "res = Inr e'" "dict_get (sq_rows db) i = Some row"
      "model_to_envelope c row = Inr e" "tr e = Inr e'"
      "dict_get (sq_fingerprints db) (report_key i l r) = None"
      "db' = insert_fingerprint (db\<lparr>sq_rows := dict_set i (update_model row e') (sq_rows db)\<rparr>)
         (sqlite_result_fingerprint i l r)"
proof (cases "dict_get (sq_rows db) i")
  case None
  with assms that(1) show thesis by (auto simp: sqlite_apply_report_def prepare_report_def)
next
  case (Some row)
  show thesis
  proof (cases "model_to_envelope c row")
    case (Inl err)
    with Some have "\<exists>err. sqlite_apply_report tr c db i l r = (Inl err, db)"
      by (simp add: sqlite_apply_report_def prepare_report_def Let_def)
    with assms have "isl res" "db' = db" by auto
    with that(1) show thesis by (cases res) auto
  next
    case (Inr e)
    with Some have look: "sqlite_lookup c db i = Some e" by (simp add: rows_lookup_def)
    show thesis
    proof (cases "dict_get (sq_fingerprints db) (report_key i l r)")
      case (Some f)
      then have "sqlite_classify_report db (sqlite_result_fingerprint i l r) = SQ_IDEMPOTENT"
        by (simp add: sqlite_classify_report_def)
      with \<open>dict_get (sq_rows db) i = Some row\<close> Inr have "sqlite_apply_report tr c db i l r = (Inr e, db)"
        by (simp add: sqlite_apply_report_def prepare_report_def Let_def)
      with assms have "res = Inr e" "db' = db" by auto
      with look Some show thesis using that(2) by blast
    next
      case None
      then have "sqlite_classify_report db (sqlite_result_fingerprint i l r) \<noteq> SQ_IDEMPOTENT"
        by (simp add: sqlite_classify_report_def)
      with \<open>dict_get (sq_rows db) i = Some row\<close> Inr have
        "(\<exists>err. sqlite_apply_report tr c db i l r = (Inl err, db)) \<or>
         (\<exists>e'. tr e = Inr e' \<and> sqlite_apply_report tr c db i l r =
            (Inr e', insert_fingerprint (db\<lparr>sq_rows := dict_set i (update_model row e') (sq_rows db)\<rparr>)
               (sqlite_result_fingerprint i l r)))"
        by (cases "tr e") (simp_all add: sqlite_apply_report_def prepare_report_def Let_def)
      then show thesis
      proof (elim disjE exE conjE)
        fix err assume "sqlite_apply_report tr c db i l r = (Inl err, db)"
        with assms have "res = Inl err" "db' = db" by auto
        then show thesis by (rule that(1))
      next
        fix e'
        assume "tr e = Inr e'" "sqlite_apply_report tr c db i l r =
            (Inr e', insert_fingerprint (db\<lparr>sq_rows := dict_set i (update_model row e') (sq_rows db)\<rparr>)
               (sqlite_result_fingerprint i l r))"
        with assms \<open>dict_get (sq_rows db) i = Some row\<close> Inr None
        show thesis by (intro that(3) [of e' row e]) auto
      qed
    qed
  qed
qed

text \<open>The two transitions a report applies, with the effect they have in common.\<close>

definition lease_transition ::
  "(delivery_envelope \<Rightarrow> outbox_error + delivery_envelope) \<Rightarrow> string option \<Rightarrow> bool" where
  "lease_transition tr l \<longleftrightarrow>
     (\<forall>e e'. tr e = Inr e' \<longrightarrow> stored_step e e' \<and> same_delivery e e' \<and> de_status e = DS_LEASED \<and>
        de_lease_id e = l \<and> de_status e' \<noteq> DS_LEASED \<and> de_attempts e' = de_attempts e)"

lemma complete_lease_transition: "lease_transition (\<lambda>e. complete_delivery e l r t) l"
  unfolding lease_transition_def
proof (intro allI impI)
  fix e e'
  assume res: "complete_delivery e l r t = Inr e'"
  then have "stored_step e e'" using stored_step_report by blast
  with res show "stored_step e e' \<and> same_delivery e e' \<and> de_status e = DS_LEASED \<and>
      de_lease_id e = l \<and> de_status e' \<noteq> DS_LEASED \<and> de_attempts e' = de_attempts e"
    by (auto simp: same_delivery_def dest!: complete_delivery_ok)
qed

lemma release_lease_transition: "lease_transition (\<lambda>e. release_delivery e l retry r t) l"
  unfolding lease_transition_def
proof (intro allI impI)
  fix e e'
  assume res: "release_delivery e l retry r t = Inr e'"
  then have "delivery_step e e'" by (rule step_release)
  with res show "stored_step e e' \<and> same_delivery e e' \<and> de_status e = DS_LEASED \<and>
      de_lease_id e = l \<and> de_status e' \<noteq> DS_LEASED \<and> de_attempts e' = de_attempts e"
    using stored_step_report [of e l r t e' retry]
    by (auto simp: delivery_step_same dest!: release_delivery_ok split: if_splits)
qed

lemma sqlite_report_stored:
  assumes "lease_transition tr l" and "sqlite_apply_report tr c db i l r = (Inr e', db')"
  shows "sqlite_lookup c db' i = Some e' \<and>
    (\<exists>f. dict_get (sq_fingerprints db') (report_key i l r) = Some f)"
  using assms(2)
proof (cases rule: sqlite_report_cases)
  case (applied row e e1)
  then have "same_delivery e e1" using assms(1) unfolding lease_transition_def by blast
  with applied show ?thesis
    by (simp add: insert_fingerprint_def rows_lookup_set dict_get_set)
qed auto

lemma sqlite_report_evolves:
  assumes "sqlite_inv c db" and "lease_transition tr l"
  shows "sqlite_inv c (snd (sqlite_apply_report tr c db i l r)) \<and>
    db_evolves c db (snd (sqlite_apply_report tr c db i l r))"
proof -
  obtain res db' where res: "sqlite_apply_report tr c db i l r = (res, db')" by fastforce
  have "sqlite_inv c db' \<and> db_evolves c db db'"
    using res
  proof (cases rule: sqlite_report_cases)
    case (applied row e e')
    let ?f = "sqlite_result_fingerprint i l r"
    have ok: "rows_ok c (sq_rows db)" using assms(1) by (simp add: sqlite_inv_def)
    have tr: "stored_step e e'" "same_delivery e e'" "de_status e = DS_LEASED" "de_lease_id e = l"
      "de_status e' \<noteq> DS_LEASED" "de_attempts e' = de_attempts e"
      using assms(2) applied(4) unfolding lease_transition_def by blast+
    have look: "sqlite_lookup c db' j = (if j = i then Some e' else sqlite_lookup c db j)" for j
      using applied tr(2) by (simp add: insert_fingerprint_def rows_lookup_set)
    have e: "sqlite_lookup c db i = Some e" using applied by (simp add: rows_lookup_def)
    have st: "stored_ok i e" using rows_ok_lookup [OF ok e] .
    have ev: "db_evolves c db db'" unfolding db_evolves_def using look e tr(1) by auto
    have "wf_delivery e" using st by (simp add: stored_ok_def)
    then obtain l' where "l = Some l'" using tr(3,4) by (auto simp: wf_delivery_def)
    then have rep: "reported_attempt ?f e'"
      using st tr by (auto simp: reported_attempt_def sqlite_result_fingerprint_def stored_ok_def)
    have "fingerprints_ok c db'"
    proof (rule fingerprints_okI)
      fix key f
      assume get: "dict_get (sq_fingerprints db') key = Some f"
      show "key = build_fingerprint_key f \<and>
        (\<exists>e. sqlite_lookup c db' (fp_delivery_id f) = Some e \<and> reported_attempt f e)"
      proof (cases "key = report_key i l r")
        case True
        with get applied have "f = ?f" by (simp add: insert_fingerprint_def dict_get_set)
        with True rep look show ?thesis by (auto simp: sqlite_result_fingerprint_def)
      next
        case False
        with get applied have "dict_get (sq_fingerprints db) key = Some f"
          by (simp add: insert_fingerprint_def dict_get_set)
        with assms(1) ev show ?thesis
          using fingerprints_okD [of c db key f]
          unfolding sqlite_inv_def db_evolves_def stored_step_def by blast
      qed
    qed
    moreover have "stored_ok i e'" using st tr(1) by (simp add: stored_step_def)
    then have "rows_ok c (sq_rows db')"
      using rows_ok_set [OF ok applied(3) tr(2)] applied(6) by (simp add: insert_fingerprint_def)
    ultimately show ?thesis
      using assms(1) applied(2,6) ev
      by (simp add: sqlite_inv_def insert_fingerprint_def idempotency_unique_set)
  qed (use assms(1) in auto)
  with res show ?thesis by simp
qed

lemma sqlite_report_repeat:
  assumes "sqlite_lookup c db i = Some e" and "dict_get (sq_fingerprints db) (report_key i l r) = Some f"
  shows "sqlite_apply_report tr c db i l r = (Inr e, db)"
proof -
  from assms(1) obtain row where "dict_get (sq_rows db) i = Some row" "model_to_envelope c row = Inr e"
    by (rule rows_lookup_row)
  with assms(2) show ?thesis
    by (simp add: sqlite_apply_report_def prepare_report_def sqlite_classify_report_def Let_def)
qed

lemma sqlite_report_applies:
  assumes "lease_transition tr l" and "sqlite_apply_report tr c db i l r = (Inr e, db')"
  shows "(\<exists>old. sqlite_lookup c db i = Some old \<and> (db' = db \<and> e = old \<or> tr old = Inr e)) \<and>
    (\<forall>j. j \<noteq> i \<longrightarrow> sqlite_lookup c db' j = sqlite_lookup c db j)"
  using assms(2)
proof (cases rule: sqlite_report_cases)
  case (applied row e0 e')
  then have "same_delivery e0 e'" using assms(1) unfolding lease_transition_def by blast
  with applied show ?thesis
    by (auto simp: insert_fingerprint_def rows_lookup_set rows_lookup_def [of _ _ i])
qed auto

lemma sqlite_report_error: "sqlite_apply_report tr c db i l r = (Inl err, db') \<Longrightarrow> db' = db"
  by (erule sqlite_report_cases) auto

section \<open>Enqueue\<close>

definition sqlite_enqueue_stores :: "hints_codec \<Rightarrow> sqlite_outbox \<Rightarrow> delivery_envelope \<Rightarrow> delivery_row \<Rightarrow> bool" where
  "sqlite_enqueue_stores c db e row \<longleftrightarrow>
     envelope_to_model c e = Inr row \<and> dict_get (sq_rows db) (de_delivery_id e) = None \<and>
     (\<forall>row'\<in>set (dict_values (sq_rows db)). row_idempotency_key row' \<noteq> de_idempotency_key e) \<and>
     \<not> sqlite_depth_exceeded db (dt_provider (de_target e)) \<and>
     sqlite_enqueue c db e =
       (Inr e, db\<lparr>sq_rows := dict_set (de_delivery_id e) row (sq_rows db)\<rparr>)"

lemma sqlite_enqueue_cases:
  "snd (sqlite_enqueue c db e) = db \<or> (\<exists>row. sqlite_enqueue_stores c db e row)"
proof (cases "envelope_to_model c e")
  case (Inl err)
  then show ?thesis by (simp add: sqlite_enqueue_def split: app_action.split option.split)
next
  case (Inr row)
  then have send: "\<exists>a b t x h. de_action e = SendMessageAction a b t x h"
    by (auto simp: envelope_to_model_def split: app_action.splits)
  have id: "row_delivery_id row = de_delivery_id e" using envelope_to_model_Inr [OF Inr] by simp
  show ?thesis
  proof (cases "find (\<lambda>row. row_idempotency_key row = de_idempotency_key e) (dict_values (sq_rows db))")
    case None
    then have "\<forall>row'\<in>set (dict_values (sq_rows db)). row_idempotency_key row' \<noteq> de_idempotency_key e"
      by (simp add: find_None_iff)
    with None Inr send id show ?thesis
      by (cases "dict_get (sq_rows db) (de_delivery_id e)")
        (auto simp: sqlite_enqueue_def sqlite_enqueue_stores_def)
  next
    case (Some row')
    with send show ?thesis by (auto simp: sqlite_enqueue_def)
  qed
qed

lemma new_delivery_stored_ok: "new_delivery e \<Longrightarrow> stored_ok (de_delivery_id e) e"
  by (simp add: stored_ok_def new_delivery_wf) (simp add: new_delivery_def)

lemma sqlite_enqueue_lookup:
  assumes "codec_ok c" and "sqlite_enqueue_stores c db e row"
  shows "sqlite_lookup c (snd (sqlite_enqueue c db e)) i =
    (if i = de_delivery_id e then Some (durable_copy e) else sqlite_lookup c db i)"
  using assms model_to_envelope_to_model [of c e row]
  by (simp add: sqlite_enqueue_stores_def rows_lookup_def dict_get_set)

lemma sqlite_enqueue_evolves:
  assumes "sqlite_inv c db" and "new_delivery e"
  shows "sqlite_inv c (snd (sqlite_enqueue c db e)) \<and> db_evolves c db (snd (sqlite_enqueue c db e))"
proof (cases "snd (sqlite_enqueue c db e) = db")
  case True
  with assms(1) show ?thesis by simp
next
  case False
  then obtain row where st: "sqlite_enqueue_stores c db e row" using sqlite_enqueue_cases by blast
  let ?db = "snd (sqlite_enqueue c db e)"
  let ?i = "de_delivery_id e"
  have codec: "codec_ok c" and ok: "rows_ok c (sq_rows db)" and un: "idempotency_unique (sq_rows db)"
    using assms(1) by (simp_all add: sqlite_inv_def)
  have row: "envelope_to_model c e = Inr row" and new: "dict_get (sq_rows db) ?i = None"
    and db': "?db = db\<lparr>sq_rows := dict_set ?i row (sq_rows db)\<rparr>"
    using st by (simp_all add: sqlite_enqueue_stores_def)
  have dec: "model_to_envelope c row = Inr (durable_copy e)"
    using model_to_envelope_to_model [OF codec row] .
  have "stored_ok ?i (durable_copy e)"
    using new_delivery_stored_ok [of "durable_copy e"] assms(2) by simp
  then have rows: "rows_ok c (sq_rows ?db)"
    using ok dec unfolding db' by (auto simp: rows_ok_def dict_get_set)
  have "sqlite_lookup c db ?i = None" using new by (simp add: rows_lookup_def)
  then have ev: "db_evolves c db ?db"
    unfolding db_evolves_def using sqlite_enqueue_lookup [OF codec st] by auto
  have "row_idempotency_key row' \<noteq> row_idempotency_key row" if "dict_get (sq_rows db) j = Some row'" for j row'
    using dict_get_values [OF that] st envelope_to_model_Inr [OF row]
    by (simp add: sqlite_enqueue_stores_def)
  then have "idempotency_unique (sq_rows ?db)"
    using un unfolding idempotency_unique_def db' by (auto simp: dict_get_set split: if_splits) metis+
  moreover have "fingerprints_ok c ?db"
    by (rule fingerprints_ok_evolve [OF _ ev]) (use assms(1) in \<open>simp_all add: sqlite_inv_def db'\<close>)
  ultimately show ?thesis
    using assms(1) rows ev by (simp add: sqlite_inv_def db')
qed

section \<open>The port\<close>

definition sqlite_port :: "hints_codec \<Rightarrow> sqlite_outbox outbox_port" where
  "sqlite_port c =
     \<lparr>port_enqueue = sqlite_enqueue c, port_lease_due = sqlite_lease_due c, port_get = sqlite_get c,
      port_complete = sqlite_complete c, port_release = sqlite_release c\<rparr>"

lemma sqlite_port_simps [simp]:
  "port_enqueue (sqlite_port c) = sqlite_enqueue c"
  "port_lease_due (sqlite_port c) = sqlite_lease_due c"
  "port_get (sqlite_port c) = sqlite_get c" "port_complete (sqlite_port c) = sqlite_complete c"
  "port_release (sqlite_port c) = sqlite_release c"
  by (simp_all add: sqlite_port_def)

lemma sqlite_inv_stored:
  assumes "sqlite_inv c db" and "sqlite_lookup c db i = Some e"
  shows "stored_ok i e"
  using rows_ok_lookup [of c "sq_rows db" i e] assms by (simp add: sqlite_inv_def)

lemma sqlite_get_eq:
  assumes "sqlite_inv c db"
  shows "sqlite_get c db i =
    (case sqlite_lookup c db i of Some e \<Rightarrow> Inr e
     | None \<Rightarrow> Inl (DeliveryOutboxError ''delivery_not_found''))"
proof (cases "dict_get (sq_rows db) i")
  case (Some row)
  moreover have "rows_ok c (sq_rows db)" using assms by (simp add: sqlite_inv_def)
  then obtain e where "model_to_envelope c row = Inr e" using Some by (rule rows_ok_get)
  ultimately show ?thesis by (simp add: sqlite_get_def rows_lookup_def)
qed (simp add: sqlite_get_def rows_lookup_def)

lemma stored_envelopes_lookup:
  assumes "rows_ok c (sq_rows db)"
  shows "e \<in> set (stored_envelopes c db) \<longleftrightarrow> sqlite_lookup c db (de_delivery_id e) = Some e"
proof
  assume "e \<in> set (stored_envelopes c db)"
  then obtain row where row: "row \<in> set (dict_values (sq_rows db))"
    and e: "e = (case model_to_envelope c row of Inr e \<Rightarrow> e)"
    by (auto simp: stored_envelopes_def decoded_rows_def)
  obtain e' where "model_to_envelope c row = Inr e'" "dict_get (sq_rows db) (row_delivery_id row) = Some row"
    using rows_ok_values [OF assms row] .
  with e show "sqlite_lookup c db (de_delivery_id e) = Some e"
    using model_to_envelope_fields [of c row e'] by (simp add: rows_lookup_def)
next
  assume "sqlite_lookup c db (de_delivery_id e) = Some e"
  then obtain row where "dict_get (sq_rows db) (de_delivery_id e) = Some row" "model_to_envelope c row = Inr e"
    by (rule rows_lookup_row)
  then show "e \<in> set (stored_envelopes c db)"
    by (force simp: stored_envelopes_def decoded_rows_def dest: dict_get_values)
qed

lemma sqlite_lease_due_stored:
  assumes "sqlite_inv c db" and "sqlite_lease_due c db p now m secs = (Inr out, db')" and "e' \<in> set out"
  shows "sqlite_lookup c db' (de_delivery_id e') = Some e' \<and> de_status e' = DS_LEASED \<and>
    dt_provider (de_target e') = p"
proof -
  have ok: "rows_ok c (sq_rows db)" using assms(1) by (simp add: sqlite_inv_def)
  let ?sel = "take (nat m) (sort_key envelope_sort_key
    (filter (\<lambda>e. dt_provider (de_target e) = p \<and> leasable now e) (stored_envelopes c db)))"
  obtain rows' where "out = map (\<lambda>e. sqlite_lease_item e now secs) ?sel" "db' = db\<lparr>sq_rows := rows'\<rparr>"
    and got: "\<forall>e\<in>set ?sel. rows_lookup c rows' (de_delivery_id e) = Some (sqlite_lease_item e now secs)"
    using sqlite_lease_due_eq [OF ok, of p now m secs] assms(2) by auto
  with assms(3) obtain e where e: "e \<in> set ?sel" "e' = sqlite_lease_item e now secs" by auto
  then have "dt_provider (de_target e) = p" "leasable now e" by (auto dest!: in_set_takeD)
  moreover have "same_delivery e e'" using e(2) by simp
  ultimately show ?thesis
    using got e \<open>db' = _\<close> by (auto simp: same_delivery_def leasable_def)
qed

lemma sqlite_lease_due_untouched:
  assumes "sqlite_inv c db" and "sqlite_lookup c db i = Some e"
    and "dt_provider (de_target e) \<noteq> p \<or> \<not> is_delivery_due e now"
  shows "sqlite_lookup c (snd (sqlite_lease_due c db p now m secs)) i = Some e"
proof -
  have ok: "rows_ok c (sq_rows db)" using assms(1) by (simp add: sqlite_inv_def)
  obtain out rows' where res: "sqlite_lease_due c db p now m secs = (out, db\<lparr>sq_rows := rows'\<rparr>)"
    and eff: "loop_effect c now secs (select_due_rows db p) (sq_rows db) rows'"
    using sqlite_lease_due_eq [OF ok, of p now m secs] by blast
  with loop_effect_select [OF ok eff assms(2)] assms(3) show ?thesis by auto
qed

interpretation sql: delivery_outbox "sqlite_port c" "sqlite_inv c" "sqlite_lookup c"
  for c
proof (unfold_locales, goal_cases)
  case (1 db i e)
  then show ?case using sqlite_inv_stored by (simp add: stored_ok_def)
next
  case (2 db i)
  then show ?case by (simp add: sqlite_get_eq)
next
  case (5 db p now m secs out db' e)
  then show ?case using sqlite_lease_due_stored by simp
next
  case (6 db i e p now m secs)
  then show ?case using sqlite_lease_due_untouched by simp
qed (auto simp: sqlite_lease_due_evolves sqlite_complete_def sqlite_release_def
      sqlite_report_evolves [OF _ complete_lease_transition]
      sqlite_report_evolves [OF _ release_lease_transition] db_evolves_lookup
      dest: sqlite_report_error sqlite_report_stored [OF complete_lease_transition]
        sqlite_report_stored [OF release_lease_transition] sqlite_report_repeat
        sqlite_report_applies [OF complete_lease_transition]
        sqlite_report_applies [OF release_lease_transition])

end
