(* ===== verification/Hints_Codec.thy ===== *)
theory Hints_Codec
  imports Delivery_Sqlite
begin

text \<open>
  A concrete codec for presentation hints, a self-delimiting text per field. It stands in for
  pydantic's JSON rendering in the concrete runs of the durable outbox and shows that the codec
  hypothesis can be met; no property depends on this rendering.
\<close>

fun put_text :: "string \<Rightarrow> string" where
  "put_text [] = ''.''"
| "put_text (ch # s) = CHR ''x'' # ch # put_text s"

fun take_text :: "string \<Rightarrow> (string \<times> string) option" where
  "take_text (ch # rest) =
     (if ch = CHR ''.'' then Some ([], rest)
      else case rest of
        [] \<Rightarrow> None
      | c1 # rest1 \<Rightarrow> (case take_text rest1 of None \<Rightarrow> None | Some (s, r) \<Rightarrow> Some (c1 # s, r)))"
| "take_text [] = None"

lemma take_put_text [simp]: "take_text (put_text s @ rest) = Some (s, rest)"
  by (induction s) auto

fun put_opt :: "string option \<Rightarrow> string" where
  "put_opt None = ''n''"
| "put_opt (Some s) = CHR ''s'' # put_text s"

fun take_opt :: "string \<Rightarrow> (string option \<times> string) option" where
  "take_opt (ch # rest) =
     (if ch = CHR ''n'' then Some (None, rest)
      else case take_text rest of None \<Rightarrow> None | Some (s, r) \<Rightarrow> Some (Some s, r))"
| "take_opt [] = None"

lemma take_put_opt [simp]: "take_opt (put_opt x @ rest) = Some (x, rest)"
  by (cases x) auto

text \<open>An integer is its sign and its absolute value in unary, as a text of that length.\<close>

definition put_int :: "int \<Rightarrow> string" where
  "put_int i = (if i < 0 then CHR ''-'' else CHR ''+'') # put_text (replicate (nat \<bar>i\<bar>) CHR ''1'')"

fun take_int :: "string \<Rightarrow> (int \<times> string) option" where
  "take_int (ch # rest) =
     (case take_text rest of
        None \<Rightarrow> None
      | Some (s, r) \<Rightarrow> Some ((if ch = CHR ''-'' then - int (length s) else int (length s)), r))"
| "take_int [] = None"

lemma take_put_int [simp]: "take_int (put_int i @ rest) = Some (i, rest)"
  by (simp add: put_int_def)

definition put_flag :: "bool \<Rightarrow> string" where
  "put_flag b = (if b then ''t'' else ''f'')"

fun put_modality :: "presentation_modality \<Rightarrow> string" where
  "put_modality PM_TEXT = ''t''"
| "put_modality PM_VOICE = ''v''"
| "put_modality PM_BOTH = ''b''"
| "put_modality PM_NOTIFICATION = ''n''"
| "put_modality PM_UNKNOWN = ''u''"

definition read_modality :: "string \<Rightarrow> presentation_modality option" where
  "read_modality s =
     find (\<lambda>m. put_modality m = s) [PM_TEXT, PM_VOICE, PM_BOTH, PM_NOTIFICATION, PM_UNKNOWN]"

lemma read_put_modality [simp]: "read_modality (put_modality m) = Some m"
  by (cases m) (simp_all add: read_modality_def)

definition put_hints :: "presentation_hints \<Rightarrow> string" where
  "put_hints h =
     put_opt (ph_style_hint h) @ put_opt (ph_emotion_hint h) @ put_opt (ph_expression_hint h) @
     put_int (ph_delay_ms h) @ put_int (ph_priority h) @ put_flag (ph_interruptible h) @
     put_modality (ph_modality h)"

definition read_hints :: "string \<Rightarrow> presentation_hints option" where
  "read_hints t =
     (case take_opt t of None \<Rightarrow> None | Some (style, t1) \<Rightarrow>
      case take_opt t1 of None \<Rightarrow> None | Some (emotion, t2) \<Rightarrow>
      case take_opt t2 of None \<Rightarrow> None | Some (expression, t3) \<Rightarrow>
      case take_int t3 of None \<Rightarrow> None | Some (delay, t4) \<Rightarrow>
      case take_int t4 of None \<Rightarrow> None | Some (priority, t5) \<Rightarrow>
      case t5 of [] \<Rightarrow> None | ch # t6 \<Rightarrow>
      case read_modality t6 of None \<Rightarrow> None | Some m \<Rightarrow>
        Some \<lparr>ph_style_hint = style, ph_emotion_hint = emotion, ph_expression_hint = expression,
              ph_delay_ms = delay, ph_priority = priority, ph_interruptible = (ch = CHR ''t''),
              ph_modality = m\<rparr>)"

lemma read_put_hints: "read_hints (put_hints h) = Some h"
  by (simp add: read_hints_def put_hints_def put_flag_def)

definition plain_codec :: hints_codec where
  "plain_codec = \<lparr>hc_dump = put_hints, hc_load = read_hints\<rparr>"

lemma put_opt_ne_Nil [simp]: "put_opt x \<noteq> []"
  by (cases x) auto

lemma plain_codec_ok: "codec_ok plain_codec"
  by (simp add: codec_ok_def plain_codec_def read_put_hints) (simp add: put_hints_def)

end
