(* ===== verification/Delivery_Durable.thy ===== *)
theory Delivery_Durable
  imports Delivery_Sqlite_Runs Hints_Codec
begin

text \<open>
  Any interleaving of the durable outbox's operations, and its properties: round trip through the
  database, refinement of the delivery lifecycle, the exact result of a poll, and exactly-once
  reports.
\<close>

section \<open>Runs\<close>

fun sqlite_step :: "hints_codec \<Rightarrow> sqlite_outbox \<Rightarrow> outbox_op \<Rightarrow> sqlite_outbox" where
  "sqlite_step c db (Op_enqueue e) = snd (sqlite_enqueue c db e)"
| "sqlite_step c db (Op_lease_due p now m secs) = snd (sqlite_lease_due c db p now m secs)"
| "sqlite_step c db (Op_complete i l r t) = snd (sqlite_complete c db i l r t)"
| "sqlite_step c db (Op_release i l retry r t) = snd (sqlite_release c db i l retry r t)"

fun sqlite_run :: "hints_codec \<Rightarrow> sqlite_outbox \<Rightarrow> outbox_op list \<Rightarrow> sqlite_outbox" where
  "sqlite_run c db [] = db"
| "sqlite_run c db (x # xs) = sqlite_run c (sqlite_step c db x) xs"

text \<open>The callers' obligation: enqueued envelopes are newly built ones.\<close>

fun enqueues_new :: "outbox_op \<Rightarrow> bool" where
  "enqueues_new (Op_enqueue e) \<longleftrightarrow> new_delivery e"
| "enqueues_new _ \<longleftrightarrow> True"

lemmas report_evolves = sqlite_report_evolves [OF _ complete_lease_transition]
  sqlite_report_evolves [OF _ release_lease_transition]

lemma sqlite_step_evolves:
  assumes "sqlite_inv c db" and "enqueues_new x"
  shows "sqlite_inv c (sqlite_step c db x) \<and> db_evolves c db (sqlite_step c db x)"
  using assms
  by (cases x) (simp_all add: sqlite_enqueue_evolves sqlite_lease_due_evolves report_evolves
      sqlite_complete_def sqlite_release_def)

text \<open>No two stored reports are on the same lease of the same delivery, and none is ever removed.\<close>

definition one_report_per_attempt :: "sqlite_outbox \<Rightarrow> bool" where
  "one_report_per_attempt db \<longleftrightarrow>
     (\<forall>k1 k2 f1 f2. dict_get (sq_fingerprints db) k1 = Some f1 \<and> dict_get (sq_fingerprints db) k2 = Some f2 \<and>
        fp_delivery_id f1 = fp_delivery_id f2 \<and> fp_lease_id f1 = fp_lease_id f2 \<longrightarrow> k1 = k2)"

lemma one_report_per_attemptD:
  "one_report_per_attempt db \<Longrightarrow> dict_get (sq_fingerprints db) k1 = Some f1 \<Longrightarrow>
     dict_get (sq_fingerprints db) k2 = Some f2 \<Longrightarrow> fp_delivery_id f1 = fp_delivery_id f2 \<Longrightarrow>
     fp_lease_id f1 = fp_lease_id f2 \<Longrightarrow> k1 = k2"
  unfolding one_report_per_attempt_def by blast

lemma one_report_per_attemptI:
  assumes "\<And>k1 k2 f1 f2. dict_get (sq_fingerprints db) k1 = Some f1 \<Longrightarrow>
     dict_get (sq_fingerprints db) k2 = Some f2 \<Longrightarrow> fp_delivery_id f1 = fp_delivery_id f2 \<Longrightarrow>
     fp_lease_id f1 = fp_lease_id f2 \<Longrightarrow> k1 = k2"
  shows "one_report_per_attempt db"
  using assms unfolding one_report_per_attempt_def by blast

lemma one_report_per_attempt_init [simp]: "one_report_per_attempt (sqlite_outbox_init d)"
  by (simp add: one_report_per_attempt_def sqlite_outbox_init_def)

text \<open>A held lease has no stored report, so an applied report is the first one on its lease.\<close>

lemma held_lease_unreported:
  assumes "sqlite_inv c db" and "sqlite_lookup c db i = Some e" and "de_status e = DS_LEASED"
    and "dict_get (sq_fingerprints db) key = Some f" and "fp_delivery_id f = i"
  shows "fp_lease_id f \<noteq> de_lease_id e"
proof
  assume eq: "fp_lease_id f = de_lease_id e"
  have "fingerprints_ok c db" using assms(1) by (simp add: sqlite_inv_def)
  from fingerprints_okD [OF this assms(4)] have "reported_attempt f e"
    using assms(2,5) by auto
  then obtain k where "k < de_attempts e" "fp_lease_id f = Some (sqlite_lease_name i k)"
    using assms(3,5) by (auto simp: reported_attempt_def)
  moreover have "stored_ok i e" by (rule sqlite_inv_stored [OF assms(1,2)])
  ultimately show False using eq by (auto simp: stored_ok_def)
qed

lemma one_report_apply_sqlite:
  assumes "sqlite_inv c db" and "one_report_per_attempt db" and "lease_transition tr l"
  shows "one_report_per_attempt (snd (sqlite_apply_report tr c db i l r))"
proof -
  obtain res db' where res: "sqlite_apply_report tr c db i l r = (res, db')" by fastforce
  have "one_report_per_attempt db'"
    using res
  proof (cases rule: sqlite_report_cases)
    case (applied row e e')
    let ?f = "sqlite_result_fingerprint i l r"
    have fps: "sq_fingerprints db' = dict_set (report_key i l r) ?f (sq_fingerprints db)"
      using applied(6) by (simp add: insert_fingerprint_def)
    have e: "sqlite_lookup c db i = Some e" using applied by (simp add: rows_lookup_def)
    have "de_status e = DS_LEASED" "de_lease_id e = l"
      using assms(3) applied(4) unfolding lease_transition_def by blast+
    note held = held_lease_unreported [OF assms(1) e this(1), unfolded this(2)]
    have fresh: "fp_delivery_id f \<noteq> fp_delivery_id ?f \<or> fp_lease_id f \<noteq> fp_lease_id ?f"
      if "dict_get (sq_fingerprints db) key = Some f" for key f
      using held [OF that] by (auto simp: sqlite_result_fingerprint_def)
    show ?thesis
    proof (rule one_report_per_attemptI, unfold fps dict_get_set)
      fix k1 k2 f1 f2
      assume k1: "(if k1 = report_key i l r then Some ?f else dict_get (sq_fingerprints db) k1) = Some f1"
        and k2: "(if k2 = report_key i l r then Some ?f else dict_get (sq_fingerprints db) k2) = Some f2"
        and same: "fp_delivery_id f1 = fp_delivery_id f2" "fp_lease_id f1 = fp_lease_id f2"
      show "k1 = k2"
      proof (cases "k1 = report_key i l r"; cases "k2 = report_key i l r")
        assume "k1 = report_key i l r" "k2 \<noteq> report_key i l r"
        with k1 k2 fresh [of k2 f2] same show ?thesis by simp
      next
        assume "k1 \<noteq> report_key i l r" "k2 = report_key i l r"
        with k1 k2 fresh [of k1 f1] same show ?thesis by simp
      next
        assume "k1 \<noteq> report_key i l r" "k2 \<noteq> report_key i l r"
        with k1 k2 one_report_per_attemptD [OF assms(2) _ _ same] show ?thesis by simp
      qed simp
    qed
  qed (use assms(2) in auto)
  with res show ?thesis by simp
qed

lemma sqlite_frame:
  assumes "rows_ok c (sq_rows db)"
  shows "sq_fingerprints (snd (sqlite_lease_due c db p now m secs)) = sq_fingerprints db"
    and "sq_fingerprints (snd (sqlite_enqueue c db e)) = sq_fingerprints db"
proof -
  show "sq_fingerprints (snd (sqlite_lease_due c db p now m secs)) = sq_fingerprints db"
    using sqlite_lease_due_eq [OF assms, of p now m secs] by auto
  show "sq_fingerprints (snd (sqlite_enqueue c db e)) = sq_fingerprints db"
    using sqlite_enqueue_cases [of c db e] by (auto simp: sqlite_enqueue_stores_def)
qed

lemma one_report_per_attempt_cong:
  "sq_fingerprints db' = sq_fingerprints db \<Longrightarrow> one_report_per_attempt db \<Longrightarrow> one_report_per_attempt db'"
  unfolding one_report_per_attempt_def by (erule ssubst)

lemma sqlite_step_one_report:
  assumes "sqlite_inv c db" and "one_report_per_attempt db"
  shows "one_report_per_attempt (sqlite_step c db x)"
proof -
  have ok: "rows_ok c (sq_rows db)" using assms(1) by (simp add: sqlite_inv_def)
  show ?thesis
    by (cases x)
      (auto simp: sqlite_complete_def sqlite_release_def assms sqlite_frame [OF ok]
        intro: one_report_apply_sqlite [OF _ _ complete_lease_transition]
          one_report_apply_sqlite [OF _ _ release_lease_transition] one_report_per_attempt_cong [OF _ assms(2)])
qed

text \<open>Stored reports stay.\<close>

lemma sqlite_step_keeps_report:
  assumes "sqlite_inv c db" and "dict_get (sq_fingerprints db) key = Some f"
  shows "dict_get (sq_fingerprints (sqlite_step c db x)) key = Some f"
proof -
  have ok: "rows_ok c (sq_rows db)" using assms(1) by (simp add: sqlite_inv_def)
  have rep: "dict_get (sq_fingerprints (snd (sqlite_apply_report tr c db i l r))) key = Some f" for tr i l r
  proof -
    obtain res db' where res: "sqlite_apply_report tr c db i l r = (res, db')" by fastforce
    then have "dict_get (sq_fingerprints db') key = Some f"
      by (cases rule: sqlite_report_cases) (use assms(2) in \<open>auto simp: insert_fingerprint_def dict_get_set\<close>)
    with res show ?thesis by simp
  qed
  show ?thesis
    using assms(2) by (cases x) (simp_all add: sqlite_complete_def sqlite_release_def rep sqlite_frame [OF ok])
qed

lemma sqlite_run_facts:
  assumes "sqlite_inv c db" and "list_all enqueues_new xs"
  shows "sqlite_inv c (sqlite_run c db xs) \<and> lookup_evolves (sqlite_lookup c) db (sqlite_run c db xs) \<and>
    (one_report_per_attempt db \<longrightarrow> one_report_per_attempt (sqlite_run c db xs)) \<and>
    (\<forall>key f. dict_get (sq_fingerprints db) key = Some f \<longrightarrow>
       dict_get (sq_fingerprints (sqlite_run c db xs)) key = Some f)"
  using assms
proof (induction xs arbitrary: db)
  case Nil
  then show ?case by simp
next
  case (Cons x xs)
  then have "sqlite_inv c (sqlite_step c db x)"
    and ev: "lookup_evolves (sqlite_lookup c) db (sqlite_step c db x)"
    using sqlite_step_evolves [of c db x] db_evolves_lookup by auto
  note IH = Cons.IH [OF this(1)]
  have "list_all enqueues_new xs" using Cons.prems(2) by simp
  from IH [OF this] ev show ?case
    using sqlite_step_one_report [OF Cons.prems(1)] sqlite_step_keeps_report [OF Cons.prems(1)]
    unfolding sqlite_run.simps by (blast intro: lookup_evolves_trans)
qed

text \<open>A stored report determines its delivery and lease; another outcome on that lease conflicts.\<close>

lemma stored_report_fields:
  assumes "sqlite_inv c db" and "dict_get (sq_fingerprints db) (report_key i l r) = Some f"
  shows "fp_delivery_id f = i \<and> fp_lease_id f = l"
proof -
  have "fingerprints_ok c db" using assms(1) by (simp add: sqlite_inv_def)
  from fingerprints_okD [OF this assms(2)] show ?thesis
    by (auto simp: build_fingerprint_key_def sqlite_result_fingerprint_def truthy_def
        reported_attempt_def sqlite_lease_name_def split: option.splits if_splits)
qed

lemma sqlite_report_conflict:
  assumes "sqlite_inv c db" and "one_report_per_attempt db"
    and f: "dict_get (sq_fingerprints db) (report_key i l r) = Some f"
    and "sqlite_lookup c db i = Some e" and ne: "report_key i l r2 \<noteq> report_key i l r"
  shows "sqlite_apply_report tr c db i l r2 = (Inl (DeliveryOutboxError ''delivery_report_conflict''), db)"
proof -
  note fields = stored_report_fields [OF assms(1)]
  have "dict_get (sq_fingerprints db) (report_key i l r2) = None"
  proof (rule ccontr)
    assume "dict_get (sq_fingerprints db) (report_key i l r2) \<noteq> None"
    then obtain g where g: "dict_get (sq_fingerprints db) (report_key i l r2) = Some g" by blast
    from one_report_per_attemptD [OF assms(2) g f] fields [OF g] fields [OF f] ne show False by simp
  qed
  moreover have "\<exists>g\<in>set (dict_values (sq_fingerprints db)). fp_delivery_id g = i \<and> fp_lease_id g = l"
    using dict_get_values [OF f] fields [OF f] by blast
  ultimately have "sqlite_classify_report db (sqlite_result_fingerprint i l r2) = SQ_CONFLICT"
    by (auto simp: sqlite_classify_report_def sqlite_result_fingerprint_def)
  moreover obtain row where "dict_get (sq_rows db) i = Some row" using assms(4) by (rule rows_lookup_row)
  ultimately show ?thesis
    by (simp add: sqlite_apply_report_def prepare_report_def Let_def)
qed

section \<open>Properties\<close>

text \<open>
  C8. Round trip through the database. An enqueue that stores returns the envelope it was given, and
  reading the delivery back gives that envelope with every field intact except the surface of the
  target, which the table has no column for: the read gives the same envelope exactly when the
  surface is the default \<^verbatim>\<open>UNKNOWN\<close>. The codec of the hints is a parameter with the
  hypothesis \<^const>\<open>codec_ok\<close> inside the invariant.
\<close>

theorem sqlite_round_trip:
  assumes "sqlite_inv c db" and "sqlite_enqueue c db e = (Inr e', db')" and "db' \<noteq> db"
  shows "e' = e \<and> sqlite_get c db' (de_delivery_id e) = Inr (durable_copy e) \<and>
    (sqlite_get c db' (de_delivery_id e) = Inr e \<longleftrightarrow> dt_surface (de_target e) = SF_UNKNOWN)"
proof -
  have codec: "codec_ok c" using assms(1) by (simp add: sqlite_inv_def)
  obtain row where st: "sqlite_enqueue_stores c db e row"
    using sqlite_enqueue_cases [of c db e] assms(2,3) by auto
  then have "e' = e" using assms(2) by (simp add: sqlite_enqueue_stores_def)
  moreover have "sqlite_get c db' (de_delivery_id e) = Inr (durable_copy e)"
    using st assms(2) model_to_envelope_to_model [OF codec, of e row]
    by (simp add: sqlite_enqueue_stores_def sqlite_get_def dict_get_set)
  moreover have "durable_copy e = e \<longleftrightarrow> dt_surface (de_target e) = SF_UNKNOWN"
    by (cases e, cases "de_target e") (auto simp: durable_copy_def)
  ultimately show ?thesis by simp
qed

text \<open>
  C9. The durable outbox refines the delivery lifecycle. Any sequence of enqueues of new envelopes,
  polls, completions and releases keeps the database invariant, and every stored delivery moves
  along lifecycle steps: attempts stay within the limit, terminal deliveries are never changed, and
  the lease a delivery holds is the one named after its current attempt, so the lease of an earlier
  attempt is never accepted as the current one.
\<close>

theorem sqlite_refines_lifecycle:
  assumes "sqlite_inv c db" and "list_all enqueues_new ops" and "sqlite_lookup c db i = Some e"
  shows "sqlite_inv c (sqlite_run c db ops) \<and>
    (\<exists>e'. sqlite_lookup c (sqlite_run c db ops) i = Some e' \<and> delivery_steps e e' \<and>
       de_attempts e' \<le> de_max_attempts e' \<and>
       (de_status e \<in> TERMINAL_DELIVERY_STATUSES \<longrightarrow> e' = e) \<and>
       (\<forall>l. de_lease_id e' = Some l \<longrightarrow> l = sqlite_lease_name i (de_attempts e')))"
proof -
  from sqlite_run_facts [OF assms(1,2)] have inv: "sqlite_inv c (sqlite_run c db ops)"
    and "lookup_evolves (sqlite_lookup c) db (sqlite_run c db ops)" by blast+
  with assms(3) obtain e' where e': "sqlite_lookup c (sqlite_run c db ops) i = Some e'" "delivery_steps e e'"
    unfolding lookup_evolves_def by blast
  moreover have "stored_ok i e'" by (rule sqlite_inv_stored [OF inv e'(1)])
  ultimately show ?thesis
    using inv delivery_steps_terminal [OF e'(2)] by (auto simp: stored_ok_def wf_delivery_def)
qed


text \<open>
  C11. Durable reports count once. Once a report on a lease has been accepted, at any later point of
  any run the same report is answered with the delivery's current state and changes nothing, and a
  report on the same lease with another outcome is refused as a conflict and changes nothing,
  whichever of the two report operations is used.
\<close>

theorem sqlite_report_exactly_once:
  assumes "sqlite_inv c db" and "one_report_per_attempt db"
    and "sqlite_complete c db i l r t = (Inr e, db') \<or> sqlite_release c db i l retry r t = (Inr e, db')"
    and "list_all enqueues_new ops" and "db2 = sqlite_run c db' ops"
  shows "\<exists>cur. sqlite_lookup c db2 i = Some cur \<and> delivery_steps e cur \<and>
    sqlite_complete c db2 i l r t2 = (Inr cur, db2) \<and>
    sqlite_release c db2 i l retry2 r t2 = (Inr cur, db2) \<and>
    (report_key i l r2 \<noteq> report_key i l r \<longrightarrow>
       sqlite_complete c db2 i l r2 t2 = (Inl (DeliveryOutboxError ''delivery_report_conflict''), db2) \<and>
       sqlite_release c db2 i l retry2 r2 t2 = (Inl (DeliveryOutboxError ''delivery_report_conflict''), db2))"
proof -
  obtain tr where tr: "lease_transition tr l" and app: "sqlite_apply_report tr c db i l r = (Inr e, db')"
    using assms(3) complete_lease_transition release_lease_transition
    unfolding sqlite_complete_def sqlite_release_def by blast
  have inv': "sqlite_inv c db'" and one': "one_report_per_attempt db'"
    using sqlite_report_evolves [OF assms(1) tr, of i r] one_report_apply_sqlite [OF assms(1,2) tr, of i r] app
    by simp_all
  from sqlite_report_stored [OF tr app] obtain f where at: "sqlite_lookup c db' i = Some e"
    and f: "dict_get (sq_fingerprints db') (report_key i l r) = Some f" by blast
  from sqlite_run_facts [OF inv' assms(4)] one' f have inv2: "sqlite_inv c db2"
    and one2: "one_report_per_attempt db2" and ev: "lookup_evolves (sqlite_lookup c) db' db2"
    and f2: "dict_get (sq_fingerprints db2) (report_key i l r) = Some f"
    unfolding assms(5) by blast+
  from ev at obtain cur where cur: "sqlite_lookup c db2 i = Some cur" "delivery_steps e cur"
    unfolding lookup_evolves_def by blast
  have conflict: "sqlite_apply_report tr' c db2 i l r2 =
      (Inl (DeliveryOutboxError ''delivery_report_conflict''), db2)"
    if "report_key i l r2 \<noteq> report_key i l r" for tr'
    by (rule sqlite_report_conflict [OF inv2 one2 f2 cur(1) that])
  have "sqlite_apply_report tr' c db2 i l r = (Inr cur, db2)" for tr'
    by (rule sqlite_report_repeat [OF cur(1) f2])
  with cur conflict show ?thesis
    by (auto simp: sqlite_complete_def sqlite_release_def)
qed

section \<open>A concrete database\<close>

definition example_db :: sqlite_outbox where
  "example_db = snd (sqlite_enqueue plain_codec (sqlite_outbox_init (Some 2)) example_delivery)"

lemma example_new: "new_delivery example_delivery"
  by (simp add: new_delivery_def example_delivery_def)

lemma example_db_inv: "sqlite_inv plain_codec example_db"
  unfolding example_db_def
  using sqlite_enqueue_evolves [OF sqlite_inv_init [OF plain_codec_ok] example_new] by blast

lemma example_enqueue:
  "sqlite_enqueue plain_codec (sqlite_outbox_init (Some 2)) example_delivery = (Inr example_delivery, example_db)"
  by (simp add: example_db_def sqlite_enqueue_def sqlite_outbox_init_def example_delivery_def
      sqlite_depth_exceeded_def dict_values_def envelope_to_model_def)

lemma example_db_changed: "example_db \<noteq> sqlite_outbox_init (Some 2)"
  by (simp add: example_db_def sqlite_enqueue_def sqlite_outbox_init_def example_delivery_def
      sqlite_depth_exceeded_def dict_values_def envelope_to_model_def)

lemma sqlite_round_trip_witness:
  "sqlite_get plain_codec example_db ''delivery:o1'' = Inr (durable_copy example_delivery) \<and>
   sqlite_get plain_codec example_db ''delivery:o1'' \<noteq> Inr example_delivery"
  using sqlite_round_trip [OF sqlite_inv_init [OF plain_codec_ok] example_enqueue example_db_changed]
  by (simp add: example_delivery_def example_target_def durable_copy_def)

lemma example_lookup: "sqlite_lookup plain_codec example_db ''delivery:o1'' = Some (durable_copy example_delivery)"
proof -
  have "dict_get (sq_rows example_db) ''delivery:o1'' =
      Some (case envelope_to_model plain_codec example_delivery of Inr row \<Rightarrow> row)"
    by (simp add: example_db_def sqlite_enqueue_def sqlite_outbox_init_def example_delivery_def
      sqlite_depth_exceeded_def dict_values_def envelope_to_model_def)
  moreover obtain row where "envelope_to_model plain_codec example_delivery = Inr row"
    by (simp add: envelope_to_model_def example_delivery_def)
  ultimately show ?thesis
    using model_to_envelope_to_model [OF plain_codec_ok] by (simp add: rows_lookup_def)
qed

lemma sqlite_refines_lifecycle_witness:
  "\<exists>e'. sqlite_lookup plain_codec
       (sqlite_run plain_codec example_db [Op_lease_due ''discord'' 5 3 30]) ''delivery:o1'' = Some e' \<and>
     delivery_steps (durable_copy example_delivery) e'"
proof -
  have "list_all enqueues_new [Op_lease_due ''discord'' 5 3 30]" by simp
  from sqlite_refines_lifecycle [OF example_db_inv this example_lookup] show ?thesis by blast
qed

lemma example_stored: "stored_envelopes plain_codec example_db = [durable_copy example_delivery]"
proof -
  have "dict_values (sq_rows example_db) = [case envelope_to_model plain_codec example_delivery of Inr row \<Rightarrow> row]"
    by (simp add: example_db_def sqlite_enqueue_def sqlite_outbox_init_def example_delivery_def
      sqlite_depth_exceeded_def dict_values_def envelope_to_model_def)
  moreover obtain row where "envelope_to_model plain_codec example_delivery = Inr row"
    by (simp add: envelope_to_model_def example_delivery_def)
  ultimately show ?thesis
    using model_to_envelope_to_model [OF plain_codec_ok]
    by (simp add: stored_envelopes_def decoded_rows_def)
qed

lemma example_leasable: "leasable 5 (durable_copy example_delivery)"
  by (simp add: leasable_def is_delivery_due_def durable_copy_def example_delivery_def
      TERMINAL_DELIVERY_STATUSES_def)


definition example_db_leased :: sqlite_outbox where
  "example_db_leased = snd (sqlite_lease_due plain_codec example_db ''discord'' 5 3 30)"

definition example_lease_id :: "string option" where
  "example_lease_id = Some ''delivery:o1:lease:1''"

lemma example_db_leased_facts:
  "sqlite_inv plain_codec example_db_leased \<and> sq_fingerprints example_db_leased = [] \<and>
   sqlite_lookup plain_codec example_db_leased ''delivery:o1'' =
     Some (sqlite_lease_item (durable_copy example_delivery) 5 30)"
proof -
  have ok: "rows_ok plain_codec (sq_rows example_db)" using example_db_inv by (simp add: sqlite_inv_def)
  have "dt_provider (de_target (durable_copy example_delivery)) = ''discord''"
    "de_delivery_id (durable_copy example_delivery) = ''delivery:o1''"
    by (simp_all add: example_delivery_def example_target_def)
  with sqlite_lease_due_eq [OF ok, of "''discord''" 5 3 30] have
    "sqlite_lookup plain_codec example_db_leased ''delivery:o1'' =
       Some (sqlite_lease_item (durable_copy example_delivery) 5 30)"
    by (auto simp: example_db_leased_def example_stored example_leasable numeral_3_eq_3)
  moreover have "sq_fingerprints example_db = []"
    using example_enqueue by (simp add: example_db_def sqlite_enqueue_def sqlite_outbox_init_def
        example_delivery_def sqlite_depth_exceeded_def dict_values_def envelope_to_model_def)
  then have "sq_fingerprints example_db_leased = []"
    using sqlite_frame(1) [OF ok] by (simp add: example_db_leased_def)
  ultimately show ?thesis
    using sqlite_lease_due_evolves [OF example_db_inv] by (simp add: example_db_leased_def)
qed

lemma example_durable_complete:
  assumes "ar_status r = AS_SUCCEEDED"
  shows "\<exists>e db'. sqlite_complete plain_codec example_db_leased ''delivery:o1'' example_lease_id r t
     = (Inr e, db') \<and> de_status e = DS_SUCCEEDED"
proof -
  obtain row where row: "dict_get (sq_rows example_db_leased) ''delivery:o1'' = Some row"
    "model_to_envelope plain_codec row = Inr (sqlite_lease_item (durable_copy example_delivery) 5 30)"
    using example_db_leased_facts rows_lookup_row by blast
  have st: "de_status (sqlite_lease_item (durable_copy example_delivery) 5 30) = DS_LEASED"
    "de_lease_id (sqlite_lease_item (durable_copy example_delivery) 5 30) = example_lease_id"
    by (simp_all add: sqlite_lease_item_def delivery_simps durable_copy_def example_delivery_def
        example_lease_id_def show_int_def show_nat.simps)
  show ?thesis
    using row st example_db_leased_facts
    by (simp add: sqlite_complete_def sqlite_apply_report_def prepare_report_def Let_def
        sqlite_classify_report_def dict_values_def complete_delivery_eq require_reportable_lease_def
        terminal_iff assms)
qed

lemma sqlite_report_exactly_once_witness:
  "\<exists>e db'. sqlite_complete plain_codec example_db_leased ''delivery:o1'' example_lease_id example_result 9
       = (Inr e, db') \<and>
     sqlite_complete plain_codec db' ''delivery:o1'' example_lease_id example_result 12 = (Inr e, db') \<and>
     sqlite_release plain_codec db' ''delivery:o1'' example_lease_id 40
         (example_result\<lparr>ar_status := AS_FAILED\<rparr>) 12
       = (Inl (DeliveryOutboxError ''delivery_report_conflict''), db')"
proof -
  obtain e db' where res: "sqlite_complete plain_codec example_db_leased ''delivery:o1''
      example_lease_id example_result 9 = (Inr e, db')" and e: "de_status e = DS_SUCCEEDED"
    using example_durable_complete [of example_result 9] by (auto simp: example_result_def)
  have one: "one_report_per_attempt example_db_leased"
    using example_db_leased_facts by (simp add: one_report_per_attempt_def)
  have inv: "sqlite_inv plain_codec example_db_leased" using example_db_leased_facts by blast
  have ne: "report_key ''delivery:o1'' example_lease_id (example_result\<lparr>ar_status := AS_FAILED\<rparr>) \<noteq>
      report_key ''delivery:o1'' example_lease_id example_result"
    by (simp add: build_fingerprint_key_def sqlite_result_fingerprint_def example_result_def)
  have "list_all enqueues_new []" by simp
  from sqlite_report_exactly_once [OF inv one disjI1 [OF res] this refl, of 12 40
      "example_result\<lparr>ar_status := AS_FAILED\<rparr>"] ne
  obtain cur where "delivery_steps e cur"
    "sqlite_complete plain_codec db' ''delivery:o1'' example_lease_id example_result 12 = (Inr cur, db')"
    "sqlite_release plain_codec db' ''delivery:o1'' example_lease_id 40
         (example_result\<lparr>ar_status := AS_FAILED\<rparr>) 12
       = (Inl (DeliveryOutboxError ''delivery_report_conflict''), db')"
    by auto
  moreover from this(1) e have "cur = e"
    by (intro delivery_steps_terminal) (simp_all add: TERMINAL_DELIVERY_STATUSES_def)
  ultimately show ?thesis using res by blast
qed

end
