(* ===== verification/Delivery_Broker.thy ===== *)
theory Delivery_Broker
  imports Delivery_Durable
begin

text \<open>
  The broker between the outbox and the polling clients: \<^verbatim>\<open>RuntimeAppActionBroker\<close> of
  \<^verbatim>\<open>iris/runtime/delivery/broker.py\<close>, with the learning hook runner
  (\<^verbatim>\<open>runtime/learning/hooks.py\<close>), the dispatch store
  (\<^verbatim>\<open>runtime/learning/dispatch.py\<close>) and the stable error reasons
  (\<^verbatim>\<open>adapters/app_gateway/ports.py\<close>). The outbox is the port record of \<open>Delivery_Port\<close>,
  an argument of the operations, as the source takes any \<^verbatim>\<open>DeliveryOutbox\<close>; the lemmas are
  proved once for every outbox that keeps the contract and hold for both backends by
  interpretation. SHA-256 is an argument; nothing about it is assumed. A hook is a function of the
  event and of the state hooks act on, that may raise.
\<close>

section \<open>Data\<close>

record learning_event =
  le_result :: action_result
  le_delivery :: "delivery_envelope option"
  le_action :: app_action
  le_target :: "delivery_target option"
  le_reported_at :: datetime
  le_source_observation_id :: "string option"

datatype hook_outcome = Hook_ok | Hook_exception | Hook_base_exception

type_synonym 'h learning_hook = "learning_event \<Rightarrow> 'h \<Rightarrow> hook_outcome \<times> 'h"

text \<open>
  The runner isolates an \<^verbatim>\<open>Exception\<close> of a hook; a \<^verbatim>\<open>BaseException\<close> that is not one
  (a cancellation) propagates and stops the loop. The flag says whether the loop finished.
\<close>

fun run_hooks :: "'h learning_hook list \<Rightarrow> learning_event \<Rightarrow> 'h \<Rightarrow> bool \<times> 'h" where
  "run_hooks [] ev h = (True, h)"
| "run_hooks (hook # hooks) ev h =
     (case hook ev h of
        (Hook_base_exception, h') \<Rightarrow> (False, h')
      | (_, h') \<Rightarrow> run_hooks hooks ev h')"

definition mark_if_absent :: "string set \<Rightarrow> string \<Rightarrow> bool \<times> string set" where
  "mark_if_absent keys key = (if key \<in> keys then (False, keys) else (True, insert key keys))"

datatype broker_reason =
  DELIVERY_NOT_FOUND | LEASE_MISMATCH | DELIVERY_NOT_LEASED | DELIVERY_ALREADY_TERMINAL
| DELIVERY_REPORT_CONFLICT | OUTBOX_DEPTH_EXCEEDED | NO_ACTION_NOT_DELIVERABLE
| IDEMPOTENCY_KEY_REQUIRED | OTHER_REASON string

fun broker_reason_value :: "broker_reason \<Rightarrow> string" where
  "broker_reason_value DELIVERY_NOT_FOUND = ''delivery_not_found''"
| "broker_reason_value LEASE_MISMATCH = ''lease_mismatch''"
| "broker_reason_value DELIVERY_NOT_LEASED = ''delivery_not_leased''"
| "broker_reason_value DELIVERY_ALREADY_TERMINAL = ''delivery_already_terminal''"
| "broker_reason_value DELIVERY_REPORT_CONFLICT = ''delivery_report_conflict''"
| "broker_reason_value OUTBOX_DEPTH_EXCEEDED = ''outbox_depth_exceeded''"
| "broker_reason_value NO_ACTION_NOT_DELIVERABLE = ''no_action_not_deliverable''"
| "broker_reason_value IDEMPOTENCY_KEY_REQUIRED = ''idempotency_key_required''"
| "broker_reason_value (OTHER_REASON s) = s"

definition normalize_broker_reason :: "string \<Rightarrow> broker_reason" where
  "normalize_broker_reason s =
     (case find (\<lambda>r. broker_reason_value r = s)
         [DELIVERY_NOT_FOUND, LEASE_MISMATCH, DELIVERY_NOT_LEASED, DELIVERY_ALREADY_TERMINAL,
          DELIVERY_REPORT_CONFLICT, OUTBOX_DEPTH_EXCEEDED, NO_ACTION_NOT_DELIVERABLE,
          IDEMPOTENCY_KEY_REQUIRED] of
        Some r \<Rightarrow> r
      | None \<Rightarrow> OTHER_REASON s)"

text \<open>
  Errors of the broker: the stable error, an exception of the outbox that is not a
  \<^verbatim>\<open>DeliveryOutboxError\<close> and passes through, and an interrupted hook run.
\<close>

datatype broker_error =
  AppActionBrokerError broker_reason
| Outbox_exception outbox_error
| Hooks_interrupted

record broker_config =
  bc_lease_seconds :: seconds
  bc_retry_backoff_seconds :: seconds

record proactive_log =
  pl_outcome :: string
  pl_reason :: "string option"
  pl_observation_id :: string
  pl_delivery_id :: string

record ('ob, 'h) broker_state =
  bs_outbox :: 'ob
  bs_hooks :: 'h
  bs_dispatched :: "string set option"
  bs_log :: "proactive_log list"

section \<open>Operations\<close>

definition broker_error_of :: "outbox_error \<Rightarrow> broker_error" where
  "broker_error_of err =
     (case err of
        DeliveryOutboxError reason \<Rightarrow> AppActionBrokerError (normalize_broker_reason reason)
      | _ \<Rightarrow> Outbox_exception err)"

definition poll_actions ::
  "'ob outbox_port \<Rightarrow> broker_config \<Rightarrow> ('ob, 'h) broker_state \<Rightarrow> string \<Rightarrow> datetime \<Rightarrow> int
     \<Rightarrow> (broker_error + delivery_envelope list) \<times> ('ob, 'h) broker_state" where
  "poll_actions port cfg st provider now max_items =
     (case port_lease_due port (bs_outbox st) provider now max_items (bc_lease_seconds cfg) of
        (Inl err, ob') \<Rightarrow> (Inl (broker_error_of err), st\<lparr>bs_outbox := ob'\<rparr>)
      | (Inr due, ob') \<Rightarrow> (Inr due, st\<lparr>bs_outbox := ob'\<rparr>))"

definition get_delivery_provider ::
  "'ob outbox_port \<Rightarrow> ('ob, 'h) broker_state \<Rightarrow> string \<Rightarrow> broker_error + string" where
  "get_delivery_provider port st delivery_id =
     (case port_get port (bs_outbox st) delivery_id of
        Inl err \<Rightarrow> Inl (broker_error_of err)
      | Inr existing \<Rightarrow> Inr (dt_provider (de_target existing)))"

definition TERMINAL_REPORT_STATUSES :: "action_status set" where
  "TERMINAL_REPORT_STATUSES = {AS_SUCCEEDED, AS_CANCELLED, AS_BLOCKED}"

definition or_empty :: "string option \<Rightarrow> string" where
  "or_empty x = (case x of None \<Rightarrow> [] | Some s \<Rightarrow> s)"

fun join_bar :: "string list \<Rightarrow> string" where
  "join_bar [] = []"
| "join_bar [s] = s"
| "join_bar (s # ss) = s @ ''|'' @ join_bar ss"

definition learning_dispatch_key :: "(string \<Rightarrow> string) \<Rightarrow> delivery_report \<Rightarrow> string" where
  "learning_dispatch_key sha256 report =
     (let result = dr_result report
      in sha256 (join_bar
           [dr_delivery_id report, or_empty (dr_lease_id report), ar_action_id result,
            ar_correlation_id result, action_status_value (ar_status result),
            or_empty (ar_external_message_id result), or_empty (ar_error_reason result)]))"

definition learning_event_of :: "delivery_report \<Rightarrow> delivery_envelope \<Rightarrow> learning_event" where
  "learning_event_of report delivery =
     \<lparr>le_result = dr_result report, le_delivery = Some delivery, le_action = de_action delivery,
      le_target = Some (de_target delivery), le_reported_at = dr_reported_at report,
      le_source_observation_id = de_source_observation_id delivery\<rparr>"

definition dispatch_learning ::
  "(string \<Rightarrow> string) \<Rightarrow> 'h learning_hook list option \<Rightarrow> ('ob, 'h) broker_state \<Rightarrow> delivery_report
     \<Rightarrow> delivery_envelope \<Rightarrow> bool \<times> ('ob, 'h) broker_state" where
  "dispatch_learning sha256 runner st report delivery =
     (case (runner, bs_dispatched st) of
        (Some hooks, Some keys) \<Rightarrow>
          (case mark_if_absent keys (learning_dispatch_key sha256 report) of
             (False, _) \<Rightarrow> (True, st)
           | (True, keys') \<Rightarrow>
               let (finished, h') = run_hooks hooks (learning_event_of report delivery) (bs_hooks st)
               in (finished, st\<lparr>bs_hooks := h', bs_dispatched := Some keys'\<rparr>))
      | _ \<Rightarrow> (True, st))"

definition log_delivery ::
  "('ob, 'h) broker_state \<Rightarrow> delivery_report \<Rightarrow> delivery_envelope \<Rightarrow> ('ob, 'h) broker_state" where
  "log_delivery st report updated =
     (case de_source_observation_id updated of
        None \<Rightarrow> st
      | Some obs \<Rightarrow>
          st\<lparr>bs_log := bs_log st @
               [\<lparr>pl_outcome = (if ar_status (dr_result report) = AS_SUCCEEDED then ''delivered''
                                else action_status_value (ar_status (dr_result report))),
                 pl_reason = ar_error_reason (dr_result report),
                 pl_observation_id = obs, pl_delivery_id = de_delivery_id updated\<rparr>]\<rparr>)"

definition report_action_result ::
  "'ob outbox_port \<Rightarrow> broker_config \<Rightarrow> (string \<Rightarrow> string) \<Rightarrow> 'h learning_hook list option
     \<Rightarrow> ('ob, 'h) broker_state \<Rightarrow> delivery_report
     \<Rightarrow> (broker_error + delivery_envelope) \<times> ('ob, 'h) broker_state" where
  "report_action_result port cfg sha256 runner st report =
     (case
        (if ar_status (dr_result report) \<in> TERMINAL_REPORT_STATUSES
         then port_complete port (bs_outbox st) (dr_delivery_id report) (dr_lease_id report)
                (dr_result report) (dr_reported_at report)
         else port_release port (bs_outbox st) (dr_delivery_id report) (dr_lease_id report)
                (dr_reported_at report + timedelta_seconds (bc_retry_backoff_seconds cfg))
                (dr_result report) (dr_reported_at report)) of
        (Inl err, ob') \<Rightarrow> (Inl (broker_error_of err), st\<lparr>bs_outbox := ob'\<rparr>)
      | (Inr updated, ob') \<Rightarrow>
          (case dispatch_learning sha256 runner
                  (log_delivery (st\<lparr>bs_outbox := ob'\<rparr>) report updated) report updated of
             (True, st') \<Rightarrow> (Inr updated, st')
           | (False, st') \<Rightarrow> (Inl Hooks_interrupted, st')))"

section \<open>Dispatch of learning events\<close>

text \<open>No dispatch is due for a report: learning is off, or the report's key is marked.\<close>

definition dispatch_done ::
  "(string \<Rightarrow> string) \<Rightarrow> 'h learning_hook list option \<Rightarrow> ('ob, 'h) broker_state \<Rightarrow> delivery_report \<Rightarrow> bool" where
  "dispatch_done sha256 runner st report \<longleftrightarrow>
     (case (runner, bs_dispatched st) of
        (Some _, Some keys) \<Rightarrow> learning_dispatch_key sha256 report \<in> keys
      | _ \<Rightarrow> True)"

lemma dispatch_learning_done:
  "dispatch_done sha256 runner st report \<Longrightarrow> dispatch_learning sha256 runner st report d = (True, st)"
  by (auto simp: dispatch_learning_def dispatch_done_def mark_if_absent_def split: option.splits)

lemma dispatch_learning_marks:
  "dispatch_learning sha256 runner st report d = (fin, st') \<Longrightarrow>
     dispatch_done sha256 runner st' report \<and> bs_outbox st' = bs_outbox st \<and> bs_log st' = bs_log st"
  by (auto simp: dispatch_learning_def dispatch_done_def mark_if_absent_def
      split: option.splits if_splits prod.splits)

lemma log_delivery_simps [simp]:
  "bs_outbox (log_delivery st report e) = bs_outbox st"
  "dispatch_done sha256 runner (log_delivery st report e) report' = dispatch_done sha256 runner st report'"
  by (simp_all add: log_delivery_def dispatch_done_def split: option.split)

lemma dispatch_done_time [simp]:
  "dispatch_done sha256 runner st (report\<lparr>dr_reported_at := t\<rparr>) = dispatch_done sha256 runner st report"
  by (simp add: dispatch_done_def learning_dispatch_key_def split: option.split)

text \<open>The outbox operation a report stands for.\<close>

definition outbox_report ::
  "'ob outbox_port \<Rightarrow> broker_config \<Rightarrow> 'ob \<Rightarrow> delivery_report \<Rightarrow> (outbox_error + delivery_envelope) \<times> 'ob" where
  "outbox_report port cfg ob report =
     (if ar_status (dr_result report) \<in> TERMINAL_REPORT_STATUSES
      then port_complete port ob (dr_delivery_id report) (dr_lease_id report)
             (dr_result report) (dr_reported_at report)
      else port_release port ob (dr_delivery_id report) (dr_lease_id report)
             (dr_reported_at report + timedelta_seconds (bc_retry_backoff_seconds cfg))
             (dr_result report) (dr_reported_at report))"

lemma report_action_result_eq:
  "report_action_result port cfg sha256 runner st report =
     (case outbox_report port cfg (bs_outbox st) report of
        (Inl err, ob') \<Rightarrow> (Inl (broker_error_of err), st\<lparr>bs_outbox := ob'\<rparr>)
      | (Inr updated, ob') \<Rightarrow>
          (case dispatch_learning sha256 runner
                  (log_delivery (st\<lparr>bs_outbox := ob'\<rparr>) report updated) report updated of
             (True, st') \<Rightarrow> (Inr updated, st')
           | (False, st') \<Rightarrow> (Inl Hooks_interrupted, st')))"
  by (simp only: report_action_result_def outbox_report_def)

section \<open>For every outbox that keeps the contract\<close>

context delivery_outbox
begin

lemma outbox_report_error: "outbox_report port cfg ob report = (Inl err, ob') \<Longrightarrow> ob' = ob"
  by (auto simp: outbox_report_def split: if_splits dest: complete_error release_error)

lemma outbox_report_inv: "inv ob \<Longrightarrow> outbox_report port cfg ob report = (res, ob') \<Longrightarrow> inv ob'"
  using complete_inv release_inv by (auto simp: outbox_report_def split: if_splits) (metis snd_conv)+

lemma outbox_report_stored:
  "inv ob \<Longrightarrow> outbox_report port cfg ob report = (Inr e, ob') \<Longrightarrow> lookup ob' (dr_delivery_id report) = Some e"
  by (auto simp: outbox_report_def split: if_splits dest: complete_stored release_stored)

lemma outbox_report_repeat:
  "inv ob \<Longrightarrow> outbox_report port cfg ob report = (Inr e, ob') \<Longrightarrow>
     outbox_report port cfg ob' (report\<lparr>dr_reported_at := t\<rparr>) = (Inr e, ob')"
  by (auto simp: outbox_report_def split: if_splits dest: complete_repeat release_repeat)

lemma outbox_report_frame:
  "inv ob \<Longrightarrow> outbox_report port cfg ob report = (Inr e, ob') \<Longrightarrow> j \<noteq> dr_delivery_id report \<Longrightarrow>
     lookup ob' j = lookup ob j"
  by (auto simp: outbox_report_def split: if_splits dest: complete_applies release_applies)

lemma report_fails_clean:
  assumes "report_action_result port cfg sha256 runner st report = (Inl err, st')"
    and "err \<noteq> Hooks_interrupted"
  shows "st' = st"
proof -
  obtain res ob' where r: "outbox_report port cfg (bs_outbox st) report = (res, ob')" by fastforce
  show ?thesis
  proof (cases res)
    case (Inl err')
    with r have "ob' = bs_outbox st" using outbox_report_error by blast
    with assms r Inl show ?thesis by (simp add: report_action_result_eq)
  next
    case (Inr updated)
    with assms r show ?thesis by (auto simp: report_action_result_eq split: prod.splits bool.splits)
  qed
qed

lemma report_accepted:
  assumes "report_action_result port cfg sha256 runner st report = (res, st')"
    and "res = Inr e0 \<or> res = Inl Hooks_interrupted"
  obtains e where "outbox_report port cfg (bs_outbox st) report = (Inr e, bs_outbox st')"
    "dispatch_done sha256 runner st' report" "res = Inr e0 \<longrightarrow> e0 = e"
proof -
  obtain ores ob' where r: "outbox_report port cfg (bs_outbox st) report = (ores, ob')" by fastforce
  have "broker_error_of err \<noteq> Hooks_interrupted" for err
    by (simp add: broker_error_of_def split: outbox_error.split)
  with assms r obtain e where e: "ores = Inr e"
    by (cases ores) (auto simp: report_action_result_eq)
  obtain fin st1 where d: "dispatch_learning sha256 runner
      (log_delivery (st\<lparr>bs_outbox := ob'\<rparr>) report e) report e = (fin, st1)" by fastforce
  have "st' = st1" "res = Inr e0 \<longrightarrow> e0 = e"
    using assms r e d by (auto simp: report_action_result_eq split: bool.splits)
  with dispatch_learning_marks [OF d] r e show thesis by (intro that [of e]) auto
qed

lemma report_repeated:
  assumes "inv (bs_outbox st)"
    and "report_action_result port cfg sha256 runner st report = (res, st')"
    and "res = Inr e0 \<or> res = Inl Hooks_interrupted"
  shows "\<exists>e. lookup (bs_outbox st') (dr_delivery_id report) = Some e \<and> (res = Inr e0 \<longrightarrow> e0 = e) \<and>
    report_action_result port cfg sha256 runner st' (report\<lparr>dr_reported_at := t\<rparr>) =
      (Inr e, log_delivery st' (report\<lparr>dr_reported_at := t\<rparr>) e)"
proof -
  let ?again = "report\<lparr>dr_reported_at := t\<rparr>"
  obtain e where e: "outbox_report port cfg (bs_outbox st) report = (Inr e, bs_outbox st')"
    "dispatch_done sha256 runner st' report" "res = Inr e0 \<longrightarrow> e0 = e"
    using report_accepted [OF assms(2,3)] by blast
  have "outbox_report port cfg (bs_outbox st') ?again = (Inr e, bs_outbox st')"
    by (rule outbox_report_repeat [OF assms(1) e(1)])
  moreover have "dispatch_learning sha256 runner (log_delivery st' ?again e) ?again e =
      (True, log_delivery st' ?again e)"
    by (rule dispatch_learning_done) (simp add: e(2))
  ultimately have "report_action_result port cfg sha256 runner st' ?again = (Inr e, log_delivery st' ?again e)"
    by (simp add: report_action_result_eq)
  with e outbox_report_stored [OF assms(1) e(1)] show ?thesis by blast
qed

text \<open>What an accepted report does to the delivery it is about.\<close>

lemma report_effect:
  assumes "inv (bs_outbox st)" and "lookup (bs_outbox st) (dr_delivery_id report) = Some old"
    and "report_action_result port cfg sha256 runner st report = (Inr e, st')"
  shows "e = old \<or>
    de_status old = DS_LEASED \<and> de_lease_id old = dr_lease_id report \<and> de_lease_id e = None \<and>
    de_status e = (case ar_status (dr_result report) of
        AS_SUCCEEDED \<Rightarrow> DS_SUCCEEDED | AS_CANCELLED \<Rightarrow> DS_CANCELLED | AS_BLOCKED \<Rightarrow> DS_BLOCKED
      | AS_FAILED \<Rightarrow> (if de_attempts old < de_max_attempts old then DS_PENDING else DS_FAILED_PERMANENT)) \<and>
    (de_status e = DS_PENDING \<longrightarrow>
       de_not_before e = Some (dr_reported_at report + timedelta_seconds (bc_retry_backoff_seconds cfg)))"
proof -
  obtain ob' where rep: "outbox_report port cfg (bs_outbox st) report = (Inr e, ob')"
    using report_accepted [OF assms(3)] by blast
  show ?thesis
  proof (cases "ar_status (dr_result report) \<in> TERMINAL_REPORT_STATUSES")
    case True
    with rep have "port_complete port (bs_outbox st) (dr_delivery_id report) (dr_lease_id report)
        (dr_result report) (dr_reported_at report) = (Inr e, ob')"
      by (simp add: outbox_report_def)
    from complete_applies [OF assms(1) this] assms(2) have
      "e = old \<or> complete_delivery old (dr_lease_id report) (dr_result report) (dr_reported_at report) = Inr e"
      by auto
    with True show ?thesis
      by (auto simp: TERMINAL_REPORT_STATUSES_def dest!: complete_delivery_ok)
  next
    case False
    with rep have "port_release port (bs_outbox st) (dr_delivery_id report) (dr_lease_id report)
        (dr_reported_at report + timedelta_seconds (bc_retry_backoff_seconds cfg))
        (dr_result report) (dr_reported_at report) = (Inr e, ob')"
      by (simp add: outbox_report_def)
    moreover have "ar_status (dr_result report) = AS_FAILED"
      using False by (cases "ar_status (dr_result report)") (auto simp: TERMINAL_REPORT_STATUSES_def)
    ultimately show ?thesis
      using release_applies [OF assms(1)] assms(2)
      by (fastforce dest!: release_delivery_ok split: if_splits)
  qed
qed

end

section \<open>Properties\<close>

text \<open>
  A report acts at most once, with the in-memory and with the durable outbox. After a report
  was accepted, even one whose hook run was interrupted, repeating it (at any reporting time)
  returns the stored delivery and changes neither the outbox, nor the state of the learning hooks,
  nor the dispatch store: only a log line may be added.
\<close>

theorem broker_report_at_most_once:
  assumes "outbox_inv (bs_outbox st)"
    and "report_action_result in_memory_port cfg sha256 runner st report = (res, st')"
    and "res = Inr e0 \<or> res = Inl Hooks_interrupted"
    and "sqlite_inv c (bs_outbox db)"
    and "report_action_result (sqlite_port c) cfg sha256 runner db dreport = (dres, db')"
    and "dres = Inr d0 \<or> dres = Inl Hooks_interrupted"
  shows
    "(\<exists>e. item_at (bs_outbox st') (dr_delivery_id report) = Some e \<and> (res = Inr e0 \<longrightarrow> e0 = e) \<and>
        report_action_result in_memory_port cfg sha256 runner st' (report\<lparr>dr_reported_at := t\<rparr>) =
          (Inr e, log_delivery st' (report\<lparr>dr_reported_at := t\<rparr>) e)) \<and>
     (\<exists>d. sqlite_lookup c (bs_outbox db') (dr_delivery_id dreport) = Some d \<and> (dres = Inr d0 \<longrightarrow> d0 = d) \<and>
        report_action_result (sqlite_port c) cfg sha256 runner db' (dreport\<lparr>dr_reported_at := t\<rparr>) =
          (Inr d, log_delivery db' (dreport\<lparr>dr_reported_at := t\<rparr>) d))"
  using mem.report_repeated [OF assms(1-3)] sql.report_repeated [OF assms(4-6)] by blast

text \<open>
  C13. A report that fails changes nothing. Whatever the outbox refuses (an unknown delivery, a
  lease that does not match, a delivery not leased or already terminal, a conflicting report), the
  broker's whole state is as before, with both outboxes.
\<close>

theorem broker_failure_clean:
  assumes "report_action_result in_memory_port cfg sha256 runner st report = (Inl err, st')"
    and "report_action_result (sqlite_port c) cfg sha256 runner db dreport = (Inl derr, db')"
    and "err \<noteq> Hooks_interrupted" and "derr \<noteq> Hooks_interrupted"
  shows "st' = st \<and> db' = db"
  using mem.report_fails_clean [OF assms(1,3)] sql.report_fails_clean [OF assms(2,4)] by blast


section \<open>Concrete reports\<close>

definition example_config :: broker_config where
  "example_config = \<lparr>bc_lease_seconds = 30, bc_retry_backoff_seconds = 30\<rparr>"

text \<open>A hook that counts events, and a hash that is the identity.\<close>

definition counting_hook :: "nat learning_hook" where
  "counting_hook ev n = (Hook_ok, n + 1)"

definition example_broker :: "(in_memory_outbox, nat) broker_state" where
  "example_broker =
     \<lparr>bs_outbox = example_outbox_leased, bs_hooks = 0, bs_dispatched = Some {}, bs_log = []\<rparr>"

definition example_durable_broker :: "(sqlite_outbox, nat) broker_state" where
  "example_durable_broker =
     \<lparr>bs_outbox = example_db_leased, bs_hooks = 0, bs_dispatched = Some {}, bs_log = []\<rparr>"

definition example_report :: "string option \<Rightarrow> delivery_report" where
  "example_report l =
     \<lparr>dr_delivery_id = ''delivery:o1'', dr_lease_id = l, dr_result = example_result, dr_reported_at = 9\<rparr>"

lemma example_report_memory:
  "\<exists>e st'. report_action_result in_memory_port example_config id (Some [counting_hook]) example_broker
     (example_report (Some ''lease-1'')) = (Inr e, st') \<and> bs_hooks st' = 1"
  by (auto simp: report_action_result_def example_report_def TERMINAL_REPORT_STATUSES_def
      example_broker_def example_result_def complete_def apply_report_def get_delivery_def
      example_outbox_leased_eq report_history_def classify_report_def complete_delivery_eq
      require_reportable_lease_def terminal_iff dispatch_learning_def log_delivery_def
      mark_if_absent_def counting_hook_def Let_def split: option.split)

lemma example_report_durable:
  "\<exists>e st'. report_action_result (sqlite_port plain_codec) example_config id (Some [counting_hook])
     example_durable_broker (example_report example_lease_id) = (Inr e, st') \<and>
     bs_hooks st' = 1 \<and> de_status e = DS_SUCCEEDED"
proof -
  obtain e db' where "sqlite_complete plain_codec example_db_leased ''delivery:o1''
      example_lease_id example_result 9 = (Inr e, db')" "de_status e = DS_SUCCEEDED"
    using example_durable_complete [of example_result 9] by (auto simp: example_result_def)
  moreover have "ar_status example_result = AS_SUCCEEDED" by (simp add: example_result_def)
  ultimately show ?thesis
    by (auto simp: report_action_result_def example_report_def TERMINAL_REPORT_STATUSES_def
        example_durable_broker_def dispatch_learning_def log_delivery_def mark_if_absent_def
        counting_hook_def Let_def split: option.split)
qed

lemma example_broker_inv:
  "outbox_inv (bs_outbox example_broker)" "sqlite_inv plain_codec (bs_outbox example_durable_broker)"
  using example_outbox_leased_inv example_db_leased_facts
  by (simp_all add: example_broker_def example_durable_broker_def)

text \<open>Each outbox is reported to under the lease it issued.\<close>

lemma broker_report_at_most_once_witness:
  "\<exists>e st' d db'.
     report_action_result in_memory_port example_config id (Some [counting_hook]) example_broker
       (example_report (Some ''lease-1'')) = (Inr e, st') \<and> bs_hooks st' = 1 \<and>
     report_action_result in_memory_port example_config id (Some [counting_hook]) st'
       (example_report (Some ''lease-1'')\<lparr>dr_reported_at := 20\<rparr>) =
       (Inr e, log_delivery st' (example_report (Some ''lease-1'')\<lparr>dr_reported_at := 20\<rparr>) e) \<and>
     report_action_result (sqlite_port plain_codec) example_config id (Some [counting_hook]) db'
       (example_report example_lease_id\<lparr>dr_reported_at := 20\<rparr>) =
       (Inr d, log_delivery db' (example_report example_lease_id\<lparr>dr_reported_at := 20\<rparr>) d)"
proof -
  obtain e st' where res: "report_action_result in_memory_port example_config id (Some [counting_hook])
      example_broker (example_report (Some ''lease-1'')) = (Inr e, st')" "bs_hooks st' = 1"
    using example_report_memory by blast
  obtain d db' where dres: "report_action_result (sqlite_port plain_codec) example_config id
      (Some [counting_hook]) example_durable_broker (example_report example_lease_id) = (Inr d, db')"
    using example_report_durable by blast
  from broker_report_at_most_once [OF example_broker_inv(1) res(1) disjI1 [OF refl]
      example_broker_inv(2) dres disjI1 [OF refl], of 20] res
  show ?thesis by blast
qed

lemma example_wrong_lease:
  "report_action_result in_memory_port example_config id (Some [counting_hook]) example_broker
     (example_report None) = (Inl (AppActionBrokerError LEASE_MISMATCH), example_broker)"
  by (simp add: report_action_result_def example_report_def TERMINAL_REPORT_STATUSES_def
      example_broker_def example_result_def complete_def apply_report_def get_delivery_def
      example_outbox_leased_eq report_history_def classify_report_def complete_delivery_eq
      require_reportable_lease_def terminal_iff broker_error_of_def normalize_broker_reason_def Let_def)

lemma example_unknown_delivery:
  "\<exists>db'. report_action_result (sqlite_port plain_codec) example_config id (Some [counting_hook])
     (example_durable_broker\<lparr>bs_outbox := sqlite_outbox_init None\<rparr>) (example_report None) =
     (Inl (AppActionBrokerError DELIVERY_NOT_FOUND), db')"
  by (simp add: report_action_result_def example_report_def TERMINAL_REPORT_STATUSES_def
      example_durable_broker_def example_result_def sqlite_complete_def sqlite_apply_report_def
      prepare_report_def sqlite_outbox_init_def broker_error_of_def normalize_broker_reason_def)

lemma broker_failure_clean_witness:
  "report_action_result (sqlite_port plain_codec) example_config id (Some [counting_hook])
     (example_durable_broker\<lparr>bs_outbox := sqlite_outbox_init None\<rparr>) (example_report None) =
     (Inl (AppActionBrokerError DELIVERY_NOT_FOUND),
      example_durable_broker\<lparr>bs_outbox := sqlite_outbox_init None\<rparr>)"
proof -
  obtain db' where res: "report_action_result (sqlite_port plain_codec) example_config id
      (Some [counting_hook]) (example_durable_broker\<lparr>bs_outbox := sqlite_outbox_init None\<rparr>)
      (example_report None) = (Inl (AppActionBrokerError DELIVERY_NOT_FOUND), db')"
    using example_unknown_delivery by blast
  with broker_failure_clean [OF example_wrong_lease res] show ?thesis by simp
qed


end
