(* ===== verification/Auth_Policy.thy ===== *)
theory Auth_Policy
  imports Iris_Prelude
begin

text \<open>
  The authorization policy of the RPC boundary: \<^verbatim>\<open>iris/runtime/auth/policy.py\<close> with the
  principals, scopes and profiles it reads (\<^verbatim>\<open>principals.py\<close>, \<^verbatim>\<open>scopes.py\<close>,
  \<^verbatim>\<open>profiles.py\<close>, \<^verbatim>\<open>ingress/observation_ingress.py\<close>). A check either passes or
  raises \<^verbatim>\<open>RuntimePermissionDeniedError\<close> with a message; a sequence of checks stops at the
  first that raises.
\<close>

section \<open>Principals\<close>

datatype auth_scope =
  RUNTIME_INFO_READ | OBSERVATION_SUBMIT | OBSERVATION_SUBMIT_TRUSTED | DELIVERY_POLL
| DELIVERY_REPORT | TRANSCRIPT_READ | TRANSCRIPT_CLEANUP | ADMIN_RUNTIME

fun auth_scope_value :: "auth_scope \<Rightarrow> string" where
  "auth_scope_value RUNTIME_INFO_READ = ''runtime.info.read''"
| "auth_scope_value OBSERVATION_SUBMIT = ''observation.submit''"
| "auth_scope_value OBSERVATION_SUBMIT_TRUSTED = ''observation.submit.trusted''"
| "auth_scope_value DELIVERY_POLL = ''delivery.poll''"
| "auth_scope_value DELIVERY_REPORT = ''delivery.report''"
| "auth_scope_value TRANSCRIPT_READ = ''transcript.read''"
| "auth_scope_value TRANSCRIPT_CLEANUP = ''transcript.cleanup''"
| "auth_scope_value ADMIN_RUNTIME = ''admin.runtime''"

datatype client_kind = LOCAL_DEV | EXTERNAL_CLIENT | TRUSTED_ADAPTER | ADMIN

datatype observation_capability =
  INTEGRATE_ACTIVITY | INTEGRATE_PRESENCE | UPDATE_SPACE_OCCUPANCY | REACT_TO_ACTIVITY
| INTERNAL_EVENT | REGISTER_DELIVERY_TARGET

record client_principal =
  cp_client_id :: string
  cp_client_kind :: client_kind
  cp_provider :: "string option"
  cp_allowed_providers :: "string set"
  cp_scopes :: "auth_scope set"
  cp_observation_capabilities :: "observation_capability set"
  cp_authenticated :: bool

definition all_auth_scopes :: "auth_scope set" where
  "all_auth_scopes =
     {RUNTIME_INFO_READ, OBSERVATION_SUBMIT, OBSERVATION_SUBMIT_TRUSTED, DELIVERY_POLL,
      DELIVERY_REPORT, TRANSCRIPT_READ, TRANSCRIPT_CLEANUP, ADMIN_RUNTIME}"

definition local_dev_principal :: client_principal where
  "local_dev_principal =
     \<lparr>cp_client_id = ''local_dev'', cp_client_kind = LOCAL_DEV, cp_provider = None,
      cp_allowed_providers = {''*''}, cp_scopes = all_auth_scopes,
      cp_observation_capabilities = {}, cp_authenticated = False\<rparr>"

text \<open>\<^verbatim>\<open>current_principal\<close>: the principal bound to the context, or the local one.\<close>

definition current_principal :: "client_principal option \<Rightarrow> client_principal" where
  "current_principal bound = (case bound of None \<Rightarrow> local_dev_principal | Some p \<Rightarrow> p)"

definition TRUSTED_ADAPTER_SCOPES :: "auth_scope set" where
  "TRUSTED_ADAPTER_SCOPES =
     {RUNTIME_INFO_READ, OBSERVATION_SUBMIT_TRUSTED, DELIVERY_POLL, DELIVERY_REPORT}"

definition EXTERNAL_CLIENT_FORBIDDEN_SCOPES :: "auth_scope set" where
  "EXTERNAL_CLIENT_FORBIDDEN_SCOPES =
     {OBSERVATION_SUBMIT_TRUSTED, DELIVERY_POLL, DELIVERY_REPORT, TRANSCRIPT_CLEANUP, ADMIN_RUNTIME}"

definition TRUSTED_ADAPTER_OBSERVATION_CAPABILITIES :: "observation_capability set" where
  "TRUSTED_ADAPTER_OBSERVATION_CAPABILITIES =
     {INTEGRATE_ACTIVITY, INTEGRATE_PRESENCE, UPDATE_SPACE_OCCUPANCY}"

section \<open>Checks\<close>

type_synonym auth_result = "string + unit"

definition deny :: "string \<Rightarrow> auth_result" where
  "deny message = Inl message"

definition and_then :: "auth_result \<Rightarrow> auth_result \<Rightarrow> auth_result" where
  "and_then a b = (case a of Inl e \<Rightarrow> Inl e | Inr _ \<Rightarrow> b)"

lemma and_then_ok [simp]: "and_then a b = Inr u \<longleftrightarrow> a = Inr () \<and> b = Inr ()"
  by (cases a) (auto simp: and_then_def)

record observation_request_claims =
  oc_account_ref_provider :: "string option"
  oc_space_ref_provider :: "string option"
  oc_has_actor :: bool
  oc_has_account_id :: bool
  oc_has_space_id :: bool

definition has_scope :: "client_principal \<Rightarrow> auth_scope \<Rightarrow> bool" where
  "has_scope p scope =
     (if scope \<in> cp_scopes p then True
      else cp_client_kind p = ADMIN \<and> ADMIN_RUNTIME \<in> cp_scopes p)"

definition require_scope :: "client_principal \<Rightarrow> auth_scope \<Rightarrow> auth_result" where
  "require_scope p scope =
     (if \<not> has_scope p scope then deny (auth_scope_value scope @ '' scope required'') else Inr ())"

definition require_provider :: "client_principal \<Rightarrow> string \<Rightarrow> auth_result" where
  "require_provider p provider =
     (if ''*'' \<in> cp_allowed_providers p
      then (if cp_client_kind p \<in> {EXTERNAL_CLIENT, TRUSTED_ADAPTER}
            then deny ''external ingress principal must not use wildcard provider''
            else Inr ())
      else if provider \<in> cp_allowed_providers p then Inr ()
      else deny ''provider is not allowed for principal'')"

definition require_delivery_principal :: "client_principal \<Rightarrow> auth_result" where
  "require_delivery_principal p =
     (if cp_client_kind p \<in> {TRUSTED_ADAPTER, ADMIN} then Inr ()
      else deny ''delivery API requires trusted_adapter or admin principal'')"

definition validate_external_ingress_principal_profile :: "client_principal \<Rightarrow> auth_result" where
  "validate_external_ingress_principal_profile p =
     (if cp_client_kind p \<notin> {EXTERNAL_CLIENT, TRUSTED_ADAPTER} then Inr ()
      else if ''*'' \<in> cp_allowed_providers p
      then deny ''external ingress principal must not use wildcard provider''
      else if cp_client_kind p = EXTERNAL_CLIENT
      then (if cp_observation_capabilities p \<noteq> {}
            then deny ''external client must not have observation capabilities'' else Inr ())
      else if cp_client_kind p = TRUSTED_ADAPTER \<and>
              (case cp_provider p of None \<Rightarrow> True | Some pr \<Rightarrow> pr \<notin> cp_allowed_providers p)
      then deny ''trusted adapter provider must be included in allowed providers''
      else if cp_client_kind p = TRUSTED_ADAPTER \<and>
              cp_observation_capabilities p - TRUSTED_ADAPTER_OBSERVATION_CAPABILITIES \<noteq> {}
      then deny ''trusted adapter capability is not allowed''
      else Inr ())"

definition require_trusted_adapter_external_provider_claim ::
  "observation_request_claims \<Rightarrow> auth_result" where
  "require_trusted_adapter_external_provider_claim request =
     (if oc_account_ref_provider request = None \<and> oc_space_ref_provider request = None
      then deny ''trusted adapter observation requires account_ref or space_ref provider''
      else Inr ())"

definition validate_observation_provider_claims ::
  "client_principal \<Rightarrow> observation_request_claims \<Rightarrow> auth_result" where
  "validate_observation_provider_claims p request =
     and_then
       (case (oc_account_ref_provider request, oc_space_ref_provider request) of
          (Some a, Some s) \<Rightarrow>
            if a \<noteq> s then deny ''account_ref.provider and space_ref.provider must match'' else Inr ()
        | _ \<Rightarrow> Inr ())
     (and_then
       (case oc_account_ref_provider request of None \<Rightarrow> Inr () | Some a \<Rightarrow> require_provider p a)
       (case oc_space_ref_provider request of None \<Rightarrow> Inr () | Some s \<Rightarrow> require_provider p s))"

definition validate_external_ingress_identity_claims ::
  "client_principal \<Rightarrow> observation_request_claims \<Rightarrow> auth_result" where
  "validate_external_ingress_identity_claims p request =
     (if cp_client_kind p \<notin> {EXTERNAL_CLIENT, TRUSTED_ADAPTER} then Inr ()
      else if oc_has_actor request \<or> oc_has_account_id request \<or> oc_has_space_id request
      then deny ''external ingress must not submit internal identity claims''
      else Inr ())"

definition require_runtime_info :: "bool \<Rightarrow> client_principal \<Rightarrow> auth_result" where
  "require_runtime_info allow_local_dev_runtime_info p =
     (if has_scope p RUNTIME_INFO_READ then Inr ()
      else if allow_local_dev_runtime_info \<and> cp_client_kind p = LOCAL_DEV then Inr ()
      else deny ''runtime.info.read scope required'')"

definition require_submit_observation ::
  "client_principal \<Rightarrow> observation_request_claims \<Rightarrow> auth_result" where
  "require_submit_observation p request =
     and_then (validate_external_ingress_principal_profile p)
     (and_then
       (if cp_client_kind p = TRUSTED_ADAPTER
        then and_then (require_scope p OBSERVATION_SUBMIT_TRUSTED)
               (require_trusted_adapter_external_provider_claim request)
        else require_scope p OBSERVATION_SUBMIT)
     (and_then (validate_observation_provider_claims p request)
       (validate_external_ingress_identity_claims p request)))"

definition require_poll_app_actions :: "client_principal \<Rightarrow> string \<Rightarrow> auth_result" where
  "require_poll_app_actions p provider =
     and_then (validate_external_ingress_principal_profile p)
     (and_then (require_delivery_principal p)
     (and_then (require_scope p DELIVERY_POLL) (require_provider p provider)))"

definition require_delivery_report_scope :: "client_principal \<Rightarrow> auth_result" where
  "require_delivery_report_scope p =
     and_then (validate_external_ingress_principal_profile p)
     (and_then (require_delivery_principal p) (require_scope p DELIVERY_REPORT))"

definition require_delivery_report_provider :: "client_principal \<Rightarrow> string \<Rightarrow> auth_result" where
  "require_delivery_report_provider p delivery_provider = require_provider p delivery_provider"

definition require_report_action_result :: "client_principal \<Rightarrow> string \<Rightarrow> auth_result" where
  "require_report_action_result p delivery_provider =
     and_then (require_delivery_report_scope p) (require_delivery_report_provider p delivery_provider)"

definition require_transcript_read :: "client_principal \<Rightarrow> auth_result" where
  "require_transcript_read p =
     and_then (validate_external_ingress_principal_profile p) (require_scope p TRANSCRIPT_READ)"

definition require_transcript_cleanup :: "client_principal \<Rightarrow> auth_result" where
  "require_transcript_cleanup p =
     and_then (validate_external_ingress_principal_profile p)
     (and_then (if cp_client_kind p \<noteq> ADMIN
                then deny ''transcript cleanup requires admin principal'' else Inr ())
       (require_scope p TRANSCRIPT_CLEANUP))"

section \<open>What passing a check means\<close>

text \<open>
  Who may act for a provider: an external principal only for a provider listed for it, never
  through the wildcard; the local and the admin principal for any provider when they hold the
  wildcard.
\<close>

definition may_act_for :: "client_principal \<Rightarrow> string \<Rightarrow> bool" where
  "may_act_for p provider \<longleftrightarrow>
     (if ''*'' \<in> cp_allowed_providers p then cp_client_kind p \<in> {LOCAL_DEV, ADMIN}
      else provider \<in> cp_allowed_providers p)"

lemma require_provider_ok: "require_provider p provider = Inr u \<longleftrightarrow> may_act_for p provider"
  by (cases "cp_client_kind p") (auto simp: require_provider_def may_act_for_def deny_def)

lemma require_scope_ok: "require_scope p scope = Inr u \<longleftrightarrow> has_scope p scope"
  by (simp add: require_scope_def deny_def)

lemma require_delivery_principal_ok:
  "require_delivery_principal p = Inr u \<longleftrightarrow> cp_client_kind p = TRUSTED_ADAPTER \<or> cp_client_kind p = ADMIN"
  by (simp add: require_delivery_principal_def deny_def)

lemmas auth_ok = require_provider_ok require_scope_ok require_delivery_principal_ok

lemma profile_ok:
  "validate_external_ingress_principal_profile p = Inr u \<longleftrightarrow>
     (case cp_client_kind p of
        EXTERNAL_CLIENT \<Rightarrow> ''*'' \<notin> cp_allowed_providers p \<and> cp_observation_capabilities p = {}
      | TRUSTED_ADAPTER \<Rightarrow> ''*'' \<notin> cp_allowed_providers p \<and>
          (\<exists>pr \<in> cp_allowed_providers p. cp_provider p = Some pr) \<and>
          cp_observation_capabilities p \<subseteq> TRUSTED_ADAPTER_OBSERVATION_CAPABILITIES
      | _ \<Rightarrow> True)"
  by (cases "cp_client_kind p")
    (auto simp: validate_external_ingress_principal_profile_def deny_def split: option.split)

section \<open>Properties\<close>


definition example_adapter :: client_principal where
  "example_adapter =
     \<lparr>cp_client_id = ''bot'', cp_client_kind = TRUSTED_ADAPTER, cp_provider = Some ''discord'',
      cp_allowed_providers = {''discord''}, cp_scopes = TRUSTED_ADAPTER_SCOPES,
      cp_observation_capabilities = {INTEGRATE_ACTIVITY}, cp_authenticated = True\<rparr>"


end
