(* ===== verification/Delivery_Rpc.thy ===== *)
theory Delivery_Rpc
  imports Delivery_Broker Auth_Policy
begin

text \<open>
  The two delivery handlers of the gRPC servicer, \<^verbatim>\<open>PollAppActions\<close> and
  \<^verbatim>\<open>ReportActionResult\<close> of \<^verbatim>\<open>iris/adapters/grpc/server.py\<close>, with the delivery
  mapper (\<^verbatim>\<open>adapters/grpc/mappers/delivery.py\<close>) and the hints mapper
  (\<^verbatim>\<open>mappers/outputs.py\<close>). A handler either answers, aborts with a gRPC status and a
  message, or lets an exception escape. Protocol buffer messages are records; an \<^verbatim>\<open>int32\<close>
  field refuses values outside its range, as the generated classes do.
\<close>

section \<open>Messages\<close>

record presentation_hints_proto =
  php_style_hint :: string
  php_emotion_hint :: string
  php_expression_hint :: string
  php_delay_ms :: int
  php_priority :: int
  php_interruptible :: bool
  php_modality :: string

record app_action_envelope_proto =
  ap_delivery_id :: string
  ap_lease_id :: string
  ap_action_id :: string
  ap_correlation_id :: string
  ap_session_id :: string
  ap_provider :: string
  ap_provider_subject :: string
  ap_provider_space_ref :: string
  ap_attempts :: int
  ap_text :: string
  ap_presentation_hints :: presentation_hints_proto

record report_request =
  rq_delivery_id :: string
  rq_lease_id :: string
  rq_action_id :: string
  rq_correlation_id :: string
  rq_status :: string
  rq_external_message_id :: string
  rq_error_reason :: string

datatype grpc_status =
  NOT_FOUND | FAILED_PRECONDITION | ALREADY_EXISTS | RESOURCE_EXHAUSTED | PERMISSION_DENIED
| INVALID_ARGUMENT

datatype rpc_error =
  Abort grpc_status string
| Escaped_broker broker_error
| Escaped_mapping string
| Escaped_value_error

section \<open>Mappers\<close>

definition int32_field :: "int \<Rightarrow> rpc_error + int" where
  "int32_field n = (if - (2 ^ 31) \<le> n \<and> n < 2 ^ 31 then Inr n else Inl Escaped_value_error)"

fun PRESENTATION_MODALITY_TO_PROTO_NAME :: "presentation_modality \<Rightarrow> string" where
  "PRESENTATION_MODALITY_TO_PROTO_NAME PM_TEXT = ''PRESENTATION_MODALITY_TEXT''"
| "PRESENTATION_MODALITY_TO_PROTO_NAME PM_VOICE = ''PRESENTATION_MODALITY_VOICE''"
| "PRESENTATION_MODALITY_TO_PROTO_NAME PM_BOTH = ''PRESENTATION_MODALITY_BOTH''"
| "PRESENTATION_MODALITY_TO_PROTO_NAME PM_NOTIFICATION = ''PRESENTATION_MODALITY_NOTIFICATION''"
| "PRESENTATION_MODALITY_TO_PROTO_NAME PM_UNKNOWN = ''PRESENTATION_MODALITY_UNKNOWN''"

definition presentation_hints_to_proto :: "presentation_hints \<Rightarrow> rpc_error + presentation_hints_proto" where
  "presentation_hints_to_proto hints =
     (case int32_field (ph_delay_ms hints) of Inl e \<Rightarrow> Inl e | Inr delay \<Rightarrow>
      case int32_field (ph_priority hints) of Inl e \<Rightarrow> Inl e | Inr priority \<Rightarrow>
        Inr \<lparr>php_style_hint = or_empty (ph_style_hint hints),
             php_emotion_hint = or_empty (ph_emotion_hint hints),
             php_expression_hint = or_empty (ph_expression_hint hints),
             php_delay_ms = delay, php_priority = priority,
             php_interruptible = ph_interruptible hints,
             php_modality = PRESENTATION_MODALITY_TO_PROTO_NAME (ph_modality hints)\<rparr>)"

definition delivery_envelope_to_proto :: "delivery_envelope \<Rightarrow> rpc_error + app_action_envelope_proto" where
  "delivery_envelope_to_proto e =
     (case de_action e of
        SendMessageAction a_id a_session a_corr txt hints \<Rightarrow>
          (case presentation_hints_to_proto hints of Inl err \<Rightarrow> Inl err | Inr h \<Rightarrow>
           case int32_field (de_attempts e) of Inl err \<Rightarrow> Inl err | Inr attempts \<Rightarrow>
             Inr \<lparr>ap_delivery_id = de_delivery_id e, ap_lease_id = or_empty (de_lease_id e),
                  ap_action_id = a_id, ap_correlation_id = a_corr, ap_session_id = a_session,
                  ap_provider = dt_provider (de_target e),
                  ap_provider_subject = or_empty (dt_provider_subject (de_target e)),
                  ap_provider_space_ref = or_empty (dt_provider_space_ref (de_target e)),
                  ap_attempts = attempts, ap_text = txt, ap_presentation_hints = h\<rparr>)
      | _ \<Rightarrow> Inl (Escaped_mapping ''unsupported delivery action''))"

fun delivery_envelopes_to_poll_response ::
  "delivery_envelope list \<Rightarrow> rpc_error + app_action_envelope_proto list" where
  "delivery_envelopes_to_poll_response [] = Inr []"
| "delivery_envelopes_to_poll_response (e # es) =
     (case delivery_envelope_to_proto e of Inl err \<Rightarrow> Inl err | Inr a \<Rightarrow>
      case delivery_envelopes_to_poll_response es of Inl err \<Rightarrow> Inl err | Inr as \<Rightarrow> Inr (a # as))"

definition delivery_id_from_report_proto :: "report_request \<Rightarrow> string + string" where
  "delivery_id_from_report_proto request =
     (if rq_delivery_id request = [] then Inl ''delivery_id required'' else Inr (rq_delivery_id request))"

definition action_status_from_report_status :: "string \<Rightarrow> string + action_status" where
  "action_status_from_report_status status =
     (case find (\<lambda>s. action_status_value s = status) [AS_SUCCEEDED, AS_FAILED, AS_CANCELLED, AS_BLOCKED] of
        Some s \<Rightarrow> Inr s
      | None \<Rightarrow> Inl (''invalid action result status: '' @ status))"

definition none_if_empty :: "string \<Rightarrow> string option" where
  "none_if_empty s = (if s = [] then None else Some s)"

definition delivery_report_from_proto :: "report_request \<Rightarrow> datetime \<Rightarrow> string + delivery_report" where
  "delivery_report_from_proto request reported_at =
     (case delivery_id_from_report_proto request of Inl m \<Rightarrow> Inl m | Inr delivery_id \<Rightarrow>
      case action_status_from_report_status (rq_status request) of Inl m \<Rightarrow> Inl m | Inr status \<Rightarrow>
        if rq_action_id request = [] then Inl ''action_id required''
        else if rq_correlation_id request = [] then Inl ''correlation_id required''
        else Inr \<lparr>dr_delivery_id = delivery_id, dr_lease_id = none_if_empty (rq_lease_id request),
                  dr_result =
                    \<lparr>ar_action_id = rq_action_id request, ar_correlation_id = rq_correlation_id request,
                     ar_status = status,
                     ar_delivered_at = (if status = AS_SUCCEEDED then Some reported_at else None),
                     ar_external_message_id = none_if_empty (rq_external_message_id request),
                     ar_error_reason = none_if_empty (rq_error_reason request)\<rparr>,
                  dr_reported_at = reported_at\<rparr>)"

section \<open>Handlers\<close>

fun broker_error_status :: "broker_reason \<Rightarrow> grpc_status" where
  "broker_error_status DELIVERY_NOT_FOUND = NOT_FOUND"
| "broker_error_status DELIVERY_REPORT_CONFLICT = ALREADY_EXISTS"
| "broker_error_status OUTBOX_DEPTH_EXCEEDED = RESOURCE_EXHAUSTED"
| "broker_error_status _ = FAILED_PRECONDITION"

definition abort_of_broker :: "broker_error \<Rightarrow> rpc_error" where
  "abort_of_broker err =
     (case err of
        AppActionBrokerError reason \<Rightarrow> Abort (broker_error_status reason) (broker_reason_value reason)
      | _ \<Rightarrow> Escaped_broker err)"

text \<open>The servicer's broker is absent when delivery is disabled.\<close>

definition PollAppActions ::
  "'ob outbox_port \<Rightarrow> broker_config \<Rightarrow> ('ob, 'h) broker_state option \<Rightarrow> client_principal
     \<Rightarrow> string \<Rightarrow> int \<Rightarrow> datetime
     \<Rightarrow> (rpc_error + app_action_envelope_proto list) \<times> ('ob, 'h) broker_state option" where
  "PollAppActions port cfg broker caller provider req_max_items now =
     (case broker of
        None \<Rightarrow> (Inl (Abort FAILED_PRECONDITION ''app action broker disabled''), None)
      | Some st \<Rightarrow>
        if provider = [] then (Inl (Abort INVALID_ARGUMENT ''provider required''), Some st)
        else
          let max_items = (if req_max_items > 0 then req_max_items else 10)
          in case require_poll_app_actions caller provider of
               Inl msg \<Rightarrow> (Inl (Abort PERMISSION_DENIED msg), Some st)
             | Inr _ \<Rightarrow>
                 (case poll_actions port cfg st provider now max_items of
                    (Inl err, st') \<Rightarrow> (Inl (abort_of_broker err), Some st')
                  | (Inr envelopes, st') \<Rightarrow> (delivery_envelopes_to_poll_response envelopes, Some st')))"

definition ReportActionResult ::
  "'ob outbox_port \<Rightarrow> broker_config \<Rightarrow> (string \<Rightarrow> string) \<Rightarrow> 'h learning_hook list option
     \<Rightarrow> ('ob, 'h) broker_state option \<Rightarrow> client_principal \<Rightarrow> report_request \<Rightarrow> datetime
     \<Rightarrow> (rpc_error + unit) \<times> ('ob, 'h) broker_state option" where
  "ReportActionResult port cfg sha256 runner broker caller request now =
     (case broker of
        None \<Rightarrow> (Inl (Abort FAILED_PRECONDITION ''app action broker disabled''), None)
      | Some st \<Rightarrow>
        (case require_delivery_report_scope caller of
           Inl msg \<Rightarrow> (Inl (Abort PERMISSION_DENIED msg), Some st)
         | Inr _ \<Rightarrow>
           (case delivery_id_from_report_proto request of
              Inl msg \<Rightarrow> (Inl (Abort INVALID_ARGUMENT msg), Some st)
            | Inr delivery_id \<Rightarrow>
              (case get_delivery_provider port st delivery_id of
                 Inl err \<Rightarrow> (Inl (abort_of_broker err), Some st)
               | Inr provider \<Rightarrow>
                 (case require_delivery_report_provider caller provider of
                    Inl msg \<Rightarrow> (Inl (Abort PERMISSION_DENIED msg), Some st)
                  | Inr _ \<Rightarrow>
                    (case delivery_report_from_proto request now of
                       Inl msg \<Rightarrow> (Inl (Abort INVALID_ARGUMENT msg), Some st)
                     | Inr report \<Rightarrow>
                       (case report_action_result port cfg sha256 runner st report of
                          (Inl err, st') \<Rightarrow> (Inl (abort_of_broker err), Some st')
                        | (Inr _, st') \<Rightarrow> (Inr (), Some st'))))))))"

section \<open>Authorization of the delivery handlers\<close>

text \<open>What a caller needs for a delivery handler to act for a provider.\<close>

definition delivery_access :: "client_principal \<Rightarrow> auth_scope \<Rightarrow> string \<Rightarrow> bool" where
  "delivery_access caller scope provider \<longleftrightarrow>
     cp_client_kind caller \<in> {TRUSTED_ADAPTER, ADMIN} \<and> has_scope caller scope \<and>
     may_act_for caller provider \<and>
     (cp_client_kind caller = TRUSTED_ADAPTER \<longrightarrow> provider \<in> cp_allowed_providers caller)"

lemma poll_access:
  "require_poll_app_actions caller provider = Inr u \<Longrightarrow> delivery_access caller DELIVERY_POLL provider"
  by (auto simp: require_poll_app_actions_def delivery_access_def auth_ok may_act_for_def split: if_splits)

lemma report_access:
  "require_delivery_report_scope caller = Inr u \<Longrightarrow> require_delivery_report_provider caller provider = Inr u' \<Longrightarrow>
     delivery_access caller DELIVERY_REPORT provider"
  by (auto simp: require_delivery_report_scope_def require_delivery_report_provider_def
      delivery_access_def auth_ok may_act_for_def split: if_splits)

lemma poll_response_providers:
  "delivery_envelopes_to_poll_response es = Inr as \<Longrightarrow>
     length as = length es \<and> (\<forall>a\<in>set as. \<exists>e\<in>set es. delivery_envelope_to_proto e = Inr a)"
  by (induction es arbitrary: as) (auto split: sum.splits)

lemma delivery_envelope_to_proto_fields:
  "delivery_envelope_to_proto e = Inr a \<Longrightarrow>
     ap_delivery_id a = de_delivery_id e \<and> ap_provider a = dt_provider (de_target e) \<and>
     ap_lease_id a = or_empty (de_lease_id e)"
  by (auto simp: delivery_envelope_to_proto_def split: app_action.splits sum.splits)

lemma delivery_report_id:
  "delivery_report_from_proto request now = Inr report \<Longrightarrow>
     delivery_id_from_report_proto request = Inr (dr_delivery_id report)"
  by (auto simp: delivery_report_from_proto_def split: sum.splits if_splits)

context delivery_outbox
begin

lemma poll_rpc:
  assumes "inv (bs_outbox st)" and "PollAppActions port cfg (Some st) caller provider n now = (res, Some st')"
  shows "(st' \<noteq> st \<longrightarrow> delivery_access caller DELIVERY_POLL provider) \<and>
    (\<forall>as a. res = Inr as \<and> a \<in> set as \<longrightarrow> ap_provider a = provider \<and>
       delivery_access caller DELIVERY_POLL provider \<and>
       (\<exists>e. lookup (bs_outbox st') (ap_delivery_id a) = Some e \<and> de_status e = DS_LEASED \<and>
          ap_lease_id a = or_empty (de_lease_id e))) \<and>
    (\<forall>i e. lookup (bs_outbox st) i = Some e \<and> dt_provider (de_target e) \<noteq> provider \<longrightarrow>
       lookup (bs_outbox st') i = Some e)"
proof (cases "provider = [] \<or> isl (require_poll_app_actions caller provider)")
  case True
  with assms(2) have "st' = st" "isl res"
    by (auto simp: PollAppActions_def Let_def isl_def split: if_splits)
  then show ?thesis by auto
next
  case False
  then obtain u where ok: "require_poll_app_actions caller provider = Inr u"
    by (cases "require_poll_app_actions caller provider") auto
  define m where "m = (if n > 0 then n else 10)"
  obtain out ob' where lease: "port_lease_due port (bs_outbox st) provider now m (bc_lease_seconds cfg) = (out, ob')"
    by fastforce
  have st': "bs_outbox st' = ob'"
    and res: "res = Inr as \<Longrightarrow> \<exists>es. out = Inr es \<and> delivery_envelopes_to_poll_response es = Inr as" for as
    using assms(2) ok False lease
    by (auto simp: PollAppActions_def poll_actions_def m_def Let_def split: sum.splits)
  have stored: "ap_provider a = provider \<and> (\<exists>e. lookup ob' (ap_delivery_id a) = Some e \<and>
      de_status e = DS_LEASED \<and> ap_lease_id a = or_empty (de_lease_id e))" if "res = Inr as" "a \<in> set as" for as a
  proof -
    from res [OF that(1)] obtain es where "out = Inr es" "delivery_envelopes_to_poll_response es = Inr as"
      by blast
    with poll_response_providers that(2) obtain e where "e \<in> set es" "delivery_envelope_to_proto e = Inr a"
      by blast
    with lease_due_stored [OF assms(1), of provider now m "bc_lease_seconds cfg" es ob' e]
      lease \<open>out = Inr es\<close> delivery_envelope_to_proto_fields [of e a]
    show ?thesis by auto
  qed
  have "lookup ob' i = Some e" if "lookup (bs_outbox st) i = Some e" "dt_provider (de_target e) \<noteq> provider" for i e
    using lease_due_frame [OF assms(1) that(1), of provider now m "bc_lease_seconds cfg"] that(2) lease by simp
  with poll_access [OF ok] st' stored show ?thesis by auto
qed

lemma report_rpc:
  assumes "inv (bs_outbox st)"
    and "ReportActionResult port cfg sha256 runner (Some st) caller request now = (res, Some st')"
    and "st' \<noteq> st \<or> res = Inr ()"
  shows "\<exists>old. lookup (bs_outbox st) (rq_delivery_id request) = Some old \<and>
      delivery_access caller DELIVERY_REPORT (dt_provider (de_target old)) \<and>
      (\<forall>j. j \<noteq> rq_delivery_id request \<longrightarrow> lookup (bs_outbox st') j = lookup (bs_outbox st) j)"
proof -
  from assms(2,3) obtain i provider report rres where
    scope: "require_delivery_report_scope caller = Inr ()"
    and i: "delivery_id_from_report_proto request = Inr i"
    and prov: "get_delivery_provider port st i = Inr provider"
    and acc: "require_delivery_report_provider caller provider = Inr ()"
    and rep: "delivery_report_from_proto request now = Inr report"
    and run: "report_action_result port cfg sha256 runner st report = (rres, st')"
    by (auto simp: ReportActionResult_def split: sum.splits prod.splits)
  have id: "i = rq_delivery_id request" "dr_delivery_id report = i"
    using i delivery_report_id [OF rep] by (auto simp: delivery_id_from_report_proto_def split: if_splits)
  from prov get_eq [OF assms(1), of i] obtain old where old: "lookup (bs_outbox st) i = Some old"
    and "provider = dt_provider (de_target old)"
    by (auto simp: get_delivery_provider_def split: option.splits)
  then have "delivery_access caller DELIVERY_REPORT (dt_provider (de_target old))"
    using report_access [OF scope acc] by simp
  moreover have "lookup (bs_outbox st') j = lookup (bs_outbox st) j" if "j \<noteq> i" for j
  proof (cases "\<exists>err. rres = Inl err \<and> err \<noteq> Hooks_interrupted")
    case True
    with run report_fails_clean show ?thesis by blast
  next
    case False
    then obtain e0 where "rres = Inr e0 \<or> rres = Inl Hooks_interrupted" by (cases rres) auto
    then obtain e where "outbox_report port cfg (bs_outbox st) report = (Inr e, bs_outbox st')"
      using report_accepted [OF run] by metis
    with that id(2) show ?thesis using outbox_report_frame [OF assms(1)] by blast
  qed
  ultimately show ?thesis using old id by auto
qed

end

section \<open>Properties\<close>

text \<open>
  C16. Polling is confined to the caller's providers, with both outboxes. If a poll changes anything,
  or returns an action, the caller is a trusted adapter or an admin with the poll scope that may act
  for the provider it named (a trusted adapter only for a provider listed for it); every returned
  action is a delivery of that provider, leased in the outbox under the lease id handed out; and the
  deliveries of other providers are untouched.
\<close>

theorem poll_rpc_confined:
  assumes "outbox_inv (bs_outbox st)"
    and "PollAppActions in_memory_port cfg (Some st) caller provider n now = (res, Some st')"
    and "sqlite_inv c (bs_outbox db)"
    and "PollAppActions (sqlite_port c) cfg (Some db) caller provider n now = (dres, Some db')"
  shows
    "(st' \<noteq> st \<or> db' \<noteq> db \<longrightarrow> delivery_access caller DELIVERY_POLL provider) \<and>
     (\<forall>as a. res = Inr as \<and> a \<in> set as \<longrightarrow> ap_provider a = provider \<and>
        delivery_access caller DELIVERY_POLL provider \<and>
        (\<exists>e. item_at (bs_outbox st') (ap_delivery_id a) = Some e \<and> de_status e = DS_LEASED \<and>
           ap_lease_id a = or_empty (de_lease_id e))) \<and>
     (\<forall>as a. dres = Inr as \<and> a \<in> set as \<longrightarrow> ap_provider a = provider \<and>
        delivery_access caller DELIVERY_POLL provider \<and>
        (\<exists>e. sqlite_lookup c (bs_outbox db') (ap_delivery_id a) = Some e \<and> de_status e = DS_LEASED \<and>
           ap_lease_id a = or_empty (de_lease_id e))) \<and>
     (\<forall>i e. item_at (bs_outbox st) i = Some e \<and> dt_provider (de_target e) \<noteq> provider \<longrightarrow>
        item_at (bs_outbox st') i = Some e) \<and>
     (\<forall>i e. sqlite_lookup c (bs_outbox db) i = Some e \<and> dt_provider (de_target e) \<noteq> provider \<longrightarrow>
        sqlite_lookup c (bs_outbox db') i = Some e)"
  using mem.poll_rpc [OF assms(1,2)] sql.poll_rpc [OF assms(3,4)] by (intro conjI) (blast+)

text \<open>
  C17. Reports are confined to the caller's providers, with the durable outbox. If a report request
  is answered or changes anything at all, the delivery it names exists, the caller is a trusted
  adapter or an admin with the report scope that may act for that delivery's provider, and no other
  delivery is changed.
\<close>

theorem report_rpc_confined:
  assumes "sqlite_inv c (bs_outbox st)"
    and "ReportActionResult (sqlite_port c) cfg sha256 runner (Some st) caller request now = (res, Some st')"
    and "st' \<noteq> st \<or> res = Inr ()"
  shows "\<exists>old. sqlite_lookup c (bs_outbox st) (rq_delivery_id request) = Some old \<and>
      delivery_access caller DELIVERY_REPORT (dt_provider (de_target old)) \<and>
      (\<forall>j. j \<noteq> rq_delivery_id request \<longrightarrow>
         sqlite_lookup c (bs_outbox st') j = sqlite_lookup c (bs_outbox st) j)"
  by (rule sql.report_rpc [OF assms])

section \<open>Concrete requests\<close>

lemma poll_rpc_confined_witness:
  "delivery_access example_adapter DELIVERY_POLL ''discord'' \<and>
   (\<exists>res st'. PollAppActions in_memory_port example_config
        (Some (example_broker\<lparr>bs_outbox := example_outbox\<rparr>)) example_adapter ''discord'' 3 5 = (res, Some st') \<and>
      item_at (bs_outbox st') ''delivery:o1'' = Some example_leased)"
proof -
  have auth: "require_poll_app_actions example_adapter ''discord'' = Inr ()"
    by (simp add: require_poll_app_actions_def auth_ok profile_ok example_adapter_def has_scope_def
        may_act_for_def TRUSTED_ADAPTER_SCOPES_def TRUSTED_ADAPTER_OBSERVATION_CAPABILITIES_def)
  let ?st = "example_broker\<lparr>bs_outbox := example_outbox\<rparr>"
  obtain res st' where res: "PollAppActions in_memory_port example_config (Some ?st) example_adapter
      ''discord'' 3 5 = (res, Some st')"
    and st': "item_at (bs_outbox st') ''delivery:o1'' = Some example_leased"
    using auth example_poll by (simp add: PollAppActions_def poll_actions_def example_config_def Let_def)
  have "example_leased \<noteq> example_delivery"
    by (simp add: example_leased_def delivery_simps example_delivery_def)
  with st' have ne: "st' \<noteq> ?st" by (auto simp: example_outbox_eq)
  let ?db = "example_durable_broker\<lparr>bs_outbox := sqlite_outbox_init None\<rparr>"
  obtain dres db' where dres: "PollAppActions (sqlite_port plain_codec) example_config (Some ?db)
      example_adapter ''discord'' 3 5 = (dres, Some db')"
    using auth by (simp add: PollAppActions_def poll_actions_def Let_def sqlite_lease_due_def
        select_due_rows_def sqlite_outbox_init_def dict_values_def)
  have inv: "outbox_inv (bs_outbox ?st)" "sqlite_inv plain_codec (bs_outbox ?db)"
    by (simp_all add: example_outbox_inv sqlite_inv_init plain_codec_ok)
  from poll_rpc_confined [OF inv(1) res inv(2) dres] ne res st' show ?thesis by blast
qed

definition example_request :: report_request where
  "example_request =
     \<lparr>rq_delivery_id = ''delivery:o1'', rq_lease_id = ''delivery:o1:lease:1'', rq_action_id = ''action:o1'',
      rq_correlation_id = ''c1'', rq_status = ''succeeded'', rq_external_message_id = ''m1'',
      rq_error_reason = []\<rparr>"

lemma example_request_answered:
  "\<exists>st'. ReportActionResult (sqlite_port plain_codec) example_config id (Some [counting_hook])
     (Some example_durable_broker) example_adapter example_request 9 = (Inr (), Some st')"
proof -
  have auth: "require_delivery_report_scope example_adapter = Inr ()"
    "require_delivery_report_provider example_adapter ''discord'' = Inr ()"
    by (simp_all add: require_delivery_report_scope_def require_delivery_report_provider_def auth_ok
        profile_ok example_adapter_def has_scope_def may_act_for_def
        TRUSTED_ADAPTER_SCOPES_def TRUSTED_ADAPTER_OBSERVATION_CAPABILITIES_def)
  let ?r = "\<lparr>ar_action_id = ''action:o1'', ar_correlation_id = ''c1'', ar_status = AS_SUCCEEDED,
    ar_delivered_at = Some 9, ar_external_message_id = Some ''m1'', ar_error_reason = None\<rparr>"
  obtain e db' where e: "sqlite_complete plain_codec example_db_leased ''delivery:o1''
      example_lease_id ?r 9 = (Inr e, db')"
    using example_durable_complete [of ?r 9] by auto
  have "dt_provider (de_target (sqlite_lease_item (durable_copy example_delivery) 5 30)) = ''discord''"
    using sqlite_lease_item_same [of "durable_copy example_delivery" 5 30]
    by (simp add: same_delivery_def example_delivery_def example_target_def)
  then have prov: "get_delivery_provider (sqlite_port plain_codec) example_durable_broker ''delivery:o1'' = Inr ''discord''"
    using example_db_leased_facts sqlite_get_eq [of plain_codec example_db_leased]
    by (simp add: get_delivery_provider_def example_durable_broker_def)
  have rep: "delivery_report_from_proto example_request 9 =
      Inr \<lparr>dr_delivery_id = ''delivery:o1'', dr_lease_id = example_lease_id, dr_result = ?r, dr_reported_at = 9\<rparr>"
    by (simp add: delivery_report_from_proto_def example_request_def delivery_id_from_report_proto_def
        action_status_from_report_status_def none_if_empty_def example_lease_id_def)
  have id: "delivery_id_from_report_proto example_request = Inr ''delivery:o1''"
    by (simp add: delivery_id_from_report_proto_def example_request_def)
  have "\<exists>st'. report_action_result (sqlite_port plain_codec) example_config id (Some [counting_hook])
      example_durable_broker \<lparr>dr_delivery_id = ''delivery:o1'', dr_lease_id = example_lease_id,
        dr_result = ?r, dr_reported_at = 9\<rparr> = (Inr e, st')"
    using e by (auto simp: report_action_result_def TERMINAL_REPORT_STATUSES_def
        example_durable_broker_def dispatch_learning_def log_delivery_def mark_if_absent_def
        counting_hook_def Let_def split: option.split)
  then show ?thesis by (auto simp: ReportActionResult_def auth prov rep id)
qed

lemma report_rpc_confined_witness:
  "\<exists>old. sqlite_lookup plain_codec example_db_leased ''delivery:o1'' = Some old \<and>
     delivery_access example_adapter DELIVERY_REPORT (dt_provider (de_target old))"
proof -
  obtain st' where res: "ReportActionResult (sqlite_port plain_codec) example_config id
      (Some [counting_hook]) (Some example_durable_broker) example_adapter example_request 9 = (Inr (), Some st')"
    using example_request_answered by blast
  from report_rpc_confined [OF example_broker_inv(2) res disjI2 [OF refl]] show ?thesis
    by (auto simp: example_durable_broker_def example_request_def)
qed

end
