(* ===== verification/Model_Budget.thy ===== *)
theory Model_Budget
  imports Iris_Prelude
begin

text \<open>
  The model call budget: the contracts of \<^verbatim>\<open>iris/contracts/model_policy.py\<close>, the gate of
  \<^verbatim>\<open>iris/runtime/model_call_budget.py\<close> and the budgets with their validation of
  \<^verbatim>\<open>iris/runtime/config/model_call_budget.py\<close>. The context variables (the request-local
  scope, the bound call site, the trace counters) are fields of an explicit state. Confidence values
  are the rational numbers the floats denote.
\<close>

section \<open>Contracts\<close>

datatype model_call_kind = LARGE_LLM | SMALL_CLASSIFIER | EMBEDDING | RERANKER | BACKGROUND_LLM

datatype model_call_site =
  USER_RESPONSE_HOT_PATH | EVENT_REACTION | PROACTIVE | MEMORY_EXTRACTION_SITE | REFLECTION_SITE
| RELATIONSHIP_UPDATE_SITE | INTERACTION_POLICY_CANDIDATE_SITE | RUNTIME_LEARNING_HOOK

fun model_call_site_value :: "model_call_site \<Rightarrow> string" where
  "model_call_site_value USER_RESPONSE_HOT_PATH = ''user_response_hot_path''"
| "model_call_site_value EVENT_REACTION = ''event_reaction''"
| "model_call_site_value PROACTIVE = ''proactive''"
| "model_call_site_value MEMORY_EXTRACTION_SITE = ''memory_extraction''"
| "model_call_site_value REFLECTION_SITE = ''reflection''"
| "model_call_site_value RELATIONSHIP_UPDATE_SITE = ''relationship_update''"
| "model_call_site_value INTERACTION_POLICY_CANDIDATE_SITE = ''interaction_policy_candidate''"
| "model_call_site_value RUNTIME_LEARNING_HOOK = ''runtime_learning_hook''"

datatype cascade_decision = CD_ACCEPT | CD_ESCALATE | CD_FALLBACK | CD_DEFER | CD_DENY

datatype cascade_fallback_behavior =
  FB_NO_OP | FB_DETERMINISTIC_BASELINE | FB_DEFER | FB_ENQUEUE_BACKGROUND | FB_REJECT

record model_call_descriptor =
  md_call_kind :: model_call_kind
  md_call_site :: model_call_site
  md_model_slot :: "string option"
  md_model_name :: "string option"
  md_confidence :: rat
  md_high_risk :: bool
  md_uncertain :: bool
  md_metadata :: "(string, string) dict"

record cascade_result =
  cr_decision :: cascade_decision
  cr_reason :: string
  cr_confidence :: rat
  cr_fallback_behavior :: "cascade_fallback_behavior option"
  cr_model_metadata :: "(string, string) dict"

definition cascade_accepted :: "cascade_result \<Rightarrow> bool" where
  "cascade_accepted r \<longleftrightarrow> cr_decision r = CD_ACCEPT"

section \<open>Budgets\<close>

record feature_budget =
  fb_large_llm_max_calls :: int
  fb_small_classifier_max_calls :: int
  fb_embedding_max_calls :: int
  fb_reranker_max_calls :: int
  fb_background_llm_max_calls :: int
  fb_confidence_threshold :: rat
  fb_low_confidence_fallback :: cascade_fallback_behavior
  fb_high_risk_escalation_allowed :: bool
  fb_uncertain_escalation_allowed :: bool
  fb_enqueue_only :: bool

record model_call_budget_config =
  bg_enabled :: bool
  bg_user_response_hot_path :: feature_budget
  bg_event_reaction :: feature_budget
  bg_proactive :: feature_budget
  bg_memory_extraction :: feature_budget
  bg_reflection :: feature_budget
  bg_relationship_update :: feature_budget
  bg_interaction_policy_candidate :: feature_budget
  bg_runtime_learning_hook :: feature_budget

definition default_feature_budget :: feature_budget where
  "default_feature_budget =
     \<lparr>fb_large_llm_max_calls = 0, fb_small_classifier_max_calls = 0, fb_embedding_max_calls = 0,
      fb_reranker_max_calls = 0, fb_background_llm_max_calls = 0,
      fb_confidence_threshold = 65 / 100, fb_low_confidence_fallback = FB_NO_OP,
      fb_high_risk_escalation_allowed = False, fb_uncertain_escalation_allowed = False,
      fb_enqueue_only = False\<rparr>"

definition default_model_call_budget_config :: model_call_budget_config where
  "default_model_call_budget_config =
     \<lparr>bg_enabled = True,
      bg_user_response_hot_path = default_feature_budget
        \<lparr>fb_large_llm_max_calls := 1, fb_small_classifier_max_calls := 1, fb_embedding_max_calls := 1,
         fb_reranker_max_calls := 1, fb_low_confidence_fallback := FB_DETERMINISTIC_BASELINE,
         fb_high_risk_escalation_allowed := True, fb_uncertain_escalation_allowed := True\<rparr>,
      bg_event_reaction = default_feature_budget
        \<lparr>fb_large_llm_max_calls := 1, fb_low_confidence_fallback := FB_DETERMINISTIC_BASELINE\<rparr>,
      bg_proactive = default_feature_budget
        \<lparr>fb_large_llm_max_calls := 1, fb_small_classifier_max_calls := 1, fb_embedding_max_calls := 1,
         fb_background_llm_max_calls := 1, fb_low_confidence_fallback := FB_DEFER,
         fb_high_risk_escalation_allowed := True, fb_uncertain_escalation_allowed := True\<rparr>,
      bg_memory_extraction = default_feature_budget
        \<lparr>fb_small_classifier_max_calls := 1, fb_embedding_max_calls := 1,
         fb_background_llm_max_calls := 1, fb_low_confidence_fallback := FB_ENQUEUE_BACKGROUND\<rparr>,
      bg_reflection = default_feature_budget
        \<lparr>fb_embedding_max_calls := 1, fb_background_llm_max_calls := 1,
         fb_low_confidence_fallback := FB_DEFER\<rparr>,
      bg_relationship_update = default_feature_budget
        \<lparr>fb_small_classifier_max_calls := 1, fb_embedding_max_calls := 1,
         fb_background_llm_max_calls := 1, fb_low_confidence_fallback := FB_NO_OP\<rparr>,
      bg_interaction_policy_candidate = default_feature_budget
        \<lparr>fb_small_classifier_max_calls := 1, fb_embedding_max_calls := 1, fb_reranker_max_calls := 1,
         fb_background_llm_max_calls := 1, fb_low_confidence_fallback := FB_REJECT\<rparr>,
      bg_runtime_learning_hook = default_feature_budget
        \<lparr>fb_background_llm_max_calls := 1, fb_low_confidence_fallback := FB_ENQUEUE_BACKGROUND,
         fb_enqueue_only := True\<rparr>\<rparr>"

fun feature_budget_for_site :: "model_call_budget_config \<Rightarrow> model_call_site \<Rightarrow> feature_budget" where
  "feature_budget_for_site cfg USER_RESPONSE_HOT_PATH = bg_user_response_hot_path cfg"
| "feature_budget_for_site cfg EVENT_REACTION = bg_event_reaction cfg"
| "feature_budget_for_site cfg PROACTIVE = bg_proactive cfg"
| "feature_budget_for_site cfg MEMORY_EXTRACTION_SITE = bg_memory_extraction cfg"
| "feature_budget_for_site cfg REFLECTION_SITE = bg_reflection cfg"
| "feature_budget_for_site cfg RELATIONSHIP_UPDATE_SITE = bg_relationship_update cfg"
| "feature_budget_for_site cfg INTERACTION_POLICY_CANDIDATE_SITE = bg_interaction_policy_candidate cfg"
| "feature_budget_for_site cfg RUNTIME_LEARNING_HOOK = bg_runtime_learning_hook cfg"

section \<open>Validation\<close>

text \<open>\<^verbatim>\<open>ConfigError\<close> with its message is the left value.\<close>

definition require_non_negative_int :: "int \<Rightarrow> string \<Rightarrow> string + int" where
  "require_non_negative_int v path =
     (if v < 0 then Inl (path @ '' must be greater than or equal to 0'') else Inr v)"

definition require_probability :: "rat \<Rightarrow> string \<Rightarrow> string + rat" where
  "require_probability v path =
     (if \<not> (0 \<le> v \<and> v \<le> 1) then Inl (path @ '' must be between 0.0 and 1.0'') else Inr v)"

definition validate_site_invariants :: "feature_budget \<Rightarrow> model_call_site \<Rightarrow> string \<Rightarrow> string + unit" where
  "validate_site_invariants budget site path =
     (if site = USER_RESPONSE_HOT_PATH \<and> fb_large_llm_max_calls budget > 1
      then Inl (path @ ''.large_llm_max_calls must be <= 1 for user-facing hot path'')
      else if site = RUNTIME_LEARNING_HOOK \<and> \<not> fb_enqueue_only budget
      then Inl (path @ ''.enqueue_only must be true'')
      else if site = RUNTIME_LEARNING_HOOK \<and> fb_large_llm_max_calls budget > 0
      then Inl (path @ ''.large_llm_max_calls must be 0 for enqueue-only runtime hooks'')
      else Inr ())"

definition validate_feature_budget :: "feature_budget \<Rightarrow> model_call_site \<Rightarrow> string + feature_budget" where
  "validate_feature_budget budget site =
     (let path = ''model_call_budget.'' @ model_call_site_value site
      in case require_non_negative_int (fb_large_llm_max_calls budget) (path @ ''.large_llm_max_calls'') of Inl e \<Rightarrow> Inl e | Inr large \<Rightarrow>
         case require_non_negative_int (fb_small_classifier_max_calls budget) (path @ ''.small_classifier_max_calls'') of Inl e \<Rightarrow> Inl e | Inr small \<Rightarrow>
         case require_non_negative_int (fb_embedding_max_calls budget) (path @ ''.embedding_max_calls'') of Inl e \<Rightarrow> Inl e | Inr embedding \<Rightarrow>
         case require_non_negative_int (fb_reranker_max_calls budget) (path @ ''.reranker_max_calls'') of Inl e \<Rightarrow> Inl e | Inr reranker \<Rightarrow>
         case require_non_negative_int (fb_background_llm_max_calls budget) (path @ ''.background_llm_max_calls'') of Inl e \<Rightarrow> Inl e | Inr background \<Rightarrow>
         case require_probability (fb_confidence_threshold budget) (path @ ''.confidence_threshold'') of Inl e \<Rightarrow> Inl e | Inr threshold \<Rightarrow>
           let v = \<lparr>fb_large_llm_max_calls = large, fb_small_classifier_max_calls = small,
                    fb_embedding_max_calls = embedding, fb_reranker_max_calls = reranker,
                    fb_background_llm_max_calls = background, fb_confidence_threshold = threshold,
                    fb_low_confidence_fallback = fb_low_confidence_fallback budget,
                    fb_high_risk_escalation_allowed = fb_high_risk_escalation_allowed budget,
                    fb_uncertain_escalation_allowed = fb_uncertain_escalation_allowed budget,
                    fb_enqueue_only = fb_enqueue_only budget\<rparr>
           in case validate_site_invariants v site path of Inl e \<Rightarrow> Inl e | Inr _ \<Rightarrow> Inr v)"

definition validate_model_call_budget_config ::
  "model_call_budget_config \<Rightarrow> string + model_call_budget_config" where
  "validate_model_call_budget_config cfg =
     (case validate_feature_budget (bg_user_response_hot_path cfg) USER_RESPONSE_HOT_PATH of Inl e \<Rightarrow> Inl e | Inr user \<Rightarrow>
      case validate_feature_budget (bg_event_reaction cfg) EVENT_REACTION of Inl e \<Rightarrow> Inl e | Inr event \<Rightarrow>
      case validate_feature_budget (bg_proactive cfg) PROACTIVE of Inl e \<Rightarrow> Inl e | Inr proactive \<Rightarrow>
      case validate_feature_budget (bg_memory_extraction cfg) MEMORY_EXTRACTION_SITE of Inl e \<Rightarrow> Inl e | Inr memory \<Rightarrow>
      case validate_feature_budget (bg_reflection cfg) REFLECTION_SITE of Inl e \<Rightarrow> Inl e | Inr reflection \<Rightarrow>
      case validate_feature_budget (bg_relationship_update cfg) RELATIONSHIP_UPDATE_SITE of Inl e \<Rightarrow> Inl e | Inr relationship \<Rightarrow>
      case validate_feature_budget (bg_interaction_policy_candidate cfg) INTERACTION_POLICY_CANDIDATE_SITE of Inl e \<Rightarrow> Inl e | Inr policy \<Rightarrow>
      case validate_feature_budget (bg_runtime_learning_hook cfg) RUNTIME_LEARNING_HOOK of Inl e \<Rightarrow> Inl e | Inr hook \<Rightarrow>
        Inr \<lparr>bg_enabled = bg_enabled cfg, bg_user_response_hot_path = user, bg_event_reaction = event,
             bg_proactive = proactive, bg_memory_extraction = memory, bg_reflection = reflection,
             bg_relationship_update = relationship, bg_interaction_policy_candidate = policy,
             bg_runtime_learning_hook = hook\<rparr>)"

section \<open>The gate\<close>

type_synonym budget_key = "model_call_site \<times> model_call_kind"

text \<open>
  The context: the counters of the bound scope (\<open>None\<close> before any scope exists), the bound call
  site, and the trace's count of avoided large calls (\<open>None\<close> outside a trace).
\<close>

record budget_context =
  bx_scope :: "(budget_key \<Rightarrow> nat) option"
  bx_call_site :: "model_call_site option"
  bx_avoided_large_llm :: "nat option"

definition empty_counters :: "budget_key \<Rightarrow> nat" where
  "empty_counters = (\<lambda>_. 0)"

definition scope_of :: "budget_context \<Rightarrow> (budget_key \<Rightarrow> nat) \<times> budget_context" where
  "scope_of cx =
     (case bx_scope cx of
        Some s \<Rightarrow> (s, cx)
      | None \<Rightarrow> (empty_counters, cx\<lparr>bx_scope := Some empty_counters\<rparr>))"

definition budget_key_of :: "model_call_descriptor \<Rightarrow> budget_key" where
  "budget_key_of d = (md_call_site d, md_call_kind d)"

definition scope_record :: "model_call_descriptor \<Rightarrow> budget_context \<Rightarrow> budget_context" where
  "scope_record d cx =
     (let (s, cx') = scope_of cx
      in cx'\<lparr>bx_scope := Some (s(budget_key_of d := s (budget_key_of d) + 1))\<rparr>)"

definition increment_avoided_large_llm_call :: "budget_context \<Rightarrow> budget_context" where
  "increment_avoided_large_llm_call cx =
     cx\<lparr>bx_avoided_large_llm := map_option Suc (bx_avoided_large_llm cx)\<rparr>"

definition limit_for_kind :: "feature_budget \<Rightarrow> model_call_kind \<Rightarrow> int option" where
  "limit_for_kind budget kind =
     (let limit = (case kind of
          LARGE_LLM \<Rightarrow> fb_large_llm_max_calls budget
        | SMALL_CLASSIFIER \<Rightarrow> fb_small_classifier_max_calls budget
        | EMBEDDING \<Rightarrow> fb_embedding_max_calls budget
        | RERANKER \<Rightarrow> fb_reranker_max_calls budget
        | BACKGROUND_LLM \<Rightarrow> fb_background_llm_max_calls budget)
      in if limit \<le> 0 then None else Some limit)"

definition cascade_of ::
  "cascade_decision \<Rightarrow> cascade_fallback_behavior option \<Rightarrow> model_call_descriptor \<Rightarrow> string \<Rightarrow> cascade_result" where
  "cascade_of decision fallback d reason =
     \<lparr>cr_decision = decision, cr_reason = reason, cr_confidence = md_confidence d,
      cr_fallback_behavior = fallback, cr_model_metadata = md_metadata d\<rparr>"

definition accepted :: "model_call_descriptor \<Rightarrow> string \<Rightarrow> cascade_result" where
  "accepted d reason = cascade_of CD_ACCEPT None d reason"

definition fallback :: "model_call_descriptor \<Rightarrow> string \<Rightarrow> feature_budget \<Rightarrow> cascade_result" where
  "fallback d reason budget = cascade_of CD_FALLBACK (Some (fb_low_confidence_fallback budget)) d reason"

definition denied :: "model_call_descriptor \<Rightarrow> string \<Rightarrow> feature_budget \<Rightarrow> cascade_result" where
  "denied d reason budget = cascade_of CD_DENY (Some (fb_low_confidence_fallback budget)) d reason"

definition escalation_allowed :: "model_call_descriptor \<Rightarrow> feature_budget \<Rightarrow> bool" where
  "escalation_allowed d budget \<longleftrightarrow>
     md_high_risk d \<and> fb_high_risk_escalation_allowed budget \<or>
     md_uncertain d \<and> fb_uncertain_escalation_allowed budget"

definition low_confidence_result :: "model_call_descriptor \<Rightarrow> feature_budget \<Rightarrow> cascade_result" where
  "low_confidence_result d budget =
     (if escalation_allowed d budget
      then cascade_of CD_ESCALATE None d ''low confidence allows escalation''
      else fallback d ''low confidence fallback'' budget)"

definition pre_budget_decision ::
  "model_call_budget_config \<Rightarrow> model_call_descriptor \<Rightarrow> feature_budget \<Rightarrow> cascade_result option" where
  "pre_budget_decision cfg d budget =
     (if \<not> bg_enabled cfg then Some (accepted d ''model call budget disabled'')
      else if fb_enqueue_only budget \<and> md_call_kind d = LARGE_LLM
      then Some (denied d ''call site is enqueue-only'' budget)
      else if md_confidence d < fb_confidence_threshold budget
      then Some (low_confidence_result d budget)
      else if limit_for_kind budget (md_call_kind d) = None
      then Some (fallback d ''call kind is not enabled'' budget)
      else None)"

definition decision_for_budget ::
  "model_call_budget_config \<Rightarrow> budget_context \<Rightarrow> model_call_descriptor \<Rightarrow> feature_budget
     \<Rightarrow> cascade_result \<times> budget_context" where
  "decision_for_budget cfg cx d budget =
     (case pre_budget_decision cfg d budget of
        Some r \<Rightarrow> (r, cx)
      | None \<Rightarrow>
          (let (s, cx') = scope_of cx
           in (case limit_for_kind budget (md_call_kind d) of
                 Some limit \<Rightarrow>
                   if int (s (budget_key_of d)) < limit
                   then (accepted d ''model call within budget'', cx')
                   else (fallback d ''model call budget exceeded'' budget, cx')
               | None \<Rightarrow> (fallback d ''model call budget exceeded'' budget, cx'))))"

definition check_and_record ::
  "model_call_budget_config \<Rightarrow> budget_context \<Rightarrow> model_call_descriptor \<Rightarrow> cascade_result \<times> budget_context" where
  "check_and_record cfg cx d =
     (let (r, cx') = decision_for_budget cfg cx d (feature_budget_for_site cfg (md_call_site d))
      in if cascade_accepted r then (r, scope_record d cx')
         else if md_call_kind d = LARGE_LLM then (r, increment_avoided_large_llm_call cx')
         else (r, cx'))"

text \<open>A bound scope starts empty and is taken away again afterwards, whatever the body does.\<close>

definition bind_model_call_budget_scope ::
  "(budget_context \<Rightarrow> 'a \<times> budget_context) \<Rightarrow> budget_context \<Rightarrow> 'a \<times> budget_context" where
  "bind_model_call_budget_scope body cx =
     (let (r, cx') = body (cx\<lparr>bx_scope := Some empty_counters\<rparr>)
      in (r, cx'\<lparr>bx_scope := bx_scope cx\<rparr>))"

definition bind_model_call_site ::
  "model_call_site \<Rightarrow> (budget_context \<Rightarrow> 'a \<times> budget_context) \<Rightarrow> budget_context \<Rightarrow> 'a \<times> budget_context" where
  "bind_model_call_site site body cx =
     (let (r, cx') = body (cx\<lparr>bx_call_site := Some site\<rparr>)
      in (r, cx'\<lparr>bx_call_site := bx_call_site cx\<rparr>))"

definition current_model_call_site :: "budget_context \<Rightarrow> model_call_site \<Rightarrow> model_call_site" where
  "current_model_call_site cx d = (case bx_call_site cx of None \<Rightarrow> d | Some s \<Rightarrow> s)"

section \<open>One call\<close>

definition used_calls :: "budget_context \<Rightarrow> budget_key \<Rightarrow> nat" where
  "used_calls cx k = (case bx_scope cx of None \<Rightarrow> 0 | Some s \<Rightarrow> s k)"

definition call_limit :: "model_call_budget_config \<Rightarrow> budget_key \<Rightarrow> nat" where
  "call_limit cfg k =
     (case limit_for_kind (feature_budget_for_site cfg (fst k)) (snd k) of None \<Rightarrow> 0 | Some n \<Rightarrow> nat n)"

lemma limit_for_kind_pos: "limit_for_kind b k = Some n \<Longrightarrow> 0 < n"
  by (simp add: limit_for_kind_def Let_def split: if_splits)

lemma cascade_accepted_simps [simp]:
  "cascade_accepted (accepted d r)" "\<not> cascade_accepted (fallback d r b)"
  "\<not> cascade_accepted (denied d r b)" "\<not> cascade_accepted (low_confidence_result d b)"
  by (simp_all add: cascade_accepted_def accepted_def fallback_def denied_def low_confidence_result_def
      cascade_of_def)

lemma used_calls_simps [simp]:
  "used_calls (snd (scope_of cx)) k = used_calls cx k"
  "fst (scope_of cx) k = used_calls cx k"
  "used_calls (increment_avoided_large_llm_call cx) k = used_calls cx k"
  "used_calls (scope_record d cx) k = used_calls cx k + (if k = budget_key_of d then 1 else 0)"
  by (auto simp: used_calls_def scope_of_def increment_avoided_large_llm_call_def scope_record_def
      empty_counters_def split: option.splits prod.splits)

lemma decision_for_budget_facts:
  assumes "bg_enabled cfg" and "decision_for_budget cfg cx d b = (r, cx')"
  shows "used_calls cx' k = used_calls cx k \<and>
    (cascade_accepted r \<longleftrightarrow>
       \<not> (fb_enqueue_only b \<and> md_call_kind d = LARGE_LLM) \<and>
       fb_confidence_threshold b \<le> md_confidence d \<and>
       (\<exists>limit. limit_for_kind b (md_call_kind d) = Some limit \<and>
          int (used_calls cx (budget_key_of d)) < limit))"
proof -
  obtain s cx1 where sc: "scope_of cx = (s, cx1)" by fastforce
  have "s k' = used_calls cx k'" "used_calls cx1 k' = used_calls cx k'" for k'
    using used_calls_simps(1,2) [of cx k'] sc by simp_all
  with sc assms show ?thesis
    by (auto simp: decision_for_budget_def pre_budget_decision_def split: option.splits if_splits)
qed

lemma check_and_record_facts:
  assumes "bg_enabled cfg" and "check_and_record cfg cx d = (r, cx')"
  shows "(cascade_accepted r \<longrightarrow> used_calls cx (budget_key_of d) < call_limit cfg (budget_key_of d)) \<and>
    used_calls cx' k = used_calls cx k + (if cascade_accepted r \<and> k = budget_key_of d then 1 else 0)"
proof -
  let ?b = "feature_budget_for_site cfg (md_call_site d)"
  obtain r1 cx1 where dec: "decision_for_budget cfg cx d ?b = (r1, cx1)" by fastforce
  note facts = decision_for_budget_facts [OF assms(1) dec, of k]
  then have same: "used_calls cx1 k = used_calls cx k" by blast
  have r: "r = r1" using assms(2) dec by (auto simp: check_and_record_def split: if_splits)
  have "used_calls cx' k = used_calls cx k + (if cascade_accepted r \<and> k = budget_key_of d then 1 else 0)"
    using assms(2) dec same r by (auto simp: check_and_record_def split: if_splits)
  moreover have "used_calls cx (budget_key_of d) < call_limit cfg (budget_key_of d)" if "cascade_accepted r"
    using facts that r by (auto simp: call_limit_def budget_key_of_def)
  ultimately show ?thesis by blast
qed

section \<open>A request\<close>

fun check_all ::
  "model_call_budget_config \<Rightarrow> model_call_descriptor list \<Rightarrow> budget_context
     \<Rightarrow> (model_call_descriptor \<times> cascade_result) list \<times> budget_context" where
  "check_all cfg [] cx = ([], cx)"
| "check_all cfg (d # ds) cx =
     (let (r, cx1) = check_and_record cfg cx d; (rs, cx2) = check_all cfg ds cx1
      in ((d, r) # rs, cx2))"

definition accepted_calls :: "budget_key \<Rightarrow> (model_call_descriptor \<times> cascade_result) list \<Rightarrow> nat" where
  "accepted_calls k rs = length (filter (\<lambda>(d, r). budget_key_of d = k \<and> cascade_accepted r) rs)"

lemma check_all_counts:
  assumes "bg_enabled cfg" and "check_all cfg ds cx = (rs, cx')" and "used_calls cx k \<le> call_limit cfg k"
  shows "used_calls cx' k = used_calls cx k + accepted_calls k rs \<and> used_calls cx' k \<le> call_limit cfg k"
  using assms(2,3)
proof (induction ds arbitrary: cx rs)
  case Nil
  then show ?case by (simp add: accepted_calls_def)
next
  case (Cons d ds)
  obtain r cx1 where step: "check_and_record cfg cx d = (r, cx1)" by fastforce
  obtain rs1 cx2 where rest: "check_all cfg ds cx1 = (rs1, cx2)" by fastforce
  from Cons.prems(1) step rest have rs: "rs = (d, r) # rs1" "cx' = cx2" by auto
  note facts = check_and_record_facts [OF assms(1) step, of k]
  then have "used_calls cx1 k \<le> call_limit cfg k" using Cons.prems(2) by auto
  from Cons.IH [of cx1 rs1] rest rs(2) this facts show ?case
    by (auto simp: rs(1) accepted_calls_def split: if_splits)
qed

lemma validate_feature_budget_ok:
  "validate_feature_budget b site = Inr b' \<Longrightarrow>
     b' = b \<and> validate_site_invariants b site (''model_call_budget.'' @ model_call_site_value site) = Inr ()"
  by (cases b) (auto simp: validate_feature_budget_def require_non_negative_int_def
      require_probability_def Let_def split: if_splits sum.splits)

lemma validated_site_limits:
  assumes "validate_model_call_budget_config cfg0 = Inr cfg"
  shows "call_limit cfg (USER_RESPONSE_HOT_PATH, LARGE_LLM) \<le> 1 \<and>
    call_limit cfg (RUNTIME_LEARNING_HOOK, LARGE_LLM) = 0"
proof -
  from assms have "validate_feature_budget (bg_user_response_hot_path cfg0) USER_RESPONSE_HOT_PATH =
        Inr (bg_user_response_hot_path cfg)"
    and "validate_feature_budget (bg_runtime_learning_hook cfg0) RUNTIME_LEARNING_HOOK =
        Inr (bg_runtime_learning_hook cfg)"
    by (auto simp: validate_model_call_budget_config_def split: sum.splits)
  from this [THEN validate_feature_budget_ok] show ?thesis
    by (auto simp: validate_site_invariants_def call_limit_def limit_for_kind_def Let_def split: if_splits)
qed

section \<open>Properties\<close>

text \<open>
  C18. A request stays within its budget. With a validated configuration that is enabled, whatever
  sequence of model calls a request asks for, the calls accepted for a call site and a kind never
  exceed the configured limit; in particular the user-facing hot path makes at most one large model
  call, and the runtime learning hook none. Leaving the request restores the enclosing scope.
\<close>

theorem request_within_budget:
  assumes "validate_model_call_budget_config cfg0 = Inr cfg" and "bg_enabled cfg"
    and "bind_model_call_budget_scope (check_all cfg ds) cx = (rs, cx')"
  shows "accepted_calls k rs \<le> call_limit cfg k \<and>
    accepted_calls (USER_RESPONSE_HOT_PATH, LARGE_LLM) rs \<le> 1 \<and>
    accepted_calls (RUNTIME_LEARNING_HOOK, LARGE_LLM) rs = 0 \<and> bx_scope cx' = bx_scope cx"
proof -
  let ?cx = "cx\<lparr>bx_scope := Some empty_counters\<rparr>"
  obtain cx1 where run: "check_all cfg ds ?cx = (rs, cx1)" and cx': "cx' = cx1\<lparr>bx_scope := bx_scope cx\<rparr>"
    using assms(3) by (auto simp: bind_model_call_budget_scope_def split: prod.splits)
  have "used_calls ?cx k = 0" for k by (simp add: used_calls_def empty_counters_def)
  then have "accepted_calls k rs \<le> call_limit cfg k" for k
    using check_all_counts [OF assms(2) run, of k] by simp
  from this [of k] this [of "(USER_RESPONSE_HOT_PATH, LARGE_LLM)"]
    this [of "(RUNTIME_LEARNING_HOOK, LARGE_LLM)"] validated_site_limits [OF assms(1)] cx'
  show ?thesis by simp
qed

definition example_descriptor :: model_call_descriptor where
  "example_descriptor =
     \<lparr>md_call_kind = LARGE_LLM, md_call_site = USER_RESPONSE_HOT_PATH, md_model_slot = None,
      md_model_name = None, md_confidence = 1, md_high_risk = False, md_uncertain = False,
      md_metadata = []\<rparr>"

definition example_context :: budget_context where
  "example_context = \<lparr>bx_scope = None, bx_call_site = None, bx_avoided_large_llm = Some 0\<rparr>"

lemma example_two_calls:
  "\<exists>rs cx'. bind_model_call_budget_scope
     (check_all default_model_call_budget_config [example_descriptor, example_descriptor]) example_context
       = (rs, cx') \<and> accepted_calls (USER_RESPONSE_HOT_PATH, LARGE_LLM) rs = 1 \<and> bx_avoided_large_llm cx' = Some 1"
  by (simp add: bind_model_call_budget_scope_def check_and_record_def decision_for_budget_def
      pre_budget_decision_def default_model_call_budget_config_def default_feature_budget_def
      example_descriptor_def example_context_def limit_for_kind_def scope_of_def scope_record_def
      empty_counters_def budget_key_of_def accepted_calls_def increment_avoided_large_llm_call_def Let_def)

lemma request_within_budget_witness:
  "\<exists>rs cx'. bind_model_call_budget_scope
     (check_all default_model_call_budget_config [example_descriptor, example_descriptor]) example_context
       = (rs, cx') \<and> accepted_calls (USER_RESPONSE_HOT_PATH, LARGE_LLM) rs = 1 \<and>
     accepted_calls (RUNTIME_LEARNING_HOOK, LARGE_LLM) rs = 0 \<and> bx_scope cx' = None"
proof -
  obtain rs cx' where run: "bind_model_call_budget_scope (check_all default_model_call_budget_config
      [example_descriptor, example_descriptor]) example_context = (rs, cx')"
    "accepted_calls (USER_RESPONSE_HOT_PATH, LARGE_LLM) rs = 1"
    using example_two_calls by blast
  have "validate_model_call_budget_config default_model_call_budget_config = Inr default_model_call_budget_config"
    by (simp add: validate_model_call_budget_config_def validate_feature_budget_def
        default_model_call_budget_config_def default_feature_budget_def require_non_negative_int_def
        require_probability_def validate_site_invariants_def Let_def)
  from request_within_budget [OF this _ run(1)] run show ?thesis
    by (auto simp: default_model_call_budget_config_def example_context_def)
qed

end
