(* ===== verification/Learning_Jobs.thy ===== *)
theory Learning_Jobs
  imports Model_Budget
begin

text \<open>
  Background learning jobs and the queue policy: \<^verbatim>\<open>iris/runtime/learning/jobs.py\<close>,
  \<^verbatim>\<open>policy.py\<close>, and the functions of \<^verbatim>\<open>queue.py\<close> on single jobs and job
  collections that both queue backends use. The payload of a job is opaque to the queue, hence a
  type parameter.
\<close>

section \<open>Jobs\<close>

datatype job_status =
  JS_PENDING | JS_LEASED | JS_SUCCEEDED | JS_FAILED_RETRYABLE | JS_FAILED_PERMANENT | JS_CANCELLED

fun job_status_value :: "job_status \<Rightarrow> string" where
  "job_status_value JS_PENDING = ''pending''"
| "job_status_value JS_LEASED = ''leased''"
| "job_status_value JS_SUCCEEDED = ''succeeded''"
| "job_status_value JS_FAILED_RETRYABLE = ''failed_retryable''"
| "job_status_value JS_FAILED_PERMANENT = ''failed_permanent''"
| "job_status_value JS_CANCELLED = ''cancelled''"

datatype job_kind =
  MEMORY_EXTRACTION | MEMORY_CONSOLIDATION | RELATIONSHIP_UPDATE | INTERACTION_POLICY_CANDIDATE
| PERSONA_PATCH_PROPOSAL | EPISODIC_TO_SEMANTIC_PROMOTION | REFLECTION | LANGMEM_EXTRACTION

fun job_kind_value :: "job_kind \<Rightarrow> string" where
  "job_kind_value MEMORY_EXTRACTION = ''memory_extraction''"
| "job_kind_value MEMORY_CONSOLIDATION = ''memory_consolidation''"
| "job_kind_value RELATIONSHIP_UPDATE = ''relationship_update''"
| "job_kind_value INTERACTION_POLICY_CANDIDATE = ''interaction_policy_candidate''"
| "job_kind_value PERSONA_PATCH_PROPOSAL = ''persona_patch_proposal''"
| "job_kind_value EPISODIC_TO_SEMANTIC_PROMOTION = ''episodic_to_semantic_promotion''"
| "job_kind_value REFLECTION = ''reflection''"
| "job_kind_value LANGMEM_EXTRACTION = ''langmem_extraction''"

lemma job_kind_value_inj [simp]: "job_kind_value a = job_kind_value b \<longleftrightarrow> a = b"
  by (cases a; cases b) simp_all

lemma job_status_value_inj [simp]: "job_status_value a = job_status_value b \<longleftrightarrow> a = b"
  by (cases a; cases b) simp_all

record resource_profile =
  rp_uses_llm :: bool
  rp_idle_only :: bool
  rp_model_call_descriptor :: "model_call_descriptor option"

record 'p job_record =
  jb_job_id :: string
  jb_kind :: job_kind
  jb_payload :: 'p
  jb_status :: job_status
  jb_attempts :: int
  jb_max_attempts :: int
  jb_not_before :: datetime
  jb_resource_profile :: resource_profile
  jb_leased_until :: "datetime option"
  jb_idempotency_key :: string
  jb_created_at :: datetime
  jb_updated_at :: datetime
  jb_last_error :: "string option"
  jb_defer_reason :: "string option"

record job_update =
  ju_status :: job_status
  ju_updated_at :: datetime
  ju_attempts :: "int option"
  ju_not_before :: "datetime option"
  ju_leased_until :: "datetime option"
  ju_last_error :: "string option"
  ju_defer_reason :: "string option"

text \<open>A \<^verbatim>\<open>JobUpdate\<close> with the defaults of its optional fields.\<close>

definition plain_job_update :: "job_status \<Rightarrow> datetime \<Rightarrow> job_update" where
  "plain_job_update status updated_at =
     \<lparr>ju_status = status, ju_updated_at = updated_at, ju_attempts = None, ju_not_before = None,
      ju_leased_until = None, ju_last_error = None, ju_defer_reason = None\<rparr>"

definition replace_job :: "'p job_record \<Rightarrow> job_update \<Rightarrow> 'p job_record" where
  "replace_job job u =
     \<lparr>jb_job_id = jb_job_id job, jb_kind = jb_kind job, jb_payload = jb_payload job,
      jb_status = ju_status u,
      jb_attempts = (case ju_attempts u of None \<Rightarrow> jb_attempts job | Some a \<Rightarrow> a),
      jb_max_attempts = jb_max_attempts job,
      jb_not_before = (case ju_not_before u of None \<Rightarrow> jb_not_before job | Some t \<Rightarrow> t),
      jb_resource_profile = jb_resource_profile job, jb_leased_until = ju_leased_until u,
      jb_idempotency_key = jb_idempotency_key job, jb_created_at = jb_created_at job,
      jb_updated_at = ju_updated_at u, jb_last_error = ju_last_error u,
      jb_defer_reason = (case ju_defer_reason u of None \<Rightarrow> jb_defer_reason job | Some r \<Rightarrow> Some r)\<rparr>"

section \<open>Policy\<close>

datatype backpressure_mode = BM_ACCEPT | BM_DEFER | BM_REJECT

datatype enqueue_decision = ED_ACCEPTED | ED_EXISTING | ED_DEFERRED | ED_REJECTED

datatype backpressure_reason =
  MAX_PENDING_JOBS | KIND_CONCURRENCY_SATURATED | IDLE_ONLY_NOT_AVAILABLE | RETRY_STORM_PREVENTION

fun backpressure_reason_value :: "backpressure_reason \<Rightarrow> string" where
  "backpressure_reason_value MAX_PENDING_JOBS = ''max_pending_jobs''"
| "backpressure_reason_value KIND_CONCURRENCY_SATURATED = ''kind_concurrency_saturated''"
| "backpressure_reason_value IDLE_ONLY_NOT_AVAILABLE = ''idle_only_not_available''"
| "backpressure_reason_value RETRY_STORM_PREVENTION = ''retry_storm_prevention''"

record kind_policy =
  kp_concurrency_limit :: int
  kp_timeout_seconds :: seconds
  kp_max_pending_jobs :: int
  kp_retry_backoff_base_seconds :: seconds
  kp_retry_backoff_max_seconds :: seconds
  kp_defer_seconds_when_saturated :: seconds
  kp_backpressure_mode :: backpressure_mode
  kp_uses_llm :: bool
  kp_idle_only :: bool

text \<open>\<^verbatim>\<open>__post_init__\<close>: the first check that fails, with its message.\<close>

definition require_positive :: "bool \<Rightarrow> string \<Rightarrow> string option" where
  "require_positive positive name = (if positive then None else Some (name @ '' must be greater than zero''))"

fun first_error :: "string option list \<Rightarrow> string option" where
  "first_error [] = None"
| "first_error (c # cs) = (case c of Some m \<Rightarrow> Some m | None \<Rightarrow> first_error cs)"

definition kind_policy_post_init :: "kind_policy \<Rightarrow> string option" where
  "kind_policy_post_init p =
     first_error
       [require_positive (0 < kp_concurrency_limit p) ''concurrency_limit'',
        require_positive (0 < kp_timeout_seconds p) ''timeout_seconds'',
        require_positive (0 < kp_max_pending_jobs p) ''max_pending_jobs'',
        require_positive (0 < kp_retry_backoff_base_seconds p) ''retry_backoff_base_seconds'',
        require_positive (0 < kp_retry_backoff_max_seconds p) ''retry_backoff_max_seconds'',
        require_positive (0 < kp_defer_seconds_when_saturated p) ''defer_seconds_when_saturated'',
        (if kp_retry_backoff_max_seconds p < kp_retry_backoff_base_seconds p
         then Some ''retry_backoff_max_seconds must be greater than or equal to base'' else None)]"

fun repeat_double :: "nat \<Rightarrow> rat \<Rightarrow> rat" where
  "repeat_double 0 m = m"
| "repeat_double (Suc n) m = repeat_double n (m * 2)"

definition retry_delay_seconds :: "kind_policy \<Rightarrow> int \<Rightarrow> string + seconds" where
  "retry_delay_seconds p attempts_before_failure =
     (if attempts_before_failure < 0
      then Inl ''attempts_before_failure must be zero or greater''
      else let multiplier = repeat_double (nat attempts_before_failure) 1;
               delay = kp_retry_backoff_base_seconds p * multiplier
           in Inr (min delay (kp_retry_backoff_max_seconds p)))"

record queue_policy =
  qp_default_policy :: kind_policy
  qp_per_kind :: "(job_kind, kind_policy) dict"

definition for_kind :: "queue_policy \<Rightarrow> job_kind \<Rightarrow> kind_policy" where
  "for_kind policy kind =
     (case dict_get (qp_per_kind policy) kind of Some p \<Rightarrow> p | None \<Rightarrow> qp_default_policy policy)"

definition max_timeout_seconds :: "queue_policy \<Rightarrow> seconds" where
  "max_timeout_seconds policy =
     fold max (map kp_timeout_seconds (dict_values (qp_per_kind policy)))
       (kp_timeout_seconds (qp_default_policy policy))"

record 'p enqueue_result =
  er_decision :: enqueue_decision
  er_record :: "'p job_record option"
  er_reason :: "backpressure_reason option"
  er_deferred_until :: "datetime option"

definition defer_job_record ::
  "'p job_record \<Rightarrow> datetime \<Rightarrow> backpressure_reason \<Rightarrow> 'p job_record" where
  "defer_job_record job deferred_until reason =
     \<lparr>jb_job_id = jb_job_id job, jb_kind = jb_kind job, jb_payload = jb_payload job,
      jb_status = jb_status job, jb_attempts = jb_attempts job,
      jb_max_attempts = jb_max_attempts job, jb_not_before = deferred_until,
      jb_resource_profile = jb_resource_profile job, jb_leased_until = jb_leased_until job,
      jb_idempotency_key = jb_idempotency_key job, jb_created_at = jb_created_at job,
      jb_updated_at = deferred_until, jb_last_error = jb_last_error job,
      jb_defer_reason = Some (backpressure_reason_value reason)\<rparr>"

section \<open>Functions on jobs and job collections\<close>

definition QUEUE_DEPTH_STATUSES :: "job_status set" where
  "QUEUE_DEPTH_STATUSES = {JS_PENDING, JS_FAILED_RETRYABLE}"

definition TERMINAL_JOB_STATUSES :: "job_status set" where
  "TERMINAL_JOB_STATUSES = {JS_SUCCEEDED, JS_FAILED_PERMANENT, JS_CANCELLED}"

definition retry_failure_status :: "int \<Rightarrow> int \<Rightarrow> job_status" where
  "retry_failure_status attempts max_attempts =
     (if attempts \<ge> max_attempts then JS_FAILED_PERMANENT else JS_FAILED_RETRYABLE)"

definition is_leaseable :: "'p job_record \<Rightarrow> datetime \<Rightarrow> bool" where
  "is_leaseable job now =
     (let lease_expired = jb_status job = JS_LEASED \<and>
            (case jb_leased_until job of None \<Rightarrow> False | Some t \<Rightarrow> t \<le> now);
          ready = jb_status job \<in> QUEUE_DEPTH_STATUSES
      in (ready \<or> lease_expired) \<and> jb_not_before job \<le> now)"

definition active_lease :: "'p job_record \<Rightarrow> datetime \<Rightarrow> bool" where
  "active_lease job now \<longleftrightarrow>
     jb_status job = JS_LEASED \<and> (case jb_leased_until job of None \<Rightarrow> False | Some t \<Rightarrow> t > now)"

definition leased_counts :: "'p job_record list \<Rightarrow> datetime \<Rightarrow> job_kind \<Rightarrow> nat" where
  "leased_counts jobs now kind = length (filter (\<lambda>j. active_lease j now \<and> jb_kind j = kind) jobs)"

definition is_backlog_pending :: "'p job_record \<Rightarrow> datetime \<Rightarrow> bool" where
  "is_backlog_pending job now \<longleftrightarrow> is_leaseable job now \<and> jb_status job \<noteq> JS_FAILED_RETRYABLE"

definition backlog_count :: "'p job_record list \<Rightarrow> job_kind \<Rightarrow> datetime \<Rightarrow> nat" where
  "backlog_count jobs kind now =
     length (filter (\<lambda>j. jb_kind j = kind \<and>
       (is_backlog_pending j now \<or> jb_status j = JS_FAILED_RETRYABLE)) jobs)"

definition backlog_pending_count :: "'p job_record list \<Rightarrow> job_kind \<Rightarrow> datetime \<Rightarrow> nat" where
  "backlog_pending_count jobs kind now =
     length (filter (\<lambda>j. jb_kind j = kind \<and> is_backlog_pending j now) jobs)"

definition retryable_count :: "'p job_record list \<Rightarrow> job_kind \<Rightarrow> nat" where
  "retryable_count jobs kind =
     length (filter (\<lambda>j. jb_kind j = kind \<and> jb_status j = JS_FAILED_RETRYABLE) jobs)"

definition evaluate_enqueue_backpressure ::
  "'p job_record \<Rightarrow> 'p job_record list \<Rightarrow> datetime \<Rightarrow> kind_policy \<Rightarrow> bool \<Rightarrow> backpressure_reason option" where
  "evaluate_enqueue_backpressure job jobs now policy idle_available =
     (if (kp_idle_only policy \<or> rp_idle_only (jb_resource_profile job)) \<and> \<not> idle_available
      then Some IDLE_ONLY_NOT_AVAILABLE
      else if int (backlog_count jobs (jb_kind job) now) \<ge> kp_max_pending_jobs policy
      then (if retryable_count jobs (jb_kind job) > 0 then Some RETRY_STORM_PREVENTION
            else Some MAX_PENDING_JOBS)
      else if int (leased_counts jobs now (jb_kind job)) \<ge> kp_concurrency_limit policy
      then Some KIND_CONCURRENCY_SATURATED
      else None)"

definition requires_idle :: "'p job_record \<Rightarrow> kind_policy option \<Rightarrow> bool" where
  "requires_idle job kp \<longleftrightarrow>
     rp_idle_only (jb_resource_profile job) \<or> (case kp of None \<Rightarrow> False | Some p \<Rightarrow> kp_idle_only p)"

definition job_order :: "'p job_record \<Rightarrow> datetime \<times> datetime \<times> string" where
  "job_order job = (jb_not_before job, jb_created_at job, jb_job_id job)"

section \<open>Metrics\<close>

record kind_metrics =
  km_kind :: job_kind
  km_pending :: nat
  km_leased :: nat
  km_succeeded :: nat
  km_failed_retryable :: nat
  km_failed_permanent :: nat
  km_cancelled :: nat
  km_oldest_pending_age_seconds :: "seconds option"

definition km_failed :: "kind_metrics \<Rightarrow> nat" where
  "km_failed m = km_failed_retryable m + km_failed_permanent m"

definition km_queue_depth :: "kind_metrics \<Rightarrow> nat" where
  "km_queue_depth m = km_pending m + km_failed_retryable m"

record queue_metrics =
  qm_generated_at :: datetime
  qm_queue_depth :: nat
  qm_leased :: nat
  qm_succeeded :: nat
  qm_failed_retryable :: nat
  qm_failed_permanent :: nat
  qm_cancelled :: nat
  qm_oldest_pending_age_seconds :: "seconds option"
  qm_per_kind :: "kind_metrics list"

definition qm_failed :: "queue_metrics \<Rightarrow> nat" where
  "qm_failed m = qm_failed_retryable m + qm_failed_permanent m"

definition qm_non_terminal :: "queue_metrics \<Rightarrow> nat" where
  "qm_non_terminal m = qm_queue_depth m + qm_leased m"

definition status_count :: "'p job_record list \<Rightarrow> job_status \<Rightarrow> nat" where
  "status_count jobs status = length (filter (\<lambda>j. jb_status j = status) jobs)"

text \<open>\<^verbatim>\<open>timedelta.total_seconds\<close>: microseconds over a million.\<close>

definition total_seconds :: "int \<Rightarrow> seconds" where
  "total_seconds d = of_int d / 1000000"

definition oldest_pending_age_seconds :: "'p job_record list \<Rightarrow> datetime \<Rightarrow> seconds option" where
  "oldest_pending_age_seconds jobs now =
     (case map jb_created_at
             (filter (\<lambda>j. (jb_status j = JS_FAILED_RETRYABLE \<or> is_backlog_pending j now) \<and>
                jb_not_before j \<le> now) jobs) of
        [] \<Rightarrow> None
      | t # ts \<Rightarrow> Some (total_seconds (now - fold min ts t)))"

text \<open>The distinct kinds present, ordered by their value.\<close>

definition sorted_kinds :: "'p job_record list \<Rightarrow> job_kind list" where
  "sorted_kinds jobs = sort_key job_kind_value (remdups (map jb_kind jobs))"

definition kind_metrics_of :: "job_kind \<Rightarrow> 'p job_record list \<Rightarrow> datetime \<Rightarrow> kind_metrics" where
  "kind_metrics_of kind jobs now =
     (let kind_jobs = filter (\<lambda>j. jb_kind j = kind) jobs
      in \<lparr>km_kind = kind,
          km_pending = backlog_pending_count kind_jobs kind now,
          km_leased = length (filter (\<lambda>j. active_lease j now) kind_jobs),
          km_succeeded = status_count kind_jobs JS_SUCCEEDED,
          km_failed_retryable = status_count kind_jobs JS_FAILED_RETRYABLE,
          km_failed_permanent = status_count kind_jobs JS_FAILED_PERMANENT,
          km_cancelled = status_count kind_jobs JS_CANCELLED,
          km_oldest_pending_age_seconds = oldest_pending_age_seconds kind_jobs now\<rparr>)"

definition metrics_from_jobs :: "'p job_record list \<Rightarrow> datetime \<Rightarrow> queue_metrics" where
  "metrics_from_jobs jobs now =
     (let per_kind = map (\<lambda>kind. kind_metrics_of kind jobs now) (sorted_kinds jobs)
      in \<lparr>qm_generated_at = now,
          qm_queue_depth = sum_list (map km_queue_depth per_kind),
          qm_leased = sum_list (map km_leased per_kind),
          qm_succeeded = sum_list (map km_succeeded per_kind),
          qm_failed_retryable = sum_list (map km_failed_retryable per_kind),
          qm_failed_permanent = sum_list (map km_failed_permanent per_kind),
          qm_cancelled = sum_list (map km_cancelled per_kind),
          qm_oldest_pending_age_seconds = oldest_pending_age_seconds jobs now,
          qm_per_kind = per_kind\<rparr>)"

end
