(* ===== verification/Job_Queue.thy ===== *)
theory Job_Queue
  imports Learning_Jobs
begin

text \<open>
  The process-local background job queue, \<^verbatim>\<open>InMemoryBackgroundJobQueue\<close> of
  \<^verbatim>\<open>iris/runtime/learning/queue.py\<close>. Every method holds the lock for its whole body, so it
  is one atomic state transformer.
\<close>

section \<open>State and operations\<close>

datatype job_error = BackgroundJobQueueError string | JobKeyError string | JobRowError string

record 'p job_queue =
  jq_jobs :: "(string, 'p job_record) dict"
  jq_idempotency_keys :: "(string, string) dict"

definition job_queue_init :: "'p job_queue" where
  "job_queue_init = \<lparr>jq_jobs = [], jq_idempotency_keys = []\<rparr>"

definition existing_job :: "'p job_queue \<Rightarrow> 'p job_record \<Rightarrow> job_error + 'p job_record option" where
  "existing_job q job =
     (case dict_get (jq_jobs q) (jb_job_id job) of
        Some j \<Rightarrow> Inr (Some j)
      | None \<Rightarrow>
        (case dict_get (jq_idempotency_keys q) (jb_idempotency_key job) of
           None \<Rightarrow> Inr None
         | Some existing_id \<Rightarrow>
             (case dict_get (jq_jobs q) existing_id of
                Some j \<Rightarrow> Inr (Some j)
              | None \<Rightarrow> Inl (JobKeyError existing_id))))"

definition store_job :: "'p job_queue \<Rightarrow> 'p job_record \<Rightarrow> 'p job_queue" where
  "store_job q job =
     q\<lparr>jq_jobs := dict_set (jb_job_id job) job (jq_jobs q),
       jq_idempotency_keys := dict_set (jb_idempotency_key job) (jb_job_id job) (jq_idempotency_keys q)\<rparr>"

definition require_job :: "'p job_queue \<Rightarrow> string \<Rightarrow> job_error + 'p job_record" where
  "require_job q job_id =
     (case dict_get (jq_jobs q) job_id of
        Some j \<Rightarrow> Inr j
      | None \<Rightarrow> Inl (BackgroundJobQueueError (''unknown background job: '' @ job_id)))"

definition job_enqueue ::
  "'p job_queue \<Rightarrow> 'p job_record \<Rightarrow> (job_error + 'p job_record) \<times> 'p job_queue" where
  "job_enqueue q job =
     (case existing_job q job of
        Inl e \<Rightarrow> (Inl e, q)
      | Inr (Some existing) \<Rightarrow> (Inr existing, q)
      | Inr None \<Rightarrow> (Inr job, store_job q job))"

definition enqueue_with_policy ::
  "'p job_queue \<Rightarrow> 'p job_record \<Rightarrow> datetime \<Rightarrow> queue_policy \<Rightarrow> bool
     \<Rightarrow> (job_error + 'p enqueue_result) \<times> 'p job_queue" where
  "enqueue_with_policy q job now policy idle_available =
     (case existing_job q job of
        Inl e \<Rightarrow> (Inl e, q)
      | Inr (Some existing) \<Rightarrow>
          (Inr \<lparr>er_decision = ED_EXISTING, er_record = Some existing, er_reason = None,
                er_deferred_until = None\<rparr>, q)
      | Inr None \<Rightarrow>
          (let kp = for_kind policy (jb_kind job);
               reason = evaluate_enqueue_backpressure job (dict_values (jq_jobs q)) now kp idle_available
           in if reason = None \<or> kp_backpressure_mode kp = BM_ACCEPT
              then (Inr \<lparr>er_decision = ED_ACCEPTED, er_record = Some job, er_reason = None,
                         er_deferred_until = None\<rparr>, store_job q job)
              else if kp_backpressure_mode kp = BM_REJECT
              then (Inr \<lparr>er_decision = ED_REJECTED, er_record = None, er_reason = reason,
                         er_deferred_until = None\<rparr>, q)
              else (let deferred_until = now + timedelta_seconds (kp_defer_seconds_when_saturated kp);
                        deferred = defer_job_record job deferred_until (the reason)
                    in (Inr \<lparr>er_decision = ED_DEFERRED, er_record = Some deferred, er_reason = reason,
                             er_deferred_until = Some deferred_until\<rparr>, store_job q deferred))))"

definition leased_job :: "'p job_record \<Rightarrow> datetime \<Rightarrow> seconds \<Rightarrow> 'p job_record" where
  "leased_job job now lease_seconds =
     replace_job job
       ((plain_job_update JS_LEASED now)\<lparr>ju_leased_until := Some (now + timedelta_seconds lease_seconds)\<rparr>)"

text \<open>The loop of \<^verbatim>\<open>lease_due\<close> over the sorted snapshot.\<close>

fun job_lease_loop ::
  "queue_policy option \<Rightarrow> bool \<Rightarrow> datetime \<Rightarrow> int \<Rightarrow> seconds \<Rightarrow> 'p job_record list \<Rightarrow> (job_kind \<Rightarrow> nat)
     \<Rightarrow> 'p job_record list \<Rightarrow> (string, 'p job_record) dict
     \<Rightarrow> 'p job_record list \<times> (string, 'p job_record) dict" where
  "job_lease_loop policy idle now max_items secs [] counts leased jobs = (leased, jobs)"
| "job_lease_loop policy idle now max_items secs (job # due) counts leased jobs =
     (if \<not> is_leaseable job now
      then job_lease_loop policy idle now max_items secs due counts leased jobs
      else
       (let kp = map_option (\<lambda>p. for_kind p (jb_kind job)) policy
        in if requires_idle job kp \<and> \<not> idle
           then job_lease_loop policy idle now max_items secs due counts leased jobs
           else if (case kp of None \<Rightarrow> False
                    | Some p \<Rightarrow> int (counts (jb_kind job)) \<ge> kp_concurrency_limit p)
           then job_lease_loop policy idle now max_items secs due counts leased jobs
           else
            (let updated = leased_job job now secs;
                 jobs' = dict_set (jb_job_id job) updated jobs;
                 counts' = counts(jb_kind job := counts (jb_kind job) + 1);
                 leased' = leased @ [updated]
             in if int (length leased') \<ge> max_items then (leased', jobs')
                else job_lease_loop policy idle now max_items secs due counts' leased' jobs')))"

definition job_lease_due ::
  "'p job_queue \<Rightarrow> datetime \<Rightarrow> int \<Rightarrow> seconds \<Rightarrow> queue_policy option \<Rightarrow> bool
     \<Rightarrow> 'p job_record list \<times> 'p job_queue" where
  "job_lease_due q now max_items lease_seconds policy idle_available =
     (if max_items \<le> 0 then ([], q)
      else
       (let due = sort_key job_order (dict_values (jq_jobs q));
            (leased, jobs') = job_lease_loop policy idle_available now max_items lease_seconds due
                                (leased_counts (dict_values (jq_jobs q)) now) [] (jq_jobs q)
        in (leased, q\<lparr>jq_jobs := jobs'\<rparr>)))"

definition job_collect_metrics :: "'p job_queue \<Rightarrow> datetime \<Rightarrow> queue_metrics" where
  "job_collect_metrics q now = metrics_from_jobs (dict_values (jq_jobs q)) now"

definition update_job ::
  "'p job_queue \<Rightarrow> string \<Rightarrow> ('p job_record \<Rightarrow> job_update) \<Rightarrow> (job_error + unit) \<times> 'p job_queue" where
  "update_job q job_id u =
     (case require_job q job_id of
        Inl e \<Rightarrow> (Inl e, q)
      | Inr job \<Rightarrow> (Inr (), q\<lparr>jq_jobs := dict_set job_id (replace_job job (u job)) (jq_jobs q)\<rparr>))"

definition update_terminal ::
  "'p job_queue \<Rightarrow> string \<Rightarrow> job_status \<Rightarrow> datetime \<Rightarrow> string option \<Rightarrow> (job_error + unit) \<times> 'p job_queue" where
  "update_terminal q job_id status updated_at error =
     update_job q job_id (\<lambda>_. (plain_job_update status updated_at)\<lparr>ju_last_error := error\<rparr>)"

definition mark_succeeded ::
  "'p job_queue \<Rightarrow> string \<Rightarrow> datetime \<Rightarrow> (job_error + unit) \<times> 'p job_queue" where
  "mark_succeeded q job_id finished_at = update_terminal q job_id JS_SUCCEEDED finished_at None"

definition defer_leased ::
  "'p job_queue \<Rightarrow> string \<Rightarrow> datetime \<Rightarrow> string \<Rightarrow> (job_error + unit) \<times> 'p job_queue" where
  "defer_leased q job_id deferred_until reason =
     update_job q job_id (\<lambda>_. (plain_job_update JS_PENDING deferred_until)
       \<lparr>ju_not_before := Some deferred_until, ju_defer_reason := Some reason\<rparr>)"

definition mark_retryable_failure ::
  "'p job_queue \<Rightarrow> string \<Rightarrow> datetime \<Rightarrow> string \<Rightarrow> datetime \<Rightarrow> (job_error + unit) \<times> 'p job_queue" where
  "mark_retryable_failure q job_id failed_at reason retry_after =
     update_job q job_id (\<lambda>job.
       let attempts = jb_attempts job + 1
       in (plain_job_update (retry_failure_status attempts (jb_max_attempts job)) failed_at)
            \<lparr>ju_attempts := Some attempts, ju_not_before := Some retry_after,
             ju_last_error := Some reason\<rparr>)"

definition mark_permanent_failure ::
  "'p job_queue \<Rightarrow> string \<Rightarrow> datetime \<Rightarrow> string \<Rightarrow> (job_error + unit) \<times> 'p job_queue" where
  "mark_permanent_failure q job_id failed_at reason =
     update_terminal q job_id JS_FAILED_PERMANENT failed_at (Some reason)"

definition mark_cancelled ::
  "'p job_queue \<Rightarrow> string \<Rightarrow> datetime \<Rightarrow> string \<Rightarrow> (job_error + unit) \<times> 'p job_queue" where
  "mark_cancelled q job_id cancelled_at reason =
     update_terminal q job_id JS_CANCELLED cancelled_at (Some reason)"

definition job_get :: "'p job_queue \<Rightarrow> string \<Rightarrow> job_error + 'p job_record" where
  "job_get q job_id = require_job q job_id"

section \<open>Invariant\<close>

text \<open>
  Jobs are stored under their id, and the index maps each idempotency key of a stored job to that
  job and nothing else.
\<close>

abbreviation job_at :: "'p job_queue \<Rightarrow> string \<Rightarrow> 'p job_record option" where
  "job_at q i \<equiv> dict_get (jq_jobs q) i"

definition job_queue_inv :: "'p job_queue \<Rightarrow> bool" where
  "job_queue_inv q \<longleftrightarrow>
     dict_wf (jq_jobs q) \<and>
     (\<forall>i j. job_at q i = Some j \<longrightarrow> jb_job_id j = i) \<and>
     (\<forall>k i. dict_get (jq_idempotency_keys q) k = Some i \<longleftrightarrow>
        (\<exists>j. job_at q i = Some j \<and> jb_idempotency_key j = k))"

lemma job_queue_inv_init: "job_queue_inv job_queue_init"
  by (simp add: job_queue_inv_def job_queue_init_def)

lemma job_inv_id: "job_queue_inv q \<Longrightarrow> job_at q i = Some j \<Longrightarrow> jb_job_id j = i"
  unfolding job_queue_inv_def by blast

lemma job_inv_values:
  assumes "job_queue_inv q"
  shows "j \<in> set (dict_values (jq_jobs q)) \<longleftrightarrow> job_at q (jb_job_id j) = Some j"
proof -
  have "dict_wf (jq_jobs q)" using assms by (simp add: job_queue_inv_def)
  then show ?thesis using dict_values_set_iff job_inv_id [OF assms] by metis
qed

lemma replace_job_keys [simp]:
  "jb_job_id (replace_job j u) = jb_job_id j" "jb_kind (replace_job j u) = jb_kind j"
  "jb_idempotency_key (replace_job j u) = jb_idempotency_key j"
  "jb_payload (replace_job j u) = jb_payload j" "jb_max_attempts (replace_job j u) = jb_max_attempts j"
  "jb_created_at (replace_job j u) = jb_created_at j"
  "jb_resource_profile (replace_job j u) = jb_resource_profile j"
  "jb_status (replace_job j u) = ju_status u" "jb_leased_until (replace_job j u) = ju_leased_until u"
  by (simp_all add: replace_job_def)

lemma job_inv_set:
  assumes "job_queue_inv q" and "job_at q i = Some j" and "jb_job_id j' = jb_job_id j"
    and "jb_idempotency_key j' = jb_idempotency_key j"
  shows "job_queue_inv (q\<lparr>jq_jobs := dict_set i j' (jq_jobs q)\<rparr>)"
proof -
  have "jb_job_id j = i" using assms(1,2) by (rule job_inv_id)
  with assms show ?thesis
    unfolding job_queue_inv_def by (simp add: dict_get_set)
qed

text \<open>
  Under the invariant the lookup of an existing job never fails; it finds the job with the same id,
  or else the one with the same idempotency key.
\<close>

definition find_existing :: "'p job_record \<Rightarrow> (string, 'p job_record) dict \<Rightarrow> 'p job_record option" where
  "find_existing job jobs =
     (case dict_get jobs (jb_job_id job) of
        Some j \<Rightarrow> Some j
      | None \<Rightarrow> find (\<lambda>j. jb_idempotency_key j = jb_idempotency_key job) (dict_values jobs))"

lemma job_inv_key:
  "job_queue_inv q \<Longrightarrow> dict_get (jq_idempotency_keys q) k = Some i \<longleftrightarrow>
     (\<exists>j. job_at q i = Some j \<and> jb_idempotency_key j = k)"
  unfolding job_queue_inv_def by blast

lemma existing_job_total:
  assumes "job_queue_inv q"
  shows "existing_job q job = Inr (find_existing job (jq_jobs q))"
proof (cases "job_at q (jb_job_id job)")
  case (Some j)
  then show ?thesis by (simp add: existing_job_def find_existing_def)
next
  case None
  let ?P = "\<lambda>j. jb_idempotency_key j = jb_idempotency_key job"
  note key = job_inv_key [OF assms, of "jb_idempotency_key job"]
  show ?thesis
  proof (cases "find ?P (dict_values (jq_jobs q))")
    case None': None
    have "dict_get (jq_idempotency_keys q) (jb_idempotency_key job) = None"
    proof (rule ccontr)
      assume "dict_get (jq_idempotency_keys q) (jb_idempotency_key job) \<noteq> None"
      then obtain i j where "job_at q i = Some j" "?P j" using key by blast
      with None' show False by (auto simp: find_None_iff dest: dict_get_values)
    qed
    with None None' show ?thesis by (simp add: existing_job_def find_existing_def)
  next
    case (Some j)
    then have "?P j" "j \<in> set (dict_values (jq_jobs q))" by (auto simp: find_Some_iff)
    then have at: "job_at q (jb_job_id j) = Some j" by (simp add: job_inv_values [OF assms])
    with \<open>?P j\<close> key have "dict_get (jq_idempotency_keys q) (jb_idempotency_key job) = Some (jb_job_id j)"
      by blast
    with None Some at show ?thesis by (simp add: existing_job_def find_existing_def)
  qed
qed

lemma find_existing_None:
  assumes "job_queue_inv q" and "find_existing job (jq_jobs q) = None"
  shows "job_at q (jb_job_id job) = None \<and>
    dict_get (jq_idempotency_keys q) (jb_idempotency_key job) = None"
proof -
  have ex: "existing_job q job = Inr None" using existing_job_total [OF assms(1)] assms(2) by simp
  then show ?thesis by (auto simp: existing_job_def split: option.splits)
qed

lemma job_inv_store:
  assumes "job_queue_inv q" and "find_existing job (jq_jobs q) = None"
  shows "job_queue_inv (store_job q job)"
proof -
  note new = find_existing_None [OF assms]
  have other: "jb_idempotency_key j \<noteq> jb_idempotency_key job" if "job_at q i = Some j" for i j
    using job_inv_key [OF assms(1), of "jb_idempotency_key job" i] new that by auto
  have "job_at (store_job q job) i = Some j \<Longrightarrow> jb_job_id j = i" for i j
    using assms(1) new unfolding job_queue_inv_def
    by (auto simp: store_job_def dict_get_set split: if_splits)
  moreover have "dict_get (jq_idempotency_keys (store_job q job)) k = Some i \<longleftrightarrow>
      (\<exists>j. job_at (store_job q job) i = Some j \<and> jb_idempotency_key j = k)" for k i
    using job_inv_key [OF assms(1), of k i] new other by (auto simp: store_job_def dict_get_set)
  moreover have "dict_wf (jq_jobs (store_job q job))"
    using assms(1) by (simp add: store_job_def job_queue_inv_def)
  ultimately show ?thesis unfolding job_queue_inv_def by blast
qed

lemma defer_job_record_keys [simp]:
  "jb_job_id (defer_job_record j t r) = jb_job_id j" "jb_kind (defer_job_record j t r) = jb_kind j"
  "jb_idempotency_key (defer_job_record j t r) = jb_idempotency_key j"
  "jb_status (defer_job_record j t r) = jb_status j"
  by (simp_all add: defer_job_record_def)

lemma find_existing_defer [simp]: "find_existing (defer_job_record j t r) jobs = find_existing j jobs"
  by (simp add: find_existing_def split: option.split)

section \<open>The invariant is kept\<close>

lemma job_enqueue_eq:
  "job_queue_inv q \<Longrightarrow> job_enqueue q job =
     (case find_existing job (jq_jobs q) of
        Some existing \<Rightarrow> (Inr existing, q) | None \<Rightarrow> (Inr job, store_job q job))"
  by (simp add: job_enqueue_def existing_job_total split: option.split)

lemma job_enqueue_inv: "job_queue_inv q \<Longrightarrow> job_queue_inv (snd (job_enqueue q job))"
  by (auto simp: job_enqueue_eq job_inv_store split: option.split)

lemma enqueue_with_policy_inv:
  "job_queue_inv q \<Longrightarrow> job_queue_inv (snd (enqueue_with_policy q job now policy idle))"
  by (auto simp: enqueue_with_policy_def existing_job_total job_inv_store Let_def split: option.split)

lemma update_job_inv: "job_queue_inv q \<Longrightarrow> job_queue_inv (snd (update_job q i u))"
  by (auto simp: update_job_def require_job_def split: option.split intro: job_inv_set)

text \<open>The two loop-free facts about leasing: what a lease changes, and that it is active.\<close>

lemma leased_job_simps [simp]:
  "jb_job_id (leased_job j now secs) = jb_job_id j" "jb_kind (leased_job j now secs) = jb_kind j"
  "jb_idempotency_key (leased_job j now secs) = jb_idempotency_key j"
  "jb_status (leased_job j now secs) = JS_LEASED"
  "jb_leased_until (leased_job j now secs) = Some (now + timedelta_seconds secs)"
  "jb_not_before (leased_job j now secs) = jb_not_before j"
  "jb_attempts (leased_job j now secs) = jb_attempts j"
  by (simp_all add: leased_job_def plain_job_update_def replace_job_def)

end
