(* ===== verification/Job_Lease.thy ===== *)
theory Job_Lease
  imports Job_Queue "HOL-Library.Sublist"
begin

text \<open>
  Which jobs a call of \<^verbatim>\<open>lease_due\<close> takes. The loop of the queue is an instance of a pure
  selection over the ordered snapshot, and the state it leaves is the snapshot with the selected
  jobs leased; the selection respects the concurrency limits, is in order, and takes all it can.
\<close>

section \<open>The selection\<close>

definition eligible :: "queue_policy option \<Rightarrow> bool \<Rightarrow> datetime \<Rightarrow> 'p job_record \<Rightarrow> bool" where
  "eligible policy idle now j \<longleftrightarrow>
     is_leaseable j now \<and> (requires_idle j (map_option (\<lambda>p. for_kind p (jb_kind j)) policy) \<longrightarrow> idle)"

definition kind_limit :: "queue_policy option \<Rightarrow> job_kind \<Rightarrow> int option" where
  "kind_limit policy k = map_option (\<lambda>p. kp_concurrency_limit (for_kind p k)) policy"

definition has_room :: "queue_policy option \<Rightarrow> (job_kind \<Rightarrow> nat) \<Rightarrow> job_kind \<Rightarrow> bool" where
  "has_room policy counts k \<longleftrightarrow> (\<forall>limit. kind_limit policy k = Some limit \<longrightarrow> int (counts k) < limit)"

definition bump :: "(job_kind \<Rightarrow> nat) \<Rightarrow> job_kind \<Rightarrow> job_kind \<Rightarrow> nat" where
  "bump counts k = counts(k := counts k + 1)"

lemma bump_apply: "bump counts k k' = (if k' = k then Suc (counts k) else counts k')"
  by (simp add: bump_def)

fun pick_jobs ::
  "queue_policy option \<Rightarrow> bool \<Rightarrow> datetime \<Rightarrow> nat \<Rightarrow> (job_kind \<Rightarrow> nat) \<Rightarrow> 'p job_record list
     \<Rightarrow> 'p job_record list" where
  "pick_jobs policy idle now 0 counts due = []"
| "pick_jobs policy idle now n counts [] = []"
| "pick_jobs policy idle now (Suc n) counts (j # due) =
     (if eligible policy idle now j \<and> has_room policy counts (jb_kind j)
      then j # pick_jobs policy idle now n (bump counts (jb_kind j)) due
      else pick_jobs policy idle now (Suc n) counts due)"

definition lease_jobs ::
  "datetime \<Rightarrow> seconds \<Rightarrow> 'p job_record list \<Rightarrow> (string, 'p job_record) dict \<Rightarrow> (string, 'p job_record) dict" where
  "lease_jobs now secs js jobs = fold (\<lambda>j. dict_set (jb_job_id j) (leased_job j now secs)) js jobs"

lemma pick_jobs_Nil [simp]: "pick_jobs policy idle now n counts [] = []"
  by (cases n) auto

lemma job_lease_loop_eq:
  assumes "int (length leased) < m"
  shows "job_lease_loop policy idle now m secs due counts leased jobs =
    (let js = pick_jobs policy idle now (nat (m - int (length leased))) counts due
     in (leased @ map (\<lambda>j. leased_job j now secs) js, lease_jobs now secs js jobs))"
  using assms
proof (induction due arbitrary: counts leased jobs)
  case Nil
  then show ?case by (simp add: lease_jobs_def Let_def)
next
  case (Cons j due)
  obtain n where n: "nat (m - int (length leased)) = Suc n"
    using Cons.prems by (metis not0_implies_Suc zless_nat_eq_int_zless diff_gt_0_iff_gt of_nat_0 gr0_conv_Suc)
  show ?case
  proof (cases "eligible policy idle now j \<and> has_room policy counts (jb_kind j)")
    case False
    then have "job_lease_loop policy idle now m secs (j # due) counts leased jobs =
        job_lease_loop policy idle now m secs due counts leased jobs"
      by (auto simp: eligible_def has_room_def kind_limit_def Let_def split: option.splits)
    with False Cons.IH [OF Cons.prems] show ?thesis by (auto simp: n Let_def)
  next
    case True
    let ?l = "leased_job j now secs"
    let ?c = "bump counts (jb_kind j)"
    have step: "job_lease_loop policy idle now m secs (j # due) counts leased jobs =
        (if int (length (leased @ [?l])) \<ge> m then (leased @ [?l], dict_set (jb_job_id j) ?l jobs)
         else job_lease_loop policy idle now m secs due ?c (leased @ [?l]) (dict_set (jb_job_id j) ?l jobs))"
      using True
      by (auto simp: eligible_def has_room_def kind_limit_def bump_def Let_def split: option.splits)
    show ?thesis
    proof (cases "int (length (leased @ [?l])) \<ge> m")
      case full: True
      with n have "n = 0" by simp
      with True full step n show ?thesis by (simp add: lease_jobs_def Let_def)
    next
      case False
      have "nat (m - int (length (leased @ [?l]))) = n" using n by simp
      with True False step n Cons.IH [of "leased @ [?l]" ?c "dict_set (jb_job_id j) ?l jobs"]
      show ?thesis by (simp add: lease_jobs_def Let_def)
    qed
  qed
qed

section \<open>What is selected\<close>

lemma pick_jobs_subseq: "subseq (pick_jobs policy idle now n counts due) due"
  by (induction policy idle now n counts due rule: pick_jobs.induct) auto

lemma pick_jobs_length: "length (pick_jobs policy idle now n counts due) \<le> n"
  by (induction policy idle now n counts due rule: pick_jobs.induct) auto

lemma pick_jobs_eligible:
  "j \<in> set (pick_jobs policy idle now n counts due) \<Longrightarrow> eligible policy idle now j"
  by (induction policy idle now n counts due rule: pick_jobs.induct) (auto split: if_splits)

definition kind_count :: "job_kind \<Rightarrow> 'p job_record list \<Rightarrow> nat" where
  "kind_count k js = length (filter (\<lambda>j. jb_kind j = k) js)"

lemma kind_count_simps [simp]:
  "kind_count k [] = 0"
  "kind_count k (j # js) = (if jb_kind j = k then Suc (kind_count k js) else kind_count k js)"
  by (simp_all add: kind_count_def)

lemma pick_jobs_limit:
  assumes "kind_limit policy k = Some limit"
  shows "int (counts k + kind_count k (pick_jobs policy idle now n counts due)) \<le> max (int (counts k)) limit"
  using assms
proof (induction policy idle now n counts due rule: pick_jobs.induct)
  case (3 policy idle now n counts j due)
  show ?case
  proof (cases "eligible policy idle now j \<and> has_room policy counts (jb_kind j)")
    case True
    then have "jb_kind j = k \<Longrightarrow> int (counts k) < limit" using 3(3) by (auto simp: has_room_def)
    with True 3(1) [OF True 3(3)] show ?thesis
      using bump_apply [of counts "jb_kind j" k] by (auto split: if_splits)
  next
    case False
    with 3(2) [OF False 3(3)] show ?thesis by auto
  qed
qed auto

text \<open>
  Work conservation: if the selection is not full, an eligible job was left out only because its
  kind has reached its limit.
\<close>

lemma pick_jobs_complete:
  assumes "length (pick_jobs policy idle now n counts due) < n" and "j \<in> set due"
    and "eligible policy idle now j" and "j \<notin> set (pick_jobs policy idle now n counts due)"
  shows "\<exists>limit. kind_limit policy (jb_kind j) = Some limit \<and>
    limit \<le> int (counts (jb_kind j) + kind_count (jb_kind j) (pick_jobs policy idle now n counts due))"
  using assms
proof (induction policy idle now n counts due rule: pick_jobs.induct)
  case (3 policy idle now n counts x due)
  show ?case
  proof (cases "eligible policy idle now x \<and> has_room policy counts (jb_kind x)")
    case True
    with 3(3-6) have "j \<in> set due" "j \<notin> set (pick_jobs policy idle now n (bump counts (jb_kind x)) due)"
      "length (pick_jobs policy idle now n (bump counts (jb_kind x)) due) < n" by auto
    from 3(1) [OF True this(3,1) 3(5) this(2)] True show ?thesis
      using bump_apply [of counts "jb_kind x" "jb_kind j"] by (auto split: if_splits)
  next
    case False
    show ?thesis
    proof (cases "j = x")
      case True
      with False 3(5) have "\<not> has_room policy counts (jb_kind j)" by auto
      then show ?thesis by (auto simp: has_room_def not_less)
    next
      case ne: False
      with False 3(2) [OF False] 3(3-6) show ?thesis by auto
    qed
  qed
qed auto

lemma pick_jobs_no_room:
  "\<not> has_room policy counts k \<Longrightarrow> filter (\<lambda>j. jb_kind j = k) (pick_jobs policy idle now n counts due) = []"
proof (induction policy idle now n counts due rule: pick_jobs.induct)
  case (3 policy idle now n counts x due)
  have "\<not> has_room policy (bump counts (jb_kind x)) k"
    using 3(3) by (auto simp: has_room_def bump_apply)
  with 3 show ?case by auto
qed auto

text \<open>Within one kind, jobs are taken in the order of the snapshot: a prefix of the eligible ones.\<close>

lemma pick_jobs_prefix:
  "\<exists>m. filter (\<lambda>j. jb_kind j = k) (pick_jobs policy idle now n counts due) =
       take m (filter (\<lambda>j. jb_kind j = k \<and> eligible policy idle now j) due)"
proof (induction policy idle now n counts due rule: pick_jobs.induct)
  case (3 policy idle now n counts x due)
  show ?case
  proof (cases "eligible policy idle now x \<and> has_room policy counts (jb_kind x)")
    case True
    from 3(1) [OF True] obtain m where
      m: "filter (\<lambda>j. jb_kind j = k) (pick_jobs policy idle now n (bump counts (jb_kind x)) due) =
          take m (filter (\<lambda>j. jb_kind j = k \<and> eligible policy idle now j) due)" ..
    show ?thesis
    proof (cases "jb_kind x = k")
      case k: True
      with True m show ?thesis by (intro exI [of _ "Suc m"]) simp
    next
      case False
      with True m show ?thesis by (intro exI [of _ m]) simp
    qed
  next
    case False
    from 3(2) [OF False] obtain m where
      m: "filter (\<lambda>j. jb_kind j = k) (pick_jobs policy idle now (Suc n) counts due) =
          take m (filter (\<lambda>j. jb_kind j = k \<and> eligible policy idle now j) due)" ..
    show ?thesis
    proof (cases "eligible policy idle now x \<and> jb_kind x = k")
      case el: True
      with False have full: "\<not> has_room policy counts k" by auto
      then have "filter (\<lambda>j. jb_kind j = k) (pick_jobs policy idle now (Suc n) counts due) = []"
        by (rule pick_jobs_no_room)
      with False show ?thesis by (intro exI [of _ 0]) auto
    next
      case ne: False
      with False m show ?thesis by (intro exI [of _ m]) auto
    qed
  qed
qed (auto intro: exI [of _ 0])

section \<open>The state after a lease\<close>

lemma distinct_map_head: "distinct (map f (y # ys)) \<Longrightarrow> x \<in> set ys \<Longrightarrow> f x \<noteq> f y"
  by (simp add: image_iff) metis

lemma dict_get_lease_jobs:
  assumes "distinct (map jb_job_id js)"
  shows "dict_get (lease_jobs now secs js jobs) i =
    (case find (\<lambda>j. jb_job_id j = i) js of
       Some j \<Rightarrow> Some (leased_job j now secs) | None \<Rightarrow> dict_get jobs i)"
  using assms
proof (induction js arbitrary: jobs)
  case Nil
  then show ?case by (simp add: lease_jobs_def)
next
  case (Cons j js)
  have "find (\<lambda>j. jb_job_id j = i) js = None" if "jb_job_id j = i"
    using distinct_map_head [OF Cons.prems] that by (auto simp: find_None_iff)
  with Cons show ?case
    by (auto simp: lease_jobs_def dict_get_set split: option.splits)
qed

definition job_snapshot :: "'p job_queue \<Rightarrow> 'p job_record list" where
  "job_snapshot q = sort_key job_order (dict_values (jq_jobs q))"

lemma job_values_distinct:
  assumes "job_queue_inv q"
  shows "distinct (map jb_job_id (dict_values (jq_jobs q)))"
proof -
  have wf: "distinct (map fst (jq_jobs q))"
    using assms by (simp add: job_queue_inv_def dict_wf_def dict_keys_def)
  have "map jb_job_id (dict_values (jq_jobs q)) = map fst (jq_jobs q)"
    unfolding dict_values_def using job_inv_id [OF assms] wf by (auto simp: map_eq_conv)
  with wf show ?thesis by simp
qed

lemma job_snapshot_facts:
  assumes "job_queue_inv q"
  shows "distinct (map jb_job_id (job_snapshot q)) \<and> sorted_wrt (<) (map job_order (job_snapshot q)) \<and>
    (\<forall>j. j \<in> set (job_snapshot q) \<longleftrightarrow> job_at q (jb_job_id j) = Some j)"
proof -
  have d: "distinct (map jb_job_id (job_snapshot q))"
    using job_values_distinct [OF assms] unfolding job_snapshot_def by (simp add: distinct_map)
  then have "distinct (map job_order (job_snapshot q))"
    by (auto simp: distinct_map inj_on_def job_order_def)
  moreover have "sorted (map job_order (job_snapshot q))" by (simp add: job_snapshot_def)
  ultimately have "sorted_wrt (<) (map job_order (job_snapshot q))"
    using strict_sorted_iff by blast
  with d job_inv_values [OF assms] show ?thesis by (simp add: job_snapshot_def)
qed

definition picked_jobs ::
  "'p job_queue \<Rightarrow> datetime \<Rightarrow> int \<Rightarrow> queue_policy option \<Rightarrow> bool \<Rightarrow> 'p job_record list" where
  "picked_jobs q now m policy idle =
     pick_jobs policy idle now (nat m) (leased_counts (dict_values (jq_jobs q)) now) (job_snapshot q)"

lemma job_lease_due_eq:
  "job_lease_due q now m secs policy idle =
     (map (\<lambda>j. leased_job j now secs) (picked_jobs q now m policy idle),
      q\<lparr>jq_jobs := lease_jobs now secs (picked_jobs q now m policy idle) (jq_jobs q)\<rparr>)"
  by (auto simp: job_lease_due_def job_lease_loop_eq picked_jobs_def job_snapshot_def Let_def lease_jobs_def)

lemma subseq_set: "subseq xs ys \<Longrightarrow> x \<in> set xs \<Longrightarrow> x \<in> set ys"
  by (induction rule: list_emb.induct) auto

lemma subseq_sorted_wrt: "subseq xs ys \<Longrightarrow> sorted_wrt R ys \<Longrightarrow> sorted_wrt R xs"
  by (induction rule: list_emb.induct) (auto dest: subseq_set)

lemma subseq_distinct: "subseq xs ys \<Longrightarrow> distinct ys \<Longrightarrow> distinct xs"
  by (induction rule: list_emb.induct) (auto dest: subseq_set)

lemma picked_jobs_facts:
  assumes "job_queue_inv q" and js: "js = picked_jobs q now m policy idle"
  shows "distinct (map jb_job_id js) \<and> sorted_wrt (<) (map job_order js) \<and> int (length js) \<le> max 0 m \<and>
    (\<forall>j\<in>set js. job_at q (jb_job_id j) = Some j \<and> eligible policy idle now j)"
proof -
  note snap = job_snapshot_facts [OF assms(1)]
  have sub: "subseq js (job_snapshot q)" unfolding js picked_jobs_def by (rule pick_jobs_subseq)
  have "distinct (map jb_job_id js)"
    using subseq_distinct [OF subseq_map [OF sub]] snap by blast
  moreover have "sorted_wrt (<) (map job_order js)"
    using subseq_sorted_wrt [OF subseq_map [OF sub]] snap by blast
  moreover have "int (length js) \<le> max 0 m"
    using pick_jobs_length [of policy idle now "nat m" "leased_counts (dict_values (jq_jobs q)) now"
        "job_snapshot q"]
    unfolding js picked_jobs_def by linarith
  moreover have "job_at q (jb_job_id j) = Some j \<and> eligible policy idle now j" if "j \<in> set js" for j
    using subseq_set [OF sub that] snap that pick_jobs_eligible unfolding js picked_jobs_def by blast
  ultimately show ?thesis by blast
qed

lemma job_at_lease_due:
  assumes "job_queue_inv q" and "js = picked_jobs q now m policy idle"
  shows "job_at (snd (job_lease_due q now m secs policy idle)) i =
    (case find (\<lambda>j. jb_job_id j = i) js of
       Some j \<Rightarrow> Some (leased_job j now secs) | None \<Rightarrow> job_at q i)"
  using picked_jobs_facts [OF assms] dict_get_lease_jobs [of js now secs "jq_jobs q" i] assms(2)
  by (simp add: job_lease_due_eq)

lemma job_inv_lease_jobs:
  assumes "job_queue_inv q" and "\<forall>j\<in>set js. job_at q (jb_job_id j) = Some j" and "distinct (map jb_job_id js)"
  shows "job_queue_inv (q\<lparr>jq_jobs := lease_jobs now secs js (jq_jobs q)\<rparr>)"
  using assms
proof (induction js arbitrary: q)
  case Nil
  then show ?case by (simp add: lease_jobs_def)
next
  case (Cons j js)
  let ?q = "q\<lparr>jq_jobs := dict_set (jb_job_id j) (leased_job j now secs) (jq_jobs q)\<rparr>"
  have "job_queue_inv ?q" by (rule job_inv_set [OF Cons.prems(1)]) (use Cons.prems in auto)
  moreover have "\<forall>x\<in>set js. job_at ?q (jb_job_id x) = Some x"
  proof
    fix x
    assume x: "x \<in> set js"
    then have "jb_job_id x \<noteq> jb_job_id j" using distinct_map_head [OF Cons.prems(3)] by blast
    with x Cons.prems(2) show "job_at ?q (jb_job_id x) = Some x" by (simp add: dict_get_set)
  qed
  ultimately have "job_queue_inv (?q\<lparr>jq_jobs := lease_jobs now secs js (jq_jobs ?q)\<rparr>)"
    using Cons.IH [of ?q] Cons.prems(3) by simp
  then show ?case by (simp add: lease_jobs_def)
qed

lemma job_lease_due_inv:
  assumes "job_queue_inv q"
  shows "job_queue_inv (snd (job_lease_due q now m secs policy idle))"
  using job_inv_lease_jobs [OF assms, of "picked_jobs q now m policy idle"]
    picked_jobs_facts [OF assms refl, of now m policy idle]
  by (simp add: job_lease_due_eq)

text \<open>Each newly leased job adds one active lease of its kind, and nothing else changes the count.\<close>

lemma leased_counts_dict:
  "leased_counts (dict_values d) now k = dict_count (\<lambda>j. active_lease j now \<and> jb_kind j = k) d"
  by (simp add: leased_counts_def dict_count_def)

lemma leaseable_not_active: "is_leaseable j now \<Longrightarrow> \<not> active_lease j now"
  by (auto simp: is_leaseable_def active_lease_def QUEUE_DEPTH_STATUSES_def Let_def split: option.splits)

lemma leased_job_active: "0 < timedelta_seconds secs \<Longrightarrow> active_lease (leased_job j now secs) now"
  by (simp add: active_lease_def)

lemma leased_counts_lease_jobs:
  assumes "\<forall>j\<in>set js. dict_get jobs (jb_job_id j) = Some j \<and> is_leaseable j now"
    and "distinct (map jb_job_id js)" and "0 < timedelta_seconds secs"
  shows "leased_counts (dict_values (lease_jobs now secs js jobs)) now k =
    leased_counts (dict_values jobs) now k + kind_count k js"
  using assms
proof (induction js arbitrary: jobs)
  case Nil
  then show ?case by (simp add: lease_jobs_def)
next
  case (Cons j js)
  let ?P = "\<lambda>j. active_lease j now \<and> jb_kind j = k"
  let ?jobs = "dict_set (jb_job_id j) (leased_job j now secs) jobs"
  have "dict_get ?jobs (jb_job_id x) = Some x \<and> is_leaseable x now" if "x \<in> set js" for x
  proof -
    have "jb_job_id x \<noteq> jb_job_id j" using distinct_map_head [OF Cons.prems(2) that] .
    with that Cons.prems(1) show ?thesis by (simp add: dict_get_set)
  qed
  then have "leased_counts (dict_values (lease_jobs now secs js ?jobs)) now k =
      leased_counts (dict_values ?jobs) now k + kind_count k js"
    using Cons.IH [of ?jobs] Cons.prems(2,3) by simp
  moreover have "dict_count ?P ?jobs + (if ?P j then 1 else 0) =
      dict_count ?P jobs + (if ?P (leased_job j now secs) then 1 else 0)"
    by (rule dict_count_set_old) (use Cons.prems(1) in simp)
  ultimately show ?case
    using leased_job_active [OF Cons.prems(3), of j now] leaseable_not_active [of j now] Cons.prems(1)
    by (auto simp: lease_jobs_def leased_counts_dict)
qed

end
