(* ===== verification/Job_Queue_Sqlite.thy ===== *)
theory Job_Queue_Sqlite
  imports Job_Lease Delivery_Sqlite
begin

text \<open>
  The durable background job queue, \<^verbatim>\<open>SQLiteBackgroundJobQueue\<close> of
  \<^verbatim>\<open>iris/adapters/persistence/sqlite/stores/background_jobs.py\<close>. Every method is one
  transaction on one table. As for the delivery outbox, a timestamp column holds the text of an
  instant, and the JSON codecs of payloads and resource profiles are a parameter.
\<close>

section \<open>Rows\<close>

datatype payload_type =
  PT_MEMORY_BACKGROUND | PT_RUNTIME_LEARNING_CANDIDATE | PT_DEFERRED_LEARNING
| PT_RELATIONSHIP_UPDATE | PT_INTERACTION_POLICY | PT_MEMORY_CONSOLIDATION

fun payload_type_value :: "payload_type \<Rightarrow> string" where
  "payload_type_value PT_MEMORY_BACKGROUND = ''memory_background''"
| "payload_type_value PT_RUNTIME_LEARNING_CANDIDATE = ''runtime_learning_candidate''"
| "payload_type_value PT_DEFERRED_LEARNING = ''deferred_learning''"
| "payload_type_value PT_RELATIONSHIP_UPDATE = ''relationship_update''"
| "payload_type_value PT_INTERACTION_POLICY = ''interaction_policy''"
| "payload_type_value PT_MEMORY_CONSOLIDATION = ''memory_consolidation''"

definition payload_type_of_value :: "string \<Rightarrow> payload_type option" where
  "payload_type_of_value s =
     find (\<lambda>t. payload_type_value t = s)
       [PT_MEMORY_BACKGROUND, PT_RUNTIME_LEARNING_CANDIDATE, PT_DEFERRED_LEARNING,
        PT_RELATIONSHIP_UPDATE, PT_INTERACTION_POLICY, PT_MEMORY_CONSOLIDATION]"

definition job_kind_of_value :: "string \<Rightarrow> job_kind option" where
  "job_kind_of_value s =
     find (\<lambda>k. job_kind_value k = s)
       [MEMORY_EXTRACTION, MEMORY_CONSOLIDATION, RELATIONSHIP_UPDATE, INTERACTION_POLICY_CANDIDATE,
        PERSONA_PATCH_PROPOSAL, EPISODIC_TO_SEMANTIC_PROMOTION, REFLECTION, LANGMEM_EXTRACTION]"

definition job_status_of_value :: "string \<Rightarrow> job_status option" where
  "job_status_of_value s =
     find (\<lambda>x. job_status_value x = s)
       [JS_PENDING, JS_LEASED, JS_SUCCEEDED, JS_FAILED_RETRYABLE, JS_FAILED_PERMANENT, JS_CANCELLED]"

lemma payload_type_of_value_value [simp]: "payload_type_of_value (payload_type_value t) = Some t"
  by (cases t) (simp_all add: payload_type_of_value_def)

lemma job_kind_of_value_value [simp]: "job_kind_of_value (job_kind_value k) = Some k"
  by (cases k) (simp_all add: job_kind_of_value_def)

lemma job_status_of_value_value [simp]: "job_status_of_value (job_status_value s) = Some s"
  by (cases s) (simp_all add: job_status_of_value_def)

text \<open>
  The codecs: the class of a payload, its JSON text, parsing a text as a payload of a class, and the
  same for profiles. What is relied on: parsing gives back what was rendered, and the text of any
  payload also parses as a deferred payload (all its fields have defaults and other fields are
  ignored), which \<^verbatim>\<open>_payload_from_json\<close> does first.
\<close>

record 'p job_codec =
  jc_type :: "'p \<Rightarrow> payload_type"
  jc_dump :: "'p \<Rightarrow> string"
  jc_load :: "payload_type \<Rightarrow> string \<Rightarrow> 'p option"
  jc_profile_dump :: "resource_profile \<Rightarrow> string"
  jc_profile_load :: "string \<Rightarrow> resource_profile option"

definition job_codec_ok :: "'p job_codec \<Rightarrow> bool" where
  "job_codec_ok c \<longleftrightarrow>
     (\<forall>p. jc_load c (jc_type c p) (jc_dump c p) = Some p \<and>
          jc_load c PT_DEFERRED_LEARNING (jc_dump c p) \<noteq> None) \<and>
     (\<forall>r. jc_profile_load c (jc_profile_dump c r) = Some r)"

record job_row =
  jr_job_id :: string
  jr_kind :: string
  jr_payload_type :: string
  jr_payload_json :: string
  jr_status :: string
  jr_attempts :: int
  jr_max_attempts :: int
  jr_not_before :: iso_text
  jr_resource_profile_json :: string
  jr_leased_until :: "iso_text option"
  jr_idempotency_key :: string
  jr_created_at :: iso_text
  jr_updated_at :: iso_text
  jr_last_error :: "string option"
  jr_defer_reason :: "string option"

definition payload_from_json :: "'p job_codec \<Rightarrow> payload_type \<Rightarrow> string \<Rightarrow> 'p option" where
  "payload_from_json c pt json =
     (case jc_load c PT_DEFERRED_LEARNING json of
        None \<Rightarrow> None
      | Some _ \<Rightarrow> jc_load c pt json)"

definition record_to_row :: "'p job_codec \<Rightarrow> 'p job_record \<Rightarrow> job_row" where
  "record_to_row c j =
     \<lparr>jr_job_id = jb_job_id j, jr_kind = job_kind_value (jb_kind j),
      jr_payload_type = payload_type_value (jc_type c (jb_payload j)),
      jr_payload_json = jc_dump c (jb_payload j), jr_status = job_status_value (jb_status j),
      jr_attempts = jb_attempts j, jr_max_attempts = jb_max_attempts j,
      jr_not_before = required_datetime_to_text (jb_not_before j),
      jr_resource_profile_json = jc_profile_dump c (jb_resource_profile j),
      jr_leased_until = datetime_to_text (jb_leased_until j),
      jr_idempotency_key = jb_idempotency_key j,
      jr_created_at = required_datetime_to_text (jb_created_at j),
      jr_updated_at = required_datetime_to_text (jb_updated_at j),
      jr_last_error = jb_last_error j, jr_defer_reason = jb_defer_reason j\<rparr>"

definition row_to_record :: "'p job_codec \<Rightarrow> job_row \<Rightarrow> job_error + 'p job_record" where
  "row_to_record c r =
     (case job_kind_of_value (jr_kind r) of None \<Rightarrow> Inl (JobRowError ''kind'') | Some kind \<Rightarrow>
      case payload_type_of_value (jr_payload_type r) of None \<Rightarrow> Inl (JobRowError ''payload_type'') | Some pt \<Rightarrow>
      case payload_from_json c pt (jr_payload_json r) of None \<Rightarrow> Inl (JobRowError ''payload_json'') | Some payload \<Rightarrow>
      case job_status_of_value (jr_status r) of None \<Rightarrow> Inl (JobRowError ''status'') | Some status \<Rightarrow>
      case jc_profile_load c (jr_resource_profile_json r) of None \<Rightarrow> Inl (JobRowError ''resource_profile_json'') | Some profile \<Rightarrow>
        Inr \<lparr>jb_job_id = jr_job_id r, jb_kind = kind, jb_payload = payload, jb_status = status,
             jb_attempts = jr_attempts r, jb_max_attempts = jr_max_attempts r,
             jb_not_before = text_to_datetime (jr_not_before r), jb_resource_profile = profile,
             jb_leased_until = optional_datetime (jr_leased_until r),
             jb_idempotency_key = jr_idempotency_key r,
             jb_created_at = text_to_datetime (jr_created_at r),
             jb_updated_at = text_to_datetime (jr_updated_at r),
             jb_last_error = jr_last_error r, jb_defer_reason = jr_defer_reason r\<rparr>)"

fun rows_to_records :: "'p job_codec \<Rightarrow> job_row list \<Rightarrow> job_error + 'p job_record list" where
  "rows_to_records c [] = Inr []"
| "rows_to_records c (r # rs) =
     (case row_to_record c r of Inl e \<Rightarrow> Inl e | Inr j \<Rightarrow>
      case rows_to_records c rs of Inl e \<Rightarrow> Inl e | Inr js \<Rightarrow> Inr (j # js))"

definition update_row :: "'p job_codec \<Rightarrow> job_row \<Rightarrow> 'p job_record \<Rightarrow> job_row" where
  "update_row c r j =
     r\<lparr>jr_status := job_status_value (jb_status j), jr_attempts := jb_attempts j,
       jr_not_before := required_datetime_to_text (jb_not_before j),
       jr_resource_profile_json := jc_profile_dump c (jb_resource_profile j),
       jr_leased_until := datetime_to_text (jb_leased_until j),
       jr_updated_at := required_datetime_to_text (jb_updated_at j),
       jr_last_error := jb_last_error j, jr_defer_reason := jb_defer_reason j\<rparr>"

section \<open>Operations\<close>

type_synonym job_table = "(string, job_row) dict"

definition sql_insert :: "'p job_codec \<Rightarrow> job_table \<Rightarrow> 'p job_record \<Rightarrow> job_table" where
  "sql_insert c rows j = dict_set (jb_job_id j) (record_to_row c j) rows"

text \<open>\<^verbatim>\<open>UPDATE ... WHERE job_id = ?\<close>.\<close>

definition sql_update :: "'p job_codec \<Rightarrow> job_table \<Rightarrow> 'p job_record \<Rightarrow> job_table" where
  "sql_update c rows j =
     (case dict_get rows (jb_job_id j) of
        None \<Rightarrow> rows
      | Some r \<Rightarrow> dict_set (jb_job_id j) (update_row c r j) rows)"

definition sql_find_existing :: "'p job_codec \<Rightarrow> job_table \<Rightarrow> 'p job_record \<Rightarrow> job_error + 'p job_record option" where
  "sql_find_existing c rows job =
     (case (case dict_get rows (jb_job_id job) of
              Some r \<Rightarrow> Some r
            | None \<Rightarrow> find (\<lambda>r. jr_idempotency_key r = jb_idempotency_key job) (dict_values rows)) of
        None \<Rightarrow> Inr None
      | Some r \<Rightarrow> (case row_to_record c r of Inl e \<Rightarrow> Inl e | Inr j \<Rightarrow> Inr (Some j)))"

definition row_order :: "job_row \<Rightarrow> datetime \<times> datetime \<times> string" where
  "row_order r = (iso_instant (jr_not_before r), iso_instant (jr_created_at r), jr_job_id r)"

definition sql_select_all :: "'p job_codec \<Rightarrow> job_table \<Rightarrow> job_error + 'p job_record list" where
  "sql_select_all c rows = rows_to_records c (sort_key row_order (dict_values rows))"

definition row_due :: "job_row \<Rightarrow> datetime \<Rightarrow> bool" where
  "row_due r now \<longleftrightarrow>
     (jr_status r \<in> {job_status_value JS_PENDING, job_status_value JS_FAILED_RETRYABLE} \<or>
      jr_status r = job_status_value JS_LEASED \<and>
        (case jr_leased_until r of None \<Rightarrow> False | Some t \<Rightarrow> iso_instant t \<le> now)) \<and>
     iso_instant (jr_not_before r) \<le> now"

definition sql_select_due ::
  "'p job_codec \<Rightarrow> job_table \<Rightarrow> datetime \<Rightarrow> int option \<Rightarrow> job_error + 'p job_record list" where
  "sql_select_due c rows now limit =
     (let due = sort_key row_order (filter (\<lambda>r. row_due r now) (dict_values rows))
      in rows_to_records c (case limit of None \<Rightarrow> due | Some n \<Rightarrow> take (nat n) due))"

text \<open>
  The grouped count; a kind that is not a member of the enumeration raises while the result
  dictionary is built.
\<close>

definition row_actively_leased :: "job_row \<Rightarrow> datetime \<Rightarrow> bool" where
  "row_actively_leased r now \<longleftrightarrow>
     jr_status r = job_status_value JS_LEASED \<and>
     (case jr_leased_until r of None \<Rightarrow> False | Some t \<Rightarrow> iso_instant t > now)"

definition sql_leased_counts :: "job_table \<Rightarrow> datetime \<Rightarrow> job_error + (job_kind \<Rightarrow> nat)" where
  "sql_leased_counts rows now =
     (let leased = filter (\<lambda>r. row_actively_leased r now) (dict_values rows)
      in if \<forall>r\<in>set leased. job_kind_of_value (jr_kind r) \<noteq> None
         then Inr (\<lambda>kind. length (filter (\<lambda>r. jr_kind r = job_kind_value kind) leased))
         else Inl (JobRowError ''kind''))"

definition sql_require :: "'p job_codec \<Rightarrow> job_table \<Rightarrow> string \<Rightarrow> job_error + 'p job_record" where
  "sql_require c rows job_id =
     (case dict_get rows job_id of
        None \<Rightarrow> Inl (BackgroundJobQueueError (''unknown background job: '' @ job_id))
      | Some r \<Rightarrow> row_to_record c r)"

definition sql_enqueue :: "'p job_codec \<Rightarrow> job_table \<Rightarrow> 'p job_record \<Rightarrow> (job_error + 'p job_record) \<times> job_table" where
  "sql_enqueue c rows job =
     (case sql_find_existing c rows job of
        Inl e \<Rightarrow> (Inl e, rows)
      | Inr (Some existing) \<Rightarrow> (Inr existing, rows)
      | Inr None \<Rightarrow> (Inr job, sql_insert c rows job))"

definition sql_enqueue_with_policy ::
  "'p job_codec \<Rightarrow> job_table \<Rightarrow> 'p job_record \<Rightarrow> datetime \<Rightarrow> queue_policy \<Rightarrow> bool
     \<Rightarrow> (job_error + 'p enqueue_result) \<times> job_table" where
  "sql_enqueue_with_policy c rows job now policy idle_available =
     (case sql_find_existing c rows job of
        Inl e \<Rightarrow> (Inl e, rows)
      | Inr (Some existing) \<Rightarrow>
          (Inr \<lparr>er_decision = ED_EXISTING, er_record = Some existing, er_reason = None,
                er_deferred_until = None\<rparr>, rows)
      | Inr None \<Rightarrow>
        (case sql_select_all c rows of
           Inl e \<Rightarrow> (Inl e, rows)
         | Inr jobs \<Rightarrow>
          (let reason = evaluate_enqueue_backpressure job jobs now (for_kind policy (jb_kind job)) idle_available;
               kp = for_kind policy (jb_kind job)
           in if reason = None \<or> kp_backpressure_mode kp = BM_ACCEPT
              then (Inr \<lparr>er_decision = ED_ACCEPTED, er_record = Some job, er_reason = None,
                         er_deferred_until = None\<rparr>, sql_insert c rows job)
              else if kp_backpressure_mode kp = BM_REJECT
              then (Inr \<lparr>er_decision = ED_REJECTED, er_record = None, er_reason = reason,
                         er_deferred_until = None\<rparr>, rows)
              else (let deferred_until = now + timedelta_seconds (kp_defer_seconds_when_saturated kp);
                        deferred = defer_job_record job deferred_until (the reason)
                    in (Inr \<lparr>er_decision = ED_DEFERRED, er_record = Some deferred, er_reason = reason,
                             er_deferred_until = Some deferred_until\<rparr>, sql_insert c rows deferred)))))"

fun sql_lease_loop ::
  "'p job_codec \<Rightarrow> queue_policy option \<Rightarrow> bool \<Rightarrow> datetime \<Rightarrow> int \<Rightarrow> seconds \<Rightarrow> 'p job_record list
     \<Rightarrow> (job_kind \<Rightarrow> nat) \<Rightarrow> 'p job_record list \<Rightarrow> job_table \<Rightarrow> 'p job_record list \<times> job_table" where
  "sql_lease_loop c policy idle now max_items secs [] counts leased rows = (leased, rows)"
| "sql_lease_loop c policy idle now max_items secs (job # due) counts leased rows =
     (let kp = map_option (\<lambda>p. for_kind p (jb_kind job)) policy
      in if requires_idle job kp \<and> \<not> idle
         then sql_lease_loop c policy idle now max_items secs due counts leased rows
         else if (case kp of None \<Rightarrow> False
                  | Some p \<Rightarrow> int (counts (jb_kind job)) \<ge> kp_concurrency_limit p)
         then sql_lease_loop c policy idle now max_items secs due counts leased rows
         else
          (let updated = leased_job job now secs;
               rows' = sql_update c rows updated;
               counts' = counts(jb_kind job := counts (jb_kind job) + 1);
               leased' = leased @ [updated]
           in if int (length leased') \<ge> max_items then (leased', rows')
              else sql_lease_loop c policy idle now max_items secs due counts' leased' rows'))"

definition sql_lease_due ::
  "'p job_codec \<Rightarrow> job_table \<Rightarrow> datetime \<Rightarrow> int \<Rightarrow> seconds \<Rightarrow> queue_policy option \<Rightarrow> bool
     \<Rightarrow> (job_error + 'p job_record list) \<times> job_table" where
  "sql_lease_due c rows now max_items lease_seconds policy idle_available =
     (if max_items \<le> 0 then (Inr [], rows)
      else case sql_select_due c rows now (if policy \<noteq> None then None else Some max_items) of
        Inl e \<Rightarrow> (Inl e, rows)
      | Inr records \<Rightarrow>
          (case sql_leased_counts rows now of
             Inl e \<Rightarrow> (Inl e, rows)
           | Inr counts \<Rightarrow>
              (let (leased, rows') = sql_lease_loop c policy idle_available now max_items lease_seconds
                                       records counts [] rows
               in (Inr leased, rows'))))"

definition sql_is_backlog_pending :: "'p job_record \<Rightarrow> datetime \<Rightarrow> bool" where
  "sql_is_backlog_pending job now \<longleftrightarrow>
     (jb_status job = JS_PENDING \<or>
      jb_status job = JS_LEASED \<and> (case jb_leased_until job of None \<Rightarrow> False | Some t \<Rightarrow> t \<le> now)) \<and>
     jb_not_before job \<le> now"

definition sql_oldest_pending_age_seconds :: "'p job_record list \<Rightarrow> datetime \<Rightarrow> seconds option" where
  "sql_oldest_pending_age_seconds jobs now =
     (case map jb_created_at
             (filter (\<lambda>j. (jb_status j = JS_FAILED_RETRYABLE \<or> sql_is_backlog_pending j now) \<and>
                jb_not_before j \<le> now) jobs) of
        [] \<Rightarrow> None
      | t # ts \<Rightarrow> Some (total_seconds (now - fold min ts t)))"

definition sql_kind_metrics :: "job_kind \<Rightarrow> 'p job_record list \<Rightarrow> datetime \<Rightarrow> kind_metrics" where
  "sql_kind_metrics kind jobs now =
     (let kind_jobs = filter (\<lambda>j. jb_kind j = kind) jobs
      in \<lparr>km_kind = kind,
          km_pending = length (filter (\<lambda>j. sql_is_backlog_pending j now) kind_jobs),
          km_leased = length (filter (\<lambda>j. active_lease j now) kind_jobs),
          km_succeeded = status_count kind_jobs JS_SUCCEEDED,
          km_failed_retryable = status_count kind_jobs JS_FAILED_RETRYABLE,
          km_failed_permanent = status_count kind_jobs JS_FAILED_PERMANENT,
          km_cancelled = status_count kind_jobs JS_CANCELLED,
          km_oldest_pending_age_seconds = sql_oldest_pending_age_seconds kind_jobs now\<rparr>)"

definition sql_collect_metrics :: "'p job_codec \<Rightarrow> job_table \<Rightarrow> datetime \<Rightarrow> job_error + queue_metrics" where
  "sql_collect_metrics c rows now =
     (case sql_select_all c rows of
        Inl e \<Rightarrow> Inl e
      | Inr records \<Rightarrow>
          (let per_kind = map (\<lambda>kind. sql_kind_metrics kind records now) (sorted_kinds records)
           in Inr \<lparr>qm_generated_at = now,
                   qm_queue_depth = sum_list (map km_queue_depth per_kind),
                   qm_leased = sum_list (map km_leased per_kind),
                   qm_succeeded = sum_list (map km_succeeded per_kind),
                   qm_failed_retryable = sum_list (map km_failed_retryable per_kind),
                   qm_failed_permanent = sum_list (map km_failed_permanent per_kind),
                   qm_cancelled = sum_list (map km_cancelled per_kind),
                   qm_oldest_pending_age_seconds = sql_oldest_pending_age_seconds records now,
                   qm_per_kind = per_kind\<rparr>))"

definition sql_update_job ::
  "'p job_codec \<Rightarrow> job_table \<Rightarrow> string \<Rightarrow> ('p job_record \<Rightarrow> job_update) \<Rightarrow> (job_error + unit) \<times> job_table" where
  "sql_update_job c rows job_id u =
     (case sql_require c rows job_id of
        Inl e \<Rightarrow> (Inl e, rows)
      | Inr job \<Rightarrow> (Inr (), sql_update c rows (replace_job job (u job))))"

definition sql_update_terminal ::
  "'p job_codec \<Rightarrow> job_table \<Rightarrow> string \<Rightarrow> job_status \<Rightarrow> datetime \<Rightarrow> string option
     \<Rightarrow> (job_error + unit) \<times> job_table" where
  "sql_update_terminal c rows job_id status updated_at error =
     sql_update_job c rows job_id (\<lambda>_. (plain_job_update status updated_at)\<lparr>ju_last_error := error\<rparr>)"

definition sql_defer_leased ::
  "'p job_codec \<Rightarrow> job_table \<Rightarrow> string \<Rightarrow> datetime \<Rightarrow> string \<Rightarrow> (job_error + unit) \<times> job_table" where
  "sql_defer_leased c rows job_id deferred_until reason =
     sql_update_job c rows job_id (\<lambda>_. (plain_job_update JS_PENDING deferred_until)
       \<lparr>ju_not_before := Some deferred_until, ju_defer_reason := Some reason\<rparr>)"

definition sql_mark_retryable_failure ::
  "'p job_codec \<Rightarrow> job_table \<Rightarrow> string \<Rightarrow> datetime \<Rightarrow> string \<Rightarrow> datetime \<Rightarrow> (job_error + unit) \<times> job_table" where
  "sql_mark_retryable_failure c rows job_id failed_at reason retry_after =
     sql_update_job c rows job_id (\<lambda>job.
       let attempts = jb_attempts job + 1
       in (plain_job_update (retry_failure_status attempts (jb_max_attempts job)) failed_at)
            \<lparr>ju_attempts := Some attempts, ju_not_before := Some retry_after,
             ju_last_error := Some reason\<rparr>)"

definition sql_get_required :: "'p job_codec \<Rightarrow> job_table \<Rightarrow> string \<Rightarrow> job_error + 'p job_record" where
  "sql_get_required c rows job_id = sql_require c rows job_id"

end
