(* ===== verification/Job_Codec.thy ===== *)
theory Job_Codec
  imports Hints_Codec Job_Queue_Sqlite
begin

text \<open>
  A concrete codec for jobs with a text payload. It stands in for pydantic's JSON rendering and shows
  that the codec hypothesis of the durable queue can be met; no property depends on this rendering.
\<close>

definition put_rat :: "rat \<Rightarrow> string" where
  "put_rat r = put_int (fst (quotient_of r)) @ put_int (snd (quotient_of r))"

definition take_rat :: "string \<Rightarrow> (rat \<times> string) option" where
  "take_rat s =
     (case take_int s of None \<Rightarrow> None | Some (n, r) \<Rightarrow>
      case take_int r of None \<Rightarrow> None | Some (d, r') \<Rightarrow> Some (of_int n / of_int d, r'))"

lemma take_put_rat [simp]: "take_rat (put_rat x @ rest) = Some (x, rest)"
  using quotient_of_div [of x "fst (quotient_of x)" "snd (quotient_of x)"]
  by (simp add: take_rat_def put_rat_def)

fun put_pairs :: "(string \<times> string) list \<Rightarrow> string" where
  "put_pairs [] = ''.''"
| "put_pairs ((k, v) # kvs) = CHR '','' # put_text k @ put_text v @ put_pairs kvs"

fun take_pairs :: "nat \<Rightarrow> string \<Rightarrow> ((string \<times> string) list \<times> string) option" where
  "take_pairs (Suc n) (ch # s) =
     (if ch = CHR ''.'' then Some ([], s) else
      case take_text s of None \<Rightarrow> None | Some (k, r) \<Rightarrow>
      case take_text r of None \<Rightarrow> None | Some (v, r') \<Rightarrow>
      case take_pairs n r' of None \<Rightarrow> None | Some (kvs, r'') \<Rightarrow> Some ((k, v) # kvs, r''))"
| "take_pairs _ _ = None"

lemma take_put_pairs: "length kvs < n \<Longrightarrow> take_pairs n (put_pairs kvs @ rest) = Some (kvs, rest)"
proof (induction kvs arbitrary: n)
  case Nil
  then show ?case by (cases n) auto
next
  case (Cons kv kvs)
  then show ?case by (cases n; cases kv) auto
qed

lemma put_pairs_length: "length kvs < length (put_pairs kvs)"
  by (induction kvs rule: put_pairs.induct) auto

lemma take_put_all_pairs [simp]:
  "take_pairs (length (put_pairs kvs @ rest)) (put_pairs kvs @ rest) = Some (kvs, rest)"
  using put_pairs_length [of kvs] by (intro take_put_pairs) simp

definition all_call_kinds :: "model_call_kind list" where
  "all_call_kinds = [LARGE_LLM, SMALL_CLASSIFIER, EMBEDDING, RERANKER, BACKGROUND_LLM]"

definition all_call_sites :: "model_call_site list" where
  "all_call_sites =
     [USER_RESPONSE_HOT_PATH, EVENT_REACTION, PROACTIVE, MEMORY_EXTRACTION_SITE, REFLECTION_SITE,
      RELATIONSHIP_UPDATE_SITE, INTERACTION_POLICY_CANDIDATE_SITE, RUNTIME_LEARNING_HOOK]"

definition put_member :: "'a list \<Rightarrow> 'a \<Rightarrow> string" where
  "put_member xs x = put_int (int (length (takeWhile (\<lambda>y. y \<noteq> x) xs)))"

definition take_member :: "'a list \<Rightarrow> string \<Rightarrow> ('a \<times> string) option" where
  "take_member xs s =
     (case take_int s of None \<Rightarrow> None | Some (i, r) \<Rightarrow> Some (xs ! nat i, r))"

lemma take_put_member [simp]: "x \<in> set xs \<Longrightarrow> take_member xs (put_member xs x @ rest) = Some (x, rest)"
proof -
  assume "x \<in> set xs"
  then have "length (takeWhile (\<lambda>y. y \<noteq> x) xs) < length xs"
    by (induction xs) auto
  then have "xs ! length (takeWhile (\<lambda>y. y \<noteq> x) xs) = x"
    using nth_length_takeWhile [of "\<lambda>y. y \<noteq> x" xs] by simp
  then show ?thesis by (simp add: take_member_def put_member_def)
qed

lemma call_enums [simp]: "k \<in> set all_call_kinds" "s \<in> set all_call_sites"
  by (cases k; simp add: all_call_kinds_def) (cases s; simp add: all_call_sites_def)

definition put_descriptor :: "model_call_descriptor \<Rightarrow> string" where
  "put_descriptor d =
     put_member all_call_kinds (md_call_kind d) @ put_member all_call_sites (md_call_site d) @
     put_opt (md_model_slot d) @ put_opt (md_model_name d) @ put_rat (md_confidence d) @
     put_member [True, False] (md_high_risk d) @ put_member [True, False] (md_uncertain d) @
     put_pairs (md_metadata d)"

definition take_descriptor :: "string \<Rightarrow> (model_call_descriptor \<times> string) option" where
  "take_descriptor s =
     (case take_member all_call_kinds s of None \<Rightarrow> None | Some (kind, s) \<Rightarrow>
      case take_member all_call_sites s of None \<Rightarrow> None | Some (site, s) \<Rightarrow>
      case take_opt s of None \<Rightarrow> None | Some (slot, s) \<Rightarrow>
      case take_opt s of None \<Rightarrow> None | Some (name, s) \<Rightarrow>
      case take_rat s of None \<Rightarrow> None | Some (conf, s) \<Rightarrow>
      case take_member [True, False] s of None \<Rightarrow> None | Some (risk, s) \<Rightarrow>
      case take_member [True, False] s of None \<Rightarrow> None | Some (unc, s) \<Rightarrow>
      case take_pairs (length s) s of None \<Rightarrow> None | Some (meta, s) \<Rightarrow>
        Some (\<lparr>md_call_kind = kind, md_call_site = site, md_model_slot = slot, md_model_name = name,
               md_confidence = conf, md_high_risk = risk, md_uncertain = unc, md_metadata = meta\<rparr>, s))"

lemma take_put_descriptor [simp]: "take_descriptor (put_descriptor d @ rest) = Some (d, rest)"
  by (simp add: take_descriptor_def put_descriptor_def del: length_append)

definition put_profile :: "resource_profile \<Rightarrow> string" where
  "put_profile p =
     put_member [True, False] (rp_uses_llm p) @ put_member [True, False] (rp_idle_only p) @
     (case rp_model_call_descriptor p of None \<Rightarrow> ''n'' | Some d \<Rightarrow> ''s'' @ put_descriptor d)"

definition take_profile :: "string \<Rightarrow> resource_profile option" where
  "take_profile s =
     (case take_member [True, False] s of None \<Rightarrow> None | Some (llm, s) \<Rightarrow>
      case take_member [True, False] s of None \<Rightarrow> None | Some (idle, s) \<Rightarrow>
      case (if s = ''n'' then Some None else map_option (\<lambda>x. Some (fst x)) (take_descriptor (tl s))) of
        None \<Rightarrow> None
      | Some d \<Rightarrow> Some \<lparr>rp_uses_llm = llm, rp_idle_only = idle, rp_model_call_descriptor = d\<rparr>)"

lemma take_put_profile [simp]: "take_profile (put_profile p) = Some p"
  using take_put_descriptor [where rest = "[]"]
  by (cases p) (auto simp: take_profile_def put_profile_def simp del: take_put_descriptor split: option.split)

definition plain_job_codec :: "string job_codec" where
  "plain_job_codec =
     \<lparr>jc_type = (\<lambda>_. PT_DEFERRED_LEARNING), jc_dump = put_text,
      jc_load = (\<lambda>_ s. map_option fst (take_text s)),
      jc_profile_dump = put_profile, jc_profile_load = take_profile\<rparr>"

lemma plain_job_codec_ok: "job_codec_ok plain_job_codec"
  using take_put_text [where rest = "[]"] by (simp add: job_codec_ok_def plain_job_codec_def)

end
