(* ===== verification/Job_Props.thy ===== *)
theory Job_Props
  imports Job_Lease
begin

text \<open>
  Properties of the background job queue: what a lease takes, the concurrency limits, backpressure
  on enqueue, retry backoff, and what the metrics count.
\<close>

section \<open>Leases\<close>


text \<open>
  C20. Concurrency limits hold. When a lease of at least a microsecond is taken under a policy, the
  number of active leases of every kind afterwards is at most its limit, or what it already was; and
  the queue invariant is kept.
\<close>

theorem job_concurrency_bounded:
  assumes "job_queue_inv q" and "1 / 1000000 \<le> secs"
  shows "int (leased_counts (dict_values (jq_jobs (snd (job_lease_due q now m secs (Some policy) idle)))) now k)
      \<le> max (int (leased_counts (dict_values (jq_jobs q)) now k))
            (kp_concurrency_limit (for_kind policy k)) \<and>
    job_queue_inv (snd (job_lease_due q now m secs (Some policy) idle))"
proof
  let ?js = "picked_jobs q now m (Some policy) idle"
  note facts = picked_jobs_facts [OF assms(1) refl, of now m "Some policy" idle]
  have "leased_counts (dict_values (lease_jobs now secs ?js (jq_jobs q))) now k =
      leased_counts (dict_values (jq_jobs q)) now k + kind_count k ?js"
    by (rule leased_counts_lease_jobs) (use facts assms(2) in \<open>auto simp: eligible_def\<close>)
  moreover have "kind_limit (Some policy) k = Some (kp_concurrency_limit (for_kind policy k))"
    by (simp add: kind_limit_def)
  from pick_jobs_limit [OF this, of "leased_counts (dict_values (jq_jobs q)) now" idle now "nat m" "job_snapshot q"]
  have "int (leased_counts (dict_values (jq_jobs q)) now k + kind_count k ?js)
      \<le> max (int (leased_counts (dict_values (jq_jobs q)) now k)) (kp_concurrency_limit (for_kind policy k))"
    by (simp add: picked_jobs_def)
  ultimately show "int (leased_counts (dict_values (jq_jobs (snd (job_lease_due q now m secs (Some policy) idle)))) now k)
      \<le> max (int (leased_counts (dict_values (jq_jobs q)) now k)) (kp_concurrency_limit (for_kind policy k))"
    by (simp add: job_lease_due_eq)
qed (rule job_lease_due_inv [OF assms(1)])

section \<open>Enqueue\<close>

lemma store_job_new:
  assumes "job_queue_inv q" and "find_existing job (jq_jobs q) = None"
  shows "backlog_count (dict_values (jq_jobs (store_job q job))) k now =
    backlog_count (dict_values (jq_jobs q)) k now +
      (if jb_kind job = k \<and> (is_backlog_pending job now \<or> jb_status job = JS_FAILED_RETRYABLE) then 1 else 0)"
proof -
  have "job_at q (jb_job_id job) = None" using find_existing_None [OF assms] by blast
  then show ?thesis
    unfolding backlog_count_def store_job_def
    using dict_count_set_new [of "jq_jobs q" "jb_job_id job"
        "\<lambda>j. jb_kind j = k \<and> (is_backlog_pending j now \<or> jb_status j = JS_FAILED_RETRYABLE)" job]
    by (simp add: dict_count_def)
qed

lemma deferred_not_backlog:
  "jb_status job \<noteq> JS_FAILED_RETRYABLE \<Longrightarrow> now < t \<Longrightarrow>
     \<not> is_backlog_pending (defer_job_record job t r) now \<and>
     jb_status (defer_job_record job t r) \<noteq> JS_FAILED_RETRYABLE"
  by (simp add: is_backlog_pending_def is_leaseable_def defer_job_record_def Let_def)

text \<open>
  C21. Backpressure on enqueue. A job whose id or idempotency key is known is answered with the
  stored job and nothing changes. Otherwise the answer follows the policy of its kind: with no
  pressure, or in accept mode, the job is stored as given; in reject mode it is not stored; in defer
  mode it is stored with the due time moved past the present. Unless the mode is accept, an enqueue
  of a fresh job never takes the backlog of its kind above the limit.
\<close>

theorem enqueue_with_policy_spec:
  assumes "job_queue_inv q" and "kp = for_kind policy (jb_kind job)"
    and "1 / 1000000 \<le> kp_defer_seconds_when_saturated kp" and "jb_status job = JS_PENDING"
    and "enqueue_with_policy q job now policy idle = (res, q')"
  shows "job_queue_inv q' \<and>
    (\<exists>r. res = Inr r \<and>
      (case find_existing job (jq_jobs q) of
         Some j \<Rightarrow> er_decision r = ED_EXISTING \<and> er_record r = Some j \<and> q' = q
       | None \<Rightarrow>
         (case (evaluate_enqueue_backpressure job (dict_values (jq_jobs q)) now kp idle, kp_backpressure_mode kp) of
            (Some reason, BM_REJECT) \<Rightarrow> er_decision r = ED_REJECTED \<and> er_reason r = Some reason \<and> q' = q
          | (Some reason, BM_DEFER) \<Rightarrow>
              er_decision r = ED_DEFERRED \<and>
              (\<exists>t > now. q' = store_job q (defer_job_record job t reason))
          | _ \<Rightarrow> er_decision r = ED_ACCEPTED \<and> q' = store_job q job))) \<and>
    (kp_backpressure_mode kp \<noteq> BM_ACCEPT \<longrightarrow>
       int (backlog_count (dict_values (jq_jobs q')) (jb_kind job) now)
         \<le> max (int (backlog_count (dict_values (jq_jobs q)) (jb_kind job) now)) (kp_max_pending_jobs kp))"
proof (cases "find_existing job (jq_jobs q)")
  case (Some j)
  with assms(1,5) show ?thesis by (auto simp: enqueue_with_policy_def existing_job_total)
next
  case None
  let ?reason = "evaluate_enqueue_backpressure job (dict_values (jq_jobs q)) now kp idle"
  let ?t = "now + timedelta_seconds (kp_defer_seconds_when_saturated kp)"
  have t: "now < ?t" using timedelta_seconds_pos [OF assms(3)] by simp
  have inv': "job_queue_inv q'"
    using enqueue_with_policy_inv [OF assms(1), of job now policy idle] assms(5) by simp
  have ok: "int (backlog_count (dict_values (jq_jobs q)) (jb_kind job) now) < kp_max_pending_jobs kp"
    if "?reason = None"
    using that by (auto simp: evaluate_enqueue_backpressure_def split: if_splits)
  note new = store_job_new [OF assms(1) None, of "jb_kind job" now]
  have new_defer: "backlog_count (dict_values (jq_jobs (store_job q (defer_job_record job ?t r)))) (jb_kind job) now =
      backlog_count (dict_values (jq_jobs q)) (jb_kind job) now" for r
    using store_job_new [OF assms(1), of "defer_job_record job ?t r" "jb_kind job" now] None
      deferred_not_backlog [of job now ?t r] t assms(4) by simp
  have ex: "\<exists>t>now. store_job q (defer_job_record job ?t r) = store_job q (defer_job_record job t r)" for r
    using t by blast
  show ?thesis
    using assms(1,2,5) None inv' ex new new_defer ok
    by (cases ?reason; cases "kp_backpressure_mode kp")
      (auto simp: enqueue_with_policy_def existing_job_total Let_def split: if_splits)
qed

section \<open>Retry backoff\<close>

lemma repeat_double_pow: "repeat_double n m = m * 2 ^ n"
  by (induction n arbitrary: m) auto

lemma first_error_None: "first_error cs = None \<longleftrightarrow> (\<forall>c\<in>set cs. c = None)"
  by (induction cs) (auto split: option.splits)

text \<open>
  Retry backoff. For a policy that passes its own validation, the delay before retry \<open>n\<close> is the
  base doubled \<open>n\<close> times and capped: it lies between base and maximum, never decreases with the
  number of attempts, and a negative number of attempts is refused.
\<close>

theorem retry_delay_bounds:
  assumes "kind_policy_post_init p = None" and "0 \<le> n" and "n \<le> n'"
  shows "\<exists>d d'. retry_delay_seconds p n = Inr d \<and> retry_delay_seconds p n' = Inr d' \<and>
    d = min (kp_retry_backoff_base_seconds p * 2 ^ nat n) (kp_retry_backoff_max_seconds p) \<and>
    kp_retry_backoff_base_seconds p \<le> d \<and> d \<le> d' \<and> d' \<le> kp_retry_backoff_max_seconds p \<and>
    (\<forall>i < 0. \<exists>msg. retry_delay_seconds p i = Inl msg)"
proof -
  have base: "0 < kp_retry_backoff_base_seconds p"
    and le: "kp_retry_backoff_base_seconds p \<le> kp_retry_backoff_max_seconds p"
    using assms(1) by (auto simp: kind_policy_post_init_def first_error_None require_positive_def split: if_splits)
  have "(2::rat) ^ nat n \<le> 2 ^ nat n'" using assms(3) by (intro power_increasing) auto
  then have mono: "kp_retry_backoff_base_seconds p * 2 ^ nat n \<le> kp_retry_backoff_base_seconds p * 2 ^ nat n'"
    using base by (intro mult_left_mono) auto
  have "(1::rat) \<le> 2 ^ nat n" by simp
  then have "kp_retry_backoff_base_seconds p * 1 \<le> kp_retry_backoff_base_seconds p * 2 ^ nat n"
    using base by (intro mult_left_mono) auto
  with mono le assms(2,3) show ?thesis
    by (auto simp: retry_delay_seconds_def repeat_double_pow Let_def)
qed

section \<open>Metrics\<close>

lemma kind_sum:
  assumes "distinct ks" and "\<And>j. j \<in> set js \<Longrightarrow> jb_kind j \<in> set ks"
  shows "sum_list (map (\<lambda>k. length (filter (\<lambda>j. jb_kind j = k \<and> P j) js)) ks) = length (filter P js)"
  using assms(2)
proof (induction js)
  case Nil
  then show ?case by simp
next
  case (Cons j js)
  have "sum_list (map (\<lambda>k. length (filter (\<lambda>x. jb_kind x = k \<and> P x) (j # js))) ks) =
      sum_list (map (\<lambda>k. (if jb_kind j = k \<and> P j then 1 else 0) +
        length (filter (\<lambda>x. jb_kind x = k \<and> P x) js)) ks)"
    by (intro arg_cong [of _ _ sum_list] map_cong) auto
  also have "\<dots> = sum_list (map (\<lambda>k. if jb_kind j = k \<and> P j then 1 else 0) ks) +
      sum_list (map (\<lambda>k. length (filter (\<lambda>x. jb_kind x = k \<and> P x) js)) ks)"
    by (simp add: sum_list_addf)
  also have "sum_list (map (\<lambda>k. if jb_kind j = k \<and> P j then 1 else 0) ks) = (if P j then 1 else (0::nat))"
    using Cons.prems [of j] assms(1) by (auto simp: sum_list_distinct_conv_sum_set)
  finally show ?case using Cons by simp
qed

lemma filter_kind: "filter P (filter (\<lambda>j. jb_kind j = k) js) = filter (\<lambda>j. jb_kind j = k \<and> P j) js"
  by (simp add: conj_commute)

lemma sorted_kinds_facts: "distinct (sorted_kinds js)" "set (sorted_kinds js) = jb_kind ` set js"
  by (simp_all add: sorted_kinds_def)

lemma metrics_totals:
  "qm_succeeded (metrics_from_jobs js now) = status_count js JS_SUCCEEDED"
  "qm_failed_retryable (metrics_from_jobs js now) = status_count js JS_FAILED_RETRYABLE"
  "qm_failed_permanent (metrics_from_jobs js now) = status_count js JS_FAILED_PERMANENT"
  "qm_cancelled (metrics_from_jobs js now) = status_count js JS_CANCELLED"
  "qm_leased (metrics_from_jobs js now) = length (filter (\<lambda>j. active_lease j now) js)"
  "qm_queue_depth (metrics_from_jobs js now) =
     length (filter (\<lambda>j. is_backlog_pending j now) js) + status_count js JS_FAILED_RETRYABLE"
proof -
  note sum = kind_sum [OF sorted_kinds_facts(1) [of js], of js]
  have "jb_kind j \<in> set (sorted_kinds js)" if "j \<in> set js" for j
    using that by (simp add: sorted_kinds_facts)
  note sum = sum [OF this]
  show "qm_succeeded (metrics_from_jobs js now) = status_count js JS_SUCCEEDED"
    "qm_failed_retryable (metrics_from_jobs js now) = status_count js JS_FAILED_RETRYABLE"
    "qm_failed_permanent (metrics_from_jobs js now) = status_count js JS_FAILED_PERMANENT"
    "qm_cancelled (metrics_from_jobs js now) = status_count js JS_CANCELLED"
    "qm_leased (metrics_from_jobs js now) = length (filter (\<lambda>j. active_lease j now) js)"
    "qm_queue_depth (metrics_from_jobs js now) =
       length (filter (\<lambda>j. is_backlog_pending j now) js) + status_count js JS_FAILED_RETRYABLE"
    by (simp_all add: metrics_from_jobs_def kind_metrics_of_def status_count_def km_queue_depth_def
        backlog_pending_count_def filter_kind o_def Let_def sum_list_addf sum del: filter_filter)
qed

text \<open>Jobs no metric counts: waiting for their due time, or leased without an end.\<close>

definition uncounted :: "'p job_record \<Rightarrow> datetime \<Rightarrow> bool" where
  "uncounted j now \<longleftrightarrow>
     jb_status j = JS_PENDING \<and> now < jb_not_before j \<or>
     jb_status j = JS_LEASED \<and> \<not> active_lease j now \<and> (now < jb_not_before j \<or> jb_leased_until j = None)"

lemma job_counted_once:
  "of_bool (is_backlog_pending j now) + of_bool (jb_status j = JS_FAILED_RETRYABLE) +
   of_bool (active_lease j now) + of_bool (jb_status j = JS_SUCCEEDED) +
   of_bool (jb_status j = JS_FAILED_PERMANENT) + of_bool (jb_status j = JS_CANCELLED) +
   of_bool (uncounted j now) = (1::nat)"
  by (cases "jb_status j"; cases "jb_leased_until j")
    (auto simp: is_backlog_pending_def is_leaseable_def active_lease_def uncounted_def
      QUEUE_DEPTH_STATUSES_def Let_def)

lemma job_partition:
  "length (filter (\<lambda>j. is_backlog_pending j now) js) + status_count js JS_FAILED_RETRYABLE +
   length (filter (\<lambda>j. active_lease j now) js) + status_count js JS_SUCCEEDED +
   status_count js JS_FAILED_PERMANENT + status_count js JS_CANCELLED +
   length (filter (\<lambda>j. uncounted j now) js) = length js"
proof (induction js)
  case Nil
  then show ?case by (simp add: status_count_def)
next
  case (Cons j js)
  have len: "length (filter P (j # js)) = of_bool (P j) + length (filter P js)" for P by simp
  show ?case
    using Cons job_counted_once [of j now] unfolding status_count_def len by simp
qed

text \<open>
  What the metrics count. The totals over the kinds are the totals over the jobs; and the number
  called non-terminal, with the three terminal counts, accounts for every job except those that wait
  for a due time in the future and leases without an end: unfinished jobs that are waiting are not
  counted as non-terminal.
\<close>

theorem queue_metrics_account:
  "qm_non_terminal (job_collect_metrics q now) + qm_succeeded (job_collect_metrics q now) +
   qm_failed_permanent (job_collect_metrics q now) + qm_cancelled (job_collect_metrics q now) +
   length (filter (\<lambda>j. uncounted j now) (dict_values (jq_jobs q))) = length (dict_values (jq_jobs q)) \<and>
   qm_leased (job_collect_metrics q now) = length (filter (\<lambda>j. active_lease j now) (dict_values (jq_jobs q))) \<and>
   qm_succeeded (job_collect_metrics q now) = status_count (dict_values (jq_jobs q)) JS_SUCCEEDED \<and>
   qm_failed (job_collect_metrics q now) =
     status_count (dict_values (jq_jobs q)) JS_FAILED_RETRYABLE +
     status_count (dict_values (jq_jobs q)) JS_FAILED_PERMANENT"
  using job_partition [of now "dict_values (jq_jobs q)"]
  by (simp add: job_collect_metrics_def qm_non_terminal_def qm_failed_def metrics_totals)

section \<open>Concrete queues\<close>

definition example_profile :: resource_profile where
  "example_profile = \<lparr>rp_uses_llm = False, rp_idle_only = False, rp_model_call_descriptor = None\<rparr>"

definition example_job :: "string \<Rightarrow> string job_record" where
  "example_job i =
     \<lparr>jb_job_id = i, jb_kind = MEMORY_EXTRACTION, jb_payload = ''p'', jb_status = JS_PENDING,
      jb_attempts = 0, jb_max_attempts = 3, jb_not_before = 0, jb_resource_profile = example_profile,
      jb_leased_until = None, jb_idempotency_key = ''key:'' @ i, jb_created_at = 0, jb_updated_at = 0,
      jb_last_error = None, jb_defer_reason = None\<rparr>"

definition example_kind_policy :: kind_policy where
  "example_kind_policy =
     \<lparr>kp_concurrency_limit = 1, kp_timeout_seconds = 30, kp_max_pending_jobs = 1,
      kp_retry_backoff_base_seconds = 30, kp_retry_backoff_max_seconds = 1800,
      kp_defer_seconds_when_saturated = 30, kp_backpressure_mode = BM_DEFER, kp_uses_llm = False,
      kp_idle_only = False\<rparr>"

definition example_policy :: queue_policy where
  "example_policy = \<lparr>qp_default_policy = example_kind_policy, qp_per_kind = []\<rparr>"

definition example_queue :: "string job_queue" where
  "example_queue = snd (job_enqueue (snd (job_enqueue job_queue_init (example_job ''a''))) (example_job ''b''))"

lemma example_queue_inv: "job_queue_inv example_queue"
  unfolding example_queue_def by (intro job_enqueue_inv job_queue_inv_init)

lemma example_queue_jobs: "jq_jobs example_queue = [(''a'', example_job ''a''), (''b'', example_job ''b'')]"
  by (simp add: example_queue_def job_enqueue_def existing_job_def job_queue_init_def store_job_def example_job_def)

text \<open>Two due jobs of one kind under a limit of one: a request for five gets one.\<close>

lemma example_lease:
  "job_lease_due example_queue 10 5 30 (Some example_policy) False =
     ([leased_job (example_job ''a'') 10 30], snd (job_lease_due example_queue 10 5 30 (Some example_policy) False))"
  by (simp add: job_lease_due_def example_queue_jobs dict_values_def job_order_def example_job_def
      is_leaseable_def QUEUE_DEPTH_STATUSES_def requires_idle_def for_kind_def example_policy_def
      example_kind_policy_def example_profile_def leased_counts_def active_lease_def Let_def)


lemma job_concurrency_bounded_witness:
  "int (leased_counts (dict_values (jq_jobs (snd (job_lease_due example_queue 10 5 30 (Some example_policy) False))))
     10 MEMORY_EXTRACTION) \<le> 1"
proof -
  have "(1 / 1000000 :: rat) \<le> 30" by simp
  from job_concurrency_bounded [OF example_queue_inv this, of 10 5 example_policy False MEMORY_EXTRACTION]
  show ?thesis
    by (simp add: example_queue_jobs dict_values_def leased_counts_def active_lease_def example_job_def
        for_kind_def example_policy_def example_kind_policy_def)
qed

lemma example_pressure:
  "fst (enqueue_with_policy example_queue (example_job ''c'') 10 example_policy False) =
     Inr \<lparr>er_decision = ED_DEFERRED,
          er_record = Some (defer_job_record (example_job ''c'') 30000010 MAX_PENDING_JOBS),
          er_reason = Some MAX_PENDING_JOBS, er_deferred_until = Some 30000010\<rparr>"
  using existing_job_total [OF example_queue_inv, of "example_job ''c''"]
  by (simp add: enqueue_with_policy_def find_existing_def example_queue_jobs dict_values_def for_kind_def
      evaluate_enqueue_backpressure_def backlog_count_def retryable_count_def is_backlog_pending_def
      is_leaseable_def example_job_def QUEUE_DEPTH_STATUSES_def example_policy_def example_kind_policy_def
      example_profile_def timedelta_seconds_def round_half_even_def Let_def)

lemma enqueue_with_policy_spec_witness:
  "int (backlog_count (dict_values (jq_jobs (snd (enqueue_with_policy example_queue (example_job ''c'') 10
      example_policy False)))) MEMORY_EXTRACTION 10) \<le> 2"
proof -
  obtain res q' where res: "enqueue_with_policy example_queue (example_job ''c'') 10 example_policy False = (res, q')"
    by fastforce
  have kp: "example_kind_policy = for_kind example_policy (jb_kind (example_job ''c''))"
    by (simp add: for_kind_def example_policy_def)
  have "(1 / 1000000 :: rat) \<le> kp_defer_seconds_when_saturated example_kind_policy"
    by (simp add: example_kind_policy_def)
  from enqueue_with_policy_spec [OF example_queue_inv kp this _ res] res show ?thesis
    by (simp add: example_kind_policy_def example_job_def example_queue_jobs backlog_count_def
        dict_values_def is_backlog_pending_def is_leaseable_def QUEUE_DEPTH_STATUSES_def Let_def)
qed

lemma retry_delay_bounds_witness:
  "retry_delay_seconds example_kind_policy 2 = Inr 120 \<and> retry_delay_seconds example_kind_policy 9 = Inr 1800"
proof -
  have "kind_policy_post_init example_kind_policy = None"
    by (simp add: kind_policy_post_init_def require_positive_def example_kind_policy_def)
  from retry_delay_bounds [OF this, of 2 2] retry_delay_bounds [OF this, of 9 9] show ?thesis
    by (auto simp: example_kind_policy_def)
qed

end
