(* ===== verification/Job_Queue_Equiv.thy ===== *)
theory Job_Queue_Equiv
  imports Job_Codec Job_Props "HOL-Library.Multiset"
begin

text \<open>
  The durable queue implements the in-memory queue: a table and a queue that hold the same jobs stay
  so under every operation and answer alike. The abstraction decodes every row.
\<close>

section \<open>Rows and jobs\<close>

lemma row_to_record_to_row: "job_codec_ok c \<Longrightarrow> row_to_record c (record_to_row c j) = Inr j"
  by (auto simp: row_to_record_def record_to_row_def job_codec_ok_def payload_from_json_def
      split: option.splits)

lemma of_value_inverse:
  "job_kind_of_value s = Some k \<Longrightarrow> s = job_kind_value k"
  "job_status_of_value s = Some st \<Longrightarrow> s = job_status_value st"
  unfolding job_kind_of_value_def job_status_of_value_def find_Some_iff by blast+

lemma row_to_record_fields:
  "row_to_record c r = Inr j \<Longrightarrow>
     jb_job_id j = jr_job_id r \<and> jr_kind r = job_kind_value (jb_kind j) \<and>
     jr_status r = job_status_value (jb_status j) \<and> jb_idempotency_key j = jr_idempotency_key r \<and>
     jb_not_before j = iso_instant (jr_not_before r) \<and> jb_created_at j = iso_instant (jr_created_at r) \<and>
     jb_leased_until j = map_option iso_instant (jr_leased_until r)"
  by (auto simp: row_to_record_def text_to_datetime_def optional_datetime_def
      dest!: of_value_inverse split: option.splits)

text \<open>The fields an update statement does not write.\<close>

definition same_job :: "'p job_record \<Rightarrow> 'p job_record \<Rightarrow> bool" where
  "same_job j j' \<longleftrightarrow>
     jb_job_id j' = jb_job_id j \<and> jb_kind j' = jb_kind j \<and> jb_payload j' = jb_payload j \<and>
     jb_max_attempts j' = jb_max_attempts j \<and> jb_idempotency_key j' = jb_idempotency_key j \<and>
     jb_created_at j' = jb_created_at j"

lemma same_job_replace [simp]: "same_job j (replace_job j u)"
  by (simp add: same_job_def)

lemma same_job_leased [simp]: "same_job j (leased_job j now secs)"
  by (simp add: leased_job_def)

lemma row_to_record_update:
  assumes "job_codec_ok c" and "row_to_record c r = Inr j" and "same_job j j'"
  shows "row_to_record c (update_row c r j') = Inr j'"
  using assms
  by (auto simp: row_to_record_def update_row_def same_job_def job_codec_ok_def split: option.splits)

section \<open>The simulation relation\<close>

definition row_holds :: "'p job_codec \<Rightarrow> string \<times> job_row \<Rightarrow> string \<times> 'p job_record \<Rightarrow> bool" where
  "row_holds c ir ij \<longleftrightarrow> fst ir = fst ij \<and> row_to_record c (snd ir) = Inr (snd ij)"

definition table_sim :: "'p job_codec \<Rightarrow> job_table \<Rightarrow> 'p job_queue \<Rightarrow> bool" where
  "table_sim c rows q \<longleftrightarrow>
     job_codec_ok c \<and> job_queue_inv q \<and> list_all2 (row_holds c) rows (jq_jobs q)"

lemma sim_get:
  assumes "list_all2 (row_holds c) rows jobs"
  shows "(case dict_get rows i of
            None \<Rightarrow> dict_get jobs i = None
          | Some r \<Rightarrow> \<exists>j. dict_get jobs i = Some j \<and> row_to_record c r = Inr j)"
  using assms by (induction rule: list_all2_induct) (auto simp: row_holds_def split: if_splits option.splits)

lemma sim_set:
  assumes "list_all2 (row_holds c) rows jobs" and "row_to_record c r = Inr j"
  shows "list_all2 (row_holds c) (dict_set i r rows) (dict_set i j jobs)"
  using assms by (induction rule: list_all2_induct) (auto simp: row_holds_def)

lemma sim_values:
  "list_all2 (row_holds c) rows jobs \<Longrightarrow>
     list_all2 (\<lambda>r j. row_to_record c r = Inr j) (dict_values rows) (dict_values jobs)"
  by (induction rule: list_all2_induct) (auto simp: row_holds_def dict_values_def)

definition decode_row :: "'p job_codec \<Rightarrow> job_row \<Rightarrow> 'p job_record" where
  "decode_row c r = (case row_to_record c r of Inr j \<Rightarrow> j)"

lemma sim_decode:
  assumes "list_all2 (\<lambda>r j. row_to_record c r = Inr j) rs js"
  shows "js = map (decode_row c) rs \<and> (\<forall>r\<in>set rs. row_to_record c r = Inr (decode_row c r))"
  using assms by (induction rule: list_all2_induct) (auto simp: decode_row_def)

lemma rows_to_records_decode:
  "(\<forall>r\<in>set rs. row_to_record c r = Inr (decode_row c r)) \<Longrightarrow>
     rows_to_records c rs = Inr (map (decode_row c) rs)"
  by (induction rs) auto

lemma decode_row_order:
  "row_to_record c r = Inr (decode_row c r) \<Longrightarrow> row_order r = job_order (decode_row c r)"
  using row_to_record_fields [of c r] by (simp add: row_order_def job_order_def)

lemma decode_row_due:
  "row_to_record c r = Inr (decode_row c r) \<Longrightarrow> row_due r now = is_leaseable (decode_row c r) now"
  using row_to_record_fields [of c r]
  by (cases "jb_status (decode_row c r)"; cases "jr_leased_until r")
    (auto simp: row_due_def is_leaseable_def QUEUE_DEPTH_STATUSES_def Let_def)

section \<open>Queries\<close>

text \<open>What a simulated table gives: its decoded rows are the jobs of the queue, in the same order.\<close>

lemma table_sim_decode:
  assumes "table_sim c rows q"
  shows "dict_values (jq_jobs q) = map (decode_row c) (dict_values rows)"
    and "r \<in> set (dict_values rows) \<Longrightarrow> row_to_record c r = Inr (decode_row c r)"
  using sim_decode [OF sim_values] assms unfolding table_sim_def by blast+

lemma sorted_rows_decode:
  assumes "\<And>r. r \<in> set rs \<Longrightarrow> row_to_record c r = Inr (decode_row c r)"
  shows "map (decode_row c) (sort_key row_order rs) = sort_key job_order (map (decode_row c) rs)"
proof -
  have "sort_key row_order rs = sort_key (\<lambda>r. job_order (decode_row c r)) rs"
    using assms by (intro sort_key_cong_set decode_row_order) blast
  then show ?thesis by (simp add: map_sort_key)
qed

lemma sql_select_all_sim:
  assumes "table_sim c rows q"
  shows "sql_select_all c rows = Inr (job_snapshot q)"
proof -
  note dec = table_sim_decode [OF assms]
  have "rows_to_records c (sort_key row_order (dict_values rows)) =
      Inr (map (decode_row c) (sort_key row_order (dict_values rows)))"
    by (rule rows_to_records_decode) (simp add: dec)
  then show ?thesis
    by (simp add: sql_select_all_def job_snapshot_def dec(1) sorted_rows_decode dec(2))
qed

lemma due_rows_decode:
  assumes "table_sim c rows q"
  shows "map (decode_row c) (sort_key row_order (filter (\<lambda>r. row_due r now) (dict_values rows))) =
    filter (\<lambda>j. is_leaseable j now) (job_snapshot q)"
proof -
  note dec = table_sim_decode [OF assms]
  have "filter (\<lambda>r. row_due r now) (dict_values rows) =
      filter (\<lambda>r. is_leaseable (decode_row c r) now) (dict_values rows)"
    by (rule filter_cong) (simp_all add: dec(2) decode_row_due)
  moreover have "map (decode_row c) (sort_key row_order
        (filter (\<lambda>r. is_leaseable (decode_row c r) now) (dict_values rows))) =
      sort_key job_order (map (decode_row c) (filter (\<lambda>r. is_leaseable (decode_row c r) now) (dict_values rows)))"
    by (rule sorted_rows_decode) (simp add: dec(2))
  ultimately show ?thesis
    by (simp add: dec(1) job_snapshot_def filter_sort filter_map comp_def)
qed

lemma sql_select_due_sim:
  assumes "table_sim c rows q"
  shows "sql_select_due c rows now limit =
    Inr (let due = filter (\<lambda>j. is_leaseable j now) (job_snapshot q)
         in case limit of None \<Rightarrow> due | Some n \<Rightarrow> take (nat n) due)"
proof -
  let ?due = "sort_key row_order (filter (\<lambda>r. row_due r now) (dict_values rows))"
  have ok: "r \<in> set ?due \<Longrightarrow> row_to_record c r = Inr (decode_row c r)" for r
    using table_sim_decode(2) [OF assms] by simp
  have "rows_to_records c ?due = Inr (map (decode_row c) ?due)"
    using ok by (intro rows_to_records_decode) blast
  moreover have "rows_to_records c (take n ?due) = Inr (map (decode_row c) (take n ?due))" for n
    using ok by (intro rows_to_records_decode) (blast dest: in_set_takeD)
  ultimately show ?thesis
    by (simp add: sql_select_due_def Let_def due_rows_decode [OF assms] flip: take_map split: option.split)
qed

lemma sql_leased_counts_sim:
  assumes "table_sim c rows q"
  shows "sql_leased_counts rows now = Inr (leased_counts (dict_values (jq_jobs q)) now)"
proof -
  note dec = table_sim_decode [OF assms]
  have active: "row_actively_leased r now = active_lease (decode_row c r) now \<and>
      job_kind_of_value (jr_kind r) = Some (jb_kind (decode_row c r)) \<and>
      (jr_kind r = job_kind_value k) = (jb_kind (decode_row c r) = k)"
    if "r \<in> set (dict_values rows)" for r k
    using row_to_record_fields [OF dec(2) [OF that]]
    by (cases "jb_status (decode_row c r)") (auto simp: row_actively_leased_def active_lease_def split: option.split)
  have "length (filter (\<lambda>r. jr_kind r = job_kind_value k)
        (filter (\<lambda>r. row_actively_leased r now) (dict_values rows))) =
      leased_counts (dict_values (jq_jobs q)) now k" for k
    using active [where k = k]
    by (simp add: leased_counts_def dec(1) filter_map comp_def conj_commute cong: filter_cong)
  then show ?thesis using active by (auto simp: sql_leased_counts_def Let_def)
qed

lemma find_list_all2:
  assumes "list_all2 R xs ys" and "\<And>x y. R x y \<Longrightarrow> P x = Q y"
  shows "rel_option R (find P xs) (find Q ys)"
  using assms(1) by (induction rule: list_all2_induct) (auto simp: assms(2))

lemma sql_find_existing_sim:
  assumes "table_sim c rows q"
  shows "sql_find_existing c rows job = Inr (find_existing job (jq_jobs q))"
proof -
  have all: "list_all2 (row_holds c) rows (jq_jobs q)" using assms by (simp add: table_sim_def)
  have "rel_option (\<lambda>r j. row_to_record c r = Inr j)
      (find (\<lambda>r. jr_idempotency_key r = jb_idempotency_key job) (dict_values rows))
      (find (\<lambda>j. jb_idempotency_key j = jb_idempotency_key job) (dict_values (jq_jobs q)))"
    by (rule find_list_all2 [OF sim_values [OF all]]) (use row_to_record_fields in fastforce)
  with sim_get [OF all, of "jb_job_id job"] show ?thesis
    by (auto simp: sql_find_existing_def find_existing_def split: option.splits elim: option.rel_cases)
qed

lemma sql_require_sim:
  assumes "table_sim c rows q"
  shows "sql_require c rows i = require_job q i"
  using sim_get [of c rows "jq_jobs q" i] assms
  by (auto simp: table_sim_def sql_require_def require_job_def split: option.splits)

section \<open>Writes\<close>

lemma same_job_sym_trans: "same_job a b \<Longrightarrow> same_job a c \<Longrightarrow> same_job b c"
  by (simp add: same_job_def)

lemma sim_insert:
  assumes "job_codec_ok c" and "list_all2 (row_holds c) rows jobs"
  shows "list_all2 (row_holds c) (sql_insert c rows j) (dict_set (jb_job_id j) j jobs)"
  unfolding sql_insert_def by (rule sim_set [OF assms(2)]) (rule row_to_record_to_row [OF assms(1)])

lemma sim_update:
  assumes "job_codec_ok c" and "list_all2 (row_holds c) rows jobs"
    and "dict_get jobs (jb_job_id j') = Some j" and "same_job j j'"
  shows "list_all2 (row_holds c) (sql_update c rows j') (dict_set (jb_job_id j') j' jobs)"
proof -
  obtain r where r: "dict_get rows (jb_job_id j') = Some r" "row_to_record c r = Inr j"
    using sim_get [OF assms(2), of "jb_job_id j'"] assms(3) by (auto split: option.splits)
  then show ?thesis
    by (simp add: sql_update_def sim_set [OF assms(2)] row_to_record_update [OF assms(1) _ assms(4)])
qed

lemma table_sim_update:
  assumes "table_sim c rows q"
  shows "fst (sql_update_job c rows i u) = fst (update_job q i u) \<and>
    table_sim c (snd (sql_update_job c rows i u)) (snd (update_job q i u))"
proof (cases "job_at q i")
  case None
  with assms show ?thesis by (simp add: sql_update_job_def update_job_def sql_require_sim require_job_def)
next
  case (Some j)
  have sim: "job_codec_ok c" "job_queue_inv q" "list_all2 (row_holds c) rows (jq_jobs q)"
    using assms by (simp_all add: table_sim_def)
  have "jb_job_id j = i" using sim(2) Some by (rule job_inv_id)
  then have "list_all2 (row_holds c) (sql_update c rows (replace_job j (u j)))
      (dict_set i (replace_job j (u j)) (jq_jobs q))"
    using sim_update [OF sim(1,3), of "replace_job j (u j)" j] Some by simp
  with Some sim update_job_inv [OF sim(2), of i u] show ?thesis
    by (simp add: sql_update_job_def update_job_def sql_require_sim [OF assms] require_job_def table_sim_def)
qed

lemma table_sim_store:
  assumes "table_sim c rows q" and "find_existing job (jq_jobs q) = None"
  shows "table_sim c (sql_insert c rows job) (store_job q job)"
  using assms job_inv_store [of q job] sim_insert [of c rows "jq_jobs q" job]
  by (simp add: table_sim_def store_job_def)

lemma table_sim_enqueue:
  assumes "table_sim c rows q"
  shows "fst (sql_enqueue c rows job) = fst (job_enqueue q job) \<and>
    table_sim c (snd (sql_enqueue c rows job)) (snd (job_enqueue q job))"
proof -
  have "job_queue_inv q" using assms by (simp add: table_sim_def)
  then show ?thesis
    using assms table_sim_store [OF assms]
    by (simp add: sql_enqueue_def job_enqueue_eq sql_find_existing_sim split: option.split)
qed

lemma backpressure_snapshot:
  "evaluate_enqueue_backpressure job (job_snapshot q) now kp idle =
     evaluate_enqueue_backpressure job (dict_values (jq_jobs q)) now kp idle"
  by (simp add: evaluate_enqueue_backpressure_def backlog_count_def retryable_count_def
      leased_counts_def job_snapshot_def filter_sort)

lemma table_sim_enqueue_with_policy:
  assumes "table_sim c rows q"
  shows "fst (sql_enqueue_with_policy c rows job now policy idle) =
      fst (enqueue_with_policy q job now policy idle) \<and>
    table_sim c (snd (sql_enqueue_with_policy c rows job now policy idle))
      (snd (enqueue_with_policy q job now policy idle))"
proof (cases "find_existing job (jq_jobs q)")
  case (Some j)
  have inv: "job_queue_inv q" using assms by (simp add: table_sim_def)
  show ?thesis
    by (simp add: sql_enqueue_with_policy_def enqueue_with_policy_def sql_find_existing_sim [OF assms]
        existing_job_total [OF inv] Some assms)
next
  case None
  have inv: "job_queue_inv q" using assms by (simp add: table_sim_def)
  have store: "table_sim c (sql_insert c rows job) (store_job q job)"
    "table_sim c (sql_insert c rows (defer_job_record job t r)) (store_job q (defer_job_record job t r))" for t r
    using table_sim_store [OF assms] None by simp_all
  show ?thesis
    by (simp add: sql_enqueue_with_policy_def enqueue_with_policy_def sql_find_existing_sim [OF assms]
        existing_job_total [OF inv] None sql_select_all_sim [OF assms] backpressure_snapshot Let_def store assms)
qed

section \<open>Leasing\<close>

text \<open>The loops run alike on a due list whose jobs are stored and leaseable.\<close>

lemma sql_lease_loop_sim:
  assumes "job_codec_ok c" and "list_all2 (row_holds c) rows jobs"
    and "\<And>j. j \<in> set due \<Longrightarrow> is_leaseable j now \<and> (\<exists>j0. dict_get jobs (jb_job_id j) = Some j0 \<and> same_job j0 j)"
  shows "fst (sql_lease_loop c policy idle now m secs due counts leased rows) =
      fst (job_lease_loop policy idle now m secs due counts leased jobs) \<and>
    list_all2 (row_holds c) (snd (sql_lease_loop c policy idle now m secs due counts leased rows))
      (snd (job_lease_loop policy idle now m secs due counts leased jobs))"
  using assms(2,3)
proof (induction due arbitrary: counts leased rows jobs)
  case Nil
  then show ?case by simp
next
  case (Cons j due)
  have leaseable: "is_leaseable j now" using Cons.prems(2) by simp
  obtain j0 where j0: "dict_get jobs (jb_job_id j) = Some j0" "same_job j0 j"
    using Cons.prems(2) [of j] by auto
  let ?u = "leased_job j now secs"
  have same: "same_job j0 ?u" using j0(2) by (simp add: same_job_def leased_job_def)
  have step: "list_all2 (row_holds c) (sql_update c rows ?u) (dict_set (jb_job_id j) ?u jobs)"
    using sim_update [OF assms(1) Cons.prems(1), of ?u j0] j0 same by simp
  have stored: "is_leaseable j' now \<and>
      (\<exists>j1. dict_get (dict_set (jb_job_id j) ?u jobs) (jb_job_id j') = Some j1 \<and> same_job j1 j')"
    if j': "j' \<in> set due" for j'
  proof -
    obtain j1 where "dict_get jobs (jb_job_id j') = Some j1" "same_job j1 j'" "is_leaseable j' now"
      using Cons.prems(2) [of j'] j' by auto
    with j0 same show ?thesis by (auto simp: dict_get_set intro: same_job_sym_trans)
  qed
  have rest: "\<And>j'. j' \<in> set due \<Longrightarrow> is_leaseable j' now \<and>
      (\<exists>j1. dict_get jobs (jb_job_id j') = Some j1 \<and> same_job j1 j')"
    using Cons.prems(2) by simp
  show ?case
    using Cons.IH [OF Cons.prems(1) rest] Cons.IH [OF step stored] step leaseable
    by (cases idle) (simp_all add: Let_def)
qed

lemma job_lease_loop_filter:
  "job_lease_loop policy idle now m secs (filter (\<lambda>j. is_leaseable j now) due) counts leased jobs =
     job_lease_loop policy idle now m secs due counts leased jobs"
  by (cases idle; induction due arbitrary: counts leased jobs) (simp_all add: Let_def)

lemma pick_jobs_no_policy:
  "pick_jobs None idle now n counts due = take n (filter (eligible None idle now) due)"
proof (induction due arbitrary: n counts)
  case (Cons j due)
  then show ?case by (cases n) (simp_all add: has_room_def kind_limit_def)
qed simp

text \<open>
  Without a policy the query is cut off at \<^verbatim>\<open>max_items\<close> before the jobs that need an idle
  system are dropped, so the answer is that of the in-memory queue when the system is idle.
\<close>

lemma lease_loop_limit:
  assumes "0 < m" and "\<And>j. j \<in> set due \<Longrightarrow> is_leaseable j now"
  shows "job_lease_loop None True now m secs (take (nat m) due) counts [] jobs =
    job_lease_loop None True now m secs due counts [] jobs"
proof -
  have "filter (eligible None True now) xs = xs" if "set xs \<subseteq> set due" for xs
    using assms(2) that by (intro filter_True) (auto simp: eligible_def)
  then show ?thesis using assms(1) by (simp add: job_lease_loop_eq pick_jobs_no_policy set_take_subset)
qed

lemma sql_lease_due_loop:
  assumes "table_sim c rows q" and "0 < m"
    and due: "due = filter (\<lambda>j. is_leaseable j now) (job_snapshot q)"
    and mem: "mem = job_lease_loop policy idle now m secs (if policy \<noteq> None then due else take (nat m) due)
      (leased_counts (dict_values (jq_jobs q)) now) [] (jq_jobs q)"
  shows "\<exists>rows'. sql_lease_due c rows now m secs policy idle = (Inr (fst mem), rows') \<and>
    list_all2 (row_holds c) rows' (snd mem)"
proof -
  have sim: "job_codec_ok c" "job_queue_inv q" "list_all2 (row_holds c) rows (jq_jobs q)"
    using assms(1) by (simp_all add: table_sim_def)
  let ?taken = "if policy \<noteq> None then due else take (nat m) due"
  let ?sql = "sql_lease_loop c policy idle now m secs ?taken (leased_counts (dict_values (jq_jobs q)) now) [] rows"
  have stored: "is_leaseable j now \<and> (\<exists>j0. job_at q (jb_job_id j) = Some j0 \<and> same_job j0 j)"
    if "j \<in> set ?taken" for j
  proof -
    have "j \<in> set due" using that by (auto split: if_splits dest: in_set_takeD)
    with job_snapshot_facts [OF sim(2)] show ?thesis by (auto simp: same_job_def due)
  qed
  have "sql_lease_due c rows now m secs policy idle = (Inr (fst ?sql), snd ?sql)"
    using assms(2) by (simp add: sql_lease_due_def sql_select_due_sim [OF assms(1)] due
        sql_leased_counts_sim [OF assms(1)] Let_def case_prod_beta)
  with sql_lease_loop_sim [OF sim(1,3) stored] show ?thesis by (simp add: mem)
qed

lemma table_sim_lease_due:
  assumes "table_sim c rows q" and "policy \<noteq> None \<or> idle"
  shows "fst (sql_lease_due c rows now m secs policy idle) = Inr (fst (job_lease_due q now m secs policy idle)) \<and>
    table_sim c (snd (sql_lease_due c rows now m secs policy idle)) (snd (job_lease_due q now m secs policy idle))"
proof (cases "0 < m")
  case False
  with assms(1) show ?thesis by (simp add: sql_lease_due_def job_lease_due_def)
next
  case True
  let ?due = "filter (\<lambda>j. is_leaseable j now) (job_snapshot q)"
  let ?counts = "leased_counts (dict_values (jq_jobs q)) now"
  let ?mem = "job_lease_loop policy idle now m secs (job_snapshot q) ?counts [] (jq_jobs q)"
  have "?mem = job_lease_loop policy idle now m secs (if policy \<noteq> None then ?due else take (nat m) ?due)
      ?counts [] (jq_jobs q)"
    using assms(2) True lease_loop_limit [of m ?due now secs ?counts "jq_jobs q"]
    by (auto simp: job_lease_loop_filter)
  from sql_lease_due_loop [OF assms(1) True refl this]
  obtain rows' where rows': "sql_lease_due c rows now m secs policy idle = (Inr (fst ?mem), rows')"
    "list_all2 (row_holds c) rows' (snd ?mem)" by blast
  moreover have "job_lease_due q now m secs policy idle = (fst ?mem, q\<lparr>jq_jobs := snd ?mem\<rparr>)"
    using True by (simp add: job_lease_due_def job_snapshot_def case_prod_beta Let_def)
  ultimately show ?thesis
    using assms(1) job_lease_due_inv [of q now m secs policy idle] by (simp add: table_sim_def)
qed

text \<open>
  Without a policy and on a busy system the two backends differ: the durable queue drops the idle-only
  jobs from the first \<^verbatim>\<open>max_items\<close> due jobs, the in-memory queue takes the first
  \<^verbatim>\<open>max_items\<close> jobs that are not idle-only. Idle-only jobs at the head of the durable
  queue starve the others.
\<close>

lemma sqlite_lease_limit_before_idle_filter:
  fixes now :: datetime
  assumes "table_sim c rows q" and "0 < m"
  defines "due \<equiv> filter (\<lambda>j. is_leaseable j now) (job_snapshot q)"
    and "busy_ok \<equiv> \<lambda>j. \<not> rp_idle_only (jb_resource_profile j)"
  shows "fst (sql_lease_due c rows now m secs None False) =
      Inr (map (\<lambda>j. leased_job j now secs) (filter busy_ok (take (nat m) due)))"
    and "fst (job_lease_due q now m secs None False) =
      map (\<lambda>j. leased_job j now secs) (take (nat m) (filter busy_ok due))"
proof -
  have short: "take (nat m) (filter busy_ok (take (nat m) due)) = filter busy_ok (take (nat m) due)"
    using length_filter_le [of busy_ok "take (nat m) due"] by (intro take_all) simp
  have el: "filter (eligible None False now) xs = filter busy_ok xs" if "set xs \<subseteq> set due" for xs
    using that by (intro filter_cong) (auto simp: eligible_def requires_idle_def busy_ok_def due_def)
  show "fst (sql_lease_due c rows now m secs None False) =
      Inr (map (\<lambda>j. leased_job j now secs) (filter busy_ok (take (nat m) due)))"
    using sql_lease_due_loop [OF assms(1,2) refl refl, where policy = None and idle = False and now = now and secs = secs] assms(2)
    by (auto simp: job_lease_loop_eq pick_jobs_no_policy el set_take_subset Let_def short simp flip: due_def)
  have "filter (eligible None False now) (job_snapshot q) = filter busy_ok due"
    unfolding due_def filter_filter
    by (intro filter_cong) (auto simp: eligible_def requires_idle_def busy_ok_def)
  then show "fst (job_lease_due q now m secs None False) =
      map (\<lambda>j. leased_job j now secs) (take (nat m) (filter busy_ok due))"
    by (simp add: job_lease_due_eq picked_jobs_def pick_jobs_no_policy)
qed

section \<open>Metrics\<close>

text \<open>The metrics of a job list do not depend on its order.\<close>

lemma sql_backlog_pending_eq: "sql_is_backlog_pending j now = is_backlog_pending j now"
  by (cases "jb_status j")
    (auto simp: sql_is_backlog_pending_def is_backlog_pending_def is_leaseable_def QUEUE_DEPTH_STATUSES_def
      split: option.split)

lemma case_fold_min:
  "(case ts of [] \<Rightarrow> None | t # ts' \<Rightarrow> Some (f (fold min ts' t))) =
     (if ts = [] then None else Some (f (Min (set ts))))"
  by (cases ts) (simp, metis Min.set_eq_fold list.simps(3) list.simps(5))

lemma oldest_sort: "oldest_pending_age_seconds (sort_key f jobs) now = oldest_pending_age_seconds jobs now"
proof -
  let ?ages = "\<lambda>js. map jb_created_at (filter (\<lambda>j. (jb_status j = JS_FAILED_RETRYABLE \<or>
    is_backlog_pending j now) \<and> jb_not_before j \<le> now) js)"
  have old: "oldest_pending_age_seconds js now =
      (if ?ages js = [] then None else Some (total_seconds (now - Min (set (?ages js)))))" for js :: "'a job_record list"
    unfolding oldest_pending_age_seconds_def by (rule case_fold_min)
  have "set (?ages (sort_key f jobs)) = set (?ages jobs)" by auto
  moreover have "?ages (sort_key f jobs) = [] \<longleftrightarrow> ?ages jobs = []" by (simp add: filter_empty_conv)
  ultimately show ?thesis by (simp only: old)
qed

lemma sorted_kinds_sort: "sorted_kinds (sort_key f jobs) = sorted_kinds jobs"
proof -
  have "mset (remdups (map jb_kind (sort_key f jobs))) = mset (remdups (map jb_kind jobs))"
    by (simp flip: set_eq_iff_mset_remdups_eq)
  then show ?thesis
    unfolding sorted_kinds_def by (intro sort_key_inj_key_eq) (simp_all add: inj_on_def)
qed

lemma sql_oldest_eq: "sql_oldest_pending_age_seconds jobs now = oldest_pending_age_seconds jobs now"
  by (simp add: sql_oldest_pending_age_seconds_def oldest_pending_age_seconds_def sql_backlog_pending_eq)

lemma sql_kind_metrics_sort: "sql_kind_metrics k (sort_key f jobs) now = kind_metrics_of k jobs now"
proof -
  have "length (filter (\<lambda>j. is_backlog_pending j now) (filter (\<lambda>j. jb_kind j = k) jobs)) =
      backlog_pending_count (filter (\<lambda>j. jb_kind j = k) jobs) k now"
    by (simp add: backlog_pending_count_def conj_commute conj_left_commute cong: conj_cong)
  then show ?thesis
    by (simp add: sql_kind_metrics_def kind_metrics_of_def Let_def sql_oldest_eq sql_backlog_pending_eq
        filter_sort oldest_sort status_count_def)
qed

lemma sql_collect_metrics_sim:
  assumes "table_sim c rows q"
  shows "sql_collect_metrics c rows now = Inr (job_collect_metrics q now)"
  by (simp add: sql_collect_metrics_def sql_select_all_sim [OF assms] job_snapshot_def sql_kind_metrics_sort
      sorted_kinds_sort sql_oldest_eq oldest_sort job_collect_metrics_def metrics_from_jobs_def Let_def)

section \<open>Runs\<close>

text \<open>The calls of the \<^verbatim>\<open>BackgroundJobQueue\<close> protocol, and their answers.\<close>

datatype 'p job_op =
  EnqueueOp "'p job_record"
| EnqueueWithPolicyOp "'p job_record" datetime queue_policy bool
| LeaseDueOp datetime int seconds "queue_policy option" bool
| CollectMetricsOp datetime
| MarkSucceededOp string datetime
| DeferLeasedOp string datetime string
| MarkRetryableFailureOp string datetime string datetime
| MarkPermanentFailureOp string datetime string
| MarkCancelledOp string datetime string
| GetOp string

datatype 'p job_answer =
  JobAnswer "'p job_record" | EnqueueAnswer "'p enqueue_result" | LeasedAnswer "'p job_record list"
| MetricsAnswer queue_metrics | DoneAnswer unit

type_synonym 'p job_result = "job_error + 'p job_answer"

abbreviation answer :: "('a \<Rightarrow> 'p job_answer) \<Rightarrow> (job_error + 'a) \<times> 's \<Rightarrow> 'p job_result \<times> 's" where
  "answer f rs \<equiv> map_prod (map_sum id f) id rs"

fun mem_step :: "'p job_queue \<Rightarrow> 'p job_op \<Rightarrow> 'p job_result \<times> 'p job_queue" where
  "mem_step q (EnqueueOp job) = answer JobAnswer (job_enqueue q job)"
| "mem_step q (EnqueueWithPolicyOp job now policy idle) = answer EnqueueAnswer (enqueue_with_policy q job now policy idle)"
| "mem_step q (LeaseDueOp now m secs policy idle) =
     answer LeasedAnswer (apfst Inr (job_lease_due q now m secs policy idle))"
| "mem_step q (CollectMetricsOp now) = (Inr (MetricsAnswer (job_collect_metrics q now)), q)"
| "mem_step q (MarkSucceededOp i t) = answer DoneAnswer (mark_succeeded q i t)"
| "mem_step q (DeferLeasedOp i t reason) = answer DoneAnswer (defer_leased q i t reason)"
| "mem_step q (MarkRetryableFailureOp i t reason retry) = answer DoneAnswer (mark_retryable_failure q i t reason retry)"
| "mem_step q (MarkPermanentFailureOp i t reason) = answer DoneAnswer (mark_permanent_failure q i t reason)"
| "mem_step q (MarkCancelledOp i t reason) = answer DoneAnswer (mark_cancelled q i t reason)"
| "mem_step q (GetOp i) = answer JobAnswer (job_get q i, q)"

fun sql_step :: "'p job_codec \<Rightarrow> job_table \<Rightarrow> 'p job_op \<Rightarrow> 'p job_result \<times> job_table" where
  "sql_step c rows (EnqueueOp job) = answer JobAnswer (sql_enqueue c rows job)"
| "sql_step c rows (EnqueueWithPolicyOp job now policy idle) =
     answer EnqueueAnswer (sql_enqueue_with_policy c rows job now policy idle)"
| "sql_step c rows (LeaseDueOp now m secs policy idle) =
     answer LeasedAnswer (sql_lease_due c rows now m secs policy idle)"
| "sql_step c rows (CollectMetricsOp now) = answer MetricsAnswer (sql_collect_metrics c rows now, rows)"
| "sql_step c rows (MarkSucceededOp i t) = answer DoneAnswer (sql_update_terminal c rows i JS_SUCCEEDED t None)"
| "sql_step c rows (DeferLeasedOp i t reason) = answer DoneAnswer (sql_defer_leased c rows i t reason)"
| "sql_step c rows (MarkRetryableFailureOp i t reason retry) =
     answer DoneAnswer (sql_mark_retryable_failure c rows i t reason retry)"
| "sql_step c rows (MarkPermanentFailureOp i t reason) =
     answer DoneAnswer (sql_update_terminal c rows i JS_FAILED_PERMANENT t (Some reason))"
| "sql_step c rows (MarkCancelledOp i t reason) =
     answer DoneAnswer (sql_update_terminal c rows i JS_CANCELLED t (Some reason))"
| "sql_step c rows (GetOp i) = answer JobAnswer (sql_get_required c rows i, rows)"

fun run_jobs :: "('s \<Rightarrow> 'p job_op \<Rightarrow> 'p job_result \<times> 's) \<Rightarrow> 's \<Rightarrow> 'p job_op list \<Rightarrow> 'p job_result list \<times> 's" where
  "run_jobs step s [] = ([], s)"
| "run_jobs step s (x # xs) =
     (let (a, s') = step s x; (as, s'') = run_jobs step s' xs in (a # as, s''))"

text \<open>
  The calls on which the backends are compared: a lease without a policy asks for the idle jobs too.
\<close>

fun comparable :: "'p job_op \<Rightarrow> bool" where
  "comparable (LeaseDueOp now m secs policy idle) = (policy \<noteq> None \<or> idle)"
| "comparable _ = True"

section \<open>The queue interface\<close>

text \<open>
  What a backend of the queue promises: each call answers as the in-memory queue does, and keeps the
  two states related. The client facts are about whole runs.
\<close>

locale job_backend =
  fixes step :: "'s \<Rightarrow> 'p job_op \<Rightarrow> 'p job_result \<times> 's"
    and sim :: "'s \<Rightarrow> 'p job_queue \<Rightarrow> bool"
  assumes step_answers: "sim s q \<Longrightarrow> comparable x \<Longrightarrow> fst (step s x) = fst (mem_step q x)"
    and step_sim: "sim s q \<Longrightarrow> comparable x \<Longrightarrow> sim (snd (step s x)) (snd (mem_step q x))"
begin

lemma run_answers:
  assumes "sim s q" and "list_all comparable xs"
  shows "fst (run_jobs step s xs) = fst (run_jobs mem_step q xs) \<and>
    sim (snd (run_jobs step s xs)) (snd (run_jobs mem_step q xs))"
  using assms
proof (induction xs arbitrary: s q)
  case (Cons x xs)
  then have "sim (snd (step s x)) (snd (mem_step q x))" "fst (step s x) = fst (mem_step q x)"
    by (simp_all add: step_sim step_answers)
  with Cons.IH [of "snd (step s x)" "snd (mem_step q x)"] Cons.prems(2) show ?case
    by (simp add: case_prod_beta)
qed simp

end

lemmas table_sim_ops = table_sim_update table_sim_enqueue table_sim_enqueue_with_policy table_sim_lease_due

lemma sql_step_sim:
  assumes "table_sim c rows q" and "comparable x"
  shows "fst (sql_step c rows x) = fst (mem_step q x) \<and>
    table_sim c (snd (sql_step c rows x)) (snd (mem_step q x))"
proof (cases x)
  case (LeaseDueOp now m secs policy idle)
  with assms table_sim_lease_due [OF assms(1), of policy idle] show ?thesis by simp
next
  case (CollectMetricsOp now)
  with assms(1) show ?thesis by (simp add: sql_collect_metrics_sim)
next
  case (GetOp i)
  with assms(1) show ?thesis by (simp add: sql_get_required_def job_get_def sql_require_sim)
qed (use assms(1) in \<open>simp_all add: table_sim_enqueue table_sim_enqueue_with_policy table_sim_update
  mark_succeeded_def mark_permanent_failure_def mark_cancelled_def update_terminal_def sql_update_terminal_def
  defer_leased_def sql_defer_leased_def mark_retryable_failure_def sql_mark_retryable_failure_def\<close>)

interpretation sqljobs: job_backend "sql_step c" "table_sim c" for c :: "'p job_codec"
  by unfold_locales (simp_all add: sql_step_sim)



text \<open>
  A status update does not ask for a leased job: deferring a finished job makes it pending again, to
  be leased and run a second time.
\<close>

lemma finished_job_deferred:
  assumes "job_at q i = Some j" and "jb_status j = JS_SUCCEEDED"
  shows "\<exists>q' j'. defer_leased q i t reason = (Inr (), q') \<and> job_at q' i = Some j' \<and> is_leaseable j' t"
  using assms
  by (simp add: defer_leased_def update_job_def require_job_def replace_job_def plain_job_update_def
      is_leaseable_def QUEUE_DEPTH_STATUSES_def dict_get_set)

end
