(* ===== verification/Inference_Scheduler.thy ===== *)
theory Inference_Scheduler
  imports Model_Budget Learning_Jobs
begin

text \<open>
  The non-blocking scheduler of the local inference resource:
  \<^verbatim>\<open>iris/runtime/inference/{models,policy,scheduler,verifier_availability}.py\<close>. Every method
  holds the scheduler's lock, so it is one atomic step. A cancellation token is shared between the
  scheduler and the worker that holds the lease, also after the lease is gone: tokens live in a store
  of their own, addressed by lease id. The clock reading and the uuid are arguments.
\<close>

section \<open>Models\<close>

datatype resource_state = RS_IDLE | RS_BUSY | RS_WARMING | RS_UNAVAILABLE

fun resource_state_value :: "resource_state \<Rightarrow> string" where
  "resource_state_value RS_IDLE = ''idle''"
| "resource_state_value RS_BUSY = ''busy''"
| "resource_state_value RS_WARMING = ''warming''"
| "resource_state_value RS_UNAVAILABLE = ''unavailable''"

datatype slot_kind = SK_LARGE_LLM | SK_BACKGROUND_LLM | SK_SMALL_CLASSIFIER | SK_EMBEDDING | SK_RERANKER

datatype work_priority = WP_USER_FACING_RESPONSE | WP_SAFETY_CRITICAL | WP_BACKGROUND | WP_PROACTIVE

datatype lease_decision = LD_ACQUIRED | LD_DEFER | LD_CANCEL | LD_NO_SEND | LD_DENIED

record lease_request =
  lr_slot_kind :: slot_kind
  lr_priority :: work_priority
  lr_call_site :: model_call_site
  lr_model_slot :: "string option"
  lr_model_name :: "string option"
  lr_preemptible :: bool
  lr_metadata :: "(string, string) dict"

record 'cb cancellation_token =
  tk_cancel_requested :: bool
  tk_stopped :: bool
  tk_callbacks :: "'cb list"

definition new_token :: "'cb cancellation_token" where
  "new_token = \<lparr>tk_cancel_requested = False, tk_stopped = False, tk_callbacks = []\<rparr>"

definition request_cancellation :: "'cb cancellation_token \<Rightarrow> 'cb cancellation_token" where
  "request_cancellation t = t\<lparr>tk_cancel_requested := True\<rparr>"

definition register_cancellation_callback :: "'cb \<Rightarrow> 'cb cancellation_token \<Rightarrow> 'cb cancellation_token" where
  "register_cancellation_callback cb t =
     (if tk_stopped t then t else t\<lparr>tk_callbacks := tk_callbacks t @ [cb]\<rparr>)"

text \<open>The callbacks that are called, in order; their number is the method's result.\<close>

definition run_cancellation_callbacks :: "'cb cancellation_token \<Rightarrow> 'cb list \<times> 'cb cancellation_token" where
  "run_cancellation_callbacks t =
     (if \<not> tk_cancel_requested t then ([], t) else (tk_callbacks t, t\<lparr>tk_callbacks := []\<rparr>))"

definition acknowledge_stopped :: "'cb cancellation_token \<Rightarrow> 'cb cancellation_token" where
  "acknowledge_stopped t = t\<lparr>tk_stopped := True\<rparr>"

record resource_snapshot =
  rs_state :: resource_state
  rs_active_large_slots :: nat
  rs_active_small_classifier_slots :: nat
  rs_active_embedding_slots :: nat
  rs_active_reranker_slots :: nat
  rs_busy_since :: "datetime option"
  rs_busy_duration_seconds :: "seconds option"

record lease_result =
  ls_decision :: lease_decision
  ls_reason :: string
  ls_request :: lease_request
  ls_snapshot :: resource_snapshot
  ls_lease_id :: "string option"

definition acquired :: "lease_result \<Rightarrow> bool" where
  "acquired r \<longleftrightarrow> ls_decision r = LD_ACQUIRED"

definition model_call_site_priority :: "model_call_site \<Rightarrow> work_priority" where
  "model_call_site_priority site =
     (if site = USER_RESPONSE_HOT_PATH then WP_USER_FACING_RESPONSE
      else if site \<in> {PROACTIVE, EVENT_REACTION} then WP_PROACTIVE
      else WP_BACKGROUND)"

section \<open>Policy\<close>

record resource_policy =
  pl_enabled :: bool
  pl_large_llm_concurrency_limit :: int
  pl_small_classifier_concurrency_limit :: int
  pl_embedding_concurrency_limit :: int
  pl_reranker_concurrency_limit :: int
  pl_background_when_busy :: lease_decision
  pl_proactive_when_busy :: lease_decision
  pl_low_priority_when_warming :: lease_decision
  pl_background_when_unavailable :: lease_decision
  pl_proactive_when_unavailable :: lease_decision
  pl_user_facing_when_unavailable :: lease_decision

definition default_resource_policy :: resource_policy where
  "default_resource_policy =
     \<lparr>pl_enabled = False, pl_large_llm_concurrency_limit = 1, pl_small_classifier_concurrency_limit = 4,
      pl_embedding_concurrency_limit = 2, pl_reranker_concurrency_limit = 2,
      pl_background_when_busy = LD_DEFER, pl_proactive_when_busy = LD_NO_SEND,
      pl_low_priority_when_warming = LD_DEFER, pl_background_when_unavailable = LD_CANCEL,
      pl_proactive_when_unavailable = LD_NO_SEND, pl_user_facing_when_unavailable = LD_DENIED\<rparr>"

definition policy_busy_decision_for :: "resource_policy \<Rightarrow> work_priority \<Rightarrow> lease_decision" where
  "policy_busy_decision_for p priority =
     (if priority = WP_PROACTIVE then pl_proactive_when_busy p else pl_background_when_busy p)"

definition unavailable_decision_for :: "resource_policy \<Rightarrow> work_priority \<Rightarrow> lease_decision" where
  "unavailable_decision_for p priority =
     (if priority = WP_PROACTIVE then pl_proactive_when_unavailable p
      else if priority \<in> {WP_USER_FACING_RESPONSE, WP_SAFETY_CRITICAL} then pl_user_facing_when_unavailable p
      else pl_background_when_unavailable p)"

section \<open>The scheduler\<close>

definition LARGE_SLOT_KINDS :: "slot_kind set" where
  "LARGE_SLOT_KINDS = {SK_LARGE_LLM, SK_BACKGROUND_LLM}"

definition HIGH_PRIORITIES :: "work_priority set" where
  "HIGH_PRIORITIES = {WP_USER_FACING_RESPONSE, WP_SAFETY_CRITICAL}"

definition LOW_PRIORITIES :: "work_priority set" where
  "LOW_PRIORITIES = {WP_BACKGROUND, WP_PROACTIVE}"

text \<open>The token of a lease is the one stored under its id.\<close>

record sched_lease =
  al_lease_id :: string
  al_request :: lease_request
  al_acquired_at :: datetime

record 'cb scheduler =
  sc_policy :: resource_policy
  sc_state_override :: "resource_state option"
  sc_active_leases :: "(string, sched_lease) dict"
  sc_busy_since :: "datetime option"
  sc_tokens :: "string \<Rightarrow> 'cb cancellation_token"

definition scheduler_init :: "resource_policy option \<Rightarrow> 'cb scheduler" where
  "scheduler_init policy =
     \<lparr>sc_policy = (case policy of None \<Rightarrow> default_resource_policy | Some p \<Rightarrow> p),
      sc_state_override = None, sc_active_leases = [], sc_busy_since = None, sc_tokens = (\<lambda>_. new_token)\<rparr>"

definition set_state :: "'cb scheduler \<Rightarrow> resource_state \<Rightarrow> datetime \<Rightarrow> 'cb scheduler" where
  "set_state s state now =
     (if state = RS_BUSY
      then s\<lparr>sc_state_override := Some RS_BUSY,
             sc_busy_since := (case sc_busy_since s of None \<Rightarrow> Some now | Some t \<Rightarrow> Some t)\<rparr>
      else s\<lparr>sc_state_override := (if state = RS_IDLE then None else Some state),
             sc_busy_since := (if state = RS_IDLE \<and> sc_active_leases s = [] then None else sc_busy_since s)\<rparr>)"

definition state_locked :: "'cb scheduler \<Rightarrow> resource_state" where
  "state_locked s =
     (case sc_state_override s of
        Some st \<Rightarrow> st
      | None \<Rightarrow> if sc_active_leases s \<noteq> [] then RS_BUSY else RS_IDLE)"

definition slot_count :: "'cb scheduler \<Rightarrow> slot_kind \<Rightarrow> nat" where
  "slot_count s kind = length (filter (\<lambda>l. lr_slot_kind (al_request l) = kind) (dict_values (sc_active_leases s)))"

definition active_large :: "'cb scheduler \<Rightarrow> nat" where
  "active_large s = slot_count s SK_LARGE_LLM + slot_count s SK_BACKGROUND_LLM"

definition snapshot_locked :: "'cb scheduler \<Rightarrow> datetime \<Rightarrow> resource_snapshot" where
  "snapshot_locked s current_time =
     (let busy_since = (if state_locked s = RS_BUSY then sc_busy_since s else None)
      in \<lparr>rs_state = state_locked s,
          rs_active_large_slots = active_large s,
          rs_active_small_classifier_slots = slot_count s SK_SMALL_CLASSIFIER,
          rs_active_embedding_slots = slot_count s SK_EMBEDDING,
          rs_active_reranker_slots = slot_count s SK_RERANKER,
          rs_busy_since = busy_since,
          rs_busy_duration_seconds = map_option (\<lambda>t. total_seconds (current_time - t)) busy_since\<rparr>)"

definition capacity_reason :: "'cb scheduler \<Rightarrow> lease_request \<Rightarrow> string option" where
  "capacity_reason s request =
     (let kind = lr_slot_kind request; p = sc_policy s
      in if kind \<in> LARGE_SLOT_KINDS
         then (if int (active_large s) \<ge> pl_large_llm_concurrency_limit p
               then Some ''large LLM slot limit reached'' else None)
         else if kind = SK_SMALL_CLASSIFIER \<and> int (slot_count s kind) \<ge> pl_small_classifier_concurrency_limit p
         then Some ''small classifier slot limit reached''
         else if kind = SK_EMBEDDING \<and> int (slot_count s kind) \<ge> pl_embedding_concurrency_limit p
         then Some ''embedding slot limit reached''
         else if kind = SK_RERANKER \<and> int (slot_count s kind) \<ge> pl_reranker_concurrency_limit p
         then Some ''reranker slot limit reached''
         else None)"

definition acquire_locked ::
  "'cb scheduler \<Rightarrow> lease_request \<Rightarrow> datetime \<Rightarrow> string \<Rightarrow> string \<Rightarrow> lease_result \<times> 'cb scheduler" where
  "acquire_locked s request current_time uuid reason =
     (let s' = s\<lparr>sc_active_leases := dict_set uuid
                   \<lparr>al_lease_id = uuid, al_request = request, al_acquired_at = current_time\<rparr> (sc_active_leases s),
                 sc_busy_since := (case sc_busy_since s of None \<Rightarrow> Some current_time | Some t \<Rightarrow> Some t),
                 sc_tokens := (sc_tokens s)(uuid := new_token)\<rparr>
      in (\<lparr>ls_decision = LD_ACQUIRED, ls_reason = reason, ls_request = request,
           ls_snapshot = snapshot_locked s' current_time, ls_lease_id = Some uuid\<rparr>, s'))"

definition reject_locked ::
  "'cb scheduler \<Rightarrow> lease_request \<Rightarrow> lease_decision \<Rightarrow> string \<Rightarrow> datetime \<Rightarrow> lease_result" where
  "reject_locked s request decision reason current_time =
     \<lparr>ls_decision = decision, ls_reason = reason, ls_request = request,
      ls_snapshot = snapshot_locked s current_time, ls_lease_id = None\<rparr>"

definition can_preempt_for :: "lease_request \<Rightarrow> bool" where
  "can_preempt_for request \<longleftrightarrow>
     lr_priority request \<in> HIGH_PRIORITIES \<and> lr_slot_kind request \<in> LARGE_SLOT_KINDS"

definition preempt_targets :: "'cb scheduler \<Rightarrow> sched_lease list" where
  "preempt_targets s =
     filter (\<lambda>l. lr_slot_kind (al_request l) \<in> LARGE_SLOT_KINDS \<and> lr_priority (al_request l) \<in> LOW_PRIORITIES)
       (dict_values (sc_active_leases s))"

definition preempt_lower_priority_large_leases_locked :: "'cb scheduler \<Rightarrow> bool \<times> 'cb scheduler" where
  "preempt_lower_priority_large_leases_locked s =
     (let targets = preempt_targets s
      in if targets = [] \<or> (\<exists>l\<in>set targets. \<not> lr_preemptible (al_request l)) then (False, s)
         else let s' = s\<lparr>sc_tokens :=
                     fold (\<lambda>l tk. tk(al_lease_id l := request_cancellation (tk (al_lease_id l)))) targets (sc_tokens s)\<rparr>
              in if \<exists>l\<in>set targets. \<not> tk_stopped (sc_tokens s' (al_lease_id l)) then (False, s')
                 else (True, s'\<lparr>sc_active_leases :=
                         fold (\<lambda>l. dict_pop (al_lease_id l)) targets (sc_active_leases s')\<rparr>))"

definition busy_decision_for :: "'cb scheduler \<Rightarrow> lease_request \<Rightarrow> lease_decision" where
  "busy_decision_for s request =
     (if lr_priority request \<in> HIGH_PRIORITIES then LD_DEFER
      else policy_busy_decision_for (sc_policy s) (lr_priority request))"

definition explicit_large_model_busy :: "'cb scheduler \<Rightarrow> lease_request \<Rightarrow> bool" where
  "explicit_large_model_busy s request \<longleftrightarrow>
     sc_state_override s = Some RS_BUSY \<and> lr_slot_kind request \<in> LARGE_SLOT_KINDS"

definition state_rejection_locked :: "'cb scheduler \<Rightarrow> lease_request \<Rightarrow> datetime \<Rightarrow> lease_result option" where
  "state_rejection_locked s request current_time =
     (if state_locked s = RS_UNAVAILABLE
      then Some (reject_locked s request (unavailable_decision_for (sc_policy s) (lr_priority request))
                   ''local inference resource unavailable'' current_time)
      else if state_locked s = RS_WARMING \<and> lr_priority request \<in> LOW_PRIORITIES
      then Some (reject_locked s request (pl_low_priority_when_warming (sc_policy s))
                   ''local inference resource warming'' current_time)
      else if explicit_large_model_busy s request
      then Some (reject_locked s request (busy_decision_for s request)
                   ''local inference resource busy'' current_time)
      else None)"

definition capacity_decision_locked ::
  "'cb scheduler \<Rightarrow> lease_request \<Rightarrow> datetime \<Rightarrow> string \<Rightarrow> lease_result \<times> 'cb scheduler" where
  "capacity_decision_locked s request current_time uuid =
     (case capacity_reason s request of
        None \<Rightarrow> acquire_locked s request current_time uuid ''resource lease acquired''
      | Some reason \<Rightarrow>
          (let (preempted, s') = (if can_preempt_for request
                                  then preempt_lower_priority_large_leases_locked s else (False, s))
           in if preempted
              then acquire_locked s' request current_time uuid ''preempted lower-priority large LLM lease''
              else (reject_locked s' request (busy_decision_for s' request) reason current_time, s')))"

definition acquire_locked_by_policy ::
  "'cb scheduler \<Rightarrow> lease_request \<Rightarrow> datetime \<Rightarrow> string \<Rightarrow> lease_result \<times> 'cb scheduler" where
  "acquire_locked_by_policy s request current_time uuid =
     (if \<not> pl_enabled (sc_policy s)
      then acquire_locked s request current_time uuid ''inference scheduler disabled''
      else case state_rejection_locked s request current_time of
        Some rejection \<Rightarrow> (rejection, s)
      | None \<Rightarrow> capacity_decision_locked s request current_time uuid)"

definition acquire :: "'cb scheduler \<Rightarrow> lease_request \<Rightarrow> datetime \<Rightarrow> string \<Rightarrow> lease_result \<times> 'cb scheduler" where
  "acquire s request now uuid = acquire_locked_by_policy s request now uuid"

definition sched_release :: "'cb scheduler \<Rightarrow> string \<Rightarrow> bool \<times> 'cb scheduler" where
  "sched_release s lease_id =
     (case dict_get (sc_active_leases s) lease_id of
        None \<Rightarrow> (False, s)
      | Some _ \<Rightarrow>
          (let s' = s\<lparr>sc_active_leases := dict_pop lease_id (sc_active_leases s)\<rparr>
           in (True, if sc_active_leases s' = [] \<and> sc_state_override s' = None
                     then s'\<lparr>sc_busy_since := None\<rparr> else s')))"

definition cancellation_token_of :: "'cb scheduler \<Rightarrow> string \<Rightarrow> 'cb cancellation_token option" where
  "cancellation_token_of s lease_id =
     map_option (\<lambda>_. sc_tokens s lease_id) (dict_get (sc_active_leases s) lease_id)"

definition snapshot :: "'cb scheduler \<Rightarrow> datetime \<Rightarrow> resource_snapshot" where
  "snapshot s now = snapshot_locked s now"

section \<open>Availability of the final verifier\<close>

datatype verifier_status = VS_AVAILABLE | VS_BUSY | VS_WARMING | VS_UNAVAILABLE

record verifier_availability =
  va_status :: verifier_status
  va_reason :: string
  va_observed_at :: datetime

fun verifier_status_by_state :: "resource_state \<Rightarrow> verifier_status" where
  "verifier_status_by_state RS_IDLE = VS_AVAILABLE"
| "verifier_status_by_state RS_BUSY = VS_BUSY"
| "verifier_status_by_state RS_WARMING = VS_WARMING"
| "verifier_status_by_state RS_UNAVAILABLE = VS_UNAVAILABLE"

definition availability :: "'cb scheduler \<Rightarrow> datetime \<Rightarrow> datetime \<Rightarrow> verifier_availability" where
  "availability s now observed_at =
     \<lparr>va_status = verifier_status_by_state (rs_state (snapshot s now)),
      va_reason = ''local inference resource '' @ resource_state_value (rs_state (snapshot s now)),
      va_observed_at = observed_at\<rparr>"

end
