(* ===== verification/Inference_Props.thy ===== *)
theory Inference_Props
  imports Inference_Scheduler
begin

text \<open>
  Correctness of the inference scheduler: as a transition system with the workers that hold its
  tokens, its capacity and busy-time invariants, what preemption may take away, and that a
  high-priority request gets through once the workers it displaces have stopped.
\<close>

section \<open>Slot classes\<close>

text \<open>The two large kinds share one limit.\<close>

definition class_kinds :: "slot_kind \<Rightarrow> slot_kind set" where
  "class_kinds k = (if k \<in> LARGE_SLOT_KINDS then LARGE_SLOT_KINDS else {k})"

fun class_limit :: "resource_policy \<Rightarrow> slot_kind \<Rightarrow> int" where
  "class_limit p SK_LARGE_LLM = pl_large_llm_concurrency_limit p"
| "class_limit p SK_BACKGROUND_LLM = pl_large_llm_concurrency_limit p"
| "class_limit p SK_SMALL_CLASSIFIER = pl_small_classifier_concurrency_limit p"
| "class_limit p SK_EMBEDDING = pl_embedding_concurrency_limit p"
| "class_limit p SK_RERANKER = pl_reranker_concurrency_limit p"

definition class_count :: "'cb scheduler \<Rightarrow> slot_kind \<Rightarrow> nat" where
  "class_count s k = dict_count (\<lambda>l. lr_slot_kind (al_request l) \<in> class_kinds k) (sc_active_leases s)"

lemma length_filter_disj:
  "(\<And>x. x \<in> set xs \<Longrightarrow> \<not> (P x \<and> Q x)) \<Longrightarrow>
     length (filter (\<lambda>x. P x \<or> Q x) xs) = length (filter P xs) + length (filter Q xs)"
  by (induction xs) auto

lemma active_large_class: "active_large s = class_count s SK_LARGE_LLM"
  unfolding active_large_def slot_count_def class_count_def dict_count_def class_kinds_def LARGE_SLOT_KINDS_def
  by (subst length_filter_disj [symmetric]) auto

lemma slot_count_class: "k \<notin> LARGE_SLOT_KINDS \<Longrightarrow> slot_count s k = class_count s k"
  by (simp add: slot_count_def class_count_def dict_count_def class_kinds_def)

lemma class_count_large: "class_count s SK_BACKGROUND_LLM = class_count s SK_LARGE_LLM"
  by (simp add: class_count_def class_kinds_def LARGE_SLOT_KINDS_def)

lemma capacity_reason_None:
  "capacity_reason s r = None \<longleftrightarrow>
     int (class_count s (lr_slot_kind r)) < class_limit (sc_policy s) (lr_slot_kind r)"
  by (cases "lr_slot_kind r")
    (auto simp: capacity_reason_def Let_def active_large_class class_count_large slot_count_class LARGE_SLOT_KINDS_def)

section \<open>Preemption\<close>

definition leases_wf :: "'cb scheduler \<Rightarrow> bool" where
  "leases_wf s \<longleftrightarrow>
     dict_wf (sc_active_leases s) \<and>
     (\<forall>i l. dict_get (sc_active_leases s) i = Some l \<longrightarrow> al_lease_id l = i)"

lemma request_cancellation_simps [simp]:
  "tk_stopped (request_cancellation t) = tk_stopped t" "tk_cancel_requested (request_cancellation t)"
  by (simp_all add: request_cancellation_def)

lemma cancel_fold:
  "fold (\<lambda>l tk. tk(al_lease_id l := request_cancellation (tk (al_lease_id l)))) ts tk i =
     (if i \<in> al_lease_id ` set ts then request_cancellation (tk i) else tk i)"
  by (induction ts arbitrary: tk) (auto simp: request_cancellation_def)

lemma pop_fold:
  "dict_get (fold (\<lambda>l. dict_pop (al_lease_id l)) ts d) i =
     (if i \<in> al_lease_id ` set ts then None else dict_get d i)"
  by (induction ts arbitrary: d) (auto simp: dict_get_pop)

lemma pop_fold_wf: "dict_wf d \<Longrightarrow> dict_wf (fold (\<lambda>l. dict_pop (al_lease_id l)) ts d)"
  by (induction ts arbitrary: d) auto

lemma dict_count_pop_le: "dict_wf d \<Longrightarrow> dict_count P (dict_pop k d) \<le> dict_count P d"
  by (cases "dict_get d k") (use dict_count_pop [of d k _ P] in \<open>auto simp: dict_pop_absent\<close>)

lemma pop_fold_count: "dict_wf d \<Longrightarrow> dict_count P (fold (\<lambda>l. dict_pop (al_lease_id l)) ts d) \<le> dict_count P d"
proof (induction ts arbitrary: d)
  case (Cons l ts)
  then have "dict_count P (fold (\<lambda>l. dict_pop (al_lease_id l)) ts (dict_pop (al_lease_id l) d))
      \<le> dict_count P (dict_pop (al_lease_id l) d)" by simp
  with dict_count_pop_le [OF Cons.prems, of P "al_lease_id l"] show ?case by simp
qed simp

lemma leases_wf_values:
  assumes "leases_wf s" and "l \<in> set (dict_values (sc_active_leases s))"
  shows "dict_get (sc_active_leases s) (al_lease_id l) = Some l"
proof -
  have "dict_wf (sc_active_leases s)" using assms(1) by (simp add: leases_wf_def)
  then obtain i where "dict_get (sc_active_leases s) i = Some l" using assms(2) dict_values_set_iff by metis
  moreover from this have "al_lease_id l = i" using assms(1) unfolding leases_wf_def by blast
  ultimately show ?thesis by simp
qed

lemma target_active:
  "leases_wf s \<Longrightarrow> l \<in> set (preempt_targets s) \<Longrightarrow>
     dict_get (sc_active_leases s) (al_lease_id l) = Some l \<and>
     lr_slot_kind (al_request l) \<in> LARGE_SLOT_KINDS \<and> lr_priority (al_request l) \<in> LOW_PRIORITIES"
  by (auto simp: preempt_targets_def leases_wf_values)

text \<open>The outcome of an attempt to preempt.\<close>

lemma preempt_cases:
  assumes "preempt_lower_priority_large_leases_locked s = (b, s')"
  obtains (refused) "\<not> b" "s' = s" "preempt_targets s = [] \<or> (\<exists>l\<in>set (preempt_targets s). \<not> lr_preemptible (al_request l))"
  | (waiting) tk where "\<not> b" "s' = s\<lparr>sc_tokens := tk\<rparr>" "\<exists>l\<in>set (preempt_targets s). \<not> tk_stopped (sc_tokens s (al_lease_id l))"
      "\<And>l. l \<in> set (preempt_targets s) \<Longrightarrow> tk (al_lease_id l) = request_cancellation (sc_tokens s (al_lease_id l))"
  | (preempted) tk where "b" "preempt_targets s \<noteq> []"
      "s' = s\<lparr>sc_tokens := tk, sc_active_leases := fold (\<lambda>l. dict_pop (al_lease_id l)) (preempt_targets s) (sc_active_leases s)\<rparr>"
      "\<And>l. l \<in> set (preempt_targets s) \<Longrightarrow> lr_preemptible (al_request l) \<and> tk_stopped (sc_tokens s (al_lease_id l))"
      "\<And>l. l \<in> set (preempt_targets s) \<Longrightarrow> tk (al_lease_id l) = request_cancellation (sc_tokens s (al_lease_id l))"
proof -
  let ?ts = "preempt_targets s"
  let ?tk = "fold (\<lambda>l tk. tk(al_lease_id l := request_cancellation (tk (al_lease_id l)))) ?ts (sc_tokens s)"
  have tk: "?tk (al_lease_id l) = request_cancellation (sc_tokens s (al_lease_id l))" if "l \<in> set ?ts" for l
    using that by (simp add: cancel_fold)
  have stopped: "tk_stopped (?tk (al_lease_id l)) = tk_stopped (sc_tokens s (al_lease_id l))" for l
    by (simp add: cancel_fold)
  show thesis
  proof (cases "?ts = [] \<or> (\<exists>l\<in>set ?ts. \<not> lr_preemptible (al_request l))")
    case True
    then show thesis
      using assms refused by (auto simp: preempt_lower_priority_large_leases_locked_def Let_def)
  next
    case ok: False
    show thesis
    proof (cases "\<exists>l\<in>set ?ts. \<not> tk_stopped (sc_tokens s (al_lease_id l))")
      case True
      with ok assms have "b = False" "s' = s\<lparr>sc_tokens := ?tk\<rparr>"
        by (simp_all add: preempt_lower_priority_large_leases_locked_def Let_def stopped)
      then show thesis using waiting [of ?tk] True tk by simp
    next
      case False
      with ok assms have "b = True" "s' = s\<lparr>sc_tokens := ?tk,
          sc_active_leases := fold (\<lambda>l. dict_pop (al_lease_id l)) ?ts (sc_active_leases s)\<rparr>"
        by (simp_all add: preempt_lower_priority_large_leases_locked_def Let_def stopped)
      then show thesis using preempted [of ?tk] ok False tk by simp
    qed
  qed
qed

section \<open>The scheduler as a transition system\<close>

text \<open>What a worker that holds a token does with it.\<close>

datatype 'cb worker_event = WE_Register string 'cb | WE_RunCallbacks string | WE_Acknowledge string

fun worker_step :: "'cb worker_event \<Rightarrow> 'cb scheduler \<Rightarrow> 'cb scheduler" where
  "worker_step (WE_Register i cb) s =
     s\<lparr>sc_tokens := (sc_tokens s)(i := register_cancellation_callback cb (sc_tokens s i))\<rparr>"
| "worker_step (WE_RunCallbacks i) s =
     s\<lparr>sc_tokens := (sc_tokens s)(i := snd (run_cancellation_callbacks (sc_tokens s i)))\<rparr>"
| "worker_step (WE_Acknowledge i) s = s\<lparr>sc_tokens := (sc_tokens s)(i := acknowledge_stopped (sc_tokens s i))\<rparr>"

text \<open>A uuid is not in use when it is drawn.\<close>

inductive sched_step :: "'cb scheduler \<Rightarrow> 'cb scheduler \<Rightarrow> bool" where
  step_set_state: "sched_step s (set_state s state now)"
| step_acquire: "dict_get (sc_active_leases s) uuid = None \<Longrightarrow> sched_step s (snd (acquire s request now uuid))"
| step_release: "sched_step s (snd (sched_release s lease_id))"
| step_worker: "sched_step s (worker_step e s)"

text \<open>
  The invariant: leases are stored under their ids, an enabled policy's limits hold, and the time the
  resource became busy is known exactly as long as it matters.
\<close>

definition limits_ok :: "resource_policy \<Rightarrow> bool" where
  "limits_ok p \<longleftrightarrow> (\<forall>k. 0 \<le> class_limit p k)"

definition within_limits :: "'cb scheduler \<Rightarrow> bool" where
  "within_limits s \<longleftrightarrow> (pl_enabled (sc_policy s) \<longrightarrow> (\<forall>k. int (class_count s k) \<le> class_limit (sc_policy s) k))"

definition busy_since_ok :: "'cb scheduler \<Rightarrow> bool" where
  "busy_since_ok s \<longleftrightarrow>
     (sc_active_leases s \<noteq> [] \<or> sc_state_override s = Some RS_BUSY \<longrightarrow> sc_busy_since s \<noteq> None) \<and>
     (sc_active_leases s = [] \<and> sc_state_override s = None \<longrightarrow> sc_busy_since s = None) \<and>
     sc_state_override s \<noteq> Some RS_IDLE"

definition sched_inv :: "'cb scheduler \<Rightarrow> bool" where
  "sched_inv s \<longleftrightarrow> leases_wf s \<and> within_limits s \<and> busy_since_ok s"

lemma worker_step_frame [simp]:
  "sc_policy (worker_step e s) = sc_policy s" "sc_state_override (worker_step e s) = sc_state_override s"
  "sc_active_leases (worker_step e s) = sc_active_leases s" "sc_busy_since (worker_step e s) = sc_busy_since s"
  by (cases e; simp)+

lemma sched_inv_frame:
  "sc_policy s' = sc_policy s \<Longrightarrow> sc_state_override s' = sc_state_override s \<Longrightarrow>
   sc_active_leases s' = sc_active_leases s \<Longrightarrow> sc_busy_since s' = sc_busy_since s \<Longrightarrow> sched_inv s' = sched_inv s"
  by (simp add: sched_inv_def leases_wf_def within_limits_def busy_since_ok_def class_count_def)

lemma set_state_inv: "sched_inv s \<Longrightarrow> sched_inv (set_state s st now)"
  by (auto simp: sched_inv_def leases_wf_def within_limits_def busy_since_ok_def class_count_def set_state_def
      split: option.splits)

lemma sched_release_inv:
  assumes "sched_inv s"
  shows "sched_inv (snd (sched_release s i))"
proof (cases "dict_get (sc_active_leases s) i")
  case None
  with assms show ?thesis by (simp add: sched_release_def)
next
  case (Some l)
  have wf: "dict_wf (sc_active_leases s)" using assms by (simp add: sched_inv_def leases_wf_def)
  have fields: "sc_active_leases (snd (sched_release s i)) = dict_pop i (sc_active_leases s)"
    "sc_policy (snd (sched_release s i)) = sc_policy s"
    "sc_state_override (snd (sched_release s i)) = sc_state_override s"
    "sc_busy_since (snd (sched_release s i)) =
       (if dict_pop i (sc_active_leases s) = [] \<and> sc_state_override s = None then None else sc_busy_since s)"
    using Some by (auto simp: sched_release_def Let_def)
  have "leases_wf (snd (sched_release s i))"
    using assms by (auto simp: sched_inv_def leases_wf_def fields dict_get_pop)
  moreover have "within_limits (snd (sched_release s i))"
    using assms dict_count_pop_le [OF wf] unfolding sched_inv_def within_limits_def class_count_def fields
    by (meson of_nat_mono order_trans)
  moreover have "sc_active_leases s \<noteq> []" using Some by auto
  then have "busy_since_ok (snd (sched_release s i))"
    using assms by (auto simp: sched_inv_def busy_since_ok_def fields)
  ultimately show ?thesis by (simp add: sched_inv_def)
qed

text \<open>Taking a lease with room, or after room has been made.\<close>

lemma acquire_locked_inv:
  assumes "leases_wf s" and "busy_since_ok s \<or> sc_busy_since s \<noteq> None \<and> sc_state_override s \<noteq> Some RS_IDLE"
    and "dict_get (sc_active_leases s) uuid = None"
    and room: "\<And>k. pl_enabled (sc_policy s) \<Longrightarrow>
      int (dict_count (\<lambda>l. lr_slot_kind (al_request l) \<in> class_kinds k) (sc_active_leases s))
        + (if lr_slot_kind request \<in> class_kinds k then 1 else 0) \<le> class_limit (sc_policy s) k"
  shows "sched_inv (snd (acquire_locked s request now uuid reason))"
proof -
  let ?s = "snd (acquire_locked s request now uuid reason)"
  have "leases_wf ?s"
    using assms(1) by (auto simp: leases_wf_def acquire_locked_def Let_def dict_get_set)
  moreover have "int (class_count ?s k) \<le> class_limit (sc_policy ?s) k" if "pl_enabled (sc_policy ?s)" for k
    using that room [of k] by (simp add: class_count_def acquire_locked_def Let_def dict_count_set_new assms(3)
        split: if_splits)
  then have "within_limits ?s" by (simp add: within_limits_def)
  moreover have "dict_set uuid l (sc_active_leases s) \<noteq> []" for l
    by (cases "sc_active_leases s") auto
  then have "busy_since_ok ?s"
    using assms(2) by (auto simp: busy_since_ok_def acquire_locked_def Let_def split: option.splits)
  ultimately show ?thesis by (simp add: sched_inv_def)
qed

lemma large_class: "k \<in> LARGE_SLOT_KINDS \<Longrightarrow> k' \<in> class_kinds k \<longleftrightarrow> k' \<in> LARGE_SLOT_KINDS"
  by (simp add: class_kinds_def)

lemma class_kinds_refl [simp]: "k \<in> class_kinds k"
  by (simp add: class_kinds_def)

lemma class_kinds_eq: "k' \<in> class_kinds k \<Longrightarrow> class_kinds k' = class_kinds k \<and> class_limit p k' = class_limit p k"
  by (cases k; cases k') (auto simp: class_kinds_def LARGE_SLOT_KINDS_def)

text \<open>Removing the targets frees at least one large slot.\<close>

lemma preempted_count:
  assumes "leases_wf s" and "preempt_targets s \<noteq> []"
  shows "dict_count (\<lambda>l. lr_slot_kind (al_request l) \<in> class_kinds k)
      (fold (\<lambda>l. dict_pop (al_lease_id l)) (preempt_targets s) (sc_active_leases s))
      + (if k \<in> LARGE_SLOT_KINDS then 1 else 0) \<le> class_count s k"
proof -
  obtain l ts where ts: "preempt_targets s = l # ts" using assms(2) by (cases "preempt_targets s") auto
  have wf: "dict_wf (sc_active_leases s)" using assms(1) by (simp add: leases_wf_def)
  let ?P = "\<lambda>l. lr_slot_kind (al_request l) \<in> class_kinds k"
  let ?d = "dict_pop (al_lease_id l) (sc_active_leases s)"
  have l: "dict_get (sc_active_leases s) (al_lease_id l) = Some l" "k \<in> LARGE_SLOT_KINDS \<Longrightarrow> ?P l"
    using target_active [OF assms(1), of l] ts by (auto simp: large_class)
  have "dict_count ?P (fold (\<lambda>l. dict_pop (al_lease_id l)) ts ?d) \<le> dict_count ?P ?d"
    by (rule pop_fold_count) (use wf in simp)
  with dict_count_pop [OF wf l(1), of ?P] l(2) show ?thesis
    by (auto simp: ts class_count_def split: if_splits)
qed

lemma preempt_acquire_inv:
  assumes inv: "sched_inv s" and fresh: "dict_get (sc_active_leases s) uuid = None"
    and pre: "preempt_lower_priority_large_leases_locked s = (True, s')" and "can_preempt_for request"
  shows "sched_inv (snd (acquire_locked s' request now uuid reason))"
  using pre
proof (cases rule: preempt_cases)
  case (preempted tk)
  have wf: "leases_wf s" and busy: "busy_since_ok s" and lim: "within_limits s"
    using inv by (simp_all add: sched_inv_def)
  have large: "lr_slot_kind request \<in> LARGE_SLOT_KINDS" using assms(4) by (simp add: can_preempt_for_def)
  have "sc_active_leases s \<noteq> []"
    using preempted(2) by (auto simp: preempt_targets_def dict_values_def)
  with busy have since: "sc_busy_since s \<noteq> None \<and> sc_state_override s \<noteq> Some RS_IDLE"
    by (simp add: busy_since_ok_def)
  have wf': "leases_wf s'"
    using wf pop_fold_wf by (auto simp: leases_wf_def preempted(3) pop_fold split: if_splits)
  show ?thesis
  proof (rule acquire_locked_inv [OF wf'])
    show "busy_since_ok s' \<or> sc_busy_since s' \<noteq> None \<and> sc_state_override s' \<noteq> Some RS_IDLE"
      using since by (simp add: preempted(3))
    show "dict_get (sc_active_leases s') uuid = None" using fresh by (simp add: preempted(3) pop_fold)
    fix k
    assume on: "pl_enabled (sc_policy s')"
    have "lr_slot_kind request \<in> class_kinds k \<longleftrightarrow> k \<in> LARGE_SLOT_KINDS"
      using large by (auto simp: class_kinds_def split: if_splits)
    moreover have "int (class_count s k) \<le> class_limit (sc_policy s) k"
      using lim on by (simp add: within_limits_def preempted(3))
    ultimately show "int (dict_count (\<lambda>l. lr_slot_kind (al_request l) \<in> class_kinds k) (sc_active_leases s'))
        + (if lr_slot_kind request \<in> class_kinds k then 1 else 0) \<le> class_limit (sc_policy s') k"
      using preempted_count [OF wf preempted(2), of k] by (simp add: preempted(3) split: if_splits)
  qed
qed simp_all

lemma free_acquire_inv:
  assumes "sched_inv s" and "dict_get (sc_active_leases s) uuid = None"
    and "pl_enabled (sc_policy s) \<Longrightarrow> capacity_reason s request = None"
  shows "sched_inv (snd (acquire_locked s request now uuid reason))"
proof (rule acquire_locked_inv)
  fix k
  assume on: "pl_enabled (sc_policy s)"
  have old: "int (class_count s k) \<le> class_limit (sc_policy s) k"
    using assms(1) on by (simp add: sched_inv_def within_limits_def)
  have new: "int (class_count s k) < class_limit (sc_policy s) k" if "lr_slot_kind request \<in> class_kinds k"
    using assms(3) [OF on] class_kinds_eq [OF that, of "sc_policy s"]
    by (simp add: capacity_reason_None class_count_def)
  show "int (dict_count (\<lambda>l. lr_slot_kind (al_request l) \<in> class_kinds k) (sc_active_leases s))
      + (if lr_slot_kind request \<in> class_kinds k then 1 else 0) \<le> class_limit (sc_policy s) k"
    using old new by (auto simp: class_count_def)
qed (use assms in \<open>simp_all add: sched_inv_def\<close>)

lemma acquire_inv:
  assumes "sched_inv s" and "dict_get (sc_active_leases s) uuid = None"
  shows "sched_inv (snd (acquire s request now uuid))"
proof -
  have "sched_inv (snd (capacity_decision_locked s request now uuid))"
  proof (cases "capacity_reason s request")
    case None
    with assms show ?thesis by (simp add: capacity_decision_locked_def free_acquire_inv)
  next
    case (Some reason)
    obtain b s' where pre: "preempt_lower_priority_large_leases_locked s = (b, s')" by fastforce
    have "\<not> b \<Longrightarrow> sched_inv s'"
      using pre by (cases rule: preempt_cases) (use assms(1) sched_inv_frame [of s' s] in auto)
    with pre preempt_acquire_inv [OF assms, of s' request] assms(1) Some show ?thesis
      by (auto simp: capacity_decision_locked_def)
  qed
  with assms show ?thesis
    by (auto simp: acquire_def acquire_locked_by_policy_def split: option.split intro!: free_acquire_inv)
qed

lemma sched_step_inv: "sched_step s s' \<Longrightarrow> sched_inv s \<Longrightarrow> sched_inv s'"
proof (induction rule: sched_step.induct)
  case (step_worker s e)
  then show ?case using sched_inv_frame [of "worker_step e s" s] by simp
qed (simp_all add: set_state_inv acquire_inv sched_release_inv)

lemma sched_inv_init: "limits_ok p \<Longrightarrow> sched_inv (scheduler_init (Some p))"
  by (simp add: sched_inv_def leases_wf_def within_limits_def busy_since_ok_def class_count_def
      scheduler_init_def limits_ok_def)

lemma reachable_inv:
  assumes "sched_step\<^sup>*\<^sup>* (scheduler_init (Some p)) s" and "limits_ok p"
  shows "sched_inv s"
  using assms(1) by (induction rule: rtranclp_induct) (simp_all add: sched_inv_init assms(2) sched_step_inv)

lemma sched_step_policy: "sched_step s s' \<Longrightarrow> sc_policy s' = sc_policy s"
proof (induction rule: sched_step.induct)
  case (step_acquire s uuid request now)
  obtain b s' where pre: "preempt_lower_priority_large_leases_locked s = (b, s')" by fastforce
  then have "sc_policy s' = sc_policy s" by (cases rule: preempt_cases) auto
  with pre show ?case
    by (auto simp: acquire_def acquire_locked_by_policy_def capacity_decision_locked_def acquire_locked_def
        Let_def split: option.split)
qed (auto simp: set_state_def sched_release_def Let_def split: option.split)

lemma reachable_policy:
  "sched_step\<^sup>*\<^sup>* (scheduler_init (Some p)) s \<Longrightarrow> sc_policy s = p"
  by (induction rule: rtranclp_induct) (simp_all add: scheduler_init_def sched_step_policy)

lemma slot_kind_partition:
  "length (filter (\<lambda>l. lr_slot_kind (al_request l) = SK_LARGE_LLM) ls)
   + length (filter (\<lambda>l. lr_slot_kind (al_request l) = SK_BACKGROUND_LLM) ls)
   + length (filter (\<lambda>l. lr_slot_kind (al_request l) = SK_SMALL_CLASSIFIER) ls)
   + length (filter (\<lambda>l. lr_slot_kind (al_request l) = SK_EMBEDDING) ls)
   + length (filter (\<lambda>l. lr_slot_kind (al_request l) = SK_RERANKER) ls) = length ls"
proof (induction ls)
  case (Cons l ls)
  then show ?case by (cases "lr_slot_kind (al_request l)") auto
qed simp

text \<open>What a request does to the leases, by the three ways it can end.\<close>

lemma acquire_cases:
  assumes "acquire s request now uuid = (r, s')"
  obtains (granted) reason where "acquire_locked s request now uuid reason = (r, s')"
  | (refused) "sc_active_leases s' = sc_active_leases s" "ls_lease_id r = None"
  | (displaced) s1 reason where "can_preempt_for request" "preempt_lower_priority_large_leases_locked s = (True, s1)"
      "acquire_locked s1 request now uuid reason = (r, s')"
proof -
  obtain b s1 where pre: "preempt_lower_priority_large_leases_locked s = (b, s1)" by fastforce
  have same: "\<not> b \<Longrightarrow> sc_active_leases s1 = sc_active_leases s"
    using pre by (cases rule: preempt_cases) auto
  show thesis
  proof (cases "\<not> pl_enabled (sc_policy s) \<or> state_rejection_locked s request now \<noteq> None \<or> capacity_reason s request = None")
    case True
    then show thesis
      using assms granted refused
      by (auto simp: acquire_def acquire_locked_by_policy_def capacity_decision_locked_def state_rejection_locked_def
          reject_locked_def split: if_splits option.splits)
  next
    case False
    then show thesis
      using assms refused displaced pre same
      by (cases b) (auto simp: acquire_def acquire_locked_by_policy_def capacity_decision_locked_def
          reject_locked_def split: if_splits option.splits)
  qed
qed

lemma acquire_locked_leases:
  assumes "acquire_locked s request now uuid reason = (r, s')"
  shows "sc_active_leases s' = dict_set uuid
      \<lparr>al_lease_id = uuid, al_request = request, al_acquired_at = now\<rparr> (sc_active_leases s) \<and>
    acquired r \<and> ls_lease_id r = Some uuid \<and> sc_tokens s' = (sc_tokens s)(uuid := new_token)"
  using assms by (auto simp: acquire_locked_def Let_def acquired_def)

section \<open>Properties\<close>

text \<open>
  C25. Invariant of the inference scheduler. In every state reachable from a fresh scheduler with an
  enabled policy and non-negative limits, under any interleaving of state changes, requests, releases
  and worker actions, the active leases of every slot class are within its limit (the two large kinds
  together), the snapshot reports exactly these counts, and it carries a busy time if and only if it
  reports the resource as busy.
\<close>

theorem scheduler_within_limits:
  assumes "sched_step\<^sup>*\<^sup>* (scheduler_init (Some p)) s" and "pl_enabled p" and "limits_ok p"
  shows "int (rs_active_large_slots (snapshot s now)) \<le> pl_large_llm_concurrency_limit p \<and>
    int (rs_active_small_classifier_slots (snapshot s now)) \<le> pl_small_classifier_concurrency_limit p \<and>
    int (rs_active_embedding_slots (snapshot s now)) \<le> pl_embedding_concurrency_limit p \<and>
    int (rs_active_reranker_slots (snapshot s now)) \<le> pl_reranker_concurrency_limit p \<and>
    rs_active_large_slots (snapshot s now) + rs_active_small_classifier_slots (snapshot s now)
      + rs_active_embedding_slots (snapshot s now) + rs_active_reranker_slots (snapshot s now)
      = length (sc_active_leases s) \<and>
    (rs_busy_since (snapshot s now) \<noteq> None \<longleftrightarrow> rs_state (snapshot s now) = RS_BUSY)"
proof -
  have inv: "sched_inv s" and policy: "sc_policy s = p"
    using reachable_inv [OF assms(1,3)] reachable_policy [OF assms(1)] by blast+
  have limit: "int (class_count s k) \<le> class_limit p k" for k
    using inv assms(2) by (simp add: sched_inv_def within_limits_def policy)
  have all: "active_large s + slot_count s SK_SMALL_CLASSIFIER + slot_count s SK_EMBEDDING + slot_count s SK_RERANKER
      = length (sc_active_leases s)"
    using slot_kind_partition [of "dict_values (sc_active_leases s)"]
    by (simp add: active_large_def slot_count_def dict_values_def)
  have "sc_busy_since s \<noteq> None" if "state_locked s = RS_BUSY"
    using inv that by (auto simp: sched_inv_def busy_since_ok_def state_locked_def split: option.splits if_splits)
  with limit [of SK_LARGE_LLM] limit [of SK_SMALL_CLASSIFIER] limit [of SK_EMBEDDING] limit [of SK_RERANKER] all
  show ?thesis
    by (simp add: snapshot_def snapshot_locked_def Let_def active_large_class slot_count_class LARGE_SLOT_KINDS_def)
qed

text \<open>
  C26. Preemption is confined. When a request is answered, every lease that was active is still
  active and unchanged, unless the request was granted, is a high-priority request for a large slot,
  and the lease is a low-priority, preemptible lease of a large slot whose worker has been asked to
  cancel and has acknowledged that it stopped. A granted request adds exactly the lease it names; a
  refused one adds none.
\<close>

theorem preemption_confined:
  assumes "leases_wf s" and "acquire s request now uuid = (r, s')"
    and "dict_get (sc_active_leases s) uuid = None"
  shows "(\<forall>i l. dict_get (sc_active_leases s) i = Some l \<longrightarrow>
      dict_get (sc_active_leases s') i = Some l \<or>
      (dict_get (sc_active_leases s') i = None \<and> acquired r \<and> can_preempt_for request \<and>
       lr_slot_kind (al_request l) \<in> LARGE_SLOT_KINDS \<and> lr_priority (al_request l) \<in> LOW_PRIORITIES \<and>
       lr_preemptible (al_request l) \<and> tk_stopped (sc_tokens s i) \<and> tk_cancel_requested (sc_tokens s' i))) \<and>
    (\<forall>i l. dict_get (sc_active_leases s) i = None \<and> dict_get (sc_active_leases s') i = Some l \<longrightarrow>
      ls_decision r = LD_ACQUIRED \<and> ls_lease_id r = Some i \<and> i = uuid \<and> al_request l = request)"
  using assms(2)
proof (cases rule: acquire_cases)
  case (granted reason)
  with acquire_locked_leases [OF granted] assms(3) show ?thesis
    by (auto simp: dict_get_set acquired_def split: if_splits)
next
  case refused
  then show ?thesis by auto
next
  case (displaced s1 reason)
  note new = acquire_locked_leases [OF displaced(3)]
  show ?thesis
    using displaced(2)
  proof (cases rule: preempt_cases)
    case (preempted tk)
    have get: "dict_get (sc_active_leases s') i =
        (if i = uuid then Some \<lparr>al_lease_id = uuid, al_request = request, al_acquired_at = now\<rparr>
         else if i \<in> al_lease_id ` set (preempt_targets s) then None else dict_get (sc_active_leases s) i)" for i
      using new by (simp add: dict_get_set preempted(3) pop_fold)
    have target: "lr_slot_kind (al_request l) \<in> LARGE_SLOT_KINDS \<and> lr_priority (al_request l) \<in> LOW_PRIORITIES \<and>
        lr_preemptible (al_request l) \<and> tk_stopped (sc_tokens s i) \<and> tk_cancel_requested (sc_tokens s' i)"
      if i: "dict_get (sc_active_leases s) i = Some l" "i \<in> al_lease_id ` set (preempt_targets s)" for i l
    proof -
      obtain l' where l': "l' \<in> set (preempt_targets s)" "al_lease_id l' = i" using i(2) by blast
      then have "l' = l" using target_active [OF assms(1) l'(1)] i(1) by simp
      moreover have "i \<noteq> uuid" using i(1) assms(3) by auto
      ultimately show ?thesis
        using target_active [OF assms(1) l'(1)] preempted(4,5) [OF l'(1)] l'(2) new by (simp add: preempted(3))
    qed
    have old: "dict_get (sc_active_leases s') i = Some l \<or>
        (dict_get (sc_active_leases s') i = None \<and> i \<in> al_lease_id ` set (preempt_targets s))"
      if "dict_get (sc_active_leases s) i = Some l" for i l
      using that get [of i] assms(3) by (cases "i = uuid") (auto split: if_splits)
    have added: "i = uuid \<and> al_request l = request"
      if "dict_get (sc_active_leases s) i = None" "dict_get (sc_active_leases s') i = Some l" for i l
      using that get [of i] by (auto split: if_splits)
    show ?thesis
      using old target added displaced(1) new unfolding acquired_def by blast
  qed simp_all
qed

text \<open>
  A scheduler whose large slots are all held by low-priority, preemptible work, and that is not
  switched off for large requests.
\<close>

definition displaceable :: "'cb scheduler \<Rightarrow> bool" where
  "displaceable s \<longleftrightarrow>
     pl_enabled (sc_policy s) \<and> 0 < pl_large_llm_concurrency_limit (sc_policy s) \<and>
     sc_state_override s \<in> {None, Some RS_WARMING} \<and>
     (\<forall>l\<in>set (dict_values (sc_active_leases s)). lr_slot_kind (al_request l) \<in> LARGE_SLOT_KINDS \<longrightarrow>
        lr_priority (al_request l) \<in> LOW_PRIORITIES \<and> lr_preemptible (al_request l))"

lemma displaceable_acquire:
  assumes "displaceable s" and "can_preempt_for request"
  shows "acquire s request now uuid = capacity_decision_locked s request now uuid"
proof -
  have "lr_priority request \<notin> LOW_PRIORITIES"
    using assms(2) by (auto simp: can_preempt_for_def HIGH_PRIORITIES_def LOW_PRIORITIES_def)
  then have "state_rejection_locked s request now = None"
    using assms(1)
    by (auto simp: displaceable_def state_rejection_locked_def state_locked_def explicit_large_model_busy_def)
  with assms(1) show ?thesis
    by (simp add: acquire_def acquire_locked_by_policy_def displaceable_def)
qed

lemma displaceable_targets:
  assumes "displaceable s" and "can_preempt_for request" and "capacity_reason s request \<noteq> None"
  shows "preempt_targets s \<noteq> [] \<and> (\<forall>l\<in>set (preempt_targets s). lr_preemptible (al_request l))"
proof -
  have large: "lr_slot_kind request \<in> LARGE_SLOT_KINDS" using assms(2) by (simp add: can_preempt_for_def)
  with assms(3) have "pl_large_llm_concurrency_limit (sc_policy s) \<le> int (active_large s)"
    by (auto simp: capacity_reason_def Let_def split: if_splits)
  with assms(1) have "0 < active_large s" by (auto simp: displaceable_def)
  then obtain l where "l \<in> set (dict_values (sc_active_leases s))" "lr_slot_kind (al_request l) \<in> LARGE_SLOT_KINDS"
    by (auto simp: active_large_class class_count_def dict_count_def class_kinds_def LARGE_SLOT_KINDS_def
        length_greater_0_conv filter_empty_conv simp flip: neq0_conv split: if_splits)
  with assms(1) show ?thesis
    by (auto simp: displaceable_def preempt_targets_def filter_empty_conv)
qed

lemma displaceable_frame:
  "sc_policy s' = sc_policy s \<Longrightarrow> sc_state_override s' = sc_state_override s \<Longrightarrow>
   sc_active_leases s' = sc_active_leases s \<Longrightarrow> displaceable s' = displaceable s \<and> preempt_targets s' = preempt_targets s"
  by (simp add: displaceable_def preempt_targets_def)

lemma displaceable_stopped:
  assumes "displaceable s" and "can_preempt_for request"
    and "\<And>l. l \<in> set (preempt_targets s) \<Longrightarrow> tk_stopped (sc_tokens s (al_lease_id l))"
  shows "acquired (fst (acquire s request now uuid))"
proof (cases "capacity_reason s request")
  case None
  then show ?thesis
    by (simp add: displaceable_acquire [OF assms(1,2)] capacity_decision_locked_def acquire_locked_def acquired_def Let_def)
next
  case (Some reason)
  obtain b s1 where pre: "preempt_lower_priority_large_leases_locked s = (b, s1)" by fastforce
  then have "b"
    using displaceable_targets [OF assms(1,2)] Some assms(3) by (cases rule: preempt_cases) auto
  with pre Some assms(2) show ?thesis
    by (simp add: displaceable_acquire [OF assms(1,2)] capacity_decision_locked_def acquire_locked_def acquired_def Let_def)
qed

lemma worker_fold_frame:
  "sc_policy (fold worker_step evs s) = sc_policy s \<and> sc_state_override (fold worker_step evs s) = sc_state_override s \<and>
   sc_active_leases (fold worker_step evs s) = sc_active_leases s"
  by (induction evs arbitrary: s) simp_all

lemma worker_step_stopped:
  "tk_stopped (sc_tokens (worker_step e s) i) \<longleftrightarrow> tk_stopped (sc_tokens s i) \<or> e = WE_Acknowledge i"
  by (cases e) (auto simp: register_cancellation_callback_def run_cancellation_callbacks_def acknowledge_stopped_def)

lemma worker_fold_stopped:
  "tk_stopped (sc_tokens (fold worker_step evs s) i) \<longleftrightarrow> tk_stopped (sc_tokens s i) \<or> WE_Acknowledge i \<in> set evs"
  by (induction evs arbitrary: s) (auto simp: worker_step_stopped)

text \<open>
  C27. High-priority work gets through. When the large slots are held by low-priority, preemptible
  work, a high-priority request for a large slot is granted at once, or else it is deferred, every
  worker in its way has been asked to cancel, and whatever the workers do next, once each of them has
  acknowledged, the request is granted when it is made again.
\<close>

theorem high_priority_gets_through:
  assumes "displaceable s" and "can_preempt_for request" and "acquire s request now uuid = (r, s')"
    and "\<And>l. l \<in> set (preempt_targets s') \<Longrightarrow> WE_Acknowledge (al_lease_id l) \<in> set evs"
  shows "acquired r \<or>
    (ls_decision r = LD_DEFER \<and> preempt_targets s' \<noteq> [] \<and>
     (\<forall>l\<in>set (preempt_targets s'). tk_cancel_requested (sc_tokens s' (al_lease_id l))) \<and>
     acquired (fst (acquire (fold worker_step evs s') request now' uuid')))"
proof (cases "capacity_reason s request")
  case None
  with assms(3) show ?thesis
    by (auto simp: displaceable_acquire [OF assms(1,2)] capacity_decision_locked_def acquire_locked_def acquired_def Let_def)
next
  case (Some reason)
  note targets = displaceable_targets [OF assms(1,2), unfolded Some, simplified]
  obtain b s1 where pre: "preempt_lower_priority_large_leases_locked s = (b, s1)" by fastforce
  have acq: "(r, s') = (if b then acquire_locked s1 request now uuid ''preempted lower-priority large LLM lease''
      else (reject_locked s1 request (busy_decision_for s1 request) reason now, s1))"
    using assms(2,3) Some pre
    by (simp add: displaceable_acquire [OF assms(1,2)] capacity_decision_locked_def)
  show ?thesis
    using pre
  proof (cases rule: preempt_cases)
    case refused
    with targets show ?thesis by blast
  next
    case (waiting tk)
    then have s': "s' = s\<lparr>sc_tokens := tk\<rparr>" and r: "ls_decision r = LD_DEFER"
      using acq assms(2) by (simp_all add: reject_locked_def busy_decision_for_def can_preempt_for_def)
    let ?s2 = "fold worker_step evs s'"
    have same: "displaceable ?s2" "preempt_targets ?s2 = preempt_targets s'" "preempt_targets s' = preempt_targets s"
      using assms(1) worker_fold_frame [of evs s'] displaceable_frame [of ?s2 s'] displaceable_frame [of s' s]
      by (simp_all add: s')
    have "acquired (fst (acquire ?s2 request now' uuid'))"
      using same(1) assms(2) by (rule displaceable_stopped) (simp add: same(2) worker_fold_stopped assms(4))
    moreover have "tk_cancel_requested (sc_tokens s' (al_lease_id l))" if "l \<in> set (preempt_targets s')" for l
      using waiting(4) that unfolding same(3) by (simp add: s')
    ultimately show ?thesis using r targets by (simp add: same(3))
  next
    case (preempted tk)
    with acq show ?thesis by (simp add: acquire_locked_def acquired_def Let_def)
  qed
qed

section \<open>Concrete runs\<close>

definition example_resource_policy :: resource_policy where
  "example_resource_policy = default_resource_policy\<lparr>pl_enabled := True\<rparr>"

definition example_request :: "work_priority \<Rightarrow> lease_request" where
  "example_request priority =
     \<lparr>lr_slot_kind = SK_LARGE_LLM, lr_priority = priority, lr_call_site = USER_RESPONSE_HOT_PATH,
      lr_model_slot = None, lr_model_name = None, lr_preemptible = True, lr_metadata = []\<rparr>"

text \<open>The single large slot is held by background work.\<close>

definition example_scheduler :: "unit scheduler" where
  "example_scheduler =
     snd (acquire (scheduler_init (Some example_resource_policy)) (example_request WP_BACKGROUND) 0 ''a'')"

lemmas example_sched_defs = example_request_def example_resource_policy_def default_resource_policy_def
  scheduler_init_def acquire_def acquire_locked_by_policy_def state_rejection_locked_def state_locked_def
  explicit_large_model_busy_def capacity_decision_locked_def capacity_reason_def active_large_def slot_count_def
  LARGE_SLOT_KINDS_def LOW_PRIORITIES_def HIGH_PRIORITIES_def dict_values_def acquire_locked_def Let_def

lemma example_scheduler_eq:
  "example_scheduler =
     \<lparr>sc_policy = example_resource_policy, sc_state_override = None,
      sc_active_leases = [(''a'', \<lparr>al_lease_id = ''a'', al_request = example_request WP_BACKGROUND, al_acquired_at = 0\<rparr>)],
      sc_busy_since = Some 0, sc_tokens = (\<lambda>_. new_token)\<rparr>"
  unfolding example_scheduler_def by (simp add: example_sched_defs fun_eq_iff)

lemma example_scheduler_reachable:
  "sched_step\<^sup>*\<^sup>* (scheduler_init (Some example_resource_policy)) example_scheduler"
  unfolding example_scheduler_def by (intro r_into_rtranclp sched_step.step_acquire) (simp add: scheduler_init_def)

lemma example_limits: "limits_ok example_resource_policy" "pl_enabled example_resource_policy"
proof -
  have "0 \<le> class_limit example_resource_policy k" for k
    by (cases k) (simp_all add: example_resource_policy_def default_resource_policy_def)
  then show "limits_ok example_resource_policy" by (simp add: limits_ok_def)
qed (simp add: example_resource_policy_def)

theorem scheduler_within_limits_witness:
  "int (rs_active_large_slots (snapshot example_scheduler 5)) \<le> 1 \<and>
   rs_state (snapshot example_scheduler 5) = RS_BUSY \<and> rs_busy_since (snapshot example_scheduler 5) \<noteq> None"
proof -
  have "rs_state (snapshot example_scheduler 5) = RS_BUSY"
    by (simp add: example_scheduler_eq snapshot_def snapshot_locked_def state_locked_def Let_def)
  with scheduler_within_limits [OF example_scheduler_reachable example_limits(2,1), of 5] show ?thesis
    by (simp add: example_resource_policy_def default_resource_policy_def)
qed

text \<open>The worker has stopped: a user-facing request takes the slot.\<close>

theorem preemption_confined_witness:
  "\<exists>r s'. acquire (worker_step (WE_Acknowledge ''a'') example_scheduler)
       (example_request WP_USER_FACING_RESPONSE) 1 ''b'' = (r, s') \<and>
     dict_get (sc_active_leases s') ''a'' = None \<and> acquired r \<and> tk_cancel_requested (sc_tokens s' ''a'')"
proof -
  let ?s = "worker_step (WE_Acknowledge ''a'') example_scheduler"
  let ?q = "example_request WP_USER_FACING_RESPONSE"
  have wf: "leases_wf ?s" by (simp add: leases_wf_def example_scheduler_eq dict_wf_def dict_keys_def)
  have fresh: "dict_get (sc_active_leases ?s) ''b'' = None" by (simp add: example_scheduler_eq)
  obtain r s' where run: "acquire ?s ?q 1 ''b'' = (r, s')" by fastforce
  have gone: "dict_get (sc_active_leases s') ''a'' = None"
    using run by (auto simp: example_scheduler_eq example_sched_defs can_preempt_for_def acknowledge_stopped_def
        preempt_lower_priority_large_leases_locked_def preempt_targets_def request_cancellation_def)
  obtain l where "dict_get (sc_active_leases ?s) ''a'' = Some l" by (simp add: example_scheduler_eq)
  then have "acquired r \<and> tk_cancel_requested (sc_tokens s' ''a'')"
    using preemption_confined [OF wf run fresh, THEN conjunct1, rule_format, of "''a''" l] gone by simp
  with gone run show ?thesis by blast
qed

theorem high_priority_gets_through_witness:
  "ls_decision (fst (acquire example_scheduler (example_request WP_SAFETY_CRITICAL) 1 ''b'')) = LD_DEFER \<and>
   acquired (fst (acquire (fold worker_step [WE_RunCallbacks ''a'', WE_Acknowledge ''a'']
     (snd (acquire example_scheduler (example_request WP_SAFETY_CRITICAL) 1 ''b'')))
     (example_request WP_SAFETY_CRITICAL) 2 ''c''))"
proof -
  let ?q = "example_request WP_SAFETY_CRITICAL"
  let ?evs = "[WE_RunCallbacks ''a'', WE_Acknowledge ''a''] :: unit worker_event list"
  obtain r s' where run: "acquire example_scheduler ?q 1 ''b'' = (r, s')" by fastforce
  have d: "displaceable example_scheduler"
    by (simp add: displaceable_def example_scheduler_eq example_sched_defs)
  have p: "can_preempt_for ?q" by (simp add: can_preempt_for_def example_sched_defs)
  have r: "ls_decision r = LD_DEFER" and s': "sc_active_leases s' = sc_active_leases example_scheduler"
    using run by (auto simp: example_scheduler_eq example_sched_defs can_preempt_for_def new_token_def
        preempt_lower_priority_large_leases_locked_def preempt_targets_def request_cancellation_def
        reject_locked_def busy_decision_for_def)
  have "WE_Acknowledge (al_lease_id l) \<in> set ?evs" if "l \<in> set (preempt_targets s')" for l
    using that by (simp add: preempt_targets_def s' example_scheduler_eq dict_values_def split: if_splits)
  from high_priority_gets_through [OF d p run this, of 2 "''c''"] r run show ?thesis
    by (simp add: acquired_def)
qed

end
