(* ===== verification/Job_Runner.thy ===== *)
theory Job_Runner
  imports Job_Queue_Equiv Inference_Props
begin

text \<open>
  The background job runner, \<^verbatim>\<open>iris/runtime/learning/runner.py\<close>, over any queue backend: the
  backend is its step function on the calls of the \<^verbatim>\<open>BackgroundJobQueue\<close> protocol.

  Workers are code the runner only calls. A worker is given by whether it supports cooperative
  cancellation, by what it answers (the text of an exception, and the time it took), and by all that
  happens to the inference scheduler while it runs, its own use of the cancellation token as well as
  the requests of other tasks. Clock readings and uuids are sequences, of which the state counts how
  many were used. Logging is not modelled.
\<close>

section \<open>Configuration and state\<close>

record ('p, 'cb) job_worker =
  wk_cancellable :: bool
  wk_run :: "'p job_record \<Rightarrow> string option \<Rightarrow> string option \<times> seconds"
  wk_during :: "'p job_record \<Rightarrow> string option \<Rightarrow> 'cb scheduler \<Rightarrow> 'cb scheduler"

record ('p, 'cb) runner_config =
  rc_workers :: "(job_kind, ('p, 'cb) job_worker) dict"
  rc_max_jobs_per_run :: int
  rc_lease_seconds :: seconds
  rc_queue_policy :: queue_policy
  rc_clock :: "nat \<Rightarrow> datetime"
  rc_uuid :: "nat \<Rightarrow> string"

record ('s, 'cb) runner_state =
  rn_queue :: 's
  rn_scheduler :: "'cb scheduler option"
  rn_clock_reads :: nat
  rn_uuids :: nat
  rn_worker_runs :: "string list"
  rn_latest_metrics :: "queue_metrics option"

datatype runner_error = RunnerQueueError job_error | RunnerValueError string | RunnerTypeError string

type_synonym ('s, 'cb, 'a) runner_result = "(runner_error + 'a) \<times> ('s, 'cb) runner_state"

definition default_kind_policy :: kind_policy where
  "default_kind_policy =
     \<lparr>kp_concurrency_limit = 1, kp_timeout_seconds = 30, kp_max_pending_jobs = 100,
      kp_retry_backoff_base_seconds = 30, kp_retry_backoff_max_seconds = 1800,
      kp_defer_seconds_when_saturated = 30, kp_backpressure_mode = BM_DEFER, kp_uses_llm = False,
      kp_idle_only = False\<rparr>"

record runner_options =
  ro_max_jobs_per_run :: int
  ro_lease_seconds :: seconds
  ro_queue_policy :: "queue_policy option"

definition default_runner_options :: runner_options where
  "default_runner_options = \<lparr>ro_max_jobs_per_run = 5, ro_lease_seconds = 30, ro_queue_policy = None\<rparr>"

text \<open>
  \<^verbatim>\<open>_resolve_runner_options\<close>: the older keyword arguments, each of which may be missing, and the
  options object exclude each other.
\<close>

record legacy_options =
  lo_max_jobs_per_run :: "int option"
  lo_lease_seconds :: "seconds option"
  lo_queue_policy :: "queue_policy option"

definition resolve_runner_options ::
  "runner_options option \<Rightarrow> legacy_options option \<Rightarrow> runner_error + runner_options" where
  "resolve_runner_options options legacy =
     (case legacy of
        None \<Rightarrow> Inr (case options of None \<Rightarrow> default_runner_options | Some opts \<Rightarrow> opts)
      | Some l \<Rightarrow>
         (if options \<noteq> None
          then Inl (RunnerTypeError ''BackgroundJobRunner options cannot be combined with legacy kwargs'')
          else Inr \<lparr>ro_max_jobs_per_run = (case lo_max_jobs_per_run l of None \<Rightarrow> 5 | Some n \<Rightarrow> n),
                    ro_lease_seconds = (case lo_lease_seconds l of None \<Rightarrow> 30 | Some x \<Rightarrow> x),
                    ro_queue_policy = lo_queue_policy l\<rparr>))"

definition runner_policy :: "runner_options \<Rightarrow> runner_error + queue_policy" where
  "runner_policy opts =
     (case ro_queue_policy opts of
        Some p \<Rightarrow> Inr p
      | None \<Rightarrow>
         (let kp = default_kind_policy\<lparr>kp_concurrency_limit := ro_max_jobs_per_run opts\<rparr>
          in case kind_policy_post_init kp of
               Some m \<Rightarrow> Inl (RunnerValueError m)
             | None \<Rightarrow> Inr \<lparr>qp_default_policy = kp, qp_per_kind = []\<rparr>))"

text \<open>\<^verbatim>\<open>__init__\<close>: of two workers of one kind the later one is kept.\<close>

definition runner_init ::
  "(job_kind \<times> ('p, 'cb) job_worker) list \<Rightarrow> runner_options option \<Rightarrow> legacy_options option
     \<Rightarrow> (nat \<Rightarrow> datetime) \<Rightarrow> (nat \<Rightarrow> string) \<Rightarrow> runner_error + ('p, 'cb) runner_config" where
  "runner_init workers options legacy clock uuid =
     (case resolve_runner_options options legacy of
        Inl e \<Rightarrow> Inl e
      | Inr opts \<Rightarrow>
         (case runner_policy opts of
            Inl e \<Rightarrow> Inl e
          | Inr policy \<Rightarrow>
              Inr \<lparr>rc_workers = fold (\<lambda>(k, w). dict_set k w) workers [],
                   rc_max_jobs_per_run = ro_max_jobs_per_run opts, rc_lease_seconds = ro_lease_seconds opts,
                   rc_queue_policy = policy, rc_clock = clock, rc_uuid = uuid\<rparr>))"

section \<open>Helpers\<close>

definition read_now :: "('p, 'cb) runner_config \<Rightarrow> ('s, 'cb) runner_state \<Rightarrow> datetime \<times> ('s, 'cb) runner_state" where
  "read_now cfg st = (rc_clock cfg (rn_clock_reads st), st\<lparr>rn_clock_reads := Suc (rn_clock_reads st)\<rparr>)"

definition queue_call ::
  "('s \<Rightarrow> 'p job_op \<Rightarrow> 'p job_result \<times> 's) \<Rightarrow> 'p job_op \<Rightarrow> ('s, 'cb) runner_state
     \<Rightarrow> ('s, 'cb, 'p job_answer) runner_result" where
  "queue_call step x st =
     (let (a, q) = step (rn_queue st) x in (map_sum RunnerQueueError id a, st\<lparr>rn_queue := q\<rparr>))"

definition queue_update ::
  "('s \<Rightarrow> 'p job_op \<Rightarrow> 'p job_result \<times> 's) \<Rightarrow> 'p job_op \<Rightarrow> ('s, 'cb) runner_state
     \<Rightarrow> ('s, 'cb, unit) runner_result" where
  "queue_update step x st = map_prod (map_sum id (\<lambda>_. ())) id (queue_call step x st)"

definition job_uses_llm :: "'p job_record \<Rightarrow> kind_policy \<Rightarrow> bool" where
  "job_uses_llm job kp \<longleftrightarrow> rp_uses_llm (jb_resource_profile job) \<or> kp_uses_llm kp"

definition call_site_for_job_kind :: "job_kind \<Rightarrow> model_call_site" where
  "call_site_for_job_kind kind =
     (case kind of
        MEMORY_EXTRACTION \<Rightarrow> MEMORY_EXTRACTION_SITE
      | MEMORY_CONSOLIDATION \<Rightarrow> REFLECTION_SITE
      | REFLECTION \<Rightarrow> REFLECTION_SITE
      | RELATIONSHIP_UPDATE \<Rightarrow> RELATIONSHIP_UPDATE_SITE
      | INTERACTION_POLICY_CANDIDATE \<Rightarrow> INTERACTION_POLICY_CANDIDATE_SITE
      | _ \<Rightarrow> RUNTIME_LEARNING_HOOK)"

definition synthetic_acquired_lease :: "'p job_record \<Rightarrow> lease_result" where
  "synthetic_acquired_lease job =
     \<lparr>ls_decision = LD_ACQUIRED, ls_reason = ''no inference resource lease required'',
      ls_request =
        \<lparr>lr_slot_kind = SK_BACKGROUND_LLM,
         lr_priority = model_call_site_priority (call_site_for_job_kind (jb_kind job)),
         lr_call_site = call_site_for_job_kind (jb_kind job), lr_model_slot = None, lr_model_name = None,
         lr_preemptible = False,
         lr_metadata = [(''background_job_kind'', job_kind_value (jb_kind job))]\<rparr>,
      ls_snapshot =
        \<lparr>rs_state = RS_IDLE, rs_active_large_slots = 0, rs_active_small_classifier_slots = 0,
         rs_active_embedding_slots = 0, rs_active_reranker_slots = 0, rs_busy_since = None,
         rs_busy_duration_seconds = None\<rparr>,
      ls_lease_id = None\<rparr>"

definition job_lease_request :: "'p job_record \<Rightarrow> bool \<Rightarrow> lease_request" where
  "job_lease_request job worker_preemptible =
     (let descriptor = rp_model_call_descriptor (jb_resource_profile job);
          call_site = (case descriptor of Some d \<Rightarrow> md_call_site d | None \<Rightarrow> call_site_for_job_kind (jb_kind job))
      in \<lparr>lr_slot_kind = SK_BACKGROUND_LLM, lr_priority = model_call_site_priority call_site,
          lr_call_site = call_site,
          lr_model_slot = (case descriptor of Some d \<Rightarrow> md_model_slot d | None \<Rightarrow> None),
          lr_model_name = (case descriptor of Some d \<Rightarrow> md_model_name d | None \<Rightarrow> None),
          lr_preemptible = worker_preemptible,
          lr_metadata = [(''background_job_kind'', job_kind_value (jb_kind job)),
                         (''call_site'', model_call_site_value call_site)]\<rparr>)"

section \<open>Inference leases\<close>

definition acquire_inference_lease ::
  "('p, 'cb) runner_config \<Rightarrow> 'p job_record \<Rightarrow> ('p, 'cb) job_worker \<Rightarrow> ('s, 'cb) runner_state
     \<Rightarrow> lease_result \<times> ('s, 'cb) runner_state" where
  "acquire_inference_lease cfg job worker st =
     (case rn_scheduler st of
        None \<Rightarrow> (synthetic_acquired_lease job, st)
      | Some scheduler \<Rightarrow>
         if \<not> job_uses_llm job (for_kind (rc_queue_policy cfg) (jb_kind job))
         then (synthetic_acquired_lease job, st)
         else
          (let request = job_lease_request job (wk_cancellable worker);
               (now, st) = read_now cfg st;
               (result, scheduler) = acquire scheduler request now (rc_uuid cfg (rn_uuids st));
               st = st\<lparr>rn_scheduler := Some scheduler, rn_uuids := Suc (rn_uuids st)\<rparr>
           in if acquired result \<and> \<not> wk_cancellable worker
              then (let scheduler = (case ls_lease_id result of
                                       None \<Rightarrow> scheduler | Some i \<Rightarrow> snd (sched_release scheduler i));
                        (now, st) = read_now cfg (st\<lparr>rn_scheduler := Some scheduler\<rparr>)
                    in (\<lparr>ls_decision = LD_DEFER,
                         ls_reason = ''background LLM worker lacks cooperative cancellation'',
                         ls_request = request, ls_snapshot = snapshot scheduler now, ls_lease_id = None\<rparr>, st))
              else (result, st)))"

text \<open>The id of the token is that of its lease.\<close>

definition lease_cancellation_token :: "('s, 'cb) runner_state \<Rightarrow> lease_result \<Rightarrow> string option" where
  "lease_cancellation_token st result =
     (case rn_scheduler st of
        None \<Rightarrow> None
      | Some scheduler \<Rightarrow>
         (case ls_lease_id result of
            None \<Rightarrow> None
          | Some i \<Rightarrow> (case cancellation_token_of scheduler i of None \<Rightarrow> None | Some _ \<Rightarrow> Some i)))"

definition defer_leased_job ::
  "('s \<Rightarrow> 'p job_op \<Rightarrow> 'p job_result \<times> 's) \<Rightarrow> ('p, 'cb) runner_config \<Rightarrow> 'p job_record \<Rightarrow> string
     \<Rightarrow> ('s, 'cb) runner_state \<Rightarrow> ('s, 'cb, unit) runner_result" where
  "defer_leased_job step cfg job reason st =
     (let secs = kp_defer_seconds_when_saturated (for_kind (rc_queue_policy cfg) (jb_kind job));
          (now, st) = read_now cfg st
      in queue_update step (DeferLeasedOp (jb_job_id job) (now + timedelta_seconds secs) reason) st)"

fun lease_decision_value :: "lease_decision \<Rightarrow> string" where
  "lease_decision_value LD_ACQUIRED = ''acquired''"
| "lease_decision_value LD_DEFER = ''defer''"
| "lease_decision_value LD_CANCEL = ''cancel''"
| "lease_decision_value LD_NO_SEND = ''no_send''"
| "lease_decision_value LD_DENIED = ''denied''"

definition apply_inference_lease_rejection ::
  "('s \<Rightarrow> 'p job_op \<Rightarrow> 'p job_result \<times> 's) \<Rightarrow> ('p, 'cb) runner_config \<Rightarrow> 'p job_record \<Rightarrow> lease_result
     \<Rightarrow> ('s, 'cb) runner_state \<Rightarrow> ('s, 'cb, unit) runner_result" where
  "apply_inference_lease_rejection step cfg job result st =
     (let reason = ''inference resource '' @ lease_decision_value (ls_decision result) @ '': '' @ ls_reason result
      in if ls_decision result = LD_DEFER then defer_leased_job step cfg job reason st
         else (let (now, st) = read_now cfg st
               in queue_update step (MarkCancelledOp (jb_job_id job) now reason) st))"

definition runner_mark_retryable_failure ::
  "('s \<Rightarrow> 'p job_op \<Rightarrow> 'p job_result \<times> 's) \<Rightarrow> ('p, 'cb) runner_config \<Rightarrow> 'p job_record \<Rightarrow> string
     \<Rightarrow> ('s, 'cb) runner_state \<Rightarrow> ('s, 'cb, unit) runner_result" where
  "runner_mark_retryable_failure step cfg job exc st =
     (let (failed_at, st) = read_now cfg st
      in case retry_delay_seconds (for_kind (rc_queue_policy cfg) (jb_kind job)) (jb_attempts job) of
           Inl m \<Rightarrow> (Inl (RunnerValueError m), st)
         | Inr delay \<Rightarrow>
             queue_update step
               (MarkRetryableFailureOp (jb_job_id job) failed_at exc (failed_at + timedelta_seconds delay)) st)"

section \<open>A batch\<close>

text \<open>
  The worker's run: recorded, with the exception text it ended with; then the interference of the
  meantime. The elapsed time is only logged, by \<^verbatim>\<open>_record_soft_timeout\<close>.
\<close>

definition run_worker_with_failure_isolation ::
  "('p, 'cb) job_worker \<Rightarrow> 'p job_record \<Rightarrow> string option \<Rightarrow> ('s, 'cb) runner_state
     \<Rightarrow> (string option \<times> seconds) \<times> ('s, 'cb) runner_state" where
  "run_worker_with_failure_isolation worker job token st =
     (let given = (if wk_cancellable worker then token else None)
      in (wk_run worker job given,
          st\<lparr>rn_worker_runs := rn_worker_runs st @ [jb_job_id job],
             rn_scheduler := map_option (wk_during worker job given) (rn_scheduler st)\<rparr>))"

definition release_inference_lease ::
  "lease_result \<Rightarrow> ('s, 'cb) runner_state \<Rightarrow> bool \<times> ('s, 'cb) runner_state" where
  "release_inference_lease result st =
     (case (ls_lease_id result, rn_scheduler st) of
        (Some i, Some scheduler) \<Rightarrow>
          (let (active, scheduler') = sched_release scheduler i
           in (active, st\<lparr>rn_scheduler := Some scheduler'\<rparr>))
      | _ \<Rightarrow> (True, st))"

definition token_cancelled :: "string option \<Rightarrow> ('s, 'cb) runner_state \<Rightarrow> bool" where
  "token_cancelled token st =
     (case (token, rn_scheduler st) of
        (Some i, Some scheduler) \<Rightarrow> tk_cancel_requested (sc_tokens scheduler i)
      | _ \<Rightarrow> False)"

definition run_job ::
  "('s \<Rightarrow> 'p job_op \<Rightarrow> 'p job_result \<times> 's) \<Rightarrow> ('p, 'cb) runner_config \<Rightarrow> 'p job_record
     \<Rightarrow> ('s, 'cb) runner_state \<Rightarrow> ('s, 'cb, unit) runner_result" where
  "run_job step cfg job st =
     (case dict_get (rc_workers cfg) (jb_kind job) of
        None \<Rightarrow>
          (let (now, st) = read_now cfg st
           in queue_update step (MarkPermanentFailureOp (jb_job_id job) now
                (''no worker registered for '' @ job_kind_value (jb_kind job))) st)
      | Some worker \<Rightarrow>
         (let (result, st) = acquire_inference_lease cfg job worker st
          in if \<not> acquired result then apply_inference_lease_rejection step cfg job result st
             else
              (let token = lease_cancellation_token st result;
                   ((exception, elapsed), st) = run_worker_with_failure_isolation worker job token st;
                   (lease_still_active, st) = release_inference_lease result st;
                   cancellation_requested = token_cancelled token st
               in case exception of
                    Some exc \<Rightarrow> runner_mark_retryable_failure step cfg job exc st
                  | None \<Rightarrow>
                     (if cancellation_requested \<or> \<not> lease_still_active
                      then defer_leased_job step cfg job
                             ''inference resource defer: active lease disappeared before completion'' st
                      else (let (now, st) = read_now cfg st
                            in queue_update step (MarkSucceededOp (jb_job_id job) now) st)))))"

fun run_batch ::
  "('s \<Rightarrow> 'p job_op \<Rightarrow> 'p job_result \<times> 's) \<Rightarrow> ('p, 'cb) runner_config \<Rightarrow> 'p job_record list
     \<Rightarrow> ('s, 'cb) runner_state \<Rightarrow> ('s, 'cb, unit) runner_result" where
  "run_batch step cfg [] st = (Inr (), st)"
| "run_batch step cfg (job # jobs) st =
     (case run_job step cfg job st of
        (Inl e, st) \<Rightarrow> (Inl e, st)
      | (Inr _, st) \<Rightarrow> run_batch step cfg jobs st)"

definition lease_seconds_for_policy :: "('p, 'cb) runner_config \<Rightarrow> seconds" where
  "lease_seconds_for_policy cfg = max (rc_lease_seconds cfg) (max_timeout_seconds (rc_queue_policy cfg))"

text \<open>The hook says whether the runtime is idle; otherwise an idle scheduler will do.\<close>

definition idle_available_for_lease ::
  "('p, 'cb) runner_config \<Rightarrow> bool \<Rightarrow> ('s, 'cb) runner_state \<Rightarrow> bool \<times> ('s, 'cb) runner_state" where
  "idle_available_for_lease cfg hook_idle st =
     (if hook_idle then (True, st)
      else case rn_scheduler st of
        None \<Rightarrow> (False, st)
      | Some scheduler \<Rightarrow>
         (let (now, st) = read_now cfg st in (rs_state (snapshot scheduler now) = RS_IDLE, st)))"

definition run_once ::
  "('s \<Rightarrow> 'p job_op \<Rightarrow> 'p job_result \<times> 's) \<Rightarrow> ('p, 'cb) runner_config \<Rightarrow> bool
     \<Rightarrow> ('s, 'cb) runner_state \<Rightarrow> ('s, 'cb, nat) runner_result" where
  "run_once step cfg hook_idle st =
     (let (started_at, st) = read_now cfg st;
          (idle, st) = idle_available_for_lease cfg hook_idle st;
          (leased, st) = queue_call step (LeaseDueOp started_at (rc_max_jobs_per_run cfg)
                           (lease_seconds_for_policy cfg) (Some (rc_queue_policy cfg)) idle) st
      in case leased of
           Inr (LeasedAnswer jobs) \<Rightarrow>
             (case run_batch step cfg jobs st of
                (Inl e, st) \<Rightarrow> (Inl e, st)
              | (Inr _, st) \<Rightarrow>
                 (let (now, st) = read_now cfg st;
                      (metrics, st) = queue_call step (CollectMetricsOp now) st
                  in case metrics of
                       Inr (MetricsAnswer m) \<Rightarrow> (Inr (length jobs), st\<lparr>rn_latest_metrics := Some m\<rparr>)
                     | Inl e \<Rightarrow> (Inl e, st)
                     | _ \<Rightarrow> (Inl (RunnerTypeError ''metrics''), st)))
         | Inl e \<Rightarrow> (Inl e, st)
         | _ \<Rightarrow> (Inl (RunnerTypeError ''lease_due''), st))"

end
