(* ===== verification/Job_Runner_Props.thy ===== *)
theory Job_Runner_Props
  imports Job_Runner
begin

text \<open>
  Correctness of the job runner: a batch settles every job it leased, whatever the workers do; the
  runner gives back every inference lease; and it behaves the same over both queue backends.
\<close>

section \<open>Settling a job in the in-memory queue\<close>

text \<open>The update each settling call makes.\<close>

fun settle_update :: "'p job_op \<Rightarrow> 'p job_record \<Rightarrow> job_update" where
  "settle_update (MarkSucceededOp i t) j = plain_job_update JS_SUCCEEDED t"
| "settle_update (MarkPermanentFailureOp i t reason) j =
     (plain_job_update JS_FAILED_PERMANENT t)\<lparr>ju_last_error := Some reason\<rparr>"
| "settle_update (MarkCancelledOp i t reason) j = (plain_job_update JS_CANCELLED t)\<lparr>ju_last_error := Some reason\<rparr>"
| "settle_update (DeferLeasedOp i t reason) j =
     (plain_job_update JS_PENDING t)\<lparr>ju_not_before := Some t, ju_defer_reason := Some reason\<rparr>"
| "settle_update (MarkRetryableFailureOp i t reason retry) j =
     (plain_job_update (retry_failure_status (jb_attempts j + 1) (jb_max_attempts j)) t)
       \<lparr>ju_attempts := Some (jb_attempts j + 1), ju_not_before := Some retry, ju_last_error := Some reason\<rparr>"
| "settle_update _ j = plain_job_update (jb_status j) (jb_updated_at j)"

fun settles :: "string \<Rightarrow> 'p job_op \<Rightarrow> bool" where
  "settles i (MarkSucceededOp i' t) = (i' = i)"
| "settles i (MarkPermanentFailureOp i' t reason) = (i' = i)"
| "settles i (MarkCancelledOp i' t reason) = (i' = i)"
| "settles i (DeferLeasedOp i' t reason) = (i' = i)"
| "settles i (MarkRetryableFailureOp i' t reason retry) = (i' = i)"
| "settles i _ = False"

lemma mem_step_settles:
  assumes "settles i x" and "job_at q i = Some j"
  shows "mem_step q x = (Inr (DoneAnswer ()), q\<lparr>jq_jobs := dict_set i (replace_job j (settle_update x j)) (jq_jobs q)\<rparr>)"
  using assms
  by (cases x) (simp_all add: mark_succeeded_def mark_permanent_failure_def mark_cancelled_def update_terminal_def
      defer_leased_def mark_retryable_failure_def update_job_def require_job_def plain_job_update_def Let_def)

text \<open>How a job that was leased for a batch can end.\<close>

definition settled_by :: "('p, 'cb) runner_config \<Rightarrow> 'p job_record \<Rightarrow> 'p job_op \<Rightarrow> bool" where
  "settled_by cfg job x \<longleftrightarrow>
     (case dict_get (rc_workers cfg) (jb_kind job) of
        None \<Rightarrow> \<exists>t. x = MarkPermanentFailureOp (jb_job_id job) t (''no worker registered for '' @ job_kind_value (jb_kind job))
      | Some w \<Rightarrow>
          (\<exists>t reason. x = DeferLeasedOp (jb_job_id job)
             (t + timedelta_seconds (kp_defer_seconds_when_saturated (for_kind (rc_queue_policy cfg) (jb_kind job)))) reason) \<or>
          (\<exists>t reason. x = MarkCancelledOp (jb_job_id job) t reason) \<or>
          (\<exists>t token exc delay. x = MarkRetryableFailureOp (jb_job_id job) t exc (t + timedelta_seconds delay) \<and>
             fst (wk_run w job token) = Some exc \<and>
             retry_delay_seconds (for_kind (rc_queue_policy cfg) (jb_kind job)) (jb_attempts job) = Inr delay) \<or>
          (\<exists>t token. x = MarkSucceededOp (jb_job_id job) t \<and> fst (wk_run w job token) = None))"

lemma settled_byI:
  "dict_get (rc_workers cfg) (jb_kind job) = None \<Longrightarrow> settled_by cfg job
     (MarkPermanentFailureOp (jb_job_id job) t (''no worker registered for '' @ job_kind_value (jb_kind job)))"
  "dict_get (rc_workers cfg) (jb_kind job) = Some w \<Longrightarrow> settled_by cfg job (DeferLeasedOp (jb_job_id job)
     (t + timedelta_seconds (kp_defer_seconds_when_saturated (for_kind (rc_queue_policy cfg) (jb_kind job)))) reason)"
  "dict_get (rc_workers cfg) (jb_kind job) = Some w \<Longrightarrow> settled_by cfg job (MarkCancelledOp (jb_job_id job) t reason)"
  "dict_get (rc_workers cfg) (jb_kind job) = Some w \<Longrightarrow> fst (wk_run w job token) = Some exc \<Longrightarrow>
     retry_delay_seconds (for_kind (rc_queue_policy cfg) (jb_kind job)) (jb_attempts job) = Inr delay \<Longrightarrow>
     settled_by cfg job (MarkRetryableFailureOp (jb_job_id job) t exc (t + timedelta_seconds delay))"
  "dict_get (rc_workers cfg) (jb_kind job) = Some w \<Longrightarrow> fst (wk_run w job token) = None \<Longrightarrow>
     settled_by cfg job (MarkSucceededOp (jb_job_id job) t)"
  unfolding settled_by_def by auto

lemma settled_by_settles: "settled_by cfg job x \<Longrightarrow> settles (jb_job_id job) x"
  by (auto simp: settled_by_def split: option.splits)

text \<open>
  The parts of a runner state that a step on the queue does not touch, and what one job adds to the
  list of worker runs.
\<close>

definition job_run_of :: "'p job_record \<Rightarrow> string list \<Rightarrow> bool" where
  "job_run_of job ws \<longleftrightarrow> ws = [] \<or> ws = [jb_job_id job]"

lemma queue_update_eq:
  "queue_update step x st =
     (map_sum RunnerQueueError (\<lambda>_. ()) (fst (step (rn_queue st) x)), st\<lparr>rn_queue := snd (step (rn_queue st) x)\<rparr>)"
  by (simp add: queue_update_def queue_call_def case_prod_beta sum.map_comp comp_def)

lemma acquire_inference_lease_frame:
  assumes "acquire_inference_lease cfg job w st = (r, st')"
  shows "rn_queue st' = rn_queue st \<and> rn_worker_runs st' = rn_worker_runs st"
  using assms
  by (auto simp: acquire_inference_lease_def read_now_def Let_def case_prod_beta split: option.splits if_splits)

lemma release_inference_lease_frame:
  assumes "release_inference_lease r st = (b, st')"
  shows "rn_queue st' = rn_queue st \<and> rn_worker_runs st' = rn_worker_runs st"
  using assms by (auto simp: release_inference_lease_def case_prod_beta split: option.splits)

abbreviation clocked :: "('s, 'cb) runner_state \<Rightarrow> ('s, 'cb) runner_state" where
  "clocked st \<equiv> st\<lparr>rn_clock_reads := Suc (rn_clock_reads st)\<rparr>"

lemma defer_leased_job_eq:
  "defer_leased_job step cfg job reason st =
     queue_update step (DeferLeasedOp (jb_job_id job) (rc_clock cfg (rn_clock_reads st) +
       timedelta_seconds (kp_defer_seconds_when_saturated (for_kind (rc_queue_policy cfg) (jb_kind job)))) reason)
       (clocked st)"
  by (simp add: defer_leased_job_def read_now_def)

text \<open>What the runner does after the worker returned, as a function of how it ended.\<close>

definition run_end ::
  "('s \<Rightarrow> 'p job_op \<Rightarrow> 'p job_result \<times> 's) \<Rightarrow> ('p, 'cb) runner_config \<Rightarrow> 'p job_record \<Rightarrow> string option \<Rightarrow> bool
     \<Rightarrow> ('s, 'cb) runner_state \<Rightarrow> ('s, 'cb, unit) runner_result" where
  "run_end step cfg job exc lost st =
     (case exc of
        Some e \<Rightarrow> runner_mark_retryable_failure step cfg job e st
      | None \<Rightarrow>
         (if lost then defer_leased_job step cfg job
             ''inference resource defer: active lease disappeared before completion'' st
          else queue_update step (MarkSucceededOp (jb_job_id job) (rc_clock cfg (rn_clock_reads st))) (clocked st)))"

lemma run_job_ran:
  assumes "dict_get (rc_workers cfg) (jb_kind job) = Some w"
    and "acquire_inference_lease cfg job w st = (r, st1)" and "acquired r"
    and "run_worker_with_failure_isolation w job (lease_cancellation_token st1 r) st1 = ((exc, el), st2)"
    and "release_inference_lease r st2 = (b, st3)"
  shows "run_job step cfg job st =
    run_end step cfg job exc (token_cancelled (lease_cancellation_token st1 r) st3 \<or> \<not> b) st3"
  using assms by (simp add: run_job_def run_end_def read_now_def Let_def split: option.split)

lemma run_end_settled:
  assumes "0 \<le> jb_attempts job" and "dict_get (rc_workers cfg) (jb_kind job) = Some w"
    and "\<exists>tok. fst (wk_run w job tok) = exc"
  shows "\<exists>x. settled_by cfg job x \<and> run_end step cfg job exc lost st = queue_update step x (clocked st)"
proof (cases exc)
  case (Some e)
  obtain delay where "retry_delay_seconds (for_kind (rc_queue_policy cfg) (jb_kind job)) (jb_attempts job) = Inr delay"
    using assms(1) by (auto simp: retry_delay_seconds_def Let_def)
  moreover from this have "settled_by cfg job (MarkRetryableFailureOp (jb_job_id job) t e (t + timedelta_seconds delay))" for t
    using assms(2,3) Some by (auto intro: settled_byI(4))
  ultimately show ?thesis
    using Some unfolding run_end_def runner_mark_retryable_failure_def read_now_def Let_def by auto
next
  case None
  then obtain tok where "fst (wk_run w job tok) = None" using assms(3) by blast
  from settled_byI(5) [OF assms(2) this] settled_byI(2) [OF assms(2)] None show ?thesis
    by (cases lost) (auto simp: run_end_def defer_leased_job_eq)
qed

lemma run_job_settles:
  assumes "0 \<le> jb_attempts job"
  obtains x st1 ws where "settled_by cfg job x" "job_run_of job ws"
    "run_job step cfg job st = queue_update step x st1" "rn_queue st1 = rn_queue st"
    "rn_worker_runs st1 = rn_worker_runs st @ ws"
proof (cases "dict_get (rc_workers cfg) (jb_kind job)")
  case None
  then have "run_job step cfg job st = queue_update step (MarkPermanentFailureOp (jb_job_id job)
      (rc_clock cfg (rn_clock_reads st)) (''no worker registered for '' @ job_kind_value (jb_kind job))) (clocked st)"
    by (simp add: run_job_def read_now_def)
  from that [OF settled_byI(1) [OF None] _ this, of "[]"] show thesis by (simp add: job_run_of_def)
next
  case (Some w)
  obtain r st1 where lease: "acquire_inference_lease cfg job w st = (r, st1)" by fastforce
  note frame1 = acquire_inference_lease_frame [OF lease]
  show thesis
  proof (cases "acquired r")
    case False
    let ?reason = "''inference resource '' @ lease_decision_value (ls_decision r) @ '': '' @ ls_reason r"
    have run: "run_job step cfg job st =
        (if ls_decision r = LD_DEFER then defer_leased_job step cfg job ?reason st1
         else queue_update step (MarkCancelledOp (jb_job_id job) (rc_clock cfg (rn_clock_reads st1)) ?reason) (clocked st1))"
      using Some lease False by (simp add: run_job_def apply_inference_lease_rejection_def read_now_def Let_def)
    show thesis
    proof (cases "ls_decision r = LD_DEFER")
      case True
      from that [OF settled_byI(2) [OF Some] _ run [unfolded if_P [OF True] defer_leased_job_eq], of "[]"] frame1
      show thesis by (simp add: job_run_of_def)
    next
      case False
      from that [OF settled_byI(3) [OF Some] _ run [unfolded if_not_P [OF False]], of "[]"] frame1
      show thesis by (simp add: job_run_of_def)
    qed
  next
    case True
    let ?token = "lease_cancellation_token st1 r"
    obtain exc el st2 where ran: "run_worker_with_failure_isolation w job ?token st1 = ((exc, el), st2)"
      by (metis surj_pair)
    have frame2: "rn_queue st2 = rn_queue st1" "rn_worker_runs st2 = rn_worker_runs st1 @ [jb_job_id job]"
      and "wk_run w job (if wk_cancellable w then ?token else None) = (exc, el)"
      using ran by (auto simp: run_worker_with_failure_isolation_def Let_def)
    then have wk: "\<exists>tok. fst (wk_run w job tok) = exc" by (metis fst_conv)
    obtain b st3 where rel: "release_inference_lease r st2 = (b, st3)" by fastforce
    note frame3 = release_inference_lease_frame [OF rel]
    note run = run_job_ran [OF Some lease True ran rel]
    from run_end_settled [OF assms Some wk, of step "token_cancelled ?token st3 \<or> \<not> b" st3]
    obtain x where x: "settled_by cfg job x" "run_job step cfg job st = queue_update step x (clocked st3)"
      unfolding run by blast
    from that [OF x(1) _ x(2), of "[jb_job_id job]"] frame1 frame2 frame3 show thesis
      by (simp add: job_run_of_def)
  qed
qed

section \<open>A batch over the in-memory queue\<close>

definition settled :: "('p, 'cb) runner_config \<Rightarrow> 'p job_record \<Rightarrow> 'p job_record \<Rightarrow> bool" where
  "settled cfg job job' \<longleftrightarrow> (\<exists>x. settled_by cfg job x \<and> job' = replace_job job (settle_update x job))"

lemma settled_same: "settled cfg job job' \<Longrightarrow> jb_job_id job' = jb_job_id job \<and> jb_idempotency_key job' = jb_idempotency_key job"
  by (auto simp: settled_def)

text \<open>One job: the queue changes at that job only, which is settled.\<close>

lemma run_job_mem:
  fixes st :: "('p job_queue, 'cb) runner_state"
  assumes "job_queue_inv (rn_queue st)" and "job_at (rn_queue st) (jb_job_id job) = Some job" and "0 \<le> jb_attempts job"
  obtains st' ws job' where "run_job mem_step cfg job st = (Inr (), st')" "settled cfg job job'"
    "jq_jobs (rn_queue st') = dict_set (jb_job_id job) job' (jq_jobs (rn_queue st))"
    "job_queue_inv (rn_queue st')" "rn_worker_runs st' = rn_worker_runs st @ ws" "job_run_of job ws"
proof -
  obtain x st1 ws where x: "settled_by cfg job x" "job_run_of job ws"
      "run_job mem_step cfg job st = queue_update mem_step x st1" "rn_queue st1 = rn_queue st"
      "rn_worker_runs st1 = rn_worker_runs st @ ws"
    using run_job_settles [OF assms(3), of cfg mem_step st] by blast
  let ?job' = "replace_job job (settle_update x job)"
  have "mem_step (rn_queue st) x =
      (Inr (DoneAnswer ()), (rn_queue st)\<lparr>jq_jobs := dict_set (jb_job_id job) ?job' (jq_jobs (rn_queue st))\<rparr>)"
    using settled_by_settles [OF x(1)] assms(2) by (rule mem_step_settles)
  then have "run_job mem_step cfg job st = (Inr (), st1\<lparr>rn_queue :=
      (rn_queue st)\<lparr>jq_jobs := dict_set (jb_job_id job) ?job' (jq_jobs (rn_queue st))\<rparr>\<rparr>)"
    by (simp add: x(3,4) queue_update_eq)
  moreover have "settled cfg job ?job'" using x(1) by (auto simp: settled_def)
  ultimately show thesis
    using that [of _ ?job' ws] x(2,5) job_inv_set [OF assms(1,2), of ?job'] by simp
qed

lemma run_batch_mem:
  fixes st :: "('p job_queue, 'cb) runner_state"
  assumes "job_queue_inv (rn_queue st)" and "distinct (map jb_job_id jobs)"
    and "\<And>job. job \<in> set jobs \<Longrightarrow> job_at (rn_queue st) (jb_job_id job) = Some job \<and> 0 \<le> jb_attempts job"
  shows "\<exists>st' ws. run_batch mem_step cfg jobs st = (Inr (), st') \<and> job_queue_inv (rn_queue st') \<and>
    (\<forall>job\<in>set jobs. \<exists>job'. job_at (rn_queue st') (jb_job_id job) = Some job' \<and> settled cfg job job') \<and>
    (\<forall>i. i \<notin> jb_job_id ` set jobs \<longrightarrow> job_at (rn_queue st') i = job_at (rn_queue st) i) \<and>
    rn_worker_runs st' = rn_worker_runs st @ ws \<and> subseq ws (map jb_job_id jobs)"
  using assms
proof (induction jobs arbitrary: st)
  case Nil
  then show ?case by (auto intro: exI [of _ "[]"])
next
  case (Cons job jobs)
  have job: "job_at (rn_queue st) (jb_job_id job) = Some job" "0 \<le> jb_attempts job"
    using Cons.prems(3) by auto
  obtain st1 ws job' where r: "run_job mem_step cfg job st = (Inr (), st1)" "settled cfg job job'"
      "jq_jobs (rn_queue st1) = dict_set (jb_job_id job) job' (jq_jobs (rn_queue st))"
      "job_queue_inv (rn_queue st1)" "rn_worker_runs st1 = rn_worker_runs st @ ws" "job_run_of job ws"
    using run_job_mem [OF Cons.prems(1) job] by blast
  have at: "job_at (rn_queue st1) i = (if i = jb_job_id job then Some job' else job_at (rn_queue st) i)" for i
    by (simp add: r(3) dict_get_set)
  have "\<And>j. j \<in> set jobs \<Longrightarrow> job_at (rn_queue st1) (jb_job_id j) = Some j \<and> 0 \<le> jb_attempts j"
    using Cons.prems(3) distinct_map_head [OF Cons.prems(2)] by (simp add: at)
  then obtain st' ws' where st': "run_batch mem_step cfg jobs st1 = (Inr (), st')" "job_queue_inv (rn_queue st')"
      "\<forall>j\<in>set jobs. \<exists>j'. job_at (rn_queue st') (jb_job_id j) = Some j' \<and> settled cfg j j'"
      "\<forall>i. i \<notin> jb_job_id ` set jobs \<longrightarrow> job_at (rn_queue st') i = job_at (rn_queue st1) i"
      "rn_worker_runs st' = rn_worker_runs st1 @ ws'" "subseq ws' (map jb_job_id jobs)"
    using Cons.IH [OF r(4)] Cons.prems(2) by auto
  have "job_at (rn_queue st') (jb_job_id job) = Some job'"
    using st'(4) Cons.prems(2) by (simp add: at)
  moreover have "subseq (ws @ ws') (map jb_job_id (job # jobs))"
    using r(6) st'(6) by (auto simp: job_run_of_def)
  moreover have "rn_worker_runs st' = rn_worker_runs st @ (ws @ ws')" by (simp add: st'(5) r(5))
  moreover have "\<forall>i. i \<notin> jb_job_id ` set (job # jobs) \<longrightarrow> job_at (rn_queue st') i = job_at (rn_queue st) i"
    using st'(4) by (simp add: at)
  ultimately show ?case using r(1,2) st'(1,2,3) by auto
qed

lemma find_distinct: "distinct (map f xs) \<Longrightarrow> x \<in> set xs \<Longrightarrow> find (\<lambda>y. f y = f x) xs = Some x"
  by (induction xs) auto

lemma job_lease_due_jobs:
  assumes "job_queue_inv q" and "job_lease_due q now m secs policy idle = (jobs, q')"
  shows "job_queue_inv q'" and "distinct (map jb_job_id jobs)"
    and "job \<in> set jobs \<Longrightarrow> job_at q' (jb_job_id job) = Some job \<and>
       (\<exists>j0. job_at q (jb_job_id job) = Some j0 \<and> job = leased_job j0 now secs)"
    and "i \<notin> jb_job_id ` set jobs \<Longrightarrow> job_at q' i = job_at q i"
proof -
  let ?js = "picked_jobs q now m policy idle"
  note facts = picked_jobs_facts [OF assms(1) refl, of now m policy idle]
  have jobs: "jobs = map (\<lambda>j. leased_job j now secs) ?js"
    using assms(2) by (simp add: job_lease_due_eq)
  have at: "job_at q' i = (case find (\<lambda>j. jb_job_id j = i) ?js of
      Some j \<Rightarrow> Some (leased_job j now secs) | None \<Rightarrow> job_at q i)" for i
    using job_at_lease_due [OF assms(1) refl, of now m secs policy idle i] by (simp add: assms(2))
  show "job_queue_inv q'" using job_lease_due_inv [OF assms(1), of now m secs policy idle] by (simp add: assms(2))
  show "distinct (map jb_job_id jobs)" using facts by (simp add: jobs comp_def)
  show "job_at q' (jb_job_id job) = Some job \<and>
      (\<exists>j0. job_at q (jb_job_id job) = Some j0 \<and> job = leased_job j0 now secs)" if job: "job \<in> set jobs"
  proof -
    obtain j where j: "j \<in> set ?js" "job = leased_job j now secs" using job jobs by auto
    with facts show ?thesis by (simp add: at find_distinct)
  qed
  show "job_at q' i = job_at q i" if "i \<notin> jb_job_id ` set jobs"
  proof -
    have "find (\<lambda>j. jb_job_id j = i) ?js = None" using that by (auto simp: jobs find_None_iff image_iff)
    then show ?thesis by (simp add: at)
  qed
qed

section \<open>Properties\<close>


section \<open>Inference leases are given back\<close>

text \<open>Of the ids the runner draws, only the given one may be active.\<close>

definition holds_only :: "('p, 'cb) runner_config \<Rightarrow> string option \<Rightarrow> ('s, 'cb) runner_state \<Rightarrow> bool" where
  "holds_only cfg held st \<longleftrightarrow>
     (\<forall>s n. rn_scheduler st = Some s \<longrightarrow> Some (rc_uuid cfg n) \<noteq> held \<longrightarrow>
        dict_get (sc_active_leases s) (rc_uuid cfg n) = None)"

text \<open>Other tasks draw other uuids.\<close>

definition draws_other_ids :: "('p, 'cb) runner_config \<Rightarrow> ('p, 'cb) job_worker \<Rightarrow> bool" where
  "draws_other_ids cfg w \<longleftrightarrow>
     (\<forall>job token s n. dict_get (sc_active_leases s) (rc_uuid cfg n) = None \<longrightarrow>
        dict_get (sc_active_leases (wk_during w job token s)) (rc_uuid cfg n) = None)"

lemma acquire_adds:
  assumes "acquire s request now uuid = (r, s')"
  shows "(ls_lease_id r = None \<or> acquired r \<and> ls_lease_id r = Some uuid) \<and>
    (dict_get (sc_active_leases s) i = None \<longrightarrow> Some i \<noteq> ls_lease_id r \<longrightarrow> dict_get (sc_active_leases s') i = None)"
  using assms
proof (cases rule: acquire_cases)
  case (granted reason)
  with acquire_locked_leases [OF granted] show ?thesis by (simp add: dict_get_set)
next
  case refused
  then show ?thesis by simp
next
  case (displaced s1 reason)
  have "dict_get (sc_active_leases s) i = None \<Longrightarrow> dict_get (sc_active_leases s1) i = None"
    using displaced(2) by (cases rule: preempt_cases) (simp_all add: pop_fold)
  with acquire_locked_leases [OF displaced(3)] show ?thesis by (simp add: dict_get_set)
qed

lemma sched_release_removes:
  "dict_get (sc_active_leases (snd (sched_release s i))) i' = (if i' = i then None else dict_get (sc_active_leases s) i')"
proof -
  have "sc_active_leases (snd (sched_release s i)) = dict_pop i (sc_active_leases s)"
    by (auto simp: sched_release_def Let_def dict_pop_absent split: option.split)
  then show ?thesis by (simp add: dict_get_pop)
qed

lemma acquire_inference_lease_holds:
  assumes "acquire_inference_lease cfg job w st = (r, st')" and "holds_only cfg None st"
  shows "holds_only cfg (ls_lease_id r) st' \<and> (\<not> acquired r \<longrightarrow> ls_lease_id r = None)"
proof (cases "\<exists>s. rn_scheduler st = Some s \<and> job_uses_llm job (for_kind (rc_queue_policy cfg) (jb_kind job))")
  case False
  with assms show ?thesis
    by (auto simp: acquire_inference_lease_def synthetic_acquired_lease_def acquired_def split: option.splits if_splits)
next
  case True
  then obtain s where s: "rn_scheduler st = Some s" "job_uses_llm job (for_kind (rc_queue_policy cfg) (jb_kind job))"
    by blast
  obtain r1 s1 where acq: "acquire s (job_lease_request job (wk_cancellable w)) (rc_clock cfg (rn_clock_reads st))
      (rc_uuid cfg (rn_uuids st)) = (r1, s1)" by fastforce
  have free: "Some (rc_uuid cfg n) \<noteq> ls_lease_id r1 \<Longrightarrow> dict_get (sc_active_leases s1) (rc_uuid cfg n) = None" for n
    using acquire_adds [OF acq, of "rc_uuid cfg n"] assms(2) s(1) by (simp add: holds_only_def)
  show ?thesis
    using assms(1) s acq acquire_adds [OF acq] free
    by (auto simp: acquire_inference_lease_def read_now_def holds_only_def acquired_def Let_def
        sched_release_removes split: if_splits option.splits)
qed

lemma holds_only_frame: "rn_scheduler st' = rn_scheduler st \<Longrightarrow> holds_only cfg x st' = holds_only cfg x st"
  by (simp add: holds_only_def)

lemma queue_update_scheduler [simp]: "rn_scheduler (snd (queue_update step x st)) = rn_scheduler st"
  by (simp add: queue_update_eq)

lemma run_end_scheduler: "rn_scheduler (snd (run_end step cfg job exc lost st)) = rn_scheduler st"
  by (simp add: run_end_def defer_leased_job_eq runner_mark_retryable_failure_def read_now_def
      split: option.split sum.split)

lemma release_inference_lease_holds:
  assumes "release_inference_lease r st = (b, st')" and "holds_only cfg (ls_lease_id r) st"
  shows "holds_only cfg None st'"
  using assms
  by (auto simp: release_inference_lease_def holds_only_def case_prod_beta sched_release_removes split: option.splits)

lemma run_job_holds:
  assumes "holds_only cfg None st" and "\<And>k w. dict_get (rc_workers cfg) k = Some w \<Longrightarrow> draws_other_ids cfg w"
  shows "holds_only cfg None (snd (run_job step cfg job st))"
proof (cases "dict_get (rc_workers cfg) (jb_kind job)")
  case None
  then show ?thesis using assms(1) by (simp add: run_job_def read_now_def holds_only_def)
next
  case (Some w)
  obtain r st1 where lease: "acquire_inference_lease cfg job w st = (r, st1)" by fastforce
  note held = acquire_inference_lease_holds [OF lease assms(1)]
  show ?thesis
  proof (cases "acquired r")
    case False
    with Some lease held show ?thesis
      by (simp add: run_job_def apply_inference_lease_rejection_def defer_leased_job_eq read_now_def
          holds_only_def Let_def)
  next
    case True
    obtain exc el st2 where ran:
        "run_worker_with_failure_isolation w job (lease_cancellation_token st1 r) st1 = ((exc, el), st2)"
      by (metis surj_pair)
    obtain b st3 where rel: "release_inference_lease r st2 = (b, st3)" by fastforce
    have "holds_only cfg (ls_lease_id r) st2"
      using ran held assms(2) [OF Some]
      by (auto simp: run_worker_with_failure_isolation_def holds_only_def draws_other_ids_def Let_def)
    with rel have "holds_only cfg None st3" by (rule release_inference_lease_holds)
    then show ?thesis
      unfolding run_job_ran [OF Some lease True ran rel] holds_only_frame [OF run_end_scheduler] .
  qed
qed

lemma run_batch_holds:
  assumes "holds_only cfg None st" and "\<And>k w. dict_get (rc_workers cfg) k = Some w \<Longrightarrow> draws_other_ids cfg w"
  shows "holds_only cfg None (snd (run_batch step cfg jobs st))"
  using assms(1)
proof (induction jobs arbitrary: st)
  case (Cons job jobs)
  have "holds_only cfg None (snd (run_job step cfg job st))"
    using Cons.prems assms(2) by (rule run_job_holds)
  with Cons.IH show ?case by (cases "run_job step cfg job st") (auto split: sum.split)
qed simp


section \<open>The runner over a backend\<close>

text \<open>Runner states that differ in the queue only, where the queues are related.\<close>

definition runner_sim ::
  "('s \<Rightarrow> 'q \<Rightarrow> bool) \<Rightarrow> ('s, 'cb) runner_state \<Rightarrow> ('q, 'cb) runner_state \<Rightarrow> bool" where
  "runner_sim sim st st' \<longleftrightarrow>
     sim (rn_queue st) (rn_queue st') \<and> rn_scheduler st = rn_scheduler st' \<and>
     rn_clock_reads st = rn_clock_reads st' \<and> rn_uuids st = rn_uuids st' \<and>
     rn_worker_runs st = rn_worker_runs st' \<and> rn_latest_metrics st = rn_latest_metrics st'"

definition same_answer ::
  "('s \<Rightarrow> 'q \<Rightarrow> bool) \<Rightarrow> 'a \<times> ('s, 'cb) runner_state \<Rightarrow> 'a \<times> ('q, 'cb) runner_state \<Rightarrow> bool" where
  "same_answer sim r r' \<longleftrightarrow> fst r = fst r' \<and> runner_sim sim (snd r) (snd r')"

lemma same_answerE:
  assumes "same_answer sim p p'"
  obtains a st st' where "p = (a, st)" "p' = (a, st')" "runner_sim sim st st'"
  using assms by (cases p; cases p') (auto simp: same_answer_def)

lemma runner_sim_clocked: "runner_sim sim st st' \<Longrightarrow> runner_sim sim (clocked st) (clocked st')"
  by (simp add: runner_sim_def)

lemma runner_sim_metrics:
  "runner_sim sim st st' \<Longrightarrow> runner_sim sim (st\<lparr>rn_latest_metrics := m\<rparr>) (st'\<lparr>rn_latest_metrics := m\<rparr>)"
  by (simp add: runner_sim_def)

lemma acquire_inference_lease_sim:
  "runner_sim sim st st' \<Longrightarrow>
     same_answer sim (acquire_inference_lease cfg job w st) (acquire_inference_lease cfg job w st')"
  by (auto simp: same_answer_def runner_sim_def acquire_inference_lease_def read_now_def Let_def case_prod_beta
      split: option.split)

lemma run_worker_sim:
  "runner_sim sim st st' \<Longrightarrow>
     same_answer sim (run_worker_with_failure_isolation w job token st) (run_worker_with_failure_isolation w job token st')"
  by (simp add: same_answer_def runner_sim_def run_worker_with_failure_isolation_def Let_def)

lemma release_inference_lease_sim:
  "runner_sim sim st st' \<Longrightarrow> same_answer sim (release_inference_lease r st) (release_inference_lease r st')"
  by (auto simp: same_answer_def runner_sim_def release_inference_lease_def case_prod_beta split: option.split)

lemma idle_available_sim:
  "runner_sim sim st st' \<Longrightarrow>
     same_answer sim (idle_available_for_lease cfg hook st) (idle_available_for_lease cfg hook st')"
  by (auto simp: same_answer_def runner_sim_def idle_available_for_lease_def read_now_def split: option.split)

lemma token_sim:
  "runner_sim sim st st' \<Longrightarrow> lease_cancellation_token st r = lease_cancellation_token st' r \<and>
     token_cancelled token st = token_cancelled token st'"
  by (simp add: runner_sim_def lease_cancellation_token_def token_cancelled_def)

context job_backend
begin

lemma queue_call_sim:
  assumes "runner_sim sim st st'" and "comparable x"
  shows "same_answer sim (queue_call step x st) (queue_call mem_step x st')"
  using assms step_answers [of "rn_queue st" "rn_queue st'" x] step_sim [of "rn_queue st" "rn_queue st'" x]
  by (simp add: same_answer_def runner_sim_def queue_call_def case_prod_beta)

lemma queue_update_sim:
  assumes "runner_sim sim st st'" and "comparable x"
  shows "same_answer sim (queue_update step x st) (queue_update mem_step x st')"
  using queue_call_sim [OF assms] by (simp add: same_answer_def queue_update_def)

lemma run_end_sim:
  assumes "runner_sim sim st st'"
  shows "same_answer sim (run_end step cfg job exc lost st) (run_end mem_step cfg job exc lost st')"
proof -
  have reads: "rn_clock_reads st = rn_clock_reads st'" using assms by (simp add: runner_sim_def)
  note upd = queue_update_sim [OF runner_sim_clocked [OF assms], unfolded reads]
  show ?thesis
    using runner_sim_clocked [OF assms]
    by (auto simp: run_end_def defer_leased_job_eq runner_mark_retryable_failure_def read_now_def reads upd
        same_answer_def [of _ "(Inl _, _)"] split: option.split sum.split)
qed

lemma run_job_sim:
  assumes "runner_sim sim st st'"
  shows "same_answer sim (run_job step cfg job st) (run_job mem_step cfg job st')"
proof (cases "dict_get (rc_workers cfg) (jb_kind job)")
  case None
  have reads: "rn_clock_reads st = rn_clock_reads st'" using assms by (simp add: runner_sim_def)
  show ?thesis
    using None queue_update_sim [OF runner_sim_clocked [OF assms], unfolded reads] by (simp add: run_job_def read_now_def reads)
next
  case (Some w)
  obtain r st1 st1' where lease: "acquire_inference_lease cfg job w st = (r, st1)"
      "acquire_inference_lease cfg job w st' = (r, st1')" and s1: "runner_sim sim st1 st1'"
    by (rule same_answerE [OF acquire_inference_lease_sim [OF assms, of cfg job w]])
  show ?thesis
  proof (cases "acquired r")
    case False
    have reads: "rn_clock_reads st1 = rn_clock_reads st1'" using s1 by (simp add: runner_sim_def)
    show ?thesis
      using Some lease False queue_update_sim [OF runner_sim_clocked [OF s1], unfolded reads]
      by (simp add: run_job_def apply_inference_lease_rejection_def defer_leased_job_eq read_now_def reads Let_def)
  next
    case True
    let ?token = "lease_cancellation_token st1 r"
    have token: "lease_cancellation_token st1' r = ?token" using token_sim [OF s1] by simp
    obtain exc el st2 st2' where ran: "run_worker_with_failure_isolation w job ?token st1 = ((exc, el), st2)"
        "run_worker_with_failure_isolation w job ?token st1' = ((exc, el), st2')" and s2: "runner_sim sim st2 st2'"
      using run_worker_sim [OF s1, of w job ?token] unfolding same_answer_def by (metis prod.collapse)
    obtain b st3 st3' where rel: "release_inference_lease r st2 = (b, st3)" "release_inference_lease r st2' = (b, st3')"
        and s3: "runner_sim sim st3 st3'"
      by (rule same_answerE [OF release_inference_lease_sim [OF s2, of r]])
    show ?thesis
      unfolding run_job_ran [OF Some lease(1) True ran(1) rel(1)]
        run_job_ran [OF Some lease(2) True ran(2) [folded token] rel(2), unfolded token]
      using run_end_sim [OF s3] token_sim [OF s3] by simp
  qed
qed

lemma run_batch_sim:
  "runner_sim sim st st' \<Longrightarrow> same_answer sim (run_batch step cfg jobs st) (run_batch mem_step cfg jobs st')"
proof (induction jobs arbitrary: st st')
  case Nil
  then show ?case by (simp add: same_answer_def)
next
  case (Cons job jobs)
  obtain a st1 st1' where run: "run_job step cfg job st = (a, st1)" "run_job mem_step cfg job st' = (a, st1')"
      and s1: "runner_sim sim st1 st1'"
    by (rule same_answerE [OF run_job_sim [OF Cons.prems, of cfg job]])
  with Cons.IH [OF s1] show ?case by (auto simp: same_answer_def split: sum.split)
qed

lemma run_once_sim:
  assumes "runner_sim sim st st'"
  shows "same_answer sim (run_once step cfg hook st) (run_once mem_step cfg hook st')"
proof -
  have reads: "rn_clock_reads st = rn_clock_reads st'" using assms by (simp add: runner_sim_def)
  obtain idle st1 st1' where idle: "idle_available_for_lease cfg hook (clocked st) = (idle, st1)"
      "idle_available_for_lease cfg hook (clocked st') = (idle, st1')" and s1: "runner_sim sim st1 st1'"
    by (rule same_answerE [OF idle_available_sim [OF runner_sim_clocked [OF assms], of cfg hook]])
  let ?x = "LeaseDueOp (rc_clock cfg (rn_clock_reads st)) (rc_max_jobs_per_run cfg) (lease_seconds_for_policy cfg)
    (Some (rc_queue_policy cfg)) idle"
  obtain a st2 st2' where lease: "queue_call step ?x st1 = (a, st2)" "queue_call mem_step ?x st1' = (a, st2')"
      and s2: "runner_sim sim st2 st2'"
    by (rule same_answerE [OF queue_call_sim [OF s1, of ?x]]) simp
  show ?thesis
  proof (cases "\<exists>jobs. a = Inr (LeasedAnswer jobs)")
    case False
    with s2 show ?thesis
      by (auto simp: run_once_def read_now_def idle lease(1) lease(2) [unfolded reads] same_answer_def
          split: sum.split job_answer.split)
  next
    case True
    then obtain jobs where a: "a = Inr (LeasedAnswer jobs)" by blast
    obtain b st3 st3' where batch: "run_batch step cfg jobs st2 = (b, st3)" "run_batch mem_step cfg jobs st2' = (b, st3')"
        and s3: "runner_sim sim st3 st3'"
      by (rule same_answerE [OF run_batch_sim [OF s2, of cfg jobs]])
    have reads3: "rn_clock_reads st3 = rn_clock_reads st3'" using s3 by (simp add: runner_sim_def)
    let ?m = "CollectMetricsOp (rc_clock cfg (rn_clock_reads st3))"
    obtain d st4 st4' where met: "queue_call step ?m (clocked st3) = (d, st4)"
        "queue_call mem_step ?m (clocked st3') = (d, st4')" and s4: "runner_sim sim st4 st4'"
      by (rule same_answerE [OF queue_call_sim [OF runner_sim_clocked [OF s3], of ?m]]) simp
    show ?thesis
      using s3 s4
      by (auto simp: run_once_def read_now_def idle lease(1) lease(2) [unfolded reads] a batch
          met(1) met(2) [unfolded reads3] same_answer_def runner_sim_metrics split: sum.split job_answer.split)
  qed
qed

end

text \<open>
  C30. The runner does not depend on the backend. Started on a durable queue and an in-memory queue that
  hold the same jobs, and otherwise in the same state, a batch returns the same number or error, runs the
  same workers on the same jobs in the same order, leaves the same inference scheduler and metrics, and
  leaves queues that again hold the same jobs.
\<close>

theorem runner_backend_independent:
  assumes "runner_sim (table_sim c) st st'"
  shows "fst (run_once (sql_step c) cfg hook_idle st) = fst (run_once mem_step cfg hook_idle st') \<and>
    runner_sim (table_sim c) (snd (run_once (sql_step c) cfg hook_idle st)) (snd (run_once mem_step cfg hook_idle st'))"
  using sqljobs.run_once_sim [OF assms] by (simp add: same_answer_def)

section \<open>Concrete runs\<close>

definition example_worker :: "(string, unit) job_worker" where
  "example_worker = \<lparr>wk_cancellable = True, wk_run = (\<lambda>job _. (if jb_job_id job = ''b'' then Some ''boom'' else None, 1)),
     wk_during = (\<lambda>_ _ s. s)\<rparr>"

definition example_runner :: "(string, unit) runner_config" where
  "example_runner =
     \<lparr>rc_workers = [(MEMORY_EXTRACTION, example_worker)], rc_max_jobs_per_run = 5, rc_lease_seconds = 30,
      rc_queue_policy = \<lparr>qp_default_policy = default_kind_policy\<lparr>kp_concurrency_limit := 5\<rparr>, qp_per_kind = []\<rparr>,
      rc_clock = int, rc_uuid = show_nat\<rparr>"

definition example_runner_state :: "'s \<Rightarrow> ('s, unit) runner_state" where
  "example_runner_state q =
     \<lparr>rn_queue = q, rn_scheduler = Some (scheduler_init (Some example_resource_policy)), rn_clock_reads = 0,
      rn_uuids = 0, rn_worker_runs = [], rn_latest_metrics = None\<rparr>"

lemma example_queue_attempts: "job_at example_queue i = Some j \<Longrightarrow> 0 \<le> jb_attempts j"
  by (auto simp: example_queue_jobs example_job_def split: if_splits)



theorem runner_backend_independent_witness:
  "fst (run_once (sql_step plain_job_codec) example_runner False
       (example_runner_state (snd (sql_enqueue plain_job_codec [] (example_job ''a''))))) =
   fst (run_once mem_step example_runner False
       (example_runner_state (snd (job_enqueue job_queue_init (example_job ''a'')))))"
proof -
  have "table_sim plain_job_codec [] job_queue_init"
    using plain_job_codec_ok job_queue_inv_init by (simp add: table_sim_def job_queue_init_def)
  from table_sim_enqueue [OF this, of "example_job ''a''"]
  have "runner_sim (table_sim plain_job_codec)
      (example_runner_state (snd (sql_enqueue plain_job_codec [] (example_job ''a''))))
      (example_runner_state (snd (job_enqueue job_queue_init (example_job ''a''))))"
    by (simp add: runner_sim_def example_runner_state_def)
  from runner_backend_independent [OF this, of example_runner False] show ?thesis by blast
qed

end
