(* ===== verification/Output_Filter.thy ===== *)
theory Output_Filter
  imports Iris_Prelude
begin

text \<open>
  The output filter, \<^verbatim>\<open>BasicOutputSafetyGate\<close> of \<^verbatim>\<open>iris/safety/basic_output_filter.py\<close>,
  with the decisions of \<^verbatim>\<open>iris/safety/action_gate.py\<close>. A text is the list of its code points.
  \<^verbatim>\<open>str.casefold\<close> and the test for the Unicode categories Cc and Cf are arguments; of case
  folding only this is used: its result has no ASCII capital letters.
\<close>

datatype gate_decision = GATE_ALLOW | GATE_BLOCK

datatype filter_reason =
  TOO_LONG nat int | SECRET_PATTERN | CONTROL_CHARACTERS | HIGH_RISK_GUIDANCE

record filter_decision =
  fd_decision :: gate_decision
  fd_reason :: "filter_reason option"

section \<open>Patterns\<close>

text \<open>
  The regular expressions: a literal, possibly followed by at least so many characters of a class.
\<close>

record secret_pattern =
  pat_literal :: code_points
  pat_class :: "nat \<Rightarrow> bool"
  pat_repeat :: nat

definition ascii_alnum :: "nat \<Rightarrow> bool" where
  "ascii_alnum c \<longleftrightarrow> 97 \<le> c \<and> c \<le> 122 \<or> 65 \<le> c \<and> c \<le> 90 \<or> 48 \<le> c \<and> c \<le> 57"

definition SECRET_PATTERNS :: "secret_pattern list" where
  "SECRET_PATTERNS =
     [\<lparr>pat_literal = codes ''OPENAI_API_KEY'', pat_class = (\<lambda>_. False), pat_repeat = 0\<rparr>,
      \<lparr>pat_literal = codes ''ANTHROPIC_API_KEY'', pat_class = (\<lambda>_. False), pat_repeat = 0\<rparr>,
      \<lparr>pat_literal = codes ''GOOGLE_API_KEY'', pat_class = (\<lambda>_. False), pat_repeat = 0\<rparr>,
      \<lparr>pat_literal = codes ''sk-'', pat_class = (\<lambda>c. ascii_alnum c \<or> c = 45), pat_repeat = 10\<rparr>,
      \<lparr>pat_literal = codes ''ghp_'', pat_class = ascii_alnum, pat_repeat = 10\<rparr>,
      \<lparr>pat_literal = codes ''github_pat_'', pat_class = ascii_alnum, pat_repeat = 10\<rparr>]"

definition match_at :: "secret_pattern \<Rightarrow> code_points \<Rightarrow> bool" where
  "match_at p s \<longleftrightarrow>
     take (length (pat_literal p)) s = pat_literal p \<and>
     pat_repeat p \<le> length (takeWhile (pat_class p) (drop (length (pat_literal p)) s))"

text \<open>\<^verbatim>\<open>re.search\<close>: a match at some position.\<close>

fun re_search :: "secret_pattern \<Rightarrow> code_points \<Rightarrow> bool" where
  "re_search p [] = match_at p []"
| "re_search p (c # s) = (match_at p (c # s) \<or> re_search p s)"

definition contains_secret :: "(code_points \<Rightarrow> code_points) \<Rightarrow> code_points \<Rightarrow> bool" where
  "contains_secret casefold text = (\<exists>p\<in>set SECRET_PATTERNS. re_search p (casefold text))"

definition contains_control_characters :: "(nat \<Rightarrow> bool) \<Rightarrow> code_points \<Rightarrow> bool" where
  "contains_control_characters is_control text = (\<exists>c\<in>set text. is_control c \<and> c \<notin> {10, 13, 9})"

definition HARMFUL_TERMS :: "code_points list" where
  "HARMFUL_TERMS =
     [codes ''kill yourself'', codes ''commit suicide'', codes ''overdose'', codes ''build a bomb'',
      codes ''make a bomb'', codes ''poison someone'', codes ''steal password'',
      codes ''exfiltrate credentials'', [33258, 27578, 12375], [29190, 24382, 12434, 20316]]"

fun contains_term :: "code_points \<Rightarrow> code_points \<Rightarrow> bool" where
  "contains_term term [] = (term = [])"
| "contains_term term (c # s) = (take (length term) (c # s) = term \<or> contains_term term s)"

definition contains_high_risk_instruction :: "(code_points \<Rightarrow> code_points) \<Rightarrow> code_points \<Rightarrow> bool" where
  "contains_high_risk_instruction casefold text = (\<exists>t\<in>set HARMFUL_TERMS. contains_term t (casefold text))"

definition MAX_OUTPUT_CHARS :: int where
  "MAX_OUTPUT_CHARS = 4000"

definition check_output ::
  "(code_points \<Rightarrow> code_points) \<Rightarrow> (nat \<Rightarrow> bool) \<Rightarrow> int \<Rightarrow> code_points option \<Rightarrow> filter_decision" where
  "check_output casefold is_control max_output_chars text_opt =
     (case text_opt of
        None \<Rightarrow> \<lparr>fd_decision = GATE_ALLOW, fd_reason = None\<rparr>
      | Some text \<Rightarrow>
         (let reason =
            (if int (length text) > max_output_chars then Some (TOO_LONG (length text) max_output_chars)
             else if contains_secret casefold text then Some SECRET_PATTERN
             else if contains_control_characters is_control text then Some CONTROL_CHARACTERS
             else if contains_high_risk_instruction casefold text then Some HIGH_RISK_GUIDANCE
             else None)
          in \<lparr>fd_decision = (if reason \<noteq> None then GATE_BLOCK else GATE_ALLOW), fd_reason = reason\<rparr>))"

section \<open>What is filtered\<close>

definition folds_ascii :: "(code_points \<Rightarrow> code_points) \<Rightarrow> bool" where
  "folds_ascii casefold \<longleftrightarrow> (\<forall>t c. c \<in> set (casefold t) \<longrightarrow> \<not> (65 \<le> c \<and> c \<le> 90))"

lemma re_search_iff: "re_search p s \<longleftrightarrow> (\<exists>n\<le>length s. match_at p (drop n s))"
proof (induction s)
  case (Cons c s)
  show ?case
  proof
    assume "re_search p (c # s)"
    with Cons show "\<exists>n\<le>length (c # s). match_at p (drop n (c # s))"
      by (auto intro: exI [of _ 0] exI [of _ "Suc n" for n])
  next
    assume "\<exists>n\<le>length (c # s). match_at p (drop n (c # s))"
    then obtain n where "n \<le> length (c # s)" "match_at p (drop n (c # s))" by blast
    with Cons show "re_search p (c # s)" by (cases n) auto
  qed
qed simp

lemma contains_term_iff: "contains_term t s \<longleftrightarrow> (\<exists>u v. s = u @ t @ v)"
proof (induction s)
  case (Cons c s)
  have "take (length t) (c # s) = t \<longleftrightarrow> (\<exists>v. c # s = t @ v)"
    by (metis append_eq_conv_conj append_take_drop_id)
  then show ?case by (auto simp: Cons Cons_eq_append_conv)
qed auto

text \<open>A literal with a capital letter is never found in a folded text.\<close>

lemma capital_literal_unmatched:
  assumes "folds_ascii casefold" and "c \<in> set (pat_literal p)" and "65 \<le> c" and "c \<le> 90"
  shows "\<not> re_search p (casefold t)"
proof
  assume "re_search p (casefold t)"
  then obtain n where "take (length (pat_literal p)) (drop n (casefold t)) = pat_literal p"
    by (auto simp: re_search_iff match_at_def)
  then have "c \<in> set (casefold t)" using assms(2) by (metis in_set_dropD in_set_takeD)
  with assms(1,3,4) show False unfolding folds_ascii_def by blast
qed

text \<open>The three patterns that can match.\<close>

definition EFFECTIVE_PATTERNS :: "secret_pattern list" where
  "EFFECTIVE_PATTERNS = drop 3 SECRET_PATTERNS"

lemma contains_secret_effective:
  assumes "folds_ascii casefold"
  shows "contains_secret casefold text \<longleftrightarrow> (\<exists>p\<in>set EFFECTIVE_PATTERNS. re_search p (casefold text))"
proof -
  have "\<not> re_search p (casefold text)" if "p \<in> set (take 3 SECRET_PATTERNS)" for p
  proof -
    have "\<exists>c\<in>set (pat_literal p). 65 \<le> c \<and> c \<le> 90"
      using that by (auto simp: SECRET_PATTERNS_def codes_def)
    with capital_literal_unmatched [OF assms] show ?thesis by blast
  qed
  moreover have "set SECRET_PATTERNS = set (take 3 SECRET_PATTERNS) \<union> set EFFECTIVE_PATTERNS"
    unfolding EFFECTIVE_PATTERNS_def by (metis append_take_drop_id set_append)
  ultimately show ?thesis unfolding contains_secret_def by blast
qed

text \<open>
  C32. What the output filter lets through. A text is allowed exactly when it is not longer than the
  limit, its case-folded form has no key-like token (a known prefix followed by ten or more letters and
  digits), it has no control character other than tab and line breaks, and its case-folded form contains
  none of the harmful terms. The patterns for the names of the key variables never match: they are written
  in capitals and searched in the folded text.
\<close>

theorem output_filter_decides:
  assumes "folds_ascii casefold"
  shows "fd_decision (check_output casefold is_control limit (Some text)) = GATE_ALLOW \<longleftrightarrow>
    int (length text) \<le> limit \<and>
    \<not> (\<exists>p\<in>set EFFECTIVE_PATTERNS. \<exists>n\<le>length (casefold text). match_at p (drop n (casefold text))) \<and>
    \<not> (\<exists>c\<in>set text. is_control c \<and> c \<notin> {9, 10, 13}) \<and>
    \<not> (\<exists>t\<in>set HARMFUL_TERMS. \<exists>u v. casefold text = u @ t @ v)"
proof -
  have "contains_control_characters is_control text \<longleftrightarrow> (\<exists>c\<in>set text. is_control c \<and> c \<notin> {9, 10, 13})"
    by (auto simp: contains_control_characters_def)
  moreover have "fd_decision (check_output casefold is_control limit (Some text)) = GATE_ALLOW \<longleftrightarrow>
      int (length text) \<le> limit \<and> \<not> contains_secret casefold text \<and>
      \<not> contains_control_characters is_control text \<and> \<not> contains_high_risk_instruction casefold text"
    by (simp add: check_output_def Let_def)
  ultimately show ?thesis
    by (simp only: contains_secret_effective [OF assms] re_search_iff contains_high_risk_instruction_def contains_term_iff)
qed

definition ascii_lower :: "code_points \<Rightarrow> code_points" where
  "ascii_lower t = map (\<lambda>c. if 65 \<le> c \<and> c \<le> 90 then c + 32 else c) t"

lemma ascii_lower_folds: "folds_ascii ascii_lower"
  by (auto simp: folds_ascii_def ascii_lower_def)

text \<open>A text that names the variable of an API key passes.\<close>

theorem output_filter_decides_witness:
  "fd_decision (check_output ascii_lower (\<lambda>c. c < 32) MAX_OUTPUT_CHARS (Some (codes ''OPENAI_API_KEY=x''))) = GATE_ALLOW"
proof -
  have m: "\<not> re_search p (ascii_lower (codes ''OPENAI_API_KEY=x''))" if "p \<in> set EFFECTIVE_PATTERNS" for p
    using that by (auto simp: EFFECTIVE_PATTERNS_def SECRET_PATTERNS_def codes_def ascii_lower_def match_at_def)
  have h: "\<not> contains_term t (ascii_lower (codes ''OPENAI_API_KEY=x''))" if "t \<in> set HARMFUL_TERMS" for t
    using that by (auto simp: HARMFUL_TERMS_def codes_def ascii_lower_def)
  show ?thesis
    unfolding output_filter_decides [OF ascii_lower_folds] re_search_iff [symmetric] contains_term_iff [symmetric]
    using m h by (auto simp: MAX_OUTPUT_CHARS_def codes_def)
qed

end
