(* ===== verification/Safety_Policy.thy ===== *)
theory Safety_Policy
  imports Inference_Scheduler Delivery_Contracts
begin

text \<open>
  The deterministic safety checks before a delivery: \<^verbatim>\<open>iris/safety/policy_engine.py\<close>,
  \<^verbatim>\<open>iris/safety/delivery_gate.py\<close>, \<^verbatim>\<open>iris/contracts/{surface_policy,user_control,availability}.py\<close>,
  and the in-memory stores of user controls and of the safety audit. The conversion of an instant to the
  local time of day (\<^verbatim>\<open>ZoneInfo\<close>) is an argument.
\<close>

section \<open>Contracts\<close>

datatype availability_status =
  AV_UNKNOWN | AV_AVAILABLE | AV_INTERRUPTIBLE | AV_PASSIVE | AV_BUSY | AV_UNAVAILABLE

record availability_snapshot =
  as_actor_id :: "string option"
  as_status :: availability_status
  as_reason :: string
  as_observed_at :: "datetime option"
  as_computed_at :: datetime
  as_confidence :: rat

definition validate_confidence :: "availability_snapshot \<Rightarrow> string + availability_snapshot" where
  "validate_confidence s =
     (if \<not> (0 \<le> as_confidence s \<and> as_confidence s \<le> 1)
      then Inl ''confidence must be between 0.0 and 1.0'' else Inr s)"

datatype safety_severity = SV_LOW | SV_MEDIUM | SV_HIGH

datatype safety_category =
  SC_SELF_HARM | SC_ABUSE | SC_VIOLENCE | SC_ILLEGAL_OR_DANGEROUS | SC_PERSONAL_DATA | SC_UNKNOWN_HIGH_RISK

datatype safety_source = SS_USER_INITIATED | SS_PROACTIVE | SS_GENERATED_OUTPUT

datatype safety_directive = SD_ALLOW_SUPPORT | SD_SAFE_REDIRECT | SD_REFUSE | SD_BLOCK

record safety_context =
  sx_category :: safety_category
  sx_severity :: safety_severity
  sx_source :: safety_source
  sx_confidence :: rat
  sx_reasons :: "(string \<times> string) list"
  sx_directive :: safety_directive

record presented_output =
  po_text :: "string option"
  po_presentation_hints :: presentation_hints
  po_safety_block_reason :: "string option"
  po_policy_constraint_names :: "string list"
  po_safety_contexts :: "safety_context list"

text \<open>The characters \<^verbatim>\<open>str.strip\<close> removes, of the first 256.\<close>

definition py_space :: "char \<Rightarrow> bool" where
  "py_space c \<longleftrightarrow> (of_char c :: nat) \<in> {9, 10, 11, 12, 13, 28, 29, 30, 31, 32, 133, 160}"

definition is_sendable :: "presented_output \<Rightarrow> bool" where
  "is_sendable output = (case po_text output of None \<Rightarrow> False | Some t \<Rightarrow> \<exists>c\<in>set t. \<not> py_space c)"

record surface_policy =
  sp_allowed_surfaces :: "delivery_surface list"
  sp_allowed_providers :: "string list"
  sp_denied_surfaces :: "delivery_surface list"
  sp_denied_providers :: "string list"

text \<open>The first of a list of checks that is violated, with its reason.\<close>

fun first_violation :: "(bool \<times> 'r) list \<Rightarrow> 'r option" where
  "first_violation [] = None"
| "first_violation ((violated, reason) # checks) = (if violated then Some reason else first_violation checks)"

definition surface_reason :: "surface_policy \<Rightarrow> delivery_surface \<Rightarrow> string \<Rightarrow> string option" where
  "surface_reason p surface provider =
     first_violation
       [(surface \<in> set (sp_denied_surfaces p), ''surface_denied''),
        (provider \<in> set (sp_denied_providers p), ''provider_denied''),
        (sp_allowed_surfaces p \<noteq> [] \<and> surface \<notin> set (sp_allowed_surfaces p), ''surface_not_allowed''),
        (sp_allowed_providers p \<noteq> [] \<and> provider \<notin> set (sp_allowed_providers p), ''provider_not_allowed'')]"

record user_control_state =
  uc_opt_out :: bool
  uc_muted :: bool
  uc_blocked :: bool
  uc_interruptions_allowed :: bool
  uc_updated_at :: datetime

type_synonym user_control_store = "(string, user_control_state) dict"

definition user_control_get :: "user_control_store \<Rightarrow> string \<Rightarrow> user_control_state option" where
  "user_control_get store target_key = dict_get store target_key"

definition user_control_set :: "user_control_store \<Rightarrow> string \<Rightarrow> user_control_state \<Rightarrow> user_control_store" where
  "user_control_set store target_key state = dict_set target_key state store"

section \<open>The policy engine\<close>

datatype risk_level = RISK_LOW | RISK_MEDIUM | RISK_HIGH

datatype delivery_source = SRC_USER_INITIATED | SRC_PROACTIVE_IDLE_TICK

record audit_metadata =
  am_policy :: string
  am_policy_version :: string
  am_source :: delivery_source
  am_target_key :: string
  am_model_versions :: "string list"

record policy_context =
  pc_source :: delivery_source
  pc_target_key :: string
  pc_policy_constraint_names :: "string list"
  pc_safety_contexts :: "safety_context list"
  pc_availability_status :: "availability_status option"
  pc_in_quiet_hours :: bool
  pc_recent_block_count :: int

record policy_decision =
  pd_allowed :: bool
  pd_reason :: string
  pd_risk_level :: risk_level
  pd_not_before :: "datetime option"
  pd_audit :: audit_metadata

definition has_high_risk_safety_context :: "policy_context \<Rightarrow> bool" where
  "has_high_risk_safety_context cx \<longleftrightarrow> (\<exists>x\<in>set (pc_safety_contexts cx). sx_severity x = SV_HIGH)"

definition proactive_block :: "int \<Rightarrow> policy_context \<Rightarrow> (string \<times> risk_level) option" where
  "proactive_block repeated_block_threshold cx =
     (if pc_source cx \<noteq> SRC_PROACTIVE_IDLE_TICK then None
      else first_violation
        [(has_high_risk_safety_context cx, (''proactive_high_risk_safety_context'', RISK_HIGH)),
         (''sensitive_safety_context'' \<in> set (pc_policy_constraint_names cx),
            (''proactive_sensitive_safety_context'', RISK_HIGH)),
         (pc_availability_status cx = Some AV_BUSY, (''availability_busy'', RISK_MEDIUM)),
         (pc_availability_status cx = Some AV_UNAVAILABLE, (''availability_unavailable'', RISK_MEDIUM)),
         (pc_in_quiet_hours cx, (''quiet_hours'', RISK_MEDIUM)),
         (pc_recent_block_count cx \<ge> repeated_block_threshold, (''repeated_recent_blocks'', RISK_MEDIUM))])"

definition policy_allow :: "audit_metadata \<Rightarrow> policy_decision" where
  "policy_allow audit =
     \<lparr>pd_allowed = True, pd_reason = ''allowed'', pd_risk_level = RISK_LOW, pd_not_before = None, pd_audit = audit\<rparr>"

definition policy_block :: "string \<Rightarrow> risk_level \<Rightarrow> audit_metadata \<Rightarrow> policy_decision" where
  "policy_block reason risk audit =
     \<lparr>pd_allowed = False, pd_reason = reason, pd_risk_level = risk, pd_not_before = None, pd_audit = audit\<rparr>"

definition evaluate_delivery :: "int \<Rightarrow> policy_context \<Rightarrow> policy_decision" where
  "evaluate_delivery threshold cx =
     (let audit = \<lparr>am_policy = ''strict_delivery'', am_policy_version = ''1'', am_source = pc_source cx,
                   am_target_key = pc_target_key cx, am_model_versions = []\<rparr>
      in case proactive_block threshold cx of
           None \<Rightarrow> policy_allow audit
         | Some (reason, risk) \<Rightarrow> policy_block reason risk audit)"

section \<open>Delivery gates\<close>

text \<open>A time of day is its number of microseconds since midnight.\<close>

record quiet_hours_policy =
  qh_enabled :: bool
  qh_start :: int
  qh_end :: int
  qh_timezone :: string

record safety_decision =
  sd_allowed :: bool
  sd_reason :: string
  sd_not_before :: "datetime option"
  sd_risk_level :: risk_level
  sd_audit :: "audit_metadata option"

definition plain_decision :: "bool \<Rightarrow> string \<Rightarrow> safety_decision" where
  "plain_decision ok reason =
     \<lparr>sd_allowed = ok, sd_reason = reason, sd_not_before = None, sd_risk_level = RISK_LOW, sd_audit = None\<rparr>"

definition output_reason :: "presented_output \<Rightarrow> string option" where
  "output_reason output = (if \<not> is_sendable output then Some ''output_not_sendable'' else None)"

definition target_reason :: "delivery_target \<Rightarrow> string option" where
  "target_reason target =
     (if dt_provider target = [] then Some ''missing_provider''
      else if dt_provider_subject target = None \<and> dt_provider_space_ref target = None then Some ''missing_route''
      else None)"

definition availability_reason :: "availability_snapshot option \<Rightarrow> string option" where
  "availability_reason av =
     (case av of
        None \<Rightarrow> None
      | Some s \<Rightarrow> (case as_status s of
                    AV_BUSY \<Rightarrow> Some ''availability_busy''
                  | AV_UNAVAILABLE \<Rightarrow> Some ''availability_unavailable''
                  | _ \<Rightarrow> None))"

type_synonym zone_info = "string \<Rightarrow> datetime \<Rightarrow> int"

definition quiet_hours_reason :: "zone_info \<Rightarrow> quiet_hours_policy \<Rightarrow> datetime \<Rightarrow> string option" where
  "quiet_hours_reason tz qh now =
     (if \<not> qh_enabled qh then None
      else let current = tz (qh_timezone qh) now;
               in_window = (if qh_start qh < qh_end qh then qh_start qh \<le> current \<and> current < qh_end qh
                            else current \<ge> qh_start qh \<or> current < qh_end qh)
           in if in_window then Some ''quiet_hours'' else None)"

definition is_quiet_hours :: "zone_info \<Rightarrow> quiet_hours_policy \<Rightarrow> datetime \<Rightarrow> bool" where
  "is_quiet_hours tz qh now \<longleftrightarrow> quiet_hours_reason tz qh now \<noteq> None"

definition check_target_output :: "delivery_target \<Rightarrow> presented_output \<Rightarrow> safety_decision" where
  "check_target_output target output =
     (case output_reason output of
        Some reason \<Rightarrow> plain_decision False reason
      | None \<Rightarrow> (case target_reason target of
                  Some reason \<Rightarrow> plain_decision False reason
                | None \<Rightarrow> plain_decision True ''allowed''))"

definition basic_check ::
  "zone_info \<Rightarrow> quiet_hours_policy \<Rightarrow> delivery_target \<Rightarrow> presented_output \<Rightarrow> availability_snapshot option
     \<Rightarrow> datetime \<Rightarrow> safety_decision" where
  "basic_check tz qh target output av now =
     (let precheck = check_target_output target output
      in if \<not> sd_allowed precheck then precheck
         else case (case availability_reason av of Some r \<Rightarrow> Some r | None \<Rightarrow> quiet_hours_reason tz qh now) of
           Some reason \<Rightarrow> plain_decision False reason
         | None \<Rightarrow> plain_decision True ''allowed'')"

definition gate_target_key :: "delivery_target \<Rightarrow> string" where
  "gate_target_key target =
     dt_provider target @ '':'' @ (case dt_provider_subject target of None \<Rightarrow> [] | Some s \<Rightarrow> s) @ '':'' @
     (case dt_provider_space_ref target of None \<Rightarrow> [] | Some s \<Rightarrow> s)"

record strict_gate =
  sg_quiet_hours :: quiet_hours_policy
  sg_repeated_block_threshold :: int

definition strict_check ::
  "zone_info \<Rightarrow> strict_gate \<Rightarrow> delivery_target \<Rightarrow> presented_output \<Rightarrow> availability_snapshot option
     \<Rightarrow> datetime \<Rightarrow> policy_context option \<Rightarrow> safety_decision" where
  "strict_check tz g target output av now policy_context =
     (let precheck = check_target_output target output
      in if \<not> sd_allowed precheck then precheck
         else
          (let cx = (case policy_context of
                       Some cx \<Rightarrow> cx
                     | None \<Rightarrow> \<lparr>pc_source = SRC_USER_INITIATED, pc_target_key = gate_target_key target,
                                pc_policy_constraint_names = [], pc_safety_contexts = [],
                                pc_availability_status = None, pc_in_quiet_hours = False,
                                pc_recent_block_count = 0\<rparr>)
           in if pc_source cx = SRC_USER_INITIATED then basic_check tz (sg_quiet_hours g) target output av now
              else
               (let d = evaluate_delivery (sg_repeated_block_threshold g)
                          (cx\<lparr>pc_availability_status := map_option as_status av,
                              pc_in_quiet_hours := is_quiet_hours tz (sg_quiet_hours g) now\<rparr>)
                in \<lparr>sd_allowed = pd_allowed d, sd_reason = pd_reason d, sd_not_before = pd_not_before d,
                    sd_risk_level = pd_risk_level d, sd_audit = Some (pd_audit d)\<rparr>)))"

text \<open>
  The production gate; the optional collaborators are the store of user controls and what the
  resolver of the verifier's availability answers.
\<close>

record production_gate =
  pg_strict :: strict_gate
  pg_surface_policy :: surface_policy
  pg_user_control_store :: "user_control_store option"
  pg_final_verifier_enabled :: bool
  pg_verifier_availability :: "verifier_availability option"

definition user_control_reason :: "production_gate \<Rightarrow> delivery_target \<Rightarrow> presented_output \<Rightarrow> string option" where
  "user_control_reason g target output =
     (case pg_user_control_store g of
        None \<Rightarrow> None
      | Some store \<Rightarrow>
         (case user_control_get store (gate_target_key target) of
            None \<Rightarrow> None
          | Some state \<Rightarrow>
             (if uc_opt_out state then Some ''user_opted_out''
              else if uc_muted state then Some ''user_muted''
              else if uc_blocked state then Some ''user_blocked''
              else if ph_interruptible (po_presentation_hints output) \<and> \<not> uc_interruptions_allowed state
              then Some ''interruptions_disabled''
              else None)))"

definition verifier_reason :: "production_gate \<Rightarrow> string option" where
  "verifier_reason g =
     (if \<not> pg_final_verifier_enabled g then None
      else case pg_verifier_availability g of
        None \<Rightarrow> Some ''verifier_not_configured''
      | Some s \<Rightarrow> (case va_status s of
                    VS_AVAILABLE \<Rightarrow> None
                  | VS_WARMING \<Rightarrow> Some ''verifier_warming''
                  | VS_BUSY \<Rightarrow> Some ''verifier_busy''
                  | VS_UNAVAILABLE \<Rightarrow> Some ''verifier_unavailable''))"

definition production_block_reason :: "production_gate \<Rightarrow> delivery_target \<Rightarrow> presented_output \<Rightarrow> string option" where
  "production_block_reason g target output =
     (if dt_surface target = SF_UNKNOWN then Some ''unknown_delivery_surface''
      else case surface_reason (pg_surface_policy g) (dt_surface target) (dt_provider target) of
        Some violation \<Rightarrow> Some violation
      | None \<Rightarrow> (case user_control_reason g target output of
                  Some reason \<Rightarrow> Some reason
                | None \<Rightarrow> verifier_reason g))"

definition blocked_production_decision ::
  "delivery_target \<Rightarrow> policy_context option \<Rightarrow> string \<Rightarrow> safety_decision" where
  "blocked_production_decision target policy_context reason =
     \<lparr>sd_allowed = False, sd_reason = reason, sd_not_before = None, sd_risk_level = RISK_HIGH,
      sd_audit = Some \<lparr>am_policy = ''production_delivery'', am_policy_version = ''2'',
        am_source = (case policy_context of Some cx \<Rightarrow> pc_source cx | None \<Rightarrow> SRC_USER_INITIATED),
        am_target_key = gate_target_key target, am_model_versions = []\<rparr>\<rparr>"

definition production_check ::
  "zone_info \<Rightarrow> production_gate \<Rightarrow> delivery_target \<Rightarrow> presented_output \<Rightarrow> availability_snapshot option
     \<Rightarrow> datetime \<Rightarrow> policy_context option \<Rightarrow> safety_decision" where
  "production_check tz g target output av now policy_context =
     (case production_block_reason g target output of
        Some reason \<Rightarrow> blocked_production_decision target policy_context reason
      | None \<Rightarrow> strict_check tz (pg_strict g) target output av now policy_context)"

section \<open>The audit journal\<close>

datatype audit_stage = STAGE_OUTPUT | STAGE_DELIVERY

record audit_record =
  sa_observation_id :: string
  sa_occurred_at :: datetime
  sa_stage :: audit_stage
  sa_allowed :: bool
  sa_reason :: string
  sa_risk_level :: risk_level
  sa_source :: delivery_source
  sa_target_key :: string
  sa_policy :: string
  sa_policy_version :: string
  sa_retention_until :: "datetime option"
  sa_model_versions :: "string list"

record audit_journal =
  aj_records :: "audit_record list"
  aj_max_records :: nat

definition audit_journal_init :: "int \<Rightarrow> string + audit_journal" where
  "audit_journal_init max_records =
     (if max_records < 1 then Inl ''max_records must be at least 1''
      else Inr \<lparr>aj_records = [], aj_max_records = nat max_records\<rparr>)"

text \<open>\<^verbatim>\<open>deque(maxlen=...)\<close>: appending to a full deque drops the oldest record.\<close>

definition audit_append :: "audit_journal \<Rightarrow> audit_record \<Rightarrow> audit_journal" where
  "audit_append j r =
     (let records = aj_records j @ [r]
      in j\<lparr>aj_records := drop (length records - aj_max_records j) records\<rparr>)"

definition audit_block :: "string \<Rightarrow> datetime \<Rightarrow> audit_record \<Rightarrow> bool" where
  "audit_block target_key since r \<longleftrightarrow>
     sa_target_key r = target_key \<and> sa_stage r = STAGE_DELIVERY \<and> \<not> sa_allowed r \<and> sa_occurred_at r \<ge> since"

definition recent_block_count :: "audit_journal \<Rightarrow> string \<Rightarrow> datetime \<Rightarrow> nat" where
  "recent_block_count j target_key since = length (filter (audit_block target_key since) (aj_records j))"

definition journal_wf :: "audit_journal \<Rightarrow> bool" where
  "journal_wf j \<longleftrightarrow> 1 \<le> aj_max_records j \<and> length (aj_records j) \<le> aj_max_records j"

lemma audit_append_wf: "journal_wf j \<Longrightarrow> journal_wf (audit_append j r)"
  by (auto simp: journal_wf_def audit_append_def Let_def)

text \<open>A record that was just appended is in the journal, and counts.\<close>

lemma audit_append_counts:
  assumes "journal_wf j" and "audit_block key since r"
  shows "0 < recent_block_count (audit_append j r) key since"
proof -
  have "r \<in> set (aj_records (audit_append j r))"
    using assms(1) by (simp add: audit_append_def journal_wf_def Let_def)
  with assms(2) show ?thesis by (auto simp: recent_block_count_def filter_empty_conv simp flip: length_greater_0_conv)
qed

section \<open>Decisions\<close>

lemma first_violation_None: "first_violation checks = None \<longleftrightarrow> (\<forall>c\<in>set checks. \<not> fst c)"
  by (induction checks rule: first_violation.induct) auto

lemma check_target_output_allowed:
  "sd_allowed (check_target_output target output) \<longleftrightarrow>
     is_sendable output \<and> dt_provider target \<noteq> [] \<and>
     (dt_provider_subject target \<noteq> None \<or> dt_provider_space_ref target \<noteq> None)"
  by (auto simp: check_target_output_def output_reason_def target_reason_def plain_decision_def split: option.split)

lemma availability_reason_None:
  "availability_reason av = None \<longleftrightarrow> map_option as_status av \<notin> {Some AV_BUSY, Some AV_UNAVAILABLE}"
  by (auto simp: availability_reason_def split: option.splits availability_status.splits)

lemma basic_check_allowed:
  "sd_allowed (basic_check tz qh target output av now) \<longleftrightarrow>
     sd_allowed (check_target_output target output) \<and>
     map_option as_status av \<notin> {Some AV_BUSY, Some AV_UNAVAILABLE} \<and> \<not> is_quiet_hours tz qh now"
  using availability_reason_None [of av]
  by (auto simp: basic_check_def plain_decision_def is_quiet_hours_def Let_def split: option.split)

lemma evaluate_delivery_allowed:
  "pd_allowed (evaluate_delivery threshold cx) \<longleftrightarrow> proactive_block threshold cx = None"
  by (auto simp: evaluate_delivery_def policy_allow_def policy_block_def Let_def split: option.split)

lemma proactive_block_None:
  assumes "pc_source cx = SRC_PROACTIVE_IDLE_TICK"
  shows "proactive_block threshold cx = None \<longleftrightarrow>
    \<not> has_high_risk_safety_context cx \<and> ''sensitive_safety_context'' \<notin> set (pc_policy_constraint_names cx) \<and>
    pc_availability_status cx \<notin> {Some AV_BUSY, Some AV_UNAVAILABLE} \<and> \<not> pc_in_quiet_hours cx \<and>
    pc_recent_block_count cx < threshold"
  using assms by (auto simp: proactive_block_def)

lemma surface_reason_None:
  "surface_reason p surface provider = None \<longleftrightarrow>
     surface \<notin> set (sp_denied_surfaces p) \<and> provider \<notin> set (sp_denied_providers p) \<and>
     (sp_allowed_surfaces p = [] \<or> surface \<in> set (sp_allowed_surfaces p)) \<and>
     (sp_allowed_providers p = [] \<or> provider \<in> set (sp_allowed_providers p))"
  by (auto simp: surface_reason_def)

lemma production_block_reason_None:
  "production_block_reason g target output = None \<longleftrightarrow>
     dt_surface target \<noteq> SF_UNKNOWN \<and>
     surface_reason (pg_surface_policy g) (dt_surface target) (dt_provider target) = None \<and>
     user_control_reason g target output = None \<and> verifier_reason g = None"
  by (auto simp: production_block_reason_def split: option.split)

text \<open>What the user's controls and the verifier permit.\<close>

definition controls_permit :: "production_gate \<Rightarrow> delivery_target \<Rightarrow> presented_output \<Rightarrow> bool" where
  "controls_permit g target output \<longleftrightarrow>
     (\<forall>store state. pg_user_control_store g = Some store \<longrightarrow> dict_get store (gate_target_key target) = Some state \<longrightarrow>
        \<not> uc_opt_out state \<and> \<not> uc_muted state \<and> \<not> uc_blocked state \<and>
        (ph_interruptible (po_presentation_hints output) \<longrightarrow> uc_interruptions_allowed state))"

definition verifier_permits :: "production_gate \<Rightarrow> bool" where
  "verifier_permits g \<longleftrightarrow>
     (pg_final_verifier_enabled g \<longrightarrow> (\<exists>a. pg_verifier_availability g = Some a \<and> va_status a = VS_AVAILABLE))"

lemma user_control_reason_None: "user_control_reason g target output = None \<longleftrightarrow> controls_permit g target output"
  by (auto simp: user_control_reason_def user_control_get_def controls_permit_def split: option.splits)

lemma verifier_reason_None: "verifier_reason g = None \<longleftrightarrow> verifier_permits g"
  by (auto simp: verifier_reason_def verifier_permits_def split: option.splits verifier_status.splits)

lemma strict_check_proactive:
  assumes "pc_source cx = SRC_PROACTIVE_IDLE_TICK"
  shows "sd_allowed (strict_check tz g target output av now (Some cx)) \<longleftrightarrow>
    sd_allowed (check_target_output target output) \<and>
    \<not> has_high_risk_safety_context cx \<and> ''sensitive_safety_context'' \<notin> set (pc_policy_constraint_names cx) \<and>
    map_option as_status av \<notin> {Some AV_BUSY, Some AV_UNAVAILABLE} \<and> \<not> is_quiet_hours tz (sg_quiet_hours g) now \<and>
    pc_recent_block_count cx < sg_repeated_block_threshold g"
  using assms
  by (auto simp: strict_check_def evaluate_delivery_allowed proactive_block_None has_high_risk_safety_context_def Let_def)

text \<open>
  C31. What the production gate lets through. A proactive delivery is allowed exactly when the surface is
  known and permitted by the surface policy, the user has not opted out, muted or blocked (nor forbidden
  interruptions when the output interrupts), the final verifier is available if one is required, the output
  has text and the target a route, there is no high-risk or sensitive safety context, the user is not busy
  or unavailable, it is not a quiet hour, and the recent blocks are below the threshold. A delivery the
  user initiated needs the same except for the context and repetition checks.
\<close>

theorem production_gate_decides:
  "sd_allowed (production_check tz g target output av now policy_context) \<longleftrightarrow>
     dt_surface target \<noteq> SF_UNKNOWN \<and>
     dt_surface target \<notin> set (sp_denied_surfaces (pg_surface_policy g)) \<and>
     dt_provider target \<notin> set (sp_denied_providers (pg_surface_policy g)) \<and>
     (sp_allowed_surfaces (pg_surface_policy g) = [] \<or> dt_surface target \<in> set (sp_allowed_surfaces (pg_surface_policy g))) \<and>
     (sp_allowed_providers (pg_surface_policy g) = [] \<or> dt_provider target \<in> set (sp_allowed_providers (pg_surface_policy g))) \<and>
     controls_permit g target output \<and> verifier_permits g \<and>
     is_sendable output \<and> dt_provider target \<noteq> [] \<and>
     (dt_provider_subject target \<noteq> None \<or> dt_provider_space_ref target \<noteq> None) \<and>
     map_option as_status av \<notin> {Some AV_BUSY, Some AV_UNAVAILABLE} \<and>
     \<not> is_quiet_hours tz (sg_quiet_hours (pg_strict g)) now \<and>
     (case policy_context of
        None \<Rightarrow> True
      | Some cx \<Rightarrow> pc_source cx = SRC_USER_INITIATED \<or>
          (\<not> has_high_risk_safety_context cx \<and> ''sensitive_safety_context'' \<notin> set (pc_policy_constraint_names cx) \<and>
           pc_recent_block_count cx < sg_repeated_block_threshold (pg_strict g)))"
proof (cases "production_block_reason g target output")
  case (Some reason)
  then have "\<not> (dt_surface target \<noteq> SF_UNKNOWN \<and>
      surface_reason (pg_surface_policy g) (dt_surface target) (dt_provider target) = None \<and>
      controls_permit g target output \<and> verifier_permits g)"
    using production_block_reason_None [of g target "output"]
    by (simp add: user_control_reason_None verifier_reason_None)
  with Some show ?thesis
    unfolding surface_reason_None by (simp add: production_check_def blocked_production_decision_def) blast
next
  case None
  then have pass: "dt_surface target \<noteq> SF_UNKNOWN"
    "surface_reason (pg_surface_policy g) (dt_surface target) (dt_provider target) = None"
    "controls_permit g target output" "verifier_permits g"
    by (simp_all add: production_block_reason_None user_control_reason_None verifier_reason_None)
  have user: "sd_allowed (strict_check tz (pg_strict g) target output av now policy_context) =
      sd_allowed (basic_check tz (sg_quiet_hours (pg_strict g)) target output av now)"
    if "policy_context = None \<or> (\<exists>cx. policy_context = Some cx \<and> pc_source cx = SRC_USER_INITIATED)"
    using that by (auto simp: strict_check_def basic_check_allowed Let_def)
  show ?thesis
  proof (cases "policy_context = None \<or> (\<exists>cx. policy_context = Some cx \<and> pc_source cx = SRC_USER_INITIATED)")
    case True
    then show ?thesis
      using pass user [OF True] None
      by (auto simp: production_check_def surface_reason_None basic_check_allowed check_target_output_allowed)
  next
    case False
    then obtain cx where cx: "policy_context = Some cx" "pc_source cx = SRC_PROACTIVE_IDLE_TICK"
      by (cases policy_context) (auto intro: delivery_source.exhaust)
    show ?thesis
      using pass None strict_check_proactive [OF cx(2), of tz "pg_strict g" target "output" av now] cx
      by (auto simp: production_check_def surface_reason_None check_target_output_allowed)
  qed
qed

section \<open>Witnesses\<close>

definition example_gate :: production_gate where
  "example_gate =
     \<lparr>pg_strict = \<lparr>sg_quiet_hours = \<lparr>qh_enabled = False, qh_start = 0, qh_end = 0, qh_timezone = []\<rparr>,
                   sg_repeated_block_threshold = 3\<rparr>,
      pg_surface_policy = \<lparr>sp_allowed_surfaces = [], sp_allowed_providers = [], sp_denied_surfaces = [],
                           sp_denied_providers = []\<rparr>,
      pg_user_control_store = None, pg_final_verifier_enabled = False, pg_verifier_availability = None\<rparr>"

definition example_output :: presented_output where
  "example_output =
     \<lparr>po_text = Some ''hi'', po_presentation_hints = default_presentation_hints, po_safety_block_reason = None,
      po_policy_constraint_names = [], po_safety_contexts = []\<rparr>"

definition example_contact :: delivery_target where
  "example_contact =
     \<lparr>dt_provider = ''discord'', dt_provider_subject = Some ''u'', dt_provider_space_ref = None, dt_session_id = ''s'',
      dt_actor_id = None, dt_account_id = None, dt_space_id = None, dt_surface = SF_VOICE\<rparr>"

definition example_context :: "int \<Rightarrow> policy_context" where
  "example_context blocks =
     \<lparr>pc_source = SRC_PROACTIVE_IDLE_TICK, pc_target_key = ''discord:u:'', pc_policy_constraint_names = [],
      pc_safety_contexts = [], pc_availability_status = None, pc_in_quiet_hours = False,
      pc_recent_block_count = blocks\<rparr>"

theorem production_gate_decides_witness:
  "sd_allowed (production_check (\<lambda>_ _. 0) example_gate example_contact example_output None 5 (Some (example_context 2))) \<and>
   \<not> sd_allowed (production_check (\<lambda>_ _. 0) example_gate example_contact example_output None 5 (Some (example_context 3)))"
  by (simp add: production_gate_decides controls_permit_def verifier_permits_def is_quiet_hours_def quiet_hours_reason_def
      has_high_risk_safety_context_def is_sendable_def py_space_def example_gate_def example_contact_def
      example_output_def example_context_def)

end
