(* ===== verification/Proactive.thy ===== *)
theory Proactive
  imports Safety_Policy Delivery_Port
begin

text \<open>
  Proactive deliveries: the store of scheduler targets
  (\<^verbatim>\<open>iris/runtime/state/scheduler_targets.py\<close>), the idle tick source
  (\<^verbatim>\<open>iris/runtime/scheduler/idle_tick.py\<close>) and the runner that submits its observations and
  enqueues what the safety gate lets through (\<^verbatim>\<open>iris/runtime/scheduler/runner.py\<close>).

  The runtime service that answers an observation, the gate, the availability provider and the outbox
  are arguments of the runner; the outbox is given by the operations of its protocol. Logging is not
  modelled.
\<close>

section \<open>Scheduler targets\<close>

record route_hint =
  rh_provider :: string
  rh_provider_subject :: "string option"
  rh_provider_space_ref :: "string option"
  rh_display_name :: "string option"
  rh_surface :: delivery_surface

record scheduler_target =
  tg_actor_id :: "string option"
  tg_account_id :: "string option"
  tg_space_id :: "string option"
  tg_session_id :: string
  tg_route :: route_hint
  tg_display_name :: "string option"
  tg_last_observed_at :: datetime
  tg_last_scheduler_attempt_at :: "datetime option"
  tg_stale_after :: "datetime option"

type_synonym target_key = "string \<times> string \<times> string \<times> string"
type_synonym target_store = "(target_key, scheduler_target) dict"

definition or_empty :: "string option \<Rightarrow> string" where
  "or_empty x = (case x of None \<Rightarrow> [] | Some s \<Rightarrow> s)"

definition scheduler_target_key :: "scheduler_target \<Rightarrow> target_key" where
  "scheduler_target_key t =
     (rh_provider (tg_route t), or_empty (rh_provider_subject (tg_route t)),
      or_empty (rh_provider_space_ref (tg_route t)), tg_session_id t)"

definition with_scheduler_attempt :: "scheduler_target \<Rightarrow> datetime option \<Rightarrow> scheduler_target" where
  "with_scheduler_attempt t attempted_at = t\<lparr>tg_last_scheduler_attempt_at := attempted_at\<rparr>"

definition upsert_target :: "target_store \<Rightarrow> scheduler_target \<Rightarrow> target_store" where
  "upsert_target store t =
     (case dict_get store (scheduler_target_key t) of
        None \<Rightarrow> dict_set (scheduler_target_key t) t store
      | Some existing \<Rightarrow>
          dict_set (scheduler_target_key t)
            (with_scheduler_attempt t (tg_last_scheduler_attempt_at existing)) store)"

definition list_targets :: "target_store \<Rightarrow> datetime \<Rightarrow> scheduler_target list" where
  "list_targets store now =
     sort_key scheduler_target_key
       (filter (\<lambda>t. case tg_stale_after t of None \<Rightarrow> True | Some s \<Rightarrow> s > now) (dict_values store))"

definition mark_scheduler_attempt :: "target_store \<Rightarrow> scheduler_target \<Rightarrow> datetime \<Rightarrow> target_store" where
  "mark_scheduler_attempt store t attempted_at =
     (case dict_get store (scheduler_target_key t) of
        None \<Rightarrow> store
      | Some stored \<Rightarrow>
          dict_set (scheduler_target_key t) (with_scheduler_attempt stored (Some attempted_at)) store)"

section \<open>The idle tick source\<close>

record idle_policy =
  ip_idle_threshold_seconds :: seconds
  ip_min_interval_per_target_seconds :: seconds
  ip_max_due_per_run :: int

definition default_idle_policy :: idle_policy where
  "default_idle_policy =
     \<lparr>ip_idle_threshold_seconds = 600, ip_min_interval_per_target_seconds = 1800, ip_max_due_per_run = 10\<rparr>"

definition is_due :: "idle_policy \<Rightarrow> scheduler_target \<Rightarrow> datetime \<Rightarrow> bool" where
  "is_due p t now =
     (if total_seconds (now - tg_last_observed_at t) < ip_idle_threshold_seconds p then False
      else case tg_last_scheduler_attempt_at t of
        None \<Rightarrow> True
      | Some last_attempt \<Rightarrow> total_seconds (now - last_attempt) \<ge> ip_min_interval_per_target_seconds p)"

definition or_none :: "string option \<Rightarrow> string" where
  "or_none x = (case x of None \<Rightarrow> ''none'' | Some s \<Rightarrow> if s = [] then ''none'' else s)"

text \<open>\<^verbatim>\<open>":".join\<close>; the rendering of the instant is an argument.\<close>

definition observation_id_for :: "(datetime \<Rightarrow> string) \<Rightarrow> scheduler_target \<Rightarrow> datetime \<Rightarrow> string" where
  "observation_id_for isoformat t now =
     ''idle:'' @ rh_provider (tg_route t) @ '':'' @ or_none (rh_provider_subject (tg_route t)) @ '':'' @
     or_none (rh_provider_space_ref (tg_route t)) @ '':'' @ tg_session_id t @ '':'' @ isoformat now"

record idle_tick_observation =
  io_observation_id :: string
  io_session_id :: string
  io_account_id :: "string option"
  io_space_id :: "string option"
  io_source :: string
  io_occurred_at :: datetime
  io_reason :: string
  io_idle_seconds :: seconds

record scheduled_observation =
  so_observation :: idle_tick_observation
  so_correlation_id :: "string option"
  so_reason :: string
  so_target :: "delivery_target option"
  so_delivery_source :: "delivery_source option"

definition scheduled_observation_for ::
  "(datetime \<Rightarrow> string) \<Rightarrow> scheduler_target \<Rightarrow> datetime \<Rightarrow> scheduled_observation" where
  "scheduled_observation_for isoformat t now =
     (let oid = observation_id_for isoformat t now
      in \<lparr>so_observation =
            \<lparr>io_observation_id = oid, io_session_id = tg_session_id t, io_account_id = tg_account_id t,
             io_space_id = tg_space_id t, io_source = ''runtime_scheduler'', io_occurred_at = now,
             io_reason = ''proactive_idle_tick'',
             io_idle_seconds = total_seconds (now - tg_last_observed_at t)\<rparr>,
          so_correlation_id = Some (''scheduler:'' @ oid),
          so_reason = ''idle_threshold_exceeded'',
          so_target = Some
            \<lparr>dt_provider = rh_provider (tg_route t), dt_provider_subject = rh_provider_subject (tg_route t),
             dt_provider_space_ref = rh_provider_space_ref (tg_route t), dt_session_id = tg_session_id t,
             dt_actor_id = tg_actor_id t, dt_account_id = tg_account_id t, dt_space_id = tg_space_id t,
             dt_surface = rh_surface (tg_route t)\<rparr>,
          so_delivery_source = Some SRC_PROACTIVE_IDLE_TICK\<rparr>)"

fun due_loop ::
  "idle_policy \<Rightarrow> (datetime \<Rightarrow> string) \<Rightarrow> datetime \<Rightarrow> scheduler_target list \<Rightarrow> scheduled_observation list
     \<Rightarrow> scheduled_observation list" where
  "due_loop p isoformat now [] due = due"
| "due_loop p isoformat now (t # ts) due =
     (if int (length due) \<ge> ip_max_due_per_run p then due
      else if \<not> is_due p t now then due_loop p isoformat now ts due
      else due_loop p isoformat now ts (due @ [scheduled_observation_for isoformat t now]))"

definition due_observations ::
  "idle_policy \<Rightarrow> (datetime \<Rightarrow> string) \<Rightarrow> target_store \<Rightarrow> datetime \<Rightarrow> scheduled_observation list" where
  "due_observations p isoformat store now = due_loop p isoformat now (list_targets store now) []"

record idle_source =
  is_targets :: target_store
  is_failed :: "(string, datetime \<times> string) dict"

fun mark_first ::
  "(datetime \<Rightarrow> string) \<Rightarrow> string \<Rightarrow> datetime \<Rightarrow> scheduler_target list \<Rightarrow> target_store \<Rightarrow> target_store" where
  "mark_first isoformat oid marked_at [] store = store"
| "mark_first isoformat oid marked_at (t # ts) store =
     (if observation_id_for isoformat t marked_at = oid then mark_scheduler_attempt store t marked_at
      else mark_first isoformat oid marked_at ts store)"

definition mark_dispatched :: "(datetime \<Rightarrow> string) \<Rightarrow> idle_source \<Rightarrow> string \<Rightarrow> datetime \<Rightarrow> idle_source" where
  "mark_dispatched isoformat src oid dispatched_at =
     src\<lparr>is_targets := mark_first isoformat oid dispatched_at (list_targets (is_targets src) dispatched_at) (is_targets src)\<rparr>"

definition mark_failed :: "idle_source \<Rightarrow> string \<Rightarrow> datetime \<Rightarrow> string \<Rightarrow> idle_source" where
  "mark_failed src oid failed_at reason = src\<lparr>is_failed := dict_set oid (failed_at, reason) (is_failed src)\<rparr>"

section \<open>The runner\<close>

text \<open>
  An answer of the runtime service: a response, an exception the runner handles (a runtime or value
  error), or any other one.
\<close>

datatype service_answer =
  Responded presented_output "string option" | HandledError string | OtherError string

record 'ob proactive_config =
  pv_idle_policy :: idle_policy
  pv_isoformat :: "datetime \<Rightarrow> string"
  pv_service :: "scheduled_observation \<Rightarrow> service_answer"
  pv_gate :: "delivery_target \<Rightarrow> presented_output \<Rightarrow> availability_snapshot option \<Rightarrow> datetime
     \<Rightarrow> policy_context option \<Rightarrow> safety_decision"
  pv_outbox :: "'ob outbox_port"
  pv_availability :: "(delivery_target \<Rightarrow> datetime \<Rightarrow> availability_snapshot option) option"
  pv_delivery_enabled :: bool
  pv_max_attempts :: int
  pv_recent_block_window_seconds :: seconds

record 'ob proactive_state =
  ps_source :: idle_source
  ps_outbox :: 'ob
  ps_journal :: "audit_journal option"

record dispatch_result =
  dp_observation_id :: string
  dp_status :: string
  dp_reason :: string
  dp_delivery_id :: "string option"

datatype runner_failure = DispatchOutboxError outbox_error | DispatchValueError string | DispatchOtherError string

type_synonym ('ob, 'a) dispatched = "(runner_failure + 'a) \<times> 'ob proactive_state"

definition delivery_source_of :: "scheduled_observation \<Rightarrow> delivery_source" where
  "delivery_source_of s =
     (case so_delivery_source s of None \<Rightarrow> SRC_PROACTIVE_IDLE_TICK | Some x \<Rightarrow> x)"

definition optional_target_key :: "delivery_target option \<Rightarrow> string" where
  "optional_target_key t = (case t of None \<Rightarrow> ''unresolved'' | Some x \<Rightarrow> gate_target_key x)"

definition show_optional :: "string option \<Rightarrow> string" where
  "show_optional x = (case x of None \<Rightarrow> ''None'' | Some s \<Rightarrow> s)"

definition proactive_idempotency_key :: "string \<Rightarrow> delivery_target \<Rightarrow> string" where
  "proactive_idempotency_key oid target =
     ''proactive:'' @ oid @ '':'' @ dt_provider target @ '':'' @ show_optional (dt_provider_subject target) @ '':'' @
     show_optional (dt_provider_space_ref target)"

definition delivery_block_reason :: "bool \<Rightarrow> bool \<Rightarrow> string option" where
  "delivery_block_reason delivery_enabled has_target =
     (if \<not> delivery_enabled then Some ''delivery_disabled''
      else if \<not> has_target then Some ''missing_delivery_target'' else None)"

definition audit :: "audit_record \<Rightarrow> 'ob proactive_state \<Rightarrow> 'ob proactive_state" where
  "audit r st = st\<lparr>ps_journal := map_option (\<lambda>j. audit_append j r) (ps_journal st)\<rparr>"

definition blocks_in_window :: "'ob proactive_config \<Rightarrow> 'ob proactive_state \<Rightarrow> string \<Rightarrow> datetime \<Rightarrow> int" where
  "blocks_in_window cfg st target_key now =
     (case ps_journal st of
        None \<Rightarrow> 0
      | Some j \<Rightarrow> int (recent_block_count j target_key (now - timedelta_seconds (pv_recent_block_window_seconds cfg))))"

definition dispatched_at :: "'ob proactive_config \<Rightarrow> scheduled_observation \<Rightarrow> datetime \<Rightarrow> 'ob proactive_state \<Rightarrow> 'ob proactive_state" where
  "dispatched_at cfg s now st =
     st\<lparr>ps_source := mark_dispatched (pv_isoformat cfg) (ps_source st) (io_observation_id (so_observation s)) now\<rparr>"

definition send_message_action_from_output ::
  "presented_output \<Rightarrow> string \<Rightarrow> string \<Rightarrow> string \<Rightarrow> string + app_action" where
  "send_message_action_from_output output action_id session_id correlation_id =
     (if \<not> is_sendable output \<or> po_safety_block_reason output \<noteq> None
      then Inl ''sendable PresentedOutput required''
      else Inr (SendMessageAction action_id session_id correlation_id (or_empty (po_text output))
             (po_presentation_hints output)))"

text \<open>\<^verbatim>\<open>a or b or c\<close> on optional ids: an empty id counts as missing.\<close>

definition correlation_of :: "scheduled_observation \<Rightarrow> string option \<Rightarrow> string" where
  "correlation_of s response_id =
     (case so_correlation_id s of
        Some c \<Rightarrow> if c \<noteq> [] then c
                  else (case response_id of Some r \<Rightarrow> if r \<noteq> [] then r else ''scheduler:'' @ io_observation_id (so_observation s)
                        | None \<Rightarrow> ''scheduler:'' @ io_observation_id (so_observation s))
      | None \<Rightarrow> (case response_id of Some r \<Rightarrow> if r \<noteq> [] then r else ''scheduler:'' @ io_observation_id (so_observation s)
                 | None \<Rightarrow> ''scheduler:'' @ io_observation_id (so_observation s)))"

definition proactive_envelope ::
  "'ob proactive_config \<Rightarrow> scheduled_observation \<Rightarrow> app_action \<Rightarrow> safety_decision \<Rightarrow> delivery_target \<Rightarrow> datetime
     \<Rightarrow> delivery_envelope" where
  "proactive_envelope cfg s action decision target now =
     (let oid = io_observation_id (so_observation s)
      in \<lparr>de_delivery_id = ''delivery:'' @ oid, de_action = action, de_target = target, de_status = DS_PENDING,
          de_created_at = now, de_updated_at = now, de_not_before = sd_not_before decision, de_attempts = 0,
          de_max_attempts = pv_max_attempts cfg, de_idempotency_key = proactive_idempotency_key oid target,
          de_lease_id = None, de_lease_expires_at = None, de_blocked_reason = None,
          de_last_error_reason = None, de_source_observation_id = Some oid\<rparr>)"

definition enqueue_sendable ::
  "'ob proactive_config \<Rightarrow> scheduled_observation \<Rightarrow> presented_output \<Rightarrow> string option \<Rightarrow> safety_decision
     \<Rightarrow> delivery_target \<Rightarrow> datetime \<Rightarrow> 'ob proactive_state \<Rightarrow> ('ob, dispatch_result) dispatched" where
  "enqueue_sendable cfg s output response_id decision target now st =
     (let oid = io_observation_id (so_observation s)
      in case send_message_action_from_output output (''action:'' @ oid) (io_session_id (so_observation s))
                (correlation_of s response_id) of
           Inl m \<Rightarrow> (Inl (DispatchValueError m), st)
         | Inr action \<Rightarrow>
            (case port_enqueue (pv_outbox cfg) (ps_outbox st) (proactive_envelope cfg s action decision target now) of
               (Inl e, ob) \<Rightarrow> (Inl (DispatchOutboxError e), st\<lparr>ps_outbox := ob\<rparr>)
             | (Inr stored, ob) \<Rightarrow>
                 (Inr \<lparr>dp_observation_id = oid, dp_status = ''enqueued'', dp_reason = ''delivery_enqueued'',
                       dp_delivery_id = Some (de_delivery_id stored)\<rparr>,
                  dispatched_at cfg s now (st\<lparr>ps_outbox := ob\<rparr>))))"

definition dispatch_context ::
  "'ob proactive_config \<Rightarrow> scheduled_observation \<Rightarrow> presented_output \<Rightarrow> delivery_target \<Rightarrow> datetime
     \<Rightarrow> 'ob proactive_state \<Rightarrow> policy_context" where
  "dispatch_context cfg s output target now st =
     \<lparr>pc_source = delivery_source_of s, pc_target_key = gate_target_key target,
      pc_policy_constraint_names = po_policy_constraint_names output,
      pc_safety_contexts = po_safety_contexts output, pc_availability_status = None,
      pc_in_quiet_hours = False,
      pc_recent_block_count = blocks_in_window cfg st (gate_target_key target) now\<rparr>"

definition gate_decision_for ::
  "'ob proactive_config \<Rightarrow> scheduled_observation \<Rightarrow> presented_output \<Rightarrow> delivery_target \<Rightarrow> datetime
     \<Rightarrow> 'ob proactive_state \<Rightarrow> safety_decision" where
  "gate_decision_for cfg s output target now st =
     pv_gate cfg target output
       (case pv_availability cfg of None \<Rightarrow> None | Some f \<Rightarrow> f target now) now
       (Some (dispatch_context cfg s output target now st))"

definition delivery_audit_record ::
  "scheduled_observation \<Rightarrow> delivery_target \<Rightarrow> datetime \<Rightarrow> safety_decision \<Rightarrow> audit_record" where
  "delivery_audit_record s target now decision =
     \<lparr>sa_observation_id = io_observation_id (so_observation s), sa_occurred_at = now,
      sa_stage = STAGE_DELIVERY, sa_allowed = sd_allowed decision, sa_reason = sd_reason decision,
      sa_risk_level = sd_risk_level decision, sa_source = delivery_source_of s,
      sa_target_key = gate_target_key target,
      sa_policy = (case sd_audit decision of None \<Rightarrow> ''basic_delivery'' | Some a \<Rightarrow> am_policy a),
      sa_policy_version = (case sd_audit decision of None \<Rightarrow> ''1'' | Some a \<Rightarrow> am_policy_version a),
      sa_retention_until = None, sa_model_versions = []\<rparr>"

definition dispatch_response ::
  "'ob proactive_config \<Rightarrow> scheduled_observation \<Rightarrow> presented_output \<Rightarrow> string option \<Rightarrow> datetime
     \<Rightarrow> 'ob proactive_state \<Rightarrow> ('ob, dispatch_result) dispatched" where
  "dispatch_response cfg s output response_id now st =
     (let oid = io_observation_id (so_observation s);
          result = (\<lambda>status reason. \<lparr>dp_observation_id = oid, dp_status = status, dp_reason = reason, dp_delivery_id = None\<rparr>)
      in if \<not> is_sendable output
         then
          (let st = dispatched_at cfg s now st;
               reason = (case po_safety_block_reason output of None \<Rightarrow> ''output_not_sendable''
                         | Some r \<Rightarrow> if r = [] then ''output_not_sendable'' else r)
           in (Inr (result ''no_send'' reason),
               if po_safety_block_reason output \<noteq> None
               then audit \<lparr>sa_observation_id = oid, sa_occurred_at = now, sa_stage = STAGE_OUTPUT, sa_allowed = False,
                           sa_reason = reason, sa_risk_level = RISK_HIGH, sa_source = delivery_source_of s,
                           sa_target_key = optional_target_key (so_target s), sa_policy = ''output_safety'',
                           sa_policy_version = ''1'', sa_retention_until = None, sa_model_versions = []\<rparr> st
               else st))
         else case delivery_block_reason (pv_delivery_enabled cfg) (so_target s \<noteq> None) of
           Some reason \<Rightarrow> (Inr (result ''blocked'' reason), dispatched_at cfg s now st)
         | None \<Rightarrow>
            (let target = the (so_target s);
                 decision = gate_decision_for cfg s output target now st;
                 st = audit (delivery_audit_record s target now decision) st
             in if \<not> sd_allowed decision
                then (Inr (result ''blocked'' (sd_reason decision)), dispatched_at cfg s now st)
                else enqueue_sendable cfg s output response_id decision target now st))"

definition run_one ::
  "'ob proactive_config \<Rightarrow> scheduled_observation \<Rightarrow> datetime \<Rightarrow> 'ob proactive_state \<Rightarrow> ('ob, dispatch_result) dispatched" where
  "run_one cfg s now st =
     (case pv_service cfg s of
        Responded output response_id \<Rightarrow> dispatch_response cfg s output response_id now st
      | HandledError m \<Rightarrow>
          (Inr \<lparr>dp_observation_id = io_observation_id (so_observation s), dp_status = ''failed'', dp_reason = m,
                dp_delivery_id = None\<rparr>,
           st\<lparr>ps_source := mark_failed (ps_source st) (io_observation_id (so_observation s)) now m\<rparr>)
      | OtherError m \<Rightarrow> (Inl (DispatchOtherError m), st))"

fun run_due ::
  "'ob proactive_config \<Rightarrow> scheduled_observation list \<Rightarrow> datetime \<Rightarrow> dispatch_result list \<Rightarrow> 'ob proactive_state
     \<Rightarrow> ('ob, dispatch_result list) dispatched" where
  "run_due cfg [] now results st = (Inr results, st)"
| "run_due cfg (s # ss) now results st =
     (case run_one cfg s now st of
        (Inl e, st) \<Rightarrow> (Inl e, st)
      | (Inr r, st) \<Rightarrow> run_due cfg ss now (results @ [r]) st)"

definition proactive_run_once ::
  "'ob proactive_config \<Rightarrow> datetime \<Rightarrow> 'ob proactive_state \<Rightarrow> ('ob, dispatch_result list) dispatched" where
  "proactive_run_once cfg now st =
     run_due cfg (due_observations (pv_idle_policy cfg) (pv_isoformat cfg) (is_targets (ps_source st)) now) now [] st"

end
