(* ===== verification/Proactive_Props.thy ===== *)
theory Proactive_Props
  imports Proactive Delivery_Outbox_Runs
begin

text \<open>
  Correctness of proactive deliveries: only what the gate allowed is enqueued, and a target is not
  approached again before its interval has passed.
\<close>

section \<open>What a dispatch does to the outbox\<close>

lemma dispatched_at_outbox [simp]: "ps_outbox (dispatched_at cfg s now st) = ps_outbox st"
  by (simp add: dispatched_at_def)

lemma audit_outbox [simp]: "ps_outbox (audit r st) = ps_outbox st" "ps_source (audit r st) = ps_source st"
  by (simp_all add: audit_def)

text \<open>The envelope a dispatch enqueues, and the conditions it does so under.\<close>

definition dispatches ::
  "'ob proactive_config \<Rightarrow> scheduled_observation \<Rightarrow> datetime \<Rightarrow> 'ob proactive_state \<Rightarrow> delivery_envelope \<Rightarrow> bool" where
  "dispatches cfg s now st e \<longleftrightarrow>
     (\<exists>out response_id target action.
        pv_service cfg s = Responded out response_id \<and> is_sendable out \<and> po_safety_block_reason out = None \<and>
        pv_delivery_enabled cfg \<and> so_target s = Some target \<and>
        sd_allowed (gate_decision_for cfg s out target now st) \<and>
        (\<exists>aid sid cid text. action = SendMessageAction aid sid cid text (po_presentation_hints out) \<and> Some text = po_text out) \<and>
        e = proactive_envelope cfg s action (gate_decision_for cfg s out target now st) target now)"

lemma is_sendable_text: "is_sendable out \<Longrightarrow> \<exists>t. po_text out = Some t"
  by (auto simp: is_sendable_def split: option.splits)

lemma run_one_outbox:
  assumes "run_one cfg s now st = (r, st')"
  shows "ps_outbox st' = ps_outbox st \<or>
    (\<exists>e. dispatches cfg s now st e \<and> ps_outbox st' = snd (port_enqueue (pv_outbox cfg) (ps_outbox st) e))"
proof (cases "\<exists>out rid target. pv_service cfg s = Responded out rid \<and> is_sendable out \<and>
    pv_delivery_enabled cfg \<and> so_target s = Some target \<and> sd_allowed (gate_decision_for cfg s out target now st) \<and>
    po_safety_block_reason out = None")
  case False
  with assms show ?thesis
    by (auto simp: run_one_def dispatch_response_def delivery_block_reason_def enqueue_sendable_def Let_def
        send_message_action_from_output_def split: service_answer.splits if_splits option.splits sum.splits prod.splits)
next
  case True
  then obtain out rid target where c: "pv_service cfg s = Responded out rid" "is_sendable out"
      "pv_delivery_enabled cfg" "so_target s = Some target"
      "sd_allowed (gate_decision_for cfg s out target now st)" "po_safety_block_reason out = None" by blast
  obtain body where body: "po_text out = Some body" using is_sendable_text [OF c(2)] by blast
  let ?oid = "io_observation_id (so_observation s)"
  let ?action = "SendMessageAction (''action:'' @ ?oid) (io_session_id (so_observation s)) (correlation_of s rid) body
    (po_presentation_hints out)"
  let ?d = "gate_decision_for cfg s out target now st"
  let ?e = "proactive_envelope cfg s ?action ?d target now"
  have "dispatches cfg s now st ?e" using c body unfolding dispatches_def by auto
  moreover have "ps_outbox st' = snd (port_enqueue (pv_outbox cfg) (ps_outbox st) ?e)"
    using assms c body
    by (auto simp: run_one_def dispatch_response_def delivery_block_reason_def enqueue_sendable_def Let_def or_empty_def
        send_message_action_from_output_def split: sum.splits prod.splits)
  ultimately show ?thesis by blast
qed

lemma enqueue_items:
  "item_at (snd (enqueue ob e)) i = item_at ob i \<or> i = de_delivery_id e \<and> item_at (snd (enqueue ob e)) i = Some e"
proof (cases "enqueue_stores ob e")
  case True
  then show ?thesis by (auto simp: enqueue_stores_eq dict_get_set)
next
  case False
  then show ?thesis by (simp add: enqueue_unchanged)
qed

text \<open>Every change of the outbox in a run comes from one dispatch of the run.\<close>

lemma run_due_changes:
  assumes "pv_outbox cfg = in_memory_port" and "run_due cfg ss now results st = (r, st')"
    and "item_at (ps_outbox st') i = Some e" and "item_at (ps_outbox st) i \<noteq> Some e"
  shows "\<exists>ss1 s ss2 results' st0. ss = ss1 @ s # ss2 \<and> run_due cfg ss1 now results st = (Inr results', st0) \<and>
    dispatches cfg s now st0 e \<and> i = de_delivery_id e"
  using assms(2,4)
proof (induction ss arbitrary: st results)
  case Nil
  with assms(3) show ?case by simp
next
  case (Cons s ss)
  obtain a st1 where one: "run_one cfg s now st = (a, st1)" by fastforce
  show ?case
  proof (cases "item_at (ps_outbox st1) i = Some e")
    case True
    with run_one_outbox [OF one] Cons.prems(2) obtain e0 where
        e0: "dispatches cfg s now st e0" "ps_outbox st1 = snd (enqueue (ps_outbox st) e0)"
      by (auto simp: assms(1) in_memory_port_def)
    have "i = de_delivery_id e0 \<and> e = e0"
      using enqueue_items [of "ps_outbox st" e0 i] True Cons.prems(2) e0(2) by auto
    with e0(1) show ?thesis by (intro exI [of _ "[]"]) auto
  next
    case False
    obtain b where a: "a = Inr b"
      using Cons.prems(1) one False assms(3) by (cases a) auto
    have "run_due cfg ss now (results @ [b]) st1 = (r, st')" using Cons.prems(1) one a by simp
    from Cons.IH [OF this False] obtain ss1 s' ss2 rs st0 where
        "ss = ss1 @ s' # ss2" "run_due cfg ss1 now (results @ [b]) st1 = (Inr rs, st0)"
        "dispatches cfg s' now st0 e" "i = de_delivery_id e" by blast
    then show ?thesis using one a by (intro exI [of _ "s # ss1"]) auto
  qed
qed

section \<open>Due targets\<close>

lemma due_loop_append:
  "due_loop p isof now ts due = due @ map (\<lambda>t. scheduled_observation_for isof t now)
     (take (nat (ip_max_due_per_run p - int (length due))) (filter (\<lambda>t. is_due p t now) ts))"
proof (induction ts arbitrary: due)
  case (Cons t ts)
  show ?case
  proof (cases "int (length due) \<ge> ip_max_due_per_run p")
    case False
    then have "nat (ip_max_due_per_run p - int (length due)) =
        Suc (nat (ip_max_due_per_run p - int (length (due @ [scheduled_observation_for isof t now]))))" by simp
    with False Cons show ?thesis by auto
  qed simp
qed simp

lemma due_observations_eq:
  "due_observations p isof store now = map (\<lambda>t. scheduled_observation_for isof t now)
     (take (nat (ip_max_due_per_run p)) (filter (\<lambda>t. is_due p t now) (list_targets store now)))"
  by (simp add: due_observations_def due_loop_append)

lemma due_observation_target:
  assumes "s \<in> set (due_observations p isof store now)"
  shows "\<exists>t\<in>set (list_targets store now). is_due p t now \<and> s = scheduled_observation_for isof t now"
proof -
  obtain t where t: "t \<in> set (take (nat (ip_max_due_per_run p)) (filter (\<lambda>t. is_due p t now) (list_targets store now)))"
      "s = scheduled_observation_for isof t now"
    using assms by (auto simp: due_observations_eq)
  from in_set_takeD [OF t(1)] t(2) show ?thesis by auto
qed

lemma production_check_permits:
  assumes "sd_allowed (production_check tz g target out av now cx)"
  shows "dt_surface target \<noteq> SF_UNKNOWN \<and> controls_permit g target out \<and> verifier_permits g"
  using assms production_block_reason_None [of g target out]
  by (auto simp: production_check_def blocked_production_decision_def user_control_reason_None verifier_reason_None
      split: option.splits)

section \<open>Properties\<close>


section \<open>Spacing\<close>

text \<open>Targets are stored under their key; their observation ids at an instant tell them apart.\<close>

definition target_store_wf :: "target_store \<Rightarrow> bool" where
  "target_store_wf store \<longleftrightarrow>
     dict_wf store \<and> (\<forall>k t. dict_get store k = Some t \<longrightarrow> scheduler_target_key t = k)"

definition ids_distinct :: "(datetime \<Rightarrow> string) \<Rightarrow> datetime \<Rightarrow> target_store \<Rightarrow> bool" where
  "ids_distinct isof now store \<longleftrightarrow>
     (\<forall>k t k' t'. dict_get store k = Some t \<longrightarrow> dict_get store k' = Some t' \<longrightarrow>
        observation_id_for isof t now = observation_id_for isof t' now \<longrightarrow> k = k')"

lemma with_scheduler_attempt_simps [simp]:
  "scheduler_target_key (with_scheduler_attempt t a) = scheduler_target_key t"
  "tg_last_scheduler_attempt_at (with_scheduler_attempt t a) = a"
  "observation_id_for isof (with_scheduler_attempt t a) now = observation_id_for isof t now"
  "tg_stale_after (with_scheduler_attempt t a) = tg_stale_after t"
  by (simp_all add: with_scheduler_attempt_def scheduler_target_key_def observation_id_for_def)

lemma list_targets_stored:
  assumes "target_store_wf store" and "t \<in> set (list_targets store now)"
  shows "dict_get store (scheduler_target_key t) = Some t"
proof -
  have "t \<in> set (dict_values store)" using assms(2) by (simp add: list_targets_def)
  moreover have "dict_wf store" using assms(1) by (simp add: target_store_wf_def)
  ultimately obtain k where k: "dict_get store k = Some t" using dict_values_set_iff by metis
  moreover have "scheduler_target_key t = k" using assms(1) k unfolding target_store_wf_def by blast
  ultimately show ?thesis by simp
qed

lemma mark_first_marks:
  assumes "target_store_wf store" and "ids_distinct isof now store"
    and "t \<in> set ts" and "\<And>t'. t' \<in> set ts \<Longrightarrow> dict_get store (scheduler_target_key t') = Some t'"
  shows "mark_first isof (observation_id_for isof t now) now ts store =
    dict_set (scheduler_target_key t) (with_scheduler_attempt t (Some now)) store"
  using assms(3,4)
proof (induction ts)
  case (Cons u us)
  have stored: "dict_get store (scheduler_target_key u) = Some u" "dict_get store (scheduler_target_key t) = Some t"
    using Cons.prems by auto
  show ?case
  proof (cases "observation_id_for isof u now = observation_id_for isof t now")
    case True
    then have "scheduler_target_key u = scheduler_target_key t"
      using assms(2) stored unfolding ids_distinct_def by blast
    then have "Some u = Some t" using stored by metis
    then have "u = t" by (rule option.inject [THEN iffD1])
    moreover have "mark_scheduler_attempt store t now =
        dict_set (scheduler_target_key t) (with_scheduler_attempt t (Some now)) store"
      by (simp only: mark_scheduler_attempt_def stored(2) option.case)
    ultimately show ?thesis by (simp only: mark_first.simps if_True refl)
  next
    case False
    then have "t \<in> set us" using Cons.prems(1) by auto
    from Cons.IH [OF this] have "mark_first isof (observation_id_for isof t now) now us store =
        dict_set (scheduler_target_key t) (with_scheduler_attempt t (Some now)) store"
      using Cons.prems(2) by simp
    with False show ?thesis by simp
  qed
qed simp

text \<open>A dispatched target is marked, and no other changes.\<close>

lemma mark_dispatched_marks:
  assumes "target_store_wf (is_targets src)" and "ids_distinct isof now (is_targets src)"
    and "t \<in> set (list_targets (is_targets src) now)"
  shows "is_targets (mark_dispatched isof src (observation_id_for isof t now) now) =
    dict_set (scheduler_target_key t) (with_scheduler_attempt t (Some now)) (is_targets src)"
  using mark_first_marks [OF assms] list_targets_stored [OF assms(1)]
  by (simp add: mark_dispatched_def)

text \<open>Registering a target again keeps the time of the last attempt, so the interval holds.\<close>

lemma upsert_keeps_attempt:
  assumes "\<exists>t. dict_get store k = Some t \<and> tg_last_scheduler_attempt_at t = Some a"
  shows "\<exists>t. dict_get (fold (\<lambda>u store. upsert_target store u) us store) k = Some t \<and>
    tg_last_scheduler_attempt_at t = Some a"
  using assms
proof (induction us arbitrary: store)
  case (Cons u us)
  have "\<exists>t. dict_get (upsert_target store u) k = Some t \<and> tg_last_scheduler_attempt_at t = Some a"
    using Cons.prems by (auto simp: upsert_target_def dict_get_set split: option.split)
  then show ?case using Cons.IH by simp
qed simp


section \<open>Witnesses\<close>

text \<open>One target, idle since the epoch, is visited after twenty minutes; the gate lets the answer through.\<close>

definition example_tick_target :: scheduler_target where
  "example_tick_target =
     \<lparr>tg_actor_id = None, tg_account_id = None, tg_space_id = None, tg_session_id = ''s'',
      tg_route = \<lparr>rh_provider = ''discord'', rh_provider_subject = Some ''u'', rh_provider_space_ref = None,
                  rh_display_name = None, rh_surface = SF_PRIVATE_DIRECT_MESSAGE\<rparr>,
      tg_display_name = None, tg_last_observed_at = 0, tg_last_scheduler_attempt_at = None, tg_stale_after = None\<rparr>"

definition example_proactive :: "in_memory_outbox proactive_config" where
  "example_proactive =
     \<lparr>pv_idle_policy = default_idle_policy, pv_isoformat = (\<lambda>_. ''now''),
      pv_service = (\<lambda>_. Responded example_output None), pv_gate = production_check (\<lambda>_ _. 0) example_gate,
      pv_outbox = in_memory_port, pv_availability = None, pv_delivery_enabled = True, pv_max_attempts = 3,
      pv_recent_block_window_seconds = 60\<rparr>"

definition example_targets :: target_store where
  "example_targets = [(scheduler_target_key example_tick_target, example_tick_target)]"

definition example_proactive_state :: "in_memory_outbox proactive_state" where
  "example_proactive_state =
     \<lparr>ps_source = \<lparr>is_targets = example_targets, is_failed = []\<rparr>,
      ps_outbox = in_memory_outbox_init None, ps_journal = None\<rparr>"

lemma example_list_targets: "list_targets example_targets now = [example_tick_target]"
  by (simp add: list_targets_def example_targets_def dict_values_def example_tick_target_def)

lemma example_due:
  "due_observations default_idle_policy isof example_targets 1200000000 =
     [scheduled_observation_for isof example_tick_target 1200000000]"
  unfolding due_observations_def example_list_targets
  by (simp add: default_idle_policy_def is_due_def total_seconds_def) (simp add: example_tick_target_def)

lemma example_gate_allows:
  "sd_allowed (gate_decision_for example_proactive
     (scheduled_observation_for isof example_tick_target now) example_output
     (the (so_target (scheduled_observation_for isof example_tick_target now))) now example_proactive_state)"
  by (simp add: gate_decision_for_def example_proactive_def production_check_def production_block_reason_def
      scheduled_observation_for_def example_tick_target_def Let_def example_gate_def surface_reason_def
      user_control_reason_def verifier_reason_def strict_check_def check_target_output_def output_reason_def
      is_sendable_def example_output_def py_space_def target_reason_def plain_decision_def
      dispatch_context_def delivery_source_of_def evaluate_delivery_def proactive_block_def
      has_high_risk_safety_context_def is_quiet_hours_def quiet_hours_reason_def policy_allow_def
      blocks_in_window_def example_proactive_state_def)

lemma run_due_single: "snd (run_due cfg [s] now results st) = snd (run_one cfg s now st)"
  by (simp split: prod.split sum.split)

definition example_tick :: scheduled_observation where
  "example_tick = scheduled_observation_for (\<lambda>_. ''now'') example_tick_target 1200000000"

lemma example_dispatch:
  "\<exists>e. proactive_run_once example_proactive 1200000000 example_proactive_state =
      run_due example_proactive [example_tick] 1200000000 [] example_proactive_state \<and>
    ps_outbox (snd (run_due example_proactive [example_tick] 1200000000 [] example_proactive_state)) =
      snd (enqueue (in_memory_outbox_init None) e) \<and>
    de_delivery_id e = ''delivery:idle:discord:u:none:s:now'' \<and> enqueue_stores (in_memory_outbox_init None) e"
proof -
  let ?t = "the (so_target example_tick)"
  let ?d = "gate_decision_for example_proactive example_tick example_output ?t 1200000000 example_proactive_state"
  let ?a = "SendMessageAction (''action:'' @ io_observation_id (so_observation example_tick))
    (io_session_id (so_observation example_tick)) (correlation_of example_tick None) ''hi'' default_presentation_hints"
  let ?e = "proactive_envelope example_proactive example_tick ?a ?d ?t 1200000000"
  have ok: "sd_allowed ?d" unfolding example_tick_def by (rule example_gate_allows)
  have svc: "pv_service example_proactive = (\<lambda>_. Responded example_output None)" "pv_delivery_enabled example_proactive"
      "pv_outbox example_proactive = in_memory_port" by (simp_all add: example_proactive_def)
  have out: "is_sendable example_output" "po_safety_block_reason example_output = None" "po_text example_output = Some ''hi''"
      "po_presentation_hints example_output = default_presentation_hints"
    by (simp_all add: example_output_def is_sendable_def py_space_def)
  have tgt: "so_target example_tick = Some ?t" by (simp add: example_tick_def scheduled_observation_for_def Let_def)
  have ob: "ps_outbox example_proactive_state = in_memory_outbox_init None" by (simp add: example_proactive_state_def)
  have "pv_idle_policy example_proactive = default_idle_policy" "pv_isoformat example_proactive = (\<lambda>_. ''now'')"
      "is_targets (ps_source example_proactive_state) = example_targets"
    by (simp_all add: example_proactive_def example_proactive_state_def)
  then have run: "proactive_run_once example_proactive 1200000000 example_proactive_state =
      run_due example_proactive [example_tick] 1200000000 [] example_proactive_state"
    by (simp only: proactive_run_once_def example_tick_def example_due)
  have id: "de_delivery_id ?e = ''delivery:idle:discord:u:none:s:now''"
    by (simp add: proactive_envelope_def example_tick_def scheduled_observation_for_def Let_def observation_id_for_def
        example_tick_target_def or_none_def)
  have stores: "enqueue_stores (in_memory_outbox_init None) ?e"
    by (simp add: enqueue_stores_def proactive_envelope_def Let_def proactive_idempotency_key_def
        in_memory_outbox_init_def depth_exceeded_def is_no_action_def)
  have "ps_outbox (snd (run_one example_proactive example_tick 1200000000 example_proactive_state)) =
      snd (enqueue (in_memory_outbox_init None) ?e)"
    using ok tgt
    by (auto simp: run_one_def svc dispatch_response_def out delivery_block_reason_def enqueue_sendable_def Let_def
        send_message_action_from_output_def or_empty_def in_memory_port_def ob split: sum.splits prod.splits)
  then have "ps_outbox (snd (run_due example_proactive [example_tick] 1200000000 [] example_proactive_state)) =
      snd (enqueue (in_memory_outbox_init None) ?e)"
    by (simp only: run_due_single)
  with run id stores show ?thesis by blast
qed



end
