(* ===== verification/Prompt_Config.thy ===== *)
theory Prompt_Config
  imports Iris_Prelude
begin

text \<open>
  The configuration of prompt budgets: the shared vocabulary of \<^verbatim>\<open>iris/contracts/prompting.py\<close>
  and profiles, TOML overrides and validation of \<^verbatim>\<open>iris/runtime/config/prompt_budget.py\<close>. A
  \<^verbatim>\<open>ConfigError\<close> is a left value with the source's message.
\<close>

section \<open>Vocabulary\<close>

datatype prompt_profile = LOCAL_LOW | LOCAL_BALANCED | LOCAL_QUALITY | PROACTIVE_SHORT

fun prompt_profile_value :: "prompt_profile \<Rightarrow> string" where
  "prompt_profile_value LOCAL_LOW = ''local_low''"
| "prompt_profile_value LOCAL_BALANCED = ''local_balanced''"
| "prompt_profile_value LOCAL_QUALITY = ''local_quality''"
| "prompt_profile_value PROACTIVE_SHORT = ''proactive_short''"

datatype section_kind =
  SK_SYSTEM | SK_PERSONA | SK_SAFETY_CONSTRAINTS | SK_RECENT_CONVERSATION | SK_USER_MEMORY | SK_PROJECT_MEMORY
| SK_RELATIONSHIP_SIGNAL | SK_INTERNAL_STATE | SK_INTERACTION_POLICY | SK_TASK_CONTEXT | SK_USER_INPUT

fun section_kind_value :: "section_kind \<Rightarrow> string" where
  "section_kind_value SK_SYSTEM = ''system''"
| "section_kind_value SK_PERSONA = ''persona''"
| "section_kind_value SK_SAFETY_CONSTRAINTS = ''safety_constraints''"
| "section_kind_value SK_RECENT_CONVERSATION = ''recent_conversation''"
| "section_kind_value SK_USER_MEMORY = ''user_memory''"
| "section_kind_value SK_PROJECT_MEMORY = ''project_memory''"
| "section_kind_value SK_RELATIONSHIP_SIGNAL = ''relationship_signal''"
| "section_kind_value SK_INTERNAL_STATE = ''internal_state''"
| "section_kind_value SK_INTERACTION_POLICY = ''interaction_policy''"
| "section_kind_value SK_TASK_CONTEXT = ''task_context''"
| "section_kind_value SK_USER_INPUT = ''user_input''"

datatype trust_boundary = TB_TRUSTED | TB_INTERNAL_DERIVED | TB_EXTERNAL_CONTEXT | TB_USER_INPUT

datatype overflow_behavior =
  OB_REQUIRED | OB_TRUNCATE | OB_TRUNCATE_ITEMS | OB_OMIT | OB_USE_EXISTING_SUMMARY_THEN_TRUNCATE

fun overflow_behavior_value :: "overflow_behavior \<Rightarrow> string" where
  "overflow_behavior_value OB_REQUIRED = ''required''"
| "overflow_behavior_value OB_TRUNCATE = ''truncate''"
| "overflow_behavior_value OB_TRUNCATE_ITEMS = ''truncate_items''"
| "overflow_behavior_value OB_OMIT = ''omit''"
| "overflow_behavior_value OB_USE_EXISTING_SUMMARY_THEN_TRUNCATE = ''use_existing_summary_then_truncate''"

definition PROMPT_SECTION_KINDS :: "section_kind list" where
  "PROMPT_SECTION_KINDS =
     [SK_SYSTEM, SK_PERSONA, SK_SAFETY_CONSTRAINTS, SK_RECENT_CONVERSATION, SK_USER_MEMORY, SK_PROJECT_MEMORY,
      SK_RELATIONSHIP_SIGNAL, SK_INTERNAL_STATE, SK_INTERACTION_POLICY, SK_TASK_CONTEXT, SK_USER_INPUT]"

definition PROMPT_PROFILE_NAMES :: "prompt_profile list" where
  "PROMPT_PROFILE_NAMES = [LOCAL_LOW, LOCAL_BALANCED, LOCAL_QUALITY, PROACTIVE_SHORT]"

definition PROMPT_OVERFLOW_BEHAVIORS :: "overflow_behavior list" where
  "PROMPT_OVERFLOW_BEHAVIORS =
     [OB_REQUIRED, OB_TRUNCATE, OB_TRUNCATE_ITEMS, OB_OMIT, OB_USE_EXISTING_SUMMARY_THEN_TRUNCATE]"

definition REQUIRED_PROMPT_SECTION_KINDS :: "section_kind list" where
  "REQUIRED_PROMPT_SECTION_KINDS = [SK_SYSTEM, SK_SAFETY_CONSTRAINTS, SK_USER_INPUT]"

section \<open>Budgets\<close>

record section_budget =
  sb_max_chars :: int
  sb_max_items :: int
  sb_priority :: int
  sb_overflow_behavior :: overflow_behavior

record profile_budget =
  pb_total_max_chars :: int
  pb_system :: section_budget
  pb_persona :: section_budget
  pb_safety_constraints :: section_budget
  pb_recent_conversation :: section_budget
  pb_user_memory :: section_budget
  pb_project_memory :: section_budget
  pb_relationship_signal :: section_budget
  pb_internal_state :: section_budget
  pb_interaction_policy :: section_budget
  pb_task_context :: section_budget
  pb_user_input :: section_budget

fun section_budget_of :: "profile_budget \<Rightarrow> section_kind \<Rightarrow> section_budget" where
  "section_budget_of b SK_SYSTEM = pb_system b"
| "section_budget_of b SK_PERSONA = pb_persona b"
| "section_budget_of b SK_SAFETY_CONSTRAINTS = pb_safety_constraints b"
| "section_budget_of b SK_RECENT_CONVERSATION = pb_recent_conversation b"
| "section_budget_of b SK_USER_MEMORY = pb_user_memory b"
| "section_budget_of b SK_PROJECT_MEMORY = pb_project_memory b"
| "section_budget_of b SK_RELATIONSHIP_SIGNAL = pb_relationship_signal b"
| "section_budget_of b SK_INTERNAL_STATE = pb_internal_state b"
| "section_budget_of b SK_INTERACTION_POLICY = pb_interaction_policy b"
| "section_budget_of b SK_TASK_CONTEXT = pb_task_context b"
| "section_budget_of b SK_USER_INPUT = pb_user_input b"

definition mk_section :: "int \<Rightarrow> int \<Rightarrow> int \<Rightarrow> overflow_behavior \<Rightarrow> section_budget" where
  "mk_section max_chars max_items priority behavior =
     \<lparr>sb_max_chars = max_chars, sb_max_items = max_items, sb_priority = priority, sb_overflow_behavior = behavior\<rparr>"

definition summary_truncate :: overflow_behavior where
  "summary_truncate = OB_USE_EXISTING_SUMMARY_THEN_TRUNCATE"

definition local_low_profile :: profile_budget where
  "local_low_profile =
     \<lparr>pb_total_max_chars = 6000,
      pb_system = mk_section 1100 1 100 OB_REQUIRED,
      pb_persona = mk_section 500 1 95 OB_TRUNCATE,
      pb_safety_constraints = mk_section 900 8 98 OB_TRUNCATE_ITEMS,
      pb_recent_conversation = mk_section 1800 6 70 summary_truncate,
      pb_user_memory = mk_section 800 3 55 OB_TRUNCATE_ITEMS,
      pb_project_memory = mk_section 500 2 45 OB_TRUNCATE_ITEMS,
      pb_relationship_signal = mk_section 450 2 65 OB_TRUNCATE_ITEMS,
      pb_internal_state = mk_section 550 4 60 OB_TRUNCATE_ITEMS,
      pb_interaction_policy = mk_section 500 4 75 OB_TRUNCATE_ITEMS,
      pb_task_context = mk_section 800 4 50 OB_TRUNCATE_ITEMS,
      pb_user_input = mk_section 1600 1 100 OB_REQUIRED\<rparr>"

definition local_balanced_profile :: profile_budget where
  "local_balanced_profile =
     \<lparr>pb_total_max_chars = 10000,
      pb_system = mk_section 1400 1 100 OB_REQUIRED,
      pb_persona = mk_section 900 1 95 OB_TRUNCATE,
      pb_safety_constraints = mk_section 1200 10 98 OB_TRUNCATE_ITEMS,
      pb_recent_conversation = mk_section 3600 12 70 summary_truncate,
      pb_user_memory = mk_section 1400 5 55 OB_TRUNCATE_ITEMS,
      pb_project_memory = mk_section 1000 4 45 OB_TRUNCATE_ITEMS,
      pb_relationship_signal = mk_section 700 3 65 OB_TRUNCATE_ITEMS,
      pb_internal_state = mk_section 800 5 60 OB_TRUNCATE_ITEMS,
      pb_interaction_policy = mk_section 700 5 75 OB_TRUNCATE_ITEMS,
      pb_task_context = mk_section 1200 6 50 OB_TRUNCATE_ITEMS,
      pb_user_input = mk_section 2400 1 100 OB_REQUIRED\<rparr>"

definition local_quality_profile :: profile_budget where
  "local_quality_profile =
     \<lparr>pb_total_max_chars = 16000,
      pb_system = mk_section 1800 1 100 OB_REQUIRED,
      pb_persona = mk_section 1400 1 95 OB_TRUNCATE,
      pb_safety_constraints = mk_section 1600 12 98 OB_TRUNCATE_ITEMS,
      pb_recent_conversation = mk_section 6400 20 70 summary_truncate,
      pb_user_memory = mk_section 2400 8 55 OB_TRUNCATE_ITEMS,
      pb_project_memory = mk_section 1800 6 45 OB_TRUNCATE_ITEMS,
      pb_relationship_signal = mk_section 1000 4 65 OB_TRUNCATE_ITEMS,
      pb_internal_state = mk_section 1200 6 60 OB_TRUNCATE_ITEMS,
      pb_interaction_policy = mk_section 1000 6 75 OB_TRUNCATE_ITEMS,
      pb_task_context = mk_section 2000 8 50 OB_TRUNCATE_ITEMS,
      pb_user_input = mk_section 3200 1 100 OB_REQUIRED\<rparr>"

definition proactive_short_profile :: profile_budget where
  "proactive_short_profile =
     \<lparr>pb_total_max_chars = 3000,
      pb_system = mk_section 900 1 100 OB_REQUIRED,
      pb_persona = mk_section 350 1 95 OB_TRUNCATE,
      pb_safety_constraints = mk_section 700 6 98 OB_TRUNCATE_ITEMS,
      pb_recent_conversation = mk_section 500 3 45 OB_TRUNCATE_ITEMS,
      pb_user_memory = mk_section 300 1 35 OB_OMIT,
      pb_project_memory = mk_section 0 0 20 OB_OMIT,
      pb_relationship_signal = mk_section 450 2 70 OB_TRUNCATE_ITEMS,
      pb_internal_state = mk_section 350 3 55 OB_TRUNCATE_ITEMS,
      pb_interaction_policy = mk_section 400 3 80 OB_TRUNCATE_ITEMS,
      pb_task_context = mk_section 450 3 50 OB_TRUNCATE_ITEMS,
      pb_user_input = mk_section 700 1 100 OB_REQUIRED\<rparr>"

record prompt_budget_config =
  pc_enabled :: bool
  pc_chat_profile :: prompt_profile
  pc_proactive_profile :: prompt_profile
  pc_local_low :: profile_budget
  pc_local_balanced :: profile_budget
  pc_local_quality :: profile_budget
  pc_proactive_short :: profile_budget

definition default_prompt_budget_config :: prompt_budget_config where
  "default_prompt_budget_config =
     \<lparr>pc_enabled = True, pc_chat_profile = LOCAL_BALANCED, pc_proactive_profile = PROACTIVE_SHORT,
      pc_local_low = local_low_profile, pc_local_balanced = local_balanced_profile,
      pc_local_quality = local_quality_profile, pc_proactive_short = proactive_short_profile\<rparr>"

fun profile_budget_of :: "prompt_budget_config \<Rightarrow> prompt_profile \<Rightarrow> profile_budget" where
  "profile_budget_of c LOCAL_LOW = pc_local_low c"
| "profile_budget_of c LOCAL_BALANCED = pc_local_balanced c"
| "profile_budget_of c LOCAL_QUALITY = pc_local_quality c"
| "profile_budget_of c PROACTIVE_SHORT = pc_proactive_short c"

definition profile_budget_for_call_site :: "prompt_budget_config \<Rightarrow> bool \<Rightarrow> profile_budget" where
  "profile_budget_for_call_site c proactive =
     profile_budget_of c (if proactive then pc_proactive_profile c else pc_chat_profile c)"

definition section_budget_for_profile ::
  "prompt_budget_config \<Rightarrow> prompt_profile \<Rightarrow> section_kind \<Rightarrow> section_budget" where
  "section_budget_for_profile c profile kind = section_budget_of (profile_budget_of c profile) kind"

definition memory_top_k_for_profile :: "prompt_budget_config \<Rightarrow> prompt_profile \<Rightarrow> int" where
  "memory_top_k_for_profile c profile = sb_max_items (section_budget_for_profile c profile SK_USER_MEMORY)"

definition project_context_top_k_for_profile :: "prompt_budget_config \<Rightarrow> prompt_profile \<Rightarrow> int" where
  "project_context_top_k_for_profile c profile = sb_max_items (section_budget_for_profile c profile SK_PROJECT_MEMORY)"

definition iter_profile_sections :: "profile_budget \<Rightarrow> (section_kind \<times> section_budget) list" where
  "iter_profile_sections b = map (\<lambda>k. (k, section_budget_of b k)) PROMPT_SECTION_KINDS"

fun replace_profile_budget :: "prompt_budget_config \<Rightarrow> prompt_profile \<Rightarrow> profile_budget \<Rightarrow> prompt_budget_config" where
  "replace_profile_budget c LOCAL_LOW b = c\<lparr>pc_local_low := b\<rparr>"
| "replace_profile_budget c LOCAL_BALANCED b = c\<lparr>pc_local_balanced := b\<rparr>"
| "replace_profile_budget c LOCAL_QUALITY b = c\<lparr>pc_local_quality := b\<rparr>"
| "replace_profile_budget c PROACTIVE_SHORT b = c\<lparr>pc_proactive_short := b\<rparr>"

definition section_value ::
  "section_budget \<Rightarrow> section_kind \<Rightarrow> section_kind \<Rightarrow> section_budget \<Rightarrow> section_budget" where
  "section_value current kind target replacement = (if kind = target then replacement else current)"

definition replace_section_budget :: "profile_budget \<Rightarrow> section_kind \<Rightarrow> section_budget \<Rightarrow> profile_budget" where
  "replace_section_budget p kind b =
     \<lparr>pb_total_max_chars = pb_total_max_chars p,
      pb_system = section_value (pb_system p) kind SK_SYSTEM b,
      pb_persona = section_value (pb_persona p) kind SK_PERSONA b,
      pb_safety_constraints = section_value (pb_safety_constraints p) kind SK_SAFETY_CONSTRAINTS b,
      pb_recent_conversation = section_value (pb_recent_conversation p) kind SK_RECENT_CONVERSATION b,
      pb_user_memory = section_value (pb_user_memory p) kind SK_USER_MEMORY b,
      pb_project_memory = section_value (pb_project_memory p) kind SK_PROJECT_MEMORY b,
      pb_relationship_signal = section_value (pb_relationship_signal p) kind SK_RELATIONSHIP_SIGNAL b,
      pb_internal_state = section_value (pb_internal_state p) kind SK_INTERNAL_STATE b,
      pb_interaction_policy = section_value (pb_interaction_policy p) kind SK_INTERACTION_POLICY b,
      pb_task_context = section_value (pb_task_context p) kind SK_TASK_CONTEXT b,
      pb_user_input = section_value (pb_user_input p) kind SK_USER_INPUT b\<rparr>"

section \<open>Validation\<close>

datatype config_error = ConfigError string

type_synonym 'a config_result = "config_error + 'a"

definition validate_required_section_budget :: "section_budget \<Rightarrow> string \<Rightarrow> section_kind \<Rightarrow> unit config_result" where
  "validate_required_section_budget b path kind =
     (if kind \<notin> set REQUIRED_PROMPT_SECTION_KINDS
      then Inl (ConfigError (path @ ''.required section must be one of: '' @
             py_join '', '' (map section_kind_value REQUIRED_PROMPT_SECTION_KINDS)))
      else if sb_max_chars b = 0
      then Inl (ConfigError (path @ ''.required section must have max_chars greater than 0''))
      else if sb_max_items b = 0
      then Inl (ConfigError (path @ ''.required section must have max_items greater than 0''))
      else Inr ())"

definition validate_section :: "section_budget \<Rightarrow> prompt_profile \<Rightarrow> section_kind \<Rightarrow> unit config_result" where
  "validate_section b profile kind =
     (let path = ''prompt_budget.'' @ prompt_profile_value profile @ ''.'' @ section_kind_value kind
      in if sb_max_chars b < 0 then Inl (ConfigError (path @ ''.max_chars must be greater than or equal to 0''))
         else if sb_max_items b < 0 then Inl (ConfigError (path @ ''.max_items must be greater than or equal to 0''))
         else if sb_priority b < 0 then Inl (ConfigError (path @ ''.priority must be greater than or equal to 0''))
         else if sb_overflow_behavior b = OB_REQUIRED then validate_required_section_budget b path kind
         else Inr ())"

definition trusted_required_separator_chars :: "int \<Rightarrow> int" where
  "trusted_required_separator_chars required_trusted_sections =
     (if required_trusted_sections \<le> 1 then 0 else (required_trusted_sections - 1) * 2)"

fun validate_sections_loop ::
  "profile_budget \<Rightarrow> prompt_profile \<Rightarrow> section_kind list \<Rightarrow> int \<times> int \<Rightarrow> (int \<times> int) config_result" where
  "validate_sections_loop p name [] acc = Inr acc"
| "validate_sections_loop p name (kind # kinds) (required_max_chars, required_trusted) =
     (let b = section_budget_of p kind
      in result_bind (validate_section b name kind) (\<lambda>_.
           validate_sections_loop p name kinds
             (if sb_overflow_behavior b = OB_REQUIRED
              then (required_max_chars + sb_max_chars b,
                    if kind \<in> {SK_SYSTEM, SK_SAFETY_CONSTRAINTS} then required_trusted + 1 else required_trusted)
              else (required_max_chars, required_trusted))))"

definition validate_profile :: "profile_budget \<Rightarrow> prompt_profile \<Rightarrow> profile_budget config_result" where
  "validate_profile p name =
     (if pb_total_max_chars p \<le> 0
      then Inl (ConfigError (''prompt_budget.'' @ prompt_profile_value name @ ''.total_max_chars must be greater than 0''))
      else result_bind (validate_sections_loop p name PROMPT_SECTION_KINDS (0, 0)) (\<lambda>(required_max_chars, required_trusted).
        if required_max_chars + trusted_required_separator_chars required_trusted > pb_total_max_chars p
        then Inl (ConfigError (''prompt_budget.'' @ prompt_profile_value name @
               ''.required section max_chars total including trusted separators must not exceed total_max_chars''))
        else Inr p))"

definition validate_prompt_budget_config :: "prompt_budget_config \<Rightarrow> prompt_budget_config config_result" where
  "validate_prompt_budget_config c =
     result_bind (validate_profile (pc_local_low c) LOCAL_LOW) (\<lambda>low.
     result_bind (validate_profile (pc_local_balanced c) LOCAL_BALANCED) (\<lambda>balanced.
     result_bind (validate_profile (pc_local_quality c) LOCAL_QUALITY) (\<lambda>quality.
     result_bind (validate_profile (pc_proactive_short c) PROACTIVE_SHORT) (\<lambda>short.
       let v = c\<lparr>pc_local_low := low, pc_local_balanced := balanced, pc_local_quality := quality,
                  pc_proactive_short := short\<rparr>
       in if pc_proactive_profile v \<noteq> PROACTIVE_SHORT \<and>
             pb_total_max_chars (profile_budget_of v (pc_proactive_profile v)) >
             pb_total_max_chars (profile_budget_of v (pc_chat_profile v))
          then Inl (ConfigError ''prompt_budget.proactive_profile must not exceed chat_profile total_max_chars'')
          else if pb_total_max_chars (pc_proactive_short v) \<ge> pb_total_max_chars (pc_local_balanced v)
          then Inl (ConfigError ''prompt_budget.proactive_short.total_max_chars must be shorter than local_balanced'')
          else Inr v))))"

section \<open>TOML overrides\<close>

datatype toml = TStr string | TInt int | TFloat rat | TBool bool | TNone | TArray "toml list" | TTable "(string \<times> toml) list"

type_synonym toml_table = "(string, toml) dict"

definition parse_bool :: "toml \<Rightarrow> string \<Rightarrow> bool config_result" where
  "parse_bool v path =
     (case v of TBool b \<Rightarrow> Inr b
      | _ \<Rightarrow> Inl (ConfigError (''Runtime config value '' @ [CHR 0x27] @ path @ [CHR 0x27] @ '' must be a boolean'')))"

definition parse_int :: "toml \<Rightarrow> string \<Rightarrow> int config_result" where
  "parse_int v path =
     (case v of TInt i \<Rightarrow> Inr i
      | _ \<Rightarrow> Inl (ConfigError (''Runtime config value '' @ [CHR 0x27] @ path @ [CHR 0x27] @ '' must be an integer'')))"

definition parse_string :: "toml \<Rightarrow> string \<Rightarrow> string config_result" where
  "parse_string v path =
     (case v of TStr s \<Rightarrow> Inr s
      | _ \<Rightarrow> Inl (ConfigError (''Runtime config value '' @ [CHR 0x27] @ path @ [CHR 0x27] @ '' must be a string'')))"

definition table_or_empty :: "toml_table \<Rightarrow> string \<Rightarrow> string \<Rightarrow> toml_table config_result" where
  "table_or_empty t key path =
     (case dict_get t key of
        None \<Rightarrow> Inr []
      | Some (TTable u) \<Rightarrow> Inr u
      | Some _ \<Rightarrow> Inl (ConfigError (''Runtime config value '' @ [CHR 0x27] @ path @ [CHR 0x27] @ '' must be a table'')))"

text \<open>The value of an enum: the loop over its members, and the error that lists them.\<close>

definition parse_enum :: "('a \<Rightarrow> string) \<Rightarrow> 'a list \<Rightarrow> toml \<Rightarrow> string \<Rightarrow> 'a config_result" where
  "parse_enum value_of members v path =
     result_bind (parse_string v path) (\<lambda>raw.
       case find (\<lambda>m. raw = value_of m) members of
         Some m \<Rightarrow> Inr m
       | None \<Rightarrow> Inl (ConfigError (''Invalid '' @ path @ '': '' @ raw @ ''. Allowed values: '' @
                  py_join '', '' (map value_of members))))"

definition parse_profile_name :: "toml \<Rightarrow> string \<Rightarrow> prompt_profile config_result" where
  "parse_profile_name = parse_enum prompt_profile_value PROMPT_PROFILE_NAMES"

definition parse_overflow_behavior :: "toml \<Rightarrow> string \<Rightarrow> overflow_behavior config_result" where
  "parse_overflow_behavior = parse_enum overflow_behavior_value PROMPT_OVERFLOW_BEHAVIORS"

definition optional_int :: "toml_table \<Rightarrow> string \<Rightarrow> string \<Rightarrow> int \<Rightarrow> int config_result" where
  "optional_int t key path default_value =
     (case dict_get t key of None \<Rightarrow> Inr default_value | Some v \<Rightarrow> parse_int v (path @ ''.'' @ key))"

definition optional_overflow_behavior ::
  "toml_table \<Rightarrow> string \<Rightarrow> string \<Rightarrow> overflow_behavior \<Rightarrow> overflow_behavior config_result" where
  "optional_overflow_behavior t key path default_value =
     (case dict_get t key of None \<Rightarrow> Inr default_value | Some v \<Rightarrow> parse_overflow_behavior v (path @ ''.'' @ key))"

definition apply_section_toml ::
  "section_budget \<Rightarrow> toml_table \<Rightarrow> prompt_profile \<Rightarrow> section_kind \<Rightarrow> section_budget config_result" where
  "apply_section_toml b t name kind =
     (let path = ''prompt_budget.'' @ prompt_profile_value name @ ''.'' @ section_kind_value kind
      in result_bind (optional_int t ''max_chars'' path (sb_max_chars b)) (\<lambda>max_chars.
         result_bind (optional_int t ''max_items'' path (sb_max_items b)) (\<lambda>max_items.
         result_bind (optional_int t ''priority'' path (sb_priority b)) (\<lambda>priority.
         result_bind (optional_overflow_behavior t ''overflow_behavior'' path (sb_overflow_behavior b)) (\<lambda>behavior.
           Inr (mk_section max_chars max_items priority behavior))))))"

fun apply_sections_loop ::
  "toml_table \<Rightarrow> prompt_profile \<Rightarrow> section_kind list \<Rightarrow> profile_budget \<Rightarrow> profile_budget config_result" where
  "apply_sections_loop t name [] v = Inr v"
| "apply_sections_loop t name (kind # kinds) v =
     result_bind (table_or_empty t (section_kind_value kind)
         (''prompt_budget.'' @ prompt_profile_value name @ ''.'' @ section_kind_value kind)) (\<lambda>section_table.
     result_bind (apply_section_toml (section_budget_of v kind) section_table name kind) (\<lambda>b.
       apply_sections_loop t name kinds (replace_section_budget v kind b)))"

definition apply_profile_toml :: "profile_budget \<Rightarrow> toml_table \<Rightarrow> prompt_profile \<Rightarrow> profile_budget config_result" where
  "apply_profile_toml p t name =
     result_bind
       (case dict_get t ''total_max_chars'' of
          None \<Rightarrow> Inr p
        | Some v \<Rightarrow> result_bind (parse_int v (''prompt_budget.'' @ prompt_profile_value name @ ''.total_max_chars''))
                     (\<lambda>n. Inr (p\<lparr>pb_total_max_chars := n\<rparr>)))
       (apply_sections_loop t name PROMPT_SECTION_KINDS)"

fun apply_profiles_loop ::
  "toml_table \<Rightarrow> prompt_profile list \<Rightarrow> prompt_budget_config \<Rightarrow> prompt_budget_config config_result" where
  "apply_profiles_loop t [] v = Inr v"
| "apply_profiles_loop t (name # names) v =
     result_bind (table_or_empty t (prompt_profile_value name) (''prompt_budget.'' @ prompt_profile_value name)) (\<lambda>pt.
     result_bind (apply_profile_toml (profile_budget_of v name) pt name) (\<lambda>b.
       apply_profiles_loop t names (replace_profile_budget v name b)))"

definition apply_prompt_budget_toml :: "prompt_budget_config \<Rightarrow> toml_table \<Rightarrow> prompt_budget_config config_result" where
  "apply_prompt_budget_toml c t =
     result_bind
       (case dict_get t ''enabled'' of
          None \<Rightarrow> Inr c
        | Some v \<Rightarrow> result_bind (parse_bool v ''prompt_budget.enabled'') (\<lambda>b. Inr (c\<lparr>pc_enabled := b\<rparr>))) (\<lambda>c.
     result_bind
       (case dict_get t ''chat_profile'' of
          None \<Rightarrow> Inr c
        | Some v \<Rightarrow> result_bind (parse_profile_name v ''prompt_budget.chat_profile'') (\<lambda>n. Inr (c\<lparr>pc_chat_profile := n\<rparr>))) (\<lambda>c.
     result_bind
       (case dict_get t ''proactive_profile'' of
          None \<Rightarrow> Inr c
        | Some v \<Rightarrow> result_bind (parse_profile_name v ''prompt_budget.proactive_profile'')
                     (\<lambda>n. Inr (c\<lparr>pc_proactive_profile := n\<rparr>))) (\<lambda>c.
     result_bind (apply_profiles_loop t PROMPT_PROFILE_NAMES c) validate_prompt_budget_config)))"

end
