(* ===== verification/Prompt_Budget.thy ===== *)
theory Prompt_Budget
  imports Prompt_Config
begin

text \<open>
  The prompt budget policy, \<^verbatim>\<open>iris/runtime/prompting/budget.py\<close>, with the sections and reports of
  \<^verbatim>\<open>iris/contracts/prompting.py\<close>. Texts are lists of code points. The reports are pydantic
  models whose numbers must not be negative: building one with a negative limit raises, which is the left
  value of \<^verbatim>\<open>apply_budget\<close>.
\<close>

section \<open>Sections and reports\<close>

record section_input =
  si_kind :: section_kind
  si_title :: code_points
  si_trust_boundary :: trust_boundary
  si_content :: code_points
  si_items :: "code_points list"

record budgeted_section =
  bs_kind :: section_kind
  bs_title :: code_points
  bs_trust_boundary :: trust_boundary
  bs_content :: code_points
  bs_items :: "code_points list"

record section_report =
  sr_kind :: section_kind
  sr_trust_boundary :: trust_boundary
  sr_input_chars :: int
  sr_output_chars :: int
  sr_input_items :: int
  sr_output_items :: int
  sr_max_chars :: int
  sr_max_items :: int
  sr_priority :: int
  sr_overflow_behavior :: overflow_behavior
  sr_omitted :: bool
  sr_truncated_chars :: int
  sr_truncated_items :: int

definition valid_section_report :: "section_report \<Rightarrow> bool" where
  "valid_section_report r \<longleftrightarrow>
     0 \<le> sr_input_chars r \<and> 0 \<le> sr_output_chars r \<and> 0 \<le> sr_input_items r \<and> 0 \<le> sr_output_items r \<and>
     0 \<le> sr_max_chars r \<and> 0 \<le> sr_max_items r \<and> 0 \<le> sr_priority r \<and>
     0 \<le> sr_truncated_chars r \<and> 0 \<le> sr_truncated_items r"

record assembly_report =
  ar_profile :: prompt_profile
  ar_total_chars :: int
  ar_total_max_chars :: int
  ar_section_reports :: "section_report list"
  ar_persona_profile_version :: "string option"
  ar_persona_fallback_used :: bool
  ar_persona_failure_reason :: "string option"

definition omitted_section_count :: "assembly_report \<Rightarrow> int" where
  "omitted_section_count r = int (length (filter sr_omitted (ar_section_reports r)))"

definition truncated_section_count :: "assembly_report \<Rightarrow> int" where
  "truncated_section_count r =
     int (length (filter (\<lambda>s. sr_truncated_chars s > 0 \<or> sr_truncated_items s > 0) (ar_section_reports r)))"

definition truncated_item_count :: "assembly_report \<Rightarrow> int" where
  "truncated_item_count r = sum_list (map sr_truncated_items (ar_section_reports r))"

record section_application =
  ba_section :: "budgeted_section option"
  ba_report :: section_report

section \<open>Rendering\<close>

abbreviation len :: "'a list \<Rightarrow> int" where
  "len xs \<equiv> int (length xs)"

definition render_items :: "code_points \<Rightarrow> code_points list \<Rightarrow> code_points" where
  "render_items title items = title @ [58, 10] @ py_join [10] (map (\<lambda>item. [45, 32] @ item) items)"

definition render_section_content :: "section_input \<Rightarrow> code_points" where
  "render_section_content s =
     (if si_items s \<noteq> [] then render_items (si_title s) (si_items s)
      else if blank (si_content s) then []
      else if si_kind s = SK_USER_INPUT then si_content s
      else si_title s @ [58, 10] @ si_content s)"

definition input_item_count :: "section_input \<Rightarrow> int" where
  "input_item_count s =
     (if si_items s \<noteq> [] then len (si_items s) else if si_content s \<noteq> [] then 1 else 0)"

definition truncate_text :: "code_points \<Rightarrow> int \<Rightarrow> code_points" where
  "truncate_text t max_chars =
     (if max_chars \<le> 0 then []
      else if len t \<le> max_chars then t
      else if max_chars = 1 then [8230]
      else take (nat (max_chars - 1)) t @ [8230])"

fun str_partition :: "code_points \<Rightarrow> code_points \<Rightarrow> code_points \<times> code_points \<times> code_points" where
  "str_partition sep [] = ([], [], [])"
| "str_partition sep (c # s) =
     (if take (length sep) (c # s) = sep then ([], sep, drop (length sep) (c # s))
      else case str_partition sep s of (before, found, after) \<Rightarrow> (c # before, found, after))"

definition truncate_conversation_item_to_fit :: "code_points \<Rightarrow> code_points \<Rightarrow> int \<Rightarrow> code_points option" where
  "truncate_conversation_item_to_fit title item max_chars =
     (case str_partition [58, 32] item of (role_prefix, separator, content) \<Rightarrow>
        if separator = [] then None
        else let prefix = role_prefix @ separator;
                 available = max_chars - len (render_items title [prefix])
             in if available \<le> 0 then None else Some (prefix @ truncate_text content available))"

definition truncate_item_to_fit :: "section_kind \<Rightarrow> code_points \<Rightarrow> code_points \<Rightarrow> int \<Rightarrow> code_points option" where
  "truncate_item_to_fit kind title item max_chars =
     (if kind = SK_RECENT_CONVERSATION then truncate_conversation_item_to_fit title item max_chars
      else let available = max_chars - len (render_items title [[]])
           in if available \<le> 0 then None else Some (truncate_text item available))"

text \<open>The loops over the items, given in the order of the loop.\<close>

fun latest_items_loop :: "code_points \<Rightarrow> int \<Rightarrow> code_points list \<Rightarrow> code_points list \<Rightarrow> code_points list" where
  "latest_items_loop title max_chars [] kept = kept"
| "latest_items_loop title max_chars (item # rest) kept =
     (if len (render_items title (item # kept)) \<le> max_chars then latest_items_loop title max_chars rest (item # kept)
      else if kept = [] then
        (case truncate_item_to_fit SK_RECENT_CONVERSATION title item max_chars of None \<Rightarrow> [] | Some t \<Rightarrow> [t])
      else kept)"

definition latest_items_within_char_budget :: "code_points \<Rightarrow> code_points list \<Rightarrow> int \<Rightarrow> code_points list" where
  "latest_items_within_char_budget title items max_chars = latest_items_loop title max_chars (rev items) []"

fun first_items_loop :: "code_points \<Rightarrow> int \<Rightarrow> code_points list \<Rightarrow> code_points list \<Rightarrow> code_points list" where
  "first_items_loop title max_chars [] kept = kept"
| "first_items_loop title max_chars (item # rest) kept =
     (if len (render_items title (kept @ [item])) \<le> max_chars then first_items_loop title max_chars rest (kept @ [item])
      else if kept = [] then
        (case truncate_item_to_fit SK_USER_MEMORY title item max_chars of None \<Rightarrow> [] | Some t \<Rightarrow> [t])
      else kept)"

definition first_items_within_char_budget :: "code_points \<Rightarrow> code_points list \<Rightarrow> int \<Rightarrow> code_points list" where
  "first_items_within_char_budget title items max_chars = first_items_loop title max_chars items []"

definition items_within_char_budget ::
  "section_kind \<Rightarrow> code_points \<Rightarrow> code_points list \<Rightarrow> int \<Rightarrow> code_points list" where
  "items_within_char_budget kind title items max_chars =
     (if max_chars \<le> 0 \<or> items = [] then []
      else if len (render_items title items) \<le> max_chars then items
      else if kind = SK_RECENT_CONVERSATION then latest_items_within_char_budget title items max_chars
      else first_items_within_char_budget title items max_chars)"

definition items_kept_for_section :: "section_kind \<Rightarrow> code_points list \<Rightarrow> int \<Rightarrow> code_points list" where
  "items_kept_for_section kind items max_items =
     (if max_items \<le> 0 then []
      else if kind = SK_RECENT_CONVERSATION then drop (length items - nat max_items) items
      else take (nat max_items) items)"

definition items_after_item_budget :: "section_input \<Rightarrow> int \<Rightarrow> code_points list" where
  "items_after_item_budget s max_items =
     (if si_items s = [] then []
      else if len (si_items s) > max_items \<and> max_items > 0
      then items_kept_for_section (si_kind s) (si_items s) max_items
      else si_items s)"

section \<open>The budget of a section\<close>

definition omitted_result :: "section_input \<Rightarrow> section_budget \<Rightarrow> int \<Rightarrow> int \<Rightarrow> section_application" where
  "omitted_result s b input_chars input_items =
     \<lparr>ba_section = None,
      ba_report =
        \<lparr>sr_kind = si_kind s, sr_trust_boundary = si_trust_boundary s, sr_input_chars = input_chars,
         sr_output_chars = 0, sr_input_items = input_items, sr_output_items = 0,
         sr_max_chars = sb_max_chars b, sr_max_items = sb_max_items b, sr_priority = sb_priority b,
         sr_overflow_behavior = sb_overflow_behavior b, sr_omitted = True,
         sr_truncated_chars = input_chars, sr_truncated_items = input_items\<rparr>\<rparr>"

definition section_result ::
  "section_input \<Rightarrow> section_budget \<Rightarrow> code_points \<Rightarrow> code_points list \<Rightarrow> int \<Rightarrow> int \<Rightarrow> int \<Rightarrow> section_application" where
  "section_result s b rendered kept_items input_chars input_items output_items =
     \<lparr>ba_section = Some
        \<lparr>bs_kind = si_kind s, bs_title = si_title s, bs_trust_boundary = si_trust_boundary s,
         bs_content = rendered, bs_items = kept_items\<rparr>,
      ba_report =
        \<lparr>sr_kind = si_kind s, sr_trust_boundary = si_trust_boundary s, sr_input_chars = input_chars,
         sr_output_chars = len rendered, sr_input_items = input_items, sr_output_items = output_items,
         sr_max_chars = sb_max_chars b, sr_max_items = sb_max_items b, sr_priority = sb_priority b,
         sr_overflow_behavior = sb_overflow_behavior b, sr_omitted = False,
         sr_truncated_chars = max (input_chars - len rendered) 0,
         sr_truncated_items = max (input_items - output_items) 0\<rparr>\<rparr>"

definition section_is_omitted_by_zero_budget :: "section_input \<Rightarrow> int \<Rightarrow> int \<Rightarrow> bool" where
  "section_is_omitted_by_zero_budget s max_chars max_items \<longleftrightarrow> max_chars = 0 \<or> (si_items s \<noteq> [] \<and> max_items = 0)"

definition text_within_char_budget :: "code_points \<Rightarrow> section_budget \<Rightarrow> code_points option" where
  "text_within_char_budget rendered b =
     (if len rendered \<le> sb_max_chars b then Some rendered
      else if sb_overflow_behavior b = OB_OMIT then None
      else Some (truncate_text rendered (sb_max_chars b)))"

definition apply_items_section :: "section_input \<Rightarrow> section_budget \<Rightarrow> int \<Rightarrow> int \<Rightarrow> section_application" where
  "apply_items_section s b input_chars input_items =
     (let kept = items_after_item_budget s (sb_max_items b);
          too_long = len (render_items (si_title s) kept) > sb_max_chars b
      in if too_long \<and> sb_overflow_behavior b = OB_OMIT then omitted_result s b input_chars input_items
         else
          (let kept = (if too_long then items_within_char_budget (si_kind s) (si_title s) kept (sb_max_chars b) else kept)
           in if kept = [] then omitted_result s b input_chars input_items
              else section_result s b (render_items (si_title s) kept) kept input_chars input_items (len kept)))"

definition apply_section :: "profile_budget \<Rightarrow> section_input \<Rightarrow> section_application" where
  "apply_section pb s =
     (let b = section_budget_of pb (si_kind s);
          rendered = render_section_content s;
          input_chars = len rendered;
          input_items = input_item_count s
      in if section_is_omitted_by_zero_budget s (sb_max_chars b) (sb_max_items b)
         then omitted_result s b input_chars input_items
         else if si_items s \<noteq> [] then apply_items_section s b input_chars input_items
         else case text_within_char_budget rendered b of
           None \<Rightarrow> omitted_result s b input_chars input_items
         | Some t \<Rightarrow> section_result s b t [] input_chars input_items input_items)"

section \<open>The total budget\<close>

definition omit_existing :: "section_application \<Rightarrow> section_application" where
  "omit_existing r =
     (let current = ba_report r
      in \<lparr>ba_section = None,
          ba_report = current\<lparr>sr_output_chars := 0, sr_output_items := 0, sr_omitted := True,
            sr_truncated_chars := sr_input_chars current, sr_truncated_items := sr_input_items current\<rparr>\<rparr>)"

definition replace_existing_with_items :: "section_application \<Rightarrow> code_points list \<Rightarrow> section_application" where
  "replace_existing_with_items r kept =
     (case ba_section r of
        None \<Rightarrow> r
      | Some s \<Rightarrow>
         (let content = render_items (bs_title s) kept; current = ba_report r
          in \<lparr>ba_section = Some (s\<lparr>bs_content := content, bs_items := kept\<rparr>),
              ba_report = current\<lparr>sr_output_chars := len content, sr_output_items := len kept, sr_omitted := False,
                sr_truncated_chars := max (sr_input_chars current - len content) 0,
                sr_truncated_items := max (sr_input_items current - len kept) (sr_truncated_items current)\<rparr>\<rparr>))"

definition replace_existing_with_content :: "section_application \<Rightarrow> code_points \<Rightarrow> section_application" where
  "replace_existing_with_content r content =
     (case ba_section r of
        None \<Rightarrow> r
      | Some s \<Rightarrow>
         (let current = ba_report r
          in \<lparr>ba_section = Some (s\<lparr>bs_content := content, bs_items := []\<rparr>),
              ba_report = current\<lparr>sr_output_chars := len content,
                sr_truncated_chars := max (sr_input_chars current - len content) 0\<rparr>\<rparr>))"

definition truncate_existing :: "section_application \<Rightarrow> int \<Rightarrow> section_application" where
  "truncate_existing r max_chars =
     (case ba_section r of
        None \<Rightarrow> r
      | Some s \<Rightarrow>
          if bs_items s \<noteq> [] then
           (let kept = items_within_char_budget (bs_kind s) (bs_title s) (bs_items s) max_chars
            in if kept = [] then omit_existing r else replace_existing_with_items r kept)
          else replace_existing_with_content r (truncate_text (bs_content s) max_chars))"

definition section_chars :: "section_application \<Rightarrow> int" where
  "section_chars r = (case ba_section r of None \<Rightarrow> 0 | Some s \<Rightarrow> len (bs_content s))"

definition overflow_sort_key :: "nat \<times> section_application \<Rightarrow> int \<times> nat" where
  "overflow_sort_key item = (sr_priority (ba_report (snd item)), fst item)"

fun overflow_loop ::
  "(nat \<times> section_application) list \<Rightarrow> int \<Rightarrow> section_application list \<Rightarrow> section_application list" where
  "overflow_loop [] remaining patched = patched"
| "overflow_loop ((i, r) # rest) remaining patched =
     (case ba_section r of
        None \<Rightarrow> patched
      | Some s \<Rightarrow>
          if remaining \<le> 0 then patched
          else
           (let removable = min (len (bs_content s)) remaining
            in overflow_loop rest (remaining - removable)
                 (if removable \<ge> len (bs_content s) then patched[i := omit_existing r]
                  else patched[i := truncate_existing r (len (bs_content s) - removable)])))"

definition overflow_order :: "section_application list \<Rightarrow> (nat \<times> section_application) list" where
  "overflow_order results =
     sort_key overflow_sort_key
       (filter (\<lambda>(i, r). ba_section r \<noteq> None \<and> sr_overflow_behavior (ba_report r) \<noteq> OB_REQUIRED)
         (zip [0..<length results] results))"

definition apply_total_budget :: "profile_budget \<Rightarrow> section_application list \<Rightarrow> section_application list" where
  "apply_total_budget pb results =
     (let total = sum_list (map section_chars results)
      in if total \<le> pb_total_max_chars pb then results
         else overflow_loop (overflow_order results) (total - pb_total_max_chars pb) results)"

record budget_result =
  br_sections :: "budgeted_section list"
  br_report :: assembly_report

datatype prompt_error = PromptValidationError

definition apply_budget :: "prompt_profile \<Rightarrow> profile_budget \<Rightarrow> section_input list \<Rightarrow> prompt_error + budget_result" where
  "apply_budget profile pb sections =
     (let results = map (apply_section pb) sections
      in if \<exists>r\<in>set results. \<not> valid_section_report (ba_report r) then Inl PromptValidationError
         else
          (let results = apply_total_budget pb results;
               outputs = List.map_filter ba_section results
           in if pb_total_max_chars pb < 0 \<or> (\<exists>r\<in>set results. \<not> valid_section_report (ba_report r))
              then Inl PromptValidationError
              else Inr \<lparr>br_sections = outputs,
                br_report = \<lparr>ar_profile = profile,
                  ar_total_chars = sum_list (map (\<lambda>s. len (bs_content s)) outputs),
                  ar_total_max_chars = pb_total_max_chars pb,
                  ar_section_reports = map ba_report results,
                  ar_persona_profile_version = None, ar_persona_fallback_used = False,
                  ar_persona_failure_reason = None\<rparr>\<rparr>))"

end
