(* ===== verification/Prompt_Config_Props.thy ===== *)
theory Prompt_Config_Props
  imports Prompt_Config
begin

text \<open>
  What a validated prompt budget configuration guarantees, and that no other configuration leaves the
  TOML overrides.
\<close>

section \<open>Well-formed budgets\<close>

abbreviation required :: "profile_budget \<Rightarrow> section_kind \<Rightarrow> bool" where
  "required p k \<equiv> sb_overflow_behavior (section_budget_of p k) = OB_REQUIRED"

definition section_ok :: "profile_budget \<Rightarrow> section_kind \<Rightarrow> bool" where
  "section_ok p k \<longleftrightarrow>
     0 \<le> sb_max_chars (section_budget_of p k) \<and> 0 \<le> sb_max_items (section_budget_of p k) \<and>
     0 \<le> sb_priority (section_budget_of p k) \<and>
     (required p k \<longrightarrow> k \<in> {SK_SYSTEM, SK_SAFETY_CONSTRAINTS, SK_USER_INPUT} \<and>
        0 < sb_max_chars (section_budget_of p k) \<and> 0 < sb_max_items (section_budget_of p k))"

text \<open>What the required sections may need, with the separator between two required trusted ones.\<close>

definition required_chars :: "profile_budget \<Rightarrow> int" where
  "required_chars p =
     (\<Sum>k\<leftarrow>PROMPT_SECTION_KINDS. if required p k then sb_max_chars (section_budget_of p k) else 0) +
     (if required p SK_SYSTEM \<and> required p SK_SAFETY_CONSTRAINTS then 2 else 0)"

definition profile_ok :: "profile_budget \<Rightarrow> bool" where
  "profile_ok p \<longleftrightarrow> 0 < pb_total_max_chars p \<and> (\<forall>k. section_ok p k) \<and> required_chars p \<le> pb_total_max_chars p"

definition config_ok :: "prompt_budget_config \<Rightarrow> bool" where
  "config_ok c \<longleftrightarrow>
     (\<forall>name. profile_ok (profile_budget_of c name)) \<and>
     (pc_proactive_profile c \<noteq> PROACTIVE_SHORT \<longrightarrow>
        pb_total_max_chars (profile_budget_of c (pc_proactive_profile c)) \<le>
        pb_total_max_chars (profile_budget_of c (pc_chat_profile c))) \<and>
     pb_total_max_chars (pc_proactive_short c) < pb_total_max_chars (pc_local_balanced c)"

lemma set_section_kinds [simp]: "set PROMPT_SECTION_KINDS = UNIV"
proof -
  have "k \<in> set PROMPT_SECTION_KINDS" for k by (cases k) (simp_all add: PROMPT_SECTION_KINDS_def)
  then show ?thesis by blast
qed

lemma set_profile_names [simp]: "set PROMPT_PROFILE_NAMES = UNIV"
proof -
  have "n \<in> set PROMPT_PROFILE_NAMES" for n by (cases n) (simp_all add: PROMPT_PROFILE_NAMES_def)
  then show ?thesis by blast
qed

lemma all_profile_names: "(\<forall>n. P n) \<longleftrightarrow> P LOCAL_LOW \<and> P LOCAL_BALANCED \<and> P LOCAL_QUALITY \<and> P PROACTIVE_SHORT"
  using prompt_profile.exhaust by metis

section \<open>Validation decides\<close>

lemma validate_section_ok: "validate_section (section_budget_of p k) name k = Inr u \<longleftrightarrow> section_ok p k"
  by (auto simp: validate_section_def validate_required_section_budget_def section_ok_def Let_def
      REQUIRED_PROMPT_SECTION_KINDS_def)

lemma validate_sections_loop_ok:
  "validate_sections_loop p name ks (a, t) = Inr (a', t') \<longleftrightarrow>
     (\<forall>k\<in>set ks. section_ok p k) \<and>
     a' = a + (\<Sum>k\<leftarrow>ks. if required p k then sb_max_chars (section_budget_of p k) else 0) \<and>
     t' = t + (\<Sum>k\<leftarrow>ks. if required p k \<and> (k = SK_SYSTEM \<or> k = SK_SAFETY_CONSTRAINTS) then 1 else 0)"
proof (induction ks arbitrary: a t)
  case Nil
  then show ?case by auto
next
  case (Cons k ks)
  show ?case
    unfolding validate_sections_loop.simps Let_def result_bind_ok
    by (auto simp: validate_section_ok Cons.IH)
qed

lemma trusted_separators:
  "trusted_required_separator_chars
     (\<Sum>k\<leftarrow>PROMPT_SECTION_KINDS. if required p k \<and> (k = SK_SYSTEM \<or> k = SK_SAFETY_CONSTRAINTS) then 1 else 0) =
   (if required p SK_SYSTEM \<and> required p SK_SAFETY_CONSTRAINTS then 2 else 0)"
  by (simp add: PROMPT_SECTION_KINDS_def trusted_required_separator_chars_def)

lemma validate_profile_ok: "validate_profile p name = Inr p' \<longleftrightarrow> profile_ok p \<and> p' = p"
proof (cases "pb_total_max_chars p \<le> 0")
  case False
  have "validate_profile p name = Inr p' \<longleftrightarrow>
      (\<exists>a t. validate_sections_loop p name PROMPT_SECTION_KINDS (0, 0) = Inr (a, t) \<and>
         a + trusted_required_separator_chars t \<le> pb_total_max_chars p \<and> p' = p)"
    using False
    by (cases "validate_sections_loop p name PROMPT_SECTION_KINDS (0, 0)")
      (auto simp: validate_profile_def split: if_splits)
  also have "\<dots> \<longleftrightarrow> profile_ok p \<and> p' = p"
    using False unfolding validate_sections_loop_ok
    by (auto simp: trusted_separators profile_ok_def required_chars_def)
  finally show ?thesis .
qed (simp add: validate_profile_def profile_ok_def)

lemma validate_config_ok: "validate_prompt_budget_config c = Inr c' \<longleftrightarrow> config_ok c \<and> c' = c"
  unfolding validate_prompt_budget_config_def result_bind_ok validate_profile_ok config_ok_def all_profile_names
  by (auto simp: Let_def split: if_splits)

section \<open>Overrides\<close>

lemma section_budget_replace:
  "section_budget_of (replace_section_budget p k b) k' = (if k' = k then b else section_budget_of p k')"
  by (cases k') (simp_all add: replace_section_budget_def section_value_def eq_commute)

lemma total_replace_section [simp]: "pb_total_max_chars (replace_section_budget p k b) = pb_total_max_chars p"
  by (simp add: replace_section_budget_def)

lemma profile_budget_replace:
  "profile_budget_of (replace_profile_budget c n b) n' = (if n' = n then b else profile_budget_of c n')"
  by (cases n; cases n') simp_all

lemma profile_budget_eqI:
  assumes "pb_total_max_chars p = pb_total_max_chars q" and "\<And>k. section_budget_of p k = section_budget_of q k"
  shows "p = (q :: profile_budget)"
proof -
  note s = assms(2) [of SK_SYSTEM] assms(2) [of SK_PERSONA] assms(2) [of SK_SAFETY_CONSTRAINTS]
    assms(2) [of SK_RECENT_CONVERSATION] assms(2) [of SK_USER_MEMORY] assms(2) [of SK_PROJECT_MEMORY]
    assms(2) [of SK_RELATIONSHIP_SIGNAL] assms(2) [of SK_INTERNAL_STATE] assms(2) [of SK_INTERACTION_POLICY]
    assms(2) [of SK_TASK_CONTEXT] assms(2) [of SK_USER_INPUT]
  from s assms(1) show ?thesis by (cases p; cases q) simp
qed

lemma mk_section_same [simp]: "mk_section (sb_max_chars b) (sb_max_items b) (sb_priority b) (sb_overflow_behavior b) = b"
  by (cases b) (simp add: mk_section_def)

lemma apply_section_toml_empty [simp]: "apply_section_toml b [] name k = Inr b"
  by (simp add: apply_section_toml_def optional_int_def optional_overflow_behavior_def)

lemma apply_sections_loop_empty: "apply_sections_loop [] name ks p = Inr p"
proof (induction ks arbitrary: p)
  case (Cons k ks)
  have "replace_section_budget p k (section_budget_of p k) = p"
    by (rule profile_budget_eqI) (simp_all add: section_budget_replace)
  with Cons show ?case by (simp add: table_or_empty_def)
qed simp

lemma apply_profile_toml_empty [simp]: "apply_profile_toml p [] name = Inr p"
  by (simp add: apply_profile_toml_def apply_sections_loop_empty)

text \<open>A profile that has no table keeps its budget; the loop writes nothing but budgets.\<close>

lemma apply_profiles_loop_frame:
  assumes "apply_profiles_loop t names c = Inr c'" and "dict_get t (prompt_profile_value n) = None"
  shows "profile_budget_of c' n = profile_budget_of c n"
  using assms(1)
proof (induction names arbitrary: c)
  case (Cons name names)
  then obtain pt b where pt: "table_or_empty t (prompt_profile_value name) (''prompt_budget.'' @ prompt_profile_value name) = Inr pt"
      "apply_profile_toml (profile_budget_of c name) pt name = Inr b"
      "apply_profiles_loop t names (replace_profile_budget c name b) = Inr c'"
    by (auto simp: result_bind_ok)
  have "b = profile_budget_of c name" if "name = n"
    using pt(1,2) assms(2) that by (simp add: table_or_empty_def)
  then show ?case using Cons.IH [OF pt(3)] by (auto simp: profile_budget_replace)
qed simp

lemma replace_profile_same: "replace_profile_budget c n (profile_budget_of c n) = c"
  by (cases n) simp_all

lemma apply_profiles_loop_empty: "apply_profiles_loop [] names c = Inr c"
  by (induction names arbitrary: c) (simp_all add: table_or_empty_def replace_profile_same)

lemma profile_budget_of_updates [simp]:
  "profile_budget_of (c\<lparr>pc_enabled := b\<rparr>) x = profile_budget_of c x"
  "profile_budget_of (c\<lparr>pc_chat_profile := n\<rparr>) x = profile_budget_of c x"
  "profile_budget_of (c\<lparr>pc_proactive_profile := n\<rparr>) x = profile_budget_of c x"
  by (cases x; simp)+

section \<open>Property\<close>

text \<open>
  C37. Configurations are well formed. Whatever the TOML table overrides, a configuration that comes out
  of \<^verbatim>\<open>apply_prompt_budget_toml\<close> is well formed: every profile has a positive total, no negative
  limit, only the system, safety and user input sections as required ones with limits greater than zero,
  and a total that covers the required sections with their separator; the proactive profile is not longer
  than the chat profile and the short one is shorter than the balanced one. It passes validation again
  unchanged, and a profile without a table keeps its budget.
\<close>

theorem prompt_config_validated:
  assumes "apply_prompt_budget_toml c t = Inr c'"
  shows "config_ok c' \<and> apply_prompt_budget_toml c' [] = Inr c' \<and>
    (\<forall>name. dict_get t (prompt_profile_value name) = None \<longrightarrow> profile_budget_of c' name = profile_budget_of c name)"
proof -
  obtain c1 c2 c3 c4 where step:
    "(case dict_get t ''enabled'' of None \<Rightarrow> Inr c | Some v \<Rightarrow>
        result_bind (parse_bool v ''prompt_budget.enabled'') (\<lambda>b. Inr (c\<lparr>pc_enabled := b\<rparr>))) = Inr c1"
    "(case dict_get t ''chat_profile'' of None \<Rightarrow> Inr c1 | Some v \<Rightarrow>
        result_bind (parse_profile_name v ''prompt_budget.chat_profile'') (\<lambda>n. Inr (c1\<lparr>pc_chat_profile := n\<rparr>))) = Inr c2"
    "(case dict_get t ''proactive_profile'' of None \<Rightarrow> Inr c2 | Some v \<Rightarrow>
        result_bind (parse_profile_name v ''prompt_budget.proactive_profile'')
          (\<lambda>n. Inr (c2\<lparr>pc_proactive_profile := n\<rparr>))) = Inr c3"
    "apply_profiles_loop t PROMPT_PROFILE_NAMES c3 = Inr c4" "validate_prompt_budget_config c4 = Inr c'"
    using assms unfolding apply_prompt_budget_toml_def result_bind_ok by blast
  have ok: "config_ok c'" "c4 = c'" using step(5) by (simp_all add: validate_config_ok)
  have "profile_budget_of c3 n = profile_budget_of c n" for n
    using step(1-3) by (auto simp: result_bind_ok split: option.splits)
  moreover have "apply_prompt_budget_toml c' [] = Inr c'"
    using ok(1) by (simp add: apply_prompt_budget_toml_def apply_profiles_loop_empty validate_config_ok)
  ultimately show ?thesis
    using ok apply_profiles_loop_frame [OF step(4)] by simp
qed

lemma default_config_ok: "config_ok default_prompt_budget_config"
  unfolding config_ok_def all_profile_names profile_ok_def
proof (intro conjI allI)
  fix k
  show "section_ok (profile_budget_of default_prompt_budget_config LOCAL_LOW) k"
    and "section_ok (profile_budget_of default_prompt_budget_config LOCAL_BALANCED) k"
    and "section_ok (profile_budget_of default_prompt_budget_config LOCAL_QUALITY) k"
    and "section_ok (profile_budget_of default_prompt_budget_config PROACTIVE_SHORT) k"
    by (cases k; simp add: section_ok_def default_prompt_budget_config_def local_low_profile_def
        local_balanced_profile_def local_quality_profile_def proactive_short_profile_def mk_section_def
        summary_truncate_def)+
qed (simp_all add: default_prompt_budget_config_def local_low_profile_def local_balanced_profile_def
      local_quality_profile_def proactive_short_profile_def mk_section_def summary_truncate_def
      required_chars_def PROMPT_SECTION_KINDS_def)

theorem prompt_config_validated_witness:
  "config_ok (default_prompt_budget_config\<lparr>pc_enabled := False\<rparr>)"
proof -
  let ?c = "default_prompt_budget_config\<lparr>pc_enabled := False\<rparr>"
  have "config_ok ?c" using default_config_ok by (simp add: config_ok_def)
  moreover have "apply_profiles_loop [(''enabled'', TBool False)] PROMPT_PROFILE_NAMES ?c = Inr ?c"
    by (simp add: PROMPT_PROFILE_NAMES_def table_or_empty_def)
  ultimately have "apply_prompt_budget_toml default_prompt_budget_config [(''enabled'', TBool False)] = Inr ?c"
    by (simp add: apply_prompt_budget_toml_def parse_bool_def validate_config_ok)
  from prompt_config_validated [OF this] show ?thesis by blast
qed

end
