(* ===== verification/Prompt_Budget_Props.thy ===== *)
theory Prompt_Budget_Props
  imports Prompt_Budget Prompt_Config_Props "HOL-Library.Sublist"
begin

text \<open>
  Correctness of the prompt budget policy: what becomes of a section, how much the total budget cuts and
  in which order, and that nothing is added to a section but ellipses.
\<close>

section \<open>Shortened texts\<close>

text \<open>A text is shortened when it can be had from the other by leaving out characters and adding ellipses.\<close>

definition plain :: "code_points \<Rightarrow> code_points" where
  "plain t = filter (\<lambda>c. c \<noteq> 8230) t"

definition shortened :: "code_points \<Rightarrow> code_points \<Rightarrow> bool" where
  "shortened a b \<longleftrightarrow> subseq (plain a) (plain b)"

lemma plain_append [simp]: "plain (a @ b) = plain a @ plain b"
  by (simp add: plain_def)

lemma plain_simps [simp]: "plain [] = []" "plain [8230] = []"
  by (simp_all add: plain_def)

lemma shortened_refl [simp]: "shortened a a"
  by (simp add: shortened_def)

lemma shortened_trans: "shortened a b \<Longrightarrow> shortened b c \<Longrightarrow> shortened a c"
  unfolding shortened_def by (rule subseq_order.trans)

lemma shortened_append: "shortened a b \<Longrightarrow> shortened c d \<Longrightarrow> shortened (a @ c) (b @ d)"
  unfolding shortened_def plain_append by (rule list_emb_append_mono)

lemma shortened_append_left: "shortened a b \<Longrightarrow> shortened a (c @ b)"
  unfolding shortened_def plain_append by (rule subseq_order.trans [OF _ list_emb_append2]) auto

lemma shortened_Nil [simp]: "shortened [] b"
  by (simp add: shortened_def)

lemma shortened_take: "shortened (take n t) t"
proof -
  have "shortened (take n t @ []) (take n t @ drop n t)" by (intro shortened_append) simp_all
  then show ?thesis by simp
qed

lemma truncate_shortened: "shortened (truncate_text t m) t"
proof -
  have "shortened (take n t @ [8230]) t" for n
    using shortened_take [of n t] by (simp add: shortened_def)
  then show ?thesis by (simp add: truncate_text_def) (simp add: shortened_def)
qed

lemma shortened_join:
  assumes "list_emb shortened xs ys"
  shows "shortened (py_join sep xs) (py_join sep ys)"
  using assms
proof induction
  case (list_emb_Cons xs ys y)
  show ?case
  proof (cases ys)
    case Nil
    with list_emb_Cons(1) show ?thesis using list_emb_Nil2 by fastforce
  next
    case (Cons y' ys')
    with list_emb_Cons show ?thesis by (auto intro: shortened_append_left)
  qed
next
  case (list_emb_Cons2 x y xs ys)
  show ?case
  proof (cases xs)
    case Nil
    with list_emb_Cons2 show ?thesis
      using shortened_append [of x y "[]"] by (cases ys) simp_all
  next
    case (Cons x' xs')
    moreover obtain y' ys' where "ys = y' # ys'" using list_emb_Cons2 Cons by (cases ys) auto
    ultimately show ?thesis using list_emb_Cons2 by (auto intro!: shortened_append)
  qed
qed simp

lemma shortened_render:
  assumes "list_emb shortened xs ys"
  shows "shortened (render_items title xs) (render_items title ys)"
proof -
  have "list_emb shortened (map (\<lambda>item. [45, 32] @ item) xs) (map (\<lambda>item. [45, 32] @ item) ys)"
    using assms by induction (auto intro: shortened_append [of "[45, 32]" "[45, 32]", simplified])
  from shortened_join [OF this, of "[10]"] show ?thesis
    unfolding render_items_def by (intro shortened_append shortened_refl)
qed

lemma list_emb_shortened_trans:
  "list_emb shortened xs ys \<Longrightarrow> list_emb shortened ys zs \<Longrightarrow> list_emb shortened xs zs"
  by (rule list_emb_trans [where P = shortened]) (auto intro: shortened_trans)

lemma list_emb_shortened_refl [simp]: "list_emb shortened xs xs"
  by (rule list_emb_refl) simp

section \<open>Lengths\<close>

lemma truncate_text_len: "0 \<le> m \<Longrightarrow> len (truncate_text t m) \<le> m"
  by (auto simp: truncate_text_def)

lemma truncate_text_nonempty: "0 < m \<Longrightarrow> t \<noteq> [] \<Longrightarrow> truncate_text t m \<noteq> []"
  by (simp add: truncate_text_def)

lemma render_items_single: "len (render_items title [x]) = len title + len x + 4"
  by (simp add: render_items_def)

lemma str_partition_parts: "str_partition sep s = (a, b, c) \<Longrightarrow> s = a @ b @ c"
proof (induction s arbitrary: a)
  case (Cons x s)
  show ?case
  proof (cases "take (length sep) (x # s) = sep")
    case True
    have "x # s = take (length sep) (x # s) @ drop (length sep) (x # s)" by (rule append_take_drop_id [symmetric])
    moreover have "a = []" "b = sep" "c = drop (length sep) (x # s)" using Cons.prems True by auto
    ultimately show ?thesis using True by simp
  next
    case False
    with Cons.prems obtain a' where "str_partition sep s = (a', b, c)" "a = x # a'"
      by (auto split: prod.splits)
    with Cons.IH show ?thesis by simp
  qed
qed simp

text \<open>A truncated item fits, and is a shortened item.\<close>

lemma truncate_item_fits:
  assumes "truncate_item_to_fit kind title item m = Some t"
  shows "len (render_items title [t]) \<le> m \<and> shortened t item"
proof (cases "kind = SK_RECENT_CONVERSATION")
  case True
  obtain a b c where parts: "str_partition [58, 32] item = (a, b, c)" by (cases "str_partition [58, 32] item") auto
  have "t = (a @ b) @ truncate_text c (m - len (render_items title [a @ b]))"
      "0 < m - len (render_items title [a @ b])"
    using assms True parts
    by (auto simp: truncate_item_to_fit_def truncate_conversation_item_to_fit_def Let_def split: if_splits)
  moreover from this have "len (truncate_text c (m - len (render_items title [a @ b]))) \<le> m - len (render_items title [a @ b])"
    by (intro truncate_text_len) simp
  moreover have "shortened ((a @ b) @ truncate_text c k) ((a @ b) @ c)" for k
    by (intro shortened_append truncate_shortened shortened_refl)
  ultimately show ?thesis using str_partition_parts [OF parts] by (simp add: render_items_single)
next
  case False
  then have "t = truncate_text item (m - len (render_items title [[]]))" "0 < m - len (render_items title [[]])"
    using assms by (auto simp: truncate_item_to_fit_def Let_def split: if_splits)
  moreover from this have "len (truncate_text item (m - len (render_items title [[]]))) \<le> m - len (render_items title [[]])"
    by (intro truncate_text_len) simp
  ultimately show ?thesis by (simp add: render_items_single truncate_shortened)
qed

text \<open>What both loops over the items keep.\<close>

definition items_fit :: "code_points \<Rightarrow> int \<Rightarrow> code_points list \<Rightarrow> code_points list \<Rightarrow> bool" where
  "items_fit title m items kept \<longleftrightarrow>
     (kept = [] \<or> len (render_items title kept) \<le> m) \<and> list_emb shortened kept items \<and> length kept \<le> length items"

lemma items_fit_single:
  assumes "\<And>t. x = Some t \<Longrightarrow> len (render_items title [t]) \<le> m \<and> shortened t item" and "item \<in> set items"
  shows "items_fit title m items (case x of None \<Rightarrow> [] | Some t \<Rightarrow> [t])"
proof (cases x)
  case (Some t)
  obtain us vs where items: "items = us @ item # vs" using split_list [OF assms(2)] by blast
  have "list_emb shortened ([t] @ []) ((item # vs))" using assms(1) [OF Some] by auto
  then have "list_emb shortened [t] items" unfolding items by (simp add: list_emb_append2)
  with Some assms show ?thesis by (cases items) (auto simp: items_fit_def)
qed (simp add: items_fit_def)

lemma items_fit_truncated:
  "item \<in> set items \<Longrightarrow>
     items_fit title m items (case truncate_item_to_fit kind title item m of None \<Rightarrow> [] | Some t \<Rightarrow> [t])"
  using truncate_item_fits items_fit_single by blast

lemma items_fit_part:
  assumes "kept = [] \<or> len (render_items title kept) \<le> m"
  shows "items_fit title m (us @ kept @ vs) kept"
proof -
  have "list_emb shortened (kept @ []) (kept @ vs)" by (intro list_emb_append_mono) simp_all
  then have "list_emb shortened kept (us @ kept @ vs)" by (simp add: list_emb_append2)
  with assms show ?thesis by (simp add: items_fit_def)
qed

lemma latest_items_fit:
  assumes "kept = [] \<or> len (render_items title kept) \<le> m"
  shows "items_fit title m (rev rest @ kept) (latest_items_loop title m rest kept)"
  using assms
proof (induction rest arbitrary: kept)
  case Nil
  then show ?case using items_fit_part [of kept title m "[]" "[]"] by simp
next
  case (Cons item rest)
  consider "len (render_items title (item # kept)) \<le> m"
    | "\<not> len (render_items title (item # kept)) \<le> m" "kept = []"
    | "\<not> len (render_items title (item # kept)) \<le> m" "kept \<noteq> []" by blast
  then show ?case
  proof cases
    case 1
    with Cons.IH [of "item # kept"] show ?thesis by simp
  next
    case 2
    then show ?thesis using items_fit_truncated [of item "rev rest @ [item]"] by simp
  next
    case 3
    with Cons.prems items_fit_part [of kept title m "rev rest @ [item]" "[]"] show ?thesis by simp
  qed
qed

lemma first_items_fit:
  assumes "kept = [] \<or> len (render_items title kept) \<le> m"
  shows "items_fit title m (kept @ rest) (first_items_loop title m rest kept)"
  using assms
proof (induction rest arbitrary: kept)
  case Nil
  then show ?case using items_fit_part [of kept title m "[]" "[]"] by simp
next
  case (Cons item rest)
  consider "len (render_items title (kept @ [item])) \<le> m"
    | "\<not> len (render_items title (kept @ [item])) \<le> m" "kept = []"
    | "\<not> len (render_items title (kept @ [item])) \<le> m" "kept \<noteq> []" by blast
  then show ?case
  proof cases
    case 1
    with Cons.IH [of "kept @ [item]"] show ?thesis by simp
  next
    case 2
    then show ?thesis using items_fit_truncated [of item "item # rest"] by simp
  next
    case 3
    with Cons.prems items_fit_part [of kept title m "[]" "item # rest"] show ?thesis by simp
  qed
qed

lemma items_within_char_budget_fit: "items_fit title m items (items_within_char_budget kind title items m)"
proof -
  have "items_fit title m items []" by (simp add: items_fit_def)
  moreover have "items_fit title m items items" if "len (render_items title items) \<le> m"
    using items_fit_part [of items title m "[]" "[]"] that by simp
  moreover have "items_fit title m items (latest_items_loop title m (rev items) [])"
    using latest_items_fit [of "[]" title m "rev items"] by simp
  moreover have "items_fit title m items (first_items_loop title m items [])"
    using first_items_fit [of "[]" title m items] by simp
  ultimately show ?thesis
    by (simp add: items_within_char_budget_def latest_items_within_char_budget_def first_items_within_char_budget_def)
qed

lemma items_after_item_budget_fit:
  assumes "0 < max_items"
  shows "list_emb shortened (items_after_item_budget s max_items) (si_items s) \<and>
    len (items_after_item_budget s max_items) \<le> max_items \<or> si_items s = []"
proof -
  have "list_emb shortened (take n xs @ []) (take n xs @ drop n xs)" for n and xs :: "code_points list"
    by (intro list_emb_append_mono) simp_all
  moreover have "list_emb shortened (drop n xs) (take n xs @ drop n xs)" for n and xs :: "code_points list"
    by (rule list_emb_append2) simp
  ultimately show ?thesis
    using assms by (auto simp: items_after_item_budget_def items_kept_for_section_def)
qed

section \<open>What becomes of a section\<close>

definition app_for :: "profile_budget \<Rightarrow> section_input \<Rightarrow> section_application \<Rightarrow> bool" where
  "app_for pb s r \<longleftrightarrow>
     (let b = section_budget_of pb (si_kind s); rep = ba_report r
      in sr_kind rep = si_kind s \<and> sr_trust_boundary rep = si_trust_boundary s \<and>
         sr_max_chars rep = sb_max_chars b \<and> sr_max_items rep = sb_max_items b \<and> sr_priority rep = sb_priority b \<and>
         sr_overflow_behavior rep = sb_overflow_behavior b \<and>
         sr_input_chars rep = len (render_section_content s) \<and> sr_input_items rep = input_item_count s \<and>
         0 \<le> sr_output_items rep \<and> 0 \<le> sr_truncated_chars rep \<and> 0 \<le> sr_truncated_items rep \<and>
         (case ba_section r of
            None \<Rightarrow> sr_omitted rep \<and> sr_output_chars rep = 0
          | Some x \<Rightarrow> \<not> sr_omitted rep \<and> bs_kind x = si_kind s \<and> bs_title x = si_title s \<and>
              bs_trust_boundary x = si_trust_boundary s \<and> sr_output_chars rep = len (bs_content x) \<and>
              len (bs_content x) \<le> sb_max_chars b \<and> len (bs_items x) \<le> sb_max_items b \<and>
              shortened (bs_content x) (render_section_content s) \<and> list_emb shortened (bs_items x) (si_items s) \<and>
              (if si_items s = [] then bs_items x = [] \<and> (render_section_content s \<noteq> [] \<longrightarrow> bs_content x \<noteq> [])
               else bs_items x \<noteq> [] \<and> bs_content x = render_items (si_title s) (bs_items x))))"

lemma app_for_omitted:
  "app_for pb s (omitted_result s (section_budget_of pb (si_kind s)) (len (render_section_content s)) (input_item_count s))"
  by (simp add: app_for_def omitted_result_def Let_def input_item_count_def)

lemma app_for_items:
  assumes "section_ok pb (si_kind s)" and "si_items s \<noteq> []"
    and "sb_max_items (section_budget_of pb (si_kind s)) \<noteq> 0"
  shows "app_for pb s (apply_items_section s (section_budget_of pb (si_kind s)) (len (render_section_content s)) (input_item_count s))"
proof -
  let ?b = "section_budget_of pb (si_kind s)"
  let ?kept0 = "items_after_item_budget s (sb_max_items ?b)"
  let ?kept1 = "items_within_char_budget (si_kind s) (si_title s) ?kept0 (sb_max_chars ?b)"
  have pos: "0 < sb_max_items ?b" using assms(1,3) by (simp add: section_ok_def)
  have k0: "list_emb shortened ?kept0 (si_items s)" "len ?kept0 \<le> sb_max_items ?b"
    using items_after_item_budget_fit [OF pos, of s] assms(2) by auto
  have k1: "items_fit (si_title s) (sb_max_chars ?b) ?kept0 ?kept1" by (rule items_within_char_budget_fit)
  have emb1: "list_emb shortened ?kept1 (si_items s)" "len ?kept1 \<le> sb_max_items ?b"
    using k1 k0 list_emb_shortened_trans unfolding items_fit_def by auto
  have ok: "app_for pb s (section_result s ?b (render_items (si_title s) kept) kept (len (render_section_content s))
      (input_item_count s) (len kept))"
    if "kept \<noteq> []" "len (render_items (si_title s) kept) \<le> sb_max_chars ?b" "list_emb shortened kept (si_items s)"
      "len kept \<le> sb_max_items ?b" for kept
    using that assms(2) shortened_render [OF that(3), of "si_title s"]
    by (simp add: app_for_def section_result_def Let_def render_section_content_def)
  show ?thesis
    unfolding apply_items_section_def Let_def
    using ok [of ?kept0] ok [of ?kept1] k0 emb1 k1 app_for_omitted by (auto simp: items_fit_def)
qed

lemma app_for_text:
  assumes "section_ok pb (si_kind s)" and "si_items s = []" and "len t \<le> sb_max_chars (section_budget_of pb (si_kind s))"
    and "shortened t (render_section_content s)" and "render_section_content s \<noteq> [] \<Longrightarrow> t \<noteq> []"
  shows "app_for pb s (section_result s (section_budget_of pb (si_kind s)) t [] (len (render_section_content s))
    (input_item_count s) (input_item_count s))"
proof -
  have "0 \<le> input_item_count s" by (simp add: input_item_count_def)
  with assms show ?thesis by (simp add: app_for_def section_result_def Let_def section_ok_def)
qed

lemma app_for_apply_section:
  assumes "section_ok pb (si_kind s)"
  shows "app_for pb s (apply_section pb s)"
proof (cases "section_is_omitted_by_zero_budget s (sb_max_chars (section_budget_of pb (si_kind s)))
    (sb_max_items (section_budget_of pb (si_kind s)))")
  case True
  then show ?thesis by (simp add: apply_section_def Let_def app_for_omitted)
next
  case False
  then have pos: "0 < sb_max_chars (section_budget_of pb (si_kind s))"
    using assms by (simp add: section_is_omitted_by_zero_budget_def section_ok_def)
  show ?thesis
  proof (cases "si_items s = []")
    case True
    let ?t = "truncate_text (render_section_content s) (sb_max_chars (section_budget_of pb (si_kind s)))"
    have "len ?t \<le> sb_max_chars (section_budget_of pb (si_kind s))" using pos by (intro truncate_text_len) simp
    from app_for_text [OF assms True this truncate_shortened truncate_text_nonempty [OF pos]] show ?thesis
      using False True app_for_text [OF assms True] app_for_omitted
      by (simp add: apply_section_def Let_def text_within_char_budget_def)
  next
    case items: False
    with False have "sb_max_items (section_budget_of pb (si_kind s)) \<noteq> 0"
      by (simp add: section_is_omitted_by_zero_budget_def)
    from app_for_items [OF assms items this] show ?thesis
      using False items by (simp add: apply_section_def Let_def)
  qed
qed

section \<open>The total budget\<close>

lemma app_for_omit_existing:
  assumes "app_for pb s r"
  shows "app_for pb s (omit_existing r)"
  using assms by (auto simp: app_for_def omit_existing_def Let_def input_item_count_def)

lemma section_chars_omit [simp]: "section_chars (omit_existing r) = 0" "ba_section (omit_existing r) = None"
  by (simp_all add: section_chars_def omit_existing_def Let_def)

lemma app_for_replace_content:
  assumes "app_for pb s r" and "ba_section r = Some x" and "bs_items x = []"
    and "len t \<le> len (bs_content x)" and "shortened t (bs_content x)" and "bs_content x \<noteq> [] \<Longrightarrow> t \<noteq> []"
  shows "app_for pb s (replace_existing_with_content r t)"
proof -
  have "shortened t (render_section_content s)"
    using assms shortened_trans by (auto simp: app_for_def Let_def)
  with assms show ?thesis
    by (auto simp: app_for_def replace_existing_with_content_def Let_def split: if_splits)
qed

lemma app_for_replace_items:
  assumes "app_for pb s r" and "ba_section r = Some x" and "kept \<noteq> []"
    and "items_fit (bs_title x) m (bs_items x) kept" and "m \<le> len (bs_content x)"
  shows "app_for pb s (replace_existing_with_items r kept)"
proof -
  have fit: "len (render_items (bs_title x) kept) \<le> m" "list_emb shortened kept (bs_items x)" "length kept \<le> length (bs_items x)"
    using assms(3,4) by (simp_all add: items_fit_def)
  have r: "list_emb shortened (bs_items x) (si_items s)" "bs_title x = si_title s" "si_items s \<noteq> []"
    using assms(1,2) fit(3) assms(3) by (auto simp: app_for_def Let_def split: if_splits)
  have "shortened (render_items (si_title s) kept) (render_section_content s)"
    using shortened_render [OF list_emb_shortened_trans [OF fit(2) r(1)], of "si_title s"] r(3)
    by (simp add: render_section_content_def)
  with assms fit r list_emb_shortened_trans [OF fit(2) r(1)] show ?thesis
    by (auto simp: app_for_def replace_existing_with_items_def Let_def)
qed

lemma truncate_existing_ok:
  assumes "app_for pb s r" and "ba_section r = Some x" and "0 < m" and "m < len (bs_content x)"
  shows "app_for pb s (truncate_existing r m) \<and> section_chars (truncate_existing r m) \<le> m"
proof (cases "bs_items x = []")
  case True
  let ?t = "truncate_text (bs_content x) m"
  have t: "len ?t \<le> m" "shortened ?t (bs_content x)" "bs_content x \<noteq> [] \<Longrightarrow> ?t \<noteq> []"
    using assms(3) truncate_text_len truncate_shortened truncate_text_nonempty by simp_all
  have eq: "truncate_existing r m = replace_existing_with_content r ?t"
    using True assms(2) by (simp add: truncate_existing_def)
  have "app_for pb s (replace_existing_with_content r ?t)"
    using t assms(4) by (intro app_for_replace_content [OF assms(1,2) True]) simp_all
  with t(1) show ?thesis
    unfolding eq by (simp add: replace_existing_with_content_def assms(2) section_chars_def Let_def)
next
  case False
  let ?k = "items_within_char_budget (bs_kind x) (bs_title x) (bs_items x) m"
  have fit: "items_fit (bs_title x) m (bs_items x) ?k" by (rule items_within_char_budget_fit)
  have eq: "truncate_existing r m = (if ?k = [] then omit_existing r else replace_existing_with_items r ?k)"
    using False assms(2) by (simp add: truncate_existing_def Let_def)
  show ?thesis
  proof (cases "?k = []")
    case True
    then show ?thesis using eq assms(3) app_for_omit_existing [OF assms(1)] by simp
  next
    case False
    have "app_for pb s (replace_existing_with_items r ?k)"
      using assms(4) by (intro app_for_replace_items [OF assms(1,2) False fit]) simp
    with fit False show ?thesis
      unfolding eq
      by (simp add: replace_existing_with_items_def assms(2) section_chars_def Let_def items_fit_def)
  qed
qed

lemma sum_list_update_int:
  "i < length xs \<Longrightarrow> sum_list (map f (xs[i := v])) = sum_list (map f xs) - f (xs ! i) + (f v :: int)"
proof (induction xs arbitrary: i)
  case (Cons x xs)
  then show ?case by (cases i) simp_all
qed simp

text \<open>The entries the loop still has to visit.\<close>

definition pending :: "(nat \<times> section_application) list \<Rightarrow> section_application list \<Rightarrow> bool" where
  "pending ord patched \<longleftrightarrow> distinct (map fst ord) \<and>
     (\<forall>(i, r)\<in>set ord. i < length patched \<and> patched ! i = r \<and> ba_section r \<noteq> None)"

lemma pending_Cons:
  assumes "pending ((i, r) # ord) patched"
  shows "pending ord (patched[i := v])" "i < length patched" "patched ! i = r" "\<exists>x. ba_section r = Some x"
proof -
  have "j < length (patched[i := v]) \<and> patched[i := v] ! j = r' \<and> ba_section r' \<noteq> None" if "(j, r') \<in> set ord" for j r'
  proof -
    have "j \<noteq> i" using assms that by (force simp: pending_def)
    moreover have "j < length patched \<and> patched ! j = r' \<and> ba_section r' \<noteq> None"
      using assms that unfolding pending_def by fastforce
    ultimately show ?thesis by simp
  qed
  moreover have "distinct (map fst ord)" using assms by (simp add: pending_def)
  ultimately show "pending ord (patched[i := v])" unfolding pending_def by blast
qed (use assms in \<open>auto simp: pending_def\<close>)

text \<open>One visit removes at least what it accounts for, and keeps the relation to the inputs.\<close>

lemma overflow_visit:
  assumes "list_all2 (app_for pb) raw patched" and "i < length patched" and "patched ! i = r"
    and "ba_section r = Some x" and "0 < remaining"
  defines "removable \<equiv> min (len (bs_content x)) remaining"
  defines "v \<equiv> (if removable \<ge> len (bs_content x) then omit_existing r
                  else truncate_existing r (len (bs_content x) - removable))"
  shows "list_all2 (app_for pb) raw (patched[i := v])" "section_chars v \<le> section_chars r - removable"
    "len (bs_content x) \<le> remaining \<Longrightarrow> ba_section v = None"
proof -
  have ok: "app_for pb (raw ! i) r" using assms(1-3) by (auto simp: list_all2_conv_all_nth)
  have chars: "section_chars r = len (bs_content x)" by (simp add: section_chars_def assms(4))
  have v: "app_for pb (raw ! i) v \<and> section_chars v \<le> section_chars r - removable"
  proof (cases "removable \<ge> len (bs_content x)")
    case True
    then show ?thesis using ok app_for_omit_existing chars by (simp add: v_def removable_def)
  next
    case False
    then have "0 < len (bs_content x) - removable" "len (bs_content x) - removable < len (bs_content x)"
      using assms(5) by (auto simp: removable_def)
    from truncate_existing_ok [OF ok assms(4) this] False chars show ?thesis by (simp add: v_def)
  qed
  then show "section_chars v \<le> section_chars r - removable" by simp
  have "list_all2 (app_for pb) (raw[i := raw ! i]) (patched[i := v])"
    using assms(1) v by (intro list_all2_update_cong) simp_all
  then show "list_all2 (app_for pb) raw (patched[i := v])" by simp
  show "ba_section v = None" if "len (bs_content x) \<le> remaining"
    using that by (simp add: v_def removable_def)
qed

lemma overflow_loop_Cons:
  assumes "ba_section r = Some x" and "0 < remaining"
  defines "removable \<equiv> min (len (bs_content x)) remaining"
  defines "v \<equiv> (if removable \<ge> len (bs_content x) then omit_existing r
                  else truncate_existing r (len (bs_content x) - removable))"
  shows "overflow_loop ((i, r) # ord) remaining patched = overflow_loop ord (remaining - removable) (patched[i := v])"
  using assms by (simp add: Let_def)

lemma overflow_loop_done: "remaining \<le> 0 \<Longrightarrow> overflow_loop ord remaining patched = patched"
  by (cases ord) (auto split: option.splits)

lemma overflow_loop_sum:
  assumes "list_all2 (app_for pb) raw patched" and "pending ord patched" and "0 \<le> remaining"
  shows "list_all2 (app_for pb) raw (overflow_loop ord remaining patched) \<and>
    sum_list (map section_chars (overflow_loop ord remaining patched)) \<le>
      sum_list (map section_chars patched) - min remaining (sum_list (map (section_chars \<circ> snd) ord))"
  using assms
proof (induction ord arbitrary: remaining patched)
  case (Cons ir ord)
  obtain i r where ir: "ir = (i, r)" by fastforce
  note pend = pending_Cons [OF Cons.prems(2) [unfolded ir]]
  obtain x where x: "ba_section r = Some x" using pend(4) by blast
  show ?case
  proof (cases "remaining = 0")
    case True
    have "0 \<le> section_chars q" for q by (simp add: section_chars_def split: option.split)
    then have "0 \<le> sum_list (map (section_chars \<circ> snd) (ir # ord))"
      by (intro sum_list_nonneg) auto
    with True Cons.prems(1) show ?thesis by (simp only: overflow_loop_done order_refl min_absorb1) simp
  next
    case False
    with Cons.prems(3) have pos: "0 < remaining" by simp
    let ?m = "min (len (bs_content x)) remaining"
    define v where "v = (if ?m \<ge> len (bs_content x) then omit_existing r
      else truncate_existing r (len (bs_content x) - ?m))"
    note visit = overflow_visit [OF Cons.prems(1) pend(2,3) x pos, folded v_def]
    have chars: "section_chars r = len (bs_content x)" by (simp add: section_chars_def x)
    have "sum_list (map section_chars (patched[i := v])) \<le> sum_list (map section_chars patched) - ?m"
      using visit(2) by (simp add: sum_list_update_int pend(2,3))
    moreover have "0 \<le> remaining - ?m" by simp
    note IH = Cons.IH [OF visit(1) pend(1) this]
    moreover let ?z = "sum_list (map (section_chars \<circ> snd) ord)"
    have "0 \<le> ?z" by (intro sum_list_nonneg) (auto simp: section_chars_def split: option.split)
    then have "min remaining (section_chars r + ?z) = ?m + min (remaining - ?m) ?z"
      unfolding chars by linarith
    moreover have "sum_list (map (section_chars \<circ> snd) (ir # ord)) = section_chars r + ?z" by (simp add: ir)
    ultimately show ?thesis
      unfolding ir overflow_loop_Cons [OF x pos, folded v_def] by linarith
  qed
qed simp

lemma overflow_loop_untouched: "j \<notin> fst ` set ord \<Longrightarrow> overflow_loop ord remaining patched ! j = patched ! j"
proof (induction ord arbitrary: remaining patched)
  case (Cons ir ord)
  then show ?case by (cases ir) (auto simp: Let_def nth_list_update_neq split: option.splits)
qed simp

text \<open>The loop cuts a prefix of the order: all before the last section it touches are left out.\<close>

lemma overflow_loop_prefix:
  assumes "pending ord patched"
  shows "\<exists>n. (\<forall>k<n. k < length ord \<longrightarrow> ba_section (overflow_loop ord remaining patched ! fst (ord ! k)) = None) \<and>
    (\<forall>k>n. k < length ord \<longrightarrow> overflow_loop ord remaining patched ! fst (ord ! k) = snd (ord ! k))"
  using assms
proof (induction ord arbitrary: remaining patched)
  case (Cons ir ord)
  obtain i r where ir: "ir = (i, r)" by fastforce
  note pend = pending_Cons [OF Cons.prems [unfolded ir]]
  obtain x where x: "ba_section r = Some x" using pend(4) by blast
  have stored: "patched ! fst (ord ! k) = snd (ord ! k)" if "k < length ord" for k
    using Cons.prems nth_mem [OF that] unfolding pending_def by (cases "ord ! k") auto
  have fresh: "i \<notin> fst ` set ord" using Cons.prems by (simp add: pending_def ir)
  then have other: "fst (ord ! k) \<noteq> i" if "k < length ord" for k
    using nth_mem [OF that] by (metis image_eqI)
  show ?case
  proof (cases "0 < remaining")
    case False
    then have "overflow_loop (ir # ord) remaining patched = patched" by (intro overflow_loop_done) simp
    then show ?thesis using stored by (intro exI [of _ 0]) (auto simp: nth_Cons split: nat.splits)
  next
    case True
    let ?m = "min (len (bs_content x)) remaining"
    define v where "v = (if ?m \<ge> len (bs_content x) then omit_existing r
      else truncate_existing r (len (bs_content x) - ?m))"
    have step: "overflow_loop (ir # ord) remaining patched = overflow_loop ord (remaining - ?m) (patched[i := v])"
      unfolding ir by (rule overflow_loop_Cons [OF x True, folded v_def])
    have at_i: "overflow_loop ord (remaining - ?m) (patched[i := v]) ! i = v"
      using overflow_loop_untouched [OF fresh] pend(2) by simp
    show ?thesis
    proof (cases "len (bs_content x) \<le> remaining")
      case True
      then have none: "ba_section v = None" by (simp add: v_def)
      obtain n where n: "\<forall>k<n. k < length ord \<longrightarrow>
            ba_section (overflow_loop ord (remaining - ?m) (patched[i := v]) ! fst (ord ! k)) = None"
          "\<forall>k>n. k < length ord \<longrightarrow> overflow_loop ord (remaining - ?m) (patched[i := v]) ! fst (ord ! k) = snd (ord ! k)"
        using Cons.IH [OF pend(1)] by blast
      show ?thesis unfolding step
        using n none at_i by (intro exI [of _ "Suc n"]) (auto simp: nth_Cons ir split: nat.splits)
    next
      case False
      then have "overflow_loop ord (remaining - ?m) (patched[i := v]) = patched[i := v]"
        by (intro overflow_loop_done) simp
      moreover have "patched[i := v] ! fst (ord ! k) = snd (ord ! k)" if "k < length ord" for k
        unfolding nth_list_update [OF pend(2)] using stored [OF that] other [OF that] by auto
      ultimately show ?thesis unfolding step
        by (intro exI [of _ 0]) (auto simp: nth_Cons split: nat.splits)
    qed
  qed
qed simp

section \<open>The order of the cuts\<close>

lemma overflow_order_set:
  "(i, r) \<in> set (overflow_order results) \<longleftrightarrow>
     i < length results \<and> results ! i = r \<and> ba_section r \<noteq> None \<and> sr_overflow_behavior (ba_report r) \<noteq> OB_REQUIRED"
proof -
  have "(i, r) \<in> set (zip [0..<length results] results) \<longleftrightarrow> i < length results \<and> results ! i = r"
    unfolding set_zip by (auto intro!: exI [of _ i])
  then show ?thesis unfolding overflow_order_def by auto
qed

lemma overflow_order_pending: "pending (overflow_order results) results"
proof -
  have "distinct (map fst (filter P (zip [0..<length results] results)))" for P
    by (intro distinct_map_filter) simp
  moreover have "mset (map fst (sort_key overflow_sort_key xs)) = mset (map fst xs)" for xs by simp
  ultimately have "distinct (map fst (overflow_order results))"
    unfolding overflow_order_def using mset_eq_imp_distinct_iff by blast
  moreover have "i < length results \<and> results ! i = r \<and> ba_section r \<noteq> None"
    if "(i, r) \<in> set (overflow_order results)" for i r
    using that unfolding overflow_order_set by simp
  ultimately show ?thesis unfolding pending_def by blast
qed

lemma sum_filter_zip:
  "length is = length xs \<Longrightarrow>
     sum_list (map (f \<circ> snd) (filter (\<lambda>(i, r). P r) (zip is xs))) = sum_list (map (\<lambda>r. if P r then f r else (0::int)) xs)"
  by (induction "is" xs rule: list_induct2) simp_all

lemma overflow_order_sum:
  "sum_list (map (section_chars \<circ> snd) (overflow_order results)) =
     sum_list (map (\<lambda>r. if sr_overflow_behavior (ba_report r) \<noteq> OB_REQUIRED then section_chars r else 0) results)"
proof -
  have "sum_list (map (section_chars \<circ> snd) (overflow_order results)) =
      sum_list (map (section_chars \<circ> snd)
        (filter (\<lambda>(i, r). ba_section r \<noteq> None \<and> sr_overflow_behavior (ba_report r) \<noteq> OB_REQUIRED)
          (zip [0..<length results] results)))"
    unfolding overflow_order_def by (simp only: sum_mset_sum_list [symmetric] mset_map mset_sort)
  also have "\<dots> = sum_list (map (\<lambda>r. if ba_section r \<noteq> None \<and> sr_overflow_behavior (ba_report r) \<noteq> OB_REQUIRED
      then section_chars r else 0) results)"
    by (rule sum_filter_zip) simp
  also have "\<dots> = sum_list (map (\<lambda>r. if sr_overflow_behavior (ba_report r) \<noteq> OB_REQUIRED then section_chars r else 0) results)"
    by (intro arg_cong [of _ _ sum_list] map_cong) (auto simp: section_chars_def)
  finally show ?thesis .
qed

lemma sum_required_split:
  "sum_list (map section_chars results) =
     sum_list (map (\<lambda>r. if sr_overflow_behavior (ba_report r) \<noteq> OB_REQUIRED then section_chars r else 0) results) +
     sum_list (map (\<lambda>r. if sr_overflow_behavior (ba_report r) = OB_REQUIRED then section_chars r else 0) results)"
  by (induction results) simp_all

text \<open>The required sections fit into a well-formed total when each kind occurs once.\<close>

lemma sum_required_kinds:
  assumes "\<And>k. section_ok pb k" and "distinct (filter (required pb) ks)"
  shows "(\<Sum>k\<leftarrow>ks. if required pb k then sb_max_chars (section_budget_of pb k) else 0) \<le>
    (\<Sum>k\<leftarrow>PROMPT_SECTION_KINDS. if required pb k then sb_max_chars (section_budget_of pb k) else 0)"
proof -
  let ?f = "\<lambda>k. sb_max_chars (section_budget_of pb k)"
  have eq: "(\<Sum>k\<leftarrow>xs. if required pb k then ?f k else 0) = sum_list (map ?f (filter (required pb) xs))" for xs
    by (induction xs) simp_all
  have "distinct PROMPT_SECTION_KINDS" by (simp add: PROMPT_SECTION_KINDS_def)
  then have "sum_list (map ?f (filter (required pb) PROMPT_SECTION_KINDS)) = sum ?f {k. required pb k}"
    by (simp add: sum_list_distinct_conv_sum_set)
  moreover have "sum_list (map ?f (filter (required pb) ks)) = sum ?f (set (filter (required pb) ks))"
    using assms(2) by (rule sum_list_distinct_conv_sum_set)
  moreover have "finite (UNIV :: section_kind set)" using List.finite_set [of PROMPT_SECTION_KINDS] by simp
  then have "finite {k. required pb k}" by (rule rev_finite_subset) simp
  then have "sum ?f (set (filter (required pb) ks)) \<le> sum ?f {k. required pb k}"
    using assms(1) by (intro sum_mono2) (auto simp: section_ok_def)
  ultimately show ?thesis by (simp add: eq)
qed

lemma required_part_bound:
  assumes "profile_ok pb" and "list_all2 (app_for pb) raw results" and "distinct (filter (required pb) (map si_kind raw))"
  shows "sum_list (map (\<lambda>r. if sr_overflow_behavior (ba_report r) = OB_REQUIRED then section_chars r else 0) results) \<le>
    pb_total_max_chars pb"
proof -
  have ok: "section_ok pb k" for k using assms(1) by (simp add: profile_ok_def)
  have "sum_list (map (\<lambda>r. if sr_overflow_behavior (ba_report r) = OB_REQUIRED then section_chars r else 0) results) \<le>
      (\<Sum>k\<leftarrow>map si_kind raw. if required pb k then sb_max_chars (section_budget_of pb k) else 0)"
    using assms(2)
  proof induction
    case (Cons s raw r results)
    have "section_chars r \<le> sb_max_chars (section_budget_of pb (si_kind s))"
      using Cons(1) ok [of "si_kind s"]
      by (auto simp: app_for_def section_chars_def section_ok_def Let_def split: option.splits)
    moreover have "sr_overflow_behavior (ba_report r) = sb_overflow_behavior (section_budget_of pb (si_kind s))"
      using Cons(1) by (simp add: app_for_def Let_def)
    ultimately show ?case using Cons(3) by simp
  qed simp
  also have "\<dots> \<le> (\<Sum>k\<leftarrow>PROMPT_SECTION_KINDS. if required pb k then sb_max_chars (section_budget_of pb k) else 0)"
    using ok assms(3) by (rule sum_required_kinds)
  also have "\<dots> \<le> pb_total_max_chars pb"
    using assms(1) by (simp add: profile_ok_def required_chars_def split: if_splits)
  finally show ?thesis .
qed

lemma total_budget_bound:
  assumes "list_all2 (app_for pb) raw results" and "pb_total_max_chars pb \<le> n"
    and "sum_list (map (\<lambda>r. if sr_overflow_behavior (ba_report r) = OB_REQUIRED then section_chars r else 0) results) \<le> n"
  shows "list_all2 (app_for pb) raw (apply_total_budget pb results) \<and>
    sum_list (map section_chars (apply_total_budget pb results)) \<le> n"
proof (cases "sum_list (map section_chars results) \<le> pb_total_max_chars pb")
  case True
  with assms show ?thesis by (simp add: apply_total_budget_def)
next
  case False
  let ?over = "sum_list (map section_chars results) - pb_total_max_chars pb"
  have eq: "apply_total_budget pb results = overflow_loop (overflow_order results) ?over results"
    using False by (simp add: apply_total_budget_def Let_def)
  have "0 \<le> ?over" using False by simp
  from overflow_loop_sum [OF assms(1) overflow_order_pending this]
  show ?thesis
    unfolding eq overflow_order_sum
    using assms(2,3) sum_required_split [of results] by linarith
qed

text \<open>Which sections the total budget touches.\<close>

lemma total_budget_untouched:
  assumes "sr_overflow_behavior (ba_report (results ! i)) = OB_REQUIRED \<or> ba_section (results ! i) = None"
  shows "apply_total_budget pb results ! i = results ! i"
proof -
  have "i \<notin> fst ` set (overflow_order results)" using assms by (auto simp: overflow_order_set)
  then show ?thesis by (simp add: apply_total_budget_def Let_def overflow_loop_untouched)
qed

lemma total_budget_order:
  assumes "i < length results" "j < length results" and "apply_total_budget pb results ! j \<noteq> results ! j"
    and "sr_overflow_behavior (ba_report (results ! i)) \<noteq> OB_REQUIRED"
    and "overflow_sort_key (i, results ! i) < overflow_sort_key (j, results ! j)"
  shows "ba_section (apply_total_budget pb results ! i) = None"
proof (cases "ba_section (results ! i) = None")
  case True
  then show ?thesis using total_budget_untouched [of results i] by simp
next
  case False
  let ?ord = "overflow_order results"
  obtain remaining where eq: "apply_total_budget pb results = overflow_loop ?ord remaining results"
    using assms(3) unfolding apply_total_budget_def Let_def by metis
  have "(i, results ! i) \<in> set ?ord" using False assms(1,4) by (simp add: overflow_order_set)
  then obtain a where a: "a < length ?ord" "?ord ! a = (i, results ! i)" by (auto simp: in_set_conv_nth)
  have "j \<in> fst ` set ?ord"
    using assms(3) overflow_loop_untouched unfolding eq by metis
  then have "(j, results ! j) \<in> set ?ord" by (auto simp: overflow_order_set)
  then obtain b where b: "b < length ?ord" "?ord ! b = (j, results ! j)" by (auto simp: in_set_conv_nth)
  have "sorted (map overflow_sort_key ?ord)" unfolding overflow_order_def by (rule sorted_sort_key)
  then have "overflow_sort_key (?ord ! b) \<le> overflow_sort_key (?ord ! a)" if "b \<le> a"
    using sorted_nth_mono [of "map overflow_sort_key ?ord" b a] a(1) that by simp
  with a(2) b(2) assms(5) have "a < b" by (metis leD leI)
  obtain n where n: "\<And>k. k < n \<Longrightarrow> k < length ?ord \<Longrightarrow> ba_section (overflow_loop ?ord remaining results ! fst (?ord ! k)) = None"
      "\<And>k. n < k \<Longrightarrow> k < length ?ord \<Longrightarrow> overflow_loop ?ord remaining results ! fst (?ord ! k) = snd (?ord ! k)"
    using overflow_loop_prefix [OF overflow_order_pending] by metis
  have "\<not> n < b" using n(2) [OF _ b(1)] b(2) assms(3) unfolding eq by auto
  with \<open>a < b\<close> n(1) [OF _ a(1)] a(2) show ?thesis unfolding eq by simp
qed

lemma sum_map_filter_sections:
  "sum_list (map (\<lambda>s. len (bs_content s)) (List.map_filter ba_section rs)) = sum_list (map section_chars rs)"
  by (induction rs) (auto simp: map_filter_simps section_chars_def split: option.split)

lemma app_for_valid_report:
  assumes "app_for pb s r" and "section_ok pb (si_kind s)"
  shows "valid_section_report (ba_report r)"
proof (cases "ba_section r")
  case None
  with assms show ?thesis
    by (simp add: app_for_def valid_section_report_def section_ok_def Let_def input_item_count_def)
next
  case (Some x)
  with assms show ?thesis
    by (simp add: app_for_def valid_section_report_def section_ok_def Let_def input_item_count_def)
qed

text \<open>The policy on a well-formed profile: it never raises, and its answer in closed form.\<close>

lemma apply_budget_ok:
  assumes "\<And>k. section_ok pb k" and "0 \<le> pb_total_max_chars pb"
    and "list_all2 (app_for pb) raw (apply_total_budget pb (map (apply_section pb) raw))"
  defines "results \<equiv> apply_total_budget pb (map (apply_section pb) raw)"
  shows "apply_budget profile pb raw =
    Inr \<lparr>br_sections = List.map_filter ba_section results,
         br_report = \<lparr>ar_profile = profile, ar_total_chars = sum_list (map section_chars results),
           ar_total_max_chars = pb_total_max_chars pb, ar_section_reports = map ba_report results,
           ar_persona_profile_version = None, ar_persona_fallback_used = False, ar_persona_failure_reason = None\<rparr>\<rparr>"
proof -
  have valid: "valid_section_report (ba_report r)" if "list_all2 (app_for pb) raw rs" "r \<in> set rs" for r rs
    using that app_for_valid_report assms(1) by (metis in_set_conv_nth list_all2_conv_all_nth)
  have "list_all2 (app_for pb) raw (map (apply_section pb) raw)"
    using assms(1) app_for_apply_section by (simp add: list_all2_conv_all_nth)
  then have v1: "\<not> (\<exists>r\<in>set (map (apply_section pb) raw). \<not> valid_section_report (ba_report r))" using valid by blast
  have v2: "\<not> (\<exists>r\<in>set results. \<not> valid_section_report (ba_report r))"
    using assms(3) valid unfolding results_def by blast
  show ?thesis
    using v1 v2 assms(2) unfolding apply_budget_def Let_def results_def [symmetric]
    by (simp add: sum_map_filter_sections)
qed

section \<open>Property\<close>

text \<open>
  C35. Prompts stay within their budget. On a well-formed profile, for sections in which a required kind
  occurs at most once, the policy answers, and: the contents it keeps are no longer than the total; the
  report gives their exact length and one entry per input; every section is left out or keeps its kind,
  title and trust boundary, is within its own limits of characters and items, and holds nothing but a
  shortened form of its input (with the report saying how much was cut); required sections are cut only to
  their own limits; and among the others the total budget cuts in the order of priority: when it cuts a
  section, all that come before it are left out.
\<close>

theorem prompt_within_budget:
  assumes "profile_ok pb" and "distinct (filter (required pb) (map si_kind raw))"
  shows "\<exists>res results. apply_budget profile pb raw = Inr res \<and>
    br_sections res = List.map_filter ba_section results \<and> ar_section_reports (br_report res) = map ba_report results \<and>
    ar_total_chars (br_report res) = sum_list (map (\<lambda>s. len (bs_content s)) (br_sections res)) \<and>
    ar_total_chars (br_report res) \<le> pb_total_max_chars pb \<and> list_all2 (app_for pb) raw results \<and>
    (\<forall>i<length raw. required pb (si_kind (raw ! i)) \<longrightarrow> results ! i = apply_section pb (raw ! i)) \<and>
    (\<forall>i<length raw. \<forall>j<length raw. results ! j \<noteq> apply_section pb (raw ! j) \<longrightarrow> \<not> required pb (si_kind (raw ! i)) \<longrightarrow>
       (sb_priority (section_budget_of pb (si_kind (raw ! i))), i) < (sb_priority (section_budget_of pb (si_kind (raw ! j))), j) \<longrightarrow>
       ba_section (results ! i) = None)"
proof -
  let ?base = "map (apply_section pb) raw"
  let ?final = "apply_total_budget pb ?base"
  have ok: "section_ok pb k" "0 \<le> pb_total_max_chars pb" for k using assms(1) by (simp_all add: profile_ok_def)
  have each: "app_for pb s (apply_section pb s)" for s using ok(1) by (rule app_for_apply_section)
  then have rel0: "list_all2 (app_for pb) raw ?base" by (simp add: list_all2_conv_all_nth)
  have rep: "sr_overflow_behavior (ba_report (apply_section pb s)) = sb_overflow_behavior (section_budget_of pb (si_kind s))"
    "sr_priority (ba_report (apply_section pb s)) = sb_priority (section_budget_of pb (si_kind s))" for s
    using each [of s] by (simp_all add: app_for_def Let_def)
  note bound = total_budget_bound [OF rel0 order_refl required_part_bound [OF assms(1) rel0 assms(2)]]
  have req: "?final ! i = apply_section pb (raw ! i)" if "i < length raw" "required pb (si_kind (raw ! i))" for i
    using total_budget_untouched [of ?base i pb] that by (simp add: rep)
  have order: "ba_section (?final ! i) = None"
    if "i < length raw" "j < length raw" "?final ! j \<noteq> apply_section pb (raw ! j)" "\<not> required pb (si_kind (raw ! i))"
      "(sb_priority (section_budget_of pb (si_kind (raw ! i))), i) < (sb_priority (section_budget_of pb (si_kind (raw ! j))), j)"
    for i j
    using total_budget_order [of i ?base j pb] that by (simp add: overflow_sort_key_def rep)
  note answer = apply_budget_ok [OF ok conjunct1 [OF bound], of profile]
  have req_all: "\<forall>i<length raw. required pb (si_kind (raw ! i)) \<longrightarrow> ?final ! i = apply_section pb (raw ! i)"
    using req by blast
  have order_all: "\<forall>i<length raw. \<forall>j<length raw. ?final ! j \<noteq> apply_section pb (raw ! j) \<longrightarrow> \<not> required pb (si_kind (raw ! i)) \<longrightarrow>
      (sb_priority (section_budget_of pb (si_kind (raw ! i))), i) < (sb_priority (section_budget_of pb (si_kind (raw ! j))), j) \<longrightarrow>
      ba_section (?final ! i) = None"
    using order by blast
  show ?thesis
    by (rule exI, rule exI [of _ ?final], intro conjI, rule answer)
      (rule req_all order_all | simp only: budget_result.simps assembly_report.simps sum_map_filter_sections bound)+
qed

section \<open>Witness\<close>

definition tiny_profile :: profile_budget where
  "tiny_profile =
     (let omit = mk_section 20 1 10 OB_OMIT
      in \<lparr>pb_total_max_chars = 30, pb_system = mk_section 10 1 100 OB_REQUIRED, pb_persona = omit,
          pb_safety_constraints = omit, pb_recent_conversation = omit, pb_user_memory = omit, pb_project_memory = omit,
          pb_relationship_signal = omit, pb_internal_state = omit, pb_interaction_policy = omit,
          pb_task_context = mk_section 20 1 10 OB_TRUNCATE, pb_user_input = mk_section 10 1 100 OB_REQUIRED\<rparr>)"

lemma tiny_profile_ok: "profile_ok tiny_profile"
  unfolding profile_ok_def
proof (intro conjI allI)
  show "section_ok tiny_profile k" for k
    by (cases k; simp add: section_ok_def tiny_profile_def Let_def mk_section_def)
qed (simp_all add: tiny_profile_def Let_def required_chars_def PROMPT_SECTION_KINDS_def mk_section_def)

definition tiny_section :: "section_kind \<Rightarrow> string \<Rightarrow> section_input" where
  "tiny_section kind t =
     \<lparr>si_kind = kind, si_title = codes ''T'', si_trust_boundary = TB_TRUSTED, si_content = codes t, si_items = []\<rparr>"

theorem prompt_within_budget_witness:
  "\<exists>res. apply_budget LOCAL_LOW tiny_profile
      [tiny_section SK_SYSTEM ''0123456789'', tiny_section SK_TASK_CONTEXT ''012345678901234567890'',
       tiny_section SK_USER_INPUT ''0123456789''] = Inr res \<and> ar_total_chars (br_report res) \<le> 30"
proof -
  let ?raw = "[tiny_section SK_SYSTEM ''0123456789'', tiny_section SK_TASK_CONTEXT ''012345678901234567890'',
    tiny_section SK_USER_INPUT ''0123456789'']"
  have d: "distinct (filter (required tiny_profile) (map si_kind ?raw))"
    by (simp add: tiny_section_def tiny_profile_def Let_def mk_section_def)
  obtain res where "apply_budget LOCAL_LOW tiny_profile ?raw = Inr res"
      "ar_total_chars (br_report res) \<le> pb_total_max_chars tiny_profile"
    using prompt_within_budget [OF tiny_profile_ok d, of LOCAL_LOW] by blast
  then show ?thesis by (simp add: tiny_profile_def Let_def)
qed

end
