(* ===== verification/Prompt_Assembler_Props.thy ===== *)
theory Prompt_Assembler_Props
  imports Prompt_Assembler Prompt_Budget_Props
begin

text \<open>
  Correctness of the assembled prompt: which text ends in which message, what the report says, and how far
  the messages may exceed the cap.
\<close>

section \<open>The budget with a lowered total\<close>

text \<open>Lowering the total leaves the sections' budgets, and so what may become of a section.\<close>

lemma section_budget_lowered [simp]: "section_budget_of (pb\<lparr>pb_total_max_chars := e\<rparr>) k = section_budget_of pb k"
  by (cases k) simp_all

lemma lowered_same [simp]:
  "app_for (pb\<lparr>pb_total_max_chars := e\<rparr>) = app_for pb" "section_ok (pb\<lparr>pb_total_max_chars := e\<rparr>) = section_ok pb"
  "apply_section (pb\<lparr>pb_total_max_chars := e\<rparr>) = apply_section pb"
  by (simp_all add: fun_eq_iff app_for_def section_ok_def apply_section_def)

text \<open>A budget result as the policy gives it under any total up to the profile's.\<close>

definition budgeted :: "profile_budget \<Rightarrow> section_input list \<Rightarrow> budget_result \<Rightarrow> bool" where
  "budgeted pb raw res \<longleftrightarrow>
     (\<exists>results. br_sections res = List.map_filter ba_section results \<and> list_all2 (app_for pb) raw results \<and>
        sum_list (map section_chars results) \<le> pb_total_max_chars pb)"

lemma apply_budget_lowered:
  assumes "profile_ok pb" and "distinct (filter (required pb) (map si_kind raw))" and "0 \<le> e" and "e \<le> pb_total_max_chars pb"
  shows "\<exists>res. apply_budget profile (pb\<lparr>pb_total_max_chars := e\<rparr>) raw = Inr res \<and> budgeted pb raw res"
proof -
  let ?pb = "pb\<lparr>pb_total_max_chars := e\<rparr>"
  let ?base = "map (apply_section pb) raw"
  have ok: "section_ok pb k" for k using assms(1) by (simp add: profile_ok_def)
  then have rel: "list_all2 (app_for pb) raw ?base" by (simp add: list_all2_conv_all_nth app_for_apply_section)
  have bound: "list_all2 (app_for pb) raw (apply_total_budget ?pb ?base) \<and>
      sum_list (map section_chars (apply_total_budget ?pb ?base)) \<le> pb_total_max_chars pb"
    using total_budget_bound [of ?pb raw ?base "pb_total_max_chars pb"] rel assms(4) required_part_bound [OF assms(1) rel assms(2)]
    by simp
  then show ?thesis
    using apply_budget_ok [of ?pb raw profile] ok assms(3) unfolding budgeted_def lowered_same by auto
qed

lemma next_total_max_bounds:
  assumes "1 \<le> e"
  shows "1 \<le> next_total_max e d" "next_total_max e d \<le> e"
  using assms by (auto simp: next_total_max_def Let_def)

lemma cap_loop_ok:
  assumes "profile_ok pb" and "distinct (filter (required pb) (map si_kind raw))" and "1 \<le> e" and "e \<le> pb_total_max_chars pb"
  shows "\<exists>res. cap_loop n profile pb (pb\<lparr>pb_total_max_chars := e\<rparr>) raw p = Inr (assembled pb p res) \<and> budgeted pb raw res"
  using assms(3,4)
proof (induction n arbitrary: e)
  case 0
  then obtain res where "apply_budget profile (pb\<lparr>pb_total_max_chars := e\<rparr>) raw = Inr res" "budgeted pb raw res"
    using apply_budget_lowered [OF assms(1,2), of e profile] by auto
  then show ?case by auto
next
  case (Suc n)
  then obtain res where res: "apply_budget profile (pb\<lparr>pb_total_max_chars := e\<rparr>) raw = Inr res" "budgeted pb raw res"
    using apply_budget_lowered [OF assms(1,2), of e profile] by auto
  let ?actual = "message_content_chars (messages_from_sections (br_sections res) p)"
  let ?next = "next_total_max e (?actual - pb_total_max_chars pb)"
  have "1 \<le> ?next" "?next \<le> pb_total_max_chars pb"
    using next_total_max_bounds [OF Suc.prems(1)] Suc.prems(2) order_trans by blast+
  from Suc.IH [OF this] res show ?case by (cases "?actual \<le> pb_total_max_chars pb") (auto simp: Let_def)
qed

section \<open>Messages\<close>

text \<open>The contents of a trust boundary are shortened renderings of its input sections, in their order.\<close>

lemma section_contents_shortened:
  assumes "list_all2 (app_for pb) raw results"
  shows "list_emb shortened (section_contents (List.map_filter ba_section results) tb)
    (map render_section_content (filter (\<lambda>s. si_trust_boundary s = tb) raw))"
  using assms
proof induction
  case (Cons s raw r results)
  show ?case
  proof (cases "ba_section r")
    case None
    with Cons(3) show ?thesis by (simp add: map_filter_simps list_emb_Cons)
  next
    case (Some x)
    then have "bs_trust_boundary x = si_trust_boundary s" "shortened (bs_content x) (render_section_content s)"
      using Cons(1) by (simp_all add: app_for_def Let_def)
    with Cons(3) Some show ?thesis by (simp add: map_filter_simps section_contents_def list_emb_Cons)
  qed
qed (simp add: section_contents_def)

lemma shortened_join_filter:
  assumes "list_emb shortened xs ys"
  shows "shortened (py_join sep (filter P xs)) (py_join sep ys)"
proof -
  have "list_emb shortened (filter P xs) xs"
    by (induction xs) (simp_all add: list_emb_Cons)
  from shortened_join [OF list_emb_shortened_trans [OF this assms]] show ?thesis .
qed

lemma find_section:
  assumes "list_all2 (app_for pb) raw results"
    and "find (\<lambda>x. bs_kind x = k) (List.map_filter ba_section results) = Some x"
  shows "\<exists>s r. s \<in> set raw \<and> app_for pb s r \<and> ba_section r = Some x \<and> si_kind s = k"
  using assms
proof induction
  case (Cons s raw r results)
  show ?case
  proof (cases "ba_section r = Some x")
    case True
    moreover have "bs_kind x = k" using Cons.prems unfolding find_Some_iff by auto
    ultimately have "si_kind s = k" using Cons(1) by (simp add: app_for_def Let_def)
    with True Cons(1) show ?thesis by auto
  next
    case False
    then have "find (\<lambda>x. bs_kind x = k) (List.map_filter ba_section results) = Some x"
      using Cons.prems by (cases "ba_section r") (auto simp: map_filter_simps split: if_splits)
    with Cons.IH show ?thesis by auto
  qed
qed (simp add: map_filter_simps)

section \<open>Lengths\<close>

definition chars_of :: "budgeted_section list \<Rightarrow> int" where
  "chars_of xs = sum_list (map (\<lambda>x. len (bs_content x)) xs)"

lemma chars_of_simps [simp]: "chars_of [] = 0" "chars_of (x # xs) = len (bs_content x) + chars_of xs"
  by (simp_all add: chars_of_def)

lemma chars_of_nonneg [simp]: "0 \<le> chars_of xs"
  by (induction xs) simp_all

lemma chars_of_member: "x \<in> set xs \<Longrightarrow> len (bs_content x) \<le> chars_of xs"
  by (induction xs) (auto intro: add_increasing add_increasing2)

text \<open>Every section has one place: a message of its trust boundary, the history, or the last message.\<close>

definition placed :: "trust_boundary \<Rightarrow> budgeted_section list \<Rightarrow> budgeted_section list" where
  "placed tb xs = filter (\<lambda>x. bs_trust_boundary x = tb \<and> bs_kind x \<notin> {SK_RECENT_CONVERSATION, SK_USER_INPUT}) xs"

definition of_kind :: "section_kind \<Rightarrow> budgeted_section list \<Rightarrow> budgeted_section list" where
  "of_kind k xs = filter (\<lambda>x. bs_kind x = k) xs"

lemma places:
  "chars_of (placed TB_TRUSTED xs) + chars_of (placed TB_INTERNAL_DERIVED xs) + chars_of (placed TB_EXTERNAL_CONTEXT xs) +
     chars_of (of_kind SK_RECENT_CONVERSATION xs) + chars_of (of_kind SK_USER_INPUT xs) \<le> chars_of xs"
  "length (placed TB_TRUSTED xs) + length (placed TB_INTERNAL_DERIVED xs) + length (placed TB_EXTERNAL_CONTEXT xs) \<le> length xs"
proof (induction xs)
  case (Cons x xs)
  {
    case 1
    show ?case using Cons.IH(1) by (cases "bs_trust_boundary x") (auto simp: placed_def of_kind_def)
  next
    case 2
    show ?case using Cons.IH(2) by (cases "bs_trust_boundary x") (auto simp: placed_def)
  }
qed (simp_all add: placed_def of_kind_def)

lemma join_chars: "len (py_join [10, 10] (map bs_content xs)) \<le> chars_of xs + 2 * len xs"
  by (induction xs rule: induct_list012) (simp_all add: length_py_join chars_of_def)

lemma system_content_chars: "len (system_content xs) \<le> chars_of (placed TB_TRUSTED xs) + 2 * len (placed TB_TRUSTED xs)"
proof -
  have eq: "filter (\<lambda>t. \<not> blank t) (section_contents xs TB_TRUSTED) =
      map bs_content (filter (\<lambda>x. \<not> blank (bs_content x)) (placed TB_TRUSTED xs))"
    by (simp add: section_contents_def placed_def filter_map o_def)
  have "chars_of (filter P ys) \<le> chars_of ys" for P ys by (induction ys) simp_all
  moreover have "len (filter P ys) \<le> len ys" for P and ys :: "budgeted_section list" by simp
  ultimately show ?thesis
    using join_chars [of "filter (\<lambda>x. \<not> blank (bs_content x)) (placed TB_TRUSTED xs)"]
    unfolding system_content_def eq by (smt (verit))
qed

lemma labelled_chars:
  "message_content_chars (labelled_message label (section_contents xs tb)) \<le> len label + chars_of (placed tb xs) + 2 * len (placed tb xs)"
proof -
  have "section_contents xs tb = map bs_content (placed tb xs)" by (simp add: section_contents_def placed_def)
  then show ?thesis
    using join_chars [of "placed tb xs"] by (simp add: labelled_message_def message_content_chars_def)
qed

lemma conversation_message_chars:
  assumes "conversation_message_from_formatted_item item = Some m"
  shows "len (lm_content m) \<le> len item \<and> lm_role m \<noteq> ROLE_SYSTEM"
proof -
  obtain a b c where parts: "str_partition [58, 32] item = (a, b, c)" by (cases "str_partition [58, 32] item") auto
  have "len c \<le> len item" using str_partition_parts [OF parts] by simp
  with assms parts show ?thesis
    by (auto simp: conversation_message_from_formatted_item_def split: if_splits)
qed

lemma history_chars:
  "message_content_chars (List.map_filter conversation_message_from_formatted_item items) \<le> len (render_items title items)"
proof -
  have "message_content_chars (List.map_filter conversation_message_from_formatted_item items) \<le> sum_list (map len items)"
    by (induction items)
      (auto simp: map_filter_simps message_content_chars_def dest: conversation_message_chars split: option.split)
  also have "\<dots> \<le> len (render_items title items)"
    by (induction items) (auto simp: render_items_def length_py_join)
  finally show ?thesis .
qed

lemma conversation_chars:
  assumes "list_all2 (app_for pb) raw results"
  defines "xs \<equiv> List.map_filter ba_section results"
  shows "message_content_chars (conversation_messages_from_budget xs) \<le> chars_of (of_kind SK_RECENT_CONVERSATION xs)"
proof (cases "find (\<lambda>x. bs_kind x = SK_RECENT_CONVERSATION) xs")
  case None
  then show ?thesis by (simp add: conversation_messages_from_budget_def message_content_chars_def)
next
  case (Some x)
  obtain s r where sr: "app_for pb s r" "ba_section r = Some x"
    using find_section [OF assms(1) Some [unfolded xs_def]] by blast
  have "x \<in> set (of_kind SK_RECENT_CONVERSATION xs)"
    using Some by (auto simp: of_kind_def find_Some_iff)
  moreover have "message_content_chars (List.map_filter conversation_message_from_formatted_item (bs_items x)) \<le> len (bs_content x)"
  proof (cases "bs_items x = []")
    case False
    then have "bs_content x = render_items (si_title s) (bs_items x)"
      using sr by (auto simp: app_for_def Let_def split: if_splits)
    then show ?thesis using history_chars by simp
  qed (simp add: map_filter_simps message_content_chars_def)
  ultimately show ?thesis
    using Some chars_of_member by (simp add: conversation_messages_from_budget_def) fastforce
qed

lemma user_chars:
  assumes "list_all2 (app_for pb) raw results"
    and "\<And>s. s \<in> set raw \<Longrightarrow> si_kind s = SK_USER_INPUT \<Longrightarrow> s = latest_user_input_section p" and "\<not> blank (rp_actor_text p)"
  defines "xs \<equiv> List.map_filter ba_section results"
  shows "len (user_content_from_budget xs (rp_actor_text p)) \<le> chars_of (of_kind SK_USER_INPUT xs) \<and>
    shortened (user_content_from_budget xs (rp_actor_text p)) (rp_actor_text p)"
proof (cases "find (\<lambda>x. bs_kind x = SK_USER_INPUT) xs")
  case None
  then show ?thesis by (simp add: user_content_from_budget_def)
next
  case (Some x)
  obtain s r where sr: "s \<in> set raw" "app_for pb s r" "ba_section r = Some x" "si_kind s = SK_USER_INPUT"
    using find_section [OF assms(1) Some [unfolded xs_def]] by blast
  have s: "s = latest_user_input_section p" using assms(2) sr by blast
  have render: "render_section_content s = rp_actor_text p"
    using assms(3) by (simp add: s render_section_content_def latest_user_input_section_def)
  have "rp_actor_text p \<noteq> []" using assms(3) by (auto simp: blank_def)
  then have x: "bs_content x \<noteq> []" "shortened (bs_content x) (rp_actor_text p)"
    using sr render by (auto simp: app_for_def Let_def s latest_user_input_section_def)
  have "shortened (drop n (bs_content x)) (take n (bs_content x) @ drop n (bs_content x))" for n
    by (rule shortened_append_left) simp
  then have body: "shortened (section_body x t) (bs_content x)" "len (section_body x t) \<le> len (bs_content x)" for t
    using x(1) by (simp_all add: section_body_def Let_def)
  have "x \<in> set (of_kind SK_USER_INPUT xs)" using Some by (auto simp: of_kind_def find_Some_iff)
  then have "len (bs_content x) \<le> chars_of (of_kind SK_USER_INPUT xs)" by (rule chars_of_member)
  with Some body [of "rp_actor_text p"] x(2) show ?thesis
    using shortened_trans by (auto simp: user_content_from_budget_def)
qed

lemma messages_chars:
  assumes "list_all2 (app_for pb) raw results"
    and "\<And>s. s \<in> set raw \<Longrightarrow> si_kind s = SK_USER_INPUT \<Longrightarrow> s = latest_user_input_section p" and "\<not> blank (rp_actor_text p)"
  shows "message_content_chars (messages_from_sections (List.map_filter ba_section results) p) \<le>
    sum_list (map section_chars results) + len INTERNAL_LABEL + len EXTERNAL_LABEL + 2 * len raw"
proof -
  let ?xs = "List.map_filter ba_section results"
  have split: "message_content_chars (messages_from_sections ?xs p) = len (system_content ?xs) +
      message_content_chars (labelled_message INTERNAL_LABEL (section_contents ?xs TB_INTERNAL_DERIVED)) +
      message_content_chars (labelled_message EXTERNAL_LABEL (section_contents ?xs TB_EXTERNAL_CONTEXT)) +
      message_content_chars (conversation_messages_from_budget ?xs) +
      len (user_content_from_budget ?xs (rp_actor_text p))"
    by (simp add: messages_from_sections_def context_messages_def message_content_chars_def)
  have "length (List.map_filter ba_section rs) \<le> length rs" for rs
    by (induction rs) (auto simp: map_filter_simps split: option.split)
  then have "len ?xs \<le> len raw" using list_all2_lengthD [OF assms(1)] by (metis of_nat_mono)
  moreover have "len (placed TB_TRUSTED ?xs) + len (placed TB_INTERNAL_DERIVED ?xs) + len (placed TB_EXTERNAL_CONTEXT ?xs) \<le> len ?xs"
    using places(2) [of ?xs] by linarith
  moreover have "chars_of ?xs = sum_list (map section_chars results)"
    unfolding chars_of_def by (rule sum_map_filter_sections)
  ultimately show ?thesis
    unfolding split
    using system_content_chars [of ?xs] labelled_chars [of INTERNAL_LABEL ?xs TB_INTERNAL_DERIVED]
      labelled_chars [of EXTERNAL_LABEL ?xs TB_EXTERNAL_CONTEXT] conversation_chars [OF assms(1)] user_chars [OF assms]
      places(1) [of ?xs] by linarith
qed

section \<open>The sections of a response prompt\<close>

lemma other_sections:
  assumes "s \<in> set (conversation_sections p @ context_sections p)"
  shows "si_trust_boundary s \<noteq> TB_TRUSTED \<and>
    (si_kind s \<in> {SK_SYSTEM, SK_SAFETY_CONSTRAINTS, SK_USER_INPUT} \<longrightarrow>
       (\<exists>x\<in>set (rp_retrieved_context p). si_kind s = ri_prompt_section_kind x))"
proof -
  have "si_trust_boundary s = TB_EXTERNAL_CONTEXT \<and> (\<exists>x\<in>set (rp_retrieved_context p). si_kind s = ri_prompt_section_kind x)"
    if "s \<in> set (retrieved_section p k)" for k
  proof (cases "filter (\<lambda>x. ri_source_kind x = k) (rp_retrieved_context p)")
    case (Cons x xs)
    then have "x \<in> set (rp_retrieved_context p)" by (metis filter_is_subset list.set_intros(1) subsetD)
    with Cons that show ?thesis by (auto simp: retrieved_section_def)
  qed (use that in \<open>simp add: retrieved_section_def\<close>)
  then show ?thesis
    using assms
    by (auto simp: conversation_sections_def context_sections_def retrieved_context_sections_def memory_section_def
        internal_state_section_def policy_section_def goals_section_def split: if_splits option.splits)
qed

lemma trusted_filter:
  "filter (\<lambda>s. si_trust_boundary s = TB_TRUSTED) (sections_from_response_prompt p builder) = trusted_sections p builder"
proof -
  have "filter (\<lambda>s. si_trust_boundary s = TB_TRUSTED) (conversation_sections p @ context_sections p) = []"
    using other_sections unfolding filter_empty_conv by blast
  then show ?thesis
    by (auto simp: sections_from_response_prompt_def trusted_sections_def system_section_def safety_section_def
        build_persona_section_def latest_user_input_section_def Let_def split: option.split)
qed

definition retrieval_kinds_free :: "response_prompt \<Rightarrow> bool" where
  "retrieval_kinds_free p \<longleftrightarrow>
     (\<forall>x\<in>set (rp_retrieved_context p). ri_prompt_section_kind x \<notin> {SK_SYSTEM, SK_SAFETY_CONSTRAINTS, SK_USER_INPUT})"

lemma required_once:
  assumes "retrieval_kinds_free p" and "\<And>k. section_ok pb k"
  shows "distinct (filter (required pb) (map si_kind (sections_from_response_prompt p builder)))"
proof -
  let ?three = "\<lambda>k. k \<in> {SK_SYSTEM, SK_SAFETY_CONSTRAINTS, SK_USER_INPUT}"
  have "filter ?three (map si_kind (conversation_sections p @ context_sections p)) = []"
    using other_sections assms(1) unfolding filter_empty_conv retrieval_kinds_free_def by fastforce
  then have "filter ?three (map si_kind (sections_from_response_prompt p builder)) =
      [SK_SYSTEM, SK_SAFETY_CONSTRAINTS, SK_USER_INPUT]"
    by (auto simp: sections_from_response_prompt_def trusted_sections_def system_section_def safety_section_def
        build_persona_section_def latest_user_input_section_def Let_def split: option.split)
  moreover have "filter (required pb) ks = filter (required pb) (filter ?three ks)" for ks
    using assms(2) by (induction ks) (auto simp: section_ok_def)
  ultimately have "filter (required pb) (map si_kind (sections_from_response_prompt p builder)) =
      filter (required pb) [SK_SYSTEM, SK_SAFETY_CONSTRAINTS, SK_USER_INPUT]" by metis
  then show ?thesis by simp
qed

lemma only_user_section:
  assumes "retrieval_kinds_free p" and "s \<in> set (sections_from_response_prompt p builder)" and "si_kind s = SK_USER_INPUT"
  shows "s = latest_user_input_section p"
proof -
  have "s \<notin> set (conversation_sections p @ context_sections p)"
    using other_sections [of s p] assms(1,3) unfolding retrieval_kinds_free_def by (metis insert_iff)
  with assms(2,3) show ?thesis
    by (auto simp: sections_from_response_prompt_def trusted_sections_def system_section_def safety_section_def
        build_persona_section_def Let_def split: option.splits)
qed

section \<open>Properties\<close>

lemma disabled_budget_ok: "profile_ok disabled_budget"
  unfolding profile_ok_def
proof (intro conjI allI)
  show "section_ok disabled_budget k" for k
    by (cases k; simp add: section_ok_def disabled_budget_def Let_def mk_section_def)
qed (simp_all add: disabled_budget_def Let_def required_chars_def PROMPT_SECTION_KINDS_def mk_section_def)

lemma effective_profile_ok: "config_ok (pa_config a) \<Longrightarrow> profile_ok (effective_profile_budget a)"
  by (simp add: effective_profile_budget_def config_ok_def disabled_budget_ok)

lemma messages_roles:
  "\<forall>m\<in>set (tl (messages_from_sections xs p)). lm_role m \<noteq> ROLE_SYSTEM"
proof -
  have "lm_role m \<noteq> ROLE_SYSTEM" if "m \<in> set (List.map_filter conversation_message_from_formatted_item items)" for m items
    using that conversation_message_chars by (auto simp: map_filter_def)
  then show ?thesis
    by (auto simp: messages_from_sections_def context_messages_def labelled_message_def
        conversation_messages_from_budget_def split: option.splits if_splits)
qed


section \<open>The cap is not always reached\<close>

text \<open>
  A small profile under which nothing has to be cut by the total, while the label of the internal context
  message makes the messages one character too long. Each round lowers the effective total by that one
  character, and the rounds are used up before the total bites.
\<close>

definition cap_profile :: "int \<Rightarrow> profile_budget" where
  "cap_profile cap =
     (let omit = mk_section 0 0 0 OB_OMIT
      in \<lparr>pb_total_max_chars = cap, pb_system = mk_section 30 1 100 OB_REQUIRED, pb_persona = omit,
          pb_safety_constraints = omit, pb_recent_conversation = omit, pb_user_memory = omit, pb_project_memory = omit,
          pb_relationship_signal = omit, pb_internal_state = omit,
          pb_interaction_policy = mk_section 40 5 75 OB_TRUNCATE_ITEMS,
          pb_task_context = omit, pb_user_input = mk_section 10 1 100 OB_REQUIRED\<rparr>)"

definition cap_config :: prompt_budget_config where
  "cap_config = default_prompt_budget_config\<lparr>pc_local_balanced := cap_profile 101, pc_proactive_short := cap_profile 100\<rparr>"

definition cap_prompt :: response_prompt where
  "cap_prompt =
     \<lparr>rp_system_instruction = codes ''a'', rp_actor_text = codes ''u'', rp_memory_snippets = [], rp_affect_context = None,
      rp_relationship_context = None, rp_goals = [], rp_constraints = [codes ''c''], rp_conversation_history = [],
      rp_conversation_summary = None, rp_retrieved_context = []\<rparr>"

definition policy_input :: section_input where
  "policy_input = \<lparr>si_kind = SK_INTERACTION_POLICY, si_title = codes ''Policy constraints'',
     si_trust_boundary = TB_INTERNAL_DERIVED, si_content = [], si_items = [codes ''c'']\<rparr>"

lemma cap_profile_ok: "40 \<le> cap \<Longrightarrow> profile_ok (cap_profile cap)"
  unfolding profile_ok_def
proof (intro conjI allI)
  show "section_ok (cap_profile cap) k" for k
    by (cases k; simp add: section_ok_def cap_profile_def Let_def mk_section_def)
qed (simp_all add: cap_profile_def Let_def required_chars_def PROMPT_SECTION_KINDS_def mk_section_def)

lemma cap_config_ok: "config_ok cap_config"
  using default_config_ok cap_profile_ok
  by (auto simp: config_ok_def all_profile_names cap_config_def cap_profile_def default_prompt_budget_config_def
      local_low_profile_def Let_def)

lemma cap_sections:
  "sections_from_response_prompt cap_prompt None =
     [system_section cap_prompt, safety_section, policy_input, latest_user_input_section cap_prompt]"
  by (simp add: sections_from_response_prompt_def trusted_sections_def conversation_sections_def context_sections_def
      retrieved_context_sections_def retrieved_section_def RETRIEVAL_SOURCE_KINDS_def memory_section_def
      internal_state_section_def policy_section_def goals_section_def policy_input_def cap_prompt_def)

definition cap_contents :: "budgeted_section list" where
  "cap_contents =
     [\<lparr>bs_kind = SK_SYSTEM, bs_title = codes ''System instruction'', bs_trust_boundary = TB_TRUSTED,
       bs_content = codes ''System instruction'' @ [58, 10] @ codes ''a'', bs_items = []\<rparr>,
      \<lparr>bs_kind = SK_INTERACTION_POLICY, bs_title = codes ''Policy constraints'', bs_trust_boundary = TB_INTERNAL_DERIVED,
       bs_content = render_items (codes ''Policy constraints'') [codes ''c''], bs_items = [codes ''c'']\<rparr>,
      \<lparr>bs_kind = SK_USER_INPUT, bs_title = codes ''Latest user message'', bs_trust_boundary = TB_USER_INPUT,
       bs_content = codes ''u'', bs_items = []\<rparr>]"

lemma not_blank_codes: "\<not> blank (codes ''a'')" "\<not> blank (codes ''u'')"
  by (simp_all add: blank_def codes_def py_whitespace_def)

lemma cap_section_results:
  "ba_section (apply_section (cap_profile e) (system_section cap_prompt)) = Some (cap_contents ! 0)"
  "ba_section (apply_section (cap_profile e) safety_section) = None"
  "ba_section (apply_section (cap_profile e) policy_input) = Some (cap_contents ! 1)"
  "ba_section (apply_section (cap_profile e) (latest_user_input_section cap_prompt)) = Some (cap_contents ! 2)"
  by (simp_all add: apply_section_def Let_def section_is_omitted_by_zero_budget_def cap_profile_def mk_section_def
      system_section_def safety_section_def latest_user_input_section_def policy_input_def cap_prompt_def
      render_section_content_def not_blank_codes text_within_char_budget_def section_result_def cap_contents_def
      apply_items_section_def items_after_item_budget_def render_items_def omitted_result_def)

lemma cap_apply:
  assumes "45 \<le> e"
  shows "\<exists>res. apply_budget LOCAL_BALANCED (cap_profile e) (sections_from_response_prompt cap_prompt None) = Inr res \<and>
    br_sections res = cap_contents"
proof -
  let ?raw = "sections_from_response_prompt cap_prompt None"
  let ?base = "map (apply_section (cap_profile e)) ?raw"
  have total: "pb_total_max_chars (cap_profile e) = e" by (simp add: cap_profile_def Let_def)
  have ok: "section_ok (cap_profile e) k" for k using cap_profile_ok [of e] assms by (simp add: profile_ok_def)
  have "sum_list (map section_chars ?base) = 45"
    by (simp add: cap_sections section_chars_def cap_section_results cap_contents_def render_items_def)
  then have same: "apply_total_budget (cap_profile e) ?base = ?base" using assms by (simp add: apply_total_budget_def total)
  have rel: "list_all2 (app_for (cap_profile e)) ?raw ?base"
    using ok by (simp add: list_all2_conv_all_nth app_for_apply_section)
  have "List.map_filter ba_section ?base = cap_contents"
    by (simp add: cap_sections map_filter_simps cap_section_results) (simp add: cap_contents_def)
  then show ?thesis
    using apply_budget_ok [of "cap_profile e" ?raw LOCAL_BALANCED] ok rel assms total unfolding same by auto
qed

lemma cap_messages: "message_content_chars (messages_from_sections cap_contents cap_prompt) = 102"
  by (simp add: messages_from_sections_def message_content_chars_def context_messages_def labelled_message_def
      section_contents_def system_content_def conversation_messages_from_budget_def user_content_from_budget_def
      section_body_def cap_contents_def Let_def INTERNAL_LABEL_def render_items_def blank_def
      codes_def py_whitespace_def)

lemma cap_loop_exceeds:
  assumes "45 + int n \<le> e"
  shows "\<exists>res. cap_loop n LOCAL_BALANCED (cap_profile 101) (cap_profile e) (sections_from_response_prompt cap_prompt None) cap_prompt = Inr res \<and>
    message_content_chars (as_messages res) = 102 \<and> ar_total_max_chars (as_report res) = 101"
  using assms
proof (induction n arbitrary: e)
  case 0
  then obtain res where res: "apply_budget LOCAL_BALANCED (cap_profile e) (sections_from_response_prompt cap_prompt None) = Inr res"
      "br_sections res = cap_contents" using cap_apply [of e] by auto
  then show ?case
    by (simp add: assembled_def Let_def cap_messages report_with_actual_total_def) (simp add: cap_profile_def Let_def)
next
  case (Suc n)
  then obtain res where res: "apply_budget LOCAL_BALANCED (cap_profile e) (sections_from_response_prompt cap_prompt None) = Inr res"
      "br_sections res = cap_contents" using cap_apply [of e] by auto
  have total: "pb_total_max_chars (cap_profile x) = x" for x by (simp add: cap_profile_def Let_def)
  have "next_total_max e 1 = e - 1" using Suc.prems by (simp add: next_total_max_def Let_def)
  then have lower: "(cap_profile e)\<lparr>pb_total_max_chars := next_total_max e 1\<rparr> = cap_profile (e - 1)"
    by (simp add: cap_profile_def Let_def)
  have "45 + int n \<le> e - 1" using Suc.prems by simp
  from Suc.IH [OF this] show ?case
    by (simp add: res cap_messages total lower)
qed

text \<open>
  The total is not an upper bound of the assembled prompt: there are a valid, enabled configuration and
  a prompt whose user text is not blank for which the messages have more characters than the profile's total
  allows. The assembler lowers the effective total by the overflow of each round, but the number of rounds is
  the number of sections plus three, which is not enough when the total has slack that the labels of the
  context messages exceed only slightly.
\<close>

theorem prompt_cap_can_be_exceeded:
  "\<exists>a p res. config_ok (pa_config a) \<and> pc_enabled (pa_config a) \<and> retrieval_kinds_free p \<and> \<not> blank (rp_actor_text p) \<and>
     assemble a p = Inr res \<and> ar_total_max_chars (as_report res) < message_content_chars (as_messages res)"
proof -
  let ?a = "prompt_assembler_init (Some cap_config) None None"
  have a: "pa_config ?a = cap_config" "pa_profile ?a = LOCAL_BALANCED" "pa_builder ?a = None" "pc_enabled cap_config"
      "effective_profile_budget ?a = cap_profile 101"
    by (simp_all add: prompt_assembler_init_def cap_config_def default_prompt_budget_config_def effective_profile_budget_def)
  have len: "length (sections_from_response_prompt cap_prompt None) = 4" by (simp add: cap_sections)
  obtain res where "cap_loop 7 LOCAL_BALANCED (cap_profile 101) (cap_profile 101)
      (sections_from_response_prompt cap_prompt None) cap_prompt = Inr res"
      "message_content_chars (as_messages res) = 102" "ar_total_max_chars (as_report res) = 101"
    using cap_loop_exceeds [of 7 101] by auto
  moreover from this(1) have "assemble ?a cap_prompt = Inr res"
    by (simp add: assemble_def a assemble_with_final_prompt_cap_def len)
  moreover have "retrieval_kinds_free cap_prompt" "\<not> blank (rp_actor_text cap_prompt)"
    using not_blank_codes by (simp_all add: retrieval_kinds_free_def cap_prompt_def)
  ultimately show ?thesis
    using a cap_config_ok by (intro exI [of _ ?a] exI [of _ cap_prompt] exI [of _ res]) simp
qed


end
