(* ===== verification/Policy_Contracts.thy ===== *)
theory Policy_Contracts
  imports Iris_Prelude
begin

text \<open>
  Contracts of two kinds of learned candidates besides plain memories: interaction policies
  (\<^verbatim>\<open>iris/contracts/interaction_policy.py\<close>) and shared episodic memories
  (\<^verbatim>\<open>iris/contracts/shared_episodic_memory.py\<close>). Values and summaries are lists of code
  points; ids, reasons and metadata are strings. A pydantic model that refuses its values is the left
  value of a sum: field constraints come first, then the checks of the model in their order.
\<close>

type_synonym metadata = "(string, string) dict"

datatype contract_error = ContractValidationError string

section \<open>Interaction policies\<close>

datatype policy_kind = PK_VERBOSITY | PK_INITIATIVE | PK_TONE

fun policy_kind_value :: "policy_kind \<Rightarrow> string" where
  "policy_kind_value PK_VERBOSITY = ''verbosity''"
| "policy_kind_value PK_INITIATIVE = ''initiative''"
| "policy_kind_value PK_TONE = ''tone''"

datatype policy_source = PS_EXPLICIT_FEEDBACK | PS_IMPLICIT_REPEATED_SIGNAL | PS_MODEL_CLASSIFIER

fun policy_source_value :: "policy_source \<Rightarrow> string" where
  "policy_source_value PS_EXPLICIT_FEEDBACK = ''explicit_feedback''"
| "policy_source_value PS_IMPLICIT_REPEATED_SIGNAL = ''implicit_repeated_signal''"
| "policy_source_value PS_MODEL_CLASSIFIER = ''model_classifier''"

datatype policy_candidate_decision = PD_REVIEW_REQUIRED | PD_SUPPRESSED

record policy_signal =
  sg_policy_kind :: policy_kind
  sg_value :: code_points
  sg_source :: policy_source
  sg_source_event_id :: string
  sg_confidence :: rat
  sg_reason :: string
  sg_occurred_at :: datetime
  sg_high_risk :: bool
  sg_model_metadata :: metadata

definition unit_interval :: "rat \<Rightarrow> bool" where
  "unit_interval x \<longleftrightarrow> 0 \<le> x \<and> x \<le> 1"

definition validate_policy_signal :: "policy_signal \<Rightarrow> contract_error + policy_signal" where
  "validate_policy_signal s =
     (if sg_value s = [] \<or> 160 < length (sg_value s) \<or> sg_source_event_id s = [] \<or>
         \<not> unit_interval (sg_confidence s) \<or> sg_reason s = []
      then Inl (ContractValidationError ''field constraint'')
      else if blank (sg_value s) \<or> blank (codes (sg_source_event_id s)) \<or> blank (codes (sg_reason s))
      then Inl (ContractValidationError ''interaction policy signal text fields must not be blank'')
      else Inr s)"

record policy_candidate =
  pc_policy_kind :: policy_kind
  pc_value :: code_points
  pc_account_id :: string
  pc_space_id :: "string option"
  pc_actor_id :: "string option"
  pc_decision_kind :: policy_candidate_decision
  pc_source_kinds :: "policy_source list"
  pc_evidence_count :: nat
  pc_source_event_ids :: "string list"
  pc_confidence :: rat
  pc_reason :: string
  pc_review_required :: bool
  pc_high_risk :: bool
  pc_model_metadata :: metadata
  pc_metadata :: metadata

definition validate_policy_candidate :: "policy_candidate \<Rightarrow> contract_error + policy_candidate" where
  "validate_policy_candidate c =
     (if pc_value c = [] \<or> 160 < length (pc_value c) \<or> pc_source_kinds c = [] \<or> pc_evidence_count c < 1 \<or>
         pc_source_event_ids c = [] \<or> \<not> unit_interval (pc_confidence c) \<or> pc_reason c = []
      then Inl (ContractValidationError ''field constraint'')
      else if blank (pc_value c) \<or> blank (codes (pc_reason c))
      then Inl (ContractValidationError ''interaction policy candidate text fields must not be blank'')
      else if \<exists>i\<in>set (pc_source_event_ids c). blank (codes i)
      then Inl (ContractValidationError ''source_event_ids must not contain blank values'')
      else if pc_evidence_count c \<noteq> length (pc_source_event_ids c)
      then Inl (ContractValidationError ''evidence_count must match source_event_ids'')
      else if \<not> pc_review_required c
      then Inl (ContractValidationError ''interaction policy candidates must remain review_required'')
      else if pc_decision_kind c = PD_SUPPRESSED \<and> \<not> pc_high_risk c
      then Inl (ContractValidationError ''suppressed interaction policy candidates must be high_risk'')
      else Inr c)"

record approved_policy =
  ap_candidate_id :: string
  ap_policy_kind :: policy_kind
  ap_value :: code_points
  ap_account_id :: string
  ap_space_id :: "string option"
  ap_approved_at :: datetime

section \<open>Shared episodic memories\<close>

datatype episodic_kind =
  EK_SHARED_EVENT | EK_RUNNING_JOKE | EK_COMPANION_MILESTONE | EK_HELP_EXCHANGE | EK_CONFLICT_AND_REPAIR
| EK_MEMORABLE_FAILURE_OR_TEASING | EK_RECURRING_TOPIC_WITH_EMOTION

datatype admission_risk = AR_NORMAL | AR_PRIVATE | AR_SENSITIVE | AR_EMBARRASSING | AR_SECRET_LIKE

datatype admission_policy = AP_REVIEW_REQUIRED | AP_REJECT

record source_event_ref =
  se_source_event_id :: string
  se_observation_id :: string
  se_occurred_at :: datetime

definition validate_source_event_ref :: "source_event_ref \<Rightarrow> contract_error + source_event_ref" where
  "validate_source_event_ref e =
     (if se_source_event_id e = [] then Inl (ContractValidationError ''field constraint'')
      else if blank (codes (se_source_event_id e))
      then Inl (ContractValidationError ''source_event_id must not be blank'')
      else Inr e)"

record retrieval_metadata =
  rm_topics :: "code_points list"
  rm_emotional_context :: "code_points option"
  rm_relationship_signal :: "code_points option"
  rm_salience :: rat

definition validate_retrieval_metadata :: "retrieval_metadata \<Rightarrow> contract_error + retrieval_metadata" where
  "validate_retrieval_metadata m =
     (if \<not> unit_interval (rm_salience m) then Inl (ContractValidationError ''field constraint'')
      else if \<exists>t\<in>set (rm_topics m). blank t
      then Inl (ContractValidationError ''retrieval topics must not contain blank values'')
      else Inr m)"

record episodic_candidate =
  ec_summary :: code_points
  ec_kind :: episodic_kind
  ec_actor_id :: string
  ec_account_id :: string
  ec_space_id :: string
  ec_source_events :: "source_event_ref list"
  ec_occurred_at :: datetime
  ec_confidence :: rat
  ec_reason :: string
  ec_review_required :: bool
  ec_admission_policy :: admission_policy
  ec_admission_risk :: admission_risk
  ec_retrieval :: retrieval_metadata
  ec_metadata :: metadata

text \<open>\<^verbatim>\<open>require_non_empty_id\<close> of \<^verbatim>\<open>contracts/validation.py\<close>.\<close>

definition require_non_empty_id :: "string \<Rightarrow> string \<Rightarrow> contract_error + unit" where
  "require_non_empty_id value name =
     (if value = [] then Inl (ContractValidationError (name @ '' must not be blank'')) else Inr ())"

definition validate_admission ::
  "admission_policy \<Rightarrow> admission_risk \<Rightarrow> bool \<Rightarrow> contract_error + unit" where
  "validate_admission policy risk review_required =
     (if policy = AP_REVIEW_REQUIRED \<and> \<not> review_required
      then Inl (ContractValidationError ''review_required must be true when admission policy is review_required'')
      else if policy = AP_REJECT \<and> review_required
      then Inl (ContractValidationError ''review_required must be false when admission policy is reject'')
      else if risk = AR_SECRET_LIKE \<and> policy \<noteq> AP_REJECT
      then Inl (ContractValidationError ''secret-like shared episodic memories must be rejected'')
      else Inr ())"

definition validate_episodic_candidate :: "episodic_candidate \<Rightarrow> contract_error + episodic_candidate" where
  "validate_episodic_candidate c =
     (if ec_summary c = [] \<or> ec_source_events c = [] \<or> \<not> unit_interval (ec_confidence c) \<or> ec_reason c = []
      then Inl (ContractValidationError ''field constraint'')
      else if blank (ec_summary c) \<or> blank (codes (ec_reason c))
      then Inl (ContractValidationError ''shared episodic memory text fields must not be blank'')
      else result_bind (require_non_empty_id (ec_actor_id c) ''actor_id'') (\<lambda>_.
           result_bind (require_non_empty_id (ec_account_id c) ''account_id'') (\<lambda>_.
           result_bind (require_non_empty_id (ec_space_id c) ''space_id'') (\<lambda>_.
           result_bind (validate_admission (ec_admission_policy c) (ec_admission_risk c) (ec_review_required c)) (\<lambda>_.
             Inr c)))))"

lemma admission_keeps_secrets_out:
  "validate_episodic_candidate c = Inr c' \<Longrightarrow>
     c' = c \<and> (ec_review_required c \<longleftrightarrow> ec_admission_policy c = AP_REVIEW_REQUIRED) \<and>
     (ec_admission_risk c = AR_SECRET_LIKE \<longrightarrow> \<not> ec_review_required c)"
  by (cases "ec_admission_policy c")
    (auto simp: validate_episodic_candidate_def validate_admission_def result_bind_ok split: if_splits)

end
