(* ===== verification/Review_Contracts.thy ===== *)
theory Review_Contracts
  imports Policy_Contracts
begin

text \<open>
  The contracts of the review of learned candidates: memory candidates
  (\<^verbatim>\<open>iris/contracts/memory_candidates.py\<close>), the kinds of memories and of consolidation decisions,
  and the typed details that leave the review boundary (\<^verbatim>\<open>iris/contracts/review_candidates.py\<close>).
  The text of a memory is a list of code points; ids, reasons and metadata are strings. A pydantic model
  that refuses its values is the left value \<^verbatim>\<open>ReviewValidationError\<close>.
\<close>

section \<open>Memory candidates\<close>

datatype memory_kind = MK_EPISODE | MK_PREFERENCE | MK_FACT | MK_RELATIONSHIP_EVENT | MK_TASK | MK_NOTE

fun memory_kind_value :: "memory_kind \<Rightarrow> string" where
  "memory_kind_value MK_EPISODE = ''episode''"
| "memory_kind_value MK_PREFERENCE = ''preference''"
| "memory_kind_value MK_FACT = ''fact''"
| "memory_kind_value MK_RELATIONSHIP_EVENT = ''relationship_event''"
| "memory_kind_value MK_TASK = ''task''"
| "memory_kind_value MK_NOTE = ''note''"

datatype candidate_source =
  CS_EXPLICIT_USER_REQUEST | CS_EXPLICIT_PROFILE_STATEMENT | CS_EXPLICIT_PREFERENCE_STATEMENT
| CS_EXPLICIT_USER_INSTRUCTION | CS_EXPLICIT_PREFERENCE | CS_IMPLICIT_CONVERSATION | CS_SYSTEM_EVENT
| CS_ACTION_RESULT | CS_REFLECTION | CS_CONSOLIDATION | CS_LANGMEM_EXTRACTION | CS_PERSONA_PATCH

fun candidate_source_value :: "candidate_source \<Rightarrow> string" where
  "candidate_source_value CS_EXPLICIT_USER_REQUEST = ''explicit_user_request''"
| "candidate_source_value CS_EXPLICIT_PROFILE_STATEMENT = ''explicit_profile_statement''"
| "candidate_source_value CS_EXPLICIT_PREFERENCE_STATEMENT = ''explicit_preference_statement''"
| "candidate_source_value CS_EXPLICIT_USER_INSTRUCTION = ''explicit_user_instruction''"
| "candidate_source_value CS_EXPLICIT_PREFERENCE = ''explicit_preference''"
| "candidate_source_value CS_IMPLICIT_CONVERSATION = ''implicit_conversation''"
| "candidate_source_value CS_SYSTEM_EVENT = ''system_event''"
| "candidate_source_value CS_ACTION_RESULT = ''action_result''"
| "candidate_source_value CS_REFLECTION = ''reflection''"
| "candidate_source_value CS_CONSOLIDATION = ''consolidation''"
| "candidate_source_value CS_LANGMEM_EXTRACTION = ''langmem_extraction''"
| "candidate_source_value CS_PERSONA_PATCH = ''persona_patch''"

datatype retention_policy =
  RP_DURABLE | RP_LONG_TERM | RP_UNTIL_CHANGED | RP_SESSION | RP_SESSION_ONLY | RP_EXPIRES_AT
| RP_REVIEW_REQUIRED | RP_DISCARD_AFTER_RESTART | RP_DISCARD

fun retention_policy_value :: "retention_policy \<Rightarrow> string" where
  "retention_policy_value RP_DURABLE = ''durable''"
| "retention_policy_value RP_LONG_TERM = ''long_term''"
| "retention_policy_value RP_UNTIL_CHANGED = ''until_changed''"
| "retention_policy_value RP_SESSION = ''session''"
| "retention_policy_value RP_SESSION_ONLY = ''session_only''"
| "retention_policy_value RP_EXPIRES_AT = ''expires_at''"
| "retention_policy_value RP_REVIEW_REQUIRED = ''review_required''"
| "retention_policy_value RP_DISCARD_AFTER_RESTART = ''discard_after_restart''"
| "retention_policy_value RP_DISCARD = ''discard''"

datatype candidate_sensitivity = SE_NORMAL | SE_PERSONAL | SE_SENSITIVE | SE_SECRET_LIKE

fun candidate_sensitivity_value :: "candidate_sensitivity \<Rightarrow> string" where
  "candidate_sensitivity_value SE_NORMAL = ''normal''"
| "candidate_sensitivity_value SE_PERSONAL = ''personal''"
| "candidate_sensitivity_value SE_SENSITIVE = ''sensitive''"
| "candidate_sensitivity_value SE_SECRET_LIKE = ''secret_like''"

record memory_candidate =
  mc_text :: code_points
  mc_kind :: memory_kind
  mc_salience :: rat
  mc_confidence :: rat
  mc_source :: candidate_source
  mc_reason :: "string option"
  mc_retention_policy :: retention_policy
  mc_sensitivity :: candidate_sensitivity
  mc_review_required :: bool
  mc_actor_id :: "string option"
  mc_space_id :: "string option"
  mc_source_observation_id :: "string option"
  mc_metadata :: metadata

datatype consolidation_decision = CD_RETAINED | CD_DUPLICATE | CD_STALE | CD_CONFLICT | CD_SUPERSEDED

fun consolidation_decision_value :: "consolidation_decision \<Rightarrow> string" where
  "consolidation_decision_value CD_RETAINED = ''retained''"
| "consolidation_decision_value CD_DUPLICATE = ''duplicate''"
| "consolidation_decision_value CD_STALE = ''stale''"
| "consolidation_decision_value CD_CONFLICT = ''conflict''"
| "consolidation_decision_value CD_SUPERSEDED = ''superseded''"

definition consolidation_decision_of_value :: "string \<Rightarrow> consolidation_decision option" where
  "consolidation_decision_of_value s =
     find (\<lambda>d. consolidation_decision_value d = s) [CD_RETAINED, CD_DUPLICATE, CD_STALE, CD_CONFLICT, CD_SUPERSEDED]"

section \<open>Review\<close>

datatype candidate_type =
  CT_MEMORY | CT_SHARED_EPISODIC_MEMORY | CT_PERSONA_PATCH | CT_RELATIONSHIP | CT_INTERNAL_STATE | CT_CONSOLIDATION
| CT_INTERACTION_POLICY

fun candidate_type_value :: "candidate_type \<Rightarrow> string" where
  "candidate_type_value CT_MEMORY = ''memory''"
| "candidate_type_value CT_SHARED_EPISODIC_MEMORY = ''shared_episodic_memory''"
| "candidate_type_value CT_PERSONA_PATCH = ''persona_patch''"
| "candidate_type_value CT_RELATIONSHIP = ''relationship''"
| "candidate_type_value CT_INTERNAL_STATE = ''internal_state''"
| "candidate_type_value CT_CONSOLIDATION = ''consolidation''"
| "candidate_type_value CT_INTERACTION_POLICY = ''interaction_policy''"

datatype review_status = RV_PENDING_REVIEW | RV_APPROVED | RV_REJECTED | RV_DISCARDED

fun review_status_value :: "review_status \<Rightarrow> string" where
  "review_status_value RV_PENDING_REVIEW = ''pending_review''"
| "review_status_value RV_APPROVED = ''approved''"
| "review_status_value RV_REJECTED = ''rejected''"
| "review_status_value RV_DISCARDED = ''discarded''"

datatype review_decision = DECIDE_APPROVE | DECIDE_REJECT | DECIDE_DISCARD

text \<open>The status that the service's method of a decision sets.\<close>

fun target_status :: "review_decision \<Rightarrow> review_status" where
  "target_status DECIDE_APPROVE = RV_APPROVED"
| "target_status DECIDE_REJECT = RV_REJECTED"
| "target_status DECIDE_DISCARD = RV_DISCARDED"

datatype review_error =
  CandidateNotFound string | InvalidReviewTransition string | ReviewValueError string | ReviewKeyError string
| ReviewTypeError string | ReviewValidationError string

record review_scope =
  sc_actor_id :: "string option"
  sc_account_id :: "string option"
  sc_space_id :: "string option"

record review_filter =
  rf_status :: "review_status option"
  rf_candidate_type :: "candidate_type option"
  rf_actor_id :: "string option"
  rf_account_id :: "string option"
  rf_space_id :: "string option"
  rf_limit :: int

definition default_review_filter :: review_filter where
  "default_review_filter =
     \<lparr>rf_status = Some RV_PENDING_REVIEW, rf_candidate_type = None, rf_actor_id = None, rf_account_id = None,
      rf_space_id = None, rf_limit = 50\<rparr>"

record decision_request =
  dr_reviewed_by :: "string option"
  dr_reason :: "string option"

section \<open>Details\<close>

record memory_payload =
  mp_text :: code_points
  mp_kind :: memory_kind
  mp_salience :: rat
  mp_confidence :: rat
  mp_source :: candidate_source
  mp_reason :: "string option"
  mp_retention_policy :: retention_policy
  mp_sensitivity :: candidate_sensitivity
  mp_review_required :: bool
  mp_actor_id :: "string option"
  mp_space_id :: "string option"
  mp_source_observation_id :: "string option"
  mp_source_event_ids :: "string list"
  mp_model_metadata :: metadata
  mp_metadata :: metadata

record consolidation_payload =
  cp_text :: code_points
  cp_kind :: memory_kind
  cp_salience :: rat
  cp_confidence :: rat
  cp_source :: candidate_source
  cp_reason :: string
  cp_retention_policy :: retention_policy
  cp_sensitivity :: candidate_sensitivity
  cp_review_required :: bool
  cp_decision_kind :: consolidation_decision
  cp_source_candidate_ids :: "string list"
  cp_supersedes_candidate_ids :: "string list"
  cp_actor_id :: "string option"
  cp_account_id :: "string option"
  cp_space_id :: "string option"
  cp_source_observation_id :: "string option"
  cp_metadata :: metadata

text \<open>The constraints on the fields come first, then the checks of the model in their order.\<close>

definition validate_consolidation_payload :: "consolidation_payload \<Rightarrow> review_error + consolidation_payload" where
  "validate_consolidation_payload p =
     (if cp_text p = [] \<or> \<not> (0 \<le> cp_salience p \<and> cp_salience p \<le> 1) \<or> \<not> (0 \<le> cp_confidence p \<and> cp_confidence p \<le> 1) \<or>
         cp_reason p = [] \<or> cp_source_candidate_ids p = []
      then Inl (ReviewValidationError ''field constraint'')
      else if cp_source p \<noteq> CS_CONSOLIDATION
      then Inl (ReviewValidationError ''consolidation review payload must use consolidation source'')
      else if cp_retention_policy p \<noteq> RP_REVIEW_REQUIRED
      then Inl (ReviewValidationError ''consolidation review payload must require review'')
      else if \<not> cp_review_required p
      then Inl (ReviewValidationError ''consolidation review payload must remain review_required'')
      else if \<exists>i\<in>set (cp_source_candidate_ids p). blank (codes i)
      then Inl (ReviewValidationError ''source candidate ids must not be blank'')
      else if \<exists>i\<in>set (cp_supersedes_candidate_ids p). blank (codes i)
      then Inl (ReviewValidationError ''superseded candidate ids must not be blank'')
      else if \<not> set (cp_supersedes_candidate_ids p) \<subseteq> set (cp_source_candidate_ids p)
      then Inl (ReviewValidationError ''superseded candidate ids must reference source candidate ids'')
      else Inr p)"

text \<open>The payload of an interaction policy, with the checks of its candidate in the order of the payload.\<close>

record policy_payload =
  pp_policy_kind :: policy_kind
  pp_value :: code_points
  pp_account_id :: string
  pp_space_id :: "string option"
  pp_actor_id :: "string option"
  pp_decision_kind :: policy_candidate_decision
  pp_source_kinds :: "policy_source list"
  pp_evidence_count :: nat
  pp_source_event_ids :: "string list"
  pp_confidence :: rat
  pp_reason :: string
  pp_review_required :: bool
  pp_high_risk :: bool
  pp_model_metadata :: metadata
  pp_metadata :: metadata

definition validate_policy_payload :: "policy_payload \<Rightarrow> review_error + policy_payload" where
  "validate_policy_payload p =
     (if pp_value p = [] \<or> 160 < length (pp_value p) \<or> pp_source_kinds p = [] \<or> pp_evidence_count p < 1 \<or>
         pp_source_event_ids p = [] \<or> \<not> unit_interval (pp_confidence p) \<or> pp_reason p = []
      then Inl (ReviewValidationError ''field constraint'')
      else if blank (pp_value p) \<or> blank (codes (pp_reason p))
      then Inl (ReviewValidationError ''interaction policy payload text fields must not be blank'')
      else if pp_evidence_count p \<noteq> length (pp_source_event_ids p)
      then Inl (ReviewValidationError ''interaction policy payload evidence_count must match source_event_ids'')
      else if \<exists>i\<in>set (pp_source_event_ids p). blank (codes i)
      then Inl (ReviewValidationError ''interaction policy payload source_event_ids must not be blank'')
      else if \<not> pp_review_required p
      then Inl (ReviewValidationError ''interaction policy payload must remain review_required'')
      else if pp_decision_kind p = PD_SUPPRESSED \<and> \<not> pp_high_risk p
      then Inl (ReviewValidationError ''suppressed interaction policy payload must be high_risk'')
      else Inr p)"

text \<open>The payload of a shared episodic memory.\<close>

record episodic_payload =
  ep_summary :: code_points
  ep_kind :: episodic_kind
  ep_actor_id :: string
  ep_account_id :: string
  ep_space_id :: string
  ep_source_events :: "source_event_ref list"
  ep_occurred_at :: datetime
  ep_confidence :: rat
  ep_reason :: string
  ep_review_required :: bool
  ep_admission_policy :: admission_policy
  ep_admission_risk :: admission_risk
  ep_retrieval :: retrieval_metadata
  ep_metadata :: metadata

definition validate_episodic_payload :: "episodic_payload \<Rightarrow> review_error + episodic_payload" where
  "validate_episodic_payload p =
     (if ep_summary p = [] \<or> ep_source_events p = [] \<or> \<not> unit_interval (ep_confidence p) \<or> ep_reason p = []
      then Inl (ReviewValidationError ''field constraint'')
      else if blank (ep_summary p) \<or> blank (codes (ep_reason p))
      then Inl (ReviewValidationError ''shared episodic memory review payload text fields must not be blank'')
      else if ep_admission_risk p = AR_SECRET_LIKE \<and> ep_admission_policy p \<noteq> AP_REJECT
      then Inl (ReviewValidationError ''secret-like shared episodic memories must be rejected'')
      else if ep_admission_policy p = AP_REVIEW_REQUIRED
      then if \<not> ep_review_required p
           then Inl (ReviewValidationError ''review_required must be true when admission policy is review_required'')
           else Inr p
      else if ep_review_required p
      then Inl (ReviewValidationError ''review_required must be false when admission policy is reject'')
      else Inr p)"

record review_detail =
  rd_candidate_id :: string
  rd_candidate_type :: candidate_type
  rd_status :: review_status
  rd_scope :: review_scope
  rd_source_observation_id :: "string option"
  rd_memory_candidate :: "memory_payload option"
  rd_shared_episodic_candidate :: "episodic_payload option"
  rd_interaction_policy_candidate :: "policy_payload option"
  rd_consolidation_candidate :: "consolidation_payload option"
  rd_created_at :: datetime
  rd_updated_at :: datetime
  rd_reviewed_at :: "datetime option"
  rd_reviewed_by :: "string option"
  rd_review_reason :: "string option"
  rd_promoted_memory_id :: "string option"
  rd_metadata :: metadata
  rd_candidate_metadata :: metadata

text \<open>The check that the payload matches the type, with one function per type.\<close>

definition validate_memory_detail :: "review_detail \<Rightarrow> review_error + review_detail" where
  "validate_memory_detail d =
     (if rd_memory_candidate d = None
      then Inl (ReviewValidationError ''memory candidate detail requires memory payload'')
      else if rd_shared_episodic_candidate d \<noteq> None
      then Inl (ReviewValidationError ''memory candidate detail must not include shared episodic payload'')
      else if rd_interaction_policy_candidate d \<noteq> None
      then Inl (ReviewValidationError ''memory candidate detail must not include interaction policy payload'')
      else if rd_consolidation_candidate d \<noteq> None
      then Inl (ReviewValidationError ''memory candidate detail must not include consolidation payload'')
      else Inr d)"

definition require_episodic_payload :: "review_detail \<Rightarrow> review_error + episodic_payload" where
  "require_episodic_payload d =
     (case rd_shared_episodic_candidate d of
        None \<Rightarrow> Inl (ReviewValidationError ''shared episodic memory detail requires shared episodic payload'')
      | Some p \<Rightarrow>
          if rd_memory_candidate d \<noteq> None \<or> rd_interaction_policy_candidate d \<noteq> None \<or>
             rd_consolidation_candidate d \<noteq> None
          then Inl (ReviewValidationError ''shared episodic memory detail must not include memory payload'')
          else Inr p)"

definition validate_episodic_scope :: "review_scope \<Rightarrow> episodic_payload \<Rightarrow> review_error + unit" where
  "validate_episodic_scope scope p =
     (if sc_actor_id scope \<noteq> Some (ep_actor_id p)
      then Inl (ReviewValidationError ''shared episodic scope actor_id must match payload actor_id'')
      else if sc_account_id scope \<noteq> Some (ep_account_id p)
      then Inl (ReviewValidationError ''shared episodic scope account_id must match payload account_id'')
      else if sc_space_id scope \<noteq> Some (ep_space_id p)
      then Inl (ReviewValidationError ''shared episodic scope space_id must match payload space_id'')
      else Inr ())"

definition validate_episodic_source_observation ::
  "string option \<Rightarrow> episodic_payload \<Rightarrow> review_error + unit" where
  "validate_episodic_source_observation source p =
     (case source of
        None \<Rightarrow> Inr ()
      | Some i \<Rightarrow>
          if i \<notin> se_observation_id ` set (ep_source_events p)
          then Inl (ReviewValidationError ''shared episodic source_observation_id must reference a source event'')
          else Inr ())"

definition validate_episodic_detail :: "review_detail \<Rightarrow> review_error + review_detail" where
  "validate_episodic_detail d =
     result_bind (require_episodic_payload d) (\<lambda>p.
     result_bind (validate_episodic_scope (rd_scope d) p) (\<lambda>_.
     result_bind (validate_episodic_source_observation (rd_source_observation_id d) p) (\<lambda>_. Inr d)))"

definition validate_policy_detail :: "review_detail \<Rightarrow> review_error + review_detail" where
  "validate_policy_detail d =
     (case rd_interaction_policy_candidate d of
        None \<Rightarrow> Inl (ReviewValidationError ''interaction policy detail requires interaction policy payload'')
      | Some p \<Rightarrow>
          if rd_memory_candidate d \<noteq> None \<or> rd_shared_episodic_candidate d \<noteq> None \<or>
             rd_consolidation_candidate d \<noteq> None
          then Inl (ReviewValidationError ''interaction policy detail must not include another candidate payload'')
          else if sc_account_id (rd_scope d) \<noteq> Some (pp_account_id p)
          then Inl (ReviewValidationError ''interaction policy scope account_id must match payload account_id'')
          else if sc_space_id (rd_scope d) \<noteq> pp_space_id p
          then Inl (ReviewValidationError ''interaction policy scope space_id must match payload space_id'')
          else if sc_actor_id (rd_scope d) \<noteq> pp_actor_id p
          then Inl (ReviewValidationError ''interaction policy scope actor_id must match payload actor_id'')
          else Inr d)"

definition validate_consolidation_detail :: "review_detail \<Rightarrow> review_error + review_detail" where
  "validate_consolidation_detail d =
     (case rd_consolidation_candidate d of
        None \<Rightarrow> Inl (ReviewValidationError ''consolidation detail requires consolidation payload'')
      | Some p \<Rightarrow>
          if rd_memory_candidate d \<noteq> None \<or> rd_shared_episodic_candidate d \<noteq> None \<or>
             rd_interaction_policy_candidate d \<noteq> None
          then Inl (ReviewValidationError ''consolidation detail must not include another candidate payload'')
          else if sc_actor_id (rd_scope d) \<noteq> cp_actor_id p
          then Inl (ReviewValidationError ''consolidation scope actor_id must match payload actor_id'')
          else if sc_account_id (rd_scope d) \<noteq> cp_account_id p
          then Inl (ReviewValidationError ''consolidation scope account_id must match payload account_id'')
          else if sc_space_id (rd_scope d) \<noteq> cp_space_id p
          then Inl (ReviewValidationError ''consolidation scope space_id must match payload space_id'')
          else Inr d)"

definition validate_future_detail :: "review_detail \<Rightarrow> review_error + review_detail" where
  "validate_future_detail d =
     (let type_name = candidate_type_value (rd_candidate_type d)
      in if rd_memory_candidate d \<noteq> None
         then Inl (ReviewValidationError (type_name @ '' detail must not include memory payload''))
         else if rd_shared_episodic_candidate d \<noteq> None
         then Inl (ReviewValidationError (type_name @ '' detail must not include shared episodic payload''))
         else if rd_interaction_policy_candidate d \<noteq> None
         then Inl (ReviewValidationError (type_name @ '' detail must not include interaction policy payload''))
         else if rd_consolidation_candidate d \<noteq> None
         then Inl (ReviewValidationError (type_name @ '' detail must not include consolidation payload''))
         else Inr d)"

definition validate_detail :: "review_detail \<Rightarrow> review_error + review_detail" where
  "validate_detail d =
     (case rd_candidate_type d of
        CT_MEMORY \<Rightarrow> validate_memory_detail d
      | CT_SHARED_EPISODIC_MEMORY \<Rightarrow> validate_episodic_detail d
      | CT_INTERACTION_POLICY \<Rightarrow> validate_policy_detail d
      | CT_CONSOLIDATION \<Rightarrow> validate_consolidation_detail d
      | _ \<Rightarrow> validate_future_detail d)"

record review_summary =
  rs_candidate_id :: string
  rs_candidate_type :: candidate_type
  rs_status :: review_status
  rs_scope :: review_scope
  rs_source_observation_id :: "string option"
  rs_text_preview :: code_points
  rs_confidence :: rat
  rs_reason :: "string option"
  rs_created_at :: datetime
  rs_updated_at :: datetime
  rs_metadata :: metadata
  rs_candidate_metadata :: metadata

record decision_result =
  rdr_candidate :: review_detail
  rdr_decision :: review_decision
  rdr_changed :: bool

end
