(* ===== verification/Review_Store.thy ===== *)
theory Review_Store
  imports Review_Contracts
begin

text \<open>
  The process-local store of candidates that wait for review,
  \<^verbatim>\<open>InMemoryMemoryCandidateReviewStore\<close> of \<^verbatim>\<open>iris/runtime/state/memory_candidates.py\<close>: two
  dictionaries, the records by candidate id and the ids by idempotency key. The status of the store and the
  status at the review boundary have the same members and values and are one type here.
\<close>

section \<open>Records\<close>

record review_record =
  rr_candidate_id :: string
  rr_candidate :: memory_candidate
  rr_created_at :: datetime
  rr_updated_at :: datetime
  rr_idempotency_key :: string
  rr_status :: review_status
  rr_candidate_type :: candidate_type
  rr_actor_id :: "string option"
  rr_account_id :: "string option"
  rr_space_id :: "string option"
  rr_source_observation_id :: "string option"
  rr_reviewed_at :: "datetime option"
  rr_reviewed_by :: "string option"
  rr_review_reason :: "string option"
  rr_promoted_memory_id :: "string option"
  rr_metadata :: metadata

record review_update =
  ru_status :: review_status
  ru_updated_at :: datetime
  ru_reviewed_at :: "datetime option"
  ru_reviewed_by :: "string option"
  ru_review_reason :: "string option"
  ru_promoted_memory_id :: "string option"

text \<open>\<^verbatim>\<open>new if new is not None else old\<close>.\<close>

definition keep_unless_given :: "'a option \<Rightarrow> 'a option \<Rightarrow> 'a option" where
  "keep_unless_given new old = (if new = None then old else new)"

definition apply_review_update :: "review_record \<Rightarrow> review_update \<Rightarrow> review_record" where
  "apply_review_update r u =
     r\<lparr>rr_status := ru_status u,
       rr_updated_at := ru_updated_at u,
       rr_reviewed_at := keep_unless_given (ru_reviewed_at u) (rr_reviewed_at r),
       rr_reviewed_by := keep_unless_given (ru_reviewed_by u) (rr_reviewed_by r),
       rr_review_reason := keep_unless_given (ru_review_reason u) (rr_review_reason r),
       rr_promoted_memory_id := keep_unless_given (ru_promoted_memory_id u) (rr_promoted_memory_id r)\<rparr>"

section \<open>The store\<close>

record review_store =
  rvs_records :: "(string, review_record) dict"
  rvs_idempotency_keys :: "(string, string) dict"

definition empty_review_store :: review_store where
  "empty_review_store = \<lparr>rvs_records = [], rvs_idempotency_keys = []\<rparr>"

definition review_add_nowait :: "review_store \<Rightarrow> review_record \<Rightarrow> (review_error + review_record) \<times> review_store" where
  "review_add_nowait s r =
     (case dict_get (rvs_records s) (rr_candidate_id r) of
        Some existing \<Rightarrow> (Inr existing, s)
      | None \<Rightarrow>
          (case dict_get (rvs_idempotency_keys s) (rr_idempotency_key r) of
             Some existing_id \<Rightarrow>
               (case dict_get (rvs_records s) existing_id of
                  Some existing \<Rightarrow> (Inr existing, s)
                | None \<Rightarrow> (Inl (ReviewKeyError existing_id), s))
           | None \<Rightarrow>
               (Inr r, s\<lparr>rvs_records := dict_set (rr_candidate_id r) r (rvs_records s),
                         rvs_idempotency_keys := dict_set (rr_idempotency_key r) (rr_candidate_id r) (rvs_idempotency_keys s)\<rparr>)))"

definition review_get :: "review_store \<Rightarrow> string \<Rightarrow> review_record option" where
  "review_get s cid = dict_get (rvs_records s) cid"

definition matches_filter :: "review_record \<Rightarrow> review_filter \<Rightarrow> bool" where
  "matches_filter r q \<longleftrightarrow>
     (rf_status q = None \<or> Some (rr_status r) = rf_status q) \<and>
     (rf_candidate_type q = None \<or> Some (rr_candidate_type r) = rf_candidate_type q) \<and>
     (rf_actor_id q = None \<or> rr_actor_id r = rf_actor_id q) \<and>
     (rf_account_id q = None \<or> rr_account_id r = rf_account_id q) \<and>
     (rf_space_id q = None \<or> rr_space_id r = rf_space_id q)"

definition validate_positive_limit :: "int \<Rightarrow> review_error + unit" where
  "validate_positive_limit limit =
     (if limit < 1 then Inl (ReviewValueError ''memory candidate review list limit must be >= 1'') else Inr ())"

definition review_order :: "review_record \<Rightarrow> datetime \<times> string" where
  "review_order r = (rr_created_at r, rr_candidate_id r)"

definition review_list_by_filter :: "review_store \<Rightarrow> review_filter \<Rightarrow> review_error + review_record list" where
  "review_list_by_filter s q =
     result_bind (validate_positive_limit (rf_limit q))
       (\<lambda>_. let records = sort_key review_order (filter (\<lambda>r. matches_filter r q) (dict_values (rvs_records s)))
            in Inr (take (nat (rf_limit q)) records))"

definition status_filter ::
  "review_status \<Rightarrow> string option \<Rightarrow> string option \<Rightarrow> string option \<Rightarrow> int \<Rightarrow> review_filter" where
  "status_filter status actor account space limit =
     \<lparr>rf_status = Some status, rf_candidate_type = None, rf_actor_id = actor, rf_account_id = account,
      rf_space_id = space, rf_limit = limit\<rparr>"

definition review_list_by_status ::
  "review_store \<Rightarrow> review_status \<Rightarrow> string option \<Rightarrow> string option \<Rightarrow> string option \<Rightarrow> int
     \<Rightarrow> review_error + review_record list" where
  "review_list_by_status s status actor account space limit =
     review_list_by_filter s (status_filter status actor account space limit)"

definition review_list_pending ::
  "review_store \<Rightarrow> string option \<Rightarrow> string option \<Rightarrow> string option \<Rightarrow> int \<Rightarrow> review_error + review_record list" where
  "review_list_pending s actor account space limit =
     review_list_by_status s RV_PENDING_REVIEW actor account space limit"

definition update_review :: "review_store \<Rightarrow> string \<Rightarrow> review_update \<Rightarrow> review_record option \<times> review_store" where
  "update_review s cid u =
     (case dict_get (rvs_records s) cid of
        None \<Rightarrow> (None, s)
      | Some r \<Rightarrow>
          let updated = apply_review_update r u
          in (Some updated, s\<lparr>rvs_records := dict_set cid updated (rvs_records s)\<rparr>))"

definition status_update :: "review_status \<Rightarrow> datetime \<Rightarrow> review_update" where
  "status_update status t =
     \<lparr>ru_status = status, ru_updated_at = t, ru_reviewed_at = None, ru_reviewed_by = None, ru_review_reason = None,
      ru_promoted_memory_id = None\<rparr>"

definition update_status ::
  "review_store \<Rightarrow> string \<Rightarrow> review_status \<Rightarrow> datetime \<Rightarrow> review_record option \<times> review_store" where
  "update_status s cid status t = update_review s cid (status_update status t)"

section \<open>Well-formed stores\<close>

text \<open>
  Each record is stored under its id, and the ids by idempotency key are exactly the keys of the records.
\<close>

definition review_store_ok :: "review_store \<Rightarrow> bool" where
  "review_store_ok s \<longleftrightarrow>
     dict_wf (rvs_records s) \<and> (\<forall>cid r. review_get s cid = Some r \<longrightarrow> rr_candidate_id r = cid) \<and>
     (\<forall>key cid. dict_get (rvs_idempotency_keys s) key = Some cid \<longleftrightarrow>
        (\<exists>r. review_get s cid = Some r \<and> rr_idempotency_key r = key))"

lemma empty_review_store_ok [simp]: "review_store_ok empty_review_store"
  by (simp add: review_store_ok_def empty_review_store_def review_get_def)

lemma apply_review_update_simps [simp]:
  "rr_candidate_id (apply_review_update r u) = rr_candidate_id r"
  "rr_candidate (apply_review_update r u) = rr_candidate r"
  "rr_idempotency_key (apply_review_update r u) = rr_idempotency_key r"
  "rr_created_at (apply_review_update r u) = rr_created_at r"
  "rr_candidate_type (apply_review_update r u) = rr_candidate_type r"
  "rr_status (apply_review_update r u) = ru_status u"
  "rr_updated_at (apply_review_update r u) = ru_updated_at u"
  "rr_reviewed_at (apply_review_update r u) = keep_unless_given (ru_reviewed_at u) (rr_reviewed_at r)"
  "rr_reviewed_by (apply_review_update r u) = keep_unless_given (ru_reviewed_by u) (rr_reviewed_by r)"
  "rr_promoted_memory_id (apply_review_update r u) = keep_unless_given (ru_promoted_memory_id u) (rr_promoted_memory_id r)"
  by (simp_all add: apply_review_update_def)

lemma keep_unless_given_simps [simp]:
  "keep_unless_given None x = x" "keep_unless_given (Some a) x = Some a"
  by (simp_all add: keep_unless_given_def)

text \<open>A candidate is either known, by its id or by its idempotency key, or appended.\<close>

lemma review_add_cases:
  assumes "review_store_ok s"
  obtains (known) existing where
      "review_add_nowait s r = (Inr existing, s)"
      "review_get s (rr_candidate_id existing) = Some existing"
      "rr_candidate_id existing = rr_candidate_id r \<or> rr_idempotency_key existing = rr_idempotency_key r"
  | (new) "review_add_nowait s r =
        (Inr r, s\<lparr>rvs_records := dict_set (rr_candidate_id r) r (rvs_records s),
                  rvs_idempotency_keys := dict_set (rr_idempotency_key r) (rr_candidate_id r) (rvs_idempotency_keys s)\<rparr>)"
      "review_get s (rr_candidate_id r) = None" "dict_get (rvs_idempotency_keys s) (rr_idempotency_key r) = None"
proof (cases "review_get s (rr_candidate_id r)")
  case (Some existing)
  moreover from assms Some have "rr_candidate_id existing = rr_candidate_id r"
    unfolding review_store_ok_def by blast
  ultimately show ?thesis
    by (intro known [of existing]) (simp_all add: review_add_nowait_def review_get_def)
next
  case None
  show ?thesis
  proof (cases "dict_get (rvs_idempotency_keys s) (rr_idempotency_key r)")
    case None
    with \<open>review_get s (rr_candidate_id r) = None\<close> show ?thesis
      by (intro new) (simp_all add: review_add_nowait_def review_get_def)
  next
    case (Some cid)
    with assms obtain existing where
      "review_get s cid = Some existing" "rr_idempotency_key existing = rr_idempotency_key r"
      unfolding review_store_ok_def by blast
    moreover from this(1) assms have "rr_candidate_id existing = cid"
      unfolding review_store_ok_def by blast
    ultimately show ?thesis using None Some
      by (intro known [of existing]) (simp_all add: review_add_nowait_def review_get_def)
  qed
qed

lemma review_store_ok_new:
  assumes "review_store_ok s" "review_get s (rr_candidate_id r) = None"
    "dict_get (rvs_idempotency_keys s) (rr_idempotency_key r) = None"
  shows "review_store_ok (s\<lparr>rvs_records := dict_set (rr_candidate_id r) r (rvs_records s),
           rvs_idempotency_keys := dict_set (rr_idempotency_key r) (rr_candidate_id r) (rvs_idempotency_keys s)\<rparr>)"
proof -
  have fresh: "rr_idempotency_key r' \<noteq> rr_idempotency_key r" if "dict_get (rvs_records s) cid = Some r'" for cid r'
    using assms(1,3) that unfolding review_store_ok_def review_get_def by (metis option.distinct(1))
  show ?thesis
    using assms fresh unfolding review_store_ok_def review_get_def by (auto simp: dict_get_set)
qed

lemma review_add_nowait_ok: "review_store_ok s \<Longrightarrow> review_store_ok (snd (review_add_nowait s r))"
  by (cases rule: review_add_cases [of s r]) (simp_all add: review_store_ok_new)

lemma review_add_get:
  "review_store_ok s \<Longrightarrow>
     review_get (snd (review_add_nowait s r)) cid = review_get s cid \<or>
     cid = rr_candidate_id r \<and> review_get s cid = None \<and> review_get (snd (review_add_nowait s r)) cid = Some r"
  by (cases rule: review_add_cases [of s r]) (auto simp: review_get_def dict_get_set)

lemma update_review_get:
  "review_get (snd (update_review s cid u)) cid' =
     (if cid' = cid then map_option (\<lambda>r. apply_review_update r u) (review_get s cid) else review_get s cid')"
  by (auto simp: update_review_def review_get_def dict_get_set Let_def split: option.split)

lemma update_review_result: "fst (update_review s cid u) = map_option (\<lambda>r. apply_review_update r u) (review_get s cid)"
  by (auto simp: update_review_def review_get_def Let_def split: option.split)

lemma update_review_ok:
  assumes "review_store_ok s"
  shows "review_store_ok (snd (update_review s cid u))"
proof -
  have "dict_wf (rvs_records (snd (update_review s cid u)))"
    "rvs_idempotency_keys (snd (update_review s cid u)) = rvs_idempotency_keys s"
    using assms by (simp_all add: update_review_def review_store_ok_def Let_def split: option.split)
  with assms show ?thesis
    unfolding review_store_ok_def by (simp add: update_review_get) fastforce
qed

text \<open>A list is sorted, holds only matching records of the store, and no more than the limit.\<close>

lemma review_list_sound:
  assumes "review_list_by_filter s q = Inr rs"
  shows "sorted (map review_order rs) \<and> set rs \<subseteq> {r \<in> set (dict_values (rvs_records s)). matches_filter r q} \<and>
     int (length rs) \<le> rf_limit q"
proof -
  let ?all = "sort_key review_order (filter (\<lambda>r. matches_filter r q) (dict_values (rvs_records s)))"
  from assms have rs: "rs = take (nat (rf_limit q)) ?all" and "1 \<le> rf_limit q"
    by (auto simp: review_list_by_filter_def validate_positive_limit_def Let_def result_bind_ok split: if_splits)
  moreover have "sorted (map review_order rs)"
    unfolding rs by (simp add: sorted_wrt_take flip: take_map)
  moreover have "set rs \<subseteq> set ?all" unfolding rs by (rule set_take_subset)
  ultimately show ?thesis by auto
qed

end
