(* ===== verification/Review_Sqlite.thy ===== *)
theory Review_Sqlite
  imports Review_Store Delivery_Sqlite
begin

text \<open>
  The durable review store, \<^verbatim>\<open>SQLiteMemoryCandidateReviewStore\<close> of
  \<^verbatim>\<open>iris/adapters/persistence/sqlite/stores/memory_candidate_reviews.py\<close>, with the columns of
  \<^verbatim>\<open>schema/memory_candidate_reviews.py\<close>. The table is an association list under its primary key; a
  transaction that raises leaves it as it was. The JSON texts are pydantic's: a codec is an argument, and that it
  loads what it dumped is a hypothesis where it is needed. A value that is no member of its enumeration, or a
  JSON text that does not load, is an error with the name of the column.
\<close>

section \<open>Enumerations\<close>

definition memory_kind_of_value :: "string \<Rightarrow> memory_kind option" where
  "memory_kind_of_value s =
     find (\<lambda>k. memory_kind_value k = s)
       [MK_EPISODE, MK_PREFERENCE, MK_FACT, MK_RELATIONSHIP_EVENT, MK_TASK, MK_NOTE]"

definition candidate_source_of_value :: "string \<Rightarrow> candidate_source option" where
  "candidate_source_of_value s =
     find (\<lambda>k. candidate_source_value k = s)
       [CS_EXPLICIT_USER_REQUEST, CS_EXPLICIT_PROFILE_STATEMENT, CS_EXPLICIT_PREFERENCE_STATEMENT,
        CS_EXPLICIT_USER_INSTRUCTION, CS_EXPLICIT_PREFERENCE, CS_IMPLICIT_CONVERSATION, CS_SYSTEM_EVENT,
        CS_ACTION_RESULT, CS_REFLECTION, CS_CONSOLIDATION, CS_LANGMEM_EXTRACTION, CS_PERSONA_PATCH]"

definition retention_policy_of_value :: "string \<Rightarrow> retention_policy option" where
  "retention_policy_of_value s =
     find (\<lambda>k. retention_policy_value k = s)
       [RP_DURABLE, RP_LONG_TERM, RP_UNTIL_CHANGED, RP_SESSION, RP_SESSION_ONLY, RP_EXPIRES_AT, RP_REVIEW_REQUIRED,
        RP_DISCARD_AFTER_RESTART, RP_DISCARD]"

definition candidate_sensitivity_of_value :: "string \<Rightarrow> candidate_sensitivity option" where
  "candidate_sensitivity_of_value s =
     find (\<lambda>k. candidate_sensitivity_value k = s) [SE_NORMAL, SE_PERSONAL, SE_SENSITIVE, SE_SECRET_LIKE]"

definition review_status_of_value :: "string \<Rightarrow> review_status option" where
  "review_status_of_value s =
     find (\<lambda>k. review_status_value k = s) [RV_PENDING_REVIEW, RV_APPROVED, RV_REJECTED, RV_DISCARDED]"

definition candidate_type_of_value :: "string \<Rightarrow> candidate_type option" where
  "candidate_type_of_value s =
     find (\<lambda>k. candidate_type_value k = s)
       [CT_MEMORY, CT_SHARED_EPISODIC_MEMORY, CT_PERSONA_PATCH, CT_RELATIONSHIP, CT_INTERNAL_STATE, CT_CONSOLIDATION,
        CT_INTERACTION_POLICY]"

lemma enum_of_value [simp]:
  "memory_kind_of_value (memory_kind_value k) = Some k"
  "candidate_source_of_value (candidate_source_value s) = Some s"
  "retention_policy_of_value (retention_policy_value p) = Some p"
  "candidate_sensitivity_of_value (candidate_sensitivity_value x) = Some x"
  "review_status_of_value (review_status_value st) = Some st"
  "candidate_type_of_value (candidate_type_value t) = Some t"
       apply (cases k; simp add: memory_kind_of_value_def)
      apply (cases s; simp add: candidate_source_of_value_def)
     apply (cases p; simp add: retention_policy_of_value_def)
    apply (cases x; simp add: candidate_sensitivity_of_value_def)
   apply (cases st; simp add: review_status_of_value_def)
  apply (cases t; simp add: candidate_type_of_value_def)
  done

lemma enum_value_inj [simp]:
  "review_status_value st = review_status_value st' \<longleftrightarrow> st = st'"
  "candidate_type_value t = candidate_type_value t' \<longleftrightarrow> t = t'"
  by (metis enum_of_value(5) option.inject, metis enum_of_value(6) option.inject)

section \<open>Rows\<close>

record candidate_payload =
  pl_text :: code_points
  pl_kind :: string
  pl_salience :: rat
  pl_confidence :: rat
  pl_source :: string
  pl_reason :: "string option"
  pl_retention_policy :: string
  pl_sensitivity :: string
  pl_review_required :: bool
  pl_actor_id :: "string option"
  pl_space_id :: "string option"
  pl_source_observation_id :: "string option"
  pl_metadata :: metadata

record review_codec =
  rc_payload_dump :: "candidate_payload \<Rightarrow> code_points"
  rc_payload_load :: "code_points \<Rightarrow> candidate_payload option"
  rc_mapping_dump :: "metadata \<Rightarrow> code_points"
  rc_mapping_load :: "code_points \<Rightarrow> metadata option"

definition review_codec_ok :: "review_codec \<Rightarrow> bool" where
  "review_codec_ok c \<longleftrightarrow>
     (\<forall>p. rc_payload_load c (rc_payload_dump c p) = Some p) \<and> (\<forall>m. rc_mapping_load c (rc_mapping_dump c m) = Some m)"

record review_row =
  rw_candidate_id :: string
  rw_idempotency_key :: string
  rw_status :: string
  rw_candidate_type :: string
  rw_candidate_json :: code_points
  rw_candidate_text :: code_points
  rw_candidate_kind :: string
  rw_candidate_source :: string
  rw_candidate_reason :: "string option"
  rw_candidate_confidence :: rat
  rw_candidate_salience :: rat
  rw_candidate_retention_policy :: string
  rw_candidate_sensitivity :: string
  rw_candidate_review_required :: int
  rw_actor_id :: "string option"
  rw_account_id :: "string option"
  rw_space_id :: "string option"
  rw_source_observation_id :: "string option"
  rw_reviewed_at :: "iso_text option"
  rw_reviewed_by :: "string option"
  rw_review_reason :: "string option"
  rw_promoted_memory_id :: "string option"
  rw_metadata_json :: code_points
  rw_created_at :: iso_text
  rw_updated_at :: iso_text

definition candidate_to_json :: "review_codec \<Rightarrow> memory_candidate \<Rightarrow> code_points" where
  "candidate_to_json c m = rc_payload_dump c
     \<lparr>pl_text = mc_text m, pl_kind = memory_kind_value (mc_kind m), pl_salience = mc_salience m,
      pl_confidence = mc_confidence m, pl_source = candidate_source_value (mc_source m), pl_reason = mc_reason m,
      pl_retention_policy = retention_policy_value (mc_retention_policy m),
      pl_sensitivity = candidate_sensitivity_value (mc_sensitivity m), pl_review_required = mc_review_required m,
      pl_actor_id = mc_actor_id m, pl_space_id = mc_space_id m,
      pl_source_observation_id = mc_source_observation_id m, pl_metadata = mc_metadata m\<rparr>"

text \<open>\<^verbatim>\<open>Enum(value)\<close> and the loading of JSON: the value, or an error for the column.\<close>

definition or_row_error :: "string \<Rightarrow> 'a option \<Rightarrow> review_error + 'a" where
  "or_row_error column x = (case x of None \<Rightarrow> Inl (ReviewValueError column) | Some v \<Rightarrow> Inr v)"

definition candidate_from_json :: "review_codec \<Rightarrow> code_points \<Rightarrow> review_error + memory_candidate" where
  "candidate_from_json c json =
     result_bind (or_row_error ''candidate_json'' (rc_payload_load c json)) (\<lambda>p.
     result_bind (or_row_error ''kind'' (memory_kind_of_value (pl_kind p))) (\<lambda>kind.
     result_bind (or_row_error ''source'' (candidate_source_of_value (pl_source p))) (\<lambda>source.
     result_bind (or_row_error ''retention_policy'' (retention_policy_of_value (pl_retention_policy p))) (\<lambda>retention.
     result_bind (or_row_error ''sensitivity'' (candidate_sensitivity_of_value (pl_sensitivity p))) (\<lambda>sensitivity.
     Inr \<lparr>mc_text = pl_text p, mc_kind = kind, mc_salience = pl_salience p, mc_confidence = pl_confidence p,
          mc_source = source, mc_reason = pl_reason p, mc_retention_policy = retention, mc_sensitivity = sensitivity,
          mc_review_required = pl_review_required p, mc_actor_id = pl_actor_id p, mc_space_id = pl_space_id p,
          mc_source_observation_id = pl_source_observation_id p, mc_metadata = pl_metadata p\<rparr>)))))"

definition review_record_to_row :: "review_codec \<Rightarrow> review_record \<Rightarrow> review_row" where
  "review_record_to_row c r =
     (let m = rr_candidate r
      in \<lparr>rw_candidate_id = rr_candidate_id r, rw_idempotency_key = rr_idempotency_key r,
          rw_status = review_status_value (rr_status r), rw_candidate_type = candidate_type_value (rr_candidate_type r),
          rw_candidate_json = candidate_to_json c m, rw_candidate_text = mc_text m,
          rw_candidate_kind = memory_kind_value (mc_kind m), rw_candidate_source = candidate_source_value (mc_source m),
          rw_candidate_reason = mc_reason m, rw_candidate_confidence = mc_confidence m,
          rw_candidate_salience = mc_salience m,
          rw_candidate_retention_policy = retention_policy_value (mc_retention_policy m),
          rw_candidate_sensitivity = candidate_sensitivity_value (mc_sensitivity m),
          rw_candidate_review_required = (if mc_review_required m then 1 else 0),
          rw_actor_id = rr_actor_id r, rw_account_id = rr_account_id r, rw_space_id = rr_space_id r,
          rw_source_observation_id = rr_source_observation_id r, rw_reviewed_at = datetime_to_text (rr_reviewed_at r),
          rw_reviewed_by = rr_reviewed_by r, rw_review_reason = rr_review_reason r,
          rw_promoted_memory_id = rr_promoted_memory_id r, rw_metadata_json = rc_mapping_dump c (rr_metadata r),
          rw_created_at = required_datetime_to_text (rr_created_at r),
          rw_updated_at = required_datetime_to_text (rr_updated_at r)\<rparr>)"

definition review_row_to_record :: "review_codec \<Rightarrow> review_row \<Rightarrow> review_error + review_record" where
  "review_row_to_record c w =
     result_bind (candidate_from_json c (rw_candidate_json w)) (\<lambda>candidate.
     result_bind (or_row_error ''status'' (review_status_of_value (rw_status w))) (\<lambda>status.
     result_bind (or_row_error ''candidate_type'' (candidate_type_of_value (rw_candidate_type w))) (\<lambda>typ.
     result_bind (or_row_error ''metadata_json'' (rc_mapping_load c (rw_metadata_json w))) (\<lambda>metadata.
     Inr \<lparr>rr_candidate_id = rw_candidate_id w, rr_candidate = candidate,
          rr_created_at = text_to_datetime (rw_created_at w), rr_updated_at = text_to_datetime (rw_updated_at w),
          rr_idempotency_key = rw_idempotency_key w, rr_status = status, rr_candidate_type = typ,
          rr_actor_id = rw_actor_id w, rr_account_id = rw_account_id w, rr_space_id = rw_space_id w,
          rr_source_observation_id = rw_source_observation_id w, rr_reviewed_at = optional_datetime (rw_reviewed_at w),
          rr_reviewed_by = rw_reviewed_by w, rr_review_reason = rw_review_reason w,
          rr_promoted_memory_id = rw_promoted_memory_id w, rr_metadata = metadata\<rparr>))))"

fun review_rows_to_records :: "review_codec \<Rightarrow> review_row list \<Rightarrow> review_error + review_record list" where
  "review_rows_to_records c [] = Inr []"
| "review_rows_to_records c (w # ws) =
     result_bind (review_row_to_record c w) (\<lambda>r.
     result_bind (review_rows_to_records c ws) (\<lambda>rs. Inr (r # rs)))"

definition review_update_row :: "review_row \<Rightarrow> review_record \<Rightarrow> review_row" where
  "review_update_row w r =
     w\<lparr>rw_status := review_status_value (rr_status r), rw_reviewed_at := datetime_to_text (rr_reviewed_at r),
       rw_reviewed_by := rr_reviewed_by r, rw_review_reason := rr_review_reason r,
       rw_promoted_memory_id := rr_promoted_memory_id r,
       rw_updated_at := required_datetime_to_text (rr_updated_at r)\<rparr>"

section \<open>Operations\<close>

type_synonym review_table = "(string, review_row) dict"

text \<open>The row with the id comes before a row with the idempotency key.\<close>

definition review_find_existing ::
  "review_codec \<Rightarrow> review_table \<Rightarrow> review_record \<Rightarrow> review_error + review_record option" where
  "review_find_existing c rows r =
     (let hits = filter (\<lambda>w. rw_candidate_id w = rr_candidate_id r \<or> rw_idempotency_key w = rr_idempotency_key r)
                   (dict_values rows);
          ordered = sort_key (\<lambda>w. if rw_candidate_id w = rr_candidate_id r then 0 else 1 :: nat) hits
      in case ordered of [] \<Rightarrow> Inr None | w # _ \<Rightarrow> result_bind (review_row_to_record c w) (\<lambda>x. Inr (Some x)))"

definition review_sql_add ::
  "review_codec \<Rightarrow> review_table \<Rightarrow> review_record \<Rightarrow> (review_error + review_record) \<times> review_table" where
  "review_sql_add c rows r =
     (case review_find_existing c rows r of
        Inl e \<Rightarrow> (Inl e, rows)
      | Inr (Some existing) \<Rightarrow> (Inr existing, rows)
      | Inr None \<Rightarrow> (Inr r, dict_set (rr_candidate_id r) (review_record_to_row c r) rows))"

definition review_sql_get :: "review_codec \<Rightarrow> review_table \<Rightarrow> string \<Rightarrow> review_error + review_record option" where
  "review_sql_get c rows cid =
     (case dict_get rows cid of
        None \<Rightarrow> Inr None
      | Some w \<Rightarrow> result_bind (review_row_to_record c w) (\<lambda>r. Inr (Some r)))"

text \<open>\<^verbatim>\<open>? IS NULL OR column = ?\<close>; a \<^verbatim>\<open>NULL\<close> column equals no value.\<close>

definition null_or_equal :: "string option \<Rightarrow> string option \<Rightarrow> bool" where
  "null_or_equal param column \<longleftrightarrow>
     (case param of None \<Rightarrow> True | Some p \<Rightarrow> (case column of None \<Rightarrow> False | Some v \<Rightarrow> v = p))"

definition review_row_matches :: "review_filter \<Rightarrow> review_row \<Rightarrow> bool" where
  "review_row_matches q w \<longleftrightarrow>
     null_or_equal (map_option review_status_value (rf_status q)) (Some (rw_status w)) \<and>
     null_or_equal (map_option candidate_type_value (rf_candidate_type q)) (Some (rw_candidate_type w)) \<and>
     null_or_equal (rf_actor_id q) (rw_actor_id w) \<and> null_or_equal (rf_account_id q) (rw_account_id w) \<and>
     null_or_equal (rf_space_id q) (rw_space_id w)"

definition review_row_order :: "review_row \<Rightarrow> datetime \<times> string" where
  "review_row_order w = (iso_instant (rw_created_at w), rw_candidate_id w)"

definition review_sql_list :: "review_codec \<Rightarrow> review_table \<Rightarrow> review_filter \<Rightarrow> review_error + review_record list" where
  "review_sql_list c rows q =
     result_bind (validate_positive_limit (rf_limit q))
       (\<lambda>_. review_rows_to_records c
          (take (nat (rf_limit q)) (sort_key review_row_order (filter (review_row_matches q) (dict_values rows)))))"

definition review_sql_update ::
  "review_codec \<Rightarrow> review_table \<Rightarrow> string \<Rightarrow> review_update \<Rightarrow> (review_error + review_record option) \<times> review_table" where
  "review_sql_update c rows cid u =
     (case review_sql_get c rows cid of
        Inl e \<Rightarrow> (Inl e, rows)
      | Inr None \<Rightarrow> (Inr None, rows)
      | Inr (Some r) \<Rightarrow>
          let updated = apply_review_update r u
          in (Inr (Some updated),
              (case dict_get rows (rr_candidate_id updated) of
                 None \<Rightarrow> rows
               | Some w \<Rightarrow> dict_set (rr_candidate_id updated) (review_update_row w updated) rows)))"

section \<open>Round trip\<close>

lemma candidate_json_round_trip [simp]:
  "review_codec_ok c \<Longrightarrow> candidate_from_json c (candidate_to_json c m) = Inr m"
  by (simp add: review_codec_ok_def candidate_from_json_def candidate_to_json_def or_row_error_def)

lemma review_row_round_trip [simp]:
  "review_codec_ok c \<Longrightarrow> review_row_to_record c (review_record_to_row c r) = Inr r"
  by (simp add: review_row_to_record_def review_record_to_row_def Let_def or_row_error_def)
    (simp add: review_codec_ok_def)

lemma review_rows_round_trip [simp]:
  "review_codec_ok c \<Longrightarrow> review_rows_to_records c (map (review_record_to_row c) rs) = Inr rs"
  by (induction rs) simp_all

lemma review_row_columns [simp]:
  "rw_candidate_id (review_record_to_row c r) = rr_candidate_id r"
  "rw_idempotency_key (review_record_to_row c r) = rr_idempotency_key r"
  "review_row_order (review_record_to_row c r) = review_order r"
  by (simp_all add: review_record_to_row_def review_row_order_def review_order_def required_datetime_to_text_def Let_def)

lemma null_or_equal_iff: "null_or_equal p v \<longleftrightarrow> p = None \<or> v = p"
  by (auto simp: null_or_equal_def split: option.split)

lemma review_row_matches_iff [simp]: "review_row_matches q (review_record_to_row c r) \<longleftrightarrow> matches_filter r q"
  by (cases "rf_status q"; cases "rf_candidate_type q")
    (simp_all add: review_row_matches_def matches_filter_def null_or_equal_iff review_record_to_row_def Let_def)

text \<open>Updating the columns of a row gives the row of the updated record.\<close>

lemma review_update_row_of [simp]:
  "review_update_row (review_record_to_row c r) (apply_review_update r u) = review_record_to_row c (apply_review_update r u)"
  by (simp add: review_update_row_def review_record_to_row_def apply_review_update_def Let_def)

end
