(* ===== verification/Review_Codec.thy ===== *)
theory Review_Codec
  imports Review_Sqlite
begin

text \<open>
  A concrete codec for the JSON columns of the review table: lists of numbers, each part after its length. It stands
  in for pydantic's JSON and shows that the hypothesis on the codec can be met; no property depends on it.
\<close>

definition put_cps :: "code_points \<Rightarrow> code_points" where
  "put_cps t = length t # t"

fun take_cps :: "code_points \<Rightarrow> (code_points \<times> code_points) option" where
  "take_cps [] = None"
| "take_cps (n # s) = Some (take n s, drop n s)"

lemma take_put_cps [simp]: "take_cps (put_cps t @ rest) = Some (t, rest)"
  by (simp add: put_cps_def)

definition put_str :: "string \<Rightarrow> code_points" where
  "put_str s = put_cps (codes s)"

definition take_str :: "code_points \<Rightarrow> (string \<times> code_points) option" where
  "take_str s = map_option (apfst (map char_of)) (take_cps s)"

lemma take_put_str [simp]: "take_str (put_str s @ rest) = Some (s, rest)"
  by (simp add: take_str_def put_str_def codes_def o_def)

fun put_optional :: "string option \<Rightarrow> code_points" where
  "put_optional None = [0]"
| "put_optional (Some s) = 1 # put_str s"

fun take_optional :: "code_points \<Rightarrow> (string option \<times> code_points) option" where
  "take_optional [] = None"
| "take_optional (b # s) = (if b = 0 then Some (None, s) else map_option (apfst Some) (take_str s))"

lemma take_put_optional [simp]: "take_optional (put_optional s @ rest) = Some (s, rest)"
  by (cases s) simp_all

definition put_frac :: "rat \<Rightarrow> code_points" where
  "put_frac x = (let (n, d) = quotient_of x in [if n < 0 then 1 else 0, nat \<bar>n\<bar>, nat d])"

fun take_frac :: "code_points \<Rightarrow> (rat \<times> code_points) option" where
  "take_frac (sg # n # d # s) = Some ((if sg = 1 then - 1 else 1) * of_nat n / of_nat d, s)"
| "take_frac _ = None"

lemma take_put_frac [simp]: "take_frac (put_frac x @ rest) = Some (x, rest)"
proof (cases "quotient_of x")
  case (Pair n d)
  with quotient_of_denom_pos [OF Pair] quotient_of_div [OF Pair] show ?thesis
    by (auto simp: put_frac_def of_nat_nat)
qed

fun put_dict :: "metadata \<Rightarrow> code_points" where
  "put_dict [] = [0]"
| "put_dict ((k, v) # m) = 1 # put_str k @ put_str v @ put_dict m"

fun take_dict :: "nat \<Rightarrow> code_points \<Rightarrow> (metadata \<times> code_points) option" where
  "take_dict (Suc n) (b # s) =
     (if b = 0 then Some ([], s) else
      case take_str s of None \<Rightarrow> None | Some (k, r) \<Rightarrow>
      case take_str r of None \<Rightarrow> None | Some (v, r') \<Rightarrow> map_option (apfst ((#) (k, v))) (take_dict n r'))"
| "take_dict _ _ = None"

lemma take_put_dict: "length m < n \<Longrightarrow> take_dict n (put_dict m @ rest) = Some (m, rest)"
proof (induction m arbitrary: n)
  case Nil
  then show ?case by (cases n) auto
next
  case (Cons kv m)
  then show ?case by (cases n; cases kv) auto
qed

lemma put_dict_length: "length m < length (put_dict m)"
  by (induction m rule: put_dict.induct) auto

lemma take_put_whole_dict [simp]: "take_dict (length (put_dict m)) (put_dict m) = Some (m, [])"
  using take_put_dict [of m "length (put_dict m)" "[]"] put_dict_length [of m] by simp

definition put_payload :: "candidate_payload \<Rightarrow> code_points" where
  "put_payload p =
     put_cps (pl_text p) @ put_str (pl_kind p) @ put_frac (pl_salience p) @ put_frac (pl_confidence p) @
     put_str (pl_source p) @ put_optional (pl_reason p) @ put_str (pl_retention_policy p) @ put_str (pl_sensitivity p) @
     put_cps (if pl_review_required p then [1] else []) @ put_optional (pl_actor_id p) @ put_optional (pl_space_id p) @
     put_optional (pl_source_observation_id p) @ put_dict (pl_metadata p)"

definition then_take :: "('a \<times> code_points) option \<Rightarrow> ('a \<Rightarrow> code_points \<Rightarrow> 'b option) \<Rightarrow> 'b option" where
  "then_take x f = (case x of None \<Rightarrow> None | Some (a, s) \<Rightarrow> f a s)"

lemma then_take_Some [simp]: "then_take (Some (a, s)) f = f a s"
  by (simp add: then_take_def)

definition take_payload :: "code_points \<Rightarrow> candidate_payload option" where
  "take_payload s =
     then_take (take_cps s) (\<lambda>t s.
      then_take (take_str s) (\<lambda>kind s.
      then_take (take_frac s) (\<lambda>salience s.
      then_take (take_frac s) (\<lambda>confidence s.
      then_take (take_str s) (\<lambda>source s.
      then_take (take_optional s) (\<lambda>reason s.
      then_take (take_str s) (\<lambda>retention s.
      then_take (take_str s) (\<lambda>sensitivity s.
      then_take (take_cps s) (\<lambda>required s.
      then_take (take_optional s) (\<lambda>actor s.
      then_take (take_optional s) (\<lambda>space s.
      then_take (take_optional s) (\<lambda>observation s.
      then_take (take_dict (length s) s) (\<lambda>metadata s.
      Some \<lparr>pl_text = t, pl_kind = kind, pl_salience = salience, pl_confidence = confidence, pl_source = source,
            pl_reason = reason, pl_retention_policy = retention, pl_sensitivity = sensitivity,
            pl_review_required = (required \<noteq> []), pl_actor_id = actor, pl_space_id = space,
            pl_source_observation_id = observation, pl_metadata = metadata\<rparr>)))))))))))))"

lemma take_put_payload [simp]: "take_payload (put_payload p) = Some p"
  by (simp add: take_payload_def put_payload_def)

definition plain_review_codec :: review_codec where
  "plain_review_codec =
     \<lparr>rc_payload_dump = put_payload, rc_payload_load = take_payload, rc_mapping_dump = put_dict,
      rc_mapping_load = (\<lambda>s. map_option fst (take_dict (length s) s))\<rparr>"

lemma plain_review_codec_ok: "review_codec_ok plain_review_codec"
  by (simp add: review_codec_ok_def plain_review_codec_def)

end
