(* ===== verification/Review_Equiv.thy ===== *)
theory Review_Equiv
  imports Review_Codec
begin

text \<open>
  The durable review store against the in-memory one. The contract of a backend is a locale: every call gets the
  answer of the in-memory store and keeps the states related. The relation is exact: the table holds, in the
  same order, the row of each record of the in-memory store.
\<close>

section \<open>Calls\<close>

datatype review_op =
  ReviewAdd review_record | ReviewGet string | ReviewList review_filter
| ReviewUpdate string review_update

datatype review_answer = RecordAnswer review_record | FoundAnswer "review_record option" | ListAnswer "review_record list"

definition answer_with :: "('a \<Rightarrow> review_answer) \<Rightarrow> review_error + 'a \<Rightarrow> review_error + review_answer" where
  "answer_with f x = result_bind x (\<lambda>a. Inr (f a))"

fun review_mem_step :: "review_store \<Rightarrow> review_op \<Rightarrow> (review_error + review_answer) \<times> review_store" where
  "review_mem_step s (ReviewAdd r) = apfst (answer_with RecordAnswer) (review_add_nowait s r)"
| "review_mem_step s (ReviewGet cid) = (Inr (FoundAnswer (review_get s cid)), s)"
| "review_mem_step s (ReviewList q) = (answer_with ListAnswer (review_list_by_filter s q), s)"
| "review_mem_step s (ReviewUpdate cid u) = apfst (\<lambda>r. Inr (FoundAnswer r)) (update_review s cid u)"

fun review_sql_step ::
  "review_codec \<Rightarrow> review_table \<Rightarrow> review_op \<Rightarrow> (review_error + review_answer) \<times> review_table" where
  "review_sql_step c t (ReviewAdd r) = apfst (answer_with RecordAnswer) (review_sql_add c t r)"
| "review_sql_step c t (ReviewGet cid) = (answer_with FoundAnswer (review_sql_get c t cid), t)"
| "review_sql_step c t (ReviewList q) = (answer_with ListAnswer (review_sql_list c t q), t)"
| "review_sql_step c t (ReviewUpdate cid u) = apfst (answer_with FoundAnswer) (review_sql_update c t cid u)"

fun run_reviews :: "('s \<Rightarrow> review_op \<Rightarrow> 'a \<times> 's) \<Rightarrow> 's \<Rightarrow> review_op list \<Rightarrow> 'a list \<times> 's" where
  "run_reviews step s [] = ([], s)"
| "run_reviews step s (x # xs) =
     (let (a, s') = step s x; (as, s'') = run_reviews step s' xs in (a # as, s''))"

locale review_backend =
  fixes step :: "'s \<Rightarrow> review_op \<Rightarrow> (review_error + review_answer) \<times> 's"
    and sim :: "'s \<Rightarrow> review_store \<Rightarrow> bool"
  assumes step_answers: "sim t s \<Longrightarrow> fst (step t x) = fst (review_mem_step s x)"
    and step_sim: "sim t s \<Longrightarrow> sim (snd (step t x)) (snd (review_mem_step s x))"
begin

lemma run_answers:
  "sim t s \<Longrightarrow> fst (run_reviews step t xs) = fst (run_reviews review_mem_step s xs) \<and>
     sim (snd (run_reviews step t xs)) (snd (run_reviews review_mem_step s xs))"
proof (induction xs arbitrary: t s)
  case (Cons x xs)
  from Cons.IH [OF step_sim [OF Cons.prems, of x]] step_answers [OF Cons.prems, of x] show ?case
    by (simp add: case_prod_beta)
qed simp

end

section \<open>The table of a store\<close>

definition table_of :: "review_codec \<Rightarrow> review_store \<Rightarrow> review_table" where
  "table_of c s = map (\<lambda>(k, r). (k, review_record_to_row c r)) (rvs_records s)"

definition review_sim :: "review_codec \<Rightarrow> review_table \<Rightarrow> review_store \<Rightarrow> bool" where
  "review_sim c t s \<longleftrightarrow> review_codec_ok c \<and> review_store_ok s \<and> t = table_of c s"

lemma dict_set_map: "dict_set k (f v) (map (\<lambda>(k, v). (k, f v)) d) = map (\<lambda>(k, v). (k, f v)) (dict_set k v d)"
  by (induction d) auto

lemma dict_get_table: "dict_get (table_of c s) cid = map_option (review_record_to_row c) (review_get s cid)"
  by (simp add: table_of_def map_of_map review_get_def)

lemma dict_values_table: "dict_values (table_of c s) = map (review_record_to_row c) (dict_values (rvs_records s))"
  by (simp add: table_of_def dict_values_def case_prod_beta)

lemma table_of_set:
  "table_of c (s\<lparr>rvs_records := dict_set k r (rvs_records s), rvs_idempotency_keys := ks\<rparr>) =
     dict_set k (review_record_to_row c r) (table_of c s)"
  "table_of c (s\<lparr>rvs_records := dict_set k r (rvs_records s)\<rparr>) = dict_set k (review_record_to_row c r) (table_of c s)"
  by (simp_all add: table_of_def dict_set_map)

lemma review_sql_get_sim: "review_codec_ok c \<Longrightarrow> review_sql_get c (table_of c s) cid = Inr (review_get s cid)"
  by (simp add: review_sql_get_def dict_get_table split: option.split)

lemma review_sql_update_sim:
  assumes "review_codec_ok c" "review_store_ok s"
  shows "review_sql_update c (table_of c s) cid u =
     (Inr (fst (update_review s cid u)), table_of c (snd (update_review s cid u)))"
proof (cases "review_get s cid")
  case None
  then show ?thesis using assms(1)
    by (simp add: review_sql_update_def review_sql_get_sim update_review_def review_get_def)
next
  case (Some r)
  with assms(2) have "rr_candidate_id r = cid" unfolding review_store_ok_def by blast
  with Some assms(1) show ?thesis
    by (simp add: review_sql_update_def review_sql_get_sim dict_get_table Let_def table_of_set
        update_review_def review_get_def)
qed

lemma review_sql_list_sim:
  assumes "review_codec_ok c"
  shows "review_sql_list c (table_of c s) q = review_list_by_filter s q"
proof -
  let ?row = "review_record_to_row c"
  have "sort_key review_row_order (filter (review_row_matches q) (map ?row xs)) =
      map ?row (sort_key review_order (filter (\<lambda>r. matches_filter r q) xs))" for xs
    using map_sort_key [of ?row review_row_order "filter (\<lambda>r. matches_filter r q) xs"]
    by (simp add: filter_map o_def)
  with assms show ?thesis
    by (simp add: review_sql_list_def review_list_by_filter_def dict_values_table take_map)
qed

section \<open>Finding an existing row\<close>

lemma sort_by_flag: "sort_key (\<lambda>x. if P x then 0 else 1 :: nat) xs = filter P xs @ filter (\<lambda>x. \<not> P x) xs"
proof (induction xs)
  case (Cons x xs)
  let ?f = "\<lambda>x. if P x then 0 else 1 :: nat"
  have "insort_key ?f x (as @ bs) = as @ x # bs" if "\<not> P x" "\<forall>a\<in>set as. P a" "\<forall>b\<in>set bs. \<not> P b" for as bs
    using that by (induction as) (auto intro: insort_is_Cons)
  with Cons show ?case by (auto intro: insort_is_Cons)
qed simp

definition known_records :: "review_store \<Rightarrow> review_record \<Rightarrow> review_record list" where
  "known_records s r =
     (let xs = dict_values (rvs_records s)
      in filter (\<lambda>x. rr_candidate_id x = rr_candidate_id r) xs @
         filter (\<lambda>x. rr_candidate_id x \<noteq> rr_candidate_id r \<and> rr_idempotency_key x = rr_idempotency_key r) xs)"

lemma review_find_existing_known:
  assumes "review_codec_ok c"
  shows "review_find_existing c (table_of c s) r =
     Inr (case known_records s r of [] \<Rightarrow> None | x # _ \<Rightarrow> Some x)"
proof -
  let ?hit = "\<lambda>w. rw_candidate_id w = rr_candidate_id r \<or> rw_idempotency_key w = rr_idempotency_key r"
  let ?id = "\<lambda>w. rw_candidate_id w = rr_candidate_id r"
  have "sort_key (\<lambda>w. if ?id w then 0 else 1 :: nat) (filter ?hit (dict_values (table_of c s))) =
      map (review_record_to_row c) (known_records s r)"
    by (simp add: sort_by_flag dict_values_table known_records_def filter_map Let_def o_def)
      (intro arg_cong2 [where f = append] arg_cong [where f = "map (review_record_to_row c)"] filter_cong; auto)
  with assms show ?thesis
    by (simp add: review_find_existing_def split: list.split)
qed


lemma stored_values:
  assumes "review_store_ok s" "x \<in> set (dict_values (rvs_records s))"
  shows "review_get s (rr_candidate_id x) = Some x \<and>
     dict_get (rvs_idempotency_keys s) (rr_idempotency_key x) = Some (rr_candidate_id x)"
proof -
  from assms obtain cid where "review_get s cid = Some x"
    by (auto simp: review_store_ok_def review_get_def dict_values_set_iff)
  moreover from this assms(1) have "rr_candidate_id x = cid" unfolding review_store_ok_def by blast
  ultimately show ?thesis using assms(1) unfolding review_store_ok_def by blast
qed

lemma known_records_mem:
  "x \<in> set (known_records s r) \<longleftrightarrow> x \<in> set (dict_values (rvs_records s)) \<and>
     (rr_candidate_id x = rr_candidate_id r \<or> rr_idempotency_key x = rr_idempotency_key r)"
  by (auto simp: known_records_def Let_def)

lemma known_records_hd:
  assumes "known_records s r = x # xs" "rr_candidate_id x \<noteq> rr_candidate_id r"
  shows "\<forall>y\<in>set (dict_values (rvs_records s)). rr_candidate_id y \<noteq> rr_candidate_id r"
proof (rule ccontr)
  let ?ids = "filter (\<lambda>y. rr_candidate_id y = rr_candidate_id r) (dict_values (rvs_records s))"
  assume "\<not> ?thesis"
  then obtain y ys where ids: "?ids = y # ys" by (cases ?ids) (auto simp: filter_empty_conv)
  with assms(1) have "x = y" by (simp add: known_records_def Let_def)
  moreover have "rr_candidate_id y = rr_candidate_id r" using ids by (auto simp: filter_eq_Cons_iff)
  ultimately show False using assms(2) by simp
qed

text \<open>The first known record is the one the in-memory store answers with.\<close>

lemma review_add_known:
  assumes ok: "review_store_ok s"
  shows "review_add_nowait s r =
     (case known_records s r of
        [] \<Rightarrow> (Inr r, s\<lparr>rvs_records := dict_set (rr_candidate_id r) r (rvs_records s),
                         rvs_idempotency_keys := dict_set (rr_idempotency_key r) (rr_candidate_id r) (rvs_idempotency_keys s)\<rparr>)
      | x # _ \<Rightarrow> (Inr x, s))"
proof (cases "known_records s r")
  case Nil
  then have none: "\<not> (\<exists>x\<in>set (dict_values (rvs_records s)).
      rr_candidate_id x = rr_candidate_id r \<or> rr_idempotency_key x = rr_idempotency_key r)"
    using known_records_mem [of _ s r] by auto
  from ok show ?thesis
  proof (cases rule: review_add_cases [where s = s and r = r])
    case (known existing)
    then show ?thesis using none dict_get_values [of "rvs_records s"] unfolding review_get_def by blast
  qed (simp add: Nil)
next
  case (Cons x xs)
  then have mem: "x \<in> set (known_records s r)" by simp
  then have x: "review_get s (rr_candidate_id x) = Some x"
    "dict_get (rvs_idempotency_keys s) (rr_idempotency_key x) = Some (rr_candidate_id x)"
    "rr_candidate_id x = rr_candidate_id r \<or> rr_idempotency_key x = rr_idempotency_key r"
    using stored_values [OF ok] by (simp_all add: known_records_mem)
  show ?thesis
  proof (cases "rr_candidate_id x = rr_candidate_id r")
    case True
    with x Cons show ?thesis by (simp add: review_add_nowait_def review_get_def)
  next
    case False
    have "review_get s (rr_candidate_id r) = None"
    proof (rule ccontr)
      assume "\<not> ?thesis"
      then obtain y where y: "review_get s (rr_candidate_id r) = Some y" by blast
      with ok have "rr_candidate_id y = rr_candidate_id r" unfolding review_store_ok_def by blast
      with y known_records_hd [OF Cons False] dict_get_values [of "rvs_records s"] show False
        unfolding review_get_def by blast
    qed
    with False x Cons show ?thesis by (simp add: review_add_nowait_def review_get_def)
  qed
qed

lemma review_sql_add_sim:
  assumes "review_codec_ok c" "review_store_ok s"
  shows "review_sql_add c (table_of c s) r =
     (fst (review_add_nowait s r), table_of c (snd (review_add_nowait s r)))"
  by (simp add: review_sql_add_def review_find_existing_known [OF assms(1)] review_add_known [OF assms(2)]
      table_of_set split: list.split)

section \<open>Equivalence\<close>

lemma review_step_sim:
  assumes "review_sim c t s"
  shows "fst (review_sql_step c t x) = fst (review_mem_step s x) \<and>
     review_sim c (snd (review_sql_step c t x)) (snd (review_mem_step s x))"
  using assms
  by (cases x)
    (simp_all add: review_sim_def review_sql_add_sim review_sql_get_sim review_sql_list_sim review_sql_update_sim
      review_add_nowait_ok update_review_ok answer_with_def)

interpretation sqlreviews: review_backend "review_sql_step c" "review_sim c" for c :: review_codec
  by unfold_locales (simp_all add: review_step_sim)


text \<open>
  C40: The durable review store is equivalent to the in-memory one. Started empty, any sequence of additions,
  lookups, lists and updates gets the same answers from both, errors included. At the end the table has the ids
  of the in-memory records, in their order, and its rows decode to these records.
\<close>

theorem sqlite_reviews_equivalent:
  assumes "review_codec_ok c"
  shows "fst (run_reviews (review_sql_step c) [] xs) = fst (run_reviews review_mem_step empty_review_store xs) \<and>
     dict_keys (snd (run_reviews (review_sql_step c) [] xs)) =
       dict_keys (rvs_records (snd (run_reviews review_mem_step empty_review_store xs))) \<and>
     review_rows_to_records c (dict_values (snd (run_reviews (review_sql_step c) [] xs))) =
       Inr (dict_values (rvs_records (snd (run_reviews review_mem_step empty_review_store xs))))"
proof -
  have "review_sim c [] empty_review_store"
    using assms by (simp add: review_sim_def table_of_def) (simp add: empty_review_store_def)
  from sqlreviews.run_answers [OF this, of xs] assms show ?thesis
    by (simp add: review_sim_def dict_values_table)
      (simp add: table_of_def dict_keys_def o_def case_prod_beta)
qed

definition example_review :: "string \<Rightarrow> string \<Rightarrow> datetime \<Rightarrow> review_record" where
  "example_review cid key t =
     \<lparr>rr_candidate_id = cid,
      rr_candidate = \<lparr>mc_text = codes ''likes tea'', mc_kind = MK_PREFERENCE, mc_salience = 1 / 2, mc_confidence = 9 / 10,
        mc_source = CS_IMPLICIT_CONVERSATION, mc_reason = None, mc_retention_policy = RP_REVIEW_REQUIRED,
        mc_sensitivity = SE_NORMAL, mc_review_required = True, mc_actor_id = None, mc_space_id = None,
        mc_source_observation_id = None, mc_metadata = [(''a'', ''b'')]\<rparr>,
      rr_created_at = t, rr_updated_at = t, rr_idempotency_key = key, rr_status = RV_PENDING_REVIEW,
      rr_candidate_type = CT_MEMORY, rr_actor_id = None, rr_account_id = None, rr_space_id = None,
      rr_source_observation_id = None, rr_reviewed_at = None, rr_reviewed_by = None, rr_review_reason = None,
      rr_promoted_memory_id = None, rr_metadata = []\<rparr>"

theorem sqlite_reviews_equivalent_witness:
  "fst (run_reviews (review_sql_step plain_review_codec) []
     [ReviewAdd (example_review ''b'' ''k1'' 5), ReviewAdd (example_review ''a'' ''k2'' 5),
      ReviewAdd (example_review ''c'' ''k1'' 9), ReviewList (status_filter RV_PENDING_REVIEW None None None 1),
      ReviewList (status_filter RV_PENDING_REVIEW None None None 0)]) =
   [Inr (RecordAnswer (example_review ''b'' ''k1'' 5)), Inr (RecordAnswer (example_review ''a'' ''k2'' 5)),
    Inr (RecordAnswer (example_review ''b'' ''k1'' 5)), Inr (ListAnswer [example_review ''a'' ''k2'' 5]),
    Inl (ReviewValueError ''memory candidate review list limit must be >= 1'')]"
  using sqlite_reviews_equivalent [OF plain_review_codec_ok, of
    "[ReviewAdd (example_review ''b'' ''k1'' 5), ReviewAdd (example_review ''a'' ''k2'' 5),
      ReviewAdd (example_review ''c'' ''k1'' 9), ReviewList (status_filter RV_PENDING_REVIEW None None None 1),
      ReviewList (status_filter RV_PENDING_REVIEW None None None 0)]"]
  by (simp add: empty_review_store_def review_add_nowait_def answer_with_def review_list_by_filter_def
      validate_positive_limit_def status_filter_def matches_filter_def review_order_def dict_values_def
      example_review_def Let_def)

end
