(* ===== verification/Memory_Safety.thy ===== *)
theory Memory_Safety
  imports Iris_Prelude
begin

text \<open>
  The text checks for long-term memories, \<^verbatim>\<open>iris/cognitive/memory/safety.py\<close>, with the part of
  Python's regular expressions they use. Texts are lists of code points. Which characters are equal when
  case is ignored, and which are word characters, are Unicode tables and an argument.
\<close>

section \<open>Regular expressions\<close>

record char_tables =
  ct_same :: "nat \<Rightarrow> nat \<Rightarrow> bool"
  ct_word :: "nat \<Rightarrow> bool"

datatype rx =
  RLit code_points | RRun "nat \<Rightarrow> bool" nat | RSeq rx rx | RAlt rx rx | RStart | REnd | RWordB

text \<open>The positions at which a match that starts at a position may end.\<close>

fun rx_ends :: "char_tables \<Rightarrow> rx \<Rightarrow> code_points \<Rightarrow> nat \<Rightarrow> nat list" where
  "rx_ends ct (RLit s) t i =
     (if list_all2 (ct_same ct) s (take (length s) (drop i t)) then [i + length s] else [])"
| "rx_ends ct (RRun P n) t i =
     (let m = length (takeWhile P (drop i t)) in if n \<le> m then [i + n..<Suc (i + m)] else [])"
| "rx_ends ct (RSeq a b) t i = concat (map (rx_ends ct b t) (rx_ends ct a t i))"
| "rx_ends ct (RAlt a b) t i = rx_ends ct a t i @ rx_ends ct b t i"
| "rx_ends ct RStart t i = (if i = 0 then [i] else [])"
| "rx_ends ct REnd t i = (if i = length t \<or> (Suc i = length t \<and> t ! i = 10) then [i] else [])"
| "rx_ends ct RWordB t i =
     (if (0 < i \<and> i \<le> length t \<and> ct_word ct (t ! (i - 1))) \<noteq> (i < length t \<and> ct_word ct (t ! i)) then [i] else [])"

definition rx_search :: "char_tables \<Rightarrow> rx \<Rightarrow> code_points \<Rightarrow> bool" where
  "rx_search ct r t = (\<exists>i\<in>set [0..<Suc (length t)]. rx_ends ct r t i \<noteq> [])"

fun rx_alts :: "code_points list \<Rightarrow> rx" where
  "rx_alts [] = RRun (\<lambda>_. False) 1"
| "rx_alts [s] = RLit s"
| "rx_alts (s # ss) = RAlt (RLit s) (rx_alts ss)"

definition rx_any :: rx where
  "rx_any = RRun (\<lambda>c. c \<noteq> 10) 1"

section \<open>Patterns\<close>

definition CREDENTIAL_LIKE_PATTERNS :: "rx list" where
  "CREDENTIAL_LIKE_PATTERNS =
     [RSeq (RLit (codes ''api'')) (RSeq (RRun py_whitespace 0) (RLit (codes ''key''))),
      RLit (codes ''apikey''),
      RLit (codes ''secret''),
      RLit (codes ''token''),
      RLit (codes ''password''),
      RLit (codes ''passwd''),
      RLit (codes ''bearer''),
      RLit (codes ''OPENAI_API_KEY''),
      RLit (codes ''sk-''),
      RLit (codes ''github_pat_''),
      RLit ([12497, 12473, 12527, 12540, 12489]),
      RLit ([12488, 12540, 12463, 12531]),
      RLit ([31192, 23494, 37749]),
      RLit ([35469, 35388, 24773, 22577]),
      RSeq (RLit (codes ''API'')) (RSeq (RRun py_whitespace 0) (RLit ([12461, 12540]))),
      RSeq (RLit (codes ''api'')) (RSeq (RRun py_whitespace 0) (RLit ([12461, 12540])))]"

definition SENSITIVE_PROFILE_PATTERNS :: "code_points list" where
  "SENSITIVE_PROFILE_PATTERNS =
     [[12358, 12388, 30149],
      [39729, 30149],
      [32113, 21512, 22833, 35519, 30151],
      [21452, 26997, 24615, 38556, 23475],
      [30330, 36948, 38556, 23475],
      codes ''ADHD'',
      [33258, 38281],
      [30284],
      [12364, 12435, 24739, 32773],
      [12461, 12522, 12473, 12488, 25945, 24466],
      [12452, 12473, 12521, 12512, 25945, 24466],
      [12518, 12480, 12516, 25945, 24466],
      [20175, 25945, 24466],
      [21491, 32764],
      [24038, 32764],
      [20445, 23432, 27966],
      [12522, 12505, 12521, 12523],
      [33258, 27665, 20826, 25903, 25345],
      [20849, 29987, 20826, 25903, 25345],
      [12466, 12452],
      [12524, 12474, 12499, 12450, 12531],
      [12496, 12452, 12475, 12463, 12471, 12517, 12450, 12523],
      [12488, 12521, 12531, 12473, 12472, 12455, 12531, 12480, 12540],
      codes ''LGBT'',
      codes ''depression'',
      codes ''depressed'',
      codes ''schizophrenia'',
      codes ''bipolar'',
      codes ''autistic'',
      codes ''cancer'',
      codes ''Christian'',
      codes ''Muslim'',
      codes ''Jewish'',
      codes ''Buddhist'',
      codes ''conservative'',
      codes ''liberal'',
      codes ''Democrat'',
      codes ''Republican'',
      codes ''gay'',
      codes ''lesbian'',
      codes ''bisexual'',
      codes ''transgender'']"

definition OBJECT_WORDS :: "code_points list" where
  "OBJECT_WORDS =
     [codes ''this'', codes ''that'', codes ''him'', codes ''her'', codes ''them'', codes ''variable'',
      codes ''project'', codes ''function'', codes ''class'']"

text \<open>The two Japanese phrases that label an object or a person: a demonstrative with a noun, or a pronoun.\<close>

definition demonstrative_object :: rx where
  "demonstrative_object =
     RSeq (rx_alts [[12371, 12398], [12381, 12398], [12354, 12398]])
       (RSeq (rx_alts [[22793, 25968], [12503, 12525, 12472, 12455, 12463, 12488], [38306, 25968],
                       [12463, 12521, 12473], [21517, 21069], [20516], [23550, 35937], [38917, 30446]])
         (RSeq (RLit [12434]) rx_any))"

definition pronoun_object :: rx where
  "pronoun_object =
     RSeq (rx_alts [[12371, 12428], [12381, 12428], [12354, 12428], [24444], [24444, 22899]])
       (RSeq (RLit [12434]) rx_any)"

definition UNSAFE_PREFERRED_NAME_VALUE_PATTERNS :: "rx list" where
  "UNSAFE_PREFERRED_NAME_VALUE_PATTERNS =
     [RSeq RStart demonstrative_object, RSeq RStart pronoun_object,
      RSeq RWordB (RSeq (rx_alts OBJECT_WORDS) RWordB)]"

definition PREFERRED_NAME_PREFIX :: code_points where
  "PREFERRED_NAME_PREFIX = [12518, 12540, 12470, 12540, 12398, 24076, 26395, 21628, 31216, 12399, 12300]"

definition UNSAFE_PREFERRED_NAME_MEMORY_PATTERNS :: "rx list" where
  "UNSAFE_PREFERRED_NAME_MEMORY_PATTERNS =
     [RSeq RStart (RSeq (RLit PREFERRED_NAME_PREFIX) (RSeq demonstrative_object (RSeq (RLit [12301, 12290]) REnd))),
      RSeq RStart (RSeq (RLit PREFERRED_NAME_PREFIX) (RSeq pronoun_object (RSeq (RLit [12301, 12290]) REnd))),
      RSeq RStart (RSeq (RLit (codes (''User'' @ [CHR 0x27] @ ''s preferred name is '')))
        (RSeq (rx_alts OBJECT_WORDS) RWordB))]"

section \<open>Checks\<close>

definition contains_credential_like_content :: "char_tables \<Rightarrow> code_points \<Rightarrow> bool" where
  "contains_credential_like_content ct t = (\<exists>r\<in>set CREDENTIAL_LIKE_PATTERNS. rx_search ct r t)"

definition contains_sensitive_profile_content :: "char_tables \<Rightarrow> code_points \<Rightarrow> bool" where
  "contains_sensitive_profile_content ct t = (\<exists>s\<in>set SENSITIVE_PROFILE_PATTERNS. rx_search ct (RLit s) t)"

definition is_safe_preferred_name :: "char_tables \<Rightarrow> code_points \<Rightarrow> bool" where
  "is_safe_preferred_name ct t =
     (let stripped = py_strip t
      in if stripped = [] \<or> length stripped > 40 then False
         else \<not> (\<exists>r\<in>set UNSAFE_PREFERRED_NAME_VALUE_PATTERNS. rx_search ct r stripped))"

definition is_unsafe_preferred_name_memory_text :: "char_tables \<Rightarrow> code_points \<Rightarrow> bool" where
  "is_unsafe_preferred_name_memory_text ct t = (\<exists>r\<in>set UNSAFE_PREFERRED_NAME_MEMORY_PATTERNS. rx_search ct r t)"

end
