(* ===== verification/Consolidation.thy ===== *)
theory Consolidation
  imports Learning_Jobs Review_Store Memory_Safety
begin

text \<open>
  The consolidation of learned candidates, \<^verbatim>\<open>iris/cognitive/memory/consolidation.py\<close>, with its contracts
  (\<^verbatim>\<open>iris/contracts/memory_consolidation.py\<close>) and the worker that puts the results before the reviewer
  (\<^verbatim>\<open>iris/runtime/learning/memory_worker.py\<close>). NFKC normalisation, case folding, the punctuation
  category and the SHA-256 digest are arguments.
\<close>

section \<open>Contracts\<close>

record source_candidate =
  so_id :: string
  so_text :: code_points
  so_kind :: memory_kind
  so_salience :: rat
  so_confidence :: rat
  so_source :: candidate_source
  so_reason :: "string option"
  so_retention_policy :: retention_policy
  so_sensitivity :: candidate_sensitivity
  so_actor_id :: "string option"
  so_account_id :: "string option"
  so_space_id :: "string option"
  so_source_observation_id :: "string option"
  so_created_at :: datetime
  so_metadata :: metadata

definition validate_source_candidate :: "source_candidate \<Rightarrow> review_error + source_candidate" where
  "validate_source_candidate x =
     (if so_id x = [] \<or> so_text x = [] \<or> \<not> (0 \<le> so_salience x \<and> so_salience x \<le> 1) \<or>
         \<not> (0 \<le> so_confidence x \<and> so_confidence x \<le> 1)
      then Inl (ReviewValidationError ''field constraint'') else Inr x)"

record consolidation_candidate =
  cc_candidate_id :: string
  cc_proposed :: source_candidate
  cc_decision_kind :: consolidation_decision
  cc_source_candidate_ids :: "string list"
  cc_supersedes_candidate_ids :: "string list"
  cc_confidence :: rat
  cc_reason :: string
  cc_review_required :: bool
  cc_metadata :: metadata

definition validate_consolidation_candidate ::
  "consolidation_candidate \<Rightarrow> review_error + consolidation_candidate" where
  "validate_consolidation_candidate c =
     (if cc_candidate_id c = [] \<or> cc_source_candidate_ids c = [] \<or> \<not> (0 \<le> cc_confidence c \<and> cc_confidence c \<le> 1) \<or>
         cc_reason c = []
      then Inl (ReviewValidationError ''field constraint'')
      else if \<not> cc_review_required c
      then Inl (ReviewValidationError ''memory consolidation candidates must remain review_required'')
      else if so_id (cc_proposed c) \<notin> set (cc_source_candidate_ids c)
      then Inl (ReviewValidationError ''proposed candidate must reference a source candidate'')
      else if \<exists>i\<in>set (cc_source_candidate_ids c). blank (codes i)
      then Inl (ReviewValidationError ''source candidate ids must not be blank'')
      else if \<exists>i\<in>set (cc_supersedes_candidate_ids c). blank (codes i)
      then Inl (ReviewValidationError ''superseded candidate ids must not be blank'')
      else if \<not> set (cc_supersedes_candidate_ids c) \<subseteq> set (cc_source_candidate_ids c)
      then Inl (ReviewValidationError ''superseded candidates must be source candidates'')
      else Inr c)"

section \<open>Policy\<close>

record consolidation_env =
  ce_tables :: char_tables
  ce_nfkc :: "code_points \<Rightarrow> code_points"
  ce_casefold :: "code_points \<Rightarrow> code_points"
  ce_punctuation :: "nat \<Rightarrow> bool"
  ce_sha256_hexdigest :: "string \<Rightarrow> string"

definition default_stale_after_seconds :: seconds where
  "default_stale_after_seconds = 90 * 24 * 60 * 60"

definition consolidation_policy_post_init :: "seconds \<Rightarrow> review_error + seconds" where
  "consolidation_policy_post_init stale_after =
     (if stale_after \<le> 0 then Inl (ReviewValueError ''stale_after_seconds must be greater than zero'')
      else Inr stale_after)"

definition consolidation_accept :: "char_tables \<Rightarrow> source_candidate \<Rightarrow> bool" where
  "consolidation_accept ct x =
     (let t = py_strip (so_text x)
      in t \<noteq> [] \<and> \<not> contains_credential_like_content ct t \<and> so_sensitivity x \<noteq> SE_SECRET_LIKE \<and>
         \<not> contains_sensitive_profile_content ct t \<and> \<not> is_unsafe_preferred_name_memory_text ct t)"

text \<open>\<^verbatim>\<open>datetime.timestamp\<close>: the seconds since the epoch.\<close>

definition timestamp :: "datetime \<Rightarrow> seconds" where
  "timestamp t = of_int t / 1000000"

section \<open>Grouping\<close>

definition unique_candidates :: "source_candidate list \<Rightarrow> source_candidate list" where
  "unique_candidates xs =
     (let by_id = foldl (\<lambda>d x. dict_set (so_id x) x d) [] xs in sort_key so_id (dict_values by_id))"

type_synonym scope_key = "string option \<times> string option \<times> string option \<times> string"

definition scope_key_of :: "source_candidate \<Rightarrow> scope_key" where
  "scope_key_of x = (so_account_id x, so_actor_id x, so_space_id x, memory_kind_value (so_kind x))"

definition group_sort_key :: "scope_key \<Rightarrow> string \<times> string \<times> string \<times> string" where
  "group_sort_key k =
     (case k of (account, actor, space, kind) \<Rightarrow>
        (let or_blank = (\<lambda>v. case v of None \<Rightarrow> [] | Some s \<Rightarrow> s) in (or_blank account, or_blank actor, or_blank space, kind)))"

text \<open>\<^verbatim>\<open>groups.setdefault(key(x), []).append(x)\<close> over the items.\<close>

definition group_by :: "('a \<Rightarrow> 'k) \<Rightarrow> 'a list \<Rightarrow> ('k, 'a list) dict" where
  "group_by key xs =
     foldl (\<lambda>d x. dict_set (key x) ((case dict_get d (key x) of None \<Rightarrow> [] | Some ys \<Rightarrow> ys) @ [x]) d) [] xs"

definition group_by_scope_and_kind :: "source_candidate list \<Rightarrow> source_candidate list list" where
  "group_by_scope_and_kind xs =
     (let groups = group_by scope_key_of xs
      in map (\<lambda>k. sort_key so_id (case dict_get groups k of None \<Rightarrow> [] | Some ys \<Rightarrow> ys))
           (sort_key group_sort_key (dict_keys groups)))"

section \<open>Results\<close>

text \<open>\<^verbatim>\<open>max(xs, key=key)\<close> of a list that is not empty: the first of the greatest.\<close>

fun max_by :: "('a \<Rightarrow> 'b::linorder) \<Rightarrow> 'a \<Rightarrow> 'a list \<Rightarrow> 'a" where
  "max_by key best [] = best"
| "max_by key best (x # xs) = max_by key (if key best < key x then x else best) xs"

definition quality_key :: "source_candidate \<Rightarrow> rat \<times> string" where
  "quality_key x = (so_confidence x, so_id x)"

definition newest_quality_key :: "source_candidate \<Rightarrow> seconds \<times> rat \<times> string" where
  "newest_quality_key x = (timestamp (so_created_at x), so_confidence x, so_id x)"

definition normalize_text :: "consolidation_env \<Rightarrow> code_points \<Rightarrow> code_points" where
  "normalize_text env t =
     (let normalized = ce_casefold env (ce_nfkc env t);
          spaced = map (\<lambda>c. if ce_punctuation env c then 32 else c) normalized
      in py_join [32] (py_split spaced))"

definition result_id :: "consolidation_env \<Rightarrow> consolidation_decision \<Rightarrow> string list \<Rightarrow> string" where
  "result_id env decision source_ids =
     (let material = py_join ''|'' (consolidation_decision_value decision # source_ids)
      in ''consolidation-'' @ take 24 (ce_sha256_hexdigest env material))"

definition mk_result ::
  "consolidation_env \<Rightarrow> source_candidate \<Rightarrow> consolidation_decision \<Rightarrow> string list \<Rightarrow> string list \<Rightarrow> rat \<Rightarrow> string
     \<Rightarrow> review_error + consolidation_candidate" where
  "mk_result env proposed decision source_ids supersedes confidence reason = validate_consolidation_candidate
     \<lparr>cc_candidate_id = result_id env decision source_ids, cc_proposed = proposed, cc_decision_kind = decision,
      cc_source_candidate_ids = source_ids, cc_supersedes_candidate_ids = supersedes, cc_confidence = confidence,
      cc_reason = reason, cc_review_required = True,
      cc_metadata = [(''decision'', consolidation_decision_value decision),
        (''source_candidate_count'', show_nat (length source_ids)),
        (''superseded_candidate_count'', show_nat (length supersedes))]\<rparr>"

text \<open>A group is never empty, so it is its first candidate and the others.\<close>

definition build_group_result ::
  "consolidation_env \<Rightarrow> source_candidate \<Rightarrow> source_candidate list \<Rightarrow> review_error + consolidation_candidate" where
  "build_group_result env x xs =
     (let group = x # xs;
          source_ids = map so_id group;
          content_groups = group_by (\<lambda>y. normalize_text env (so_text y)) group
      in if length content_groups = 1
         then let decision = (if length group > 1 then CD_DUPLICATE else CD_RETAINED);
                  reason = (if decision = CD_DUPLICATE then ''normalized duplicate candidates share one scoped memory''
                            else ''candidate retained by deterministic consolidation'')
              in mk_result env (max_by quality_key x xs) decision source_ids [] (Max (so_confidence ` set group)) reason
         else let proposed = max_by newest_quality_key x xs;
                  supersedes = filter (\<lambda>i. i \<noteq> so_id proposed) source_ids
              in mk_result env proposed CD_CONFLICT source_ids supersedes (Min (so_confidence ` set group))
                   ''scoped memory candidates have conflicting normalized content'')"

definition build_stale_result :: "consolidation_env \<Rightarrow> source_candidate \<Rightarrow> review_error + consolidation_candidate" where
  "build_stale_result env x =
     mk_result env x CD_STALE [so_id x] [] (so_confidence x)
       ''candidate is older than the deterministic consolidation retention window''"

fun each_result :: "('a \<Rightarrow> 'e + 'b) \<Rightarrow> 'a list \<Rightarrow> 'e + 'b list" where
  "each_result f [] = Inr []"
| "each_result f (x # xs) = result_bind (f x) (\<lambda>y. result_bind (each_result f xs) (\<lambda>ys. Inr (y # ys)))"

definition is_stale :: "datetime \<Rightarrow> seconds \<Rightarrow> source_candidate \<Rightarrow> bool" where
  "is_stale now stale_after x \<longleftrightarrow> timestamp (so_created_at x) < timestamp now - stale_after"

definition group_result :: "consolidation_env \<Rightarrow> source_candidate list \<Rightarrow> review_error + consolidation_candidate" where
  "group_result env g =
     (case g of [] \<Rightarrow> Inl (ReviewValueError ''max() iterable argument is empty'') | x # xs \<Rightarrow> build_group_result env x xs)"

definition consolidate_memory_candidates ::
  "consolidation_env \<Rightarrow> seconds \<Rightarrow> datetime \<Rightarrow> source_candidate list \<Rightarrow> review_error + consolidation_candidate list" where
  "consolidate_memory_candidates env stale_after now candidates =
     (let unique = unique_candidates (filter (consolidation_accept (ce_tables env)) candidates);
          stale = filter (is_stale now stale_after) unique;
          fresh = filter (\<lambda>x. \<not> is_stale now stale_after x) unique
      in result_bind (each_result (build_stale_result env) stale) (\<lambda>stale_results.
         result_bind (each_result (group_result env) (group_by_scope_and_kind fresh)) (\<lambda>group_results.
         Inr (sort_key cc_candidate_id (stale_results @ group_results)))))"

section \<open>The worker\<close>

record memory_job_payload =
  mj_text :: code_points
  mj_memory_kind :: memory_kind
  mj_source :: candidate_source
  mj_reason :: "string option"
  mj_retention_policy :: retention_policy
  mj_sensitivity :: candidate_sensitivity
  mj_review_required :: bool
  mj_salience :: rat
  mj_confidence :: rat
  mj_actor_id :: "string option"
  mj_account_id :: "string option"
  mj_space_id :: "string option"
  mj_source_observation_id :: "string option"

datatype memory_work = ConsolidationJob "source_candidate list" | MemoryJob memory_job_payload | OtherJob

definition source_candidate_from_legacy_payload ::
  "consolidation_env \<Rightarrow> memory_work job_record \<Rightarrow> memory_job_payload \<Rightarrow> review_error + source_candidate" where
  "source_candidate_from_legacy_payload env job p = validate_source_candidate
     \<lparr>so_id = ''source-'' @ take 24 (ce_sha256_hexdigest env (jb_idempotency_key job)), so_text = mj_text p,
      so_kind = mj_memory_kind p, so_salience = mj_salience p, so_confidence = mj_confidence p, so_source = mj_source p,
      so_reason = mj_reason p, so_retention_policy = mj_retention_policy p, so_sensitivity = mj_sensitivity p,
      so_actor_id = mj_actor_id p, so_account_id = mj_account_id p, so_space_id = mj_space_id p,
      so_source_observation_id = mj_source_observation_id p, so_created_at = jb_created_at job, so_metadata = []\<rparr>"

definition source_candidates ::
  "consolidation_env \<Rightarrow> memory_work job_record \<Rightarrow> review_error + source_candidate list" where
  "source_candidates env job =
     (case jb_payload job of
        ConsolidationJob xs \<Rightarrow> Inr xs
      | MemoryJob p \<Rightarrow> result_bind (source_candidate_from_legacy_payload env job p) (\<lambda>x. Inr [x])
      | OtherJob \<Rightarrow> Inl (ReviewTypeError ''memory consolidation requires a typed consolidation payload''))"

definition record_idempotency_key :: "consolidation_env \<Rightarrow> memory_work job_record \<Rightarrow> string \<Rightarrow> string" where
  "record_idempotency_key env job cid = ce_sha256_hexdigest env (jb_idempotency_key job @ ''|'' @ cid)"

definition consolidated_candidate :: "consolidation_candidate \<Rightarrow> memory_candidate" where
  "consolidated_candidate c =
     (let p = cc_proposed c;
          m = dict_set ''consolidation_reason'' (cc_reason c)
               (dict_set ''supersedes_candidate_ids'' (py_join ''|'' (cc_supersedes_candidate_ids c))
               (dict_set ''source_candidate_ids'' (py_join ''|'' (cc_source_candidate_ids c))
               (dict_set ''consolidation_decision'' (consolidation_decision_value (cc_decision_kind c)) (so_metadata p))))
      in \<lparr>mc_text = py_strip (so_text p), mc_kind = so_kind p, mc_salience = so_salience p, mc_confidence = cc_confidence c,
          mc_source = CS_CONSOLIDATION, mc_reason = Some (cc_reason c), mc_retention_policy = RP_REVIEW_REQUIRED,
          mc_sensitivity = so_sensitivity p, mc_review_required = True, mc_actor_id = so_actor_id p,
          mc_space_id = so_space_id p, mc_source_observation_id = so_source_observation_id p, mc_metadata = m\<rparr>)"

definition consolidated_record ::
  "consolidation_env \<Rightarrow> memory_work job_record \<Rightarrow> consolidation_candidate \<Rightarrow> review_record" where
  "consolidated_record env job c =
     (let p = cc_proposed c
      in \<lparr>rr_candidate_id = cc_candidate_id c, rr_candidate = consolidated_candidate c, rr_created_at = jb_created_at job,
          rr_updated_at = jb_updated_at job, rr_idempotency_key = record_idempotency_key env job (cc_candidate_id c),
          rr_status = RV_PENDING_REVIEW, rr_candidate_type = CT_CONSOLIDATION, rr_actor_id = so_actor_id p,
          rr_account_id = so_account_id p, rr_space_id = so_space_id p,
          rr_source_observation_id = so_source_observation_id p, rr_reviewed_at = None, rr_reviewed_by = None,
          rr_review_reason = None, rr_promoted_memory_id = None,
          rr_metadata = [(''source'', candidate_source_value CS_CONSOLIDATION),
            (''consolidation_decision'', consolidation_decision_value (cc_decision_kind c)),
            (''source_candidate_ids'', py_join ''|'' (cc_source_candidate_ids c)),
            (''supersedes_candidate_ids'', py_join ''|'' (cc_supersedes_candidate_ids c))]\<rparr>)"

fun add_all :: "review_record list \<Rightarrow> review_store \<Rightarrow> (review_error + unit) \<times> review_store" where
  "add_all [] s = (Inr (), s)"
| "add_all (r # rs) s =
     (case review_add_nowait s r of
        (Inl e, s') \<Rightarrow> (Inl e, s')
      | (Inr _, s') \<Rightarrow> add_all rs s')"

definition consolidation_run ::
  "consolidation_env \<Rightarrow> seconds \<Rightarrow> datetime \<Rightarrow> memory_work job_record \<Rightarrow> review_store \<Rightarrow> (review_error + unit) \<times> review_store"
  where
  "consolidation_run env stale_after now job s =
     (case result_bind (source_candidates env job) (consolidate_memory_candidates env stale_after now) of
        Inl e \<Rightarrow> (Inl e, s)
      | Inr results \<Rightarrow> add_all (map (consolidated_record env job) results) s)"

end
