(* ===== verification/Review_Boundary.thy ===== *)
theory Review_Boundary
  imports Review_Contracts
begin

text \<open>
  The contract that the review stores share: candidates are added idempotently as pending, and a
  decision changes a pending record only, giving it the status of the decision. The locale states
  it over the operations of a store and its review service, and derives once what makes a record
  approved: it was added, and approved later, and nothing was decided on it in between or since.
\<close>

datatype 'r boundary_op = Add_Record 'r | Decide datetime string review_decision "decision_request option"

locale review_boundary =
  fixes get_record :: "'s \<Rightarrow> string \<Rightarrow> 'r option"
    and record_id :: "'r \<Rightarrow> string"
    and record_status :: "'r \<Rightarrow> review_status"
    and record_candidate :: "'r \<Rightarrow> 'c"
    and add_record :: "'s \<Rightarrow> 'r \<Rightarrow> 's"
    and decide_record :: "datetime \<Rightarrow> 's \<Rightarrow> string \<Rightarrow> review_decision \<Rightarrow> decision_request option \<Rightarrow> 's"
  assumes add_keeps: "get_record s i = Some r \<Longrightarrow> get_record (add_record s r') i = Some r"
    and add_new: "get_record s i = None \<Longrightarrow> get_record (add_record s r') i = Some r \<Longrightarrow>
                    r = r' \<and> i = record_id r'"
    and decide_other: "j \<noteq> i \<Longrightarrow> get_record (decide_record now s i d q) j = get_record s j"
    and decide_same:
      "get_record s i = Some r \<Longrightarrow>
         \<exists>r'. get_record (decide_record now s i d q) i = Some r' \<and> record_candidate r' = record_candidate r \<and>
              record_status r' =
                (if record_status r = RV_PENDING_REVIEW then target_status d else record_status r)"
    and decide_none: "get_record s i = None \<Longrightarrow> get_record (decide_record now s i d q) i = None"
begin

fun apply_op :: "'r boundary_op \<Rightarrow> 's \<Rightarrow> 's" where
  "apply_op (Add_Record r) s = add_record s r"
| "apply_op (Decide now i d q) s = decide_record now s i d q"

definition run_ops :: "'r boundary_op list \<Rightarrow> 's \<Rightarrow> 's" where
  "run_ops ops s = foldl (\<lambda>s op. apply_op op s) s ops"

lemma run_ops_snoc: "run_ops (ops @ [op]) s = apply_op op (run_ops ops s)"
  by (simp add: run_ops_def)

text \<open>Where a record of a run comes from.\<close>

definition added_in :: "'r boundary_op list \<Rightarrow> string \<Rightarrow> 'c \<Rightarrow> bool" where
  "added_in ops i c \<longleftrightarrow> (\<exists>r. Add_Record r \<in> set ops \<and> record_id r = i \<and> record_candidate r = c)"

definition approved_in :: "'r boundary_op list \<Rightarrow> string \<Rightarrow> 'c \<Rightarrow> bool" where
  "approved_in ops i c \<longleftrightarrow>
     (\<exists>pre now q post. ops = pre @ Decide now i DECIDE_APPROVE q # post \<and> added_in pre i c)"

lemma added_in_append: "added_in ops i c \<Longrightarrow> added_in (ops @ later) i c"
  by (auto simp: added_in_def)

lemma approved_in_append: "approved_in ops i c \<Longrightarrow> approved_in (ops @ later) i c"
proof -
  assume "approved_in ops i c"
  then obtain pre now q post where "ops = pre @ Decide now i DECIDE_APPROVE q # post" "added_in pre i c"
    unfolding approved_in_def by blast
  then have "ops @ later = pre @ Decide now i DECIDE_APPROVE q # (post @ later)" "added_in pre i c" by simp_all
  then show ?thesis unfolding approved_in_def by blast
qed

definition traced :: "'r boundary_op list \<Rightarrow> 's \<Rightarrow> bool" where
  "traced ops s \<longleftrightarrow>
     (\<forall>i r. get_record s i = Some r \<longrightarrow>
        added_in ops i (record_candidate r) \<and>
        (record_status r = RV_APPROVED \<longrightarrow> approved_in ops i (record_candidate r)))"

lemma traced_add:
  assumes tr: "traced ops s" and p: "record_status r = RV_PENDING_REVIEW"
  shows "traced (ops @ [Add_Record r]) (add_record s r)"
  unfolding traced_def
proof (intro allI impI)
  fix i r'
  assume g: "get_record (add_record s r) i = Some r'"
  show "added_in (ops @ [Add_Record r]) i (record_candidate r') \<and>
        (record_status r' = RV_APPROVED \<longrightarrow> approved_in (ops @ [Add_Record r]) i (record_candidate r'))"
  proof (cases "get_record s i")
    case None
    from add_new [OF this g] have "r' = r" "i = record_id r" by simp_all
    with p show ?thesis by (auto simp: added_in_def)
  next
    case (Some r0)
    with g add_keeps [OF Some, of r] have "r' = r0" by simp
    with tr Some show ?thesis unfolding traced_def by (blast intro: added_in_append approved_in_append)
  qed
qed

lemma traced_decide:
  assumes tr: "traced ops s"
  shows "traced (ops @ [Decide now i d q]) (decide_record now s i d q)"
  unfolding traced_def
proof (intro allI impI)
  fix j r'
  assume g: "get_record (decide_record now s i d q) j = Some r'"
  let ?ops = "ops @ [Decide now i d q]"
  show "added_in ?ops j (record_candidate r') \<and>
        (record_status r' = RV_APPROVED \<longrightarrow> approved_in ?ops j (record_candidate r'))"
  proof (cases "j = i")
    case False
    with g decide_other have "get_record s j = Some r'" by simp
    with tr show ?thesis unfolding traced_def by (blast intro: added_in_append approved_in_append)
  next
    case True
    with g decide_none obtain r where r: "get_record s i = Some r" by (cases "get_record s i") auto
    with decide_same [OF r, of now d q] g True have c: "record_candidate r' = record_candidate r"
      and st: "record_status r' =
        (if record_status r = RV_PENDING_REVIEW then target_status d else record_status r)" by auto
    have add: "added_in ops i (record_candidate r)" using tr r unfolding traced_def by blast
    have "approved_in ?ops i (record_candidate r)" if ap: "record_status r' = RV_APPROVED"
    proof (cases "record_status r = RV_PENDING_REVIEW")
      case True
      with st ap have "d = DECIDE_APPROVE" by (cases d) simp_all
      with add show ?thesis unfolding approved_in_def by blast
    next
      case False
      with st ap tr r show ?thesis unfolding traced_def by (auto intro: approved_in_append)
    qed
    with c add True show ?thesis by (simp add: added_in_append)
  qed
qed

theorem run_ops_traced:
  assumes "\<And>i. get_record s0 i = None"
    and "\<And>r. Add_Record r \<in> set ops \<Longrightarrow> record_status r = RV_PENDING_REVIEW"
  shows "traced ops (run_ops ops s0)"
  using assms(2)
proof (induction ops rule: rev_induct)
  case Nil
  show ?case using assms(1) by (simp add: traced_def run_ops_def)
next
  case (snoc op ops)
  then have "traced ops (run_ops ops s0)" by simp
  with snoc.prems show ?case
    by (cases op) (simp_all add: run_ops_snoc traced_add traced_decide)
qed

end

end
