(* ===== verification/Review_Service.thy ===== *)
theory Review_Service
  imports Review_Store Review_Boundary
begin

text \<open>
  The review boundary, \<^verbatim>\<open>MemoryCandidateReviewService\<close> of
  \<^verbatim>\<open>iris/runtime/learning/review_service.py\<close>: summaries and typed details built from the records
  of the store, and the three decisions. The clock is an argument. A decision is applied to the store
  before its detail is built, so an error of the detail leaves the decision stored.
\<close>

section \<open>Summaries and details\<close>

text \<open>\<^verbatim>\<open>value.split("|")\<close> without its empty items.\<close>

fun split_bars :: "string \<Rightarrow> string \<Rightarrow> string list" where
  "split_bars [] current = [current]"
| "split_bars (c # s) current = (if c = CHR ''|'' then current # split_bars s [] else split_bars s (current @ [c]))"

definition split_candidate_ids :: "string \<Rightarrow> string list" where
  "split_candidate_ids v = filter (\<lambda>item. item \<noteq> []) (split_bars v [])"

definition metadata_get :: "metadata \<Rightarrow> string \<Rightarrow> string \<Rightarrow> string" where
  "metadata_get m k fallback = (case dict_get m k of None \<Rightarrow> fallback | Some v \<Rightarrow> v)"

definition model_metadata :: "metadata \<Rightarrow> metadata" where
  "model_metadata m = filter (\<lambda>(k, v). take 6 k = ''model_'') m"

definition scope_from_record :: "review_record \<Rightarrow> review_scope" where
  "scope_from_record r =
     \<lparr>sc_actor_id = rr_actor_id r, sc_account_id = rr_account_id r, sc_space_id = rr_space_id r\<rparr>"

definition preview :: "code_points \<Rightarrow> code_points" where
  "preview t =
     (let normalized = py_join [32] (py_split t)
      in if length normalized \<le> 120 then normalized else take 119 normalized @ [8230])"

definition summary_from_record :: "review_record \<Rightarrow> review_summary" where
  "summary_from_record r =
     \<lparr>rs_candidate_id = rr_candidate_id r, rs_candidate_type = rr_candidate_type r, rs_status = rr_status r,
      rs_scope = scope_from_record r, rs_source_observation_id = rr_source_observation_id r,
      rs_text_preview = preview (mc_text (rr_candidate r)), rs_confidence = mc_confidence (rr_candidate r),
      rs_reason = mc_reason (rr_candidate r), rs_created_at = rr_created_at r, rs_updated_at = rr_updated_at r,
      rs_metadata = rr_metadata r, rs_candidate_metadata = mc_metadata (rr_candidate r)\<rparr>"

definition memory_payload_of :: "review_record \<Rightarrow> memory_payload" where
  "memory_payload_of r =
     (let c = rr_candidate r
      in \<lparr>mp_text = mc_text c, mp_kind = mc_kind c, mp_salience = mc_salience c, mp_confidence = mc_confidence c,
          mp_source = mc_source c, mp_reason = mc_reason c, mp_retention_policy = mc_retention_policy c,
          mp_sensitivity = mc_sensitivity c, mp_review_required = mc_review_required c, mp_actor_id = mc_actor_id c,
          mp_space_id = mc_space_id c, mp_source_observation_id = mc_source_observation_id c,
          mp_source_event_ids = split_candidate_ids (metadata_get (mc_metadata c) ''source_event_ids'' ''''),
          mp_model_metadata = model_metadata (mc_metadata c), mp_metadata = mc_metadata c\<rparr>)"

text \<open>The reason of the candidate, or the one of its metadata when it has none or an empty one.\<close>

definition consolidation_reason :: "memory_candidate \<Rightarrow> string" where
  "consolidation_reason c =
     (if mc_reason c = None \<or> mc_reason c = Some []
      then metadata_get (mc_metadata c) ''consolidation_reason'' ''consolidation review''
      else the (mc_reason c))"

text \<open>The errors carry the key that is missing, or the value that is no member.\<close>

definition decision_kind_of :: "metadata \<Rightarrow> review_error + consolidation_decision" where
  "decision_kind_of m =
     (case dict_get m ''consolidation_decision'' of
        None \<Rightarrow> Inl (ReviewKeyError ''consolidation_decision'')
      | Some v \<Rightarrow>
          (case consolidation_decision_of_value v of
             None \<Rightarrow> Inl (ReviewValueError v)
           | Some d \<Rightarrow> Inr d))"

definition consolidation_payload_of :: "review_record \<Rightarrow> review_error + consolidation_payload" where
  "consolidation_payload_of r =
     (let c = rr_candidate r; m = mc_metadata c
      in result_bind (decision_kind_of m) (\<lambda>d. validate_consolidation_payload
        \<lparr>cp_text = mc_text c, cp_kind = mc_kind c, cp_salience = mc_salience c, cp_confidence = mc_confidence c,
         cp_source = mc_source c, cp_reason = consolidation_reason c, cp_retention_policy = mc_retention_policy c,
         cp_sensitivity = mc_sensitivity c, cp_review_required = mc_review_required c, cp_decision_kind = d,
         cp_source_candidate_ids = split_candidate_ids (metadata_get m ''source_candidate_ids'' ''''),
         cp_supersedes_candidate_ids = split_candidate_ids (metadata_get m ''supersedes_candidate_ids'' ''''),
         cp_actor_id = mc_actor_id c, cp_account_id = rr_account_id r, cp_space_id = mc_space_id c,
         cp_source_observation_id = mc_source_observation_id c, cp_metadata = m\<rparr>))"

definition detail_with ::
  "review_record \<Rightarrow> memory_payload option \<Rightarrow> consolidation_payload option \<Rightarrow> review_error + review_detail" where
  "detail_with r mp cp = validate_detail
     \<lparr>rd_candidate_id = rr_candidate_id r, rd_candidate_type = rr_candidate_type r, rd_status = rr_status r,
      rd_scope = scope_from_record r, rd_source_observation_id = rr_source_observation_id r,
      rd_memory_candidate = mp, rd_shared_episodic_candidate = None, rd_interaction_policy_candidate = None,
      rd_consolidation_candidate = cp, rd_created_at = rr_created_at r,
      rd_updated_at = rr_updated_at r, rd_reviewed_at = rr_reviewed_at r, rd_reviewed_by = rr_reviewed_by r,
      rd_review_reason = rr_review_reason r, rd_promoted_memory_id = rr_promoted_memory_id r,
      rd_metadata = rr_metadata r, rd_candidate_metadata = mc_metadata (rr_candidate r)\<rparr>"

definition detail_from_record :: "review_record \<Rightarrow> review_error + review_detail" where
  "detail_from_record r =
     (if rr_candidate_type r = CT_CONSOLIDATION
      then result_bind (consolidation_payload_of r) (\<lambda>p. detail_with r None (Some p))
      else detail_with r (Some (memory_payload_of r)) None)"

section \<open>The service\<close>

definition list_candidates :: "review_store \<Rightarrow> review_filter option \<Rightarrow> review_error + review_summary list" where
  "list_candidates s query =
     (let q = (case query of None \<Rightarrow> default_review_filter | Some q \<Rightarrow> q)
      in result_bind (review_list_by_filter s q) (\<lambda>rs. Inr (map summary_from_record rs)))"

definition get_required :: "review_store \<Rightarrow> string \<Rightarrow> review_error + review_record" where
  "get_required s cid = (case review_get s cid of None \<Rightarrow> Inl (CandidateNotFound cid) | Some r \<Rightarrow> Inr r)"

definition read_candidate :: "review_store \<Rightarrow> string \<Rightarrow> review_error + review_detail" where
  "read_candidate s cid = result_bind (get_required s cid) detail_from_record"

definition result_of :: "review_record \<Rightarrow> review_decision \<Rightarrow> bool \<Rightarrow> review_error + decision_result" where
  "result_of r decision changed =
     result_bind (detail_from_record r)
       (\<lambda>d. Inr \<lparr>rdr_candidate = d, rdr_decision = decision, rdr_changed = changed\<rparr>)"

definition decision_update :: "review_status \<Rightarrow> datetime \<Rightarrow> decision_request option \<Rightarrow> review_update" where
  "decision_update target now request =
     (let req = (case request of None \<Rightarrow> \<lparr>dr_reviewed_by = None, dr_reason = None\<rparr> | Some r \<Rightarrow> r)
      in \<lparr>ru_status = target, ru_updated_at = now, ru_reviewed_at = Some now, ru_reviewed_by = dr_reviewed_by req,
          ru_review_reason = dr_reason req, ru_promoted_memory_id = None\<rparr>)"

definition review_apply ::
  "datetime \<Rightarrow> review_store \<Rightarrow> string \<Rightarrow> review_decision \<Rightarrow> review_status \<Rightarrow> decision_request option
     \<Rightarrow> (review_error + decision_result) \<times> review_store" where
  "review_apply now s cid decision target request =
     (case get_required s cid of
        Inl e \<Rightarrow> (Inl e, s)
      | Inr r \<Rightarrow>
          if rr_status r = target then (result_of r decision False, s)
          else if rr_status r \<noteq> RV_PENDING_REVIEW
          then (Inl (InvalidReviewTransition (''cannot transition memory candidate '' @ cid @ '' from '' @
                  review_status_value (rr_status r) @ '' to '' @ review_status_value target)), s)
          else
            (case update_review s cid (decision_update target now request) of
               (None, s') \<Rightarrow> (Inl (CandidateNotFound cid), s')
             | (Some updated, s') \<Rightarrow> (result_of updated decision True, s')))"

definition approve ::
  "datetime \<Rightarrow> review_store \<Rightarrow> string \<Rightarrow> decision_request option \<Rightarrow> (review_error + decision_result) \<times> review_store" where
  "approve now s cid request = review_apply now s cid DECIDE_APPROVE RV_APPROVED request"

definition reject_candidate ::
  "datetime \<Rightarrow> review_store \<Rightarrow> string \<Rightarrow> decision_request option \<Rightarrow> (review_error + decision_result) \<times> review_store" where
  "reject_candidate now s cid request = review_apply now s cid DECIDE_REJECT RV_REJECTED request"

definition discard_candidate ::
  "datetime \<Rightarrow> review_store \<Rightarrow> string \<Rightarrow> decision_request option \<Rightarrow> (review_error + decision_result) \<times> review_store" where
  "discard_candidate now s cid request = review_apply now s cid DECIDE_DISCARD RV_DISCARDED request"

section \<open>What a decision does\<close>

text \<open>Only a pending candidate is changed, and it gets the target status and the time of the review.\<close>

lemma review_apply_store:
  "snd (review_apply now s cid decision target request) =
     (case review_get s cid of
        None \<Rightarrow> s
      | Some r \<Rightarrow>
          if rr_status r \<noteq> target \<and> rr_status r = RV_PENDING_REVIEW
          then snd (update_review s cid (decision_update target now request)) else s)"
  by (auto simp: review_apply_def get_required_def split: option.split prod.split)

lemma decision_update_simps [simp]:
  "ru_status (decision_update target now request) = target"
  "ru_updated_at (decision_update target now request) = now"
  "ru_reviewed_at (decision_update target now request) = Some now"
  "ru_promoted_memory_id (decision_update target now request) = None"
  by (simp_all add: decision_update_def Let_def)

lemma review_apply_ok: "review_store_ok s \<Longrightarrow> review_store_ok (snd (review_apply now s cid decision target request))"
  by (simp add: review_apply_store update_review_ok split: option.split)

lemma review_apply_other:
  "cid' \<noteq> cid \<Longrightarrow> review_get (snd (review_apply now s cid decision target request)) cid' = review_get s cid'"
  by (simp add: review_apply_store update_review_get split: option.split)

lemma review_apply_get:
  assumes "review_get s cid = Some r"
  shows "review_get (snd (review_apply now s cid decision target request)) cid =
     Some (if rr_status r \<noteq> target \<and> rr_status r = RV_PENDING_REVIEW
           then apply_review_update r (decision_update target now request) else r)"
  using assms by (simp add: review_apply_store update_review_get)

lemma review_apply_result:
  assumes "review_get s cid = Some r"
  shows "fst (review_apply now s cid decision target request) =
     (if rr_status r = target then result_of r decision False
      else if rr_status r = RV_PENDING_REVIEW
      then result_of (apply_review_update r (decision_update target now request)) decision True
      else Inl (InvalidReviewTransition (''cannot transition memory candidate '' @ cid @ '' from '' @
             review_status_value (rr_status r) @ '' to '' @ review_status_value target)))"
proof (cases "update_review s cid (decision_update target now request)")
  case (Pair u s')
  with assms update_review_result [of s cid "decision_update target now request"] show ?thesis
    by (simp add: review_apply_def get_required_def)
qed

lemma preview_length: "length (preview t) \<le> 120"
  by (simp add: preview_def Let_def)

section \<open>The memory review keeps the contract of a review boundary\<close>

interpretation mr: review_boundary review_get rr_candidate_id rr_status rr_candidate
  "\<lambda>s r. snd (review_add_nowait s r)"
  "\<lambda>now s i d q. snd (review_apply now s i d (target_status d) q)"
proof unfold_locales
  show "review_get s i = Some r \<Longrightarrow> review_get (snd (review_add_nowait s r')) i = Some r" for s i r r'
    by (auto simp: review_add_nowait_def review_get_def dict_get_set split: option.splits)
  show "review_get s i = None \<Longrightarrow> review_get (snd (review_add_nowait s r')) i = Some r \<Longrightarrow>
      r = r' \<and> i = rr_candidate_id r'" for s i r r'
    by (auto simp: review_add_nowait_def review_get_def dict_get_set split: option.splits if_splits)
  show "j \<noteq> i \<Longrightarrow> review_get (snd (review_apply now s i d (target_status d) q)) j = review_get s j"
    for j i now s d q
    by (rule review_apply_other)
  show "review_get s i = None \<Longrightarrow> review_get (snd (review_apply now s i d (target_status d) q)) i = None"
    for s i now d q
    by (simp add: review_apply_store)
  show "review_get s i = Some r \<Longrightarrow>
      \<exists>r'. review_get (snd (review_apply now s i d (target_status d) q)) i = Some r' \<and>
           rr_candidate r' = rr_candidate r \<and>
           rr_status r' = (if rr_status r = RV_PENDING_REVIEW then target_status d else rr_status r)"
    for s i r now d q
    by (cases d) (simp_all add: review_apply_get)
qed

text \<open>
  A memory candidate that is approved was approved after it had been added, whatever additions and
  decisions happened.
\<close>

lemma approved_memory_candidate:
  assumes "\<And>r. Add_Record r \<in> set ops \<Longrightarrow> rr_status r = RV_PENDING_REVIEW"
    and "review_get (mr.run_ops ops empty_review_store) cid = Some r" and "rr_status r = RV_APPROVED"
  shows "mr.approved_in ops cid (rr_candidate r)"
  using mr.run_ops_traced [of empty_review_store ops] assms
  by (simp add: mr.traced_def review_get_def empty_review_store_def)

end
