(* ===== verification/Memory_Store.thy ===== *)
theory Memory_Store
  imports Review_Contracts "HOL-Library.Sublist"
begin

text \<open>
  The in-memory store of long-term memories, \<^verbatim>\<open>iris/adapters/memory/in_memory.py\<close>, with the
  matching and ranking of \<^verbatim>\<open>iris/adapters/memory/utils.py\<close> and the records of
  \<^verbatim>\<open>iris/contracts/memory.py\<close>. The store is a list of records, in which \<^verbatim>\<open>put\<close> may leave two
  records with one id. \<^verbatim>\<open>str.casefold\<close> is a Unicode table and an argument.
\<close>

section \<open>Records and queries\<close>

record memory_record =
  mr_id :: string
  mr_text :: code_points
  mr_actor_id :: "string option"
  mr_space_id :: "string option"
  mr_salience :: rat
  mr_kind :: memory_kind
  mr_confidence :: rat
  mr_source_observation_id :: "string option"
  mr_created_at :: "datetime option"
  mr_updated_at :: "datetime option"
  mr_archived :: bool
  mr_metadata :: metadata

record memory_query =
  mq_text :: code_points
  mq_actor_id :: "string option"
  mq_space_id :: "string option"
  mq_limit :: int
  mq_kind :: "memory_kind option"
  mq_include_archived :: bool

record memory_search_result =
  msr_record :: memory_record
  msr_score :: rat

section \<open>Matching\<close>

definition score_text_match :: "(code_points \<Rightarrow> code_points) \<Rightarrow> memory_record \<Rightarrow> code_points list \<Rightarrow> nat" where
  "score_text_match casefold r terms =
     (if terms = [] then 0
      else let t = casefold (mr_text r) in length (filter (\<lambda>term. sublist term t) terms))"

definition matches_query :: "memory_record \<Rightarrow> memory_query \<Rightarrow> bool" where
  "matches_query r q \<longleftrightarrow>
     (mq_include_archived q \<or> \<not> mr_archived r) \<and>
     (mq_actor_id q = None \<or> mr_actor_id r = mq_actor_id q) \<and>
     (mq_space_id q = None \<or> mr_space_id r = mq_space_id q) \<and>
     (mq_kind q = None \<or> Some (mr_kind r) = mq_kind q)"

text \<open>The scored records with their positions; those without a matching term are left out.\<close>

fun score_loop ::
  "(code_points \<Rightarrow> code_points) \<Rightarrow> code_points list \<Rightarrow> nat \<Rightarrow> memory_record list
     \<Rightarrow> (nat \<times> nat \<times> memory_search_result) list" where
  "score_loop casefold terms index [] = []"
| "score_loop casefold terms index (r # rs) =
     (let score = score_text_match casefold r terms
      in if score = 0 then score_loop casefold terms (Suc index) rs
         else (score, index, \<lparr>msr_record = r, msr_score = of_nat score\<rparr>)
                # score_loop casefold terms (Suc index) rs)"

definition rank_text_matches ::
  "(code_points \<Rightarrow> code_points) \<Rightarrow> memory_record list \<Rightarrow> memory_query \<Rightarrow> memory_search_result list" where
  "rank_text_matches casefold eligible q =
     (if mq_limit q \<le> 0 then []
      else let terms = map casefold (filter (\<lambda>term. \<not> blank term) (py_split (mq_text q)));
               ranked = sort_key (\<lambda>(score, index, result). (- int score, index)) (score_loop casefold terms 0 eligible)
           in map (\<lambda>(score, index, result). result) (take (nat (mq_limit q)) ranked))"

section \<open>The store\<close>

type_synonym memory_store = "memory_record list"

fun memory_upsert :: "memory_record \<Rightarrow> memory_store \<Rightarrow> memory_store" where
  "memory_upsert r [] = [r]"
| "memory_upsert r (x # xs) = (if mr_id x = mr_id r then r # xs else x # memory_upsert r xs)"

definition memory_store_of :: "memory_record list \<Rightarrow> memory_store" where
  "memory_store_of records = foldl (\<lambda>m r. memory_upsert r m) [] records"

definition memory_put :: "memory_store \<Rightarrow> memory_record \<Rightarrow> memory_store" where
  "memory_put m r = m @ [r]"

definition memory_get :: "memory_store \<Rightarrow> string \<Rightarrow> memory_record option" where
  "memory_get m i = find (\<lambda>r. mr_id r = i) m"

definition memory_update :: "memory_store \<Rightarrow> memory_record \<Rightarrow> memory_record \<times> memory_store" where
  "memory_update m r = (r, memory_upsert r m)"

fun memory_archive :: "memory_store \<Rightarrow> string \<Rightarrow> bool \<Rightarrow> memory_record option \<times> memory_store" where
  "memory_archive [] i archived = (None, [])"
| "memory_archive (x # xs) i archived =
     (if mr_id x = i
      then if mr_archived x = archived then (Some x, x # xs)
           else let updated = x\<lparr>mr_archived := archived\<rparr> in (Some updated, updated # xs)
      else let (res, xs') = memory_archive xs i archived in (res, x # xs'))"

definition memory_filter :: "memory_store \<Rightarrow> memory_query \<Rightarrow> memory_record list" where
  "memory_filter m q = filter (\<lambda>r. matches_query r q) m"

definition memory_search ::
  "(code_points \<Rightarrow> code_points) \<Rightarrow> memory_store \<Rightarrow> memory_query \<Rightarrow> memory_search_result list" where
  "memory_search casefold m q = rank_text_matches casefold (memory_filter m q) q"

section \<open>Lemmas\<close>

lemma memory_upsert_get:
  "memory_get (memory_upsert r m) i = (if i = mr_id r then Some r else memory_get m i)"
  by (induction m) (auto simp: memory_get_def)

lemma memory_upsert_set: "set (memory_upsert r m) \<subseteq> insert r (set m)"
  by (induction m) auto

lemma memory_upsert_mem: "r \<in> set (memory_upsert r m)"
  by (induction m) auto

lemma memory_upsert_ids:
  "map mr_id (memory_upsert r m) = map mr_id m @ (if mr_id r \<in> mr_id ` set m then [] else [mr_id r])"
  by (induction m) auto

lemma memory_upsert_distinct: "distinct (map mr_id m) \<Longrightarrow> distinct (map mr_id (memory_upsert r m))"
  by (simp add: memory_upsert_ids)

lemma memory_store_of_distinct: "distinct (map mr_id (memory_store_of records))"
proof -
  have "distinct (map mr_id m) \<Longrightarrow> distinct (map mr_id (foldl (\<lambda>m r. memory_upsert r m) m records))" for m
    by (induction records arbitrary: m) (simp_all add: memory_upsert_distinct)
  then show ?thesis by (simp add: memory_store_of_def)
qed

lemma memory_archive_result:
  "fst (memory_archive m i archived) = map_option (mr_archived_update (\<lambda>_. archived)) (memory_get m i)"
  by (induction m i archived rule: memory_archive.induct) (auto simp: memory_get_def Let_def split: prod.split)

lemma memory_archive_get:
  "memory_get (snd (memory_archive m i archived)) j =
     (if j = i then map_option (mr_archived_update (\<lambda>_. archived)) (memory_get m j) else memory_get m j)"
  by (induction m i archived rule: memory_archive.induct) (auto simp: memory_get_def Let_def split: prod.split)

text \<open>A search returns no more than the limit, only matching records, and the best scores first.\<close>

lemma score_loop_mem:
  "(score, index, res) \<in> set (score_loop casefold terms i rs) \<Longrightarrow>
     msr_record res \<in> set rs \<and> msr_score res = of_nat score \<and> 0 < score"
  by (induction casefold terms i rs rule: score_loop.induct) (auto simp: Let_def split: if_splits)

lemma memory_search_limit: "int (length (memory_search casefold m q)) \<le> max 0 (mq_limit q)"
  by (auto simp: memory_search_def rank_text_matches_def Let_def min_def)

lemma memory_search_sound:
  assumes "res \<in> set (memory_search casefold m q)"
  shows "msr_record res \<in> set m \<and> matches_query (msr_record res) q \<and> 0 < msr_score res"
proof -
  from assms obtain score index terms where
    "(score, index, res) \<in> set (score_loop casefold terms 0 (memory_filter m q))"
    by (auto simp: memory_search_def rank_text_matches_def Let_def dest!: in_set_takeD split: if_splits)
  from score_loop_mem [OF this] show ?thesis by (auto simp: memory_filter_def)
qed

lemma memory_search_sorted: "sorted_wrt (\<ge>) (map msr_score (memory_search casefold m q))"
proof -
  let ?key = "\<lambda>(score, index, result). (- int score, index :: nat)"
  have "sorted_wrt (\<ge>) (map msr_score (map (\<lambda>(score, index, result). result) (take n (sort_key ?key xs))))"
    if xs: "\<And>score index res. (score, index, res) \<in> set xs \<Longrightarrow> msr_score res = of_nat score" for n xs
  proof -
    have "sorted_wrt (\<lambda>x y. ?key x \<le> ?key y) (take n (sort_key ?key xs))"
      using sorted_sort_key [of ?key xs] by (simp add: sorted_wrt_map sorted_wrt_take)
    then show ?thesis
      unfolding sorted_wrt_map
      by (rule sorted_wrt_mono_rel [rotated])
        (auto simp: less_eq_prod_def dest!: in_set_takeD xs)
  qed
  from this [OF score_loop_mem [THEN conjunct2, THEN conjunct1]] show ?thesis
    by (simp add: memory_search_def rank_text_matches_def Let_def)
qed

end
