(* ===== verification/Review_Promotion.thy ===== *)
theory Review_Promotion
  imports Review_Service Memory_Store Memory_Safety
begin

text \<open>
  The promotion of approved candidates to long-term memories,
  \<^verbatim>\<open>ApprovedMemoryCandidatePromoter\<close> of \<^verbatim>\<open>iris/runtime/learning/review_promotion.py\<close>, with
  the shared rules of \<^verbatim>\<open>candidate_validation.py\<close>. The Unicode tables, the hexadecimal SHA-256
  digest of a text and \<^verbatim>\<open>str\<close> of a float are arguments: nothing below depends on which functions they are.
\<close>

section \<open>Policy\<close>

record promotion_env =
  pe_tables :: char_tables
  pe_sha256_hexdigest :: "string \<Rightarrow> string"
  pe_show_float :: "rat \<Rightarrow> string"

record promotion_policy =
  pol_min_confidence :: rat
  pol_max_text_length :: int
  pol_allow_sensitive_candidates :: bool

definition default_promotion_policy :: promotion_policy where
  "default_promotion_policy =
     \<lparr>pol_min_confidence = 35 / 100, pol_max_text_length = 5000, pol_allow_sensitive_candidates = False\<rparr>"

definition candidate_content_is_valid :: "memory_candidate \<Rightarrow> code_points \<Rightarrow> rat \<Rightarrow> int \<Rightarrow> bool" where
  "candidate_content_is_valid c t min_confidence max_text_length \<longleftrightarrow>
     t \<noteq> [] \<and> int (length t) \<le> max_text_length \<and> min_confidence \<le> mc_confidence c"

definition implicit_review_provenance_is_valid :: "memory_candidate \<Rightarrow> bool" where
  "implicit_review_provenance_is_valid c \<longleftrightarrow>
     mc_source c \<in> {CS_IMPLICIT_CONVERSATION, CS_CONSOLIDATION} \<and> mc_retention_policy c = RP_REVIEW_REQUIRED \<and>
     mc_review_required c"

definition safety_is_valid :: "char_tables \<Rightarrow> promotion_policy \<Rightarrow> code_points \<Rightarrow> memory_candidate \<Rightarrow> bool" where
  "safety_is_valid ct pol t c =
     (let rejected = contains_credential_like_content ct t \<or> mc_sensitivity c = SE_SECRET_LIKE \<or>
            is_unsafe_preferred_name_memory_text ct t \<or>
            (contains_sensitive_profile_content ct t \<and> \<not> pol_allow_sensitive_candidates pol);
          accepted_sensitivity = [SE_NORMAL, SE_PERSONAL] @ (if pol_allow_sensitive_candidates pol then [SE_SENSITIVE] else [])
      in \<not> rejected \<and> mc_sensitivity c \<in> set accepted_sensitivity)"

definition accept_candidate :: "char_tables \<Rightarrow> promotion_policy \<Rightarrow> memory_candidate \<Rightarrow> bool" where
  "accept_candidate ct pol c =
     (let t = py_strip (mc_text c)
      in candidate_content_is_valid c t (pol_min_confidence pol) (pol_max_text_length pol) \<and>
         implicit_review_provenance_is_valid c \<and> safety_is_valid ct pol t c)"

definition consolidation_can_promote :: "memory_candidate \<Rightarrow> bool" where
  "consolidation_can_promote c =
     (if mc_source c \<noteq> CS_CONSOLIDATION then True
      else dict_get (mc_metadata c) ''consolidation_decision'' = Some (consolidation_decision_value CD_RETAINED))"

section \<open>The memory of a candidate\<close>

definition or_empty :: "string option \<Rightarrow> string" where
  "or_empty s = (case s of None \<Rightarrow> [] | Some x \<Rightarrow> x)"

definition promoted_memory_id :: "promotion_env \<Rightarrow> review_record \<Rightarrow> string" where
  "promoted_memory_id env r =
     (let material = rr_candidate_id r @ ''|'' @ rr_idempotency_key r;
          digest = pe_sha256_hexdigest env material
      in ''approved-implicit-'' @ take 24 digest)"

definition memory_record_of :: "promotion_env \<Rightarrow> review_record \<Rightarrow> string \<Rightarrow> datetime \<Rightarrow> memory_record" where
  "memory_record_of env r memory_id now =
     (let c = rr_candidate r
      in \<lparr>mr_id = memory_id, mr_text = py_strip (mc_text c), mr_actor_id = mc_actor_id c, mr_space_id = mc_space_id c,
          mr_salience = mc_salience c, mr_kind = mc_kind c, mr_confidence = mc_confidence c,
          mr_source_observation_id = mc_source_observation_id c, mr_created_at = Some now, mr_updated_at = Some now,
          mr_archived = False,
          mr_metadata =
            [(''candidate_source'', candidate_source_value (mc_source c)),
             (''original_retention_policy'', retention_policy_value (mc_retention_policy c)),
             (''retention_policy'', retention_policy_value RP_DURABLE),
             (''sensitivity'', candidate_sensitivity_value (mc_sensitivity c)),
             (''review_required_original'', if mc_review_required c then ''true'' else ''false''),
             (''review_required'', ''false''),
             (''review_status'', review_status_value RV_APPROVED),
             (''review_candidate_id'', rr_candidate_id r),
             (''reviewed_by'', or_empty (rr_reviewed_by r)),
             (''review_reason'', or_empty (rr_review_reason r)),
             (''reason'', or_empty (mc_reason c)),
             (''confidence'', pe_show_float env (mc_confidence c)),
             (''source_observation_id'', or_empty (mc_source_observation_id c))]\<rparr>)"

section \<open>Promotion\<close>

record promotion_result =
  prm_record :: review_record
  prm_memory :: "memory_record option"
  prm_promoted :: bool
  prm_reason :: "string option"

datatype promotion_error = PromotionNotFound string

definition not_promoted :: "review_record \<Rightarrow> memory_record option \<Rightarrow> string \<Rightarrow> promotion_result" where
  "not_promoted r m reason = \<lparr>prm_record = r, prm_memory = m, prm_promoted = False, prm_reason = Some reason\<rparr>"

definition already_promoted_result :: "memory_store \<Rightarrow> review_record \<Rightarrow> promotion_result" where
  "already_promoted_result ms r =
     (let memory = memory_get ms (or_empty (rr_promoted_memory_id r));
          reason = (if memory = None then ''promoted_memory_missing'' else ''already_promoted'')
      in not_promoted r memory reason)"

definition promotion_update :: "datetime \<Rightarrow> string \<Rightarrow> review_update" where
  "promotion_update now memory_id =
     \<lparr>ru_status = RV_APPROVED, ru_updated_at = now, ru_reviewed_at = None, ru_reviewed_by = None,
      ru_review_reason = None, ru_promoted_memory_id = Some memory_id\<rparr>"

definition promote_approved_candidate ::
  "promotion_env \<Rightarrow> datetime \<Rightarrow> review_store \<Rightarrow> memory_store \<Rightarrow> review_record \<Rightarrow> string
     \<Rightarrow> promotion_result \<times> review_store \<times> memory_store" where
  "promote_approved_candidate env now rs ms r cid =
     (let (memory, ms') = memory_update ms (memory_record_of env r (promoted_memory_id env r) now);
          (updated, rs') = update_review rs cid (promotion_update now (mr_id memory))
      in (\<lparr>prm_record = (case updated of None \<Rightarrow> r | Some u \<Rightarrow> u), prm_memory = Some memory, prm_promoted = True,
           prm_reason = None\<rparr>, rs', ms'))"

definition promote ::
  "promotion_env \<Rightarrow> promotion_policy \<Rightarrow> datetime \<Rightarrow> review_store \<Rightarrow> memory_store \<Rightarrow> string
     \<Rightarrow> (promotion_error + promotion_result) \<times> review_store \<times> memory_store" where
  "promote env pol now rs ms cid =
     (case review_get rs cid of
        None \<Rightarrow> (Inl (PromotionNotFound cid), rs, ms)
      | Some r \<Rightarrow>
          if rr_status r \<noteq> RV_APPROVED then (Inr (not_promoted r None ''candidate_not_approved''), rs, ms)
          else if rr_promoted_memory_id r \<noteq> None then (Inr (already_promoted_result ms r), rs, ms)
          else if \<not> consolidation_can_promote (rr_candidate r)
          then (Inr (not_promoted r None ''consolidation_decision_requires_explicit_resolution''), rs, ms)
          else if \<not> accept_candidate (pe_tables env) pol (rr_candidate r)
          then (Inr (not_promoted r None ''candidate_rejected_by_promotion_policy''), rs, ms)
          else let (result, rs', ms') = promote_approved_candidate env now rs ms r cid in (Inr result, rs', ms'))"

section \<open>What a promotion does\<close>

definition promotable :: "promotion_env \<Rightarrow> promotion_policy \<Rightarrow> review_record \<Rightarrow> bool" where
  "promotable env pol r \<longleftrightarrow>
     rr_status r = RV_APPROVED \<and> rr_promoted_memory_id r = None \<and> consolidation_can_promote (rr_candidate r) \<and>
     accept_candidate (pe_tables env) pol (rr_candidate r)"

lemma promotion_update_simps [simp]:
  "ru_status (promotion_update now i) = RV_APPROVED" "ru_promoted_memory_id (promotion_update now i) = Some i"
  "ru_reviewed_at (promotion_update now i) = None"
  by (simp_all add: promotion_update_def)

lemma memory_record_of_simps [simp]:
  "mr_id (memory_record_of env r i now) = i"
  "mr_text (memory_record_of env r i now) = py_strip (mc_text (rr_candidate r))"
  by (simp_all add: memory_record_of_def Let_def)

lemma promote_unchanged:
  assumes "\<And>r. review_get rs cid = Some r \<Longrightarrow> \<not> promotable env pol r"
  shows "snd (promote env pol now rs ms cid) = (rs, ms)"
  using assms by (auto simp: promote_def promotable_def split: option.split)

lemma promote_promotes:
  assumes "review_get rs cid = Some r" "promotable env pol r"
  shows "promote env pol now rs ms cid =
     (Inr \<lparr>prm_record = apply_review_update r (promotion_update now (promoted_memory_id env r)),
           prm_memory = Some (memory_record_of env r (promoted_memory_id env r) now), prm_promoted = True, prm_reason = None\<rparr>,
      snd (update_review rs cid (promotion_update now (promoted_memory_id env r))), 
      memory_upsert (memory_record_of env r (promoted_memory_id env r) now) ms)"
proof -
  let ?u = "promotion_update now (promoted_memory_id env r)"
  have "fst (update_review rs cid ?u) = Some (apply_review_update r ?u)"
    using assms(1) by (simp add: update_review_result)
  moreover obtain res rs' where "update_review rs cid ?u = (res, rs')" by (rule prod.exhaust)
  ultimately show ?thesis
    using assms(1,2)
    by (simp add: promote_def promotable_def promote_approved_candidate_def memory_update_def Let_def)
qed

text \<open>A promoted candidate is not promoted again: the second call reports the memory of the first.\<close>

lemma promote_twice:
  assumes "review_get rs cid = Some r" "promotable env pol r" "promote env pol now rs ms cid = (res, rs', ms')"
  shows "snd (promote env pol now' rs' ms' cid) = (rs', ms') \<and>
     (\<exists>r' m. fst (promote env pol now' rs' ms' cid) = Inr (not_promoted r' (Some m) ''already_promoted'') \<and>
        memory_get ms' (promoted_memory_id env r) = Some m)"
proof -
  let ?r = "apply_review_update r (promotion_update now (promoted_memory_id env r))"
  from assms(3) promote_promotes [OF assms(1,2), of now ms]
  have "rs' = snd (update_review rs cid (promotion_update now (promoted_memory_id env r)))"
    "ms' = memory_upsert (memory_record_of env r (promoted_memory_id env r) now) ms"
    by simp_all
  with assms(1) have "review_get rs' cid = Some ?r"
    "memory_get ms' (promoted_memory_id env r) = Some (memory_record_of env r (promoted_memory_id env r) now)"
    by (simp_all add: update_review_get memory_upsert_get)
  then show ?thesis
    by (auto simp: promote_def already_promoted_result_def or_empty_def Let_def)
qed

text \<open>What the policy accepts is free of credentials and not secret, in the form that is stored.\<close>

lemma accept_candidate_safe:
  assumes "accept_candidate ct pol c"
  shows "\<not> contains_credential_like_content ct (py_strip (mc_text c)) \<and> mc_sensitivity c \<noteq> SE_SECRET_LIKE \<and>
     \<not> is_unsafe_preferred_name_memory_text ct (py_strip (mc_text c)) \<and>
     (contains_sensitive_profile_content ct (py_strip (mc_text c)) \<longrightarrow> pol_allow_sensitive_candidates pol) \<and>
     py_strip (mc_text c) \<noteq> [] \<and> int (length (py_strip (mc_text c))) \<le> pol_max_text_length pol \<and>
     pol_min_confidence pol \<le> mc_confidence c"
  using assms by (auto simp: accept_candidate_def safety_is_valid_def candidate_content_is_valid_def Let_def)

end
