(* ===== verification/Review_Props.thy ===== *)
theory Review_Props
  imports Review_Promotion
begin

text \<open>
  The review system under interleaving. The stores run their calls one at a time, but a decision and a
  promotion make several calls and suspend in between: a decision reads the record and then updates it, a
  promotion reads the record, then writes the memory, then marks the record. The step relation below has one
  step for each such call and keeps what a suspended operation has read. The lemmas that follow the phases show
  that they compose to the operations of the service and of the promoter.
\<close>

section \<open>Phases\<close>

text \<open>The first part of a decision: the update it will make, if it makes one.\<close>

definition decide_begin ::
  "datetime \<Rightarrow> review_store \<Rightarrow> string \<Rightarrow> review_decision \<Rightarrow> decision_request option \<Rightarrow> review_update option" where
  "decide_begin now s cid decision request =
     (case review_get s cid of
        None \<Rightarrow> None
      | Some r \<Rightarrow>
          if rr_status r = target_status decision then None
          else if rr_status r \<noteq> RV_PENDING_REVIEW then None
          else Some (decision_update (target_status decision) now request))"

text \<open>The first part of a promotion: the record it will promote, if it promotes one.\<close>

definition promote_begin :: "promotion_env \<Rightarrow> promotion_policy \<Rightarrow> review_store \<Rightarrow> string \<Rightarrow> review_record option" where
  "promote_begin env pol s cid =
     (case review_get s cid of None \<Rightarrow> None | Some r \<Rightarrow> if promotable env pol r then Some r else None)"

lemma decide_phases:
  "snd (review_apply now s cid decision (target_status decision) request) =
     (case decide_begin now s cid decision request of None \<Rightarrow> s | Some u \<Rightarrow> snd (update_review s cid u))"
  by (simp add: review_apply_store decide_begin_def split: option.split)

lemma promote_phases:
  "snd (promote env pol now s ms cid) =
     (case promote_begin env pol s cid of
        None \<Rightarrow> (s, ms)
      | Some r \<Rightarrow> (snd (update_review s cid (promotion_update now (promoted_memory_id env r))),
                   memory_upsert (memory_record_of env r (promoted_memory_id env r) now) ms))"
  using promote_unchanged [of s cid env pol now ms]
  by (auto simp: promote_begin_def promote_promotes split: option.split)

section \<open>Runs\<close>

record review_system =
  sy_reviews :: review_store
  sy_memories :: memory_store
  sy_deciding :: "(string \<times> review_update) list"
  sy_promoting :: "(string \<times> review_record \<times> datetime) list"
  sy_written :: "(string \<times> string \<times> datetime) list"

definition fresh_system :: "memory_store \<Rightarrow> review_system" where
  "fresh_system ms =
     \<lparr>sy_reviews = empty_review_store, sy_memories = ms, sy_deciding = [], sy_promoting = [], sy_written = []\<rparr>"

datatype review_event =
  Added review_record | DecisionRead string | Decided string review_status | PromotionRead string
| MemoryWritten memory_record | PromotionMarked string

text \<open>
  Candidates arrive as the workers build them: pending, and neither reviewed nor promoted. Each other step is
  one call of a decision or of a promotion that is under way.
\<close>

inductive review_step ::
  "promotion_env \<Rightarrow> promotion_policy \<Rightarrow> review_system \<Rightarrow> review_event \<Rightarrow> review_system \<Rightarrow> bool"
  for env pol where
  add: "rr_status r = RV_PENDING_REVIEW \<Longrightarrow> rr_promoted_memory_id r = None \<Longrightarrow> rr_reviewed_at r = None \<Longrightarrow>
    review_step env pol S (Added r) (S\<lparr>sy_reviews := snd (review_add_nowait (sy_reviews S) r)\<rparr>)"
| decide_read: "decide_begin now (sy_reviews S) cid decision request = Some u \<Longrightarrow>
    review_step env pol S (DecisionRead cid) (S\<lparr>sy_deciding := (cid, u) # sy_deciding S\<rparr>)"
| decide_write: "(cid, u) \<in> set (sy_deciding S) \<Longrightarrow>
    review_step env pol S (Decided cid (ru_status u))
      (S\<lparr>sy_reviews := snd (update_review (sy_reviews S) cid u), sy_deciding := remove1 (cid, u) (sy_deciding S)\<rparr>)"
| promote_read: "promote_begin env pol (sy_reviews S) cid = Some r \<Longrightarrow>
    review_step env pol S (PromotionRead cid) (S\<lparr>sy_promoting := (cid, r, now) # sy_promoting S\<rparr>)"
| promote_write: "(cid, r, now) \<in> set (sy_promoting S) \<Longrightarrow>
    m = memory_record_of env r (promoted_memory_id env r) now \<Longrightarrow>
    review_step env pol S (MemoryWritten m)
      (S\<lparr>sy_memories := snd (memory_update (sy_memories S) m), sy_promoting := remove1 (cid, r, now) (sy_promoting S),
         sy_written := (cid, mr_id m, now) # sy_written S\<rparr>)"
| promote_mark: "(cid, i, now) \<in> set (sy_written S) \<Longrightarrow>
    review_step env pol S (PromotionMarked cid)
      (S\<lparr>sy_reviews := snd (update_review (sy_reviews S) cid (promotion_update now i)),
         sy_written := remove1 (cid, i, now) (sy_written S)\<rparr>)"

inductive review_run ::
  "promotion_env \<Rightarrow> promotion_policy \<Rightarrow> review_system \<Rightarrow> review_event list \<Rightarrow> review_system \<Rightarrow> bool"
  for env pol where
  run_nil: "review_run env pol S [] S"
| run_snoc: "review_run env pol S tr T \<Longrightarrow> review_step env pol T e U \<Longrightarrow> review_run env pol S (tr @ [e]) U"

section \<open>The invariant\<close>

definition same_candidate :: "review_record \<Rightarrow> review_record \<Rightarrow> bool" where
  "same_candidate a b \<longleftrightarrow> rr_candidate_id a = rr_candidate_id b \<and> rr_candidate a = rr_candidate b \<and>
     rr_idempotency_key a = rr_idempotency_key b"

text \<open>A record was added, and if it is approved, an approval was applied to it.\<close>

definition accounted :: "review_event set \<Rightarrow> review_record \<Rightarrow> bool" where
  "accounted E r \<longleftrightarrow> (\<exists>r0. Added r0 \<in> E \<and> same_candidate r0 r) \<and>
     (rr_status r = RV_APPROVED \<longrightarrow> Decided (rr_candidate_id r) RV_APPROVED \<in> E)"

definition promoted_from :: "promotion_env \<Rightarrow> promotion_policy \<Rightarrow> review_event set \<Rightarrow> memory_record \<Rightarrow> bool" where
  "promoted_from env pol E m \<longleftrightarrow>
     (\<exists>r now. accounted E r \<and> promotable env pol r \<and> m = memory_record_of env r (promoted_memory_id env r) now)"

definition review_inv ::
  "promotion_env \<Rightarrow> promotion_policy \<Rightarrow> memory_store \<Rightarrow> review_event set \<Rightarrow> review_system \<Rightarrow> bool" where
  "review_inv env pol ms E S \<longleftrightarrow>
     review_store_ok (sy_reviews S) \<and>
     (\<forall>cid r. review_get (sy_reviews S) cid = Some r \<longrightarrow> accounted E r) \<and>
     (\<forall>(cid, r, now)\<in>set (sy_promoting S). accounted E r \<and> promotable env pol r \<and> rr_candidate_id r = cid) \<and>
     (\<forall>(cid, i, now)\<in>set (sy_written S). Decided cid RV_APPROVED \<in> E) \<and>
     (\<forall>m\<in>set (sy_memories S). m \<in> set ms \<or> promoted_from env pol E m) \<and>
     (\<forall>m\<in>set ms. take 18 (mr_id m) \<noteq> ''approved-implicit-'' \<longrightarrow> m \<in> set (sy_memories S))"

lemma accounted_mono: "accounted E r \<Longrightarrow> E \<subseteq> F \<Longrightarrow> accounted F r"
  by (auto simp: accounted_def)

lemma promoted_from_mono: "promoted_from env pol E m \<Longrightarrow> E \<subseteq> F \<Longrightarrow> promoted_from env pol F m"
  unfolding promoted_from_def using accounted_mono by blast

lemma review_inv_mono:
  assumes "review_inv env pol ms E S" "E \<subseteq> F"
  shows "review_inv env pol ms F S"
  using assms accounted_mono [of E _ F] promoted_from_mono [of env pol E _ F]
  unfolding review_inv_def by fast

lemma accounted_update:
  assumes "accounted E r" "ru_status u = RV_APPROVED \<longrightarrow> Decided (rr_candidate_id r) RV_APPROVED \<in> E"
  shows "accounted E (apply_review_update r u)"
  using assms by (auto simp: accounted_def same_candidate_def)

text \<open>An update that accounts for the status it sets keeps the invariant.\<close>

lemma review_inv_update:
  assumes inv: "review_inv env pol ms E S" and status: "ru_status u = RV_APPROVED \<longrightarrow> Decided cid RV_APPROVED \<in> E"
  shows "review_inv env pol ms E (S\<lparr>sy_reviews := snd (update_review (sy_reviews S) cid u)\<rparr>)"
proof -
  have "accounted E (apply_review_update r u)" if "review_get (sy_reviews S) cid = Some r" for r
    using inv that status by (intro accounted_update) (auto simp: review_inv_def review_store_ok_def)
  with inv show ?thesis
    by (auto simp: review_inv_def update_review_ok update_review_get split: if_splits)
qed

lemma review_inv_add:
  assumes inv: "review_inv env pol ms E S" and r: "rr_status r = RV_PENDING_REVIEW" "Added r \<in> E"
  shows "review_inv env pol ms E (S\<lparr>sy_reviews := snd (review_add_nowait (sy_reviews S) r)\<rparr>)"
proof -
  have ok: "review_store_ok (sy_reviews S)" using inv by (simp add: review_inv_def)
  have "accounted E r" using r by (auto simp: accounted_def same_candidate_def)
  then have "accounted E r'" if "review_get (snd (review_add_nowait (sy_reviews S) r)) cid = Some r'" for cid r'
    using inv that review_add_get [OF ok, of r cid] by (auto simp: review_inv_def)
  with inv ok show ?thesis by (simp add: review_inv_def review_add_nowait_ok)
qed

lemma promoted_memory_id_prefix: "take 18 (promoted_memory_id env r) = ''approved-implicit-''"
  by (simp add: promoted_memory_id_def Let_def)

lemma memory_upsert_keeps: "x \<in> set m \<Longrightarrow> mr_id x \<noteq> mr_id r \<Longrightarrow> x \<in> set (memory_upsert r m)"
  by (induction m) auto

lemma review_inv_write:
  assumes inv: "review_inv env pol ms E S" and task: "(cid, r, now) \<in> set (sy_promoting S)"
  defines "m \<equiv> memory_record_of env r (promoted_memory_id env r) now"
  shows "review_inv env pol ms E
     (S\<lparr>sy_memories := memory_upsert m (sy_memories S), sy_promoting := remove1 (cid, r, now) (sy_promoting S),
        sy_written := (cid, mr_id m, now) # sy_written S\<rparr>)"
proof -
  have r: "accounted E r" "promotable env pol r" "rr_candidate_id r = cid"
    using inv task by (auto simp: review_inv_def)
  then have "promoted_from env pol E m" by (auto simp: promoted_from_def m_def)
  moreover have "Decided cid RV_APPROVED \<in> E" using r by (simp add: accounted_def promotable_def)
  moreover have "x \<in> set (memory_upsert m (sy_memories S))"
    if "x \<in> set ms" "take 18 (mr_id x) \<noteq> ''approved-implicit-''" for x
    using inv that promoted_memory_id_prefix [of env r]
    by (intro memory_upsert_keeps) (auto simp: review_inv_def m_def)
  ultimately show ?thesis
    using inv memory_upsert_set [of m "sy_memories S"] set_remove1_subset [of "(cid, r, now)" "sy_promoting S"]
    by (auto simp: review_inv_def)
qed

text \<open>Forgetting a suspended operation is harmless.\<close>

lemma review_inv_forget:
  assumes "review_inv env pol ms E S"
  shows "review_inv env pol ms E (S\<lparr>sy_deciding := ds\<rparr>)"
    "set ws \<subseteq> set (sy_written S) \<Longrightarrow> review_inv env pol ms E (S\<lparr>sy_written := ws\<rparr>)"
  using assms by (auto simp: review_inv_def)


lemma review_inv_read:
  assumes "review_inv env pol ms E S" "promote_begin env pol (sy_reviews S) cid = Some r"
  shows "review_inv env pol ms E (S\<lparr>sy_promoting := (cid, r, now) # sy_promoting S\<rparr>)"
  using assms
  by (auto simp: review_inv_def promote_begin_def review_store_ok_def split: option.splits if_splits)

lemma review_step_inv:
  assumes "review_step env pol S e U" "review_inv env pol ms E S"
  shows "review_inv env pol ms (insert e E) U"
proof -
  have inv: "review_inv env pol ms (insert e E) S" using assms(2) by (rule review_inv_mono) blast
  from assms(1) show ?thesis
  proof cases
    case (add r)
    with inv show ?thesis using review_inv_add by simp
  next
    case (decide_read now cid decision request u)
    with inv show ?thesis by (simp add: review_inv_forget(1))
  next
    case (decide_write cid u)
    have "review_inv env pol ms (insert e E) (S\<lparr>sy_reviews := snd (update_review (sy_reviews S) cid u)\<rparr>)"
      by (rule review_inv_update [OF inv]) (simp add: decide_write)
    from review_inv_forget(1) [OF this] show ?thesis by (simp add: decide_write)
  next
    case (promote_read cid r now)
    with inv show ?thesis by (simp add: review_inv_read)
  next
    case (promote_write cid r now m)
    from review_inv_write [OF inv promote_write(3)] show ?thesis
      by (simp add: promote_write memory_update_def)
  next
    case (promote_mark cid i now)
    have "review_inv env pol ms (insert e E)
        (S\<lparr>sy_reviews := snd (update_review (sy_reviews S) cid (promotion_update now i))\<rparr>)"
      by (rule review_inv_update [OF inv]) (use inv promote_mark(3) in \<open>auto simp: review_inv_def\<close>)
    from review_inv_forget(2) [OF this, of "remove1 (cid, i, now) (sy_written S)"] show ?thesis
      by (simp add: promote_mark set_remove1_subset)
  qed
qed

lemma review_run_inv:
  "review_run env pol (fresh_system ms) tr S \<Longrightarrow> review_inv env pol ms (set tr) S"
proof (induction "fresh_system ms" tr S rule: review_run.induct)
  case run_nil
  show ?case by (simp add: review_inv_def fresh_system_def) (simp add: empty_review_store_def review_get_def)
next
  case (run_snoc tr T e U)
  then show ?case using review_step_inv by simp
qed


section \<open>Properties\<close>

text \<open>
  C39: No memory without approval. However decisions, promotions and new candidates interleave, call by call,
  a memory that was not there at the start is the memory of a candidate that was added, that a reviewer
  approved, and that the promotion policy accepts; it holds no text that looks like a credential and no
  secret. Memories that were there at the start are kept, unless their id has the form of a promoted one.
\<close>

theorem memory_needs_approval:
  assumes "review_run env pol (fresh_system ms) tr S"
  shows "(\<forall>m\<in>set (sy_memories S) - set ms.
            (\<exists>r0 r now. Added r0 \<in> set tr \<and> same_candidate r0 r \<and> Decided (rr_candidate_id r0) RV_APPROVED \<in> set tr \<and>
               m = memory_record_of env r (promoted_memory_id env r) now \<and>
               consolidation_can_promote (rr_candidate r0) \<and> accept_candidate (pe_tables env) pol (rr_candidate r0) \<and>
               mc_sensitivity (rr_candidate r0) \<noteq> SE_SECRET_LIKE) \<and>
            \<not> contains_credential_like_content (pe_tables env) (mr_text m)) \<and>
         (\<forall>m\<in>set ms. take 18 (mr_id m) \<noteq> ''approved-implicit-'' \<longrightarrow> m \<in> set (sy_memories S))"
proof -
  have inv: "review_inv env pol ms (set tr) S" using assms by (rule review_run_inv)
  have "(\<exists>r0 r now. Added r0 \<in> set tr \<and> same_candidate r0 r \<and> Decided (rr_candidate_id r0) RV_APPROVED \<in> set tr \<and>
           m = memory_record_of env r (promoted_memory_id env r) now \<and>
           consolidation_can_promote (rr_candidate r0) \<and> accept_candidate (pe_tables env) pol (rr_candidate r0) \<and>
           mc_sensitivity (rr_candidate r0) \<noteq> SE_SECRET_LIKE) \<and>
        \<not> contains_credential_like_content (pe_tables env) (mr_text m)"
    if "m \<in> set (sy_memories S)" "m \<notin> set ms" for m
  proof -
    from inv that obtain r now where acc: "accounted (set tr) r" and prm: "promotable env pol r"
      and m: "m = memory_record_of env r (promoted_memory_id env r) now"
      unfolding review_inv_def promoted_from_def by blast
    from acc obtain r0 where r0: "Added r0 \<in> set tr" "same_candidate r0 r" unfolding accounted_def by blast
    from prm have "accept_candidate (pe_tables env) pol (rr_candidate r)" by (simp add: promotable_def)
    from accept_candidate_safe [OF this] acc prm r0 m show ?thesis
      by (intro conjI exI [of _ r0] exI [of _ r] exI [of _ now])
        (simp_all add: accounted_def promotable_def same_candidate_def)
  qed
  with inv show ?thesis unfolding review_inv_def by blast
qed

definition example_env :: promotion_env where
  "example_env = \<lparr>pe_tables = \<lparr>ct_same = (=), ct_word = (\<lambda>c. 97 \<le> c \<and> c \<le> 122)\<rparr>,
     pe_sha256_hexdigest = (\<lambda>s. replicate 64 CHR ''0''), pe_show_float = (\<lambda>x. ''0.9'')\<rparr>"

definition example_candidate :: memory_candidate where
  "example_candidate = \<lparr>mc_text = codes '' tea '', mc_kind = MK_PREFERENCE, mc_salience = 1 / 2,
     mc_confidence = 9 / 10, mc_source = CS_IMPLICIT_CONVERSATION, mc_reason = None,
     mc_retention_policy = RP_REVIEW_REQUIRED, mc_sensitivity = SE_NORMAL, mc_review_required = True,
     mc_actor_id = Some ''a'', mc_space_id = None, mc_source_observation_id = None, mc_metadata = []\<rparr>"

definition example_record :: review_record where
  "example_record = \<lparr>rr_candidate_id = ''c1'', rr_candidate = example_candidate, rr_created_at = 0, rr_updated_at = 0,
     rr_idempotency_key = ''k1'', rr_status = RV_PENDING_REVIEW, rr_candidate_type = CT_MEMORY,
     rr_actor_id = Some ''a'', rr_account_id = None, rr_space_id = None, rr_source_observation_id = None,
     rr_reviewed_at = None, rr_reviewed_by = None, rr_review_reason = None, rr_promoted_memory_id = None,
     rr_metadata = []\<rparr>"

definition example_approved :: review_record where
  "example_approved = apply_review_update example_record (decision_update RV_APPROVED 100 None)"

definition example_memory :: memory_record where
  "example_memory = memory_record_of example_env example_approved (promoted_memory_id example_env example_approved) 200"

lemma example_text: "py_strip (codes '' tea '') = [116, 101, 97]"
  by (simp add: py_strip_def codes_def py_whitespace_def)

lemma example_text_safe:
  "\<not> contains_credential_like_content (pe_tables example_env) [116, 101, 97]"
  "\<not> contains_sensitive_profile_content (pe_tables example_env) [116, 101, 97]"
  "\<not> is_unsafe_preferred_name_memory_text (pe_tables example_env) [116, 101, 97]"
  by (simp_all add: contains_credential_like_content_def CREDENTIAL_LIKE_PATTERNS_def
      contains_sensitive_profile_content_def SENSITIVE_PROFILE_PATTERNS_def is_unsafe_preferred_name_memory_text_def
      UNSAFE_PREFERRED_NAME_MEMORY_PATTERNS_def PREFERRED_NAME_PREFIX_def rx_search_def example_env_def codes_def
      upt_rec py_whitespace_def)

lemma example_promotable: "promotable example_env default_promotion_policy example_approved"
  using example_text_safe
  by (simp add: promotable_def example_approved_def example_record_def consolidation_can_promote_def
      example_candidate_def accept_candidate_def example_text candidate_content_is_valid_def
      implicit_review_provenance_is_valid_def safety_is_valid_def default_promotion_policy_def Let_def)

definition example_system ::
  "review_record \<Rightarrow> memory_store \<Rightarrow> (string \<times> review_update) list \<Rightarrow> (string \<times> review_record \<times> datetime) list
     \<Rightarrow> (string \<times> string \<times> datetime) list \<Rightarrow> review_system" where
  "example_system r ms ds ps ws =
     \<lparr>sy_reviews = \<lparr>rvs_records = [(''c1'', r)], rvs_idempotency_keys = [(''k1'', ''c1'')]\<rparr>,
      sy_memories = ms, sy_deciding = ds, sy_promoting = ps, sy_written = ws\<rparr>"

lemma example_step_add:
  "review_step env pol (fresh_system []) (Added example_record) (example_system example_record [] [] [] [])"
  using add [of example_record env pol "fresh_system []"]
  by (simp add: fresh_system_def empty_review_store_def review_add_nowait_def example_record_def example_system_def)

lemma example_step_read:
  assumes "u = decision_update (target_status d) now None"
  shows "review_step env pol (example_system example_record ms ds ps ws) (DecisionRead ''c1'')
     (example_system example_record ms ((''c1'', u) # ds) ps ws)"
  using decide_read [of now "example_system example_record ms ds ps ws" "''c1''" d None u env pol] assms
  by (cases d) (simp_all add: decide_begin_def review_get_def example_record_def example_system_def)

lemma example_step_decide:
  "review_step env pol (example_system r ms ((''c1'', u) # ds) ps ws) (Decided ''c1'' (ru_status u))
     (example_system (apply_review_update r u) ms ds ps ws)"
  using decide_write [of "''c1''" u "example_system r ms ((''c1'', u) # ds) ps ws" env pol]
  by (simp add: example_system_def update_review_def Let_def)

lemma example_step_promote:
  "promotable env pol r \<Longrightarrow>
     review_step env pol (example_system r ms ds ps ws) (PromotionRead ''c1'')
       (example_system r ms ds ((''c1'', r, now) # ps) ws)"
  using promote_read [of env pol "example_system r ms ds ps ws" "''c1''" r now]
  by (simp add: promote_begin_def review_get_def example_system_def)

lemma example_step_write:
  assumes "m = memory_record_of env r' (promoted_memory_id env r') now"
  shows "review_step env pol (example_system r ms ds ((''c1'', r', now) # ps) ws) (MemoryWritten m)
     (example_system r (memory_upsert m ms) ds ps ((''c1'', mr_id m, now) # ws))"
  using promote_write [of "''c1''" r' now "example_system r ms ds ((''c1'', r', now) # ps) ws" m env pol] assms
  by (simp add: example_system_def memory_update_def)

lemma example_run:
  "review_run example_env default_promotion_policy (fresh_system [])
     [Added example_record, DecisionRead ''c1'', Decided ''c1'' RV_APPROVED, PromotionRead ''c1'',
      MemoryWritten example_memory]
     (example_system example_approved [example_memory] [] [] [(''c1'', mr_id example_memory, 200)])"
proof -
  let ?u = "decision_update RV_APPROVED 100 None"
  note step = run_snoc [of example_env default_promotion_policy "fresh_system []"]
  note run1 = step [OF run_nil example_step_add]
  note run2 = step [OF run1 example_step_read [of ?u DECIDE_APPROVE 100]]
  have run3: "review_run example_env default_promotion_policy (fresh_system [])
      [Added example_record, DecisionRead ''c1'', Decided ''c1'' RV_APPROVED] (example_system example_approved [] [] [] [])"
    using step [OF run2 example_step_decide] by (simp add: example_approved_def)
  note run4 = step [OF run3 example_step_promote [OF example_promotable, of _ _ _ _ 200]]
  from step [OF run4 example_step_write [OF example_memory_def]] show ?thesis by simp
qed

theorem memory_needs_approval_witness:
  "\<exists>r0 r now. r0 = example_record \<and> same_candidate r0 r \<and>
     example_memory = memory_record_of example_env r (promoted_memory_id example_env r) now \<and>
     accept_candidate (pe_tables example_env) default_promotion_policy (rr_candidate r0)"
  using memory_needs_approval [OF example_run] by (auto simp: example_system_def)

section \<open>Decisions that overlap\<close>

text \<open>
  A decision that runs alone never changes a decided candidate, so its status is final. Two decisions that overlap
  both read a pending candidate, and the second update replaces the first: here an approved candidate whose memory
  is written ends as rejected.
\<close>

lemma decided_is_final:
  assumes "review_get s cid = Some r" "rr_status r \<noteq> RV_PENDING_REVIEW"
  shows "snd (review_apply now s cid' decision target request) = s \<or> cid' \<noteq> cid"
  using assms by (auto simp: review_apply_store)

lemma overlapping_decisions:
  "\<exists>tr S r. review_run example_env default_promotion_policy (fresh_system []) tr S \<and>
     sy_memories S = [example_memory] \<and> review_get (sy_reviews S) ''c1'' = Some r \<and> rr_status r = RV_REJECTED"
proof -
  let ?u = "decision_update RV_APPROVED 100 None" and ?v = "decision_update RV_REJECTED 101 None"
  note step = run_snoc [of example_env default_promotion_policy "fresh_system []"]
  note run1 = step [OF run_nil example_step_add]
  note run2 = step [OF run1 example_step_read [of ?v DECIDE_REJECT 101]]
  note run3 = step [OF run2 example_step_read [of ?u DECIDE_APPROVE 100]]
  note run4 = step [OF run3 [simplified] example_step_decide]
  note run5 = step [OF run4 [folded example_approved_def] example_step_promote [OF example_promotable, of _ _ _ _ 200]]
  note run6 = step [OF run5 example_step_write [OF example_memory_def]]
  note run7 = step [OF run6 example_step_decide]
  show ?thesis
    by (intro exI conjI) (rule run7, simp_all add: example_system_def review_get_def, simp)
qed

end
