(* ===== verification/Consolidation_Props.thy ===== *)
theory Consolidation_Props
  imports Consolidation Review_Props
begin

text \<open>
  What consolidation does with a set of candidates: each accepted candidate is accounted for once, the decision is
  determined by its scope, kind, age and text, and the order in which the candidates come does not matter.
\<close>

section \<open>Sorting and grouping\<close>

lemma sort_key_perm:
  assumes "mset xs = mset ys" "distinct (map f xs)"
  shows "sort_key f xs = sort_key f ys"
proof (rule map_sorted_distinct_set_unique)
  have "set xs = set ys" using assms(1) by (rule mset_eq_setD)
  then show "set (sort_key f xs) = set (sort_key f ys)" by simp
  have "distinct (map f ys)" using assms by (metis mset_map mset_eq_imp_distinct_iff)
  with assms(2) show "distinct (map f (sort_key f xs))" "distinct (map f (sort_key f ys))"
    by (metis mset_sort mset_map mset_eq_imp_distinct_iff)+
  show "inj_on f (set (sort_key f xs) \<union> set (sort_key f ys))"
    using assms \<open>set xs = set ys\<close> by (simp add: distinct_map)
qed (simp_all add: sorted_sort_key)

lemma unique_candidates_distinct:
  assumes "distinct (map so_id xs)"
  shows "unique_candidates xs = sort_key so_id xs"
proof -
  have "foldl (\<lambda>d x. dict_set (so_id x) x d) d xs = d @ map (\<lambda>x. (so_id x, x)) xs"
    if "distinct (map so_id xs)" "so_id ` set xs \<inter> fst ` set d = {}" for d and xs :: "source_candidate list"
    using that by (induction xs arbitrary: d) (auto simp: dict_set_new)
  from this [OF assms, of "[]"] show ?thesis
    by (simp add: unique_candidates_def dict_values_def o_def)
qed

lemma group_by_snoc:
  "group_by key (xs @ [x]) =
     dict_set (key x) ((case dict_get (group_by key xs) (key x) of None \<Rightarrow> [] | Some ys \<Rightarrow> ys) @ [x]) (group_by key xs)"
  by (simp add: group_by_def)

lemma group_by_get:
  "dict_get (group_by key xs) k =
     (if k \<in> key ` set xs then Some (filter (\<lambda>x. key x = k) xs) else None)"
proof (induction xs rule: rev_induct)
  case Nil
  then show ?case by (simp add: group_by_def)
next
  case (snoc x xs)
  have "filter (\<lambda>y. key y = key x) xs = []" if "key x \<notin> key ` set xs"
    using that by (intro filter_False) (metis imageI)
  with snoc show ?case by (auto simp: group_by_snoc dict_get_set)
qed

lemma group_by_wf: "dict_wf (group_by key xs)"
  by (induction xs rule: rev_induct) (simp_all add: group_by_def)

lemma group_by_keys: "set (dict_keys (group_by key xs)) = key ` set xs"
  using dom_map_of_conv_image_fst [of "group_by key xs"] group_by_get [of key xs]
  by (auto simp: dict_keys_def dom_def split: if_splits)

lemma mset_concat_groups:
  assumes "distinct ks"
  shows "mset (concat (map (\<lambda>k. filter (\<lambda>x. key x = k) xs) ks)) = mset (filter (\<lambda>x. key x \<in> set ks) xs)"
  using assms
proof (induction ks)
  case (Cons k ks)
  then have "k \<notin> set ks" by simp
  then have "mset (filter (\<lambda>x. key x = k \<or> key x \<in> set ks) xs) =
      mset (filter (\<lambda>x. key x = k) xs) + mset (filter (\<lambda>x. key x \<in> set ks) xs)"
    by (induction xs) auto
  with Cons show ?case by simp
qed simp

lemma group_by_scope_eq:
  "group_by_scope_and_kind xs =
     map (\<lambda>k. sort_key so_id (filter (\<lambda>x. scope_key_of x = k) xs))
       (sort_key group_sort_key (dict_keys (group_by scope_key_of xs)))"
  unfolding group_by_scope_and_kind_def Let_def
  by (rule map_cong [OF refl]) (simp add: group_by_get group_by_keys)

lemma groups_mset: "mset (concat (group_by_scope_and_kind xs)) = mset xs"
proof -
  let ?ks = "sort_key group_sort_key (dict_keys (group_by scope_key_of xs))"
  have "distinct ?ks" using group_by_wf [of scope_key_of xs] by (simp add: dict_wf_def)
  from mset_concat_groups [OF this, of scope_key_of xs]
  have "mset (concat (map (\<lambda>k. filter (\<lambda>x. scope_key_of x = k) xs) ?ks)) = mset xs"
    by (simp add: group_by_keys)
  moreover have "mset (concat (map (\<lambda>k. sort_key so_id (filter (\<lambda>x. scope_key_of x = k) xs)) ks)) =
      mset (concat (map (\<lambda>k. filter (\<lambda>x. scope_key_of x = k) xs) ks))" for ks
    by (induction ks) simp_all
  ultimately show ?thesis by (simp only: group_by_scope_eq)
qed

lemma group_by_scope_mem:
  assumes "g \<in> set (group_by_scope_and_kind xs)"
  obtains x where "x \<in> set xs" "g = sort_key so_id (filter (\<lambda>y. scope_key_of y = scope_key_of x) xs)"
  using assms by (auto simp: group_by_scope_eq group_by_keys)

lemma max_by_greatest: "max_by key x xs \<in> set (x # xs) \<and> (\<forall>y\<in>set (x # xs). key y \<le> key (max_by key x xs))"
proof (induction key x xs rule: max_by.induct)
  case (2 key best x xs)
  then show ?case by (cases "key best < key x") (auto intro: order_trans)
qed simp

lemma each_result_all:
  assumes "\<And>x. x \<in> set xs \<Longrightarrow> \<exists>y. f x = Inr y \<and> P x y"
  shows "\<exists>ys. each_result f xs = Inr ys \<and> list_all2 P xs ys"
  using assms
proof (induction xs)
  case (Cons x xs)
  then obtain y ys where "f x = Inr y" "P x y" "each_result f xs = Inr ys" "list_all2 P xs ys" by force
  then show ?case by simp
qed simp


section \<open>One result\<close>

text \<open>The constraints of the contract, and an id that is not blank.\<close>

definition valid_source :: "source_candidate \<Rightarrow> bool" where
  "valid_source x \<longleftrightarrow> validate_source_candidate x = Inr x \<and> \<not> blank (codes (so_id x))"

definition result_says ::
  "source_candidate \<Rightarrow> consolidation_decision \<Rightarrow> string list \<Rightarrow> string list \<Rightarrow> rat \<Rightarrow> consolidation_candidate \<Rightarrow> bool"
  where
  "result_says p d ids olds conf c \<longleftrightarrow>
     cc_proposed c = p \<and> cc_decision_kind c = d \<and> cc_source_candidate_ids c = ids \<and>
     cc_supersedes_candidate_ids c = olds \<and> cc_confidence c = conf \<and> validate_consolidation_candidate c = Inr c"

lemma mk_result_ok:
  assumes "so_id p \<in> set ids" "\<forall>i\<in>set ids. \<not> blank (codes i)" "set olds \<subseteq> set ids" "0 \<le> conf" "conf \<le> 1" "reason \<noteq> []"
  shows "\<exists>c. mk_result env p d ids olds conf reason = Inr c \<and> result_says p d ids olds conf c"
proof -
  have "ids \<noteq> []" "\<not> (\<exists>i\<in>set ids. blank (codes i))" "\<not> (\<exists>i\<in>set olds. blank (codes i))" using assms by auto
  with assms show ?thesis
    by (simp add: mk_result_def validate_consolidation_candidate_def result_id_def Let_def result_says_def)
qed

lemma valid_source_bounds:
  "valid_source x \<Longrightarrow> 0 \<le> so_confidence x \<and> so_confidence x \<le> 1 \<and> \<not> blank (codes (so_id x))"
  by (simp add: valid_source_def validate_source_candidate_def split: if_splits)

lemma build_stale_result_ok:
  "valid_source x \<Longrightarrow> \<exists>c. build_stale_result env x = Inr c \<and> result_says x CD_STALE [so_id x] [] (so_confidence x) c"
  unfolding build_stale_result_def by (rule mk_result_ok) (auto dest: valid_source_bounds)

definition group_decision :: "consolidation_env \<Rightarrow> source_candidate set \<Rightarrow> consolidation_decision" where
  "group_decision env G =
     (if \<forall>y\<in>G. \<forall>z\<in>G. normalize_text env (so_text y) = normalize_text env (so_text z)
      then if card G = 1 then CD_RETAINED else CD_DUPLICATE else CD_CONFLICT)"

text \<open>The proposed candidate is the best of its group, and the newest when their texts differ.\<close>

definition group_says ::
  "consolidation_env \<Rightarrow> source_candidate set \<Rightarrow> string list \<Rightarrow> consolidation_candidate \<Rightarrow> bool" where
  "group_says env G ids c \<longleftrightarrow>
     cc_proposed c \<in> G \<and> cc_decision_kind c = group_decision env G \<and> cc_source_candidate_ids c = ids \<and>
     validate_consolidation_candidate c = Inr c \<and>
     (if group_decision env G = CD_CONFLICT
      then (\<forall>y\<in>G. newest_quality_key y \<le> newest_quality_key (cc_proposed c)) \<and>
           set (cc_supersedes_candidate_ids c) = so_id ` (G - {cc_proposed c}) \<and> cc_confidence c = Min (so_confidence ` G)
      else (\<forall>y\<in>G. quality_key y \<le> quality_key (cc_proposed c)) \<and> cc_supersedes_candidate_ids c = [] \<and>
           cc_confidence c = Max (so_confidence ` G))"

lemma one_group_iff:
  assumes "xs \<noteq> []"
  shows "length (group_by key xs) = 1 \<longleftrightarrow> (\<forall>y\<in>set xs. \<forall>z\<in>set xs. key y = key z)"
proof -
  have "length (group_by key xs) = card (key ` set xs)"
    using group_by_keys [of key xs] group_by_wf [of key xs]
    by (metis dict_keys_def dict_wf_def distinct_card length_map)
  also have "\<dots> = 1 \<longleftrightarrow> (\<forall>y\<in>set xs. \<forall>z\<in>set xs. key y = key z)"
  proof
    assume "card (key ` set xs) = 1"
    then obtain k where "key ` set xs = {k}" by (rule card_1_singletonE)
    then show "\<forall>y\<in>set xs. \<forall>z\<in>set xs. key y = key z" by (metis imageI singletonD)
  next
    assume same: "\<forall>y\<in>set xs. \<forall>z\<in>set xs. key y = key z"
    have "key ` set xs = (\<lambda>_. key (hd xs)) ` set xs"
      by (rule image_cong [OF refl]) (use same hd_in_set [OF assms] in blast)
    with assms show "card (key ` set xs) = 1" by (simp add: image_constant_conv)
  qed
  finally show ?thesis .
qed

lemma group_bounds:
  assumes "\<forall>y\<in>set (x # xs). valid_source y"
  shows "0 \<le> Max (so_confidence ` set (x # xs)) \<and> Max (so_confidence ` set (x # xs)) \<le> 1 \<and>
     0 \<le> Min (so_confidence ` set (x # xs)) \<and> Min (so_confidence ` set (x # xs)) \<le> 1"
proof -
  have "Max (so_confidence ` set (x # xs)) \<in> so_confidence ` set (x # xs)"
    "Min (so_confidence ` set (x # xs)) \<in> so_confidence ` set (x # xs)"
    by (rule Max_in Min_in; simp)+
  with assms show ?thesis using valid_source_bounds by (metis imageE)
qed

lemma others_ids:
  assumes "inj_on f (set xs)" "p \<in> set xs"
  shows "set (filter (\<lambda>i. i \<noteq> f p) (map f xs)) = f ` (set xs - {p})"
proof -
  have "set (filter (\<lambda>i. i \<noteq> f p) (map f xs)) = f ` set xs - f ` {p}" by auto
  also have "\<dots> = f ` (set xs - {p})"
    using inj_on_image_set_diff [OF assms(1), of "set xs" "{p}"] assms(2) by simp
  finally show ?thesis .
qed

lemma build_group_result_ok:
  assumes valid: "\<forall>y\<in>set (x # xs). valid_source y" and ids: "distinct (map so_id (x # xs))"
  shows "\<exists>c. build_group_result env x xs = Inr c \<and> group_says env (set (x # xs)) (map so_id (x # xs)) c"
proof -
  let ?G = "set (x # xs)" and ?ids = "map so_id (x # xs)"
  let ?same = "length (group_by (\<lambda>y. normalize_text env (so_text y)) (x # xs)) = 1"
  have blanks: "\<forall>i\<in>set ?ids. \<not> blank (codes i)" using valid valid_source_bounds by auto
  note bounds = group_bounds [OF valid, THEN conjunct1] group_bounds [OF valid, THEN conjunct2, THEN conjunct1]
    group_bounds [OF valid, THEN conjunct2, THEN conjunct2, THEN conjunct1]
    group_bounds [OF valid, THEN conjunct2, THEN conjunct2, THEN conjunct2]
  have inj: "inj_on so_id ?G" using ids by (simp only: distinct_map)
  have "distinct (x # xs)" using ids by (simp only: distinct_map)
  from distinct_card [OF this] have card: "card ?G = 1 \<longleftrightarrow> xs = []" by simp
  have dec: "group_decision env ?G = (if ?same then if xs = [] then CD_RETAINED else CD_DUPLICATE else CD_CONFLICT)"
    unfolding group_decision_def card by (simp only: one_group_iff [OF list.distinct(2)])
  show ?thesis
  proof (cases ?same)
    case True
    let ?p = "max_by quality_key x xs"
    note best = max_by_greatest [of quality_key x xs]
    let ?d = "if xs = [] then CD_RETAINED else CD_DUPLICATE"
    let ?why = "if ?d = CD_DUPLICATE then ''normalized duplicate candidates share one scoped memory''
      else ''candidate retained by deterministic consolidation''"
    have why: "?why \<noteq> []" by simp
    have olds: "set ([] :: string list) \<subseteq> set ?ids" by simp
    have pid: "so_id ?p \<in> set ?ids" using best by auto
    have "build_group_result env x xs = mk_result env ?p ?d ?ids [] (Max (so_confidence ` ?G)) ?why"
      using True unfolding build_group_result_def Let_def by simp
    moreover obtain c where "mk_result env ?p ?d ?ids [] (Max (so_confidence ` ?G)) ?why = Inr c"
      "result_says ?p ?d ?ids [] (Max (so_confidence ` ?G)) c"
      using mk_result_ok [OF pid blanks olds bounds(1,2) why, of env ?d] by blast
    ultimately show ?thesis using True dec best by (auto simp: group_says_def result_says_def)
  next
    case False
    let ?p = "max_by newest_quality_key x xs"
    let ?sup = "filter (\<lambda>i. i \<noteq> so_id ?p) ?ids"
    note best = max_by_greatest [of newest_quality_key x xs]
    let ?why = "''scoped memory candidates have conflicting normalized content''"
    have why: "?why \<noteq> []" by simp
    have olds: "set ?sup \<subseteq> set ?ids" by (rule filter_is_subset)
    have pid: "so_id ?p \<in> set ?ids" using best by auto
    have "build_group_result env x xs = mk_result env ?p CD_CONFLICT ?ids ?sup (Min (so_confidence ` ?G)) ?why"
      using False unfolding build_group_result_def Let_def by simp
    moreover obtain c where "mk_result env ?p CD_CONFLICT ?ids ?sup (Min (so_confidence ` ?G)) ?why = Inr c"
      "result_says ?p CD_CONFLICT ?ids ?sup (Min (so_confidence ` ?G)) c"
      using mk_result_ok [OF pid blanks olds bounds(3,4) why, of env CD_CONFLICT] by blast
    moreover have "set ?sup = so_id ` (?G - {?p})" by (rule others_ids [OF inj]) (use best in blast)
    ultimately show ?thesis using False dec best by (auto simp: group_says_def result_says_def)
  qed
qed


section \<open>All results\<close>

lemma list_all2_sources: "list_all2 P xs ys \<Longrightarrow> \<forall>y\<in>set ys. \<exists>x\<in>set xs. P x y"
  by (induction rule: list_all2_induct) auto

lemma list_all2_map_eq: "list_all2 P xs ys \<Longrightarrow> (\<And>x y. P x y \<Longrightarrow> f x = g y) \<Longrightarrow> map g ys = map f xs"
  by (induction rule: list_all2_induct) auto

lemma mset_concat_map: "mset (concat (map f xs)) = (\<Sum>x\<in>#mset xs. mset (f x))"
  by (induction xs) simp_all

lemma group_result_ok:
  assumes "g \<in> set (group_by_scope_and_kind xs)" "\<forall>x\<in>set xs. valid_source x" "distinct (map so_id xs)"
  shows "\<exists>c. group_result env g = Inr c \<and> group_says env (set g) (map so_id g) c"
proof -
  from assms(1) obtain x where x: "x \<in> set xs" and g: "g = sort_key so_id (filter (\<lambda>y. scope_key_of y = scope_key_of x) xs)"
    by (rule group_by_scope_mem)
  then have "x \<in> set g" by simp
  then obtain y ys where yys: "g = y # ys" by (cases g) auto
  have "mset (map so_id g) = mset (map so_id (filter (\<lambda>y. scope_key_of y = scope_key_of x) xs))"
    by (simp add: g)
  from mset_eq_imp_distinct_iff [OF this] have "distinct (map so_id g)"
    using assms(3) by (simp add: distinct_map_filter)
  moreover have "\<forall>y\<in>set g. valid_source y" using assms(2) by (simp add: g)
  ultimately show ?thesis using build_group_result_ok [of y ys env] by (simp add: group_result_def yys)
qed

text \<open>
  What a result says, in terms of the accepted candidates: a stale one stands alone; a fresh one is proposed for all
  fresh ones of its scope and kind.
\<close>

definition explained ::
  "consolidation_env \<Rightarrow> seconds \<Rightarrow> datetime \<Rightarrow> source_candidate set \<Rightarrow> consolidation_candidate \<Rightarrow> bool" where
  "explained env stale_after now A c \<longleftrightarrow>
     (let p = cc_proposed c;
          G = {y \<in> A. \<not> is_stale now stale_after y \<and> scope_key_of y = scope_key_of p}
      in p \<in> A \<and>
         (if is_stale now stale_after p then result_says p CD_STALE [so_id p] [] (so_confidence p) c
          else set (cc_source_candidate_ids c) = so_id ` G \<and> group_says env G (cc_source_candidate_ids c) c))"

lemma explained_group:
  assumes "g \<in> set (group_by_scope_and_kind fresh)" "group_says env (set g) (map so_id g) c"
    and fresh: "set fresh = {y \<in> A. \<not> is_stale now stale_after y}"
  shows "explained env stale_after now A c"
proof -
  from assms(1) obtain x where x: "x \<in> set fresh"
    and g: "g = sort_key so_id (filter (\<lambda>y. scope_key_of y = scope_key_of x) fresh)"
    by (rule group_by_scope_mem)
  have p: "cc_proposed c \<in> set g" "cc_source_candidate_ids c = map so_id g"
    using assms(2) by (simp_all add: group_says_def)
  then have "scope_key_of (cc_proposed c) = scope_key_of x" "cc_proposed c \<in> A" "\<not> is_stale now stale_after (cc_proposed c)"
    using fresh by (auto simp: g)
  moreover from this(1) have "set g = {y \<in> A. \<not> is_stale now stale_after y \<and> scope_key_of y = scope_key_of (cc_proposed c)}"
    using fresh by (auto simp: g)
  ultimately show ?thesis using assms(2) p(2) by (simp add: explained_def Let_def)
qed

text \<open>The results for the accepted candidates, sorted by id.\<close>

lemma consolidate_sorted:
  fixes now :: datetime and stale_after :: seconds
  assumes valid: "\<forall>x\<in>set u. valid_source x" and ids: "distinct (map so_id u)"
  defines "stale \<equiv> filter (is_stale now stale_after) u" and "fresh \<equiv> filter (\<lambda>x. \<not> is_stale now stale_after x) u"
  shows "\<exists>rs. result_bind (each_result (build_stale_result env) stale) (\<lambda>ss.
       result_bind (each_result (group_result env) (group_by_scope_and_kind fresh)) (\<lambda>gs.
         Inr (sort_key cc_candidate_id (ss @ gs)))) = Inr rs \<and>
     mset (concat (map cc_source_candidate_ids rs)) = mset (map so_id u) \<and>
     (\<forall>c\<in>set rs. explained env stale_after now (set u) c)"
proof -
  have ok: "\<forall>x\<in>set fresh. valid_source x" "distinct (map so_id fresh)"
    using valid ids by (simp_all add: fresh_def distinct_map_filter)
  obtain gs where gs: "each_result (group_result env) (group_by_scope_and_kind fresh) = Inr gs"
    "list_all2 (\<lambda>g c. group_says env (set g) (map so_id g) c) (group_by_scope_and_kind fresh) gs"
    using each_result_all [of "group_by_scope_and_kind fresh" "group_result env"
        "\<lambda>g c. group_says env (set g) (map so_id g) c", OF group_result_ok [OF _ ok]] by blast
  obtain ss where ss: "each_result (build_stale_result env) stale = Inr ss"
    "list_all2 (\<lambda>x c. result_says x CD_STALE [so_id x] [] (so_confidence x) c) stale ss"
    using each_result_all [of stale "build_stale_result env"
        "\<lambda>x c. result_says x CD_STALE [so_id x] [] (so_confidence x) c", OF build_stale_result_ok] valid
    by (auto simp: stale_def)
  have "map cc_source_candidate_ids ss = map (\<lambda>x. [so_id x]) stale"
    by (rule list_all2_map_eq [OF ss(2)]) (simp add: result_says_def)
  moreover have "map cc_source_candidate_ids gs = map (map so_id) (group_by_scope_and_kind fresh)"
    by (rule list_all2_map_eq [OF gs(2)]) (simp add: group_says_def)
  ultimately have "mset (concat (map cc_source_candidate_ids (ss @ gs))) =
      image_mset so_id (mset stale + mset (concat (group_by_scope_and_kind fresh)))"
    by (simp add: concat_map_singleton flip: map_concat)
  also have "mset stale + mset (concat (group_by_scope_and_kind fresh)) = mset u"
    by (simp add: groups_mset stale_def fresh_def)
  finally have ids_once: "mset (concat (map cc_source_candidate_ids (ss @ gs))) = mset (map so_id u)" by simp
  have "explained env stale_after now (set u) c" if "c \<in> set gs" for c
    using list_all2_sources [OF gs(2)] that explained_group [of _ fresh env c "set u" now stale_after]
    by (auto simp: fresh_def)
  moreover have "explained env stale_after now (set u) c" if "c \<in> set ss" for c
    using list_all2_sources [OF ss(2)] that by (auto simp: explained_def result_says_def stale_def Let_def)
  ultimately show ?thesis using gs(1) ss(1) ids_once by (auto simp: mset_concat_map)
qed


section \<open>Records for the reviewer\<close>

lemma split_bars_word: "CHR ''|'' \<notin> set a \<Longrightarrow> split_bars a w = [w @ a]"
  by (induction a arbitrary: w) auto

lemma split_bars_step: "CHR ''|'' \<notin> set a \<Longrightarrow> split_bars (a @ CHR ''|'' # rest) w = (w @ a) # split_bars rest []"
  by (induction a arbitrary: w) auto

lemma split_join_ids:
  assumes "\<forall>i\<in>set ids. CHR ''|'' \<notin> set i \<and> i \<noteq> []"
  shows "split_candidate_ids (py_join ''|'' ids) = ids"
proof -
  have "split_bars (py_join ''|'' ids) [] = ids" if "ids \<noteq> []"
    using that assms by (induction "''|''" ids rule: py_join.induct) (simp_all add: split_bars_word split_bars_step)
  with assms show ?thesis by (cases "ids = []") (auto simp: split_candidate_ids_def intro: filter_True)
qed

lemma consolidation_decision_round_trip [simp]:
  "consolidation_decision_of_value (consolidation_decision_value d) = Some d"
  by (cases d) (simp_all add: consolidation_decision_of_value_def)

lemma consolidated_metadata:
  fixes c :: consolidation_candidate
  defines "m \<equiv> mc_metadata (consolidated_candidate c)"
  shows "dict_get m ''consolidation_decision'' = Some (consolidation_decision_value (cc_decision_kind c))"
    "dict_get m ''source_candidate_ids'' = Some (py_join ''|'' (cc_source_candidate_ids c))"
    "dict_get m ''supersedes_candidate_ids'' = Some (py_join ''|'' (cc_supersedes_candidate_ids c))"
  by (simp_all add: m_def consolidated_candidate_def Let_def dict_get_set)

lemma consolidated_fields:
  "mc_text (consolidated_candidate c) = py_strip (so_text (cc_proposed c))"
  "mc_salience (consolidated_candidate c) = so_salience (cc_proposed c)"
  "mc_confidence (consolidated_candidate c) = cc_confidence c"
  "mc_source (consolidated_candidate c) = CS_CONSOLIDATION"
  "mc_retention_policy (consolidated_candidate c) = RP_REVIEW_REQUIRED"
  "mc_review_required (consolidated_candidate c)"
  "mc_reason (consolidated_candidate c) = Some (cc_reason c)"
  "mc_actor_id (consolidated_candidate c) = so_actor_id (cc_proposed c)"
  "mc_space_id (consolidated_candidate c) = so_space_id (cc_proposed c)"
  "rr_candidate (consolidated_record env job c) = consolidated_candidate c"
  "rr_candidate_type (consolidated_record env job c) = CT_CONSOLIDATION"
  "rr_actor_id (consolidated_record env job c) = so_actor_id (cc_proposed c)"
  "rr_account_id (consolidated_record env job c) = so_account_id (cc_proposed c)"
  "rr_space_id (consolidated_record env job c) = so_space_id (cc_proposed c)"
  by (simp_all add: consolidated_candidate_def consolidated_record_def Let_def)

text \<open>What the contract of a result guarantees, and the proposed candidate's own, are all the reviewer's payload needs.\<close>

lemma consolidated_detail:
  assumes c: "validate_consolidation_candidate c = Inr c"
    and p: "valid_source (cc_proposed c)" "py_strip (so_text (cc_proposed c)) \<noteq> []"
    and bars: "\<forall>i\<in>set (cc_source_candidate_ids c). CHR ''|'' \<notin> set i \<and> i \<noteq> []"
  shows "\<exists>d. detail_from_record (consolidated_record env job c) = Inr d"
proof -
  have ids: "set (cc_supersedes_candidate_ids c) \<subseteq> set (cc_source_candidate_ids c)" "cc_source_candidate_ids c \<noteq> []"
    "\<forall>i\<in>set (cc_source_candidate_ids c). \<not> blank (codes i)" "0 \<le> cc_confidence c \<and> cc_confidence c \<le> 1" "cc_reason c \<noteq> []"
    using c by (auto simp: validate_consolidation_candidate_def split: if_splits)
  then have blanks: "\<not> (\<exists>i\<in>set (cc_source_candidate_ids c). blank (codes i))"
    "\<not> (\<exists>i\<in>set (cc_supersedes_candidate_ids c). blank (codes i))" by blast+
  have splits: "split_candidate_ids (py_join ''|'' (cc_source_candidate_ids c)) = cc_source_candidate_ids c"
    "split_candidate_ids (py_join ''|'' (cc_supersedes_candidate_ids c)) = cc_supersedes_candidate_ids c"
    using bars ids(1) by (auto intro!: split_join_ids)
  have sal: "0 \<le> so_salience (cc_proposed c) \<and> so_salience (cc_proposed c) \<le> 1"
    using p(1) by (simp add: valid_source_def validate_source_candidate_def split: if_splits)
  have "\<exists>q. consolidation_payload_of (consolidated_record env job c) = Inr q \<and>
      cp_actor_id q = so_actor_id (cc_proposed c) \<and> cp_account_id q = so_account_id (cc_proposed c) \<and>
      cp_space_id q = so_space_id (cc_proposed c)"
    using ids sal p(2) blanks
    by (simp add: consolidation_payload_of_def decision_kind_of_def consolidated_metadata consolidated_fields
        metadata_get_def splits validate_consolidation_payload_def consolidation_reason_def Let_def)
  then show ?thesis
    by (auto simp: detail_from_record_def detail_with_def validate_detail_def validate_consolidation_detail_def
        scope_from_record_def consolidated_fields)
qed


lemma explained_result:
  assumes "explained env stale_after now A c" "\<forall>x\<in>A. valid_source x \<and> consolidation_accept ct x \<and> CHR ''|'' \<notin> set (so_id x)"
  shows "\<exists>d. detail_from_record (consolidated_record env' job c) = Inr d"
proof (rule consolidated_detail)
  let ?p = "cc_proposed c"
  have p: "?p \<in> A" "validate_consolidation_candidate c = Inr c"
    using assms(1) by (auto simp: explained_def Let_def group_says_def result_says_def split: if_splits)
  then show "validate_consolidation_candidate c = Inr c" "valid_source ?p" "py_strip (so_text ?p) \<noteq> []"
    using assms(2) by (auto simp: consolidation_accept_def Let_def)
  have sub: "set (cc_source_candidate_ids c) \<subseteq> so_id ` A"
    using assms(1) by (auto simp: explained_def Let_def result_says_def split: if_splits)
  have ne: "so_id x \<noteq> []" if "x \<in> A" for x
    using assms(2) that by (force simp: valid_source_def validate_source_candidate_def split: if_splits)
  show "\<forall>i\<in>set (cc_source_candidate_ids c). CHR ''|'' \<notin> set i \<and> i \<noteq> []"
  proof
    fix i
    assume "i \<in> set (cc_source_candidate_ids c)"
    with sub obtain x where "x \<in> A" "i = so_id x" by blast
    with assms(2) ne [of x] show "CHR ''|'' \<notin> set i \<and> i \<noteq> []" by simp
  qed
qed

text \<open>
  The records of the worker enter the review pending, as the step relation of the review system asks, and storing them
  never fails: each one is stored, or one with its id or its idempotency key is there.
\<close>

lemma consolidated_record_pending:
  "rr_status (consolidated_record env job c) = RV_PENDING_REVIEW \<and> rr_promoted_memory_id (consolidated_record env job c) = None \<and>
     rr_reviewed_at (consolidated_record env job c) = None"
  by (simp add: consolidated_record_def Let_def)

lemma add_all_ok:
  "review_store_ok s \<Longrightarrow> fst (add_all rs s) = Inr () \<and> review_store_ok (snd (add_all rs s))"
proof (induction rs arbitrary: s)
  case (Cons r rs)
  from Cons.prems obtain x where "fst (review_add_nowait s r) = Inr x"
    by (cases rule: review_add_cases [of s r]) auto
  then obtain s' where s': "review_add_nowait s r = (Inr x, s')" by (cases "review_add_nowait s r") auto
  with review_add_nowait_ok [OF Cons.prems, of r] Cons.IH [of s'] show ?case by simp
qed simp

section \<open>Property\<close>


definition example_source :: "string \<Rightarrow> source_candidate" where
  "example_source i = \<lparr>so_id = i, so_text = codes '' tea '', so_kind = MK_PREFERENCE, so_salience = 1 / 2,
     so_confidence = 1 / 2, so_source = CS_IMPLICIT_CONVERSATION, so_reason = None,
     so_retention_policy = RP_REVIEW_REQUIRED, so_sensitivity = SE_NORMAL, so_actor_id = Some ''a'', so_account_id = None,
     so_space_id = None, so_source_observation_id = None, so_created_at = 0, so_metadata = []\<rparr>"

definition example_consolidation :: consolidation_env where
  "example_consolidation = \<lparr>ce_tables = pe_tables example_env, ce_nfkc = (\<lambda>t. t), ce_casefold = (\<lambda>t. t),
     ce_punctuation = (\<lambda>c. False), ce_sha256_hexdigest = (\<lambda>s. s)\<rparr>"

lemma example_source_accepted: "consolidation_accept (ce_tables example_consolidation) (example_source i)"
  using example_text_safe
  by (simp add: consolidation_accept_def example_source_def example_consolidation_def example_text Let_def)


end
