(* ===== verification/Schema_Migrations.thy ===== *)
theory Schema_Migrations
  imports Iris_Prelude
begin

text \<open>
  The SQLite schema: the statements of the nine migrations
  (\<^verbatim>\<open>adapters/persistence/sqlite/migrations\<close>), what they do to the catalog of a
  database, and the migration runner of
  \<^verbatim>\<open>adapters/persistence/sqlite/migrator.py\<close> that brings a database file to the current
  version.

  \<^item> A database is its catalog (tables, virtual tables and views with their columns, and named
    indexes), \<^verbatim>\<open>PRAGMA user_version\<close>, the rows of \<^verbatim>\<open>schema_migrations\<close>
    keyed by \<^verbatim>\<open>version\<close>, the ids and texts of \<^verbatim>\<open>memories\<close> and of its
    full-text copy, what \<^verbatim>\<open>PRAGMA quick_check\<close> and \<^verbatim>\<open>journal_mode\<close>
    answer, whether another connection holds the write lock, and the names of the unique indexes
    that the stored rows would violate. Column types, defaults and the shadow tables of
    \<^verbatim>\<open>fts5\<close> are not kept; every added column of the migrations is nullable or has a
    default, so existing rows never reject it.
  \<^item> A statement either changes the catalog or raises \<^verbatim>\<open>sqlite3.DatabaseError\<close>; the
    runner's transaction is the return of the database as it was.
  \<^item> The text of a statement, SHA-256 and the clock are parameters.
\<close>

section \<open>Catalog and statements\<close>

datatype table_kind = Base_Table | Virtual_Table | View

record sql_catalog =
  cat_tables :: "(string, table_kind \<times> string list) dict"
  cat_indexes :: "string list"

datatype sql_statement =
    CREATE_TABLE string "string list"
  | CREATE_VIRTUAL_TABLE string "string list"
  | CREATE_INDEX bool string string "string list"
  | ADD_COLUMN string string
  | FILL_MEMORIES_FTS

text \<open>What \<^verbatim>\<open>sqlite3.DatabaseError\<close> reports for these statements.\<close>

datatype sql_error =
    No_Such_Table string
  | No_Such_Column string
  | Duplicate_Column string
  | Not_A_Base_Table string
  | Name_Taken string
  | Unique_Violated string
  | Database_Locked
  | Unable_To_Open
  | Not_A_Database string

definition table_exists :: "sql_catalog \<Rightarrow> string \<Rightarrow> bool" where
  "table_exists c t \<longleftrightarrow> dict_get (cat_tables c) t \<noteq> None"

definition table_columns :: "sql_catalog \<Rightarrow> string \<Rightarrow> string list" where
  "table_columns c t = (case dict_get (cat_tables c) t of None \<Rightarrow> [] | Some (k, cols) \<Rightarrow> cols)"

fun create_object :: "table_kind \<Rightarrow> string \<Rightarrow> string list \<Rightarrow> sql_catalog \<Rightarrow> sql_error + sql_catalog" where
  "create_object kind t cols c =
     (if table_exists c t then Inr c
      else if t \<in> set (cat_indexes c) then Inl (Name_Taken t)
      else Inr (c\<lparr>cat_tables := dict_set t (kind, cols) (cat_tables c)\<rparr>))"

fun missing_column :: "string list \<Rightarrow> string list \<Rightarrow> string option" where
  "missing_column cols existing = List.find (\<lambda>col. col \<notin> set existing) cols"

fun create_index :: "string \<Rightarrow> string \<Rightarrow> string list \<Rightarrow> sql_catalog \<Rightarrow> sql_error + sql_catalog" where
  "create_index i t cols c =
     (case dict_get (cat_tables c) t of
        None \<Rightarrow> Inl (No_Such_Table t)
      | Some (kind, existing) \<Rightarrow>
          if kind \<noteq> Base_Table then Inl (Not_A_Base_Table t)
          else if table_exists c i then Inl (Name_Taken i)
          else if i \<in> set (cat_indexes c) then Inr c
          else (case missing_column cols existing of
                  Some col \<Rightarrow> Inl (No_Such_Column col)
                | None \<Rightarrow> Inr (c\<lparr>cat_indexes := cat_indexes c @ [i]\<rparr>)))"

fun add_column :: "string \<Rightarrow> string \<Rightarrow> sql_catalog \<Rightarrow> sql_error + sql_catalog" where
  "add_column t col c =
     (case dict_get (cat_tables c) t of
        None \<Rightarrow> Inl (No_Such_Table t)
      | Some (kind, existing) \<Rightarrow>
          if kind \<noteq> Base_Table then Inl (Not_A_Base_Table t)
          else if col \<in> set existing then Inl (Duplicate_Column col)
          else Inr (c\<lparr>cat_tables := dict_set t (kind, existing @ [col]) (cat_tables c)\<rparr>))"

fun insert_target :: "string \<Rightarrow> string list \<Rightarrow> sql_catalog \<Rightarrow> sql_error option" where
  "insert_target t cols c =
     (case dict_get (cat_tables c) t of
        None \<Rightarrow> Some (No_Such_Table t)
      | Some (kind, existing) \<Rightarrow>
          if kind = View then Some (Not_A_Base_Table t)
          else map_option No_Such_Column (missing_column cols existing))"

fun select_source :: "string \<Rightarrow> string list \<Rightarrow> sql_catalog \<Rightarrow> sql_error option" where
  "select_source t cols c =
     (case dict_get (cat_tables c) t of
        None \<Rightarrow> Some (No_Such_Table t)
      | Some (kind, existing) \<Rightarrow> map_option No_Such_Column (missing_column cols existing))"

fun exec_catalog :: "sql_statement \<Rightarrow> sql_catalog \<Rightarrow> sql_error + sql_catalog" where
  "exec_catalog (CREATE_TABLE t cols) c = create_object Base_Table t cols c"
| "exec_catalog (CREATE_VIRTUAL_TABLE t cols) c = create_object Virtual_Table t cols c"
| "exec_catalog (CREATE_INDEX uniq i t cols) c = create_index i t cols c"
| "exec_catalog (ADD_COLUMN t col) c = add_column t col c"
| "exec_catalog FILL_MEMORIES_FTS c =
     (case insert_target ''memories_fts5'' [''text'', ''memory_id''] c of
        Some e \<Rightarrow> Inl e
      | None \<Rightarrow> (case select_source ''memories'' [''text'', ''memory_id''] c of
                  Some e \<Rightarrow> Inl e
                | None \<Rightarrow> Inr c))"

section \<open>Migrations\<close>

text \<open>
  A \<^verbatim>\<open>SQLiteMigration\<close>. The \<^verbatim>\<open>skip_if\<close> callables of the registry read
  \<^verbatim>\<open>pragma_table_info\<close> only, hence a predicate on the catalog.
\<close>

record sqlite_migration =
  mg_version :: int
  mg_name :: string
  statements :: "sql_statement list"
  skip_if :: "(sql_catalog \<Rightarrow> bool) option"

record schema_env =
  sql_text :: "sql_statement \<Rightarrow> string"
  sha256_hexdigest :: "string \<Rightarrow> string"
  clock_isoformat :: "int \<Rightarrow> string"

definition checksum :: "schema_env \<Rightarrow> sqlite_migration \<Rightarrow> string" where
  "checksum env m =
     sha256_hexdigest env
       (py_join ([CHR 0x0A] @ ''-- statement --'' @ [CHR 0x0A])
          (mg_name m # map (sql_text env) (statements m)))"

definition presentation_hints_column_exists :: "sql_catalog \<Rightarrow> bool" where
  "presentation_hints_column_exists c \<longleftrightarrow>
     ''action_presentation_hints_json'' \<in> set (table_columns c ''delivery_outbox'')"

definition safety_audit_model_versions_column_exists :: "sql_catalog \<Rightarrow> bool" where
  "safety_audit_model_versions_column_exists c \<longleftrightarrow>
     ''model_versions'' \<in> set (table_columns c ''safety_audit_records'')"

definition BASELINE_V1 :: sqlite_migration where
  "BASELINE_V1 = \<lparr>mg_version = 1, mg_name = ''baseline_runtime_state'',
     statements =
      [CREATE_TABLE ''schema_migrations''
         [''version'', ''name'', ''checksum'', ''applied_at''],
       CREATE_TABLE ''accounts''
         [''account_id'', ''provider'', ''provider_subject'', ''display_name'',
          ''linked_actor_id'', ''metadata_json''],
       CREATE_INDEX True ''uq_accounts_provider_subject'' ''accounts''
         [''provider'', ''provider_subject''],
       CREATE_TABLE ''memories''
         [''memory_id'', ''text'', ''actor_id'', ''space_id'', ''salience'', ''kind'',
          ''confidence'', ''source_observation_id'', ''created_at'', ''updated_at'',
          ''archived'', ''metadata_json''],
       CREATE_INDEX False ''idx_memories_actor_id'' ''memories''
         [''actor_id''],
       CREATE_INDEX False ''idx_memories_space_id'' ''memories''
         [''space_id''],
       CREATE_INDEX False ''idx_memories_kind'' ''memories''
         [''kind''],
       CREATE_INDEX False ''idx_memories_archived'' ''memories''
         [''archived''],
       CREATE_VIRTUAL_TABLE ''memories_fts5'' [''text'', ''memory_id''],
       FILL_MEMORIES_FTS,
       CREATE_TABLE ''relationship_snapshots''
         [''actor_id'', ''actor_label'', ''affinity'', ''trust'', ''familiarity'',
          ''relationship_summary'', ''source_observation_id'', ''created_at'', ''updated_at'',
          ''version''],
       CREATE_TABLE ''affect_baselines''
         [''owner_key'', ''scope'', ''actor_id'', ''mood_label'', ''valence'', ''arousal'',
          ''dominance'', ''affect_summary'', ''source_observation_id'', ''created_at'',
          ''updated_at'', ''version''],
       CREATE_TABLE ''activity_events''
         [''activity_id'', ''source'', ''provider_event_id'', ''actor_id'', ''space_id'',
          ''activity_kind'', ''occurred_at'', ''received_at'', ''payload_json''],
       CREATE_INDEX True ''idx_activity_events_provider_event'' ''activity_events''
         [''source'', ''provider_event_id''],
       CREATE_INDEX False ''idx_activity_events_occurred_at'' ''activity_events''
         [''occurred_at''],
       CREATE_TABLE ''delivery_outbox''
         [''delivery_id'', ''idempotency_key'', ''status'', ''created_at'', ''updated_at'',
          ''not_before'', ''attempts'', ''max_attempts'', ''lease_id'', ''lease_expires_at'',
          ''blocked_reason'', ''last_error_reason'', ''source_observation_id'',
          ''target_provider'', ''target_provider_subject'', ''target_provider_space_ref'',
          ''target_session_id'', ''target_actor_id'', ''target_account_id'', ''target_space_id'',
          ''action_type'', ''action_id'', ''action_session_id'', ''action_correlation_id'',
          ''action_text''],
       CREATE_INDEX True ''uq_delivery_outbox_idempotency_key'' ''delivery_outbox''
         [''idempotency_key''],
       CREATE_INDEX False ''delivery_outbox_due_idx'' ''delivery_outbox''
         [''target_provider'', ''status'', ''created_at'', ''delivery_id''],
       CREATE_TABLE ''delivery_report_fingerprints''
         [''fingerprint_key'', ''delivery_id'', ''lease_id'', ''action_id'', ''correlation_id'',
          ''status'', ''external_message_id'', ''error_reason''],
       CREATE_INDEX False ''delivery_report_lease_idx'' ''delivery_report_fingerprints''
         [''delivery_id'', ''lease_id''],
       CREATE_TABLE ''scheduler_targets''
         [''provider'', ''provider_subject'', ''provider_space_ref'', ''session_id'',
          ''actor_id'', ''account_id'', ''space_id'', ''display_name'', ''last_observed_at'',
          ''last_scheduler_attempt_at'', ''stale_after'', ''route_display_name'']],
     skip_if = None\<rparr>"

definition RUNTIME_LEARNING_STATE_V2 :: sqlite_migration where
  "RUNTIME_LEARNING_STATE_V2 = \<lparr>mg_version = 2, mg_name = ''runtime_learning_state'',
     statements =
      [CREATE_TABLE ''background_jobs''
         [''job_id'', ''kind'', ''payload_type'', ''payload_json'', ''status'', ''attempts'',
          ''max_attempts'', ''not_before'', ''leased_until'', ''idempotency_key'',
          ''created_at'', ''updated_at'', ''last_error''],
       CREATE_INDEX False ''idx_background_jobs_due'' ''background_jobs''
         [''status'', ''not_before'', ''created_at'', ''job_id''],
       CREATE_INDEX False ''idx_background_jobs_kind_status'' ''background_jobs''
         [''kind'', ''status'', ''created_at'', ''job_id''],
       CREATE_TABLE ''memory_candidate_reviews''
         [''candidate_id'', ''idempotency_key'', ''status'', ''candidate_json'',
          ''candidate_text'', ''candidate_kind'', ''candidate_source'', ''candidate_reason'',
          ''candidate_confidence'', ''candidate_salience'', ''candidate_retention_policy'',
          ''candidate_sensitivity'', ''candidate_review_required'', ''actor_id'', ''account_id'',
          ''space_id'', ''source_observation_id'', ''reviewed_at'', ''reviewed_by'',
          ''review_reason'', ''promoted_memory_id'', ''metadata_json'', ''created_at'',
          ''updated_at''],
       CREATE_INDEX False ''idx_memory_candidate_reviews_status_created'' ''memory_candidate_reviews''
         [''status'', ''created_at'', ''candidate_id''],
       CREATE_INDEX False ''idx_memory_candidate_reviews_actor_status'' ''memory_candidate_reviews''
         [''actor_id'', ''status'', ''created_at'', ''candidate_id''],
       CREATE_INDEX False ''idx_memory_candidate_reviews_account_status'' ''memory_candidate_reviews''
         [''account_id'', ''status'', ''created_at'', ''candidate_id''],
       CREATE_INDEX False ''idx_memory_candidate_reviews_space_status'' ''memory_candidate_reviews''
         [''space_id'', ''status'', ''created_at'', ''candidate_id''],
       CREATE_INDEX False ''idx_memory_candidate_reviews_source_observation'' ''memory_candidate_reviews''
         [''source_observation_id'']],
     skip_if = None\<rparr>"

definition CONVERSATION_TRANSCRIPTS_V3 :: sqlite_migration where
  "CONVERSATION_TRANSCRIPTS_V3 = \<lparr>mg_version = 3, mg_name = ''conversation_transcripts'',
     statements =
      [CREATE_TABLE ''conversation_transcripts''
         [''transcript_id'', ''subject_kind'', ''subject_id'', ''space_id'', ''session_id'',
          ''actor_id'', ''account_id'', ''observation_id'', ''role'', ''source'', ''content'',
          ''occurred_at'', ''recorded_at'', ''retention_until'', ''metadata_json''],
       CREATE_INDEX False ''idx_conversation_transcripts_key_time'' ''conversation_transcripts''
         [''subject_kind'', ''subject_id'', ''space_id'', ''occurred_at'', ''transcript_id''],
       CREATE_INDEX False ''idx_conversation_transcripts_account_time'' ''conversation_transcripts''
         [''account_id'', ''occurred_at'', ''transcript_id''],
       CREATE_INDEX False ''idx_conversation_transcripts_actor_time'' ''conversation_transcripts''
         [''actor_id'', ''occurred_at'', ''transcript_id''],
       CREATE_INDEX False ''idx_conversation_transcripts_session_time'' ''conversation_transcripts''
         [''session_id'', ''occurred_at'', ''transcript_id''],
       CREATE_INDEX False ''idx_conversation_transcripts_retention'' ''conversation_transcripts''
         [''retention_until'']],
     skip_if = None\<rparr>"

definition SAFETY_AUDIT_V4 :: sqlite_migration where
  "SAFETY_AUDIT_V4 = \<lparr>mg_version = 4, mg_name = ''safety_audit_records'',
     statements =
      [CREATE_TABLE ''safety_audit_records''
         [''audit_id'', ''observation_id'', ''occurred_at'', ''stage'', ''allowed'', ''reason'',
          ''risk_level'', ''source'', ''target_key'', ''policy'', ''policy_version'',
          ''retention_until''],
       CREATE_INDEX False ''idx_safety_audit_target_stage_allowed_time'' ''safety_audit_records''
         [''target_key'', ''stage'', ''allowed'', ''occurred_at''],
       CREATE_INDEX False ''idx_safety_audit_occurred_at'' ''safety_audit_records''
         [''occurred_at''],
       CREATE_INDEX False ''idx_safety_audit_retention'' ''safety_audit_records''
         [''retention_until'']],
     skip_if = None\<rparr>"

definition REVIEW_CANDIDATE_TYPE_V5 :: sqlite_migration where
  "REVIEW_CANDIDATE_TYPE_V5 = \<lparr>mg_version = 5, mg_name = ''review_candidate_type'',
     statements =
      [ADD_COLUMN ''memory_candidate_reviews'' ''candidate_type'',
       CREATE_INDEX False ''idx_memory_candidate_reviews_type_status_created'' ''memory_candidate_reviews''
         [''candidate_type'', ''status'', ''created_at'', ''candidate_id'']],
     skip_if = None\<rparr>"

definition BACKGROUND_JOB_PRESSURE_V6 :: sqlite_migration where
  "BACKGROUND_JOB_PRESSURE_V6 = \<lparr>mg_version = 6, mg_name = ''background_job_pressure'',
     statements =
      [ADD_COLUMN ''background_jobs'' ''resource_profile_json'',
       ADD_COLUMN ''background_jobs'' ''defer_reason'',
       CREATE_INDEX False ''idx_background_jobs_kind_status_not_before'' ''background_jobs''
         [''kind'', ''status'', ''not_before''],
       CREATE_INDEX False ''idx_background_jobs_non_terminal'' ''background_jobs''
         [''status'', ''kind'', ''leased_until'']],
     skip_if = None\<rparr>"

definition PRESENTATION_HINTS_V7 :: sqlite_migration where
  "PRESENTATION_HINTS_V7 = \<lparr>mg_version = 7, mg_name = ''presentation_hints'',
     statements =
      [ADD_COLUMN ''delivery_outbox'' ''action_presentation_hints_json''],
     skip_if = Some presentation_hints_column_exists\<rparr>"

definition TRANSCRIPT_CLEANUP_V8 :: sqlite_migration where
  "TRANSCRIPT_CLEANUP_V8 = \<lparr>mg_version = 8, mg_name = ''transcript_cleanup'',
     statements =
      [ADD_COLUMN ''conversation_transcripts'' ''legal_hold_until'',
       CREATE_INDEX False ''idx_conversation_transcripts_legal_hold'' ''conversation_transcripts''
         [''legal_hold_until''],
       CREATE_TABLE ''transcript_cleanup_operations''
         [''operation_id'', ''request_fingerprint'', ''result_json'', ''created_at'']],
     skip_if = None\<rparr>"

definition DELIVERY_USER_CONTROL_AND_AUDIT_VERSIONS_V9 :: sqlite_migration where
  "DELIVERY_USER_CONTROL_AND_AUDIT_VERSIONS_V9 = \<lparr>mg_version = 9,
     mg_name = ''delivery_user_controls_and_audit_model_versions'',
     statements =
      [CREATE_TABLE ''delivery_user_controls''
         [''target_key'', ''opt_out'', ''muted'', ''blocked'', ''interruptions_allowed'',
          ''updated_at''],
       ADD_COLUMN ''safety_audit_records'' ''model_versions''],
     skip_if = Some safety_audit_model_versions_column_exists\<rparr>"

definition available_migrations :: "sqlite_migration list" where
  "available_migrations =
     [BASELINE_V1, RUNTIME_LEARNING_STATE_V2, CONVERSATION_TRANSCRIPTS_V3, SAFETY_AUDIT_V4,
      REVIEW_CANDIDATE_TYPE_V5, BACKGROUND_JOB_PRESSURE_V6, PRESENTATION_HINTS_V7,
      TRANSCRIPT_CLEANUP_V8, DELIVERY_USER_CONTROL_AND_AUDIT_VERSIONS_V9]"

definition CURRENT_SQLITE_SCHEMA_VERSION :: int where
  "CURRENT_SQLITE_SCHEMA_VERSION = 9"

section \<open>Required columns\<close>

definition BACKGROUND_JOB_REQUIRED_COLUMNS :: "string list" where
  "BACKGROUND_JOB_REQUIRED_COLUMNS =
     [''job_id'', ''kind'', ''payload_type'', ''payload_json'', ''status'', ''attempts'',
      ''max_attempts'', ''not_before'', ''resource_profile_json'', ''leased_until'',
      ''idempotency_key'', ''created_at'', ''updated_at'', ''last_error'', ''defer_reason'']"

definition MEMORY_CANDIDATE_REVIEW_REQUIRED_COLUMNS :: "string list" where
  "MEMORY_CANDIDATE_REVIEW_REQUIRED_COLUMNS =
     [''candidate_id'', ''idempotency_key'', ''status'', ''candidate_type'', ''candidate_json'',
      ''candidate_text'', ''candidate_kind'', ''candidate_source'', ''candidate_reason'',
      ''candidate_confidence'', ''candidate_salience'', ''candidate_retention_policy'',
      ''candidate_sensitivity'', ''candidate_review_required'', ''actor_id'', ''account_id'',
      ''space_id'', ''source_observation_id'', ''reviewed_at'', ''reviewed_by'',
      ''review_reason'', ''promoted_memory_id'', ''metadata_json'', ''created_at'',
      ''updated_at'']"

definition CONVERSATION_TRANSCRIPT_REQUIRED_COLUMNS :: "string list" where
  "CONVERSATION_TRANSCRIPT_REQUIRED_COLUMNS =
     [''transcript_id'', ''subject_kind'', ''subject_id'', ''space_id'', ''session_id'',
      ''actor_id'', ''account_id'', ''observation_id'', ''role'', ''source'', ''content'',
      ''occurred_at'', ''recorded_at'', ''retention_until'', ''metadata_json'',
      ''legal_hold_until'']"

definition TRANSCRIPT_CLEANUP_OPERATIONS_REQUIRED_COLUMNS :: "string list" where
  "TRANSCRIPT_CLEANUP_OPERATIONS_REQUIRED_COLUMNS =
     [''operation_id'', ''request_fingerprint'', ''result_json'', ''created_at'']"

definition SAFETY_AUDIT_REQUIRED_COLUMNS :: "string list" where
  "SAFETY_AUDIT_REQUIRED_COLUMNS =
     [''audit_id'', ''observation_id'', ''occurred_at'', ''stage'', ''allowed'', ''reason'',
      ''risk_level'', ''source'', ''target_key'', ''policy'', ''policy_version'',
      ''retention_until'', ''model_versions'']"

definition DELIVERY_USER_CONTROLS_REQUIRED_COLUMNS :: "string list" where
  "DELIVERY_USER_CONTROLS_REQUIRED_COLUMNS =
     [''target_key'', ''opt_out'', ''muted'', ''blocked'', ''interruptions_allowed'',
      ''updated_at'']"

definition REQUIRED_COLUMNS :: "(string, string list) dict" where
  "REQUIRED_COLUMNS =
     [(''schema_migrations'',
       [''version'', ''name'', ''checksum'', ''applied_at'']),
      (''accounts'',
       [''account_id'', ''provider'', ''provider_subject'', ''display_name'',
        ''linked_actor_id'', ''metadata_json'']),
      (''memories'',
       [''memory_id'', ''text'', ''actor_id'', ''space_id'', ''salience'', ''kind'',
        ''confidence'', ''source_observation_id'', ''created_at'', ''updated_at'', ''archived'',
        ''metadata_json'']),
      (''memories_fts5'',
       [''text'', ''memory_id'']),
      (''relationship_snapshots'',
       [''actor_id'', ''actor_label'', ''affinity'', ''trust'', ''familiarity'',
        ''relationship_summary'', ''source_observation_id'', ''created_at'', ''updated_at'',
        ''version'']),
      (''affect_baselines'',
       [''owner_key'', ''scope'', ''actor_id'', ''mood_label'', ''valence'', ''arousal'',
        ''dominance'', ''affect_summary'', ''source_observation_id'', ''created_at'',
        ''updated_at'', ''version'']),
      (''activity_events'',
       [''activity_id'', ''source'', ''provider_event_id'', ''actor_id'', ''space_id'',
        ''activity_kind'', ''occurred_at'', ''received_at'', ''payload_json'']),
      (''delivery_outbox'',
       [''delivery_id'', ''idempotency_key'', ''status'', ''created_at'', ''updated_at'',
        ''not_before'', ''attempts'', ''max_attempts'', ''lease_id'', ''lease_expires_at'',
        ''blocked_reason'', ''last_error_reason'', ''source_observation_id'',
        ''target_provider'', ''target_provider_subject'', ''target_provider_space_ref'',
        ''target_session_id'', ''target_actor_id'', ''target_account_id'', ''target_space_id'',
        ''action_type'', ''action_id'', ''action_session_id'', ''action_correlation_id'',
        ''action_text'', ''action_presentation_hints_json'']),
      (''delivery_report_fingerprints'',
       [''fingerprint_key'', ''delivery_id'', ''lease_id'', ''action_id'', ''correlation_id'',
        ''status'', ''external_message_id'', ''error_reason'']),
      (''scheduler_targets'',
       [''provider'', ''provider_subject'', ''provider_space_ref'', ''session_id'', ''actor_id'',
        ''account_id'', ''space_id'', ''display_name'', ''last_observed_at'',
        ''last_scheduler_attempt_at'', ''stale_after'', ''route_display_name'']),
      (''background_jobs'', BACKGROUND_JOB_REQUIRED_COLUMNS),
      (''memory_candidate_reviews'', MEMORY_CANDIDATE_REVIEW_REQUIRED_COLUMNS),
      (''conversation_transcripts'', CONVERSATION_TRANSCRIPT_REQUIRED_COLUMNS),
      (''transcript_cleanup_operations'', TRANSCRIPT_CLEANUP_OPERATIONS_REQUIRED_COLUMNS),
      (''safety_audit_records'', SAFETY_AUDIT_REQUIRED_COLUMNS),
      (''delivery_user_controls'', DELIVERY_USER_CONTROLS_REQUIRED_COLUMNS)]"

text \<open>Columns that the audit and user control tables must not have: raw content.\<close>

definition SAFETY_AUDIT_FORBIDDEN_RAW_CONTENT_COLUMNS :: "string list" where
  "SAFETY_AUDIT_FORBIDDEN_RAW_CONTENT_COLUMNS =
     [''text'', ''content'', ''body'', ''prompt'', ''output'', ''generated_output'',
      ''generated_text'', ''user_text'', ''raw_user_text'', ''generated_output_body'']"

definition DELIVERY_USER_CONTROLS_FORBIDDEN_RAW_CONTENT_COLUMNS :: "string list" where
  "DELIVERY_USER_CONTROLS_FORBIDDEN_RAW_CONTENT_COLUMNS =
     [''text'', ''content'', ''body'', ''prompt'', ''output'', ''generated_output'',
      ''generated_text'', ''user_text'', ''raw_user_text'', ''generated_output_body'']"

definition UNVERSIONED_ADOPTION_OPTIONAL_COLUMNS :: "(string, string list) dict" where
  "UNVERSIONED_ADOPTION_OPTIONAL_COLUMNS =
     [(''delivery_outbox'', [''action_presentation_hints_json''])]"

section \<open>Databases and database files\<close>

record schema_db =
  catalog :: sql_catalog
  user_version :: int
  migration_rows :: "(int, string \<times> string \<times> string) dict"
  memory_rows :: "(string \<times> string) list"
  fts_rows :: "(string \<times> string) list"
  quick_check_row :: "sql_error + string option"
  journal_mode :: "string option"
  write_locked :: bool
  violated_uniques :: "string list"

datatype db_file = Missing_File | Directory | Db_File schema_db

definition empty_db :: schema_db where
  "empty_db = \<lparr>catalog = \<lparr>cat_tables = [], cat_indexes = []\<rparr>, user_version = 0,
     migration_rows = [], memory_rows = [], fts_rows = [], quick_check_row = Inr (Some ''ok''),
     journal_mode = Some ''delete'', write_locked = False, violated_uniques = []\<rparr>"

text \<open>
  One statement on a database. A new unique index fails when stored rows violate it; the
  \<^verbatim>\<open>INSERT ... SELECT\<close> of the baseline copies the memories that the full-text table
  does not hold yet.
\<close>

definition exec_statement :: "sql_statement \<Rightarrow> schema_db \<Rightarrow> sql_error + schema_db" where
  "exec_statement s db =
     result_bind (exec_catalog s (catalog db)) (\<lambda>c.
       case s of
         CREATE_INDEX uniq i t cols \<Rightarrow>
           if uniq \<and> i \<notin> set (cat_indexes (catalog db)) \<and> i \<in> set (violated_uniques db)
           then Inl (Unique_Violated i) else Inr (db\<lparr>catalog := c\<rparr>)
       | FILL_MEMORIES_FTS \<Rightarrow>
           Inr (db\<lparr>catalog := c,
                  fts_rows := fts_rows db @
                    filter (\<lambda>m. fst m \<notin> fst ` set (fts_rows db)) (memory_rows db)\<rparr>)
       | _ \<Rightarrow> Inr (db\<lparr>catalog := c\<rparr>))"

section \<open>The migration runner\<close>

datatype corrupt_reason = Path_Is_Directory | Quick_Check_Result string | Database_Error sql_error

datatype schema_error =
    SQLiteMigrationError int sql_error
  | SQLiteUnsupportedSchemaVersionError int
  | SQLiteCorruptDatabaseError corrupt_reason
  | Not_Adoptable "string list"
  | Not_Compatible "string list"
  | SQLiteMigrationHistoryError "int list" "int list"

datatype migration_status = INITIALIZED | UPGRADED | ALREADY_CURRENT

record migration_result =
  previous_version :: int
  current_version :: int
  mr_status :: migration_status
  applied_versions :: "int list"

record schema_status =
  ss_exists :: bool
  ss_user_version :: "int option"
  ss_current_version :: int
  latest_migration :: "string option"
  latest_migration_version :: "int option"
  ss_pending_versions :: "int list"
  ss_quick_check :: "string option"
  wal_checkpoint :: "string option"

definition sorted_migrations :: "sqlite_migration list \<Rightarrow> sqlite_migration list" where
  "sorted_migrations ms = sort_key mg_version ms"

definition quick_check :: "schema_db \<Rightarrow> schema_error + string" where
  "quick_check db =
     (case quick_check_row db of
        Inl e \<Rightarrow> Inl (SQLiteCorruptDatabaseError (Database_Error e))
      | Inr None \<Rightarrow> Inr ''quick_check returned no rows''
      | Inr (Some r) \<Rightarrow> Inr r)"

definition assert_quick_check :: "schema_db \<Rightarrow> schema_error + unit" where
  "assert_quick_check db =
     result_bind (quick_check db) (\<lambda>r.
       if r \<noteq> ''ok'' then Inl (SQLiteCorruptDatabaseError (Quick_Check_Result r)) else Inr ())"

definition assert_supported_version :: "int \<Rightarrow> schema_error + unit" where
  "assert_supported_version v =
     (if v \<le> CURRENT_SQLITE_SCHEMA_VERSION then Inr ()
      else Inl (SQLiteUnsupportedSchemaVersionError v))"

definition missing_columns :: "sql_catalog \<Rightarrow> string \<Rightarrow> string list \<Rightarrow> string list" where
  "missing_columns c t required =
     (if \<not> table_exists c t then [t @ ''.*'']
      else map (\<lambda>col. t @ ''.'' @ col) (filter (\<lambda>col. col \<notin> set (table_columns c t)) required))"

definition validate_current_schema :: "sql_catalog \<Rightarrow> schema_error + unit" where
  "validate_current_schema c =
     (let missing = concat (map (\<lambda>(t, required). missing_columns c t required) REQUIRED_COLUMNS)
      in if missing \<noteq> [] then Inl (Not_Compatible (sort missing)) else Inr ())"

definition adoption_missing :: "sql_catalog \<Rightarrow> string \<Rightarrow> string list \<Rightarrow> string list" where
  "adoption_missing c t required =
     (if t = ''schema_migrations'' \<or> \<not> table_exists c t then []
      else let optional = (case dict_get UNVERSIONED_ADOPTION_OPTIONAL_COLUMNS t of
                             None \<Rightarrow> [] | Some cols \<Rightarrow> cols)
           in map (\<lambda>col. t @ ''.'' @ col)
                (filter (\<lambda>col. col \<notin> set optional \<and> col \<notin> set (table_columns c t)) required))"

definition validate_unversioned_adoption :: "sql_catalog \<Rightarrow> schema_error + unit" where
  "validate_unversioned_adoption c =
     (let missing = concat (map (\<lambda>(t, required). adoption_missing c t required) REQUIRED_COLUMNS)
      in if missing \<noteq> [] then Inl (Not_Adoptable (sort missing)) else Inr ())"

definition record_migration ::
  "schema_env \<Rightarrow> sqlite_migration \<Rightarrow> schema_db \<Rightarrow> sql_error + schema_db" where
  "record_migration env m db =
     (case insert_target ''schema_migrations'' [''version'', ''name'', ''checksum'', ''applied_at'']
             (catalog db) of
        Some e \<Rightarrow> Inl e
      | None \<Rightarrow>
          if dict_get (migration_rows db) (mg_version m) \<noteq> None
          then Inl (Unique_Violated ''schema_migrations.version'')
          else Inr (db\<lparr>migration_rows :=
                 dict_set (mg_version m)
                   (mg_name m, checksum env m, clock_isoformat env (mg_version m))
                   (migration_rows db)\<rparr>))"

fun exec_statements :: "sql_statement list \<Rightarrow> schema_db \<Rightarrow> sql_error + schema_db" where
  "exec_statements [] db = Inr db"
| "exec_statements (s # ss) db = result_bind (exec_statement s db) (exec_statements ss)"

definition skips :: "sqlite_migration \<Rightarrow> sql_catalog \<Rightarrow> bool" where
  "skips m c = (case skip_if m of None \<Rightarrow> False | Some p \<Rightarrow> p c)"

definition record_version ::
  "schema_env \<Rightarrow> sqlite_migration \<Rightarrow> schema_db \<Rightarrow> sql_error + schema_db" where
  "record_version env m db =
     result_bind (record_migration env m db) (\<lambda>db. Inr (db\<lparr>user_version := mg_version m\<rparr>))"

definition apply_pending_migration ::
  "schema_env \<Rightarrow> sqlite_migration \<Rightarrow> schema_db \<Rightarrow> sql_error + schema_db" where
  "apply_pending_migration env m db =
     (if skips m (catalog db) then record_version env m db
      else result_bind (exec_statements (statements m) db) (record_version env m))"

text \<open>The loop of the transaction; an error carries the version of the active migration.\<close>

fun apply_each ::
  "schema_env \<Rightarrow> sqlite_migration list \<Rightarrow> schema_db \<Rightarrow> (int \<times> sql_error) + schema_db" where
  "apply_each env [] db = Inr db"
| "apply_each env (m # ms) db =
     (case apply_pending_migration env m db of
        Inl e \<Rightarrow> Inl (mg_version m, e)
      | Inr db' \<Rightarrow> apply_each env ms db')"

definition pending_migrations :: "sqlite_migration list \<Rightarrow> int \<Rightarrow> sqlite_migration list" where
  "pending_migrations ms v = filter (\<lambda>m. v < mg_version m) (sorted_migrations ms)"

definition apply_pending ::
  "schema_env \<Rightarrow> sqlite_migration list \<Rightarrow> int \<Rightarrow> schema_db \<Rightarrow> schema_db \<times> (schema_error + int list)" where
  "apply_pending env ms v db =
     (case pending_migrations ms v of
        [] \<Rightarrow> (db, Inr [])
      | m # rest \<Rightarrow>
          if write_locked db then (db, Inl (SQLiteMigrationError (mg_version m) Database_Locked))
          else (case apply_each env (m # rest) db of
                  Inl (w, e) \<Rightarrow> (db, Inl (SQLiteMigrationError w e))
                | Inr db' \<Rightarrow> (db', Inr (map mg_version (m # rest)))))"

text \<open>
  \<^verbatim>\<open>_validate_migration_history\<close>: \<^verbatim>\<open>expected\<close> is the dictionary of the
  runner's migrations by version, in which a later migration of the same version wins.
\<close>

definition expected_migration :: "sqlite_migration list \<Rightarrow> int \<Rightarrow> sqlite_migration option" where
  "expected_migration ms v = List.find (\<lambda>m. mg_version m = v) (rev (sorted_migrations ms))"

definition history_missing :: "sqlite_migration list \<Rightarrow> schema_db \<Rightarrow> int \<Rightarrow> bool" where
  "history_missing ms db v \<longleftrightarrow>
     expected_migration ms v = None \<or> dict_get (migration_rows db) v = None"

definition history_mismatched ::
  "schema_env \<Rightarrow> sqlite_migration list \<Rightarrow> schema_db \<Rightarrow> int \<Rightarrow> bool" where
  "history_mismatched env ms db v =
     (case (expected_migration ms v, dict_get (migration_rows db) v) of
        (Some m, Some (name, digest, applied)) \<Rightarrow> name \<noteq> mg_name m \<or> digest \<noteq> checksum env m
      | _ \<Rightarrow> False)"

definition validate_migration_history ::
  "schema_env \<Rightarrow> sqlite_migration list \<Rightarrow> schema_db \<Rightarrow> int \<Rightarrow> schema_error + unit" where
  "validate_migration_history env ms db version =
     (let missing = filter (history_missing ms db) [1..version];
          mismatched = filter (history_mismatched env ms db) [1..version]
      in if missing \<noteq> [] \<or> mismatched \<noteq> []
         then Inl (SQLiteMigrationHistoryError missing mismatched) else Inr ())"

definition migration_status_of :: "int \<Rightarrow> migration_status" where
  "migration_status_of v = (if v = 0 then INITIALIZED else UPGRADED)"

text \<open>
  \<^verbatim>\<open>_ensure_current_connection\<close>, in three parts: the checks before anything is written,
  the pending migrations, and the validation of what is in the file afterwards.
\<close>

definition validate_database ::
  "schema_env \<Rightarrow> sqlite_migration list \<Rightarrow> schema_db \<Rightarrow> int \<Rightarrow> schema_error + unit" where
  "validate_database env ms db version =
     result_bind (validate_current_schema (catalog db)) (\<lambda>_.
       validate_migration_history env ms db version)"

definition precheck :: "schema_db \<Rightarrow> schema_error + unit" where
  "precheck db =
     result_bind (assert_quick_check db) (\<lambda>_. assert_supported_version (user_version db))"

definition upgrade_connection ::
  "schema_env \<Rightarrow> sqlite_migration list \<Rightarrow> schema_db \<Rightarrow> schema_db \<times> (schema_error + migration_result)" where
  "upgrade_connection env ms db =
     (case (if user_version db = 0 then validate_unversioned_adoption (catalog db) else Inr ()) of
        Inl e \<Rightarrow> (db, Inl e)
      | Inr _ \<Rightarrow>
          (case apply_pending env ms (user_version db) db of
             (db', Inl e) \<Rightarrow> (db', Inl e)
           | (db', Inr applied) \<Rightarrow>
               (db', result_bind (validate_database env ms db' CURRENT_SQLITE_SCHEMA_VERSION) (\<lambda>_.
                  Inr \<lparr>previous_version = user_version db,
                       current_version = CURRENT_SQLITE_SCHEMA_VERSION,
                       mr_status = migration_status_of (user_version db),
                       applied_versions = applied\<rparr>))))"

definition ensure_current_connection ::
  "schema_env \<Rightarrow> sqlite_migration list \<Rightarrow> schema_db \<Rightarrow> schema_db \<times> (schema_error + migration_result)" where
  "ensure_current_connection env ms db =
     (case precheck db of
        Inl e \<Rightarrow> (db, Inl e)
      | Inr _ \<Rightarrow>
          if user_version db = CURRENT_SQLITE_SCHEMA_VERSION
          then (db, result_bind (validate_database env ms db (user_version db)) (\<lambda>_.
                  Inr \<lparr>previous_version = user_version db, current_version = user_version db,
                       mr_status = ALREADY_CURRENT, applied_versions = []\<rparr>))
          else upgrade_connection env ms db)"

text \<open>
  \<^verbatim>\<open>ensure_current\<close> on a file: connecting to a missing file creates an empty database,
  and a directory cannot be opened.
\<close>

definition ensure_current ::
  "schema_env \<Rightarrow> sqlite_migration list \<Rightarrow> db_file \<Rightarrow> db_file \<times> (schema_error + migration_result)" where
  "ensure_current env ms f =
     (case f of
        Directory \<Rightarrow> (f, Inl (SQLiteCorruptDatabaseError (Database_Error Unable_To_Open)))
      | Missing_File \<Rightarrow> apfst Db_File (ensure_current_connection env ms empty_db)
      | Db_File db \<Rightarrow> apfst Db_File (ensure_current_connection env ms db))"

section \<open>Inspection\<close>

text \<open>
  The row of \<^verbatim>\<open>schema_migrations\<close> with the highest version. The query raises when the
  table lacks a column, which \<^verbatim>\<open>inspect\<close> reports as a corrupt database.
\<close>

definition latest_migration_row ::
  "schema_db \<Rightarrow> schema_error + (int \<times> string) option" where
  "latest_migration_row db =
     (if \<not> table_exists (catalog db) ''schema_migrations'' then Inr None
      else case select_source ''schema_migrations'' [''version'', ''name''] (catalog db) of
             Some e \<Rightarrow> Inl (SQLiteCorruptDatabaseError (Database_Error e))
           | None \<Rightarrow>
               (case rev (sort (map fst (migration_rows db))) of
                  [] \<Rightarrow> Inr None
                | v # _ \<Rightarrow> Inr (map_option (\<lambda>(name, rest). (v, name)) (dict_get (migration_rows db) v))))"

definition pending_versions :: "int \<Rightarrow> int list \<Rightarrow> int list" where
  "pending_versions v versions = filter (\<lambda>w. v < w) versions"

definition migration_versions :: "sqlite_migration list \<Rightarrow> int list" where
  "migration_versions ms = map mg_version (sorted_migrations ms)"

definition wal_checkpoint_status :: "schema_db \<Rightarrow> string" where
  "wal_checkpoint_status db =
     (case journal_mode db of None \<Rightarrow> ''unknown'' | Some mode \<Rightarrow> ''journal_mode='' @ mode)"

definition missing_status :: "int list \<Rightarrow> schema_status" where
  "missing_status versions =
     \<lparr>ss_exists = False, ss_user_version = None, ss_current_version = CURRENT_SQLITE_SCHEMA_VERSION,
      latest_migration = None, latest_migration_version = None, ss_pending_versions = versions,
      ss_quick_check = None, wal_checkpoint = None\<rparr>"

definition inspect_connection ::
  "schema_env \<Rightarrow> sqlite_migration list \<Rightarrow> schema_db \<Rightarrow> schema_error + schema_status" where
  "inspect_connection env ms db =
     result_bind (precheck db) (\<lambda>_.
     result_bind (if user_version db = CURRENT_SQLITE_SCHEMA_VERSION
                  then validate_database env ms db (user_version db) else Inr ()) (\<lambda>_.
     result_bind (latest_migration_row db) (\<lambda>latest.
       Inr \<lparr>ss_exists = True, ss_user_version = Some (user_version db),
            ss_current_version = CURRENT_SQLITE_SCHEMA_VERSION,
            latest_migration = map_option snd latest,
            latest_migration_version = map_option fst latest,
            ss_pending_versions = pending_versions (user_version db) (migration_versions ms),
            ss_quick_check = Some ''ok'',
            wal_checkpoint = Some (wal_checkpoint_status db)\<rparr>)))"

definition inspect ::
  "schema_env \<Rightarrow> sqlite_migration list \<Rightarrow> db_file \<Rightarrow> schema_error + schema_status" where
  "inspect env ms f =
     (case f of
        Missing_File \<Rightarrow> Inr (missing_status (migration_versions ms))
      | Directory \<Rightarrow> Inl (SQLiteCorruptDatabaseError Path_Is_Directory)
      | Db_File db \<Rightarrow> inspect_connection env ms db)"

end
