(* ===== verification/Schema_Props.thy ===== *)
theory Schema_Props
  imports Schema_Migrations
begin

text \<open>
  What the migration runner guarantees: no migration removes a table, a column, an index, a memory
  or a recorded migration; a successful run leaves the current version with every required column
  and a trusted history, and a second run changes nothing; a failed run leaves the file as it was,
  except when the validation after the commit fails; every database that the first migrations
  produced is upgraded.
\<close>

section \<open>Migrations only add\<close>

definition catalog_le :: "sql_catalog \<Rightarrow> sql_catalog \<Rightarrow> bool" where
  "catalog_le c c' \<longleftrightarrow>
     (\<forall>t kind cols. dict_get (cat_tables c) t = Some (kind, cols) \<longrightarrow>
        (\<exists>more. dict_get (cat_tables c') t = Some (kind, cols @ more))) \<and>
     set (cat_indexes c) \<subseteq> set (cat_indexes c')"

lemma catalog_le_refl [simp]: "catalog_le c c"
  by (simp add: catalog_le_def)

lemma catalog_le_trans:
  assumes "catalog_le a b" and "catalog_le b c"
  shows "catalog_le a c"
  unfolding catalog_le_def
proof (intro conjI allI impI)
  fix t kind cols
  assume "dict_get (cat_tables a) t = Some (kind, cols)"
  then obtain more where "dict_get (cat_tables b) t = Some (kind, cols @ more)"
    using assms(1) unfolding catalog_le_def by blast
  then obtain more' where "dict_get (cat_tables c) t = Some (kind, (cols @ more) @ more')"
    using assms(2) unfolding catalog_le_def by blast
  then show "\<exists>more. dict_get (cat_tables c) t = Some (kind, cols @ more)" by auto
next
  show "set (cat_indexes a) \<subseteq> set (cat_indexes c)"
    using assms unfolding catalog_le_def by blast
qed

lemma create_object_le: "create_object kind t cols c = Inr c' \<Longrightarrow> catalog_le c c'"
  by (auto simp: catalog_le_def table_exists_def dict_get_set split: if_splits)

lemma create_index_le: "create_index i t cols c = Inr c' \<Longrightarrow> catalog_le c c'"
  by (auto simp: catalog_le_def split: if_splits option.splits prod.splits)

lemma add_column_le: "add_column t col c = Inr c' \<Longrightarrow> catalog_le c c'"
  by (auto simp: catalog_le_def dict_get_set split: if_splits option.splits prod.splits)

lemma exec_catalog_le: "exec_catalog s c = Inr c' \<Longrightarrow> catalog_le c c'"
proof (cases s)
  case FILL_MEMORIES_FTS
  then show "exec_catalog s c = Inr c' \<Longrightarrow> ?thesis" by (simp split: option.splits)
qed (simp_all add: create_object_le create_index_le add_column_le
       del: create_object.simps create_index.simps add_column.simps)

text \<open>The parts of a database that no statement and no migration takes away.\<close>

definition rows_kept :: "schema_db \<Rightarrow> schema_db \<Rightarrow> bool" where
  "rows_kept db db' \<longleftrightarrow>
     (\<forall>v r. dict_get (migration_rows db) v = Some r \<longrightarrow> dict_get (migration_rows db') v = Some r)"

definition db_extends :: "schema_db \<Rightarrow> schema_db \<Rightarrow> bool" where
  "db_extends db db' \<longleftrightarrow>
     catalog_le (catalog db) (catalog db') \<and> rows_kept db db' \<and>
     memory_rows db' = memory_rows db \<and> (\<exists>more. fts_rows db' = fts_rows db @ more) \<and>
     quick_check_row db' = quick_check_row db \<and> journal_mode db' = journal_mode db \<and>
     write_locked db' = write_locked db \<and> violated_uniques db' = violated_uniques db"

lemma db_extends_refl [simp]: "db_extends db db"
  by (simp add: db_extends_def rows_kept_def)

lemma db_extends_trans:
  assumes ab: "db_extends a b" and bc: "db_extends b c"
  shows "db_extends a c"
proof -
  have "catalog_le (catalog a) (catalog c)"
    using ab bc unfolding db_extends_def by (blast intro: catalog_le_trans)
  moreover have "rows_kept a c"
    using ab bc unfolding db_extends_def rows_kept_def by blast
  moreover obtain m m' where "fts_rows b = fts_rows a @ m" "fts_rows c = fts_rows b @ m'"
    using ab bc unfolding db_extends_def by blast
  ultimately show ?thesis using ab bc by (simp add: db_extends_def)
qed

lemma exec_statement_extends:
  assumes "exec_statement s db = Inr db'"
  shows "db_extends db db'" and "user_version db' = user_version db"
    and "migration_rows db' = migration_rows db"
proof -
  obtain c where c: "exec_catalog s (catalog db) = Inr c"
    using assms by (auto simp: exec_statement_def result_bind_ok)
  then have le: "catalog_le (catalog db) c" by (rule exec_catalog_le)
  show "db_extends db db'" "user_version db' = user_version db"
    "migration_rows db' = migration_rows db"
    using assms c le
    by (cases s; auto simp: exec_statement_def db_extends_def rows_kept_def split: if_splits)+
qed

lemma exec_statements_extends:
  assumes "exec_statements ss db = Inr db'"
  shows "db_extends db db' \<and> user_version db' = user_version db \<and>
         migration_rows db' = migration_rows db"
  using assms
proof (induction ss arbitrary: db)
  case (Cons s ss)
  then obtain db1 where 1: "exec_statement s db = Inr db1" "exec_statements ss db1 = Inr db'"
    by (auto simp: result_bind_ok)
  from Cons.IH [OF 1(2)] exec_statement_extends [OF 1(1)] show ?case
    by (metis db_extends_trans)
qed simp

definition migration_row :: "schema_env \<Rightarrow> sqlite_migration \<Rightarrow> string \<times> string \<times> string" where
  "migration_row env m = (mg_name m, checksum env m, clock_isoformat env (mg_version m))"

lemma record_version_ok:
  assumes "record_version env m db = Inr db'"
  shows "dict_get (migration_rows db) (mg_version m) = None" and
    "db' = db\<lparr>migration_rows := dict_set (mg_version m) (migration_row env m) (migration_rows db),
              user_version := mg_version m\<rparr>"
  using assms
  by (auto simp: record_version_def record_migration_def result_bind_ok migration_row_def
      simp del: not_None_eq insert_target.simps split: option.splits if_splits)

lemma record_version_extends:
  assumes "record_version env m db = Inr db'"
  shows "db_extends db db'"
  using record_version_ok [OF assms] by (auto simp: db_extends_def rows_kept_def dict_get_set)

lemma apply_pending_migration_ok:
  assumes "apply_pending_migration env m db = Inr db'"
  shows "db_extends db db'" and "user_version db' = mg_version m"
    and "migration_rows db' =
           dict_set (mg_version m) (migration_row env m) (migration_rows db)"
    and "dict_get (migration_rows db) (mg_version m) = None"
proof -
  obtain db1 where 1: "db_extends db db1" "migration_rows db1 = migration_rows db"
    and 2: "record_version env m db1 = Inr db'"
  proof (cases "skips m (catalog db)")
    case True
    with assms show ?thesis by (intro that [of db]) (simp_all add: apply_pending_migration_def)
  next
    case False
    with assms obtain db1 where "exec_statements (statements m) db = Inr db1"
      "record_version env m db1 = Inr db'"
      by (auto simp: apply_pending_migration_def result_bind_ok)
    then show ?thesis using exec_statements_extends by (intro that [of db1]) blast+
  qed
  show "db_extends db db'" using 1(1) record_version_extends [OF 2] by (rule db_extends_trans)
  show "user_version db' = mg_version m"
    "migration_rows db' = dict_set (mg_version m) (migration_row env m) (migration_rows db)"
    "dict_get (migration_rows db) (mg_version m) = None"
    using record_version_ok [OF 2] 1(2) by simp_all
qed

lemma apply_each_extends: "apply_each env ms db = Inr db' \<Longrightarrow> db_extends db db'"
proof (induction ms arbitrary: db)
  case (Cons m ms)
  then obtain db1 where "apply_pending_migration env m db = Inr db1" "apply_each env ms db1 = Inr db'"
    by (auto split: sum.splits)
  then show ?case using Cons.IH apply_pending_migration_ok(1) db_extends_trans by blast
qed simp

lemma apply_each_version:
  "apply_each env ms db = Inr db' \<Longrightarrow> ms \<noteq> [] \<Longrightarrow> user_version db' = mg_version (last ms)"
proof (induction ms arbitrary: db)
  case (Cons m ms)
  then obtain db1 where "apply_pending_migration env m db = Inr db1" "apply_each env ms db1 = Inr db'"
    by (auto split: sum.splits)
  then show ?case
    using Cons.IH [of db1] apply_pending_migration_ok(2) [of env m db db1] by (cases ms) auto
qed simp

section \<open>The validations\<close>

definition required_present :: "sql_catalog \<Rightarrow> bool" where
  "required_present c \<longleftrightarrow>
     list_all (\<lambda>(t, required). table_exists c t \<and> set required \<subseteq> set (table_columns c t))
       REQUIRED_COLUMNS"

lemma missing_columns_Nil:
  "missing_columns c t required = [] \<longleftrightarrow>
     table_exists c t \<and> set required \<subseteq> set (table_columns c t)"
  by (auto simp: missing_columns_def filter_empty_conv)

lemma validate_current_schema_ok:
  "validate_current_schema c = Inr () \<longleftrightarrow> required_present c"
  by (simp add: validate_current_schema_def required_present_def Let_def list_all_iff
      missing_columns_Nil case_prod_unfold)

definition trusted_history :: "schema_env \<Rightarrow> sqlite_migration list \<Rightarrow> schema_db \<Rightarrow> int \<Rightarrow> bool" where
  "trusted_history env ms db version \<longleftrightarrow>
     list_all (\<lambda>v. case (expected_migration ms v, dict_get (migration_rows db) v) of
                     (Some m, Some (name, digest, applied)) \<Rightarrow>
                       name = mg_name m \<and> digest = checksum env m
                   | _ \<Rightarrow> False) [1..version]"

lemma validate_migration_history_ok:
  "validate_migration_history env ms db version = Inr () \<longleftrightarrow> trusted_history env ms db version"
proof -
  have "\<not> history_missing ms db v \<and> \<not> history_mismatched env ms db v \<longleftrightarrow>
        (case (expected_migration ms v, dict_get (migration_rows db) v) of
           (Some m, Some (name, digest, applied)) \<Rightarrow>
             name = mg_name m \<and> digest = checksum env m
         | _ \<Rightarrow> False)" for v
    by (cases "expected_migration ms v"; cases "dict_get (migration_rows db) v")
      (auto simp: history_missing_def history_mismatched_def)
  then show ?thesis
    by (auto simp: validate_migration_history_def trusted_history_def Let_def list_all_iff
        filter_empty_conv)
qed

lemma validate_database_ok:
  "validate_database env ms db version = Inr () \<longleftrightarrow>
     required_present (catalog db) \<and> trusted_history env ms db version"
  by (auto simp: validate_database_def result_bind_ok validate_current_schema_ok
      validate_migration_history_ok)

lemma precheck_cong:
  "quick_check_row db' = quick_check_row db \<Longrightarrow> user_version db' = 9 \<Longrightarrow> precheck db = Inr () \<Longrightarrow>
   precheck db' = Inr ()"
  by (auto simp: precheck_def result_bind_ok assert_quick_check_def quick_check_def
      assert_supported_version_def CURRENT_SQLITE_SCHEMA_VERSION_def)

section \<open>Running the migrations on the catalog alone\<close>

fun exec_catalogs :: "sql_statement list \<Rightarrow> sql_catalog \<Rightarrow> sql_error + sql_catalog" where
  "exec_catalogs [] c = Inr c"
| "exec_catalogs (s # ss) c = result_bind (exec_catalog s c) (exec_catalogs ss)"

definition apply_catalog :: "sqlite_migration \<Rightarrow> sql_catalog \<Rightarrow> sql_error + sql_catalog" where
  "apply_catalog m c = (if skips m c then Inr c else exec_catalogs (statements m) c)"

fun run_catalog :: "sqlite_migration list \<Rightarrow> sql_catalog \<Rightarrow> sql_error + sql_catalog" where
  "run_catalog [] c = Inr c"
| "run_catalog (m # ms) c = result_bind (apply_catalog m c) (run_catalog ms)"

lemma exec_catalogs_le: "exec_catalogs ss c = Inr c' \<Longrightarrow> catalog_le c c'"
proof (induction ss arbitrary: c)
  case (Cons s ss)
  then show ?case using exec_catalog_le catalog_le_trans by (fastforce simp: result_bind_ok)
qed simp

lemma apply_catalog_le: "apply_catalog m c = Inr c' \<Longrightarrow> catalog_le c c'"
  by (auto simp: apply_catalog_def exec_catalogs_le split: if_splits)

lemma run_catalog_append:
  "run_catalog (xs @ ys) c = result_bind (run_catalog xs c) (run_catalog ys)"
proof (induction xs arbitrary: c)
  case (Cons m xs)
  then show ?case by (cases "apply_catalog m c") simp_all
qed simp

definition empty_catalog :: sql_catalog where
  "empty_catalog = \<lparr>cat_tables = [], cat_indexes = []\<rparr>"

text \<open>The catalog after the first \<open>k\<close> migrations on an empty database.\<close>

definition catalog_at :: "nat \<Rightarrow> sql_catalog" where
  "catalog_at k =
     (case run_catalog (take k available_migrations) empty_catalog of
        Inl e \<Rightarrow> empty_catalog | Inr c \<Rightarrow> c)"

definition no_raw_content :: "sql_catalog \<Rightarrow> bool" where
  "no_raw_content c \<longleftrightarrow>
     list_all (\<lambda>col. col \<notin> set SAFETY_AUDIT_FORBIDDEN_RAW_CONTENT_COLUMNS)
       (table_columns c ''safety_audit_records'') \<and>
     list_all (\<lambda>col. col \<notin> set DELIVERY_USER_CONTROLS_FORBIDDEN_RAW_CONTENT_COLUMNS)
       (table_columns c ''delivery_user_controls'')"

lemma migrations_evaluate:
  "case run_catalog available_migrations empty_catalog of
     Inl e \<Rightarrow> False | Inr c \<Rightarrow> required_present c \<and> no_raw_content c"
  by code_simp

lemma baseline_evaluates:
  "case apply_catalog BASELINE_V1 empty_catalog of
     Inl e \<Rightarrow> False
   | Inr c \<Rightarrow>
       insert_target ''schema_migrations'' [''version'', ''name'', ''checksum'', ''applied_at''] c = None"
  by code_simp

lemma run_catalog_all: "run_catalog available_migrations empty_catalog = Inr (catalog_at 9)"
proof -
  have "take 9 available_migrations = available_migrations" by (simp add: available_migrations_def)
  then show ?thesis using migrations_evaluate
    by (simp add: catalog_at_def split: sum.splits)
qed

lemma catalog_at_9: "required_present (catalog_at 9)" "no_raw_content (catalog_at 9)"
  using migrations_evaluate by (simp_all add: run_catalog_all)

lemma run_catalog_from:
  "run_catalog (drop k available_migrations) (catalog_at k) = Inr (catalog_at 9)"
proof -
  have "result_bind (run_catalog (take k available_migrations) empty_catalog)
          (run_catalog (drop k available_migrations)) = Inr (catalog_at 9)"
    using run_catalog_all
    by (simp add: run_catalog_append [symmetric])
  then show ?thesis
    by (cases "run_catalog (take k available_migrations) empty_catalog")
      (simp_all add: catalog_at_def)
qed

section \<open>Lifting a run of the catalog to the database\<close>

definition uniques :: "sql_statement list \<Rightarrow> string list" where
  "uniques ss =
     concat (map (\<lambda>s. case s of CREATE_INDEX uniq i t cols \<Rightarrow> if uniq then [i] else [] | _ \<Rightarrow> []) ss)"

lemma uniques_append [simp]: "uniques (xs @ ys) = uniques xs @ uniques ys"
  by (simp add: uniques_def)

lemma exec_statement_lift:
  assumes c: "exec_catalog s (catalog db) = Inr c"
    and uniq: "set (uniques [s]) \<inter> set (violated_uniques db) = {}"
  shows "\<exists>db'. exec_statement s db = Inr db' \<and> catalog db' = c"
  using c uniq
  by (cases s)
    (auto simp: exec_statement_def uniques_def
      simp del: create_object.simps create_index.simps add_column.simps insert_target.simps
        select_source.simps
      split: option.splits)

lemma exec_statements_lift:
  assumes "exec_catalogs ss (catalog db) = Inr c"
    and "set (uniques ss) \<inter> set (violated_uniques db) = {}"
  shows "\<exists>db'. exec_statements ss db = Inr db' \<and> catalog db' = c"
  using assms
proof (induction ss arbitrary: db)
  case (Cons s ss)
  then obtain c1 where c1: "exec_catalog s (catalog db) = Inr c1" "exec_catalogs ss c1 = Inr c"
    by (auto simp: result_bind_ok)
  have "set (uniques [s]) \<inter> set (violated_uniques db) = {}"
    and rest: "set (uniques ss) \<inter> set (violated_uniques db) = {}"
    using Cons.prems(2) uniques_append [of "[s]" ss] by auto
  then obtain db1 where db1: "exec_statement s db = Inr db1" "catalog db1 = c1"
    using exec_statement_lift [OF c1(1)] by blast
  then have "violated_uniques db1 = violated_uniques db"
    using exec_statement_extends(1) by (simp add: db_extends_def)
  with Cons.IH [of db1] rest c1(2) db1 show ?case by simp
qed simp

definition has_migrations_table :: "sql_catalog \<Rightarrow> bool" where
  "has_migrations_table c \<longleftrightarrow>
     insert_target ''schema_migrations'' [''version'', ''name'', ''checksum'', ''applied_at''] c = None"

lemma missing_column_None: "missing_column cols existing = None \<longleftrightarrow> set cols \<subseteq> set existing"
  by (auto simp: find_None_iff)

lemma has_migrations_table_mono:
  assumes "has_migrations_table c" and "catalog_le c c'"
  shows "has_migrations_table c'"
proof -
  obtain kind cols where t: "dict_get (cat_tables c) ''schema_migrations'' = Some (kind, cols)"
    and ok: "kind \<noteq> View" "set [''version'', ''name'', ''checksum'', ''applied_at''] \<subseteq> set cols"
    using assms(1) unfolding has_migrations_table_def insert_target.simps
    by (auto simp: missing_column_None simp del: missing_column.simps split: option.splits if_splits)
  moreover obtain more where
    "dict_get (cat_tables c') ''schema_migrations'' = Some (kind, cols @ more)"
    using assms(2) t unfolding catalog_le_def by blast
  ultimately show ?thesis unfolding has_migrations_table_def insert_target.simps
    by (auto simp: missing_column_None simp del: missing_column.simps)
qed

lemma record_version_lift:
  assumes "has_migrations_table (catalog db)"
    and "dict_get (migration_rows db) (mg_version m) = None"
  obtains db' where "record_version env m db = Inr db'" and "catalog db' = catalog db"
  using assms
  by (simp add: record_version_def record_migration_def has_migrations_table_def
      del: insert_target.simps)

lemma apply_pending_migration_lift:
  assumes c: "apply_catalog m (catalog db) = Inr c"
    and uniq: "set (uniques (statements m)) \<inter> set (violated_uniques db) = {}"
    and tab: "has_migrations_table c"
    and row: "dict_get (migration_rows db) (mg_version m) = None"
  obtains db' where "apply_pending_migration env m db = Inr db'" and "catalog db' = c"
proof (cases "skips m (catalog db)")
  case True
  with c tab have "c = catalog db" "has_migrations_table (catalog db)"
    by (simp_all add: apply_catalog_def)
  then show thesis using True row record_version_lift that
    by (metis apply_pending_migration_def)
next
  case False
  with c have "exec_catalogs (statements m) (catalog db) = Inr c" by (simp add: apply_catalog_def)
  then obtain db1 where db1: "exec_statements (statements m) db = Inr db1" "catalog db1 = c"
    using exec_statements_lift uniq by blast
  then have "dict_get (migration_rows db1) (mg_version m) = None"
    using exec_statements_extends row by simp
  then obtain db' where "record_version env m db1 = Inr db'" "catalog db' = c"
    using record_version_lift [of db1 m env] tab db1(2) by auto
  with False db1 that show thesis by (simp add: apply_pending_migration_def)
qed

lemma apply_each_lift:
  assumes "run_catalog ms (catalog db) = Inr c" and "has_migrations_table (catalog db)"
    and "set (uniques (concat (map statements ms))) \<inter> set (violated_uniques db) = {}"
    and "distinct (map mg_version ms)"
    and "\<forall>m\<in>set ms. dict_get (migration_rows db) (mg_version m) = None"
  shows "\<exists>db'. apply_each env ms db = Inr db' \<and> catalog db' = c"
  using assms
proof (induction ms arbitrary: db)
  case (Cons m ms)
  from Cons.prems(1) obtain c1 where c1: "apply_catalog m (catalog db) = Inr c1"
    "run_catalog ms c1 = Inr c"
    by (auto simp: result_bind_ok)
  have tab: "has_migrations_table c1"
    using Cons.prems(2) apply_catalog_le [OF c1(1)] by (rule has_migrations_table_mono)
  have uniq: "set (uniques (statements m)) \<inter> set (violated_uniques db) = {}"
    "set (uniques (concat (map statements ms))) \<inter> set (violated_uniques db) = {}"
    using Cons.prems(3) by auto
  obtain db1 where db1: "apply_pending_migration env m db = Inr db1" "catalog db1 = c1"
    using apply_pending_migration_lift [OF c1(1) uniq(1) tab] Cons.prems(5) by auto
  note ext = apply_pending_migration_ok [OF db1(1)]
  have "\<forall>m'\<in>set ms. dict_get (migration_rows db1) (mg_version m') = None"
  proof
    fix m' assume m': "m' \<in> set ms"
    then have "mg_version m' \<in> mg_version ` set ms" by (rule imageI)
    with Cons.prems(4) have "mg_version m' \<noteq> mg_version m" by (metis distinct.simps(2) list.simps(9) list.set_map)
    with m' show "dict_get (migration_rows db1) (mg_version m') = None"
      using Cons.prems(5) by (simp add: ext(3) dict_get_set)
  qed
  moreover have "violated_uniques db1 = violated_uniques db" using ext(1) by (simp add: db_extends_def)
  ultimately show ?case using Cons.IH [of db1] Cons.prems(4) c1(2) db1 tab uniq(2) by simp
qed simp

end
