(* ===== verification/Schema_Upgrade.thy ===== *)
theory Schema_Upgrade
  imports Schema_Props
begin

text \<open>
  The migration runner with the migrations of the registry: which databases it upgrades, what a
  run leaves behind on success and on failure, and which unversioned databases it can never adopt.
\<close>

section \<open>The registry\<close>

lemma sorted_available: "sorted_migrations available_migrations = available_migrations"
  by (simp add: sorted_migrations_def available_migrations_def BASELINE_V1_def
      RUNTIME_LEARNING_STATE_V2_def CONVERSATION_TRANSCRIPTS_V3_def SAFETY_AUDIT_V4_def
      REVIEW_CANDIDATE_TYPE_V5_def BACKGROUND_JOB_PRESSURE_V6_def PRESENTATION_HINTS_V7_def
      TRANSCRIPT_CLEANUP_V8_def DELIVERY_USER_CONTROL_AND_AUDIT_VERSIONS_V9_def)

lemma available_versions: "map mg_version available_migrations = [1, 2, 3, 4, 5, 6, 7, 8, 9]"
  by (simp add: available_migrations_def BASELINE_V1_def
      RUNTIME_LEARNING_STATE_V2_def CONVERSATION_TRANSCRIPTS_V3_def SAFETY_AUDIT_V4_def
      REVIEW_CANDIDATE_TYPE_V5_def BACKGROUND_JOB_PRESSURE_V6_def PRESENTATION_HINTS_V7_def
      TRANSCRIPT_CLEANUP_V8_def DELIVERY_USER_CONTROL_AND_AUDIT_VERSIONS_V9_def)

lemma length_available: "length available_migrations = 9"
  by (simp add: available_migrations_def)

lemma available_version_nth:
  assumes "i < 9"
  shows "mg_version (available_migrations ! i) = int i + 1"
proof -
  have "mg_version (available_migrations ! i) = map mg_version available_migrations ! i"
    using assms by (simp add: length_available)
  also have "\<dots> = int i + 1"
    using assms unfolding available_versions by (auto simp: nth_Cons less_Suc_eq numeral_eq_Suc)
  finally show ?thesis .
qed

definition versions_above :: "int \<Rightarrow> int list" where
  "versions_above v = filter (\<lambda>w. v < w) [1, 2, 3, 4, 5, 6, 7, 8, 9]"

lemma pending_versions_available:
  "map mg_version (pending_migrations available_migrations v) = versions_above v"
  unfolding pending_migrations_def sorted_available versions_above_def
  by (subst available_versions [symmetric]) (simp add: filter_map o_def)

lemma pending_last:
  assumes "v < 9"
  shows "pending_migrations available_migrations v \<noteq> []"
    and "mg_version (last (pending_migrations available_migrations v)) = 9"
proof -
  let ?p = "pending_migrations available_migrations v"
  have "map mg_version ?p = filter (\<lambda>w. v < w) [1, 2, 3, 4, 5, 6, 7, 8] @ [9]"
    using assms by (simp add: pending_versions_available versions_above_def)
  then show ne: "?p \<noteq> []" and "mg_version (last ?p) = 9"
    by auto (metis append_is_Nil_conv last_map last_snoc list.map_disc_iff not_Cons_self2)
qed

lemma pending_drop:
  assumes "k \<le> 9"
  shows "pending_migrations available_migrations (int k) = drop k available_migrations"
proof -
  have lt: "\<not> int k < mg_version m" if "m \<in> set (take k available_migrations)" for m
  proof -
    from that obtain i where "i < k" "i < 9" "m = available_migrations ! i"
      by (auto simp: in_set_conv_nth length_available)
    then show ?thesis by (simp add: available_version_nth)
  qed
  have ge: "int k < mg_version m" if "m \<in> set (drop k available_migrations)" for m
  proof -
    from that obtain j where j: "j < 9 - k" "m = available_migrations ! (k + j)"
      by (auto simp: in_set_conv_nth length_available)
    then have "mg_version m = int (k + j) + 1" by (simp add: available_version_nth)
    then show ?thesis by simp
  qed
  have "filter (\<lambda>m. int k < mg_version m)
          (take k available_migrations @ drop k available_migrations) = drop k available_migrations"
    unfolding filter_append using lt ge by (simp add: filter_empty_conv filter_id_conv)
  then show ?thesis by (simp add: pending_migrations_def sorted_available)
qed

section \<open>Soundness of a run\<close>

definition opened :: "db_file \<Rightarrow> schema_db" where
  "opened f = (case f of Db_File db \<Rightarrow> db | _ \<Rightarrow> empty_db)"

definition memories_indexed :: "schema_db \<Rightarrow> bool" where
  "memories_indexed db \<longleftrightarrow> fst ` set (memory_rows db) \<subseteq> fst ` set (fts_rows db)"

lemma memories_indexed_extends:
  assumes "db_extends db db'" and "memories_indexed db"
  shows "memories_indexed db'"
proof -
  obtain more where "fts_rows db' = fts_rows db @ more" "memory_rows db' = memory_rows db"
    using assms(1) by (auto simp: db_extends_def)
  with assms(2) show ?thesis by (simp add: memories_indexed_def image_Un le_supI1)
qed

lemma fill_indexes:
  assumes "exec_statement FILL_MEMORIES_FTS db = Inr db'"
  shows "memories_indexed db'"
  unfolding memories_indexed_def
proof
  fix i
  have fts: "fts_rows db' = fts_rows db @ filter (\<lambda>m. fst m \<notin> fst ` set (fts_rows db)) (memory_rows db)"
    and mem: "memory_rows db' = memory_rows db"
    using assms by (auto simp: exec_statement_def result_bind_ok)
  assume "i \<in> fst ` set (memory_rows db')"
  then obtain m where "m \<in> set (memory_rows db)" "i = fst m" by (auto simp: mem)
  then show "i \<in> fst ` set (fts_rows db')"
    by (cases "i \<in> fst ` set (fts_rows db)") (simp_all add: fts image_Un)
qed

lemma exec_statements_fill:
  assumes "exec_statements ss db = Inr db'" and "FILL_MEMORIES_FTS \<in> set ss"
  shows "memories_indexed db'"
  using assms
proof (induction ss arbitrary: db)
  case (Cons s ss)
  then obtain db1 where 1: "exec_statement s db = Inr db1" "exec_statements ss db1 = Inr db'"
    by (auto simp: result_bind_ok)
  show ?case
  proof (cases "s = FILL_MEMORIES_FTS")
    case True
    with 1 fill_indexes exec_statements_extends memories_indexed_extends show ?thesis by blast
  next
    case False
    with Cons.IH [OF 1(2)] Cons.prems(2) show ?thesis by simp
  qed
qed simp

lemma baseline_first: "available_migrations = BASELINE_V1 # tl available_migrations"
  by (simp add: available_migrations_def)

lemma baseline_fills:
  "skip_if BASELINE_V1 = None" "FILL_MEMORIES_FTS \<in> set (statements BASELINE_V1)"
  "mg_version BASELINE_V1 = 1"
  by (simp_all add: BASELINE_V1_def)

lemma apply_each_fill:
  assumes "apply_each env (BASELINE_V1 # ms) db = Inr db'"
  shows "memories_indexed db'"
proof -
  obtain db1 where 1: "apply_pending_migration env BASELINE_V1 db = Inr db1"
    "apply_each env ms db1 = Inr db'"
    using assms by (auto split: sum.splits)
  then obtain db2 where 2: "exec_statements (statements BASELINE_V1) db = Inr db2"
    "record_version env BASELINE_V1 db2 = Inr db1"
    by (auto simp: apply_pending_migration_def skips_def baseline_fills(1) result_bind_ok)
  show ?thesis
    using exec_statements_fill [OF 2(1) baseline_fills(2)] record_version_extends [OF 2(2)]
      apply_each_extends [OF 1(2)]
    by (blast intro: memories_indexed_extends)
qed

text \<open>What a run that committed left behind.\<close>

definition committed :: "schema_db \<Rightarrow> schema_db \<Rightarrow> bool" where
  "committed db db' \<longleftrightarrow>
     user_version db' = 9 \<and> db_extends db db' \<and>
     (user_version db < 1 \<longrightarrow> memories_indexed db')"

lemma apply_pending_outcome:
  assumes "user_version db < 9"
    and run: "apply_pending env available_migrations (user_version db) db = (db', out)"
  shows "case out of
           Inl e \<Rightarrow> db' = db
         | Inr vs \<Rightarrow> vs = versions_above (user_version db) \<and>
             committed db db'"
proof (cases out)
  case Inl
  with run show ?thesis
    by (auto simp: apply_pending_def split: list.splits if_splits sum.splits)
next
  case (Inr vs)
  let ?p = "pending_migrations available_migrations (user_version db)"
  note p = pending_last [OF assms(1)]
  have ap: "apply_each env ?p db = Inr db'" and vs: "vs = map mg_version ?p"
    using run p(1) by (auto simp: apply_pending_def Inr split: list.splits if_splits sum.splits)
  have "memories_indexed db'" if "user_version db < 1"
  proof -
    have "?p = BASELINE_V1 # filter (\<lambda>m. user_version db < mg_version m) (tl available_migrations)"
      using that unfolding pending_migrations_def sorted_available
      by (subst baseline_first) (simp add: baseline_fills(3))
    with ap show ?thesis by (metis apply_each_fill)
  qed
  with ap p vs show ?thesis
    by (simp add: Inr committed_def apply_each_version apply_each_extends pending_versions_available)
qed

lemma precheck_version: "precheck db = Inr () \<Longrightarrow> user_version db \<le> 9"
  by (auto simp: precheck_def result_bind_ok assert_supported_version_def
      CURRENT_SQLITE_SCHEMA_VERSION_def split: if_splits)

definition already_current :: migration_result where
  "already_current =
     \<lparr>previous_version = 9, current_version = 9, mr_status = ALREADY_CURRENT, applied_versions = []\<rparr>"

lemma ensure_current_again:
  assumes "precheck db = Inr ()" and "user_version db = 9"
    and "validate_database env ms db 9 = Inr ()"
  shows "ensure_current env ms (Db_File db) = (Db_File db, Inr already_current)"
  using assms
  by (simp add: ensure_current_def ensure_current_connection_def CURRENT_SQLITE_SCHEMA_VERSION_def
      already_current_def)

definition run_result :: "int \<Rightarrow> migration_result" where
  "run_result v =
     \<lparr>previous_version = v, current_version = 9,
      mr_status = (if v = 9 then ALREADY_CURRENT else migration_status_of v),
      applied_versions = versions_above v\<rparr>"

lemma run_result_9: "run_result 9 = already_current"
  by (simp add: run_result_def already_current_def versions_above_def)

text \<open>Errors that the validation after the commit raises.\<close>

definition late_error :: "schema_error \<Rightarrow> bool" where
  "late_error e \<longleftrightarrow>
     (case e of Not_Compatible missing \<Rightarrow> True | SQLiteMigrationHistoryError xs ys \<Rightarrow> True | _ \<Rightarrow> False)"

lemma validate_database_late: "validate_database env ms db v = Inl e \<Longrightarrow> late_error e"
  by (auto simp: validate_database_def validate_current_schema_def validate_migration_history_def
      result_bind_def late_error_def Let_def split: if_splits sum.splits)

lemma upgrade_connection_outcome:
  assumes v: "user_version db < 9"
    and run: "upgrade_connection env available_migrations db = (db', out)"
  shows "case out of
           Inl e \<Rightarrow> db' = db \<or> late_error e \<and> committed db db'
         | Inr r \<Rightarrow> committed db db' \<and> validate_database env available_migrations db' 9 = Inr () \<and>
             r = run_result (user_version db)"
proof -
  obtain db1 res where ap: "apply_pending env available_migrations (user_version db) db = (db1, res)"
    by (cases "apply_pending env available_migrations (user_version db) db")
  note out = apply_pending_outcome [OF v ap]
  show ?thesis
  proof (cases "if user_version db = 0 then validate_unversioned_adoption (catalog db) else Inr ()")
    case Inl
    with run show ?thesis by (auto simp: upgrade_connection_def)
  next
    case adopt: (Inr u)
    show ?thesis
    proof (cases res)
      case Inl
      with run out adopt show ?thesis by (auto simp: upgrade_connection_def ap)
    next
      case (Inr vs)
      with out have c: "committed db db1" and
        vs: "vs = versions_above (user_version db)" by simp_all
      have "upgrade_connection env available_migrations db =
              (db1, result_bind (validate_database env available_migrations db1 9)
                      (\<lambda>_. Inr (run_result (user_version db))))"
        using adopt v
        by (simp add: upgrade_connection_def ap Inr vs run_result_def
            CURRENT_SQLITE_SCHEMA_VERSION_def)
      with run have eq: "db' = db1"
        "out = result_bind (validate_database env available_migrations db1 9)
                 (\<lambda>_. Inr (run_result (user_version db)))" by auto
      show ?thesis
        using c by (cases "validate_database env available_migrations db1 9")
          (simp_all add: eq validate_database_late)
    qed
  qed
qed

lemma ensure_current_connection_outcome:
  assumes run: "ensure_current_connection env available_migrations db = (db', out)"
  shows "case out of
           Inl e \<Rightarrow> db' = db \<or> late_error e \<and> committed db db'
         | Inr r \<Rightarrow> precheck db' = Inr () \<and> user_version db' = 9 \<and>
             validate_database env available_migrations db' 9 = Inr () \<and>
             db_extends db db' \<and> (user_version db < 1 \<longrightarrow> memories_indexed db') \<and>
             r = run_result (user_version db)"
proof (cases "precheck db")
  case Inl
  with run show ?thesis by (auto simp: ensure_current_connection_def)
next
  case (Inr u)
  then have pre: "precheck db = Inr ()" by simp
  show ?thesis
  proof (cases "user_version db = 9")
    case True
    with run pre show ?thesis
      by (cases "validate_database env available_migrations db 9")
        (auto simp: ensure_current_connection_def CURRENT_SQLITE_SCHEMA_VERSION_def
          run_result_9 already_current_def)
  next
    case False
    with precheck_version [OF pre] have v: "user_version db < 9" by simp
    from False run pre have "upgrade_connection env available_migrations db = (db', out)"
      by (simp add: ensure_current_connection_def CURRENT_SQLITE_SCHEMA_VERSION_def)
    from upgrade_connection_outcome [OF v this] show ?thesis
      using precheck_cong [of db' db] pre
      by (auto simp: committed_def db_extends_def split: sum.splits)
  qed
qed

section \<open>Databases that the first migrations produced\<close>

text \<open>
  A database at version \<open>k\<close>: the tables and indexes of the first \<open>k\<close> migrations, their
  names and checksums recorded, any memories, and nothing in the way of a write. A database without
  tables has no rows that could violate a unique index.
\<close>

definition at_version :: "schema_env \<Rightarrow> nat \<Rightarrow> schema_db \<Rightarrow> bool" where
  "at_version env k db \<longleftrightarrow>
     k \<le> 9 \<and> catalog db = catalog_at k \<and> user_version db = int k \<and>
     map (\<lambda>(v, name, digest, applied). (v, name, digest)) (migration_rows db) =
       map (\<lambda>m. (mg_version m, mg_name m, checksum env m)) (take k available_migrations) \<and>
     quick_check_row db = Inr (Some ''ok'') \<and> \<not> write_locked db \<and>
     (k = 0 \<longrightarrow> violated_uniques db = [])"

lemma empty_at_version: "at_version env 0 empty_db"
  by (simp add: at_version_def empty_db_def catalog_at_def empty_catalog_def)

lemma at_version_rows:
  assumes "at_version env k db"
  shows "map_option (\<lambda>(name, digest, applied). (name, digest)) (dict_get (migration_rows db) v) =
         map_of (map (\<lambda>m. (mg_version m, mg_name m, checksum env m)) (take k available_migrations)) v"
proof -
  have a: "map_of (map (\<lambda>(v, name, digest, applied). (v, name, digest)) rows) v =
        map_option (\<lambda>(name, digest, applied). (name, digest)) (dict_get rows v)"
    for rows :: "(int, string \<times> string \<times> string) dict"
    by (induction rows) (auto split: if_splits)
  have b: "map (\<lambda>(v, name, digest, applied). (v, name, digest)) (migration_rows db) =
      map (\<lambda>m. (mg_version m, mg_name m, checksum env m)) (take k available_migrations)"
    using assms by (simp add: at_version_def)
  show ?thesis by (simp only: b [symmetric] a)
qed

lemma at_version_no_row:
  assumes "at_version env k db" and "int k < v"
  shows "dict_get (migration_rows db) v = None"
proof -
  have "mg_version m \<le> int k" if "m \<in> set (take k available_migrations)" for m
  proof -
    from that obtain i where "i < k" "i < 9" "m = available_migrations ! i"
      by (auto simp: in_set_conv_nth length_available)
    then show ?thesis by (simp add: available_version_nth)
  qed
  then have "map_of (map (\<lambda>m. (mg_version m, mg_name m, checksum env m))
               (take k available_migrations)) v = None"
    using assms(2) by (auto simp: map_of_eq_None_iff) (meson not_le)
  then show ?thesis using at_version_rows [OF assms(1), of v] by simp
qed

lemma uniques_only_baseline:
  "uniques (concat (map statements (tl available_migrations))) = []"
  by (simp add: available_migrations_def uniques_def
      RUNTIME_LEARNING_STATE_V2_def CONVERSATION_TRANSCRIPTS_V3_def SAFETY_AUDIT_V4_def
      REVIEW_CANDIDATE_TYPE_V5_def BACKGROUND_JOB_PRESSURE_V6_def PRESENTATION_HINTS_V7_def
      TRANSCRIPT_CLEANUP_V8_def DELIVERY_USER_CONTROL_AND_AUDIT_VERSIONS_V9_def)

lemma uniques_tail: "0 < k \<Longrightarrow> uniques (concat (map statements (drop k available_migrations))) = []"
proof -
  assume "0 < k"
  then have "drop k available_migrations = drop (k - 1) (tl available_migrations)"
    by (cases k) (simp_all add: drop_Suc)
  moreover have "uniques (concat (map statements (take j ms @ drop j ms))) = [] \<Longrightarrow>
      uniques (concat (map statements (drop j ms))) = []" for j ms
    unfolding map_append concat_append uniques_append by simp
  ultimately show ?thesis using uniques_only_baseline by simp
qed

lemma catalog_at_1: "apply_catalog BASELINE_V1 empty_catalog = Inr (catalog_at 1)"
  using baseline_evaluates
  by (simp add: catalog_at_def available_migrations_def split: sum.splits)

lemma migrations_table_1: "has_migrations_table (catalog_at 1)"
  using baseline_evaluates
  by (simp add: catalog_at_1 has_migrations_table_def del: insert_target.simps)

lemma catalog_at_Suc:
  assumes "k < 9"
  shows "apply_catalog (available_migrations ! k) (catalog_at k) = Inr (catalog_at (Suc k))"
proof -
  have d: "drop k available_migrations = available_migrations ! k # drop (Suc k) available_migrations"
    using assms by (simp add: Cons_nth_drop_Suc length_available)
  from run_catalog_from [of k] obtain c where
    c: "apply_catalog (available_migrations ! k) (catalog_at k) = Inr c"
    by (auto simp: d result_bind_ok)
  have "run_catalog (take k available_migrations) empty_catalog = Inr (catalog_at k)"
    using run_catalog_all run_catalog_append [of "take k available_migrations" "drop k available_migrations"]
    by (cases "run_catalog (take k available_migrations) empty_catalog")
      (simp_all add: catalog_at_def)
  then have "run_catalog (take (Suc k) available_migrations) empty_catalog = Inr c"
    using assms c by (simp add: take_Suc_conv_app_nth length_available run_catalog_append)
  then show ?thesis using c by (simp add: catalog_at_def)
qed

lemma migrations_table_at:
  assumes "k \<le> 9" and "0 < k"
  shows "has_migrations_table (catalog_at k)"
  using assms
proof (induction k)
  case (Suc k)
  show ?case
  proof (cases "k = 0")
    case True
    then show ?thesis using migrations_table_1 by simp
  next
    case False
    with Suc show ?thesis
      using apply_catalog_le [OF catalog_at_Suc [of k]] has_migrations_table_mono by simp
  qed
qed simp

text \<open>One migration takes a database from version \<open>k\<close> to the next one.\<close>

lemma at_version_step:
  assumes at: "at_version env k db" and k: "k < 9"
  obtains db' where "apply_pending_migration env (available_migrations ! k) db = Inr db'"
    and "at_version env (Suc k) db'"
proof -
  let ?m = "available_migrations ! k"
  have none: "dict_get (migration_rows db) (mg_version ?m) = None"
    using at_version_no_row [OF at] k by (simp add: available_version_nth)
  have "uniques (statements ?m) = [] \<or> violated_uniques db = []"
  proof (cases "k = 0")
    case True
    with at show ?thesis by (simp add: at_version_def)
  next
    case False
    moreover have "drop k available_migrations = ?m # drop (Suc k) available_migrations"
      using k by (simp add: Cons_nth_drop_Suc length_available)
    ultimately show ?thesis using uniques_tail [of k] by simp
  qed
  then have "set (uniques (statements ?m)) \<inter> set (violated_uniques db) = {}" by auto
  moreover have "has_migrations_table (catalog_at (Suc k))" using migrations_table_at k by simp
  moreover have "apply_catalog ?m (catalog db) = Inr (catalog_at (Suc k))"
    using at catalog_at_Suc [OF k] by (simp add: at_version_def)
  ultimately obtain db' where db': "apply_pending_migration env ?m db = Inr db'"
    "catalog db' = catalog_at (Suc k)"
    using none by (metis apply_pending_migration_lift)
  note ok = apply_pending_migration_ok [OF db'(1)]
  have "migration_rows db' = migration_rows db @ [(mg_version ?m, migration_row env ?m)]"
    unfolding ok(3) using none by (simp add: dict_set_new map_of_eq_None_iff)
  then have "at_version env (Suc k) db'"
    using at k db'(2) ok(1,2)
    by (simp add: at_version_def db_extends_def available_version_nth migration_row_def
        take_Suc_conv_app_nth length_available)
  with db'(1) that show thesis by blast
qed

lemma at_version_apply_each:
  assumes "at_version env k db"
  shows "\<exists>db'. apply_each env (drop k available_migrations) db = Inr db' \<and> at_version env 9 db'"
  using assms
proof (induction "9 - k" arbitrary: k db)
  case 0
  then show ?case by (simp add: at_version_def length_available)
next
  case (Suc n)
  then have k: "k < 9" by simp
  obtain db1 where db1: "apply_pending_migration env (available_migrations ! k) db = Inr db1"
    "at_version env (Suc k) db1"
    using at_version_step [OF Suc.prems k] by blast
  have "drop k available_migrations = available_migrations ! k # drop (Suc k) available_migrations"
    using k by (simp add: Cons_nth_drop_Suc length_available)
  with Suc.hyps(1) [OF _ db1(2)] Suc.hyps(2) db1(1) show ?case by simp
qed

section \<open>The upgrade succeeds\<close>

lemma find_unique:
  assumes "x \<in> set xs" and "P x" and "\<And>y. y \<in> set xs \<Longrightarrow> P y \<Longrightarrow> y = x"
  shows "List.find P xs = Some x"
proof (cases "List.find P xs")
  case None
  with assms(1,2) show ?thesis by (simp add: find_None_iff)
next
  case (Some y)
  then have "y \<in> set xs" "P y" by (auto simp: find_Some_iff)
  with Some assms(3) show ?thesis by simp
qed

lemma available_unique:
  assumes "x \<in> set available_migrations" and "y \<in> set available_migrations"
    and "mg_version x = mg_version y"
  shows "x = y"
proof -
  have "distinct (map mg_version available_migrations)" by (simp add: available_versions)
  then have "inj_on mg_version (set available_migrations)" by (simp add: distinct_map)
  with assms show ?thesis by (auto dest: inj_onD)
qed

lemma at_version_trusted:
  assumes "at_version env 9 db"
  shows "trusted_history env available_migrations db 9"
  unfolding trusted_history_def list_all_iff
proof
  fix v :: int
  assume "v \<in> set [1..9]"
  then have i: "nat v - 1 < 9" and v: "int (nat v - 1) + 1 = v" by auto
  define m where "m = available_migrations ! (nat v - 1)"
  have m: "m \<in> set available_migrations" "mg_version m = v"
    using i v by (simp_all add: m_def length_available available_version_nth)
  have "expected_migration available_migrations v = Some m"
    unfolding expected_migration_def sorted_available
    by (rule find_unique) (use m available_unique in auto)
  moreover have "map_of (map (\<lambda>m. (mg_version m, mg_name m, checksum env m)) available_migrations) v
      = Some (mg_name m, checksum env m)"
    by (rule map_of_is_SomeI) (use m in \<open>auto simp: available_versions o_def\<close>)
  then have "map_option (\<lambda>(name, digest, applied). (name, digest)) (dict_get (migration_rows db) v)
      = Some (mg_name m, checksum env m)"
    by (simp add: at_version_rows [OF assms] length_available)
  ultimately show "case (expected_migration available_migrations v, dict_get (migration_rows db) v) of
      (Some m, Some (name, digest, applied)) \<Rightarrow> name = mg_name m \<and> digest = checksum env m
    | _ \<Rightarrow> False"
    by auto
qed

lemma at_version_valid:
  assumes "at_version env 9 db"
  shows "validate_database env available_migrations db 9 = Inr ()"
  using at_version_trusted [OF assms] assms catalog_at_9(1)
  by (simp add: validate_database_ok at_version_def)

lemma at_version_precheck: "at_version env k db \<Longrightarrow> precheck db = Inr ()"
  by (simp add: at_version_def precheck_def assert_quick_check_def quick_check_def
      assert_supported_version_def CURRENT_SQLITE_SCHEMA_VERSION_def)

lemma adopt_empty: "validate_unversioned_adoption (catalog_at 0) = Inr ()"
  by (simp add: validate_unversioned_adoption_def adoption_missing_def catalog_at_def
      empty_catalog_def table_exists_def)

lemma at_version_upgrades:
  assumes at: "at_version env k db"
  shows "\<exists>db'. ensure_current env available_migrations (Db_File db) =
           (Db_File db', Inr (run_result (int k))) \<and> at_version env 9 db'"
proof (cases "k = 9")
  case True
  with at have "at_version env 9 db" "user_version db = 9" by (simp_all add: at_version_def)
  then have "ensure_current env available_migrations (Db_File db) = (Db_File db, Inr already_current)"
    using at_version_precheck at_version_valid by (blast intro: ensure_current_again)
  with \<open>at_version env 9 db\<close> True show ?thesis by (simp add: run_result_9)
next
  case False
  with at have k: "k < 9" and uv: "user_version db = int k" and nl: "\<not> write_locked db"
    by (simp_all add: at_version_def)
  obtain db' where db': "apply_each env (drop k available_migrations) db = Inr db'"
    "at_version env 9 db'"
    using at_version_apply_each [OF at] by blast
  obtain m rest where d: "drop k available_migrations = m # rest"
    using k by (cases "drop k available_migrations") (auto simp: length_available)
  have "map mg_version (drop k available_migrations) = versions_above (int k)"
    using pending_versions_available [of "int k"] k by (simp add: pending_drop)
  then have "apply_pending env available_migrations (int k) db = (db', Inr (versions_above (int k)))"
    using db'(1) nl k by (simp add: apply_pending_def pending_drop d)
  moreover have "(if user_version db = 0 then validate_unversioned_adoption (catalog db) else Inr ())
      = Inr ()"
    using at adopt_empty by (simp add: at_version_def)
  ultimately have "upgrade_connection env available_migrations db = (db', Inr (run_result (int k)))"
    using k at_version_valid [OF db'(2)]
    by (simp add: upgrade_connection_def uv run_result_def CURRENT_SQLITE_SCHEMA_VERSION_def)
  then show ?thesis
    using k db'(2) at_version_precheck [OF at]
    by (simp add: ensure_current_def ensure_current_connection_def uv
        CURRENT_SQLITE_SCHEMA_VERSION_def)
qed

definition upgradable :: "schema_env \<Rightarrow> db_file \<Rightarrow> bool" where
  "upgradable env f =
     (case f of Missing_File \<Rightarrow> True | Directory \<Rightarrow> False
      | Db_File db \<Rightarrow> at_version env (nat (user_version db)) db)"

lemma upgradable_succeeds:
  assumes "upgradable env f"
  shows "\<exists>db' r. ensure_current env available_migrations f = (Db_File db', Inr r) \<and>
           at_version env 9 db'"
proof (cases f)
  case Missing_File
  then show ?thesis using at_version_upgrades [OF empty_at_version [of env]]
    by (auto simp: ensure_current_def)
next
  case (Db_File db)
  then show ?thesis using assms at_version_upgrades [of env "nat (user_version db)" db]
    by (auto simp: upgradable_def)
qed (use assms in \<open>simp add: upgradable_def\<close>)

section \<open>Unversioned databases that cannot be adopted\<close>

lemma table_columns_mono:
  assumes "catalog_le c c'"
  shows "set (table_columns c t) \<subseteq> set (table_columns c' t)"
proof (cases "dict_get (cat_tables c) t")
  case (Some kc)
  then obtain more where "dict_get (cat_tables c') t = Some (fst kc, snd kc @ more)"
    using assms unfolding catalog_le_def by (metis prod.collapse)
  with Some show ?thesis by (simp add: table_columns_def case_prod_unfold)
qed (simp add: table_columns_def)

lemma add_column_new:
  "exec_statement (ADD_COLUMN t col) db = Inr db' \<Longrightarrow> col \<notin> set (table_columns (catalog db) t)"
  by (auto simp: exec_statement_def result_bind_ok table_columns_def
      split: option.splits prod.splits if_splits)

lemma exec_statements_new_column:
  assumes "exec_statements ss db = Inr db'" and "ADD_COLUMN t col \<in> set ss"
  shows "col \<notin> set (table_columns (catalog db) t)"
  using assms
proof (induction ss arbitrary: db)
  case (Cons s ss)
  then obtain db1 where 1: "exec_statement s db = Inr db1" "exec_statements ss db1 = Inr db'"
    by (auto simp: result_bind_ok)
  have "set (table_columns (catalog db) t) \<subseteq> set (table_columns (catalog db1) t)"
    using exec_statement_extends(1) [OF 1(1)] by (simp add: db_extends_def table_columns_mono)
  with Cons.IH [OF 1(2)] Cons.prems(2) 1(1) add_column_new show ?case by auto
qed simp

lemma apply_each_new_column:
  assumes "apply_each env ms db = Inr db'" and "m \<in> set ms" and "skip_if m = None"
    and "ADD_COLUMN t col \<in> set (statements m)"
  shows "col \<notin> set (table_columns (catalog db) t)"
  using assms
proof (induction ms arbitrary: db)
  case (Cons m' ms)
  then obtain db1 where 1: "apply_pending_migration env m' db = Inr db1" "apply_each env ms db1 = Inr db'"
    by (auto split: sum.splits)
  show ?case
  proof (cases "m = m'")
    case True
    with 1(1) Cons.prems(3) obtain db2 where "exec_statements (statements m) db = Inr db2"
      by (auto simp: apply_pending_migration_def skips_def result_bind_ok)
    with Cons.prems(4) exec_statements_new_column show ?thesis by blast
  next
    case False
    with Cons.IH [OF 1(2)] Cons.prems have "col \<notin> set (table_columns (catalog db1) t)" by simp
    moreover have "set (table_columns (catalog db) t) \<subseteq> set (table_columns (catalog db1) t)"
      using apply_pending_migration_ok(1) [OF 1(1)] by (simp add: db_extends_def table_columns_mono)
    ultimately show ?thesis by blast
  qed
qed simp

lemma ensure_current_connection_cases:
  assumes "ensure_current_connection env ms db = (db', out)"
  shows "db' = db \<or> apply_each env (pending_migrations ms (user_version db)) db = Inr db'"
  using assms
  by (auto simp: ensure_current_connection_def upgrade_connection_def apply_pending_def
      split: sum.splits if_splits prod.splits list.splits)

text \<open>Tables of later migrations, each with a column that a later migration adds.\<close>

definition grown_tables :: "(string \<times> string) list" where
  "grown_tables =
     [(''background_jobs'', ''resource_profile_json''),
      (''memory_candidate_reviews'', ''candidate_type''),
      (''conversation_transcripts'', ''legal_hold_until'')]"

lemma grown_required:
  "list_all (\<lambda>(t, col). t \<noteq> ''schema_migrations'' \<and> dict_get UNVERSIONED_ADOPTION_OPTIONAL_COLUMNS t = None \<and>
     (case dict_get REQUIRED_COLUMNS t of None \<Rightarrow> False | Some required \<Rightarrow> col \<in> set required)) grown_tables"
  by code_simp

lemma column_migrations:
  "REVIEW_CANDIDATE_TYPE_V5 \<in> set available_migrations"
  "BACKGROUND_JOB_PRESSURE_V6 \<in> set available_migrations"
  "TRANSCRIPT_CLEANUP_V8 \<in> set available_migrations"
  "skip_if REVIEW_CANDIDATE_TYPE_V5 = None" "1 < mg_version REVIEW_CANDIDATE_TYPE_V5"
  "skip_if BACKGROUND_JOB_PRESSURE_V6 = None" "1 < mg_version BACKGROUND_JOB_PRESSURE_V6"
  "skip_if TRANSCRIPT_CLEANUP_V8 = None" "1 < mg_version TRANSCRIPT_CLEANUP_V8"
  by (simp_all add: available_migrations_def REVIEW_CANDIDATE_TYPE_V5_def
      BACKGROUND_JOB_PRESSURE_V6_def TRANSCRIPT_CLEANUP_V8_def)

lemma columns_added:
  "ADD_COLUMN ''memory_candidate_reviews'' ''candidate_type'' \<in> set (statements REVIEW_CANDIDATE_TYPE_V5)"
  "ADD_COLUMN ''background_jobs'' ''resource_profile_json'' \<in> set (statements BACKGROUND_JOB_PRESSURE_V6)"
  "ADD_COLUMN ''conversation_transcripts'' ''legal_hold_until'' \<in> set (statements TRANSCRIPT_CLEANUP_V8)"
  by (simp_all add: REVIEW_CANDIDATE_TYPE_V5_def BACKGROUND_JOB_PRESSURE_V6_def
      TRANSCRIPT_CLEANUP_V8_def)

lemma grown_added:
  assumes "(t, col) \<in> set grown_tables"
  shows "\<exists>m\<in>set available_migrations. skip_if m = None \<and> 1 < mg_version m \<and>
           ADD_COLUMN t col \<in> set (statements m)"
proof -
  from assms have "(t, col) = (''background_jobs'', ''resource_profile_json'') \<or>
      (t, col) = (''memory_candidate_reviews'', ''candidate_type'') \<or>
      (t, col) = (''conversation_transcripts'', ''legal_hold_until'')"
    unfolding grown_tables_def set_simps by blast
  then show ?thesis
  proof (elim disjE)
    assume "(t, col) = (''background_jobs'', ''resource_profile_json'')"
    then show ?thesis using column_migrations(2,6,7) columns_added(2) by blast
  next
    assume "(t, col) = (''memory_candidate_reviews'', ''candidate_type'')"
    then show ?thesis using column_migrations(1,4,5) columns_added(1) by blast
  next
    assume "(t, col) = (''conversation_transcripts'', ''legal_hold_until'')"
    then show ?thesis using column_migrations(3,8,9) columns_added(3) by blast
  qed
qed

lemma adoption_ok_columns:
  assumes ok: "validate_unversioned_adoption c = Inr ()" and t: "(t, col) \<in> set grown_tables"
    and ex: "table_exists c t"
  shows "col \<in> set (table_columns c t)"
proof -
  obtain required where r: "(t, required) \<in> set REQUIRED_COLUMNS" "col \<in> set required"
    and o: "t \<noteq> ''schema_migrations''" "dict_get UNVERSIONED_ADOPTION_OPTIONAL_COLUMNS t = None"
    using bspec [OF grown_required [unfolded list_all_iff] t]
    by (cases "dict_get REQUIRED_COLUMNS t") (auto dest: map_of_SomeD)
  have "concat (map (\<lambda>(t, required). adoption_missing c t required) REQUIRED_COLUMNS) = []"
    using ok by (simp add: validate_unversioned_adoption_def Let_def split: if_splits)
  with r(1) have "adoption_missing c t required = []" by fastforce
  with r(2) o ex show ?thesis
    by (auto simp: adoption_missing_def Let_def filter_empty_conv)
qed

lemma grown_tables_rejected:
  assumes v: "user_version db = 0" and t: "(t, col) \<in> set grown_tables"
    and ex: "table_exists (catalog db) t"
  shows "\<exists>e. ensure_current env available_migrations (Db_File db) = (Db_File db, Inl e)"
proof -
  have "\<exists>e. upgrade_connection env available_migrations db = (db, Inl e)"
  proof (cases "validate_unversioned_adoption (catalog db)")
    case Inl
    with v show ?thesis by (simp add: upgrade_connection_def)
  next
    case (Inr u)
    obtain m where m: "m \<in> set available_migrations" "skip_if m = None" "1 < mg_version m"
      "ADD_COLUMN t col \<in> set (statements m)"
      using grown_added [OF t] by blast
    then have "m \<in> set (pending_migrations available_migrations 0)"
      by (simp add: pending_migrations_def sorted_available)
    moreover have "col \<in> set (table_columns (catalog db) t)"
      using Inr adoption_ok_columns [OF _ t ex] by simp
    ultimately have "\<nexists>db'. apply_each env (pending_migrations available_migrations 0) db = Inr db'"
      using apply_each_new_column m(2,4) by blast
    then obtain x where "apply_each env (pending_migrations available_migrations 0) db = Inl x"
      by (cases "apply_each env (pending_migrations available_migrations 0) db") auto
    with Inr v pending_last(1) [of 0] show ?thesis
      by (auto simp: upgrade_connection_def apply_pending_def
          split: list.splits prod.splits)
  qed
  then show ?thesis using v
    by (auto simp: ensure_current_def ensure_current_connection_def CURRENT_SQLITE_SCHEMA_VERSION_def
        split: sum.splits)
qed

text \<open>
  A database whose audit table has \<^verbatim>\<open>model_versions\<close> already makes migration 9 skip
  all its statements, also the one that creates \<^verbatim>\<open>delivery_user_controls\<close>.
\<close>

definition lacks_user_controls :: "sql_catalog \<Rightarrow> bool" where
  "lacks_user_controls c \<longleftrightarrow>
     safety_audit_model_versions_column_exists c \<and> \<not> table_exists c ''delivery_user_controls''"

definition creates_user_controls :: "sql_statement \<Rightarrow> bool" where
  "creates_user_controls s =
     (case s of CREATE_TABLE t cols \<Rightarrow> t = ''delivery_user_controls''
      | CREATE_VIRTUAL_TABLE t cols \<Rightarrow> t = ''delivery_user_controls'' | _ \<Rightarrow> False)"

lemma exec_catalog_tables:
  assumes "exec_catalog s c = Inr c'" and "\<not> creates_user_controls s"
  shows "table_exists c' ''delivery_user_controls'' = table_exists c ''delivery_user_controls''"
proof (cases s)
  case FILL_MEMORIES_FTS
  with assms show ?thesis
    by (simp del: insert_target.simps select_source.simps split: option.splits)
qed (use assms in \<open>auto simp: table_exists_def creates_user_controls_def dict_get_set
      split: if_splits option.splits prod.splits\<close>)

lemma exec_statement_catalog:
  "exec_statement s db = Inr db' \<Longrightarrow> exec_catalog s (catalog db) = Inr (catalog db')"
  by (cases s) (auto simp: exec_statement_def result_bind_ok split: if_splits)

lemma exec_statements_lack:
  assumes "exec_statements ss db = Inr db'" and "list_all (\<lambda>s. \<not> creates_user_controls s) ss"
    and "lacks_user_controls (catalog db)"
  shows "lacks_user_controls (catalog db')"
  using assms
proof (induction ss arbitrary: db)
  case (Cons s ss)
  then obtain db1 where 1: "exec_statement s db = Inr db1" "exec_statements ss db1 = Inr db'"
    by (auto simp: result_bind_ok)
  have "lacks_user_controls (catalog db1)"
    using Cons.prems(2,3) exec_catalog_tables [OF exec_statement_catalog [OF 1(1)]]
      table_columns_mono [OF exec_catalog_le [OF exec_statement_catalog [OF 1(1)]]]
    by (auto simp: lacks_user_controls_def safety_audit_model_versions_column_exists_def)
  with Cons.IH [OF 1(2)] Cons.prems(2) show ?case by simp
qed simp

lemma user_controls_created_last:
  "list_all (\<lambda>m. list_all (\<lambda>s. \<not> creates_user_controls s) (statements m)) (butlast available_migrations)"
  "last available_migrations = DELIVERY_USER_CONTROL_AND_AUDIT_VERSIONS_V9"
  by (code_simp, simp add: available_migrations_def)

lemma apply_pending_migration_lack:
  assumes run: "apply_pending_migration env m db = Inr db'" and m: "m \<in> set available_migrations"
    and lack: "lacks_user_controls (catalog db)"
  shows "lacks_user_controls (catalog db')"
proof -
  have rv: "catalog b = catalog a" if "record_version env m a = Inr b" for a b
    using record_version_ok(2) [OF that] by simp
  show ?thesis
  proof (cases "skips m (catalog db)")
    case True
    with run lack show ?thesis by (simp add: apply_pending_migration_def rv)
  next
    case False
    have "m \<noteq> DELIVERY_USER_CONTROL_AND_AUDIT_VERSIONS_V9"
      using False lack
      by (auto simp: skips_def lacks_user_controls_def DELIVERY_USER_CONTROL_AND_AUDIT_VERSIONS_V9_def)
    with m have "m \<in> set (butlast available_migrations)"
      by (metis append_butlast_last_id empty_iff in_set_butlastD in_set_conv_decomp list.set(1)
          rotate1.simps(2) set_ConsD set_rotate1 user_controls_created_last(2))
    then have "list_all (\<lambda>s. \<not> creates_user_controls s) (statements m)"
      using user_controls_created_last(1) by (simp add: list_all_iff)
    moreover obtain db1 where "exec_statements (statements m) db = Inr db1"
      "record_version env m db1 = Inr db'"
      using run False by (auto simp: apply_pending_migration_def result_bind_ok)
    ultimately show ?thesis using exec_statements_lack lack rv by metis
  qed
qed

lemma apply_each_lack:
  assumes "apply_each env ms db = Inr db'" and "set ms \<subseteq> set available_migrations"
    and "lacks_user_controls (catalog db)"
  shows "lacks_user_controls (catalog db')"
  using assms
proof (induction ms arbitrary: db)
  case (Cons m ms)
  then obtain db1 where 1: "apply_pending_migration env m db = Inr db1" "apply_each env ms db1 = Inr db'"
    by (auto split: sum.splits)
  with Cons.prems apply_pending_migration_lack have "lacks_user_controls (catalog db1)" by auto
  with Cons.IH [OF 1(2)] Cons.prems(2) show ?case by simp
qed simp

lemma user_controls_required: "dict_get REQUIRED_COLUMNS ''delivery_user_controls'' \<noteq> None"
  by code_simp

lemma lacking_not_present: "lacks_user_controls c \<Longrightarrow> \<not> required_present c"
proof -
  assume lack: "lacks_user_controls c"
  from user_controls_required obtain req where "(''delivery_user_controls'', req) \<in> set REQUIRED_COLUMNS"
    by (auto dest: map_of_SomeD)
  with lack show ?thesis by (auto simp: required_present_def list_all_iff lacks_user_controls_def)
qed

lemma lacking_never_opens:
  assumes "lacks_user_controls (catalog db)"
  shows "\<exists>db' e. ensure_current env available_migrations (Db_File db) = (Db_File db', Inl e) \<and>
           lacks_user_controls (catalog db')"
proof -
  obtain db' out where run: "ensure_current_connection env available_migrations db = (db', out)"
    by (cases "ensure_current_connection env available_migrations db")
  have "set (pending_migrations available_migrations (user_version db)) \<subseteq> set available_migrations"
    by (auto simp: pending_migrations_def sorted_available)
  then have lack: "lacks_user_controls (catalog db')"
    using ensure_current_connection_cases [OF run] apply_each_lack assms by metis
  have "\<exists>e. out = Inl e"
    using ensure_current_connection_outcome [OF run] lacking_not_present [OF lack]
    by (cases out) (auto simp: validate_database_ok)
  with run lack show ?thesis by (auto simp: ensure_current_def)
qed

section \<open>The outcome of a run\<close>

lemma run_sound:
  "case ensure_current_connection env available_migrations db of
     (db', Inr r) \<Rightarrow>
       user_version db' = 9 \<and> required_present (catalog db') \<and>
       trusted_history env available_migrations db' 9 \<and> db_extends db db' \<and>
       (user_version db < 1 \<longrightarrow> memories_indexed db') \<and> r = run_result (user_version db) \<and>
       ensure_current env available_migrations (Db_File db') = (Db_File db', Inr already_current)
   | (db', Inl e) \<Rightarrow> db' = db \<or> late_error e \<and> committed db db'"
proof -
  obtain db' out where run: "ensure_current_connection env available_migrations db = (db', out)"
    by (cases "ensure_current_connection env available_migrations db")
  show ?thesis
  proof (cases out)
    case Inl
    with ensure_current_connection_outcome [OF run] show ?thesis by (simp add: run)
  next
    case (Inr r)
    with ensure_current_connection_outcome [OF run] show ?thesis
      by (simp add: run ensure_current_again validate_database_ok)
  qed
qed

lemma upgradable_outcome:
  assumes "upgradable env f"
  shows "case ensure_current env available_migrations f of
           (f', Inr r) \<Rightarrow> at_version env 9 (opened f') \<and> no_raw_content (catalog (opened f'))
         | (f', Inl e) \<Rightarrow> False"
proof -
  obtain db' r where "ensure_current env available_migrations f = (Db_File db', Inr r)"
    "at_version env 9 db'"
    using upgradable_succeeds [OF assms] by blast
  moreover from this have "no_raw_content (catalog db')"
    using catalog_at_9(2) by (simp add: at_version_def)
  ultimately show ?thesis by (simp add: opened_def)
qed

section \<open>The properties\<close>

text \<open>
  C4. Opening a database file with the migrations of the registry. On success the file holds a
  database at version 9 that has every required table and column and records exactly the names and
  checksums of the migrations; nothing of the earlier database is gone (tables with their columns,
  indexes, memories, full-text rows, recorded migrations), the memories of a database that had not
  seen the baseline are in the full-text table, the result names the versions above the previous
  one as applied, and opening the file again changes nothing. A missing file and every database
  that the first migrations produced are opened successfully, with a schema in which the audit and
  the user control tables have no column for raw content. On failure the file is as it was, except
  when the validation after the commit raises: then the migrations are in the file.
\<close>

theorem schema_migration_sound:
  "case ensure_current env available_migrations f of
     (f', Inr r) \<Rightarrow>
       (\<exists>db'. f' = Db_File db' \<and> user_version db' = 9 \<and> required_present (catalog db') \<and>
          trusted_history env available_migrations db' 9 \<and> db_extends (opened f) db' \<and>
          (user_version (opened f) < 1 \<longrightarrow> memories_indexed db') \<and>
          r = run_result (user_version (opened f)) \<and>
          ensure_current env available_migrations f' = (f', Inr already_current)) \<and>
       (upgradable env f \<longrightarrow> at_version env 9 (opened f') \<and> no_raw_content (catalog (opened f')))
   | (f', Inl e) \<Rightarrow>
       \<not> upgradable env f \<and> (f' = f \<or> late_error e \<and> committed (opened f) (opened f'))"
proof (cases f)
  case Directory
  then show ?thesis by (simp add: ensure_current_def upgradable_def)
next
  case Missing_File
  then have "upgradable env f" by (simp add: upgradable_def)
  with Missing_File show ?thesis
    using run_sound [where env = env and db = empty_db] upgradable_outcome [of env f]
    by (auto simp: ensure_current_def opened_def split: prod.splits sum.splits)
next
  case (Db_File db)
  then show ?thesis
    using run_sound [where env = env and db = db] upgradable_outcome [of env f]
    by (auto simp: ensure_current_def opened_def split: prod.splits sum.splits)
qed

definition example_env :: schema_env where
  "example_env = \<lparr>sql_text = (\<lambda>s. ''sql''), sha256_hexdigest = (\<lambda>s. take 4 s),
     clock_isoformat = (\<lambda>v. ''2026-01-01T00:00:00+00:00'')\<rparr>"

theorem schema_migration_sound_witness:
  "upgradable example_env Missing_File \<and> user_version (opened Missing_File) < 1 \<and>
   (\<exists>db'. ensure_current example_env available_migrations Missing_File =
           (Db_File db', Inr (run_result 0)) \<and>
         required_present (catalog db') \<and> memories_indexed db' \<and> at_version example_env 9 db')"
proof -
  have up: "upgradable example_env Missing_File" and v: "user_version (opened Missing_File) = 0"
    by (simp_all add: upgradable_def opened_def empty_db_def)
  obtain f' out where run: "ensure_current example_env available_migrations Missing_File = (f', out)"
    by (cases "ensure_current example_env available_migrations Missing_File")
  show ?thesis
    using schema_migration_sound [where env = example_env and f = Missing_File] up v
    by (cases out) (auto simp: run opened_def [of "Db_File x" for x])
qed


definition legacy_db :: "string \<Rightarrow> string list \<Rightarrow> schema_db" where
  "legacy_db t cols =
     empty_db\<lparr>catalog := \<lparr>cat_tables = [(t, (Base_Table, cols))], cat_indexes = []\<rparr>\<rparr>"


end
