(* ===== verification/Learning_Signals.thy ===== *)
theory Learning_Signals
  imports Policy_Contracts
begin

text \<open>
  What the learning hooks read: the typed signals of the appraisal
  (\<^verbatim>\<open>iris/contracts/appraisal.py\<close>, the state kinds and scopes of
  \<^verbatim>\<open>iris/contracts/companion_affect.py\<close>) and the runtime learning event
  (\<^verbatim>\<open>iris/contracts/learning.py\<close>) with the parts of its observation
  (\<^verbatim>\<open>iris/contracts/observations.py\<close>) that the hooks use.
\<close>

section \<open>Appraisal signals\<close>

datatype signal_kind =
  AS_USER_EMOTION | AS_ATTITUDE_TOWARD_IRIS | AS_TOPIC_SENTIMENT | AS_CARE_INTENT | AS_DEPENDENCY_RISK_HINT

fun signal_kind_value :: "signal_kind \<Rightarrow> string" where
  "signal_kind_value AS_USER_EMOTION = ''user_emotion''"
| "signal_kind_value AS_ATTITUDE_TOWARD_IRIS = ''attitude_toward_iris''"
| "signal_kind_value AS_TOPIC_SENTIMENT = ''topic_sentiment''"
| "signal_kind_value AS_CARE_INTENT = ''care_intent''"
| "signal_kind_value AS_DEPENDENCY_RISK_HINT = ''dependency_risk_hint''"

datatype affect_state_kind =
  IRIS_GLOBAL_MOOD | ACTOR_RELATIONSHIP | ACTOR_AFFECT_TRACE | SPACE_ATMOSPHERE | RECENT_INTERACTION_TONE

fun affect_state_kind_value :: "affect_state_kind \<Rightarrow> string" where
  "affect_state_kind_value IRIS_GLOBAL_MOOD = ''iris_global_mood''"
| "affect_state_kind_value ACTOR_RELATIONSHIP = ''actor_relationship_state''"
| "affect_state_kind_value ACTOR_AFFECT_TRACE = ''actor_affect_trace''"
| "affect_state_kind_value SPACE_ATMOSPHERE = ''space_atmosphere_state''"
| "affect_state_kind_value RECENT_INTERACTION_TONE = ''recent_interaction_tone''"

datatype interaction_scope = DIRECT_MESSAGE | GROUP_SPACE

datatype safety_hint = DEPENDENCY_RISK

record source_span =
  sp_start_index :: int
  sp_end_index :: int
  sp_text :: code_points

definition validate_source_span :: "source_span \<Rightarrow> contract_error + source_span" where
  "validate_source_span p =
     (if sp_start_index p < 0 \<or> sp_end_index p < 0 \<or> sp_text p = []
      then Inl (ContractValidationError ''field constraint'')
      else if sp_end_index p \<le> sp_start_index p
      then Inl (ContractValidationError ''end_index must be greater than start_index'')
      else Inr p)"

fun appraisal_state_boundary_for_kind :: "signal_kind \<Rightarrow> affect_state_kind option" where
  "appraisal_state_boundary_for_kind AS_USER_EMOTION = Some ACTOR_AFFECT_TRACE"
| "appraisal_state_boundary_for_kind AS_ATTITUDE_TOWARD_IRIS = Some ACTOR_RELATIONSHIP"
| "appraisal_state_boundary_for_kind AS_TOPIC_SENTIMENT = Some RECENT_INTERACTION_TONE"
| "appraisal_state_boundary_for_kind AS_CARE_INTENT = Some RECENT_INTERACTION_TONE"
| "appraisal_state_boundary_for_kind AS_DEPENDENCY_RISK_HINT = None"

record appraisal_signal =
  as_kind :: signal_kind
  as_label :: string
  as_polarity :: rat
  as_confidence :: rat
  as_reason :: string
  as_source_span :: source_span
  as_state_boundary :: "affect_state_kind option"
  as_safety_hint :: "safety_hint option"
  as_source_observation_id :: "string option"
  as_metadata :: metadata

definition validate_appraisal_signal :: "appraisal_signal \<Rightarrow> contract_error + appraisal_signal" where
  "validate_appraisal_signal s =
     (if as_label s = [] \<or> \<not> (- 1 \<le> as_polarity s \<and> as_polarity s \<le> 1) \<or> \<not> unit_interval (as_confidence s) \<or>
         as_reason s = []
      then Inl (ContractValidationError ''field constraint'')
      else if as_state_boundary s \<noteq> appraisal_state_boundary_for_kind (as_kind s)
      then Inl (ContractValidationError
             (signal_kind_value (as_kind s) @ '' signal requires state_boundary='' @
              (case appraisal_state_boundary_for_kind (as_kind s) of
                 None \<Rightarrow> ''None'' | Some b \<Rightarrow> affect_state_kind_value b)))
      else if as_kind s = AS_DEPENDENCY_RISK_HINT \<and> as_safety_hint s \<noteq> Some DEPENDENCY_RISK
      then Inl (ContractValidationError ''dependency_risk_hint requires dependency_risk safety_hint'')
      else if as_kind s \<noteq> AS_DEPENDENCY_RISK_HINT \<and> as_safety_hint s \<noteq> None
      then Inl (ContractValidationError ''only dependency_risk_hint may carry a safety_hint in this contract'')
      else Inr s)"

definition signal_ok :: "appraisal_signal \<Rightarrow> bool" where
  "signal_ok s \<longleftrightarrow> validate_appraisal_signal s = Inr s"

lemma signal_okD:
  assumes "signal_ok s"
  shows "- 1 \<le> as_polarity s" "as_polarity s \<le> 1" "0 \<le> as_confidence s" "as_confidence s \<le> 1" "as_reason s \<noteq> []"
    and "as_safety_hint s = Some DEPENDENCY_RISK \<longleftrightarrow> as_kind s = AS_DEPENDENCY_RISK_HINT"
  using assms
  by (auto simp: signal_ok_def validate_appraisal_signal_def unit_interval_def split: if_splits)

definition signals_by_kind :: "appraisal_signal list \<Rightarrow> signal_kind \<Rightarrow> appraisal_signal list" where
  "signals_by_kind signals kind = filter (\<lambda>s. as_kind s = kind) signals"

definition RELATIONSHIP_CANDIDATE_SIGNAL_KINDS :: "signal_kind list" where
  "RELATIONSHIP_CANDIDATE_SIGNAL_KINDS = [AS_ATTITUDE_TOWARD_IRIS]"

section \<open>Learning events\<close>

datatype event_kind = EV_INLINE_RESPONSE_GENERATED | EV_NO_ACTION | EV_USER_FEEDBACK

fun event_kind_value :: "event_kind \<Rightarrow> string" where
  "event_kind_value EV_INLINE_RESPONSE_GENERATED = ''inline_response_generated''"
| "event_kind_value EV_NO_ACTION = ''no_action''"
| "event_kind_value EV_USER_FEEDBACK = ''user_feedback''"

datatype feedback_kind = FB_POSITIVE | FB_NEGATIVE | FB_STYLE_PREFERENCE | FB_CORRECTION | FB_OTHER

datatype observation_body =
  Actor_Message code_points | User_Feedback feedback_kind code_points | Other_Observation

record runtime_learning_event =
  le_kind :: event_kind
  le_observation :: observation_body
  le_account_id :: "string option"
  le_space_id :: "string option"
  le_actor_id :: "string option"
  le_occurred_at :: datetime
  le_route :: string
  le_source_observation_id :: string
  le_appraisal_signals :: "appraisal_signal list"
  le_interaction_scope :: "interaction_scope option"
  le_source_event_ids :: "string list"

section \<open>Payloads of the learning jobs\<close>

record policy_job_payload =
  pj_signals :: "policy_signal list"
  pj_account_id :: string
  pj_space_id :: "string option"
  pj_actor_id :: "string option"

record relationship_job_payload =
  rj_signals :: "appraisal_signal list"
  rj_interaction_scope :: interaction_scope
  rj_actor_id :: string
  rj_account_id :: "string option"
  rj_space_id :: "string option"
  rj_source_observation_id :: "string option"
  rj_source_event_ids :: "string list"

text \<open>\<^verbatim>\<open>BackgroundJobPayload\<close>; the payloads of memory jobs are one case, which these workers refuse.\<close>

datatype learning_payload =
  Policy_Payload policy_job_payload | Relationship_Payload relationship_job_payload | Memory_Payload

datatype learning_error =
  Learning_Contract contract_error | Learning_TypeError string | Learning_KeyError string

end
