(* ===== verification/Policy_Review.thy ===== *)
theory Policy_Review
  imports Review_Boundary
begin

text \<open>
  The review of interaction policies: the process-local store
  (\<^verbatim>\<open>iris/runtime/state/interaction_policy_candidates.py\<close>), the review service and the promoter
  of approved policies (\<^verbatim>\<open>iris/runtime/learning/interaction_policy_review.py\<close>). Every call of the
  store runs under its lock and does not suspend, so an operation of the service is one step.
\<close>

section \<open>The store\<close>

record policy_record =
  pr_candidate_id :: string
  pr_candidate :: policy_candidate
  pr_created_at :: datetime
  pr_updated_at :: datetime
  pr_idempotency_key :: code_points
  pr_status :: review_status
  pr_actor_id :: "string option"
  pr_account_id :: "string option"
  pr_space_id :: "string option"
  pr_reviewed_at :: "datetime option"
  pr_reviewed_by :: "string option"
  pr_review_reason :: "string option"
  pr_metadata :: metadata

record policy_update =
  pu_status :: review_status
  pu_updated_at :: datetime
  pu_reviewed_at :: "datetime option"
  pu_reviewed_by :: "string option"
  pu_review_reason :: "string option"

record policy_store =
  ps_records :: "(string, policy_record) dict"
  ps_idempotency_keys :: "(code_points, string) dict"

definition empty_policy_store :: policy_store where
  "empty_policy_store = \<lparr>ps_records = [], ps_idempotency_keys = []\<rparr>"

definition policy_add_nowait :: "policy_store \<Rightarrow> policy_record \<Rightarrow> (review_error + policy_record) \<times> policy_store" where
  "policy_add_nowait s r =
     (case dict_get (ps_records s) (pr_candidate_id r) of
        Some existing \<Rightarrow> (Inr existing, s)
      | None \<Rightarrow>
          (case dict_get (ps_idempotency_keys s) (pr_idempotency_key r) of
             Some existing_id \<Rightarrow>
               (case dict_get (ps_records s) existing_id of
                  Some existing \<Rightarrow> (Inr existing, s)
                | None \<Rightarrow> (Inl (ReviewKeyError existing_id), s))
           | None \<Rightarrow>
               (Inr r, s\<lparr>ps_records := dict_set (pr_candidate_id r) r (ps_records s),
                         ps_idempotency_keys :=
                           dict_set (pr_idempotency_key r) (pr_candidate_id r) (ps_idempotency_keys s)\<rparr>)))"

definition policy_get :: "policy_store \<Rightarrow> string \<Rightarrow> policy_record option" where
  "policy_get s cid = dict_get (ps_records s) cid"

definition policy_matches_filter :: "policy_record \<Rightarrow> review_filter \<Rightarrow> bool" where
  "policy_matches_filter r q \<longleftrightarrow>
     (rf_status q = None \<or> Some (pr_status r) = rf_status q) \<and>
     (rf_candidate_type q = None \<or> rf_candidate_type q = Some CT_INTERACTION_POLICY) \<and>
     (rf_actor_id q = None \<or> pr_actor_id r = rf_actor_id q) \<and>
     (rf_account_id q = None \<or> pr_account_id r = rf_account_id q) \<and>
     (rf_space_id q = None \<or> pr_space_id r = rf_space_id q)"

definition policy_record_sort_key :: "policy_record \<Rightarrow> datetime \<times> string" where
  "policy_record_sort_key r = (pr_created_at r, pr_candidate_id r)"

text \<open>The limit of a filter is at least one, by the filter's contract.\<close>

definition policy_list_by_filter :: "policy_store \<Rightarrow> review_filter \<Rightarrow> policy_record list" where
  "policy_list_by_filter s q =
     take (nat (rf_limit q))
       (sort_key policy_record_sort_key (filter (\<lambda>r. policy_matches_filter r q) (dict_values (ps_records s))))"

definition apply_policy_update :: "policy_record \<Rightarrow> policy_update \<Rightarrow> policy_record" where
  "apply_policy_update r u =
     r\<lparr>pr_status := pu_status u, pr_updated_at := pu_updated_at u, pr_reviewed_at := pu_reviewed_at u,
       pr_reviewed_by := pu_reviewed_by u, pr_review_reason := pu_review_reason u\<rparr>"

definition policy_update_review ::
  "policy_store \<Rightarrow> string \<Rightarrow> policy_update \<Rightarrow> policy_record option \<times> policy_store" where
  "policy_update_review s cid u =
     (case dict_get (ps_records s) cid of
        None \<Rightarrow> (None, s)
      | Some r \<Rightarrow>
          let updated = apply_policy_update r u
          in (Some updated, s\<lparr>ps_records := dict_set cid updated (ps_records s)\<rparr>))"

section \<open>The service\<close>

definition policy_scope :: "policy_candidate \<Rightarrow> review_scope" where
  "policy_scope c = \<lparr>sc_actor_id = pc_actor_id c, sc_account_id = Some (pc_account_id c), sc_space_id = pc_space_id c\<rparr>"

definition policy_summary_from_record :: "policy_record \<Rightarrow> review_summary" where
  "policy_summary_from_record r =
     (let c = pr_candidate r
      in \<lparr>rs_candidate_id = pr_candidate_id r, rs_candidate_type = CT_INTERACTION_POLICY, rs_status = pr_status r,
          rs_scope = policy_scope c, rs_source_observation_id = None,
          rs_text_preview = codes (policy_kind_value (pc_policy_kind c)) @ codes '': '' @ pc_value c,
          rs_confidence = pc_confidence c, rs_reason = Some (pc_reason c), rs_created_at = pr_created_at r,
          rs_updated_at = pr_updated_at r, rs_metadata = pr_metadata r, rs_candidate_metadata = pc_metadata c\<rparr>)"

definition policy_payload_of :: "policy_candidate \<Rightarrow> review_error + policy_payload" where
  "policy_payload_of c = validate_policy_payload
     \<lparr>pp_policy_kind = pc_policy_kind c, pp_value = pc_value c, pp_account_id = pc_account_id c,
      pp_space_id = pc_space_id c, pp_actor_id = pc_actor_id c, pp_decision_kind = pc_decision_kind c,
      pp_source_kinds = pc_source_kinds c, pp_evidence_count = pc_evidence_count c,
      pp_source_event_ids = pc_source_event_ids c, pp_confidence = pc_confidence c, pp_reason = pc_reason c,
      pp_review_required = pc_review_required c, pp_high_risk = pc_high_risk c,
      pp_model_metadata = pc_model_metadata c, pp_metadata = pc_metadata c\<rparr>"

definition policy_detail_from_record :: "policy_record \<Rightarrow> review_error + review_detail" where
  "policy_detail_from_record r =
     result_bind (policy_payload_of (pr_candidate r)) (\<lambda>p. validate_detail
       \<lparr>rd_candidate_id = pr_candidate_id r, rd_candidate_type = CT_INTERACTION_POLICY, rd_status = pr_status r,
        rd_scope = policy_scope (pr_candidate r), rd_source_observation_id = None, rd_memory_candidate = None,
        rd_shared_episodic_candidate = None, rd_interaction_policy_candidate = Some p,
        rd_consolidation_candidate = None, rd_created_at = pr_created_at r, rd_updated_at = pr_updated_at r,
        rd_reviewed_at = pr_reviewed_at r, rd_reviewed_by = pr_reviewed_by r, rd_review_reason = pr_review_reason r,
        rd_promoted_memory_id = None, rd_metadata = pr_metadata r,
        rd_candidate_metadata = pc_metadata (pr_candidate r)\<rparr>)"

definition policy_list_candidates :: "policy_store \<Rightarrow> review_filter option \<Rightarrow> review_summary list" where
  "policy_list_candidates s query =
     (let q = (case query of
                 None \<Rightarrow> default_review_filter\<lparr>rf_candidate_type := Some CT_INTERACTION_POLICY\<rparr>
               | Some q \<Rightarrow> q)
      in if rf_candidate_type q \<notin> {None, Some CT_INTERACTION_POLICY} then []
         else map policy_summary_from_record (policy_list_by_filter s q))"

definition policy_get_required :: "policy_store \<Rightarrow> string \<Rightarrow> review_error + policy_record" where
  "policy_get_required s cid =
     (case policy_get s cid of None \<Rightarrow> Inl (CandidateNotFound cid) | Some r \<Rightarrow> Inr r)"

definition policy_read :: "policy_store \<Rightarrow> string \<Rightarrow> review_error + review_detail" where
  "policy_read s cid = result_bind (policy_get_required s cid) policy_detail_from_record"

definition policy_result_of :: "policy_record \<Rightarrow> review_decision \<Rightarrow> bool \<Rightarrow> review_error + decision_result" where
  "policy_result_of r decision changed =
     result_bind (policy_detail_from_record r)
       (\<lambda>d. Inr \<lparr>rdr_candidate = d, rdr_decision = decision, rdr_changed = changed\<rparr>)"

definition policy_decision_update :: "review_status \<Rightarrow> datetime \<Rightarrow> decision_request option \<Rightarrow> policy_update" where
  "policy_decision_update target now request =
     (let req = (case request of None \<Rightarrow> \<lparr>dr_reviewed_by = None, dr_reason = None\<rparr> | Some r \<Rightarrow> r)
      in \<lparr>pu_status = target, pu_updated_at = now, pu_reviewed_at = Some now, pu_reviewed_by = dr_reviewed_by req,
          pu_review_reason = dr_reason req\<rparr>)"

definition policy_apply ::
  "datetime \<Rightarrow> policy_store \<Rightarrow> string \<Rightarrow> review_decision \<Rightarrow> review_status \<Rightarrow> decision_request option
     \<Rightarrow> (review_error + decision_result) \<times> policy_store" where
  "policy_apply now s cid decision target request =
     (case policy_get_required s cid of
        Inl e \<Rightarrow> (Inl e, s)
      | Inr r \<Rightarrow>
          if pr_status r = target then (policy_result_of r decision False, s)
          else if pr_status r \<noteq> RV_PENDING_REVIEW
          then (Inl (InvalidReviewTransition (''cannot transition interaction policy candidate '' @ cid)), s)
          else
            (case policy_update_review s cid (policy_decision_update target now request) of
               (None, s') \<Rightarrow> (Inl (CandidateNotFound cid), s')
             | (Some updated, s') \<Rightarrow> (policy_result_of updated decision True, s')))"

definition policy_approve ::
  "datetime \<Rightarrow> policy_store \<Rightarrow> string \<Rightarrow> decision_request option \<Rightarrow> (review_error + decision_result) \<times> policy_store" where
  "policy_approve now s cid request = policy_apply now s cid DECIDE_APPROVE RV_APPROVED request"

definition policy_reject ::
  "datetime \<Rightarrow> policy_store \<Rightarrow> string \<Rightarrow> decision_request option \<Rightarrow> (review_error + decision_result) \<times> policy_store" where
  "policy_reject now s cid request = policy_apply now s cid DECIDE_REJECT RV_REJECTED request"

definition policy_discard ::
  "datetime \<Rightarrow> policy_store \<Rightarrow> string \<Rightarrow> decision_request option \<Rightarrow> (review_error + decision_result) \<times> policy_store" where
  "policy_discard now s cid request = policy_apply now s cid DECIDE_DISCARD RV_DISCARDED request"

section \<open>Promotion\<close>

record policy_promotion =
  pm_record :: policy_record
  pm_policy :: "approved_policy option"
  pm_promoted :: bool
  pm_reason :: "string option"

definition policy_promote :: "policy_store \<Rightarrow> string \<Rightarrow> review_error + policy_promotion" where
  "policy_promote s cid =
     (case policy_get s cid of
        None \<Rightarrow> Inl (CandidateNotFound cid)
      | Some r \<Rightarrow>
          let c = pr_candidate r
          in if pr_status r \<noteq> RV_APPROVED
             then Inr \<lparr>pm_record = r, pm_policy = None, pm_promoted = False, pm_reason = Some ''candidate_not_approved''\<rparr>
             else if pc_decision_kind c = PD_SUPPRESSED
             then Inr \<lparr>pm_record = r, pm_policy = None, pm_promoted = False, pm_reason = Some ''candidate_suppressed''\<rparr>
             else Inr \<lparr>pm_record = r,
                    pm_policy = Some \<lparr>ap_candidate_id = cid, ap_policy_kind = pc_policy_kind c, ap_value = pc_value c,
                      ap_account_id = pc_account_id c, ap_space_id = pc_space_id c, ap_approved_at = pr_updated_at r\<rparr>,
                    pm_promoted = True, pm_reason = None\<rparr>)"

section \<open>The store keeps the contract of a review boundary\<close>

lemma policy_add_get:
  "policy_get (snd (policy_add_nowait s r)) i =
     (if policy_get s (pr_candidate_id r) = None \<and> dict_get (ps_idempotency_keys s) (pr_idempotency_key r) = None \<and>
         i = pr_candidate_id r
      then Some r else policy_get s i)"
  by (auto simp: policy_add_nowait_def policy_get_def dict_get_set split: option.splits)

lemma policy_apply_store:
  "snd (policy_apply now s cid decision target request) =
     (case policy_get s cid of
        None \<Rightarrow> s
      | Some r \<Rightarrow>
          if pr_status r \<noteq> target \<and> pr_status r = RV_PENDING_REVIEW
          then s\<lparr>ps_records := dict_set cid (apply_policy_update r (policy_decision_update target now request))
                   (ps_records s)\<rparr>
          else s)"
  by (auto simp: policy_apply_def policy_get_required_def policy_update_review_def policy_get_def Let_def
      split: option.split prod.split)

lemma policy_update_simps [simp]:
  "pr_candidate (apply_policy_update r u) = pr_candidate r"
  "pr_candidate_id (apply_policy_update r u) = pr_candidate_id r"
  "pr_status (apply_policy_update r u) = pu_status u"
  "pr_updated_at (apply_policy_update r u) = pu_updated_at u"
  "pu_status (policy_decision_update target now request) = target"
  "pu_updated_at (policy_decision_update target now request) = now"
  by (simp_all add: apply_policy_update_def policy_decision_update_def Let_def)

lemma target_not_pending [simp]: "target_status d \<noteq> RV_PENDING_REVIEW"
  by (cases d) simp_all

interpretation pr: review_boundary policy_get pr_candidate_id pr_status pr_candidate
  "\<lambda>s r. snd (policy_add_nowait s r)"
  "\<lambda>now s i d q. snd (policy_apply now s i d (target_status d) q)"
proof unfold_locales
  show "policy_get s i = Some r \<Longrightarrow> policy_get (snd (policy_add_nowait s r')) i = Some r" for s i r r'
    by (auto simp: policy_add_get)
  show "policy_get s i = None \<Longrightarrow> policy_get (snd (policy_add_nowait s r')) i = Some r \<Longrightarrow>
      r = r' \<and> i = pr_candidate_id r'" for s i r r'
    by (auto simp: policy_add_get split: if_splits)
  show "j \<noteq> i \<Longrightarrow> policy_get (snd (policy_apply now s i d (target_status d) q)) j = policy_get s j"
    for j i now s d q
    by (simp add: policy_apply_store policy_get_def dict_get_set split: option.split)
  show "policy_get s i = None \<Longrightarrow> policy_get (snd (policy_apply now s i d (target_status d) q)) i = None"
    for s i now d q
    by (simp add: policy_apply_store)
  show "policy_get s i = Some r \<Longrightarrow>
      \<exists>r'. policy_get (snd (policy_apply now s i d (target_status d) q)) i = Some r' \<and>
           pr_candidate r' = pr_candidate r \<and>
           pr_status r' = (if pr_status r = RV_PENDING_REVIEW then target_status d else pr_status r)"
    for s i r now d q
    by (auto simp: policy_apply_store) (auto simp: policy_get_def dict_get_set)
qed

text \<open>A candidate that its contract accepts always has a detail.\<close>

lemma policy_detail_total:
  assumes "validate_policy_candidate (pr_candidate r) = Inr c"
  shows "\<exists>d. policy_detail_from_record r = Inr d"
  using assms
  by (auto simp: policy_detail_from_record_def policy_payload_of_def validate_policy_payload_def
      validate_policy_candidate_def validate_detail_def validate_policy_detail_def policy_scope_def
      split: if_splits)

end
