(* ===== verification/Idempotent_Store.thy ===== *)
theory Idempotent_Store
  imports Iris_Prelude
begin

text \<open>
  The contract of the candidate stores that the learning workers write to. A record is known by its
  id or by its idempotency key; a known record is answered with what is stored, a new one is
  stored under both. Under this contract a batch that is added again changes nothing, which is what
  lets a job run a second time.
\<close>

locale idempotent_store =
  fixes add :: "'s \<Rightarrow> 'r \<Rightarrow> ('e + 'r) \<times> 's"
    and adds :: "'s \<Rightarrow> 'r list \<Rightarrow> ('f + unit) \<times> 's"
    and recs :: "'s \<Rightarrow> string \<rightharpoonup> 'r"
    and keys :: "'s \<Rightarrow> 'k \<rightharpoonup> string"
    and rid :: "'r \<Rightarrow> string"
    and rkey :: "'r \<Rightarrow> 'k"
  assumes add_id: "recs s (rid r) = Some x \<Longrightarrow> add s r = (Inr x, s)"
    and add_key: "recs s (rid r) = None \<Longrightarrow> keys s (rkey r) = Some i \<Longrightarrow> recs s i = Some x \<Longrightarrow> add s r = (Inr x, s)"
    and add_new: "recs s (rid r) = None \<Longrightarrow> keys s (rkey r) = None \<Longrightarrow>
      \<exists>s'. add s r = (Inr r, s') \<and> recs s' = (recs s)(rid r \<mapsto> r) \<and> keys s' = (keys s)(rkey r \<mapsto> rid r)"
    and adds_Nil: "adds s [] = (Inr (), s)"
    and adds_Cons: "add s r = (Inr x, s') \<Longrightarrow> adds s (r # rs) = adds s' rs"
begin

lemma add_known:
  assumes ok: "\<forall>k i. keys s k = Some i \<longrightarrow> recs s i \<noteq> None"
    and known: "recs s (rid r) \<noteq> None \<or> keys s (rkey r) \<noteq> None"
  shows "\<exists>x. add s r = (Inr x, s)"
proof (cases "recs s (rid r)")
  case None
  with known obtain i where i: "keys s (rkey r) = Some i" by auto
  with ok obtain x where "recs s i = Some x" by fastforce
  with add_key [OF None i] show ?thesis by blast
qed (use add_id in blast)

lemma add_step:
  assumes ok: "\<forall>k i. keys s k = Some i \<longrightarrow> recs s i \<noteq> None"
  shows "\<exists>x s'. add s r = (Inr x, s') \<and> (\<forall>k i. keys s' k = Some i \<longrightarrow> recs s' i \<noteq> None) \<and>
           (recs s' (rid r) \<noteq> None \<or> keys s' (rkey r) \<noteq> None) \<and>
           recs s \<subseteq>\<^sub>m recs s' \<and> keys s \<subseteq>\<^sub>m keys s' \<and>
           (\<forall>i q. recs s' i = Some q \<longrightarrow> recs s i = Some q \<or> q = r \<and> i = rid r)"
proof (cases "recs s (rid r) \<noteq> None \<or> keys s (rkey r) \<noteq> None")
  case True
  with add_known [OF ok True] ok show ?thesis by (metis map_le_refl)
next
  case False
  then obtain s' where s': "add s r = (Inr r, s')" "recs s' = (recs s)(rid r \<mapsto> r)"
    "keys s' = (keys s)(rkey r \<mapsto> rid r)" using add_new by blast
  have "recs s \<subseteq>\<^sub>m recs s'" "keys s \<subseteq>\<^sub>m keys s'" using False by (auto simp: s' map_le_def)
  moreover have "\<forall>k i. keys s' k = Some i \<longrightarrow> recs s' i \<noteq> None" using ok by (auto simp: s')
  ultimately show ?thesis using s' by auto
qed

lemma adds_known:
  assumes "\<forall>k i. keys s k = Some i \<longrightarrow> recs s i \<noteq> None"
    and "\<forall>r\<in>set rs. recs s (rid r) \<noteq> None \<or> keys s (rkey r) \<noteq> None"
  shows "adds s rs = (Inr (), s)"
  using assms
proof (induction rs)
  case (Cons r rs)
  then obtain x where "add s r = (Inr x, s)" using add_known by (metis list.set_intros(1))
  with Cons show ?case using adds_Cons by simp
qed (rule adds_Nil)

lemma adds_step:
  assumes "\<forall>k i. keys s k = Some i \<longrightarrow> recs s i \<noteq> None"
  shows "\<exists>s'. adds s rs = (Inr (), s') \<and> (\<forall>k i. keys s' k = Some i \<longrightarrow> recs s' i \<noteq> None) \<and>
           (\<forall>r\<in>set rs. recs s' (rid r) \<noteq> None \<or> keys s' (rkey r) \<noteq> None) \<and>
           recs s \<subseteq>\<^sub>m recs s' \<and> keys s \<subseteq>\<^sub>m keys s' \<and>
           (\<forall>i q. recs s' i = Some q \<longrightarrow> recs s i = Some q \<or> q \<in> set rs \<and> i = rid q)"
  using assms
proof (induction rs arbitrary: s)
  case (Cons r rs)
  obtain x s1 where s1: "add s r = (Inr x, s1)" "\<forall>k i. keys s1 k = Some i \<longrightarrow> recs s1 i \<noteq> None"
    "recs s1 (rid r) \<noteq> None \<or> keys s1 (rkey r) \<noteq> None" "recs s \<subseteq>\<^sub>m recs s1" "keys s \<subseteq>\<^sub>m keys s1"
    "\<forall>i q. recs s1 i = Some q \<longrightarrow> recs s i = Some q \<or> q = r \<and> i = rid r"
    using add_step [OF Cons.prems] by blast
  obtain s2 where s2: "adds s1 rs = (Inr (), s2)" "\<forall>k i. keys s2 k = Some i \<longrightarrow> recs s2 i \<noteq> None"
    "\<forall>r\<in>set rs. recs s2 (rid r) \<noteq> None \<or> keys s2 (rkey r) \<noteq> None" "recs s1 \<subseteq>\<^sub>m recs s2" "keys s1 \<subseteq>\<^sub>m keys s2"
    "\<forall>i q. recs s2 i = Some q \<longrightarrow> recs s1 i = Some q \<or> q \<in> set rs \<and> i = rid q"
    using Cons.IH [OF s1(2)] by blast
  have "recs s2 (rid r) \<noteq> None \<or> keys s2 (rkey r) \<noteq> None"
    using s1(3) s2(4,5) by (auto simp: map_le_def dom_def)
  moreover have "recs s \<subseteq>\<^sub>m recs s2" "keys s \<subseteq>\<^sub>m keys s2" using s1(4,5) s2(4,5) map_le_trans by blast+
  moreover have "adds s (r # rs) = (Inr (), s2)" using adds_Cons [OF s1(1)] s2(1) by simp
  moreover have "\<forall>i q. recs s2 i = Some q \<longrightarrow> recs s i = Some q \<or> q \<in> set (r # rs) \<and> i = rid q"
    using s1(6) s2(6) by auto
  ultimately show ?case using s2(2,3) by auto
qed (simp add: adds_Nil)

lemma adds_again:
  assumes "\<forall>k i. keys s k = Some i \<longrightarrow> recs s i \<noteq> None" and "adds s rs = (Inr (), s')"
  shows "adds s' rs = (Inr (), s')"
proof -
  obtain s2 where "adds s rs = (Inr (), s2)" "\<forall>k i. keys s2 k = Some i \<longrightarrow> recs s2 i \<noteq> None"
    "\<forall>r\<in>set rs. recs s2 (rid r) \<noteq> None \<or> keys s2 (rkey r) \<noteq> None" using adds_step [OF assms(1)] by blast
  with adds_known show ?thesis using assms(2) by simp
qed

end

end
