(* ===== verification/Policy_Candidates.thy ===== *)
theory Policy_Candidates
  imports Learning_Signals Policy_Review Consolidation_Props Job_Queue Idempotent_Store
begin

text \<open>
  From conversation to interaction policy candidates: the admission of signals
  (\<^verbatim>\<open>iris/cognitive/policy/interaction_policy_candidates.py\<close>), the worker that stores the
  candidates for review and the hook that turns style feedback into jobs
  (\<^verbatim>\<open>iris/runtime/learning/interaction_policy.py\<close>). Case folding, SHA-256 and the JSON of a
  payload are arguments.
\<close>

section \<open>Admission\<close>

definition policy_group_key :: "policy_signal \<Rightarrow> code_points \<times> code_points" where
  "policy_group_key s = (codes (policy_kind_value (sg_policy_kind s)), py_strip (sg_value s))"

definition signal_sort_key :: "policy_signal \<Rightarrow> datetime \<times> string" where
  "signal_sort_key s = (sg_occurred_at s, sg_source_event_id s)"

definition unique_signals :: "policy_signal list \<Rightarrow> policy_signal list" where
  "unique_signals signals =
     (let by_event_id = foldl (\<lambda>d s. dict_set (sg_source_event_id s) s d) [] signals
      in sort_key signal_sort_key (dict_values by_event_id))"

definition merge_metadata :: "policy_signal list \<Rightarrow> metadata" where
  "merge_metadata signals =
     foldl (\<lambda>values s. foldl (\<lambda>d (k, v). dict_set k v d) values (sg_model_metadata s)) [] signals"

definition policy_candidate_reason :: "policy_source list \<Rightarrow> nat \<Rightarrow> string" where
  "policy_candidate_reason source_kinds n =
     (if PS_EXPLICIT_FEEDBACK \<in> set source_kinds then ''explicit response-style feedback has priority''
      else if PS_IMPLICIT_REPEATED_SIGNAL \<in> set source_kinds
      then ''repeated implicit response-style signal met evidence threshold ('' @ show_nat n @ '')''
      else ''review-required policy candidate from bounded classifier metadata'')"

definition is_explicit_group :: "policy_signal list \<Rightarrow> bool" where
  "is_explicit_group signals = list_ex (\<lambda>s. sg_source s = PS_EXPLICIT_FEEDBACK) signals"

definition is_implicit_group :: "policy_signal list \<Rightarrow> bool" where
  "is_implicit_group signals = list_all (\<lambda>s. sg_source s = PS_IMPLICIT_REPEATED_SIGNAL) signals"

definition policy_group_admitted :: "int \<Rightarrow> rat \<Rightarrow> policy_signal list \<Rightarrow> bool" where
  "policy_group_admitted min_evidence min_confidence signals \<longleftrightarrow>
     \<not> (\<not> is_explicit_group signals \<and> is_implicit_group signals \<and>
        (int (length signals) < min_evidence \<or> Min (sg_confidence ` set signals) < min_confidence)) \<and>
     \<not> (\<not> is_explicit_group signals \<and> \<not> is_implicit_group signals \<and>
        Max (sg_confidence ` set signals) < min_confidence)"

text \<open>The candidate of a group that is not empty.\<close>

definition policy_candidate_for_group ::
  "policy_signal list \<Rightarrow> string \<Rightarrow> string option \<Rightarrow> string option \<Rightarrow> int \<Rightarrow> rat
     \<Rightarrow> contract_error + policy_candidate option" where
  "policy_candidate_for_group signals account space actor min_evidence min_confidence =
     (if \<not> policy_group_admitted min_evidence min_confidence signals then Inr None
      else let high_risk = list_ex sg_high_risk signals;
               source_kinds = sort_key policy_source_value (remdups (map sg_source signals));
               first = hd signals
           in result_bind (validate_policy_candidate
                \<lparr>pc_policy_kind = sg_policy_kind first, pc_value = py_strip (sg_value first),
                 pc_account_id = account, pc_space_id = space, pc_actor_id = actor,
                 pc_decision_kind = (if high_risk then PD_SUPPRESSED else PD_REVIEW_REQUIRED),
                 pc_source_kinds = source_kinds, pc_evidence_count = length signals,
                 pc_source_event_ids = map sg_source_event_id signals,
                 pc_confidence = Max (sg_confidence ` set signals),
                 pc_reason = (if high_risk then ''high-risk context suppressed interaction policy candidate''
                              else policy_candidate_reason source_kinds (length signals)),
                 pc_review_required = True, pc_high_risk = high_risk, pc_model_metadata = merge_metadata signals,
                 pc_metadata = [(''generator'', ''deterministic_baseline'')]\<rparr>) (\<lambda>c. Inr (Some c)))"

fun somes :: "'a option list \<Rightarrow> 'a list" where
  "somes [] = []"
| "somes (None # xs) = somes xs"
| "somes (Some x # xs) = x # somes xs"

definition policy_groups :: "policy_signal list \<Rightarrow> policy_signal list list" where
  "policy_groups signals =
     (let grouped = group_by policy_group_key signals
      in map (\<lambda>k. unique_signals (case dict_get grouped k of None \<Rightarrow> [] | Some xs \<Rightarrow> xs))
           (sort (dict_keys grouped)))"

definition compute_interaction_policy_candidates ::
  "policy_signal list \<Rightarrow> string \<Rightarrow> string option \<Rightarrow> string option \<Rightarrow> int \<Rightarrow> rat
     \<Rightarrow> contract_error + policy_candidate list" where
  "compute_interaction_policy_candidates signals account space actor min_evidence min_confidence =
     (if min_evidence < 1
      then Inl (ContractValidationError ''min_implicit_evidence must be greater than zero'')
      else if \<not> (0 \<le> min_confidence \<and> min_confidence \<le> 1)
      then Inl (ContractValidationError ''min_implicit_confidence must be between zero and one'')
      else result_bind
             (each_result (\<lambda>g. policy_candidate_for_group g account space actor min_evidence min_confidence)
                (policy_groups signals))
             (\<lambda>cs. Inr (somes cs)))"

section \<open>The worker\<close>

record policy_env =
  pe_sha256_hexdigest :: "code_points \<Rightarrow> string"
  pe_casefold :: "code_points \<Rightarrow> code_points"
  pe_payload_json :: "policy_job_payload \<Rightarrow> code_points"
  pe_min_evidence :: int
  pe_min_confidence :: rat

definition policy_key :: "learning_payload job_record \<Rightarrow> policy_candidate \<Rightarrow> code_points" where
  "policy_key job c =
     codes (jb_idempotency_key job) @ codes ''|'' @ codes (policy_kind_value (pc_policy_kind c)) @ codes ''|'' @ pc_value c"

definition policy_record_of ::
  "policy_env \<Rightarrow> learning_payload job_record \<Rightarrow> policy_job_payload \<Rightarrow> policy_candidate \<Rightarrow> policy_record" where
  "policy_record_of env job p c =
     (let key = policy_key job c
      in \<lparr>pr_candidate_id = ''interaction-policy-'' @ take 24 (pe_sha256_hexdigest env key), pr_candidate = c,
          pr_created_at = jb_created_at job, pr_updated_at = jb_updated_at job,
          pr_idempotency_key = codes ''interaction-policy:'' @ key, pr_status = RV_PENDING_REVIEW,
          pr_actor_id = pj_actor_id p, pr_account_id = Some (pj_account_id p), pr_space_id = pj_space_id p,
          pr_reviewed_at = None, pr_reviewed_by = None, pr_review_reason = None,
          pr_metadata = [(''background_job_id'', jb_job_id job), (''generator'', ''deterministic_baseline''),
            (''review_required'', ''true'')]\<rparr>)"

fun add_policy_records :: "policy_store \<Rightarrow> policy_record list \<Rightarrow> (learning_error + unit) \<times> policy_store" where
  "add_policy_records s [] = (Inr (), s)"
| "add_policy_records s (r # rs) =
     (case policy_add_nowait s r of
        (Inl e, s') \<Rightarrow> (Inl (Learning_KeyError (case e of ReviewKeyError k \<Rightarrow> k | _ \<Rightarrow> [])), s')
      | (Inr _, s') \<Rightarrow> add_policy_records s' rs)"

interpretation ps: idempotent_store policy_add_nowait add_policy_records "\<lambda>s. dict_get (ps_records s)"
  "\<lambda>s. dict_get (ps_idempotency_keys s)" pr_candidate_id pr_idempotency_key
proof unfold_locales
  show "dict_get (ps_records s) (pr_candidate_id r) = None \<Longrightarrow>
      dict_get (ps_idempotency_keys s) (pr_idempotency_key r) = None \<Longrightarrow>
      \<exists>s'. policy_add_nowait s r = (Inr r, s') \<and>
        dict_get (ps_records s') = (dict_get (ps_records s))(pr_candidate_id r \<mapsto> r) \<and>
        dict_get (ps_idempotency_keys s') = (dict_get (ps_idempotency_keys s))(pr_idempotency_key r \<mapsto> pr_candidate_id r)"
    for s r by (simp add: policy_add_nowait_def fun_eq_iff dict_get_set)
qed (auto simp: policy_add_nowait_def)

definition policy_worker_candidates ::
  "policy_env \<Rightarrow> policy_job_payload \<Rightarrow> contract_error + policy_candidate list" where
  "policy_worker_candidates env p =
     compute_interaction_policy_candidates (pj_signals p) (pj_account_id p) (pj_space_id p) (pj_actor_id p)
       (pe_min_evidence env) (pe_min_confidence env)"

definition policy_worker_run ::
  "policy_env \<Rightarrow> learning_payload job_record \<Rightarrow> policy_store \<Rightarrow> (learning_error + unit) \<times> policy_store" where
  "policy_worker_run env job s =
     (case jb_payload job of
        Policy_Payload p \<Rightarrow>
          (case policy_worker_candidates env p of
             Inl e \<Rightarrow> (Inl (Learning_Contract e), s)
           | Inr cs \<Rightarrow> add_policy_records s (map (policy_record_of env job p) cs))
      | _ \<Rightarrow> (Inl (Learning_TypeError ''interaction policy candidate requires InteractionPolicyJobPayload''), s))"

section \<open>The hook\<close>

text \<open>
  The markers of \<^verbatim>\<open>_policy_from_text\<close>, the Japanese ones as code points:
  short, rather short, concise; in detail, details; proactively; reserved, passive; friendliness;
  formal.
\<close>

definition policy_markers :: "(policy_kind \<times> string \<times> code_points list) list" where
  "policy_markers =
     [(PK_VERBOSITY, ''concise'',
        [[30701, 12367], [30701, 12417], [31777, 28500], codes ''concise'', codes ''brief'']),
      (PK_VERBOSITY, ''detailed'',
        [[35443, 12375, 12367], [35443, 32048], codes ''detailed'', codes ''thorough'']),
      (PK_INITIATIVE, ''high'', [[31309, 26997, 30340, 12395], codes ''initiative'', codes ''proactive'']),
      (PK_INITIATIVE, ''low'', [[25511, 12360, 12417], [21463, 12369, 36523], codes ''low initiative'']),
      (PK_TONE, ''friendly'', [[35242, 12375, 12415], codes ''friendly'', codes ''casual'']),
      (PK_TONE, ''formal'', [[12501, 12457, 12540, 12510, 12523], codes ''formal''])]"

definition contains :: "code_points \<Rightarrow> code_points \<Rightarrow> bool" where
  "contains marker t \<longleftrightarrow> list_ex (\<lambda>i. take (length marker) (drop i t) = marker) [0..<Suc (length t)]"

definition policy_from_text :: "policy_env \<Rightarrow> code_points \<Rightarrow> (policy_kind \<times> string) option" where
  "policy_from_text env t =
     (let lowered = pe_casefold env t
      in map_option (\<lambda>(kind, value, markers). (kind, value))
           (List.find (\<lambda>(kind, value, markers). list_ex (\<lambda>m. contains m lowered) markers) policy_markers))"

definition signal_text :: "observation_body \<Rightarrow> (code_points \<times> rat) option" where
  "signal_text obs =
     (case obs of
        User_Feedback kind t \<Rightarrow> if kind \<noteq> FB_STYLE_PREFERENCE then None else Some (t, 9 / 10)
      | Actor_Message t \<Rightarrow> Some (t, 85 / 100)
      | Other_Observation \<Rightarrow> None)"

definition signal_from_event ::
  "policy_env \<Rightarrow> runtime_learning_event \<Rightarrow> contract_error + policy_signal option" where
  "signal_from_event env event =
     (case signal_text (le_observation event) of
        None \<Rightarrow> Inr None
      | Some (t, confidence) \<Rightarrow>
          (case policy_from_text env t of
             None \<Rightarrow> Inr None
           | Some (kind, value) \<Rightarrow>
               result_bind (validate_policy_signal
                 \<lparr>sg_policy_kind = kind, sg_value = codes value, sg_source = PS_EXPLICIT_FEEDBACK,
                  sg_source_event_id = le_source_observation_id event, sg_confidence = confidence,
                  sg_reason = ''explicit response-style preference signal'', sg_occurred_at = le_occurred_at event,
                  sg_high_risk = list_ex (\<lambda>s. as_safety_hint s = Some DEPENDENCY_RISK) (le_appraisal_signals event),
                  sg_model_metadata = [(''classifier'', ''deterministic_baseline'')]\<rparr>) (\<lambda>s. Inr (Some s))))"

text \<open>Python's \<^verbatim>\<open>xs[-n:]\<close>.\<close>

definition last_slice :: "int \<Rightarrow> 'a list \<Rightarrow> 'a list" where
  "last_slice n xs = (if n \<le> 0 then drop (nat (- n)) xs else drop (length xs - nat n) xs)"

definition pending_job ::
  "string \<Rightarrow> job_kind \<Rightarrow> learning_payload \<Rightarrow> int \<Rightarrow> datetime \<Rightarrow> string \<Rightarrow> learning_payload job_record" where
  "pending_job job_id kind payload max_attempts occurred_at key =
     \<lparr>jb_job_id = job_id, jb_kind = kind, jb_payload = payload, jb_status = JS_PENDING, jb_attempts = 0,
      jb_max_attempts = max_attempts, jb_not_before = occurred_at,
      jb_resource_profile = \<lparr>rp_uses_llm = False, rp_idle_only = False, rp_model_call_descriptor = None\<rparr>,
      jb_leased_until = None, jb_idempotency_key = key, jb_created_at = occurred_at, jb_updated_at = occurred_at,
      jb_last_error = None, jb_defer_reason = None\<rparr>"

definition job_digest :: "(code_points \<Rightarrow> string) \<Rightarrow> runtime_learning_event \<Rightarrow> code_points \<Rightarrow> string" where
  "job_digest sha event json =
     sha (py_join (codes ''|'')
       [codes (le_source_observation_id event), codes (event_kind_value (le_kind event)), codes (le_route event), json])"

definition new_policy_job ::
  "policy_env \<Rightarrow> runtime_learning_event \<Rightarrow> policy_job_payload \<Rightarrow> int \<Rightarrow> learning_payload job_record" where
  "new_policy_job env event p max_attempts =
     (let key = job_digest (pe_sha256_hexdigest env) event (pe_payload_json env p)
      in pending_job (''interaction-policy-'' @ take 24 key) INTERACTION_POLICY_CANDIDATE (Policy_Payload p)
           max_attempts (le_occurred_at event) (''interaction-policy:'' @ key))"

definition enqueue_learning ::
  "queue_policy option \<Rightarrow> datetime \<Rightarrow> learning_payload job_record \<Rightarrow> learning_payload job_queue
     \<Rightarrow> (job_error + unit) \<times> learning_payload job_queue" where
  "enqueue_learning qp now job q =
     (case qp of
        None \<Rightarrow> apfst (map_sum id (\<lambda>_. ())) (job_enqueue q job)
      | Some policy \<Rightarrow> apfst (map_sum id (\<lambda>_. ())) (enqueue_with_policy q job now policy False))"

type_synonym policy_history = "(string \<times> string \<times> string \<times> code_points, policy_signal list) dict"

definition policy_after_runtime_event ::
  "policy_env \<Rightarrow> queue_policy option \<Rightarrow> int \<Rightarrow> int \<Rightarrow> runtime_learning_event \<Rightarrow> policy_history \<Rightarrow> learning_payload job_queue
     \<Rightarrow> (learning_error + (job_error + unit)) \<times> policy_history \<times> learning_payload job_queue" where
  "policy_after_runtime_event env qp max_attempts max_history event history q =
     (case le_account_id event of
        None \<Rightarrow> (Inr (Inr ()), history, q)
      | Some account \<Rightarrow>
          (case signal_from_event env event of
             Inl e \<Rightarrow> (Inl (Learning_Contract e), history, q)
           | Inr None \<Rightarrow> (Inr (Inr ()), history, q)
           | Inr (Some signal) \<Rightarrow>
               let key = (account, (case le_space_id event of None \<Rightarrow> '''' | Some i \<Rightarrow> i),
                          policy_kind_value (sg_policy_kind signal), sg_value signal);
                   before = (case dict_get history key of None \<Rightarrow> [] | Some xs \<Rightarrow> xs);
                   signals = last_slice max_history (before @ [signal]);
                   history' = dict_set key signals history
               in if signals = []
                  then (Inl (Learning_Contract (ContractValidationError ''field constraint'')), history', q)
                  else let job = new_policy_job env event
                             \<lparr>pj_signals = signals, pj_account_id = account, pj_space_id = le_space_id event,
                              pj_actor_id = le_actor_id event\<rparr> max_attempts;
                           enq = enqueue_learning qp (le_occurred_at event) job q
                       in (Inr (fst enq), history', snd enq)))"

end
