(* ===== verification/Policy_Props.thy ===== *)
theory Policy_Props
  imports Policy_Candidates
begin

text \<open>
  Interaction policies end to end: the admission always answers on valid signals and each candidate
  is explained by one group of signals; over any sequence of worker runs and review decisions, a
  policy is promoted only when it was approved after such a candidate had been stored, and never
  from a group with a high-risk signal.
\<close>

section \<open>Stripping\<close>

lemma length_py_strip: "length (py_strip t) \<le> length t"
  unfolding py_strip_def by (metis length_dropWhile_le length_rev order_trans)

lemma dropWhile_blank: "blank t \<longleftrightarrow> dropWhile py_whitespace t = []"
  by (simp add: blank_def)

lemma blank_rev [simp]: "blank (rev t) = blank t"
  by (simp add: blank_def)

lemma not_blank_dropWhile: "\<not> blank t \<Longrightarrow> \<not> blank (dropWhile py_whitespace t)"
  by (induction t) (auto simp: blank_def)

lemma not_blank_strip: "\<not> blank t \<Longrightarrow> \<not> blank (py_strip t)"
  unfolding py_strip_def using not_blank_dropWhile by simp

lemma not_blank_ne: "\<not> blank t \<Longrightarrow> t \<noteq> []"
  by (auto simp: blank_def)

section \<open>Groups of signals\<close>

lemma policy_kind_codes_inj:
  "codes (policy_kind_value k) = codes (policy_kind_value k') \<Longrightarrow> k = k'"
  by (cases k; cases k') (simp_all add: codes_def)

lemma group_key_eq:
  "policy_group_key s = policy_group_key s' \<longleftrightarrow>
     sg_policy_kind s = sg_policy_kind s' \<and> py_strip (sg_value s) = py_strip (sg_value s')"
  using policy_kind_codes_inj by (auto simp: policy_group_key_def)

lemma by_event_dict:
  fixes xs :: "policy_signal list"
  defines "d \<equiv> foldl (\<lambda>d s. dict_set (sg_source_event_id s) s d) [] xs"
  shows "dict_wf d" and "\<And>k s. dict_get d k = Some s \<Longrightarrow> s \<in> set xs \<and> sg_source_event_id s = k"
    and "dom (dict_get d) = sg_source_event_id ` set xs"
  unfolding d_def
proof (induction xs rule: rev_induct)
  case Nil
  { case 1 show ?case by simp }
  { case 2 then show ?case by simp }
  { case 3 show ?case by simp }
next
  case (snoc x xs)
  { case 1 show ?case using snoc.IH(1) by simp }
  { case (2 k s) then show ?case using snoc.IH(2) [of k s] by (auto simp: dict_get_set split: if_splits) }
  { case 3 show ?case using snoc.IH(3) by (auto simp: dict_get_set dom_def split: if_splits) }
qed

lemma unique_signals_props:
  shows "set (unique_signals xs) \<subseteq> set xs" and "distinct (map sg_source_event_id (unique_signals xs))"
    and "sg_source_event_id ` set (unique_signals xs) = sg_source_event_id ` set xs"
proof -
  let ?d = "foldl (\<lambda>d s. dict_set (sg_source_event_id s) s d) [] xs"
  have mem: "v \<in> set xs \<and> sg_source_event_id v = k" if "(k, v) \<in> set ?d" for k v
  proof -
    have "distinct (map fst ?d)" using by_event_dict(1) [of xs] by (simp add: dict_wf_def dict_keys_def)
    then have "dict_get ?d k = Some v" using that by (rule map_of_is_SomeI)
    then show ?thesis by (rule by_event_dict(2))
  qed
  have keys: "map sg_source_event_id (map snd ?d) = map fst ?d"
    by (auto intro: map_cong dest: mem)
  have set_u: "set (unique_signals xs) = snd ` set ?d"
    by (simp add: unique_signals_def dict_values_def)
  show "set (unique_signals xs) \<subseteq> set xs"
    unfolding set_u by (auto dest: mem)
  have "distinct (map sg_source_event_id (map snd ?d))"
    unfolding keys using by_event_dict(1) [of xs] by (simp add: dict_wf_def dict_keys_def)
  then show "distinct (map sg_source_event_id (unique_signals xs))"
    by (simp add: unique_signals_def dict_values_def distinct_map del: map_map)
  have "sg_source_event_id ` snd ` set ?d = fst ` set ?d"
    using keys by (metis list.set_map)
  then show "sg_source_event_id ` set (unique_signals xs) = sg_source_event_id ` set xs"
    unfolding set_u using by_event_dict(3) [of xs] by (simp add: dom_map_of_conv_image_fst)
qed

lemma unique_signals_ne: "xs \<noteq> [] \<Longrightarrow> unique_signals xs \<noteq> []"
  using unique_signals_props(3) [of xs] by auto

lemma policy_groups_mem:
  assumes "g \<in> set (policy_groups signals)"
  obtains x where "x \<in> set signals" and
    "g = unique_signals (filter (\<lambda>s. policy_group_key s = policy_group_key x) signals)"
  using assms by (auto simp: policy_groups_def Let_def group_by_keys group_by_get)

section \<open>Admission\<close>

definition valid_signal :: "policy_signal \<Rightarrow> bool" where
  "valid_signal s \<longleftrightarrow> validate_policy_signal s = Inr s"

lemma valid_signalD:
  assumes "valid_signal s"
  shows "length (sg_value s) \<le> 160" "\<not> blank (sg_value s)" "\<not> blank (codes (sg_source_event_id s))"
    "0 \<le> sg_confidence s" "sg_confidence s \<le> 1"
  using assms by (auto simp: valid_signal_def validate_policy_signal_def unit_interval_def split: if_splits)

text \<open>
  A candidate is explained by a group of signals: all of its kind and value, each of another event,
  admitted by the thresholds, and suppressed exactly when one of them is of high risk.
\<close>

definition explained_by :: "int \<Rightarrow> rat \<Rightarrow> policy_signal list \<Rightarrow> policy_signal list \<Rightarrow> policy_candidate \<Rightarrow> bool" where
  "explained_by min_evidence min_confidence signals g c \<longleftrightarrow>
     g \<noteq> [] \<and> set g \<subseteq> set signals \<and> distinct (map sg_source_event_id g) \<and>
     policy_group_admitted min_evidence min_confidence g \<and>
     list_all (\<lambda>s. sg_policy_kind s = pc_policy_kind c \<and> py_strip (sg_value s) = pc_value c) g \<and>
     pc_source_event_ids c = map sg_source_event_id g \<and>
     (pc_decision_kind c = PD_SUPPRESSED \<longleftrightarrow> list_ex sg_high_risk g) \<and> pc_high_risk c = list_ex sg_high_risk g"

lemma reason_not_blank: "\<not> blank (codes (policy_candidate_reason kinds n))"
  by (auto simp: policy_candidate_reason_def blank_def codes_def py_whitespace_def)

lemma high_risk_reason_not_blank:
  "\<not> blank (codes ''high-risk context suppressed interaction policy candidate'')"
  by (simp add: blank_def codes_def py_whitespace_def)

lemma Max_confidence:
  assumes "g \<noteq> []" and "\<forall>s\<in>set g. valid_signal s"
  shows "unit_interval (Max (sg_confidence ` set g))"
proof -
  have "Max (sg_confidence ` set g) \<in> sg_confidence ` set g" using assms(1) by (intro Max_in) auto
  then show ?thesis using assms(2) valid_signalD(4,5) by (auto simp: unit_interval_def)
qed

lemma codes_Nil [simp]: "codes s = [] \<longleftrightarrow> s = []"
  by (simp add: codes_def)

lemma candidate_for_group_total:
  assumes ne: "g \<noteq> []" and valid: "\<forall>s\<in>set g. valid_signal s"
    and same: "\<forall>s\<in>set g. policy_group_key s = policy_group_key (hd g)"
    and sub: "set g \<subseteq> set signals" and dist: "distinct (map sg_source_event_id g)"
  shows "\<exists>co. policy_candidate_for_group g account space actor me mc = Inr co \<and>
           (\<forall>c. co = Some c \<longrightarrow> explained_by me mc signals g c \<and> validate_policy_candidate c = Inr c \<and>
              pc_account_id c = account \<and> pc_space_id c = space \<and> pc_actor_id c = actor)"
proof (cases "policy_group_admitted me mc g")
  case False
  then show ?thesis by (simp add: policy_candidate_for_group_def)
next
  case True
  define kinds where "kinds = sort_key policy_source_value (remdups (map sg_source g))"
  define risk where "risk = list_ex sg_high_risk g"
  define reason where "reason = (if risk then ''high-risk context suppressed interaction policy candidate''
    else policy_candidate_reason kinds (length g))"
  let ?c = "\<lparr>pc_policy_kind = sg_policy_kind (hd g), pc_value = py_strip (sg_value (hd g)),
     pc_account_id = account, pc_space_id = space, pc_actor_id = actor,
     pc_decision_kind = (if risk then PD_SUPPRESSED else PD_REVIEW_REQUIRED),
     pc_source_kinds = kinds, pc_evidence_count = length g,
     pc_source_event_ids = map sg_source_event_id g, pc_confidence = Max (sg_confidence ` set g),
     pc_reason = reason, pc_review_required = True, pc_high_risk = risk,
     pc_model_metadata = merge_metadata g,
     pc_metadata = [(''generator'', ''deterministic_baseline'')]\<rparr>"
  have hd: "valid_signal (hd g)" using ne valid by simp
  have v: "\<not> blank (py_strip (sg_value (hd g)))" using valid_signalD(2) [OF hd] by (rule not_blank_strip)
  have l: "\<not> 160 < length (py_strip (sg_value (hd g)))"
    using valid_signalD(1) [OF hd] length_py_strip [of "sg_value (hd g)"] by linarith
  have r: "\<not> blank (codes reason)"
    unfolding reason_def using reason_not_blank high_risk_reason_not_blank by (simp split: if_split)
  have ids: "\<not> (\<exists>i\<in>set (map sg_source_event_id g). blank (codes i))" using valid valid_signalD(3) by auto
  have "set kinds = sg_source ` set g" by (simp add: kinds_def)
  then have ks: "kinds \<noteq> []" using ne by (metis image_is_empty list.set(1) set_empty)
  have rne: "reason \<noteq> []" using not_blank_ne [OF r] by simp
  have ok: "validate_policy_candidate ?c = Inr ?c"
    using ne v l r ids ks rne not_blank_ne [OF v] Max_confidence [OF ne valid]
    by (simp add: validate_policy_candidate_def)
  have "list_all (\<lambda>s. sg_policy_kind s = sg_policy_kind (hd g) \<and>
      py_strip (sg_value s) = py_strip (sg_value (hd g))) g"
    using same unfolding list_all_iff group_key_eq .
  then have "explained_by me mc signals g ?c"
    using ne sub dist True by (simp add: explained_by_def risk_def)
  moreover have "policy_candidate_for_group g account space actor me mc = Inr (Some ?c)"
    using ok True
    by (simp add: policy_candidate_for_group_def Let_def kinds_def [symmetric] risk_def [symmetric]
        reason_def [symmetric])
  ultimately show ?thesis using ok by simp
qed

lemma set_somes: "set (somes xs) = {x. Some x \<in> set xs}"
  by (induction xs rule: somes.induct) auto

lemma policy_groups_ok:
  assumes "\<forall>s\<in>set signals. valid_signal s" and "g \<in> set (policy_groups signals)"
  shows "g \<noteq> []" "\<forall>s\<in>set g. valid_signal s" "\<forall>s\<in>set g. policy_group_key s = policy_group_key (hd g)"
    "set g \<subseteq> set signals" "distinct (map sg_source_event_id g)"
proof -
  obtain x where x: "x \<in> set signals" and
    g: "g = unique_signals (filter (\<lambda>s. policy_group_key s = policy_group_key x) signals)"
    using policy_groups_mem [OF assms(2)] .
  have sub: "set g \<subseteq> set (filter (\<lambda>s. policy_group_key s = policy_group_key x) signals)"
    unfolding g by (rule unique_signals_props(1))
  have "filter (\<lambda>s. policy_group_key s = policy_group_key x) signals \<noteq> []"
    using x by (auto simp: filter_empty_conv)
  then show ne: "g \<noteq> []" unfolding g by (rule unique_signals_ne)
  show "\<forall>s\<in>set g. valid_signal s" "set g \<subseteq> set signals" using sub assms(1) by auto
  have "\<forall>s\<in>set g. policy_group_key s = policy_group_key x" using sub by auto
  moreover from this ne have "policy_group_key (hd g) = policy_group_key x" by simp
  ultimately show "\<forall>s\<in>set g. policy_group_key s = policy_group_key (hd g)" by simp
  show "distinct (map sg_source_event_id g)" unfolding g by (rule unique_signals_props(2))
qed

lemma compute_total:
  assumes valid: "\<forall>s\<in>set signals. valid_signal s" and "1 \<le> me" and "0 \<le> mc" and "mc \<le> 1"
  shows "\<exists>cs. compute_interaction_policy_candidates signals account space actor me mc = Inr cs \<and>
           (\<forall>c\<in>set cs. (\<exists>g. explained_by me mc signals g c) \<and> validate_policy_candidate c = Inr c \<and>
              pc_account_id c = account \<and> pc_space_id c = space \<and> pc_actor_id c = actor)"
proof -
  let ?P = "\<lambda>g co. \<forall>c. co = Some c \<longrightarrow> explained_by me mc signals g c \<and> validate_policy_candidate c = Inr c \<and>
              pc_account_id c = account \<and> pc_space_id c = space \<and> pc_actor_id c = actor"
  obtain cos where cos: "each_result (\<lambda>g. policy_candidate_for_group g account space actor me mc)
      (policy_groups signals) = Inr cos" and P: "list_all2 ?P (policy_groups signals) cos"
    using each_result_all [of "policy_groups signals"
        "\<lambda>g. policy_candidate_for_group g account space actor me mc" ?P]
      candidate_for_group_total [OF policy_groups_ok [OF valid]] by blast
  have ex: "\<exists>g. ?P g co" if "co \<in> set cos" for co
  proof -
    from that obtain i where "i < length cos" "cos ! i = co" by (auto simp: in_set_conv_nth)
    with list_all2_nthD2 [OF P] show ?thesis by blast
  qed
  have "(\<exists>g. explained_by me mc signals g c) \<and> validate_policy_candidate c = Inr c \<and>
      pc_account_id c = account \<and> pc_space_id c = space \<and> pc_actor_id c = actor" if "c \<in> set (somes cos)" for c
  proof -
    from that have "Some c \<in> set cos" by (simp add: set_somes)
    then obtain g where g: "?P g (Some c)" using ex by blast
    then show ?thesis by (simp, blast)
  qed
  moreover have "compute_interaction_policy_candidates signals account space actor me mc = Inr (somes cos)"
    using cos assms(2-4) by (simp add: compute_interaction_policy_candidates_def)
  ultimately show ?thesis by blast
qed

section \<open>Runs\<close>

datatype policy_op =
  Run_Worker "learning_payload job_record" | Review datetime string review_decision "decision_request option"

fun policy_exec :: "policy_env \<Rightarrow> policy_op \<Rightarrow> policy_store \<Rightarrow> policy_store" where
  "policy_exec env (Run_Worker job) s = snd (policy_worker_run env job s)"
| "policy_exec env (Review now cid d q) s = snd (policy_apply now s cid d (target_status d) q)"

definition policy_run :: "policy_env \<Rightarrow> policy_op list \<Rightarrow> policy_store" where
  "policy_run env ops = foldl (\<lambda>s op. policy_exec env op s) empty_policy_store ops"

text \<open>The records that a worker run adds, and a run as operations of the review boundary.\<close>

definition worker_records :: "policy_env \<Rightarrow> learning_payload job_record \<Rightarrow> policy_record list" where
  "worker_records env job =
     (case jb_payload job of
        Policy_Payload p \<Rightarrow>
          (case policy_worker_candidates env p of
             Inl e \<Rightarrow> [] | Inr cs \<Rightarrow> map (policy_record_of env job p) cs)
      | _ \<Rightarrow> [])"

fun boundary_ops :: "policy_env \<Rightarrow> policy_op \<Rightarrow> policy_record boundary_op list" where
  "boundary_ops env (Run_Worker job) = map Add_Record (worker_records env job)"
| "boundary_ops env (Review now cid d q) = [Decide now cid d q]"

definition keys_ok :: "policy_store \<Rightarrow> bool" where
  "keys_ok s \<longleftrightarrow> (\<forall>k i. dict_get (ps_idempotency_keys s) k = Some i \<longrightarrow> policy_get s i \<noteq> None)"

lemma keys_ok_add:
  assumes "keys_ok s"
  shows "keys_ok (snd (policy_add_nowait s r))" and "\<exists>r'. fst (policy_add_nowait s r) = Inr r'"
proof -
  have known: "dict_get (ps_records s) i \<noteq> None" if "dict_get (ps_idempotency_keys s) k = Some i" for k i
    using assms that by (simp add: keys_ok_def policy_get_def)
  show "\<exists>r'. fst (policy_add_nowait s r) = Inr r'"
    using known by (fastforce simp: policy_add_nowait_def split: option.split)
  show "keys_ok (snd (policy_add_nowait s r))"
    using assms known
    by (auto simp: keys_ok_def policy_add_nowait_def policy_get_def dict_get_set split: option.split)
qed

lemma keys_ok_apply: "keys_ok s \<Longrightarrow> keys_ok (snd (policy_apply now s cid d target q))"
  by (auto simp: keys_ok_def policy_apply_store policy_get_def dict_get_set split: option.splits)

lemma add_policy_records_foldl:
  assumes "keys_ok s"
  shows "snd (add_policy_records s rs) = foldl (\<lambda>s r. snd (policy_add_nowait s r)) s rs"
    and "fst (add_policy_records s rs) = Inr ()" and "keys_ok (snd (add_policy_records s rs))"
  using assms
proof (induction rs arbitrary: s)
  case (Cons r rs)
  { case 1 then show ?case using keys_ok_add [OF 1, of r] Cons.IH(1) by (auto split: prod.splits) }
  { case 2 then show ?case using keys_ok_add [OF 2, of r] Cons.IH(2) by (auto split: prod.splits) }
  { case 3 then show ?case using keys_ok_add [OF 3, of r] Cons.IH(3) by (auto split: prod.splits) }
qed simp_all

lemma policy_exec_boundary:
  assumes "keys_ok s"
  shows "policy_exec env op s = pr.run_ops (boundary_ops env op) s" and "keys_ok (policy_exec env op s)"
proof -
  have adds: "foldl (\<lambda>s r. snd (policy_add_nowait s r)) s rs = pr.run_ops (map Add_Record rs) s" for rs s
    by (induction rs arbitrary: s) (simp_all add: pr.run_ops_def)
  have "policy_exec env op s = pr.run_ops (boundary_ops env op) s \<and> keys_ok (policy_exec env op s)"
  proof (cases op)
    case (Review now cid d q)
    with assms show ?thesis by (simp add: pr.run_ops_def keys_ok_apply)
  next
    case (Run_Worker job)
    have "snd (policy_worker_run env job s) = snd (add_policy_records s (worker_records env job))"
      by (simp add: policy_worker_run_def worker_records_def split: learning_payload.split sum.split)
    with Run_Worker show ?thesis
      using add_policy_records_foldl [OF assms, of "worker_records env job"] by (simp add: adds)
  qed
  then show "policy_exec env op s = pr.run_ops (boundary_ops env op) s" "keys_ok (policy_exec env op s)"
    by (rule conjunct1, rule conjunct2)
qed

lemma policy_run_boundary:
  "policy_run env ops = pr.run_ops (concat (map (boundary_ops env) ops)) empty_policy_store \<and>
   keys_ok (policy_run env ops)"
proof (induction ops rule: rev_induct)
  case Nil
  show ?case by (simp add: policy_run_def pr.run_ops_def keys_ok_def empty_policy_store_def)
next
  case (snoc op ops)
  have app: "pr.run_ops (xs @ ys) s = pr.run_ops ys (pr.run_ops xs s)" for xs ys s
    by (simp add: pr.run_ops_def)
  have "policy_run env (ops @ [op]) = policy_exec env op (policy_run env ops)"
    by (simp add: policy_run_def)
  moreover have "keys_ok (policy_run env ops)" using snoc by (rule conjunct2)
  from policy_exec_boundary [OF this, of env op]
  have "policy_exec env op (policy_run env ops) = pr.run_ops (boundary_ops env op) (policy_run env ops)"
    "keys_ok (policy_exec env op (policy_run env ops))" .
  ultimately show ?case using snoc by (simp add: app)
qed

lemma concat_split:
  assumes "concat (map f xs) = pre @ y # post"
  obtains xs1 x xs2 u v where "xs = xs1 @ x # xs2" and "f x = u @ y # v" and "pre = concat (map f xs1) @ u"
proof -
  have "\<exists>xs1 x xs2 u v. xs = xs1 @ x # xs2 \<and> f x = u @ y # v \<and> pre = concat (map f xs1) @ u"
    using assms
  proof (induction xs arbitrary: pre)
    case (Cons z xs)
    from Cons.prems have eq: "f z @ concat (map f xs) = pre @ y # post" by simp
    then consider (later) us where "pre = f z @ us" "concat (map f xs) = us @ y # post"
      | (here) us where "f z = pre @ y # us"
      by (auto simp: append_eq_append_conv2 Cons_eq_append_conv append_eq_Cons_conv)
    then show ?case
    proof cases
      case later
      with Cons.IH obtain xs1 x xs2 u v where "xs = xs1 @ x # xs2" "f x = u @ y # v" "us = concat (map f xs1) @ u"
        by blast
      with later have "z # xs = (z # xs1) @ x # xs2 \<and> f x = u @ y # v \<and> pre = concat (map f (z # xs1)) @ u"
        by simp
      then show ?thesis by blast
    next
      case here
      then have "z # xs = [] @ z # xs \<and> f z = pre @ y # us \<and> pre = concat (map f []) @ pre" by simp
      then show ?thesis by blast
    qed
  qed simp
  then show thesis using that by blast
qed

text \<open>A stored record that is approved was approved after a worker run had added its candidate.\<close>

lemma approved_record:
  assumes "policy_get (policy_run env ops) cid = Some r" and "pr_status r = RV_APPROVED"
  shows "\<exists>pre now q post job. ops = pre @ Review now cid DECIDE_APPROVE q # post \<and> Run_Worker job \<in> set pre \<and>
           pr_candidate r \<in> pr_candidate ` set (worker_records env job)"
proof -
  let ?bops = "concat (map (boundary_ops env) ops)"
  have pend: "pr_status r' = RV_PENDING_REVIEW" if r': "Add_Record r' \<in> set ?bops" for r'
  proof -
    from r' obtain op where "op \<in> set ops" "Add_Record r' \<in> set (boundary_ops env op)" by auto
    then show ?thesis
      by (cases op rule: policy_op.exhaust)
        (auto simp: worker_records_def policy_record_of_def Let_def split: learning_payload.splits sum.splits)
  qed
  have "pr.traced ?bops (pr.run_ops ?bops empty_policy_store)"
    by (rule pr.run_ops_traced) (simp_all add: pend empty_policy_store_def policy_get_def)
  with assms policy_run_boundary [of env ops] have "pr.approved_in ?bops cid (pr_candidate r)"
    by (simp add: pr.traced_def)
  then obtain bpre now q bpost where split: "?bops = bpre @ Decide now cid DECIDE_APPROVE q # bpost"
    and added: "pr.added_in bpre cid (pr_candidate r)"
    unfolding pr.approved_in_def by blast
  from concat_split [OF split] obtain pre op post u v where ops: "ops = pre @ op # post"
    and op: "boundary_ops env op = u @ Decide now cid DECIDE_APPROVE q # v"
    and bpre: "bpre = concat (map (boundary_ops env) pre) @ u" by blast
  have "op = Review now cid DECIDE_APPROVE q \<and> u = []"
  proof (cases op)
    case (Run_Worker job)
    with op have "Decide now cid DECIDE_APPROVE q \<in> set (map Add_Record (worker_records env job))"
      by (metis boundary_ops.simps(1) in_set_conv_decomp)
    then show ?thesis by auto
  next
    case (Review now' cid' d' q')
    with op show ?thesis by (cases u) auto
  qed
  moreover obtain job where "Run_Worker job \<in> set pre" "pr_candidate r \<in> pr_candidate ` set (worker_records env job)"
  proof -
    from added bpre calculation obtain r0 op0 where "op0 \<in> set pre" "Add_Record r0 \<in> set (boundary_ops env op0)"
      "pr_candidate r = pr_candidate r0"
      unfolding pr.added_in_def by auto
    then show thesis using that by (cases op0 rule: policy_op.exhaust) (auto intro: rev_image_eqI)
  qed
  ultimately show ?thesis using ops by blast
qed

section \<open>The property\<close>

lemma worker_candidate_explained:
  assumes "1 \<le> pe_min_evidence env" "0 \<le> pe_min_confidence env" "pe_min_confidence env \<le> 1"
    and valid: "\<And>p. jb_payload job = Policy_Payload p \<Longrightarrow> \<forall>s\<in>set (pj_signals p). valid_signal s"
    and c: "c \<in> pr_candidate ` set (worker_records env job)"
  shows "\<exists>p g. jb_payload job = Policy_Payload p \<and>
           explained_by (pe_min_evidence env) (pe_min_confidence env) (pj_signals p) g c \<and>
           pc_account_id c = pj_account_id p \<and> pc_space_id c = pj_space_id p"
proof -
  from c obtain p where p: "jb_payload job = Policy_Payload p"
    by (cases "jb_payload job") (auto simp: worker_records_def)
  moreover from c p obtain cs where "policy_worker_candidates env p = Inr cs" and "c \<in> set cs"
    by (cases "policy_worker_candidates env p") (auto simp: worker_records_def policy_record_of_def Let_def)
  ultimately show ?thesis
    using compute_total [OF valid [OF p] assms(1-3), of "pj_account_id p" "pj_space_id p" "pj_actor_id p"]
    by (auto simp: policy_worker_candidates_def)
qed

lemma promoted_record:
  assumes "policy_promote s cid = Inr res" and "pm_policy res = Some pol"
  shows "\<exists>r. policy_get s cid = Some r \<and> pr_status r = RV_APPROVED \<and>
           pc_decision_kind (pr_candidate r) \<noteq> PD_SUPPRESSED \<and> ap_candidate_id pol = cid \<and>
           ap_policy_kind pol = pc_policy_kind (pr_candidate r) \<and> ap_value pol = pc_value (pr_candidate r) \<and>
           ap_account_id pol = pc_account_id (pr_candidate r) \<and> ap_space_id pol = pc_space_id (pr_candidate r)"
  using assms by (auto simp: policy_promote_def Let_def split: option.splits if_splits)

definition valid_op :: "policy_op \<Rightarrow> bool" where
  "valid_op op =
     (case op of
        Run_Worker job \<Rightarrow>
          (case jb_payload job of Policy_Payload p \<Rightarrow> list_all valid_signal (pj_signals p) | _ \<Rightarrow> True)
      | Review now cid d q \<Rightarrow> True)"

text \<open>
  C7. Whatever worker runs and review decisions happen in whatever order, a policy leaves the
  promoter only under the id of a candidate that was approved after a worker run had stored it, for
  the account and the space of that job, and it stands on a group of the job's signals: all of the
  policy's kind and value, of different events, admitted by the thresholds on evidence and
  confidence, and none of them of high risk. Valid payloads and thresholds are what their pydantic
  contracts and the constructor enforce.
\<close>

theorem policy_needs_approval:
  assumes "1 \<le> pe_min_evidence env" "0 \<le> pe_min_confidence env" "pe_min_confidence env \<le> 1"
    and valid: "list_all valid_op ops"
    and promoted: "policy_promote (policy_run env ops) cid = Inr res" "pm_policy res = Some pol"
  shows "\<exists>pre now q post job p g.
      ops = pre @ Review now cid DECIDE_APPROVE q # post \<and> Run_Worker job \<in> set pre \<and>
      jb_payload job = Policy_Payload p \<and> ap_candidate_id pol = cid \<and>
      ap_account_id pol = pj_account_id p \<and> ap_space_id pol = pj_space_id p \<and>
      g \<noteq> [] \<and> set g \<subseteq> set (pj_signals p) \<and> distinct (map sg_source_event_id g) \<and>
      policy_group_admitted (pe_min_evidence env) (pe_min_confidence env) g \<and>
      list_all (\<lambda>s. sg_policy_kind s = ap_policy_kind pol \<and> py_strip (sg_value s) = ap_value pol \<and>
                    \<not> sg_high_risk s) g"
proof -
  obtain r where r: "policy_get (policy_run env ops) cid = Some r" "pr_status r = RV_APPROVED"
    "pc_decision_kind (pr_candidate r) \<noteq> PD_SUPPRESSED"
    and pol: "ap_candidate_id pol = cid" "ap_policy_kind pol = pc_policy_kind (pr_candidate r)"
      "ap_value pol = pc_value (pr_candidate r)" "ap_account_id pol = pc_account_id (pr_candidate r)"
      "ap_space_id pol = pc_space_id (pr_candidate r)"
    using promoted_record [OF promoted] by blast
  obtain pre now q post job where ops: "ops = pre @ Review now cid DECIDE_APPROVE q # post"
    and job: "Run_Worker job \<in> set pre" "pr_candidate r \<in> pr_candidate ` set (worker_records env job)"
    using approved_record [OF r(1,2)] by blast
  have v: "\<forall>s\<in>set (pj_signals p). valid_signal s" if "jb_payload job = Policy_Payload p" for p
  proof -
    have "valid_op (Run_Worker job)" using valid job(1) unfolding ops list_all_iff by simp
    with that show ?thesis by (simp add: valid_op_def list_all_iff)
  qed
  obtain p g where p: "jb_payload job = Policy_Payload p"
    and g: "explained_by (pe_min_evidence env) (pe_min_confidence env) (pj_signals p) g (pr_candidate r)"
    and scope: "pc_account_id (pr_candidate r) = pj_account_id p" "pc_space_id (pr_candidate r) = pj_space_id p"
    using worker_candidate_explained [OF assms(1-3) v job(2)] by blast
  have "list_all (\<lambda>s. sg_policy_kind s = ap_policy_kind pol \<and> py_strip (sg_value s) = ap_value pol \<and>
      \<not> sg_high_risk s) g"
    using g r(3) pol by (simp add: explained_by_def list_all_iff list_ex_iff)
  with g ops job(1) p pol scope have "ops = pre @ Review now cid DECIDE_APPROVE q # post \<and> Run_Worker job \<in> set pre \<and>
      jb_payload job = Policy_Payload p \<and> ap_candidate_id pol = cid \<and>
      ap_account_id pol = pj_account_id p \<and> ap_space_id pol = pj_space_id p \<and>
      g \<noteq> [] \<and> set g \<subseteq> set (pj_signals p) \<and> distinct (map sg_source_event_id g) \<and>
      policy_group_admitted (pe_min_evidence env) (pe_min_confidence env) g \<and>
      list_all (\<lambda>s. sg_policy_kind s = ap_policy_kind pol \<and> py_strip (sg_value s) = ap_value pol \<and>
                    \<not> sg_high_risk s) g"
    by (simp add: explained_by_def)
  then show ?thesis by blast
qed

definition example_policy_env :: policy_env where
  "example_policy_env = \<lparr>pe_sha256_hexdigest = (\<lambda>t. ''digest''), pe_casefold = id,
     pe_payload_json = (\<lambda>p. []), pe_min_evidence = 2, pe_min_confidence = 13 / 20\<rparr>"

definition example_signal :: policy_signal where
  "example_signal = \<lparr>sg_policy_kind = PK_TONE, sg_value = codes ''formal'', sg_source = PS_EXPLICIT_FEEDBACK,
     sg_source_event_id = ''o1'', sg_confidence = 9 / 10, sg_reason = ''r'', sg_occurred_at = 5, sg_high_risk = False,
     sg_model_metadata = []\<rparr>"

definition example_policy_job :: "learning_payload job_record" where
  "example_policy_job = pending_job ''j1'' INTERACTION_POLICY_CANDIDATE
     (Policy_Payload \<lparr>pj_signals = [example_signal], pj_account_id = ''a'', pj_space_id = None, pj_actor_id = None\<rparr>)
     3 5 ''k1''"

definition example_ops :: "policy_op list" where
  "example_ops = [Run_Worker example_policy_job, Review 7 ''interaction-policy-digest'' DECIDE_APPROVE None]"

definition example_policy_candidate :: policy_candidate where
  "example_policy_candidate =
     \<lparr>pc_policy_kind = PK_TONE, pc_value = codes ''formal'', pc_account_id = ''a'', pc_space_id = None,
      pc_actor_id = None, pc_decision_kind = PD_REVIEW_REQUIRED, pc_source_kinds = [PS_EXPLICIT_FEEDBACK],
      pc_evidence_count = 1, pc_source_event_ids = [''o1''], pc_confidence = 9 / 10,
      pc_reason = ''explicit response-style feedback has priority'', pc_review_required = True,
      pc_high_risk = False, pc_model_metadata = [], pc_metadata = [(''generator'', ''deterministic_baseline'')]\<rparr>"

lemma example_groups: "policy_groups [example_signal] = [[example_signal]]"
  by (simp add: policy_groups_def group_by_def unique_signals_def dict_keys_def dict_values_def Let_def)

lemma example_valid: "valid_signal example_signal"
  by (simp add: valid_signal_def validate_policy_signal_def example_signal_def unit_interval_def blank_def
      codes_def py_whitespace_def)

lemma example_candidate:
  "policy_candidate_for_group [example_signal] ''a'' None None 2 (13 / 20) = Inr (Some example_policy_candidate)"
  by (simp add: policy_candidate_for_group_def policy_group_admitted_def is_explicit_group_def example_signal_def
      validate_policy_candidate_def example_policy_candidate_def unit_interval_def blank_def codes_def
      py_whitespace_def py_strip_def policy_candidate_reason_def merge_metadata_def Let_def)

definition example_policy :: approved_policy where
  "example_policy = \<lparr>ap_candidate_id = ''interaction-policy-digest'', ap_policy_kind = PK_TONE,
     ap_value = codes ''formal'', ap_account_id = ''a'', ap_space_id = None, ap_approved_at = 7\<rparr>"

definition example_result :: policy_promotion where
  "example_result =
     \<lparr>pm_record = apply_policy_update (hd (worker_records example_policy_env example_policy_job))
        (policy_decision_update RV_APPROVED 7 None),
      pm_policy = Some example_policy, pm_promoted = True, pm_reason = None\<rparr>"

lemma example_promotion:
  "policy_promote (policy_run example_policy_env example_ops) ''interaction-policy-digest'' = Inr example_result"
  "pm_policy example_result = Some example_policy"
proof -
  have "policy_worker_candidates example_policy_env
      \<lparr>pj_signals = [example_signal], pj_account_id = ''a'', pj_space_id = None, pj_actor_id = None\<rparr> =
      Inr [example_policy_candidate]"
    by (simp add: policy_worker_candidates_def compute_interaction_policy_candidates_def example_policy_env_def
        example_groups example_candidate)
  then show "policy_promote (policy_run example_policy_env example_ops) ''interaction-policy-digest'' = Inr example_result"
    by (simp add: example_result_def example_policy_def policy_run_def example_ops_def example_policy_job_def pending_job_def policy_worker_run_def
        worker_records_def policy_record_of_def policy_add_nowait_def empty_policy_store_def policy_apply_store
        policy_get_def policy_promote_def Let_def example_policy_env_def example_policy_candidate_def)
  show "pm_policy example_result = Some example_policy" by (simp add: example_result_def)
qed

theorem policy_needs_approval_witness:
  "\<exists>pre now q post job p g.
      example_ops = pre @ Review now ''interaction-policy-digest'' DECIDE_APPROVE q # post \<and>
      Run_Worker job \<in> set pre \<and> jb_payload job = Policy_Payload p \<and> pj_account_id p = ''a'' \<and>
      g \<noteq> [] \<and> set g \<subseteq> set (pj_signals p) \<and> list_all (\<lambda>s. sg_policy_kind s = PK_TONE \<and> \<not> sg_high_risk s) g"
proof -
  have env: "1 \<le> pe_min_evidence example_policy_env" "0 \<le> pe_min_confidence example_policy_env"
    "pe_min_confidence example_policy_env \<le> 1"
    by (simp_all add: example_policy_env_def)
  have "list_all valid_op example_ops"
    using example_valid by (simp add: example_ops_def example_policy_job_def pending_job_def valid_op_def)
  from policy_needs_approval [OF env this example_promotion]
  obtain pre now q post job p g where
    "example_ops = pre @ Review now ''interaction-policy-digest'' DECIDE_APPROVE q # post"
    "Run_Worker job \<in> set pre" "jb_payload job = Policy_Payload p" "pj_account_id p = ''a''"
    "g \<noteq> []" "set g \<subseteq> set (pj_signals p)"
    "list_all (\<lambda>s. sg_policy_kind s = PK_TONE \<and> py_strip (sg_value s) = codes ''formal'' \<and> \<not> sg_high_risk s) g"
    unfolding example_policy_def by auto
  moreover from this(7) have "list_all (\<lambda>s. sg_policy_kind s = PK_TONE \<and> \<not> sg_high_risk s) g"
    by (simp add: list_all_iff)
  ultimately show ?thesis by blast
qed

section \<open>Markers\<close>

text \<open>
  The marker \<^verbatim>\<open>low initiative\<close> is never reached: a text that holds it holds
  \<^verbatim>\<open>initiative\<close>, a marker of the opposite policy that is tried before.
\<close>

lemma contains_iff: "contains m t \<longleftrightarrow> (\<exists>pre post. t = pre @ m @ post)"
proof
  assume "contains m t"
  then obtain i where i: "take (length m) (drop i t) = m" by (auto simp: contains_def list_ex_iff)
  have "t = take i t @ take (length m) (drop i t) @ drop (length m) (drop i t)" by (metis append_take_drop_id)
  with i show "\<exists>pre post. t = pre @ m @ post" by metis
next
  assume "\<exists>pre post. t = pre @ m @ post"
  then obtain pre post where "t = pre @ m @ post" by blast
  then have "length pre < Suc (length t)" "take (length m) (drop (length pre) t) = m" by simp_all
  then have "length pre \<in> set [0..<Suc (length t)]" "take (length m) (drop (length pre) t) = m"
    by (simp_all only: set_upt atLeastLessThan_iff le0 simp_thms)
  then show "contains m t" unfolding contains_def list_ex_iff by blast
qed

lemma contains_part: "contains (a @ m @ b) t \<Longrightarrow> contains m t"
  unfolding contains_iff by (metis append_assoc)

theorem low_initiative_marker_dead:
  assumes "policy_from_text env t = Some (PK_INITIATIVE, ''low'')"
  shows "\<not> contains (codes ''low initiative'') (pe_casefold env t)"
proof
  assume "contains (codes ''low initiative'') (pe_casefold env t)"
  moreover have "codes ''low initiative'' = codes ''low '' @ codes ''initiative'' @ []" by (simp add: codes_def)
  ultimately have "contains (codes ''initiative'') (pe_casefold env t)" by (metis contains_part)
  with assms show False
    by (auto simp: policy_from_text_def policy_markers_def Let_def split: if_splits)
qed

end
