(* ===== verification/Affect_State.thy ===== *)
theory Affect_State
  imports Learning_Signals
begin

text \<open>
  Affect and relationship state: the helpers and the mood update
  (\<^verbatim>\<open>iris/cognitive/affect/{common,mood}.py\<close>), the relationship step
  (\<^verbatim>\<open>relationship.py\<close>) and the baseline steps (\<^verbatim>\<open>persistence.py\<close>), with the
  contracts \<^verbatim>\<open>iris/contracts/{relationship,affect}.py\<close>, the in-memory stores
  (\<^verbatim>\<open>iris/runtime/state/ephemeral\<close>) and the SQLite stores
  (\<^verbatim>\<open>iris/adapters/persistence/sqlite/stores/{relationship,affect}.py\<close>). A float is the
  rational it denotes and sums and products are exact; rendering with two decimals and the power
  of one half are arguments. A date column holds the instant whose ISO text it stores.
\<close>

section \<open>Common helpers\<close>

definition clamp_value :: "rat \<Rightarrow> rat \<Rightarrow> rat \<Rightarrow> rat" where
  "clamp_value lower upper value = max lower (min upper value)"

lemma clamp_bounds: "lower \<le> upper \<Longrightarrow> lower \<le> clamp_value lower upper v \<and> clamp_value lower upper v \<le> upper"
  by (simp add: clamp_value_def)

lemma clamp_id: "lower \<le> v \<Longrightarrow> v \<le> upper \<Longrightarrow> clamp_value lower upper v = v"
  by (simp add: clamp_value_def)

text \<open>Clamping moves a value towards the interval, so a point of the interval is not left further than asked.\<close>

lemma clamp_near:
  assumes "lower \<le> v" "v \<le> upper"
  shows "\<bar>clamp_value lower upper (v + d) - v\<bar> \<le> \<bar>d\<bar>"
  using assms by (auto simp: clamp_value_def max_def min_def abs_if)

definition VAD_THRESHOLD :: rat where
  "VAD_THRESHOLD = 1 / 5"

definition label_for_vad :: "rat \<Rightarrow> rat \<Rightarrow> rat \<Rightarrow> string option" where
  "label_for_vad valence arousal dominance =
     (if VAD_THRESHOLD \<le> valence then Some ''positive''
      else if valence \<le> - VAD_THRESHOLD
      then Some (if VAD_THRESHOLD \<le> arousal then ''distressed'' else ''negative'')
      else if dominance \<le> - VAD_THRESHOLD then Some ''uncertain''
      else if VAD_THRESHOLD \<le> arousal then Some ''alert'' else None)"

record affect_env =
  ae_format2 :: "rat \<Rightarrow> string"
  ae_half_power :: "rat \<Rightarrow> rat"

definition or_text :: "string option \<Rightarrow> string option \<Rightarrow> string option" where
  "or_text a b = (if a = None \<or> a = Some [] then b else a)"

definition format_vad_summary :: "affect_env \<Rightarrow> string option \<Rightarrow> rat \<Rightarrow> rat \<Rightarrow> rat \<Rightarrow> string" where
  "format_vad_summary env label valence arousal dominance =
     the (or_text label (Some ''neutral'')) @ '' VAD(v='' @ ae_format2 env valence @ '', a='' @ ae_format2 env arousal @
     '', d='' @ ae_format2 env dominance @ '')''"

record affect_snapshot =
  af_mood_label :: "string option"
  af_arousal :: rat
  af_valence :: rat
  af_dominance :: rat
  af_affect_summary :: "string option"

section \<open>Mood\<close>

definition decay_factor :: "affect_env \<Rightarrow> rat \<Rightarrow> rat \<Rightarrow> rat" where
  "decay_factor env elapsed half_life =
     (if elapsed \<le> 0 then 1 else if half_life \<le> 0 then 0 else ae_half_power env (elapsed / half_life))"

definition blend :: "rat \<Rightarrow> rat \<Rightarrow> rat \<Rightarrow> rat" where
  "blend decay current appraisal = clamp_value (- 1) 1 (current * decay + appraisal * (1 - decay + 35 / 100))"

definition update_mood :: "affect_env \<Rightarrow> affect_snapshot \<Rightarrow> affect_snapshot \<Rightarrow> rat \<Rightarrow> rat \<Rightarrow> affect_snapshot" where
  "update_mood env current appraisal elapsed half_life =
     (let decay = decay_factor env elapsed half_life;
          valence = blend decay (af_valence current) (af_valence appraisal);
          arousal = blend decay (af_arousal current) (af_arousal appraisal);
          dominance = blend decay (af_dominance current) (af_dominance appraisal);
          label = or_text (af_mood_label appraisal) (label_for_vad valence arousal dominance)
      in \<lparr>af_mood_label = label, af_arousal = arousal, af_valence = valence, af_dominance = dominance,
          af_affect_summary = Some (format_vad_summary env label valence arousal dominance)\<rparr>)"

section \<open>Relationship records and stores\<close>

record relationship_snapshot =
  rsn_actor_label :: "string option"
  rsn_affinity :: rat
  rsn_trust :: rat
  rsn_familiarity :: rat
  rsn_summary :: "string option"

record relationship_record =
  rl_actor_id :: string
  rl_actor_label :: "string option"
  rl_affinity :: rat
  rl_trust :: rat
  rl_familiarity :: rat
  rl_summary :: "string option"
  rl_source_observation_id :: "string option"
  rl_created_at :: "datetime option"
  rl_updated_at :: "datetime option"
  rl_version :: int

definition validate_range :: "rat \<Rightarrow> rat \<Rightarrow> rat \<Rightarrow> string \<Rightarrow> contract_error + unit" where
  "validate_range value minimum maximum name =
     (if minimum \<le> value \<and> value \<le> maximum then Inr ()
      else Inl (ContractValidationError (name @ '' out of range'')))"

definition validate_relationship_record :: "relationship_record \<Rightarrow> contract_error + relationship_record" where
  "validate_relationship_record r =
     (if rl_actor_id r = []
      then Inl (ContractValidationError ''actor_id is required for durable relationship records'')
      else result_bind (validate_range (rl_affinity r) (- 1) 1 ''affinity'') (\<lambda>_.
           result_bind (validate_range (rl_trust r) 0 1 ''trust'') (\<lambda>_.
           result_bind (validate_range (rl_familiarity r) 0 1 ''familiarity'') (\<lambda>_.
             if rl_version r < 1
             then Inl (ContractValidationError ''version must be greater than or equal to 1'')
             else Inr r))))"

definition relationship_ok :: "relationship_record \<Rightarrow> bool" where
  "relationship_ok r \<longleftrightarrow>
     rl_actor_id r \<noteq> [] \<and> - 1 \<le> rl_affinity r \<and> rl_affinity r \<le> 1 \<and> 0 \<le> rl_trust r \<and> rl_trust r \<le> 1 \<and>
     0 \<le> rl_familiarity r \<and> rl_familiarity r \<le> 1 \<and> 1 \<le> rl_version r"

lemma validate_relationship_ok: "validate_relationship_record r = Inr r' \<longleftrightarrow> r' = r \<and> relationship_ok r"
  by (auto simp: validate_relationship_record_def validate_range_def relationship_ok_def result_bind_ok split: if_splits)

definition or_now :: "datetime option \<Rightarrow> datetime \<Rightarrow> datetime option" where
  "or_now t now = (case t of None \<Rightarrow> Some now | Some x \<Rightarrow> Some x)"

text \<open>The in-memory store.\<close>

type_synonym relationship_memory = "(string, relationship_record) dict"

definition relationship_get :: "relationship_memory \<Rightarrow> string \<Rightarrow> relationship_record option" where
  "relationship_get s actor = dict_get s actor"

definition with_relationship_timestamps ::
  "relationship_record \<Rightarrow> datetime option \<Rightarrow> datetime \<Rightarrow> contract_error + relationship_record" where
  "with_relationship_timestamps r created updated =
     validate_relationship_record (r\<lparr>rl_created_at := created, rl_updated_at := Some updated\<rparr>)"

definition relationship_upsert ::
  "datetime \<Rightarrow> relationship_memory \<Rightarrow> relationship_record
     \<Rightarrow> (contract_error + relationship_record) \<times> relationship_memory" where
  "relationship_upsert now s r =
     (case with_relationship_timestamps r
             (case dict_get s (rl_actor_id r) of
                None \<Rightarrow> or_now (rl_created_at r) now | Some current \<Rightarrow> rl_created_at current) now of
        Inl e \<Rightarrow> (Inl e, s)
      | Inr stored \<Rightarrow> (Inr stored, dict_set (rl_actor_id r) stored s))"

text \<open>The SQLite store: rows keyed by the primary key.\<close>

record relationship_row =
  rw_actor_label :: "string option"
  rw_affinity :: rat
  rw_trust :: rat
  rw_familiarity :: rat
  rw_relationship_summary :: "string option"
  rw_source_observation_id :: "string option"
  rw_created_at :: datetime
  rw_updated_at :: datetime
  rw_version :: int

type_synonym relationship_table = "(string, relationship_row) dict"

definition model_to_relationship :: "string \<Rightarrow> relationship_row \<Rightarrow> contract_error + relationship_record" where
  "model_to_relationship actor w = validate_relationship_record
     \<lparr>rl_actor_id = actor, rl_actor_label = rw_actor_label w, rl_affinity = rw_affinity w, rl_trust = rw_trust w,
      rl_familiarity = rw_familiarity w, rl_summary = rw_relationship_summary w,
      rl_source_observation_id = rw_source_observation_id w, rl_created_at = Some (rw_created_at w),
      rl_updated_at = Some (rw_updated_at w), rl_version = rw_version w\<rparr>"

definition sqlite_relationship_get ::
  "relationship_table \<Rightarrow> string \<Rightarrow> contract_error + relationship_record option" where
  "sqlite_relationship_get t actor =
     (case dict_get t actor of
        None \<Rightarrow> Inr None
      | Some w \<Rightarrow> result_bind (model_to_relationship actor w) (\<lambda>r. Inr (Some r)))"

definition sqlite_relationship_upsert ::
  "datetime \<Rightarrow> relationship_table \<Rightarrow> relationship_record
     \<Rightarrow> (contract_error + relationship_record) \<times> relationship_table" where
  "sqlite_relationship_upsert now t r =
     (case sqlite_relationship_get t (rl_actor_id r) of
        Inl e \<Rightarrow> (Inl e, t)
      | Inr current \<Rightarrow>
          let created = (case current of None \<Rightarrow> or_now (rl_created_at r) now | Some c \<Rightarrow> rl_created_at c);
              stored = r\<lparr>rl_created_at := created, rl_updated_at := Some now\<rparr>;
              created_text = (case created of None \<Rightarrow> now | Some x \<Rightarrow> x);
              row_created = (case dict_get t (rl_actor_id r) of None \<Rightarrow> created_text | Some w \<Rightarrow> rw_created_at w)
          in (Inr stored,
              dict_set (rl_actor_id r)
                \<lparr>rw_actor_label = rl_actor_label stored, rw_affinity = rl_affinity stored, rw_trust = rl_trust stored,
                 rw_familiarity = rl_familiarity stored, rw_relationship_summary = rl_summary stored,
                 rw_source_observation_id = rl_source_observation_id stored, rw_created_at = row_created,
                 rw_updated_at = now, rw_version = rl_version stored\<rparr> t))"

section \<open>The relationship step\<close>

definition summarize :: "affect_env \<Rightarrow> string option \<Rightarrow> rat \<Rightarrow> rat \<Rightarrow> rat \<Rightarrow> string" where
  "summarize env label affinity trust familiarity =
     the (or_text label (Some ''actor'')) @ '': '' @
     (if 2 / 5 < affinity then ''warm'' else if affinity < - 2 / 5 then ''strained'' else ''neutral'') @
     '' relationship, trust='' @ ae_format2 env trust @ '', familiarity='' @ ae_format2 env familiarity"

definition default_relationship_snapshot :: "affect_env \<Rightarrow> string option \<Rightarrow> relationship_snapshot" where
  "default_relationship_snapshot env label =
     \<lparr>rsn_actor_label = label, rsn_affinity = 0, rsn_trust = 1 / 2, rsn_familiarity = 0,
      rsn_summary = Some (summarize env label 0 (1 / 2) 0)\<rparr>"

definition apply_relationship_delta ::
  "affect_env \<Rightarrow> relationship_snapshot \<Rightarrow> rat \<Rightarrow> rat \<Rightarrow> relationship_snapshot" where
  "apply_relationship_delta env current affinity_delta trust_delta =
     (let familiarity = clamp_value 0 1 (rsn_familiarity current + 5 / 100);
          affinity = clamp_value (- 1) 1 (rsn_affinity current + affinity_delta);
          trust = clamp_value 0 1 (rsn_trust current + trust_delta)
      in \<lparr>rsn_actor_label = rsn_actor_label current, rsn_affinity = affinity, rsn_trust = trust,
          rsn_familiarity = familiarity,
          rsn_summary = Some (summarize env (rsn_actor_label current) affinity trust familiarity)\<rparr>)"

definition trust_delta_for :: "rat \<Rightarrow> rat" where
  "trust_delta_for valence = (if 1 / 10 < valence then 2 / 100 else if valence < - 1 / 10 then - 2 / 100 else 0)"

definition update_relationship ::
  "affect_env \<Rightarrow> relationship_snapshot \<Rightarrow> affect_snapshot \<Rightarrow> relationship_snapshot" where
  "update_relationship env current affect =
     apply_relationship_delta env current (af_valence affect * (5 / 100)) (trust_delta_for (af_valence affect))"

definition update_relationship_semantic_boundary ::
  "affect_env \<Rightarrow> relationship_snapshot \<Rightarrow> relationship_snapshot" where
  "update_relationship_semantic_boundary env current = apply_relationship_delta env current 0 0"

definition relationship_to_snapshot :: "relationship_record \<Rightarrow> relationship_snapshot" where
  "relationship_to_snapshot r =
     \<lparr>rsn_actor_label = rl_actor_label r, rsn_affinity = rl_affinity r, rsn_trust = rl_trust r,
      rsn_familiarity = rl_familiarity r, rsn_summary = rl_summary r\<rparr>"

definition relationship_from_snapshot ::
  "string \<Rightarrow> relationship_snapshot \<Rightarrow> string \<Rightarrow> contract_error + relationship_record" where
  "relationship_from_snapshot actor s source = validate_relationship_record
     \<lparr>rl_actor_id = actor, rl_actor_label = rsn_actor_label s, rl_affinity = rsn_affinity s, rl_trust = rsn_trust s,
      rl_familiarity = rsn_familiarity s, rl_summary = rsn_summary s, rl_source_observation_id = Some source,
      rl_created_at = None, rl_updated_at = None, rl_version = 1\<rparr>"

text \<open>The parts of a workspace frame that the steps read.\<close>

record affect_frame =
  fr_is_actor_message :: bool
  fr_observation_id :: string
  fr_actor :: "(string \<times> string) option"
  fr_text :: "code_points option"
  fr_affect :: affect_snapshot

datatype relationship_result = Relationship_Skipped string | Relationship_Ok relationship_snapshot

text \<open>The operations of a relationship store.\<close>

record 's relationship_port =
  rp_get :: "'s \<Rightarrow> string \<Rightarrow> contract_error + relationship_record option"
  rp_upsert :: "datetime \<Rightarrow> 's \<Rightarrow> relationship_record \<Rightarrow> (contract_error + relationship_record) \<times> 's"

definition memory_relationship_port :: "relationship_memory relationship_port" where
  "memory_relationship_port = \<lparr>rp_get = (\<lambda>s a. Inr (relationship_get s a)), rp_upsert = relationship_upsert\<rparr>"

definition sqlite_relationship_port :: "relationship_table relationship_port" where
  "sqlite_relationship_port = \<lparr>rp_get = sqlite_relationship_get, rp_upsert = sqlite_relationship_upsert\<rparr>"

definition updated_snapshot ::
  "affect_env \<Rightarrow> bool \<Rightarrow> relationship_record option \<Rightarrow> string \<Rightarrow> affect_snapshot \<Rightarrow> relationship_snapshot" where
  "updated_snapshot env semantic current name affect =
     (let snapshot = (case current of
                        None \<Rightarrow> default_relationship_snapshot env (Some name)
                      | Some r \<Rightarrow> relationship_to_snapshot r)
      in if semantic then update_relationship_semantic_boundary env snapshot
         else update_relationship env snapshot affect)"

definition relationship_step ::
  "affect_env \<Rightarrow> bool \<Rightarrow> 's relationship_port \<Rightarrow> datetime \<Rightarrow> affect_frame \<Rightarrow> 's
     \<Rightarrow> (contract_error + relationship_result) \<times> 's" where
  "relationship_step env semantic port now f s =
     (if \<not> fr_is_actor_message f then (Inr (Relationship_Skipped ''non_actor_message_observation''), s)
      else case fr_actor f of
        None \<Rightarrow> (Inr (Relationship_Skipped ''missing_actor''), s)
      | Some (actor, name) \<Rightarrow>
          (case fr_text f of
             None \<Rightarrow> (Inr (Relationship_Skipped ''missing_interpreted_input''), s)
           | Some t \<Rightarrow>
               if blank t then (Inr (Relationship_Skipped ''missing_interpreted_input''), s)
               else (case rp_get port s actor of
                  Inl e \<Rightarrow> (Inl e, s)
                | Inr current \<Rightarrow>
                    (case relationship_from_snapshot actor
                            (updated_snapshot env semantic current name (fr_affect f)) (fr_observation_id f) of
                       Inl e \<Rightarrow> (Inl e, s)
                     | Inr r \<Rightarrow>
                         apfst (map_sum id (\<lambda>stored. Relationship_Ok (relationship_to_snapshot stored)))
                           (rp_upsert port now s r)))))"

section \<open>Affect baselines\<close>

datatype affect_scope = GLOBAL_SCOPE | ACTOR_SCOPE

record baseline_record =
  ab_scope :: affect_scope
  ab_actor_id :: "string option"
  ab_mood_label :: "string option"
  ab_valence :: rat
  ab_arousal :: rat
  ab_dominance :: rat
  ab_affect_summary :: "string option"
  ab_source_observation_id :: "string option"
  ab_created_at :: "datetime option"
  ab_updated_at :: "datetime option"
  ab_version :: int

definition validate_baseline :: "baseline_record \<Rightarrow> contract_error + baseline_record" where
  "validate_baseline r =
     (if ab_scope r = GLOBAL_SCOPE \<and> ab_actor_id r \<noteq> None
      then Inl (ContractValidationError ''global affect baseline must not have actor_id'')
      else if ab_scope r = ACTOR_SCOPE \<and> ab_actor_id r = None
      then Inl (ContractValidationError ''actor-scoped affect baseline requires actor_id'')
      else result_bind (validate_range (ab_valence r) (- 1) 1 ''valence'') (\<lambda>_.
           result_bind (validate_range (ab_arousal r) (- 1) 1 ''arousal'') (\<lambda>_.
           result_bind (validate_range (ab_dominance r) (- 1) 1 ''dominance'') (\<lambda>_.
             if ab_version r < 1
             then Inl (ContractValidationError ''version must be greater than or equal to 1'')
             else Inr r))))"

text \<open>The in-memory store of baselines.\<close>

record affect_memory =
  am_global :: "baseline_record option"
  am_actor_records :: "(string, baseline_record) dict"

definition with_baseline_timestamps ::
  "baseline_record \<Rightarrow> datetime option \<Rightarrow> datetime \<Rightarrow> contract_error + baseline_record" where
  "with_baseline_timestamps r created updated =
     validate_baseline (r\<lparr>ab_created_at := created, ab_updated_at := Some updated\<rparr>)"

definition created_for :: "baseline_record option \<Rightarrow> baseline_record \<Rightarrow> datetime \<Rightarrow> datetime option" where
  "created_for current r now =
     (case current of None \<Rightarrow> or_now (ab_created_at r) now | Some c \<Rightarrow> ab_created_at c)"

definition UPSERT_GLOBAL_MESSAGE :: string where
  "UPSERT_GLOBAL_MESSAGE = ''upsert_global requires scope='' @ [CHR 0x27] @ ''global'' @ [CHR 0x27]"

definition affect_get_global :: "affect_memory \<Rightarrow> baseline_record option" where
  "affect_get_global s = am_global s"

definition affect_upsert_global ::
  "datetime \<Rightarrow> affect_memory \<Rightarrow> baseline_record \<Rightarrow> (contract_error + baseline_record) \<times> affect_memory" where
  "affect_upsert_global now s r =
     (if ab_scope r \<noteq> GLOBAL_SCOPE
      then (Inl (ContractValidationError UPSERT_GLOBAL_MESSAGE), s)
      else case with_baseline_timestamps r (created_for (am_global s) r now) now of
             Inl e \<Rightarrow> (Inl e, s)
           | Inr stored \<Rightarrow> (Inr stored, s\<lparr>am_global := Some stored\<rparr>))"

definition affect_get_for_actor :: "affect_memory \<Rightarrow> string \<Rightarrow> baseline_record option" where
  "affect_get_for_actor s actor = dict_get (am_actor_records s) actor"

definition affect_upsert_for_actor ::
  "datetime \<Rightarrow> affect_memory \<Rightarrow> baseline_record \<Rightarrow> (contract_error + baseline_record) \<times> affect_memory" where
  "affect_upsert_for_actor now s r =
     (case ab_actor_id r of
        None \<Rightarrow> (Inl (ContractValidationError ''upsert_for_actor requires scope='actor' and actor_id''), s)
      | Some actor \<Rightarrow>
          if ab_scope r \<noteq> ACTOR_SCOPE
          then (Inl (ContractValidationError ''upsert_for_actor requires scope='actor' and actor_id''), s)
          else case with_baseline_timestamps r (created_for (dict_get (am_actor_records s) actor) r now) now of
                 Inl e \<Rightarrow> (Inl e, s)
               | Inr stored \<Rightarrow> (Inr stored, s\<lparr>am_actor_records := dict_set actor stored (am_actor_records s)\<rparr>))"

text \<open>The SQLite store keeps both kinds of baseline in one table, keyed by the owner.\<close>

record affect_row =
  aw_scope :: affect_scope
  aw_actor_id :: "string option"
  aw_mood_label :: "string option"
  aw_valence :: rat
  aw_arousal :: rat
  aw_dominance :: rat
  aw_affect_summary :: "string option"
  aw_source_observation_id :: "string option"
  aw_created_at :: datetime
  aw_updated_at :: datetime
  aw_version :: int

type_synonym affect_table = "(string, affect_row) dict"

definition GLOBAL_KEY :: string where
  "GLOBAL_KEY = ''__global__''"

definition model_to_baseline :: "affect_row \<Rightarrow> contract_error + baseline_record" where
  "model_to_baseline w = validate_baseline
     \<lparr>ab_scope = aw_scope w, ab_actor_id = aw_actor_id w, ab_mood_label = aw_mood_label w, ab_valence = aw_valence w,
      ab_arousal = aw_arousal w, ab_dominance = aw_dominance w, ab_affect_summary = aw_affect_summary w,
      ab_source_observation_id = aw_source_observation_id w, ab_created_at = Some (aw_created_at w),
      ab_updated_at = Some (aw_updated_at w), ab_version = aw_version w\<rparr>"

definition sqlite_affect_get :: "affect_table \<Rightarrow> string \<Rightarrow> contract_error + baseline_record option" where
  "sqlite_affect_get t owner =
     (case dict_get t owner of
        None \<Rightarrow> Inr None
      | Some w \<Rightarrow> result_bind (model_to_baseline w) (\<lambda>r. Inr (Some r)))"

definition sqlite_affect_upsert ::
  "datetime \<Rightarrow> affect_table \<Rightarrow> baseline_record \<Rightarrow> string \<Rightarrow> (contract_error + baseline_record) \<times> affect_table" where
  "sqlite_affect_upsert now t r owner =
     (case sqlite_affect_get t owner of
        Inl e \<Rightarrow> (Inl e, t)
      | Inr current \<Rightarrow>
          let created = created_for current r now;
              stored = r\<lparr>ab_created_at := created, ab_updated_at := Some now\<rparr>;
              created_text = (case created of None \<Rightarrow> now | Some x \<Rightarrow> x);
              row_created = (case dict_get t owner of None \<Rightarrow> created_text | Some w \<Rightarrow> aw_created_at w)
          in (Inr stored,
              dict_set owner
                \<lparr>aw_scope = ab_scope stored, aw_actor_id = ab_actor_id stored, aw_mood_label = ab_mood_label stored,
                 aw_valence = ab_valence stored, aw_arousal = ab_arousal stored, aw_dominance = ab_dominance stored,
                 aw_affect_summary = ab_affect_summary stored,
                 aw_source_observation_id = ab_source_observation_id stored, aw_created_at = row_created,
                 aw_updated_at = now, aw_version = ab_version stored\<rparr> t))"

definition sqlite_affect_get_global :: "affect_table \<Rightarrow> contract_error + baseline_record option" where
  "sqlite_affect_get_global t = sqlite_affect_get t GLOBAL_KEY"

definition sqlite_affect_upsert_global ::
  "datetime \<Rightarrow> affect_table \<Rightarrow> baseline_record \<Rightarrow> (contract_error + baseline_record) \<times> affect_table" where
  "sqlite_affect_upsert_global now t r =
     (if ab_scope r \<noteq> GLOBAL_SCOPE
      then (Inl (ContractValidationError UPSERT_GLOBAL_MESSAGE), t)
      else sqlite_affect_upsert now t r GLOBAL_KEY)"

definition sqlite_affect_get_for_actor :: "affect_table \<Rightarrow> string \<Rightarrow> contract_error + baseline_record option" where
  "sqlite_affect_get_for_actor t actor = sqlite_affect_get t actor"

definition sqlite_affect_upsert_for_actor ::
  "datetime \<Rightarrow> affect_table \<Rightarrow> baseline_record \<Rightarrow> (contract_error + baseline_record) \<times> affect_table" where
  "sqlite_affect_upsert_for_actor now t r =
     (case ab_actor_id r of
        None \<Rightarrow> (Inl (ContractValidationError ''upsert_for_actor requires scope='actor' and actor_id''), t)
      | Some actor \<Rightarrow>
          if ab_scope r \<noteq> ACTOR_SCOPE
          then (Inl (ContractValidationError ''upsert_for_actor requires scope='actor' and actor_id''), t)
          else sqlite_affect_upsert now t r actor)"

section \<open>The baseline steps\<close>

definition smooth :: "rat \<Rightarrow> rat \<Rightarrow> rat" where
  "smooth old_value current_value = clamp_value (- 1) 1 (old_value * (9 / 10) + current_value * (1 / 10))"

definition has_meaningful_affect :: "affect_snapshot \<Rightarrow> bool" where
  "has_meaningful_affect a \<longleftrightarrow>
     af_mood_label a \<noteq> None \<or> 1 / 1000000 < \<bar>af_valence a\<bar> \<or> 1 / 1000000 < \<bar>af_arousal a\<bar> \<or>
     1 / 1000000 < \<bar>af_dominance a\<bar>"

definition update_baseline :: "baseline_record option \<Rightarrow> affect_snapshot \<Rightarrow> string \<Rightarrow> contract_error + baseline_record" where
  "update_baseline current a source = validate_baseline
     (case current of
        None \<Rightarrow>
          \<lparr>ab_scope = GLOBAL_SCOPE, ab_actor_id = None, ab_mood_label = af_mood_label a, ab_valence = af_valence a,
           ab_arousal = af_arousal a, ab_dominance = af_dominance a, ab_affect_summary = af_affect_summary a,
           ab_source_observation_id = Some source, ab_created_at = None, ab_updated_at = None, ab_version = 1\<rparr>
      | Some c \<Rightarrow>
          \<lparr>ab_scope = GLOBAL_SCOPE, ab_actor_id = None, ab_mood_label = or_text (af_mood_label a) (ab_mood_label c),
           ab_valence = smooth (ab_valence c) (af_valence a), ab_arousal = smooth (ab_arousal c) (af_arousal a),
           ab_dominance = smooth (ab_dominance c) (af_dominance a),
           ab_affect_summary = or_text (af_affect_summary a) (ab_affect_summary c),
           ab_source_observation_id = Some source, ab_created_at = ab_created_at c, ab_updated_at = None,
           ab_version = 1\<rparr>)"

datatype baseline_result = Baseline_Skipped string | Baseline_Ok baseline_record

record 's baseline_port =
  bp_get_global :: "'s \<Rightarrow> contract_error + baseline_record option"
  bp_upsert_global :: "datetime \<Rightarrow> 's \<Rightarrow> baseline_record \<Rightarrow> (contract_error + baseline_record) \<times> 's"

definition memory_baseline_port :: "affect_memory baseline_port" where
  "memory_baseline_port =
     \<lparr>bp_get_global = (\<lambda>s. Inr (affect_get_global s)), bp_upsert_global = affect_upsert_global\<rparr>"

definition sqlite_baseline_port :: "affect_table baseline_port" where
  "sqlite_baseline_port =
     \<lparr>bp_get_global = sqlite_affect_get_global, bp_upsert_global = sqlite_affect_upsert_global\<rparr>"

definition affect_baseline_load :: "'s baseline_port \<Rightarrow> 's \<Rightarrow> contract_error + baseline_result" where
  "affect_baseline_load port s =
     result_bind (bp_get_global port s) (\<lambda>current.
       case current of
         None \<Rightarrow> Inr (Baseline_Skipped ''missing_affect_baseline'')
       | Some r \<Rightarrow> Inr (Baseline_Ok r))"

definition affect_persistence_step ::
  "'s baseline_port \<Rightarrow> datetime \<Rightarrow> affect_frame \<Rightarrow> 's \<Rightarrow> (contract_error + baseline_result) \<times> 's" where
  "affect_persistence_step port now f s =
     (if fr_text f = None then (Inr (Baseline_Skipped ''missing_interpreted_input''), s)
      else if \<not> has_meaningful_affect (fr_affect f) then (Inr (Baseline_Skipped ''no_meaningful_affect''), s)
      else case bp_get_global port s of
             Inl e \<Rightarrow> (Inl e, s)
           | Inr current \<Rightarrow>
               (case update_baseline current (fr_affect f) (fr_observation_id f) of
                  Inl e \<Rightarrow> (Inl e, s)
                | Inr r \<Rightarrow> apfst (map_sum id Baseline_Ok) (bp_upsert_global port now s r)))"

end
