(* ===== verification/Affect_Props.thy ===== *)
theory Affect_Props
  imports Affect_State
begin

text \<open>
  What the relationship step guarantees. The locale states the contract of a relationship store:
  its operations act on a view, the map from actors to records. The step refines an abstract step
  on that view, so the in-memory and the SQLite store give the same results; the stored values
  stay in their ranges and move by bounded amounts.
\<close>

section \<open>The abstract step\<close>

definition stamped :: "relationship_record option \<Rightarrow> relationship_record \<Rightarrow> datetime \<Rightarrow> relationship_record" where
  "stamped current r now =
     r\<lparr>rl_created_at := (case current of None \<Rightarrow> or_now (rl_created_at r) now | Some c \<Rightarrow> rl_created_at c),
       rl_updated_at := Some now\<rparr>"

lemma stamped_simps [simp]:
  "rl_actor_id (stamped c r now) = rl_actor_id r" "rl_affinity (stamped c r now) = rl_affinity r"
  "rl_trust (stamped c r now) = rl_trust r" "rl_familiarity (stamped c r now) = rl_familiarity r"
  "relationship_ok (stamped c r now) = relationship_ok r"
  "relationship_to_snapshot (stamped c r now) = relationship_to_snapshot r"
  by (simp_all add: stamped_def relationship_ok_def relationship_to_snapshot_def)

definition snapshot_record :: "string \<Rightarrow> relationship_snapshot \<Rightarrow> string \<Rightarrow> relationship_record" where
  "snapshot_record actor s source =
     \<lparr>rl_actor_id = actor, rl_actor_label = rsn_actor_label s, rl_affinity = rsn_affinity s, rl_trust = rsn_trust s,
      rl_familiarity = rsn_familiarity s, rl_summary = rsn_summary s, rl_source_observation_id = Some source,
      rl_created_at = None, rl_updated_at = None, rl_version = 1\<rparr>"

definition relationship_spec ::
  "affect_env \<Rightarrow> bool \<Rightarrow> datetime \<Rightarrow> affect_frame \<Rightarrow> (string \<rightharpoonup> relationship_record)
     \<Rightarrow> (contract_error + relationship_result) \<times> (string \<rightharpoonup> relationship_record)" where
  "relationship_spec env semantic now f m =
     (if \<not> fr_is_actor_message f then (Inr (Relationship_Skipped ''non_actor_message_observation''), m)
      else case fr_actor f of
        None \<Rightarrow> (Inr (Relationship_Skipped ''missing_actor''), m)
      | Some (actor, name) \<Rightarrow>
          if fr_text f = None \<or> blank (the (fr_text f))
          then (Inr (Relationship_Skipped ''missing_interpreted_input''), m)
          else if actor = []
          then (Inl (ContractValidationError ''actor_id is required for durable relationship records''), m)
          else let s = updated_snapshot env semantic (m actor) name (fr_affect f)
               in (Inr (Relationship_Ok s), m(actor \<mapsto> stamped (m actor) (snapshot_record actor s (fr_observation_id f)) now)))"

lemma updated_snapshot_range:
  fixes env semantic current name affect
  defines "s \<equiv> updated_snapshot env semantic current name affect"
  shows "- 1 \<le> rsn_affinity s" "rsn_affinity s \<le> 1" "0 \<le> rsn_trust s" "rsn_trust s \<le> 1"
    "0 \<le> rsn_familiarity s" "rsn_familiarity s \<le> 1"
proof -
  have "- 1 \<le> clamp_value (- 1) 1 x \<and> clamp_value (- 1) 1 x \<le> 1" for x by (rule clamp_bounds) simp
  moreover have "0 \<le> clamp_value 0 1 x \<and> clamp_value 0 1 x \<le> 1" for x by (rule clamp_bounds) simp
  ultimately show "- 1 \<le> rsn_affinity s" "rsn_affinity s \<le> 1" "0 \<le> rsn_trust s" "rsn_trust s \<le> 1"
    "0 \<le> rsn_familiarity s" "rsn_familiarity s \<le> 1"
    unfolding s_def updated_snapshot_def update_relationship_def update_relationship_semantic_boundary_def
      apply_relationship_delta_def Let_def by simp_all
qed

lemma snapshot_record_ok:
  "relationship_ok (snapshot_record actor (updated_snapshot env semantic current name affect) source) \<longleftrightarrow> actor \<noteq> []"
  using updated_snapshot_range [of env semantic current name affect]
  by (simp add: relationship_ok_def snapshot_record_def)

lemma relationship_from_snapshot_eq:
  "relationship_from_snapshot actor (updated_snapshot env semantic current name affect) source =
     (if actor = [] then Inl (ContractValidationError ''actor_id is required for durable relationship records'')
      else Inr (snapshot_record actor (updated_snapshot env semantic current name affect) source))"
proof (cases "actor = []")
  case True
  then show ?thesis by (simp add: relationship_from_snapshot_def validate_relationship_record_def)
next
  case False
  then have "validate_relationship_record
      (snapshot_record actor (updated_snapshot env semantic current name affect) source) =
      Inr (snapshot_record actor (updated_snapshot env semantic current name affect) source)"
    by (simp add: validate_relationship_ok snapshot_record_ok)
  with False show ?thesis by (simp add: relationship_from_snapshot_def snapshot_record_def)
qed

section \<open>The contract of a store\<close>

locale relationship_store =
  fixes port :: "'s relationship_port"
    and view :: "'s \<Rightarrow> string \<rightharpoonup> relationship_record"
    and store_ok :: "'s \<Rightarrow> bool"
  assumes get_view: "store_ok s \<Longrightarrow> rp_get port s a = Inr (view s a)"
    and view_ok: "store_ok s \<Longrightarrow> view s a = Some r \<Longrightarrow> relationship_ok r \<and> rl_actor_id r = a"
    and upsert_view:
      "store_ok s \<Longrightarrow> relationship_ok r \<Longrightarrow>
         \<exists>s'. rp_upsert port now s r = (Inr (stamped (view s (rl_actor_id r)) r now), s') \<and> store_ok s' \<and>
              view s' = (view s)(rl_actor_id r \<mapsto> stamped (view s (rl_actor_id r)) r now)"
begin

lemma step_refines:
  assumes ok: "store_ok s"
  shows "\<exists>s'. relationship_step env semantic port now f s = (fst (relationship_spec env semantic now f (view s)), s') \<and>
           store_ok s' \<and> view s' = snd (relationship_spec env semantic now f (view s))"
proof (cases "\<exists>actor name t. fr_is_actor_message f \<and> fr_actor f = Some (actor, name) \<and> fr_text f = Some t \<and>
    \<not> blank t \<and> actor \<noteq> []")
  case False
  with ok show ?thesis
    by (auto simp: relationship_step_def relationship_spec_def get_view relationship_from_snapshot_eq
        split: option.splits)
next
  case True
  then obtain actor name t where f: "fr_is_actor_message f" "fr_actor f = Some (actor, name)" "fr_text f = Some t"
    "\<not> blank t" "actor \<noteq> []" by blast
  let ?s = "updated_snapshot env semantic (view s actor) name (fr_affect f)"
  let ?r = "snapshot_record actor ?s (fr_observation_id f)"
  have "relationship_ok ?r" using f(5) by (simp add: snapshot_record_ok)
  from upsert_view [OF ok this, of now] obtain s' where s':
    "rp_upsert port now s ?r = (Inr (stamped (view s actor) ?r now), s')" "store_ok s'"
    "view s' = (view s)(actor \<mapsto> stamped (view s actor) ?r now)"
    by (auto simp: snapshot_record_def)
  have "relationship_to_snapshot ?r = ?s" by (simp add: relationship_to_snapshot_def snapshot_record_def)
  with f s' ok show ?thesis
    by (simp add: relationship_step_def relationship_spec_def get_view relationship_from_snapshot_eq Let_def)
qed

end

interpretation mem: relationship_store memory_relationship_port relationship_get
  "\<lambda>s. \<forall>a r. relationship_get s a = Some r \<longrightarrow> relationship_ok r \<and> rl_actor_id r = a"
proof unfold_locales
  fix s :: relationship_memory and r now
  assume ok: "\<forall>a r. relationship_get s a = Some r \<longrightarrow> relationship_ok r \<and> rl_actor_id r = a"
    and r: "relationship_ok r"
  let ?x = "stamped (relationship_get s (rl_actor_id r)) r now"
  have "with_relationship_timestamps r (rl_created_at ?x) now = Inr ?x"
    using r by (simp add: with_relationship_timestamps_def stamped_def validate_relationship_ok relationship_ok_def)
  then have "relationship_upsert now s r = (Inr ?x, dict_set (rl_actor_id r) ?x s)"
    by (simp add: relationship_upsert_def stamped_def relationship_get_def)
  moreover have "relationship_get (dict_set (rl_actor_id r) ?x s) = (relationship_get s)(rl_actor_id r \<mapsto> ?x)"
    by (rule ext) (simp add: relationship_get_def dict_get_set)
  ultimately show "\<exists>s'. rp_upsert memory_relationship_port now s r = (Inr ?x, s') \<and>
      (\<forall>a r. relationship_get s' a = Some r \<longrightarrow> relationship_ok r \<and> rl_actor_id r = a) \<and>
      relationship_get s' = (relationship_get s)(rl_actor_id r \<mapsto> ?x)"
    using ok r by (auto simp: memory_relationship_port_def)
qed (auto simp: memory_relationship_port_def)

text \<open>The records that the rows of the SQLite table stand for.\<close>

definition row_record :: "string \<Rightarrow> relationship_row \<Rightarrow> relationship_record" where
  "row_record a w =
     \<lparr>rl_actor_id = a, rl_actor_label = rw_actor_label w, rl_affinity = rw_affinity w, rl_trust = rw_trust w,
      rl_familiarity = rw_familiarity w, rl_summary = rw_relationship_summary w,
      rl_source_observation_id = rw_source_observation_id w, rl_created_at = Some (rw_created_at w),
      rl_updated_at = Some (rw_updated_at w), rl_version = rw_version w\<rparr>"

definition table_view :: "relationship_table \<Rightarrow> string \<rightharpoonup> relationship_record" where
  "table_view t a = map_option (row_record a) (dict_get t a)"

definition table_ok :: "relationship_table \<Rightarrow> bool" where
  "table_ok t \<longleftrightarrow> (\<forall>a r. table_view t a = Some r \<longrightarrow> relationship_ok r)"

lemma sqlite_get_view: "table_ok t \<Longrightarrow> sqlite_relationship_get t a = Inr (table_view t a)"
proof (cases "dict_get t a")
  case (Some w)
  assume "table_ok t"
  moreover have "table_view t a = Some (row_record a w)" using Some by (simp add: table_view_def)
  ultimately have "relationship_ok (row_record a w)" unfolding table_ok_def by blast
  then have "model_to_relationship a w = Inr (row_record a w)"
    unfolding model_to_relationship_def row_record_def [symmetric] by (simp add: validate_relationship_ok)
  with Some show ?thesis by (simp add: sqlite_relationship_get_def table_view_def)
qed (simp add: sqlite_relationship_get_def table_view_def)

interpretation sql: relationship_store sqlite_relationship_port table_view table_ok
proof unfold_locales
  show "table_ok t \<Longrightarrow> rp_get sqlite_relationship_port t a = Inr (table_view t a)" for t a
    by (simp add: sqlite_relationship_port_def sqlite_get_view)
  show "table_ok t \<Longrightarrow> table_view t a = Some r \<Longrightarrow> relationship_ok r \<and> rl_actor_id r = a" for t a r
    by (auto simp: table_ok_def) (auto simp: table_view_def row_record_def)
  fix t :: relationship_table and r now
  assume ok: "table_ok t" and r: "relationship_ok r"
  let ?x = "stamped (table_view t (rl_actor_id r)) r now"
  obtain t' where up: "sqlite_relationship_upsert now t r = (Inr ?x, t')"
    and v: "table_view t' = (table_view t)(rl_actor_id r \<mapsto> ?x)"
  proof
    let ?w = "\<lparr>rw_actor_label = rl_actor_label ?x, rw_affinity = rl_affinity ?x, rw_trust = rl_trust ?x,
      rw_familiarity = rl_familiarity ?x, rw_relationship_summary = rl_summary ?x,
      rw_source_observation_id = rl_source_observation_id ?x, rw_created_at = the (rl_created_at ?x),
      rw_updated_at = now, rw_version = rl_version ?x\<rparr>"
    show "sqlite_relationship_upsert now t r = (Inr ?x, dict_set (rl_actor_id r) ?w t)"
      using sqlite_get_view [OF ok]
      by (cases "dict_get t (rl_actor_id r)")
        (simp_all add: sqlite_relationship_upsert_def stamped_def table_view_def row_record_def or_now_def Let_def
          split: option.split)
    have "row_record (rl_actor_id r) ?w = ?x"
      by (cases "dict_get t (rl_actor_id r)"; cases r)
        (simp_all add: row_record_def stamped_def table_view_def or_now_def split: option.split)
    then show "table_view (dict_set (rl_actor_id r) ?w t) = (table_view t)(rl_actor_id r \<mapsto> ?x)"
      by (intro ext) (simp add: table_view_def dict_get_set)
  qed
  have "table_ok t'" using ok r by (auto simp: table_ok_def v)
  with up v show "\<exists>s'. rp_upsert sqlite_relationship_port now t r = (Inr ?x, s') \<and> table_ok s' \<and>
      table_view s' = (table_view t)(rl_actor_id r \<mapsto> ?x)"
    by (simp add: sqlite_relationship_port_def)
qed

section \<open>Sequences of turns\<close>

fun run_turns ::
  "affect_env \<Rightarrow> bool \<Rightarrow> 's relationship_port \<Rightarrow> (datetime \<times> affect_frame) list \<Rightarrow> 's
     \<Rightarrow> (contract_error + relationship_result) list \<times> 's" where
  "run_turns env semantic port [] s = ([], s)"
| "run_turns env semantic port ((now, f) # turns) s =
     (case relationship_step env semantic port now f s of
        (r, s') \<Rightarrow> apfst (Cons r) (run_turns env semantic port turns s'))"

fun run_spec ::
  "affect_env \<Rightarrow> bool \<Rightarrow> (datetime \<times> affect_frame) list \<Rightarrow> (string \<rightharpoonup> relationship_record)
     \<Rightarrow> (contract_error + relationship_result) list \<times> (string \<rightharpoonup> relationship_record)" where
  "run_spec env semantic [] m = ([], m)"
| "run_spec env semantic ((now, f) # turns) m =
     (case relationship_spec env semantic now f m of
        (r, m') \<Rightarrow> apfst (Cons r) (run_spec env semantic turns m'))"

context relationship_store
begin

lemma turns_refine:
  assumes "store_ok s"
  shows "\<exists>s'. run_turns env semantic port turns s = (fst (run_spec env semantic turns (view s)), s') \<and>
           store_ok s' \<and> view s' = snd (run_spec env semantic turns (view s))"
  using assms
proof (induction turns arbitrary: s)
  case (Cons turn turns)
  obtain now f where turn: "turn = (now, f)" by (cases turn)
  obtain s1 where s1: "relationship_step env semantic port now f s =
      (fst (relationship_spec env semantic now f (view s)), s1)"
    "store_ok s1" "view s1 = snd (relationship_spec env semantic now f (view s))"
    using step_refines [OF Cons.prems] by blast
  with Cons.IH [OF s1(2)] show ?case by (auto simp: turn split: prod.split)
qed simp

end

lemma change_bound:
  fixes env semantic name
  assumes ok: "\<And>r. current = Some r \<Longrightarrow> relationship_ok r" and c: "current = Some r"
    and v: "\<bar>af_valence affect\<bar> \<le> 1"
  defines "s \<equiv> updated_snapshot env semantic current name affect"
  shows "\<bar>rsn_affinity s - rl_affinity r\<bar> \<le> 1 / 20" "\<bar>rsn_trust s - rl_trust r\<bar> \<le> 1 / 50"
    "rl_familiarity r \<le> rsn_familiarity s" "rsn_familiarity s \<le> rl_familiarity r + 1 / 20"
    "semantic \<Longrightarrow> rsn_affinity s = rl_affinity r \<and> rsn_trust s = rl_trust r"
proof -
  have r: "relationship_ok r" using ok c by blast
  then have range: "- 1 \<le> rl_affinity r" "rl_affinity r \<le> 1" "0 \<le> rl_trust r" "rl_trust r \<le> 1"
    "0 \<le> rl_familiarity r" "rl_familiarity r \<le> 1" by (simp_all add: relationship_ok_def)
  define da where "da = (if semantic then 0 else af_valence affect * (5 / 100))"
  define dt where "dt = (if semantic then 0 else trust_delta_for (af_valence affect))"
  have s: "rsn_affinity s = clamp_value (- 1) 1 (rl_affinity r + da)"
    "rsn_trust s = clamp_value 0 1 (rl_trust r + dt)"
    "rsn_familiarity s = clamp_value 0 1 (rl_familiarity r + 5 / 100)"
    by (simp_all add: s_def c updated_snapshot_def update_relationship_def da_def dt_def
        update_relationship_semantic_boundary_def apply_relationship_delta_def relationship_to_snapshot_def Let_def)
  have "\<bar>da\<bar> \<le> 1 / 20" using v by (simp add: da_def abs_mult)
  with clamp_near [OF range(1,2), of da] show "\<bar>rsn_affinity s - rl_affinity r\<bar> \<le> 1 / 20" unfolding s by linarith
  have "\<bar>dt\<bar> \<le> 1 / 50" by (simp add: dt_def trust_delta_for_def)
  with clamp_near [OF range(3,4), of dt] show "\<bar>rsn_trust s - rl_trust r\<bar> \<le> 1 / 50" unfolding s by linarith
  show "rl_familiarity r \<le> rsn_familiarity s" "rsn_familiarity s \<le> rl_familiarity r + 1 / 20"
    using range(5,6) unfolding s by (simp_all add: clamp_value_def)
  show "semantic \<Longrightarrow> rsn_affinity s = rl_affinity r \<and> rsn_trust s = rl_trust r"
    unfolding s da_def dt_def using range by (simp add: clamp_id)
qed

text \<open>How one more turn may change the record of an actor.\<close>

definition small_change :: "bool \<Rightarrow> relationship_record \<Rightarrow> relationship_record \<Rightarrow> bool" where
  "small_change semantic r r' \<longleftrightarrow>
     \<bar>rl_affinity r' - rl_affinity r\<bar> \<le> 1 / 20 \<and> \<bar>rl_trust r' - rl_trust r\<bar> \<le> 1 / 50 \<and>
     rl_familiarity r \<le> rl_familiarity r' \<and> rl_familiarity r' \<le> rl_familiarity r + 1 / 20 \<and>
     (semantic \<longrightarrow> rl_affinity r' = rl_affinity r \<and> rl_trust r' = rl_trust r)"

lemma small_change_refl [simp]: "small_change semantic r r"
  by (simp add: small_change_def)

lemma spec_small_change:
  assumes ok: "\<And>a r. m a = Some r \<Longrightarrow> relationship_ok r" and r: "m a = Some r"
    and v: "\<bar>af_valence (fr_affect f)\<bar> \<le> 1"
  shows "\<exists>r'. snd (relationship_spec env semantic now f m) a = Some r' \<and> small_change semantic r r'"
proof (cases "snd (relationship_spec env semantic now f m) a = m a")
  case True
  with r show ?thesis by simp
next
  case False
  then obtain name where
    m': "snd (relationship_spec env semantic now f m) a = Some (stamped (m a)
      (snapshot_record a (updated_snapshot env semantic (m a) name (fr_affect f)) (fr_observation_id f)) now)"
    by (auto simp: relationship_spec_def Let_def split: option.splits if_splits)
  have "small_change semantic r (stamped (m a)
      (snapshot_record a (updated_snapshot env semantic (m a) name (fr_affect f)) (fr_observation_id f)) now)"
    using change_bound [where env = env and semantic = semantic and name = name, OF ok r v] by (simp add: small_change_def snapshot_record_def)
  with m' show ?thesis by blast
qed

text \<open>
  C12. Whatever turns follow one another, the relationship step over the in-memory store and over
  the SQLite store gives the same results and leaves the same records. In every record the affinity
  is within -1 and 1 and trust and familiarity within 0 and 1. A further turn with a valence in its
  range keeps the record and moves the affinity by at most 0.05 and trust by at most 0.02;
  familiarity never falls and rises by at most 0.05; with semantic appraisal affinity and trust do
  not move at all.
\<close>

theorem relationship_state_bounded:
  "\<exists>results s t.
     run_turns env semantic memory_relationship_port turns [] = (results, s) \<and>
     run_turns env semantic sqlite_relationship_port turns [] = (results, t) \<and>
     (\<forall>a. sqlite_relationship_get t a = Inr (relationship_get s a)) \<and>
     (\<forall>a r. relationship_get s a = Some r \<longrightarrow> relationship_ok r \<and> rl_actor_id r = a \<and>
        (\<forall>now f. \<bar>af_valence (fr_affect f)\<bar> \<le> 1 \<longrightarrow>
           (\<exists>r'. relationship_get (snd (relationship_step env semantic memory_relationship_port now f s)) a = Some r' \<and>
                 small_change semantic r r')))"
proof -
  let ?m = "\<lambda>a::string. None :: relationship_record option"
  have e: "relationship_get [] = ?m" "table_view [] = ?m"
    by (simp_all add: relationship_get_def table_view_def fun_eq_iff)
  obtain s where s: "run_turns env semantic memory_relationship_port turns [] =
      (fst (run_spec env semantic turns ?m), s)"
    and s_ok: "\<forall>a r. relationship_get s a = Some r \<longrightarrow> relationship_ok r \<and> rl_actor_id r = a"
    and sv: "relationship_get s = snd (run_spec env semantic turns ?m)"
    using mem.turns_refine [of "[]" env semantic turns] by (auto simp: e)
  obtain t where t: "run_turns env semantic sqlite_relationship_port turns [] =
      (fst (run_spec env semantic turns ?m), t)"
    and t_ok: "table_ok t" and tv: "table_view t = snd (run_spec env semantic turns ?m)"
    using sql.turns_refine [of "[]" env semantic turns] by (auto simp: e table_ok_def)
  have next_ok: "\<exists>r'. relationship_get (snd (relationship_step env semantic memory_relationship_port now f s)) a = Some r' \<and>
      small_change semantic r r'"
    if r: "relationship_get s a = Some r" and v: "\<bar>af_valence (fr_affect f)\<bar> \<le> 1" for a r now f
  proof -
    from mem.step_refines [OF s_ok, of env semantic now f] obtain s' where
      "snd (relationship_step env semantic memory_relationship_port now f s) = s'"
      "relationship_get s' = snd (relationship_spec env semantic now f (relationship_get s))" by auto
    with spec_small_change [of "relationship_get s", OF _ r v] s_ok show ?thesis by simp
  qed
  have same: "sqlite_relationship_get t a = Inr (relationship_get s a)" for a
    using sqlite_get_view [OF t_ok] by (simp add: sv tv)
  show ?thesis using s t same s_ok next_ok by blast
qed

definition example_affect_env :: affect_env where
  "example_affect_env = \<lparr>ae_format2 = (\<lambda>x. ''0.00''), ae_half_power = (\<lambda>x. 1 / 2)\<rparr>"

definition example_frame :: affect_frame where
  "example_frame = \<lparr>fr_is_actor_message = True, fr_observation_id = ''o1'', fr_actor = Some (''u1'', ''Ann''),
     fr_text = Some [104, 105],
     fr_affect = \<lparr>af_mood_label = None, af_arousal = 0, af_valence = 1, af_dominance = 0, af_affect_summary = None\<rparr>\<rparr>"

lemma example_turn:
  assumes "m = snd (run_spec example_affect_env False [(5, example_frame)] (relationship_get []))"
  shows "\<exists>r. m ''u1'' = Some r \<and> rl_affinity r = 1 / 20"
proof -
  have "rsn_affinity (updated_snapshot example_affect_env False None ''Ann'' (fr_affect example_frame)) = 1 / 20"
    by (simp add: updated_snapshot_def default_relationship_snapshot_def update_relationship_def
        apply_relationship_delta_def clamp_value_def example_frame_def Let_def)
  moreover have "\<not> blank [104, 105]" by (simp add: blank_def py_whitespace_def)
  ultimately show ?thesis
    by (simp add: assms relationship_spec_def relationship_get_def snapshot_record_def example_frame_def Let_def)
qed

theorem relationship_state_bounded_witness:
  "\<exists>s r r'.
     snd (run_turns example_affect_env False memory_relationship_port [(5, example_frame)] []) = s \<and>
     relationship_get s ''u1'' = Some r \<and> rl_affinity r = 1 / 20 \<and> relationship_ok r \<and>
     relationship_get (snd (relationship_step example_affect_env False memory_relationship_port 6 example_frame s)) ''u1''
       = Some r' \<and> small_change False r r'"
proof -
  have v: "\<bar>af_valence (fr_affect example_frame)\<bar> \<le> 1" by (simp add: example_frame_def)
  obtain results s where s: "run_turns example_affect_env False memory_relationship_port [(5, example_frame)] [] = (results, s)"
    by (cases "run_turns example_affect_env False memory_relationship_port [(5, example_frame)] []")
  have "relationship_get s = snd (run_spec example_affect_env False [(5, example_frame)] (relationship_get []))"
    using mem.turns_refine [of "[]" example_affect_env False "[(5, example_frame)]"] s
    by (auto simp: relationship_get_def)
  then obtain r where r: "relationship_get s ''u1'' = Some r" "rl_affinity r = 1 / 20"
    using example_turn by blast
  from relationship_state_bounded [of example_affect_env False "[(5, example_frame)]"] s r(1) v
  have "relationship_ok r \<and> (\<exists>r'. relationship_get (snd (relationship_step example_affect_env False
      memory_relationship_port 6 example_frame s)) ''u1'' = Some r' \<and> small_change False r r')" by auto
  with s r show ?thesis by auto
qed

end
