(* ===== verification/Relationship_Update.thy ===== *)
theory Relationship_Update
  imports Affect_State Policy_Candidates
begin

text \<open>
  Bounded relationship updates from appraisal signals: the contracts
  (\<^verbatim>\<open>iris/contracts/relationship_update.py\<close>), the policy
  (\<^verbatim>\<open>iris/cognitive/affect/relationship_update_policy.py\<close>), the store of candidates
  (\<^verbatim>\<open>iris/runtime/state/relationship_updates.py\<close>), and the worker and the hook
  (\<^verbatim>\<open>iris/runtime/learning/relationship_worker.py\<close>). SHA-256 and the JSON of a payload are
  arguments.
\<close>

section \<open>Contracts\<close>

definition ZERO_DELTA_EPSILON :: rat where
  "ZERO_DELTA_EPSILON = 1 / 10 ^ 12"

datatype update_decision = UD_AUTOMATIC_BOUNDED | UD_REVIEW_REQUIRED | UD_SUPPRESSED

fun update_decision_value :: "update_decision \<Rightarrow> string" where
  "update_decision_value UD_AUTOMATIC_BOUNDED = ''automatic_bounded''"
| "update_decision_value UD_REVIEW_REQUIRED = ''review_required''"
| "update_decision_value UD_SUPPRESSED = ''suppressed''"

datatype update_reason =
  UR_POSITIVE_ATTITUDE | UR_NEGATIVE_ATTITUDE | UR_LOW_CONFIDENCE_ATTITUDE | UR_HIGH_MAGNITUDE_ATTITUDE
| UR_ZERO_DELTA_ATTITUDE | UR_NON_RELATIONSHIP_SIGNAL | UR_DEPENDENCY_RISK_BOUNDARY

fun update_reason_value :: "update_reason \<Rightarrow> string" where
  "update_reason_value UR_POSITIVE_ATTITUDE = ''positive_attitude_toward_iris''"
| "update_reason_value UR_NEGATIVE_ATTITUDE = ''negative_attitude_toward_iris''"
| "update_reason_value UR_LOW_CONFIDENCE_ATTITUDE = ''low_confidence_attitude''"
| "update_reason_value UR_HIGH_MAGNITUDE_ATTITUDE = ''high_magnitude_attitude''"
| "update_reason_value UR_ZERO_DELTA_ATTITUDE = ''zero_delta_attitude''"
| "update_reason_value UR_NON_RELATIONSHIP_SIGNAL = ''non_relationship_signal''"
| "update_reason_value UR_DEPENDENCY_RISK_BOUNDARY = ''dependency_risk_boundary''"

record state_delta =
  sd_affinity :: rat
  sd_trust :: rat
  sd_familiarity :: rat

definition zero_delta :: state_delta where
  "zero_delta = \<lparr>sd_affinity = 0, sd_trust = 0, sd_familiarity = 0\<rparr>"

definition validate_state_delta :: "state_delta \<Rightarrow> contract_error + state_delta" where
  "validate_state_delta d =
     (if \<bar>sd_affinity d\<bar> \<le> 1 \<and> \<bar>sd_trust d\<bar> \<le> 1 \<and> \<bar>sd_familiarity d\<bar> \<le> 1 then Inr d
      else Inl (ContractValidationError ''field constraint''))"

definition max_abs_component :: "state_delta \<Rightarrow> rat" where
  "max_abs_component d = max \<bar>sd_affinity d\<bar> (max \<bar>sd_trust d\<bar> \<bar>sd_familiarity d\<bar>)"

definition delta_is_zero :: "state_delta \<Rightarrow> bool" where
  "delta_is_zero d \<longleftrightarrow> max_abs_component d \<le> ZERO_DELTA_EPSILON"

record delta_bounds =
  db_affinity :: rat
  db_trust :: rat
  db_familiarity :: rat

definition validate_delta_bounds :: "delta_bounds \<Rightarrow> contract_error + delta_bounds" where
  "validate_delta_bounds b =
     (if \<not> unit_interval (db_affinity b) \<or> \<not> unit_interval (db_trust b) \<or> \<not> unit_interval (db_familiarity b)
      then Inl (ContractValidationError ''field constraint'')
      else if db_affinity b \<le> 0 \<and> db_trust b \<le> 0 \<and> db_familiarity b \<le> 0
      then Inl (ContractValidationError ''at least one relationship delta bound must be positive'')
      else Inr b)"

definition bounds_exceed :: "delta_bounds \<Rightarrow> delta_bounds \<Rightarrow> bool" where
  "bounds_exceed b ref \<longleftrightarrow>
     db_affinity ref < db_affinity b \<or> db_trust ref < db_trust b \<or> db_familiarity ref < db_familiarity b"

record update_config =
  uc_min_automatic_confidence :: rat
  uc_high_magnitude_review_threshold :: rat
  uc_direct_message_bounds :: delta_bounds
  uc_group_space_bounds :: delta_bounds

definition bounds_max :: "delta_bounds \<Rightarrow> rat" where
  "bounds_max b = max (db_affinity b) (max (db_trust b) (db_familiarity b))"

definition validate_update_config :: "update_config \<Rightarrow> contract_error + update_config" where
  "validate_update_config c =
     (if \<not> unit_interval (uc_min_automatic_confidence c) \<or> \<not> unit_interval (uc_high_magnitude_review_threshold c)
      then Inl (ContractValidationError ''field constraint'')
      else if bounds_exceed (uc_group_space_bounds c) (uc_direct_message_bounds c)
      then Inl (ContractValidationError ''group_space_bounds must not exceed direct_message_bounds'')
      else if max (bounds_max (uc_direct_message_bounds c)) (bounds_max (uc_group_space_bounds c))
                < uc_high_magnitude_review_threshold c
      then Inl (ContractValidationError ''high_magnitude_review_threshold must not exceed configured bounds'')
      else Inr c)"

definition RELATIONSHIP_UPDATE_POLICY_DEFAULTS :: update_config where
  "RELATIONSHIP_UPDATE_POLICY_DEFAULTS =
     \<lparr>uc_min_automatic_confidence = 75 / 100, uc_high_magnitude_review_threshold = 25 / 1000,
      uc_direct_message_bounds = \<lparr>db_affinity = 3 / 100, db_trust = 1 / 100, db_familiarity = 0\<rparr>,
      uc_group_space_bounds = \<lparr>db_affinity = 15 / 1000, db_trust = 5 / 1000, db_familiarity = 0\<rparr>\<rparr>"

definition bounds_for_scope :: "update_config \<Rightarrow> interaction_scope \<Rightarrow> delta_bounds" where
  "bounds_for_scope c scope =
     (if scope = DIRECT_MESSAGE then uc_direct_message_bounds c else uc_group_space_bounds c)"

record update_source_ref =
  us_signal_kind :: signal_kind
  us_source_observation_id :: "string option"
  us_source_event_ids :: "string list"
  us_source_reason :: string
  us_source_confidence :: rat

definition blank_event_id :: "string list \<Rightarrow> bool" where
  "blank_event_id ids = list_ex (\<lambda>i. blank (codes i)) ids"

definition validate_update_source_ref :: "update_source_ref \<Rightarrow> contract_error + update_source_ref" where
  "validate_update_source_ref r =
     (if blank_event_id (us_source_event_ids r)
      then Inl (ContractValidationError ''source_event_ids must not contain blank values'')
      else if us_source_reason r = [] \<or> \<not> unit_interval (us_source_confidence r)
      then Inl (ContractValidationError ''field constraint'')
      else Inr r)"

record update_candidate =
  rc_decision_kind :: update_decision
  rc_delta :: state_delta
  rc_bounds :: delta_bounds
  rc_reason_kind :: update_reason
  rc_reason :: string
  rc_confidence :: rat
  rc_source_refs :: "update_source_ref list"
  rc_source_observation_ids :: "string list"
  rc_source_event_ids :: "string list"
  rc_review_required :: bool
  rc_metadata :: metadata

definition delta_within_bounds :: "state_delta \<Rightarrow> delta_bounds \<Rightarrow> contract_error + unit" where
  "delta_within_bounds d b =
     (if db_affinity b < \<bar>sd_affinity d\<bar> then Inl (ContractValidationError ''affinity delta exceeds bounds'')
      else if db_trust b < \<bar>sd_trust d\<bar> then Inl (ContractValidationError ''trust delta exceeds bounds'')
      else if db_familiarity b < \<bar>sd_familiarity d\<bar>
      then Inl (ContractValidationError ''familiarity delta exceeds bounds'')
      else Inr ())"

definition refs_observation_ids :: "update_source_ref list \<Rightarrow> string list" where
  "refs_observation_ids refs = somes (map us_source_observation_id refs)"

definition refs_event_ids :: "update_source_ref list \<Rightarrow> string list" where
  "refs_event_ids refs = concat (map us_source_event_ids refs)"

definition validate_automatic_bounded :: "update_candidate \<Rightarrow> contract_error + unit" where
  "validate_automatic_bounded c =
     (if rc_review_required c
      then Inl (ContractValidationError ''automatic bounded updates must not be review_required'')
      else if delta_is_zero (rc_delta c)
      then Inl (ContractValidationError ''automatic bounded updates require a non-zero delta'')
      else Inr ())"

definition validate_review_required :: "update_candidate \<Rightarrow> contract_error + unit" where
  "validate_review_required c =
     (if \<not> rc_review_required c
      then Inl (ContractValidationError ''review_required decision must set review_required=True'')
      else if delta_is_zero (rc_delta c)
      then Inl (ContractValidationError ''review_required updates require a non-zero delta'')
      else Inr ())"

definition validate_suppressed :: "update_candidate \<Rightarrow> contract_error + unit" where
  "validate_suppressed c =
     (if rc_review_required c
      then Inl (ContractValidationError ''suppressed updates must not be review_required'')
      else if \<not> delta_is_zero (rc_delta c)
      then Inl (ContractValidationError ''suppressed updates must use a zero delta'')
      else Inr ())"

definition validate_update_candidate :: "update_candidate \<Rightarrow> contract_error + update_candidate" where
  "validate_update_candidate c =
     (if rc_reason c = [] \<or> \<not> unit_interval (rc_confidence c) \<or> rc_source_refs c = []
      then Inl (ContractValidationError ''field constraint'')
      else if blank_event_id (rc_source_event_ids c)
      then Inl (ContractValidationError ''source_event_ids must not contain blank values'')
      else result_bind (delta_within_bounds (rc_delta c) (rc_bounds c)) (\<lambda>_.
        if rc_source_observation_ids c \<noteq> refs_observation_ids (rc_source_refs c)
        then Inl (ContractValidationError ''source_observation_ids must match source_refs'')
        else if rc_source_event_ids c \<noteq> refs_event_ids (rc_source_refs c)
        then Inl (ContractValidationError ''source_event_ids must match source_refs'')
        else result_bind
               (case rc_decision_kind c of
                  UD_AUTOMATIC_BOUNDED \<Rightarrow> validate_automatic_bounded c
                | UD_REVIEW_REQUIRED \<Rightarrow> validate_review_required c
                | UD_SUPPRESSED \<Rightarrow> validate_suppressed c)
               (\<lambda>_. Inr c)))"

definition candidates_by_decision :: "update_decision \<Rightarrow> update_candidate list \<Rightarrow> update_candidate list" where
  "candidates_by_decision kind cs = filter (\<lambda>c. rc_decision_kind c = kind) cs"

record update_record =
  ru_candidate_id :: string
  ru_candidate :: update_candidate
  ru_interaction_scope :: interaction_scope
  ru_actor_id :: string
  ru_account_id :: "string option"
  ru_space_id :: "string option"
  ru_created_at :: datetime
  ru_updated_at :: datetime
  ru_idempotency_key :: string

section \<open>The policy\<close>

definition TRUST_RATIO :: rat where
  "TRUST_RATIO = 1 / 3"

definition cap_abs :: "rat \<Rightarrow> rat \<Rightarrow> rat" where
  "cap_abs value maximum = clamp_value (- maximum) maximum value"

definition update_source_ref_of :: "appraisal_signal \<Rightarrow> string list \<Rightarrow> contract_error + update_source_ref" where
  "update_source_ref_of s event_ids =
     validate_update_source_ref
       \<lparr>us_signal_kind = as_kind s, us_source_observation_id = as_source_observation_id s,
        us_source_event_ids = event_ids, us_source_reason = as_reason s, us_source_confidence = as_confidence s\<rparr>"

definition bounded_attitude_delta :: "appraisal_signal \<Rightarrow> delta_bounds \<Rightarrow> rat \<Rightarrow> contract_error + state_delta" where
  "bounded_attitude_delta s b decay =
     (let polarity = clamp_value (- 1) 1 (as_polarity s);
          affinity = polarity * db_affinity b * as_confidence s * decay;
          trust = polarity * db_trust b * TRUST_RATIO * as_confidence s * decay
      in validate_state_delta
           \<lparr>sd_affinity = cap_abs affinity (db_affinity b), sd_trust = cap_abs trust (db_trust b), sd_familiarity = 0\<rparr>)"

definition attitude_decision_kind :: "appraisal_signal \<Rightarrow> state_delta \<Rightarrow> update_config \<Rightarrow> update_decision" where
  "attitude_decision_kind s d config =
     (if delta_is_zero d then UD_SUPPRESSED
      else if as_confidence s < uc_min_automatic_confidence config then UD_REVIEW_REQUIRED
      else if uc_high_magnitude_review_threshold config \<le> max_abs_component d then UD_REVIEW_REQUIRED
      else UD_AUTOMATIC_BOUNDED)"

definition attitude_reason_kind :: "appraisal_signal \<Rightarrow> state_delta \<Rightarrow> update_config \<Rightarrow> update_reason" where
  "attitude_reason_kind s d config =
     (if delta_is_zero d then UR_ZERO_DELTA_ATTITUDE
      else if as_confidence s < uc_min_automatic_confidence config then UR_LOW_CONFIDENCE_ATTITUDE
      else if uc_high_magnitude_review_threshold config \<le> max_abs_component d then UR_HIGH_MAGNITUDE_ATTITUDE
      else if 0 \<le> as_polarity s then UR_POSITIVE_ATTITUDE
      else UR_NEGATIVE_ATTITUDE)"

definition suppressed_reason_kind :: "appraisal_signal \<Rightarrow> update_reason" where
  "suppressed_reason_kind s =
     (if as_kind s = AS_DEPENDENCY_RISK_HINT then UR_DEPENDENCY_RISK_BOUNDARY else UR_NON_RELATIONSHIP_SIGNAL)"

definition update_candidate_reason :: "appraisal_signal \<Rightarrow> update_decision \<Rightarrow> update_reason \<Rightarrow> string" where
  "update_candidate_reason s decision reason =
     update_decision_value decision @ '': '' @ update_reason_value reason @ '' from '' @
     signal_kind_value (as_kind s) @ '' signal ('' @ as_reason s @ '')''"

definition ref_observation_ids :: "update_source_ref \<Rightarrow> string list" where
  "ref_observation_ids r = (case us_source_observation_id r of None \<Rightarrow> [] | Some i \<Rightarrow> [i])"

definition suppressed_candidate ::
  "appraisal_signal \<Rightarrow> delta_bounds \<Rightarrow> update_source_ref \<Rightarrow> contract_error + update_candidate" where
  "suppressed_candidate s b r =
     (let reason_kind = suppressed_reason_kind s
      in validate_update_candidate
           \<lparr>rc_decision_kind = UD_SUPPRESSED, rc_delta = zero_delta, rc_bounds = b, rc_reason_kind = reason_kind,
            rc_reason = update_candidate_reason s UD_SUPPRESSED reason_kind, rc_confidence = as_confidence s,
            rc_source_refs = [r], rc_source_observation_ids = ref_observation_ids r,
            rc_source_event_ids = us_source_event_ids r, rc_review_required = False, rc_metadata = []\<rparr>)"

definition candidate_for_signal ::
  "delta_bounds \<Rightarrow> string list \<Rightarrow> rat \<Rightarrow> update_config \<Rightarrow> appraisal_signal \<Rightarrow> contract_error + update_candidate" where
  "candidate_for_signal b event_ids decay config s =
     result_bind (update_source_ref_of s event_ids) (\<lambda>r.
       if as_kind s \<notin> set RELATIONSHIP_CANDIDATE_SIGNAL_KINDS then suppressed_candidate s b r
       else result_bind (bounded_attitude_delta s b decay) (\<lambda>d.
         let reason_kind = attitude_reason_kind s d config; decision_kind = attitude_decision_kind s d config
         in validate_update_candidate
              \<lparr>rc_decision_kind = decision_kind, rc_delta = d, rc_bounds = b, rc_reason_kind = reason_kind,
               rc_reason = update_candidate_reason s decision_kind reason_kind, rc_confidence = as_confidence s,
               rc_source_refs = [r], rc_source_observation_ids = ref_observation_ids r,
               rc_source_event_ids = us_source_event_ids r,
               rc_review_required = (decision_kind = UD_REVIEW_REQUIRED), rc_metadata = []\<rparr>))"

definition compute_relationship_update_policy ::
  "appraisal_signal list \<Rightarrow> interaction_scope \<Rightarrow> string list \<Rightarrow> rat \<Rightarrow> update_config
     \<Rightarrow> contract_error + interaction_scope \<times> update_candidate list" where
  "compute_relationship_update_policy signals scope event_ids decay config =
     (let bounded_decay = clamp_value 0 1 decay; b = bounds_for_scope config scope
      in result_bind (each_result (candidate_for_signal b event_ids bounded_decay config) signals)
           (\<lambda>cs. Inr (scope, cs)))"

section \<open>The store\<close>

record update_store =
  up_records :: "(string, update_record) dict"
  up_idempotency_keys :: "(string, string) dict"

definition update_add_nowait :: "update_store \<Rightarrow> update_record \<Rightarrow> (learning_error + update_record) \<times> update_store" where
  "update_add_nowait s r =
     (case dict_get (up_records s) (ru_candidate_id r) of
        Some existing \<Rightarrow> (Inr existing, s)
      | None \<Rightarrow>
          (case dict_get (up_idempotency_keys s) (ru_idempotency_key r) of
             Some existing_id \<Rightarrow>
               (case dict_get (up_records s) existing_id of
                  Some existing \<Rightarrow> (Inr existing, s)
                | None \<Rightarrow> (Inl (Learning_KeyError existing_id), s))
           | None \<Rightarrow>
               (Inr r, s\<lparr>up_records := dict_set (ru_candidate_id r) r (up_records s),
                         up_idempotency_keys :=
                           dict_set (ru_idempotency_key r) (ru_candidate_id r) (up_idempotency_keys s)\<rparr>)))"

definition list_update_records :: "update_store \<Rightarrow> update_record list" where
  "list_update_records s = sort_key (\<lambda>r. (ru_created_at r, ru_candidate_id r)) (dict_values (up_records s))"

section \<open>The worker and the hook\<close>

record update_env =
  ue_sha256_hexdigest :: "code_points \<Rightarrow> string"
  ue_payload_json :: "relationship_job_payload \<Rightarrow> code_points"

definition update_record_of ::
  "update_env \<Rightarrow> learning_payload job_record \<Rightarrow> relationship_job_payload \<Rightarrow> interaction_scope
     \<Rightarrow> nat \<times> update_candidate \<Rightarrow> update_record" where
  "update_record_of env job p scope ic =
     (let key = ''relationship-update:'' @ jb_idempotency_key job @ '':'' @ show_nat (fst ic);
          digest = ue_sha256_hexdigest env (codes key)
      in \<lparr>ru_candidate_id = ''relationship-'' @ take 24 digest, ru_candidate = snd ic, ru_interaction_scope = scope,
          ru_actor_id = rj_actor_id p, ru_account_id = rj_account_id p, ru_space_id = rj_space_id p,
          ru_created_at = jb_created_at job, ru_updated_at = jb_updated_at job, ru_idempotency_key = key\<rparr>)"

fun add_update_records :: "update_store \<Rightarrow> update_record list \<Rightarrow> (learning_error + unit) \<times> update_store" where
  "add_update_records s [] = (Inr (), s)"
| "add_update_records s (r # rs) =
     (case update_add_nowait s r of
        (Inl e, s') \<Rightarrow> (Inl e, s')
      | (Inr _, s') \<Rightarrow> add_update_records s' rs)"

interpretation us: idempotent_store update_add_nowait add_update_records "\<lambda>s. dict_get (up_records s)"
  "\<lambda>s. dict_get (up_idempotency_keys s)" ru_candidate_id ru_idempotency_key
proof unfold_locales
  show "dict_get (up_records s) (ru_candidate_id r) = None \<Longrightarrow>
      dict_get (up_idempotency_keys s) (ru_idempotency_key r) = None \<Longrightarrow>
      \<exists>s'. update_add_nowait s r = (Inr r, s') \<and>
        dict_get (up_records s') = (dict_get (up_records s))(ru_candidate_id r \<mapsto> r) \<and>
        dict_get (up_idempotency_keys s') = (dict_get (up_idempotency_keys s))(ru_idempotency_key r \<mapsto> ru_candidate_id r)"
    for s r by (simp add: update_add_nowait_def fun_eq_iff dict_get_set)
qed (auto simp: update_add_nowait_def)

definition update_worker_run ::
  "update_env \<Rightarrow> update_config \<Rightarrow> learning_payload job_record \<Rightarrow> update_store \<Rightarrow> (learning_error + unit) \<times> update_store" where
  "update_worker_run env config job s =
     (case jb_payload job of
        Relationship_Payload p \<Rightarrow>
          (case compute_relationship_update_policy (rj_signals p) (rj_interaction_scope p) (rj_source_event_ids p) 1 config of
             Inl e \<Rightarrow> (Inl (Learning_Contract e), s)
           | Inr (scope, cs) \<Rightarrow> add_update_records s (map (update_record_of env job p scope) (enumerate 0 cs)))
      | _ \<Rightarrow> (Inl (Learning_TypeError ''relationship update requires RelationshipUpdateJobPayload''), s))"

definition relationship_update_job ::
  "update_env \<Rightarrow> runtime_learning_event \<Rightarrow> relationship_job_payload \<Rightarrow> int \<Rightarrow> learning_payload job_record" where
  "relationship_update_job env event p max_attempts =
     (let key = job_digest (ue_sha256_hexdigest env) event (ue_payload_json env p)
      in pending_job (''relationship-update-'' @ take 24 key) RELATIONSHIP_UPDATE (Relationship_Payload p)
           max_attempts (le_occurred_at event) (''relationship-update:'' @ key))"

definition update_after_runtime_event ::
  "update_env \<Rightarrow> queue_policy option \<Rightarrow> int \<Rightarrow> runtime_learning_event \<Rightarrow> learning_payload job_queue
     \<Rightarrow> (job_error + unit) \<times> learning_payload job_queue" where
  "update_after_runtime_event env qp max_attempts event q =
     (case (le_interaction_scope event, le_actor_id event) of
        (Some scope, Some actor) \<Rightarrow>
          if le_appraisal_signals event = [] then (Inr (), q)
          else enqueue_learning qp (le_occurred_at event)
                 (relationship_update_job env event
                    \<lparr>rj_signals = le_appraisal_signals event, rj_interaction_scope = scope, rj_actor_id = actor,
                     rj_account_id = le_account_id event, rj_space_id = le_space_id event,
                     rj_source_observation_id = Some (le_source_observation_id event),
                     rj_source_event_ids = le_source_event_ids event\<rparr> max_attempts) q
      | _ \<Rightarrow> (Inr (), q))"

end
