(* ===== verification/Spec2Isabelle.thy ===== *)
theory Spec2Isabelle
  imports Delivery_Rpc Job_Runner_Props Output_Filter Proactive_Props Prompt_Assembler_Props
    Review_Equiv Consolidation_Props Schema_Upgrade Policy_Props Affect_Props Relationship_Update_Props
begin

text \<open>
  \<^bold>\<open>Verification of the Iris runtime.\<close>

  Iris is a conversational agent: external apps submit observations over gRPC, a cognitive cycle answers
  them with the help of language models, and actions that Iris takes on its own go to an outbox from which
  the apps poll and report back. Around this run a queue of background jobs (learning, memory
  maintenance), a scheduler of the local inference resource, per-request model call budgets and the safety
  gates. This development models the deterministic core of that runtime, \<^verbatim>\<open>src/iris\<close>: the
  parts whose correctness does not depend on what a model answers. Paths below are relative to that
  directory.

  \<^bold>\<open>Conventions\<close> (\<^verbatim>\<open>Iris_Prelude\<close>). An instant is its number of microseconds since the epoch, a
  duration in seconds a rational; \<^verbatim>\<open>timedelta\<close> rounds as Python does. A Python dict is an
  association list in insertion order. A raised exception is the left value of a sum that names the
  exception; a method that changes its object takes and returns the object's record; \<^verbatim>\<open>async\<close>
  methods that run under the object's lock are one step. The clock, \<^verbatim>\<open>uuid4\<close>, JSON codecs,
  time zones, case folding, the SHA-256 digest, powers of one half, rendering with two decimals, the runtime service and the
  workers are arguments of the definitions. A float is the rational it denotes, with exact arithmetic.
  Assumptions on them are named hypotheses of the theorems that need them.

  \<^bold>\<open>Deliveries.\<close>
  \<^item> \<^verbatim>\<open>Delivery_Contracts\<close>: envelopes, leases, reports and the pure transitions
    (\<^verbatim>\<open>contracts/{actions,delivery,delivery_transitions,presentation_hints}.py\<close>).
    \<^verbatim>\<open>Delivery_Lifecycle\<close>: the life of one delivery as a step relation, its invariant and measure (C1).
  \<^item> \<^verbatim>\<open>Delivery_Outbox\<close>: the in-memory outbox (\<^verbatim>\<open>runtime/delivery/in_memory.py\<close>);
    \<^verbatim>\<open>Delivery_Port\<close>: the outbox protocol as a record of operations and a locale of laws, and
    \<^verbatim>\<open>Delivery_Outbox_Runs\<close>: sequences of operations, refinement of the lifecycle, exactly-once
    reports, exact polls, exclusive leases, bounded depth (C2, C3, C5, C6), idempotent enqueueing.
  \<^item> \<^verbatim>\<open>Hints_Codec\<close>, \<^verbatim>\<open>Delivery_Sqlite\<close>, \<^verbatim>\<open>Delivery_Sqlite_Rows\<close>,
    \<^verbatim>\<open>Delivery_Sqlite_Runs\<close>, \<^verbatim>\<open>Delivery_Durable\<close>: the durable outbox over its two
    tables, with the row codec (\<^verbatim>\<open>adapters/persistence/sqlite/stores/delivery_outbox.py\<close>):
    round trip, refinement of the same lifecycle, exact polls, exactly-once reports (C8 to C11).
  \<^item> \<^verbatim>\<open>Delivery_Broker\<close>: the app action broker over either outbox and the learning hook
    (\<^verbatim>\<open>runtime/delivery/{broker,learning_dispatch}.py\<close>): reports act at most once, C13, C14.
  \<^item> \<^verbatim>\<open>Auth_Policy\<close>, \<^verbatim>\<open>Delivery_Rpc\<close>: the authorization policy
    (\<^verbatim>\<open>runtime/auth\<close>) and the poll and report handlers of the gRPC servicer (C15 to C17).

  \<^bold>\<open>Resources.\<close>
  \<^item> \<^verbatim>\<open>Model_Budget\<close>: per-request budgets of model calls (\<^verbatim>\<open>runtime/model_call_budget.py\<close>), C18.
  \<^item> \<^verbatim>\<open>Inference_Scheduler\<close>, \<^verbatim>\<open>Inference_Props\<close>: the scheduler of local inference leases with
    preemption and cancellation tokens (\<^verbatim>\<open>runtime/inference\<close>): its invariant over reachable
    states, what preemption may remove, and that a high-priority request gets through (C25 to C27).

  \<^bold>\<open>Background jobs.\<close>
  \<^item> \<^verbatim>\<open>Learning_Jobs\<close>: job records, payloads, policy, backpressure, metrics
    (\<^verbatim>\<open>contracts/learning.py\<close>, \<^verbatim>\<open>runtime/learning/policy.py\<close>).
    \<^verbatim>\<open>Job_Queue\<close>, \<^verbatim>\<open>Job_Lease\<close>, \<^verbatim>\<open>Job_Props\<close>: the in-memory queue
    (\<^verbatim>\<open>runtime/learning/queue.py\<close>), a closed form of its leasing loop, what the metrics count, and C19 to C21.
  \<^item> \<^verbatim>\<open>Job_Queue_Sqlite\<close>, \<^verbatim>\<open>Job_Codec\<close>, \<^verbatim>\<open>Job_Queue_Equiv\<close>: the durable queue
    (\<^verbatim>\<open>adapters/persistence/sqlite/stores/background_jobs.py\<close>); the locale
    \<^verbatim>\<open>job_backend\<close> states what a backend must simulate, its interpretation that the durable one
    does; C24.
  \<^item> \<^verbatim>\<open>Job_Runner\<close>, \<^verbatim>\<open>Job_Runner_Props\<close>: the runner that leases jobs, takes inference leases and
    runs workers (\<^verbatim>\<open>runtime/learning/runner.py\<close>): each batch is settled, every inference lease
    comes back, and the backend does not matter (C28 to C30).

  \<^bold>\<open>Safety and proactive deliveries.\<close>
  \<^item> \<^verbatim>\<open>Safety_Policy\<close>: policy engine, delivery gates, user controls, audit journal
    (\<^verbatim>\<open>safety/{policy_engine,delivery_gate}.py\<close>, \<^verbatim>\<open>runtime/state\<close>), C31.
    \<^verbatim>\<open>Output_Filter\<close>: the output filter (\<^verbatim>\<open>safety/basic_output_filter.py\<close>), C32.
  \<^item> \<^verbatim>\<open>Proactive\<close>, \<^verbatim>\<open>Proactive_Props\<close>: scheduler targets, idle ticks and the runner that submits
    them and enqueues what the gate allows (\<^verbatim>\<open>runtime/scheduler\<close>): only gated deliveries enter the
    outbox, and targets are left alone for the interval (C33, C34).

  \<^bold>\<open>Prompts.\<close>
  \<^item> \<^verbatim>\<open>Prompt_Config\<close>, \<^verbatim>\<open>Prompt_Config_Props\<close>: budget profiles, their TOML overrides and
    validation (\<^verbatim>\<open>contracts/prompting.py\<close>, \<^verbatim>\<open>runtime/config/prompt_budget.py\<close>), C37.
  \<^item> \<^verbatim>\<open>Prompt_Budget\<close>, \<^verbatim>\<open>Prompt_Budget_Props\<close>: the budget policy
    (\<^verbatim>\<open>runtime/prompting/budget.py\<close>), C35. \<^verbatim>\<open>Prompt_Assembler\<close>,
    \<^verbatim>\<open>Prompt_Assembler_Props\<close>: messages by trust boundary
    (\<^verbatim>\<open>runtime/prompting/assembler.py\<close>), C36, and why the total is no bound of their length.

  \<^bold>\<open>Reviewed memories.\<close>
  \<^item> \<^verbatim>\<open>Memory_Safety\<close>: the checks of memory texts, with the regular expressions they search
    (\<^verbatim>\<open>cognitive/memory/safety.py\<close>). \<^verbatim>\<open>Memory_Store\<close>: the in-memory store of memories and its
    search (\<^verbatim>\<open>adapters/memory/{in_memory,utils}.py\<close>).
  \<^item> \<^verbatim>\<open>Review_Contracts\<close>, \<^verbatim>\<open>Review_Store\<close>, \<^verbatim>\<open>Review_Service\<close>,
    \<^verbatim>\<open>Review_Promotion\<close>: learned candidates, the store in which they wait, the decisions on them and the
    promotion of the approved ones (\<^verbatim>\<open>contracts/review_candidates.py\<close>,
    \<^verbatim>\<open>runtime/state/memory_candidates.py\<close>, \<^verbatim>\<open>runtime/learning/review_*.py\<close>).
    \<^verbatim>\<open>Review_Props\<close>: decisions and promotions split into the store calls they make, as an interleaved
    step relation; no memory without approval (C39), and what overlapping decisions can do.
  \<^item> \<^verbatim>\<open>Consolidation\<close>, \<^verbatim>\<open>Consolidation_Props\<close>: the consolidation of candidates and the worker that
    puts its results before the reviewer (\<^verbatim>\<open>cognitive/memory/consolidation.py\<close>,
    \<^verbatim>\<open>runtime/learning/memory_worker.py\<close>): each candidate is accounted for once, whatever the order (C22).
  \<^item> \<^verbatim>\<open>Review_Sqlite\<close>, \<^verbatim>\<open>Review_Codec\<close>, \<^verbatim>\<open>Review_Equiv\<close>: the durable review store
    (\<^verbatim>\<open>adapters/persistence/sqlite/stores/memory_candidate_reviews.py\<close>), a refinement of the
    in-memory one through the locale \<^verbatim>\<open>review_backend\<close> (C40).

  \<^bold>\<open>Interaction policies and relationships.\<close>
  \<^item> \<^verbatim>\<open>Policy_Contracts\<close>, \<^verbatim>\<open>Learning_Signals\<close>: candidates, appraisal signals and learning events
    (\<^verbatim>\<open>contracts/{interaction_policy,shared_episodic_memory,appraisal,learning}.py\<close>).
    \<^verbatim>\<open>Review_Boundary\<close>: a locale for stores in which decisions wait on candidates, interpreted for
    memories and for policies; \<^verbatim>\<open>Idempotent_Store\<close>: a locale for the stores that workers write to,
    interpreted for policies and for relationship updates.
  \<^item> \<^verbatim>\<open>Policy_Review\<close>, \<^verbatim>\<open>Policy_Candidates\<close>, \<^verbatim>\<open>Policy_Props\<close>: admission of signals, worker,
    hook, review and promotion (\<^verbatim>\<open>cognitive/policy\<close>,
    \<^verbatim>\<open>runtime/state/interaction_policy_candidates.py\<close>,
    \<^verbatim>\<open>runtime/learning/interaction_policy*.py\<close>): no policy without approval (C7).
  \<^item> \<^verbatim>\<open>Affect_State\<close>, \<^verbatim>\<open>Affect_Props\<close>: mood, the relationship and baseline steps and their in-memory and
    SQLite stores (\<^verbatim>\<open>cognitive/affect/{common,mood,relationship,persistence}.py\<close>); the locale
    \<^verbatim>\<open>relationship_store\<close> gives one behaviour for both stores, and the state is bounded (C12).
  \<^item> \<^verbatim>\<open>Relationship_Update\<close>, \<^verbatim>\<open>Relationship_Update_Props\<close>: bounded updates from appraisal signals
    (\<^verbatim>\<open>cognitive/affect/relationship_update_policy.py\<close>,
    \<^verbatim>\<open>runtime/learning/relationship_worker.py\<close>), C23.

  \<^bold>\<open>Schema.\<close>
  \<^item> \<^verbatim>\<open>Schema_Migrations\<close>: the nine migrations of the SQLite schema as statements on a catalog, and the
    runner that opens a database file (\<^verbatim>\<open>adapters/persistence/sqlite/{migrator,migrator_types}.py\<close>,
    \<^verbatim>\<open>migrations\<close>, \<^verbatim>\<open>schema\<close>). \<^verbatim>\<open>Schema_Props\<close>: migrations only add, the validations,
    runs on the catalog alone. \<^verbatim>\<open>Schema_Upgrade\<close>: what opening a file guarantees (C4) and which
    unversioned databases are never opened (C38).

  \<^bold>\<open>Loops.\<close> Every loop of the modelled code runs over a finite list and is a total recursive function;
  no fuel is used. Termination of a delivery's life is a theorem (C1), as is that a batch returns (C28).

  \<^bold>\<open>Not modelled.\<close> Configuration parsing other than prompt budgets, wiring and process start-up, logging, tracing and diagnostics
  (I/O and glue around values the model takes as arguments); clients of language models, embeddings and
  vector stores (third-party services); generated protocol buffers; the keyword tables of the appraisal, the extraction of
  candidates from texts and model outputs, retrieval, conversation stores and the cognitive cycle that calls the steps.
\<close>

end
